(* ===== verification/Prelude.thy ===== *)
theory Prelude
  imports Main "HOL-Library.Char_ord" "HOL-Library.List_Lexorder"
begin

text \<open>
  What every component of the development shares: the exception classes of the allocator,
  the result type of pure checks, the state-and-exception programs that model methods, the
  preservation judgement \<open>ensures\<close> with its rule collection, and the string
  operations of Python that the code uses (slicing, prefix test, splitting, decimal
  rendering and reading).
\<close>

section \<open>Exceptions and results\<close>

text \<open>
  The exception classes a caller can observe. Handlers in the code select by class, never
  by message, so the model keeps the class: the five subclasses of IDMapError, and the
  exceptions that the code does not convert (\<open>ClientError\<close> and \<open>NotFoundError\<close> stand for those
  of the Incus client library, \<open>ServiceError\<close> for those of Nova and of the host,
  \<open>ArgumentTypeError\<close> is that of argparse).
\<close>

datatype py_exception =
    ValueError | TypeError | KeyError | AttributeError | OverflowError | IndexError |
    ClientError | NotFoundError | ServiceError | ArgumentTypeError

datatype idmap_error =
    ConfigurationError
  | BackendError
  | IntegrityError
  | ConflictError
  | ExhaustedError
  | PyException py_exception

type_synonym 'a result = "idmap_error + 'a"

definition rbind :: "'e + 'a \<Rightarrow> ('a \<Rightarrow> 'e + 'b) \<Rightarrow> 'e + 'b" where
  "rbind r f = (case r of Inl e \<Rightarrow> Inl e | Inr a \<Rightarrow> f a)"

text \<open>\<open>check c e\<close> is the statement \<open>if not c: raise e\<close>.\<close>

definition check :: "bool \<Rightarrow> 'e \<Rightarrow> 'e + unit" where
  "check c e = (if c then Inr () else Inl e)"

text \<open>\<open>except_r p e r\<close> is a try block whose handler turns the exceptions in \<open>p\<close> into \<open>e\<close>.\<close>

definition except_r :: "('e \<Rightarrow> bool) \<Rightarrow> 'e \<Rightarrow> 'e + 'a \<Rightarrow> 'e + 'a" where
  "except_r p e r = (case r of Inl x \<Rightarrow> if p x then Inl e else Inl x | Inr a \<Rightarrow> Inr a)"

fun map_result :: "('a \<Rightarrow> 'e + 'b) \<Rightarrow> 'a list \<Rightarrow> 'e + 'b list" where
  "map_result f [] = Inr []"
| "map_result f (x # xs) =
     rbind (f x) (\<lambda>y. rbind (map_result f xs) (\<lambda>ys. Inr (y # ys)))"

definition is_ok :: "'e + 'a \<Rightarrow> bool" where
  "is_ok r = (case r of Inl _ \<Rightarrow> False | Inr _ \<Rightarrow> True)"

lemma rbind_simps [simp]:
  "rbind (Inl e) f = Inl e"
  "rbind (Inr a) f = f a"
  by (simp_all add: rbind_def)

lemma rbind_Inr_conv: "rbind r f = Inr b \<longleftrightarrow> (\<exists>a. r = Inr a \<and> f a = Inr b)"
  by (cases r) auto

lemma rbind_Inr_E [elim!]:
  assumes "rbind r f = Inr b"
  obtains a where "r = Inr a" and "f a = Inr b"
  using assms by (auto simp: rbind_Inr_conv)

lemma rbind_assoc: "rbind (rbind r f) h = rbind r (\<lambda>x. rbind (f x) h)"
  by (cases r) simp_all

lemma check_simps [simp]:
  "check True e = Inr ()"
  "check False e = Inl e"
  by (simp_all add: check_def)

lemma check_Inr [simp]: "check c e = Inr u \<longleftrightarrow> c"
  by (simp add: check_def)

lemma check_Inl [simp]: "check c e = Inl e' \<longleftrightarrow> \<not> c \<and> e' = e"
  by (auto simp: check_def)

lemma except_r_Inr [simp]: "except_r p e r = Inr a \<longleftrightarrow> r = Inr a"
  by (simp add: except_r_def split: sum.splits)

lemma except_r_ok [simp]: "except_r p e (Inr a) = Inr a"
  by (simp add: except_r_def)

lemma except_r_err [simp]: "except_r p e (Inl x) = (if p x then Inl e else Inl x)"
  by (simp add: except_r_def)

lemma is_ok_simps [simp]: "is_ok (Inr a)" "\<not> is_ok (Inl e)"
  by (simp_all add: is_ok_def)

lemma map_result_length: "map_result f xs = Inr ys \<Longrightarrow> length ys = length xs"
  by (induction xs arbitrary: ys) auto

lemma map_result_all:
  assumes "\<And>x. x \<in> set xs \<Longrightarrow> f x = Inr (g x)"
  shows "map_result f xs = Inr (map g xs)"
  using assms by (induction xs) auto

lemma map_result_list_all2: "map_result f xs = Inr ys \<Longrightarrow> list_all2 (\<lambda>x y. f x = Inr y) xs ys"
  by (induction xs arbitrary: ys) auto

section \<open>Programs: state passing with exceptions\<close>

text \<open>
  A method is a function from the state to a result and the next state. An exception keeps
  the state changes made before it was raised, as Python does.
\<close>

type_synonym ('w, 'e, 'a) eprog = "'w \<Rightarrow> ('e + 'a) \<times> 'w"

type_synonym ('w, 'a) prog = "('w, idmap_error, 'a) eprog"

definition ret :: "'a \<Rightarrow> ('w, 'e, 'a) eprog" where
  "ret a = (\<lambda>w. (Inr a, w))"

definition raise :: "'e \<Rightarrow> ('w, 'e, 'a) eprog" where
  "raise e = (\<lambda>w. (Inl e, w))"

definition lift :: "'e + 'a \<Rightarrow> ('w, 'e, 'a) eprog" where
  "lift r = (\<lambda>w. (r, w))"

definition bnd :: "('w, 'e, 'a) eprog \<Rightarrow> ('a \<Rightarrow> ('w, 'e, 'b) eprog) \<Rightarrow> ('w, 'e, 'b) eprog" where
  "bnd m f = (\<lambda>w. case m w of (r, w') \<Rightarrow> (case r of Inl e \<Rightarrow> (Inl e, w') | Inr a \<Rightarrow> f a w'))"

definition get_state :: "('w, 'e, 'w) eprog" where
  "get_state = (\<lambda>w. (Inr w, w))"

definition modify :: "('w \<Rightarrow> 'w) \<Rightarrow> ('w, 'e, unit) eprog" where
  "modify f = (\<lambda>w. (Inr (), f w))"

text \<open>\<open>handle p m h\<close> is \<open>try: m\<close> with a handler \<open>h\<close> for the exceptions in \<open>p\<close>.\<close>

definition handle ::
  "('e \<Rightarrow> bool) \<Rightarrow> ('w, 'e, 'a) eprog \<Rightarrow> ('e \<Rightarrow> ('w, 'e, 'a) eprog) \<Rightarrow> ('w, 'e, 'a) eprog" where
  "handle p m h = (\<lambda>w. case m w of (r, w') \<Rightarrow>
     (case r of Inl e \<Rightarrow> (if p e then h e w' else (Inl e, w')) | Inr a \<Rightarrow> (Inr a, w')))"

text \<open>\<open>try: m\<close> with \<open>except Exception as exc\<close>: the outcome as a value.\<close>

definition try_result :: "('w, 'e, 'a) eprog \<Rightarrow> ('w, 'e, 'e + 'a) eprog" where
  "try_result m = (\<lambda>w. case m w of (r, w') \<Rightarrow> (Inr r, w'))"

text \<open>
  The code's bounded retry loop \<open>for unused_attempt in range(n): ...\<close> followed by a
  final statement: the body yields \<open>Some\<close> of a returned value or \<open>None\<close> to continue.
\<close>

fun retry :: "nat \<Rightarrow> ('w, 'e, 'a option) eprog \<Rightarrow> ('w, 'e, 'a) eprog \<Rightarrow> ('w, 'e, 'a) eprog" where
  "retry 0 body final = final"
| "retry (Suc n) body final =
     bnd body (\<lambda>r. case r of Some a \<Rightarrow> ret a | None \<Rightarrow> retry n body final)"

fun for_each :: "'x list \<Rightarrow> ('x \<Rightarrow> ('w, 'e, 'a option) eprog) \<Rightarrow> ('w, 'e, 'a) eprog \<Rightarrow>
    ('w, 'e, 'a) eprog" where
  "for_each [] body final = final"
| "for_each (x # xs) body final =
     bnd (body x) (\<lambda>r. case r of Some a \<Rightarrow> ret a | None \<Rightarrow> for_each xs body final)"

text \<open>A loop whose body returns nothing.\<close>

fun for_all :: "('x \<Rightarrow> ('w, 'e, unit) eprog) \<Rightarrow> 'x list \<Rightarrow> ('w, 'e, unit) eprog" where
  "for_all f [] = ret ()"
| "for_all f (x # xs) = bnd (f x) (\<lambda>_. for_all f xs)"

named_theorems run_simps \<open>evaluation of the program combinators\<close>

lemma run_combinators [run_simps]:
  "ret a w = (Inr a, w)"
  "raise e w = (Inl e, w)"
  "lift r w = (r, w)"
  "get_state w = (Inr w, w)"
  "modify f w = (Inr (), f w)"
  by (simp_all add: ret_def raise_def lift_def get_state_def modify_def)

lemma bnd_run_Inr [run_simps]: "m w = (Inr a, w') \<Longrightarrow> bnd m f w = f a w'"
  by (simp add: bnd_def)

lemma bnd_run_Inl [run_simps]: "m w = (Inl e, w') \<Longrightarrow> bnd m f w = (Inl e, w')"
  by (simp add: bnd_def)

lemma handle_run_Inr [run_simps]: "m w = (Inr a, w') \<Longrightarrow> handle p m h w = (Inr a, w')"
  by (simp add: handle_def)

lemma handle_run_caught [run_simps]: "m w = (Inl e, w') \<Longrightarrow> p e \<Longrightarrow> handle p m h w = h e w'"
  by (simp add: handle_def)

lemma handle_run_uncaught [run_simps]:
  "m w = (Inl e, w') \<Longrightarrow> \<not> p e \<Longrightarrow> handle p m h w = (Inl e, w')"
  by (simp add: handle_def)

lemma bnd_ret [simp]: "bnd (ret a) f = f a"
  by (simp add: bnd_def ret_def)

lemma bnd_raise [simp]: "bnd (raise e) f = raise e"
  by (simp add: bnd_def raise_def)

lemma bnd_lift [simp]: "bnd (lift (Inr a)) f = f a" "bnd (lift (Inl e)) f = raise e"
  by (simp_all add: bnd_def lift_def raise_def)

lemma bnd_InrE:
  assumes "bnd m f w = (Inr r, w')"
  obtains a w1 where "m w = (Inr a, w1)" and "f a w1 = (Inr r, w')"
  using assms by (cases "m w"; cases "fst (m w)") (auto simp: bnd_def)

lemma bnd_cases:
  assumes "bnd m f s = (r, s')"
  obtains e where "m s = (Inl e, s')" and "r = Inl e"
  | a s1 where "m s = (Inr a, s1)" and "f a s1 = (r, s')"
  using assms by (cases "m s"; cases "fst (m s)") (auto simp: bnd_def)

lemma lift_run: "lift x s = (r, s') \<longleftrightarrow> x = r \<and> s' = s"
  by (auto simp: lift_def)

subsection \<open>The preservation judgement\<close>

text \<open>
  \<open>ensures J m Q\<close>: run from a state in \<open>J\<close>, the program ends in a state in \<open>J\<close>
  whatever the outcome, and a value it returns satisfies \<open>Q\<close>.
\<close>

definition ensures :: "('w \<Rightarrow> bool) \<Rightarrow> ('w, 'e, 'a) eprog \<Rightarrow> ('a \<Rightarrow> bool) \<Rightarrow> bool" where
  "ensures J m Q \<longleftrightarrow>
     (\<forall>w. J w \<longrightarrow> (\<forall>r w'. m w = (r, w') \<longrightarrow> J w' \<and> (\<forall>a. r = Inr a \<longrightarrow> Q a)))"

named_theorems ensures_intros \<open>introduction rules for \<open>ensures\<close>\<close>

lemma ensuresI:
  assumes "\<And>w r w'. J w \<Longrightarrow> m w = (r, w') \<Longrightarrow> J w' \<and> (\<forall>a. r = Inr a \<longrightarrow> Q a)"
  shows "ensures J m Q"
  using assms by (auto simp: ensures_def)

lemma ensuresD:
  assumes "ensures J m Q" and "J w" and "m w = (r, w')"
  shows "J w'" and "r = Inr a \<Longrightarrow> Q a"
  using assms by (auto simp: ensures_def)

lemma ensures_weaken: "ensures J m P \<Longrightarrow> (\<And>a. P a \<Longrightarrow> Q a) \<Longrightarrow> ensures J m Q"
  by (auto simp: ensures_def)

lemma ensures_True: "ensures J m Q \<Longrightarrow> ensures J m (\<lambda>_. True)"
  by (auto simp: ensures_def)

lemma ensures_ret [ensures_intros]: "Q a \<Longrightarrow> ensures J (ret a) Q"
  by (auto simp: ensures_def ret_def)

lemma ensures_raise [ensures_intros]: "ensures J (raise e) Q"
  by (auto simp: ensures_def raise_def)

lemma ensures_lift [ensures_intros]: "(\<And>a. r = Inr a \<Longrightarrow> Q a) \<Longrightarrow> ensures J (lift r) Q"
  by (auto simp: ensures_def lift_def)

lemma ensures_bnd:
  assumes "ensures J m P" and "\<And>a. P a \<Longrightarrow> ensures J (f a) Q"
  shows "ensures J (bnd m f) Q"
  unfolding ensures_def
proof (intro allI impI)
  fix w r w'
  assume "J w" and run: "bnd m f w = (r, w')"
  obtain r1 w1 where m: "m w = (r1, w1)" by (cases "m w")
  have J1: "J w1" using assms(1) \<open>J w\<close> m by (rule ensuresD)
  show "J w' \<and> (\<forall>a. r = Inr a \<longrightarrow> Q a)"
  proof (cases r1)
    case (Inl e)
    with run m J1 show ?thesis by (auto simp: bnd_def)
  next
    case (Inr a)
    have "P a" using ensuresD(2) [OF assms(1) \<open>J w\<close> m Inr] .
    from assms(2) [OF this] J1 run m Inr show ?thesis
      by (auto simp: bnd_def ensures_def)
  qed
qed

lemma ensures_get_state [ensures_intros]: "(\<And>w. J w \<Longrightarrow> Q w) \<Longrightarrow> ensures J get_state Q"
  by (auto simp: ensures_def get_state_def)

lemma ensures_modify [ensures_intros]: "(\<And>w. J w \<Longrightarrow> J (f w)) \<Longrightarrow> Q () \<Longrightarrow> ensures J (modify f) Q"
  by (auto simp: ensures_def modify_def)

lemma ensures_if [ensures_intros]:
  "(c \<Longrightarrow> ensures J m Q) \<Longrightarrow> (\<not> c \<Longrightarrow> ensures J n Q) \<Longrightarrow> ensures J (if c then m else n) Q"
  by simp

lemma ensures_option [ensures_intros]:
  "(x = None \<Longrightarrow> ensures J m Q) \<Longrightarrow> (\<And>a. x = Some a \<Longrightarrow> ensures J (f a) Q) \<Longrightarrow>
   ensures J (case x of None \<Rightarrow> m | Some a \<Rightarrow> f a) Q"
  by (cases x) auto

lemma ensures_sum [ensures_intros]:
  "(\<And>a. x = Inl a \<Longrightarrow> ensures J (f a) Q) \<Longrightarrow> (\<And>b. x = Inr b \<Longrightarrow> ensures J (h b) Q) \<Longrightarrow>
   ensures J (case x of Inl a \<Rightarrow> f a | Inr b \<Rightarrow> h b) Q"
  by (cases x) auto

lemma ensures_prod [ensures_intros]:
  "(\<And>a b. x = (a, b) \<Longrightarrow> ensures J (f a b) Q) \<Longrightarrow> ensures J (case x of (a, b) \<Rightarrow> f a b) Q"
  by (cases x) auto

lemma ensures_Let [ensures_intros]: "ensures J (f a) Q \<Longrightarrow> ensures J (let x = a in f x) Q"
  by simp

lemma ensures_handle [ensures_intros]:
  assumes "ensures J m Q" and "\<And>e. p e \<Longrightarrow> ensures J (h e) Q"
  shows "ensures J (handle p m h) Q"
  unfolding ensures_def
proof (intro allI impI)
  fix w r w'
  assume "J w" and run: "handle p m h w = (r, w')"
  obtain r1 w1 where m: "m w = (r1, w1)" by (cases "m w")
  have J1: "J w1" using assms(1) \<open>J w\<close> m by (rule ensuresD)
  show "J w' \<and> (\<forall>a. r = Inr a \<longrightarrow> Q a)"
  proof (cases r1)
    case (Inl e)
    with run m J1 assms(2) show ?thesis
      by (cases "p e") (auto simp: handle_def ensures_def)
  next
    case (Inr a)
    with ensuresD(2) [OF assms(1) \<open>J w\<close> m] run m J1 show ?thesis
      by (auto simp: handle_def)
  qed
qed

lemma ensures_retry [ensures_intros]:
  assumes body: "ensures J body (\<lambda>r. \<forall>a. r = Some a \<longrightarrow> Q a)" and final: "ensures J final Q"
  shows "ensures J (retry n body final) Q"
proof (induction n)
  case 0
  from final show ?case by simp
next
  case (Suc n)
  show ?case
    by (auto intro!: ensures_bnd [OF body] ensures_option ensures_ret Suc.IH)
qed

lemma ensures_for_each [ensures_intros]:
  assumes body: "\<And>x. x \<in> set xs \<Longrightarrow> ensures J (body x) (\<lambda>r. \<forall>a. r = Some a \<longrightarrow> Q a)"
    and final: "ensures J final Q"
  shows "ensures J (for_each xs body final) Q"
  using body
proof (induction xs)
  case Nil
  from final show ?case by simp
next
  case (Cons x xs)
  have "ensures J (body x) (\<lambda>r. \<forall>a. r = Some a \<longrightarrow> Q a)"
    using Cons.prems by simp
  then show ?case
    by (auto intro!: ensures_bnd ensures_option ensures_ret Cons)
qed

section \<open>Strings\<close>

definition starts_with :: "string \<Rightarrow> string \<Rightarrow> bool" where
  "starts_with p s \<longleftrightarrow> take (length p) s = p"

lemma starts_with_append [simp]: "starts_with p (p @ s)"
  by (simp add: starts_with_def)

lemma starts_with_conv: "starts_with p s \<longleftrightarrow> (\<exists>t. s = p @ t)"
proof
  assume "starts_with p s"
  then have "s = p @ drop (length p) s"
    by (metis append_take_drop_id starts_with_def)
  then show "\<exists>t. s = p @ t" ..
qed auto

lemma starts_with_drop: "starts_with p s \<Longrightarrow> p @ drop (length p) s = s"
  by (auto simp: starts_with_conv)

lemma starts_with_append_same [simp]: "starts_with (p @ q) (p @ s) \<longleftrightarrow> starts_with q s"
  by (auto simp: starts_with_conv)

lemma starts_with_Cons [simp]: "starts_with (c # p) (d # s) \<longleftrightarrow> c = d \<and> starts_with p s"
  by (auto simp: starts_with_def)

lemma starts_with_Nil [simp]: "starts_with [] s" "\<not> starts_with (c # p) []"
  by (auto simp: starts_with_def)

text \<open>\<open>s.split(c)\<close> for a one-character separator.\<close>

fun split_on :: "char \<Rightarrow> string \<Rightarrow> string list" where
  "split_on c [] = [[]]"
| "split_on c (x # xs) =
     (if x = c then [] # split_on c xs
      else (case split_on c xs of [] \<Rightarrow> [[x]] | p # ps \<Rightarrow> (x # p) # ps))"

lemma split_on_no_sep: "c \<notin> set s \<Longrightarrow> split_on c s = [s]"
  by (induction s) auto

lemma split_on_ne: "split_on c s \<noteq> []"
  by (induction s) (auto split: list.splits)

lemma split_on_append: "c \<notin> set s \<Longrightarrow> split_on c (s @ c # t) = s # split_on c t"
  by (induction s) auto

text \<open>Joining the parts with the separator gives the string back.\<close>

fun join_on :: "char \<Rightarrow> string list \<Rightarrow> string" where
  "join_on c [] = []"
| "join_on c [x] = x"
| "join_on c (x # y # zs) = x @ c # join_on c (y # zs)"

lemma join_split: "join_on c (split_on c s) = s"
proof (induction s)
  case (Cons x xs)
  obtain p ps where sp: "split_on c xs = p # ps"
    using split_on_ne by (cases "split_on c xs") auto
  with Cons show ?case by (cases ps) auto
qed simp

lemma split_on_parts: "p \<in> set (split_on c s) \<Longrightarrow> c \<notin> set p"
proof (induction s arbitrary: p)
  case (Cons x xs)
  obtain q qs where sp: "split_on c xs = q # qs"
    using split_on_ne by (cases "split_on c xs") auto
  with Cons show ?case by (auto split: if_splits)
qed auto

definition contains_sub :: "string \<Rightarrow> string \<Rightarrow> bool" where
  "contains_sub p s \<longleftrightarrow> (\<exists>i \<in> set [0..<Suc (length s)]. starts_with p (drop i s))"

section \<open>Decimal numerals\<close>

definition digit_char :: "nat \<Rightarrow> char" where
  "digit_char d = char_of (48 + d)"

definition is_digit :: "char \<Rightarrow> bool" where
  "is_digit c \<longleftrightarrow> 48 \<le> (of_char c :: nat) \<and> (of_char c :: nat) \<le> 57"

definition digit_val :: "char \<Rightarrow> nat" where
  "digit_val c = of_char c - 48"

fun nat_dec :: "nat \<Rightarrow> string" where
  "nat_dec n = (if n < 10 then [digit_char n] else nat_dec (n div 10) @ [digit_char (n mod 10)])"

declare nat_dec.simps [simp del]

definition dec_val :: "string \<Rightarrow> nat" where
  "dec_val s = foldl (\<lambda>a c. 10 * a + digit_val c) 0 s"

text \<open>\<open>'%d' % i\<close> and \<open>str(i)\<close> of a Python int.\<close>

definition int_dec :: "int \<Rightarrow> string" where
  "int_dec i = (if i < 0 then CHR ''-'' # nat_dec (nat (- i)) else nat_dec (nat i))"

text \<open>The regular expression \<open>0|[1-9][0-9]*\<close> matched on the whole string.\<close>

definition canonical_dec :: "string \<Rightarrow> bool" where
  "canonical_dec s \<longleftrightarrow>
     s \<noteq> [] \<and> list_all is_digit s \<and> (s = ''0'' \<or> hd s \<noteq> CHR ''0'')"

lemma of_char_digit_char: "d < 10 \<Longrightarrow> (of_char (digit_char d) :: nat) = 48 + d"
  by (simp add: digit_char_def)

lemma digit_val_digit_char [simp]: "d < 10 \<Longrightarrow> digit_val (digit_char d) = d"
  by (simp add: digit_val_def of_char_digit_char)

lemma is_digit_digit_char [simp]: "d < 10 \<Longrightarrow> is_digit (digit_char d)"
  by (simp add: is_digit_def of_char_digit_char)

lemma digit_char_digit_val: "is_digit c \<Longrightarrow> digit_char (digit_val c) = c"
  by (simp add: digit_char_def digit_val_def is_digit_def)

lemma digit_val_less: "is_digit c \<Longrightarrow> digit_val c < 10"
  unfolding digit_val_def is_digit_def by linarith

lemma digit_char_zero: "d < 10 \<Longrightarrow> digit_char d = CHR ''0'' \<longleftrightarrow> d = 0"
proof
  assume "d < 10" and "digit_char d = CHR ''0''"
  then have "48 + d = (of_char CHR ''0'' :: nat)"
    using of_char_digit_char by metis
  then show "d = 0" by simp
next
  assume "d = 0"
  then have "(of_char (digit_char d) :: nat) = of_char CHR ''0''"
    by (simp add: of_char_digit_char)
  then show "digit_char d = CHR ''0''" by (simp only: of_char_eq_iff)
qed

lemma dec_val_snoc: "dec_val (s @ [c]) = 10 * dec_val s + digit_val c"
  by (simp add: dec_val_def)

lemma dec_val_nat_dec [simp]: "dec_val (nat_dec n) = n"
proof (induction n rule: nat_dec.induct)
  case (1 n)
  show ?case
  proof (cases "n < 10")
    case True
    then show ?thesis by (simp add: nat_dec.simps dec_val_def)
  next
    case False
    with 1 show ?thesis by (subst nat_dec.simps) (simp add: dec_val_snoc)
  qed
qed

lemma nat_dec_inject [simp]: "nat_dec m = nat_dec n \<longleftrightarrow> m = n"
  by (metis dec_val_nat_dec)

lemma nat_dec_digits: "list_all is_digit (nat_dec n)"
proof (induction n rule: nat_dec.induct)
  case (1 n)
  then show ?case by (subst nat_dec.simps) auto
qed

lemma nat_dec_ne [simp]: "nat_dec n \<noteq> []"
  by (subst nat_dec.simps) simp

lemma dec_val_pos:
  assumes "list_all is_digit s" and "s \<noteq> []" and "hd s \<noteq> CHR ''0''"
  shows "0 < dec_val s"
  using assms
proof (induction s rule: rev_induct)
  case (snoc c s)
  show ?case
  proof (cases s)
    case Nil
    with snoc.prems have "is_digit c" and "c \<noteq> CHR ''0''" by auto
    then have "digit_val c \<noteq> 0"
      using digit_char_digit_val [of c] digit_char_zero [of "digit_val c"] digit_val_less by auto
    with Nil show ?thesis by (simp add: dec_val_def)
  next
    case (Cons d t)
    with snoc have "0 < dec_val s" by simp
    then show ?thesis unfolding dec_val_snoc by linarith
  qed
qed simp

lemma nat_dec_dec_val: "canonical_dec s \<Longrightarrow> nat_dec (dec_val s) = s"
proof (induction s rule: rev_induct)
  case Nil
  then show ?case by (simp add: canonical_dec_def)
next
  case (snoc c s)
  from snoc.prems have c: "is_digit c" by (simp add: canonical_dec_def)
  show ?case
  proof (cases "s = []")
    case True
    with c show ?thesis
      by (simp add: dec_val_def nat_dec.simps digit_val_less digit_char_digit_val)
  next
    case False
    with snoc.prems have ds: "list_all is_digit s" and h: "hd s \<noteq> CHR ''0''"
      by (auto simp: canonical_dec_def)
    with False have can: "canonical_dec s" by (simp add: canonical_dec_def)
    from dec_val_pos [OF ds False h] have "\<not> dec_val (s @ [c]) < 10"
      by (simp add: dec_val_snoc)
    with snoc.IH [OF can] c show ?thesis
      by (subst nat_dec.simps) (simp add: dec_val_snoc digit_val_less digit_char_digit_val)
  qed
qed

lemma nat_dec_hd: "0 < n \<Longrightarrow> hd (nat_dec n) \<noteq> CHR ''0''"
proof (induction n rule: nat_dec.induct)
  case (1 n)
  show ?case
  proof (cases "n < 10")
    case True
    with \<open>0 < n\<close> have "digit_char n \<noteq> CHR ''0''"
      by (simp add: digit_char_zero)
    with True show ?thesis by (simp add: nat_dec.simps)
  next
    case False
    with 1 show ?thesis by (subst nat_dec.simps) (simp add: hd_append)
  qed
qed

lemma canonical_nat_dec [simp]: "canonical_dec (nat_dec n)"
proof (cases "n = 0")
  case True
  then show ?thesis by (simp add: canonical_dec_def nat_dec.simps digit_char_def is_digit_def)
next
  case False
  then show ?thesis by (simp add: canonical_dec_def nat_dec_digits nat_dec_hd)
qed

lemma is_digit_not_minus: "is_digit c \<Longrightarrow> c \<noteq> CHR ''-''"
  by (auto simp: is_digit_def)

lemma nat_dec_hd_digit: "is_digit (hd (nat_dec n))"
  using nat_dec_digits [of n] by (cases "nat_dec n") auto

lemma int_dec_inject [simp]: "int_dec i = int_dec j \<longleftrightarrow> i = j"
proof
  assume eq: "int_dec i = int_dec j"
  have neg: "CHR ''-'' # s \<noteq> nat_dec n" for s n
    using nat_dec_hd_digit [of n] is_digit_not_minus by (metis list.sel(1))
  show "i = j"
    using eq neg neg [symmetric] by (auto simp: int_dec_def eq_nat_nat_iff split: if_splits)
qed simp

lemma int_dec_nonneg: "0 \<le> i \<Longrightarrow> int_dec i = nat_dec (nat i)"
  by (simp add: int_dec_def)

end
