(* ===== verification/Py_Values.thy ===== *)
theory Py_Values
  imports Complex_Main Prelude
begin

text \<open>
  The Python values that the code takes apart: the values a JSON document can hold with the
  conversions \<open>int()\<close> and \<open>str()\<close>, canonical UUID strings, text checks, and the library
  operations the code is parametric in (JSON text, SHA-256, \<open>str()\<close> of composite values).
  Strings are lists of characters with code points below 256.
\<close>

section \<open>JSON values\<close>

datatype pyfloat = Finite rat | PosInf | NegInf | NaN

datatype json =
    JNull
  | JBool bool
  | JInt int
  | JFloat pyfloat
  | JStr string
  | JList "json list"
  | JObj "(string \<times> json) list"

type_synonym fields = "(string \<times> json) list"

text \<open>\<open>d.get(k)\<close> on the fields of a JSON object: absent keys read as null.\<close>

definition jget :: "fields \<Rightarrow> string \<Rightarrow> json" where
  "jget kvs k = (case map_of kvs k of None \<Rightarrow> JNull | Some v \<Rightarrow> v)"

definition key_set :: "fields \<Rightarrow> string set" where
  "key_set kvs = fst ` set kvs"

fun as_obj :: "json \<Rightarrow> fields option" where
  "as_obj (JObj kvs) = Some kvs"
| "as_obj _ = None"

fun as_str :: "json \<Rightarrow> string option" where
  "as_str (JStr s) = Some s"
| "as_str _ = None"

text \<open>\<open>type(v) is int\<close>: booleans are excluded.\<close>

fun as_int :: "json \<Rightarrow> int option" where
  "as_int (JInt i) = Some i"
| "as_int _ = None"

fun as_bool :: "json \<Rightarrow> bool option" where
  "as_bool (JBool b) = Some b"
| "as_bool _ = None"

fun as_list :: "json \<Rightarrow> json list option" where
  "as_list (JList xs) = Some xs"
| "as_list _ = None"

lemma as_str_Some [simp]: "as_str v = Some s \<longleftrightarrow> v = JStr s" by (cases v) auto
lemma as_int_Some [simp]: "as_int v = Some i \<longleftrightarrow> v = JInt i" by (cases v) auto
lemma as_bool_Some [simp]: "as_bool v = Some b \<longleftrightarrow> v = JBool b" by (cases v) auto
lemma as_obj_Some [simp]: "as_obj v = Some kvs \<longleftrightarrow> v = JObj kvs" by (cases v) auto
lemma as_list_Some [simp]: "as_list v = Some xs \<longleftrightarrow> v = JList xs" by (cases v) auto

subsection \<open>Conversions\<close>

definition is_space :: "char \<Rightarrow> bool" where
  "is_space c = (let n = (of_char c :: nat) in
     (9 \<le> n \<and> n \<le> 13) \<or> (28 \<le> n \<and> n \<le> 32) \<or> n = 133 \<or> n = 160)"

definition strip_chars :: "(char \<Rightarrow> bool) \<Rightarrow> string \<Rightarrow> string" where
  "strip_chars p s = rev (dropWhile p (rev (dropWhile p s)))"

text \<open>\<open>int(s)\<close> on a string: surrounding white space, a sign, single underscores between digits.\<close>

definition int_of_str :: "string \<Rightarrow> int result" where
  "int_of_str s =
     (let t = strip_chars is_space s;
          (neg, body) = (case t of [] \<Rightarrow> (False, [])
                         | c # cs \<Rightarrow> if c = CHR ''-'' then (True, cs)
                                     else if c = CHR ''+'' then (False, cs) else (False, t));
          parts = split_on CHR ''_'' body
      in if list_all (\<lambda>p. p \<noteq> [] \<and> list_all is_digit p) parts
         then Inr ((if neg then -1 else 1) * int (dec_val (concat parts)))
         else Inl (PyException ValueError))"

definition trunc_rat :: "rat \<Rightarrow> int" where
  "trunc_rat r = (if 0 \<le> r then floor r else ceiling r)"

fun py_int :: "json \<Rightarrow> int result" where
  "py_int (JInt i) = Inr i"
| "py_int (JBool b) = Inr (if b then 1 else 0)"
| "py_int (JFloat (Finite r)) = Inr (trunc_rat r)"
| "py_int (JFloat NaN) = Inl (PyException ValueError)"
| "py_int (JFloat _) = Inl (PyException OverflowError)"
| "py_int (JStr s) = int_of_str s"
| "py_int _ = Inl (PyException TypeError)"

text \<open>\<open>v == n\<close> for an int \<open>n\<close>: Python compares ints, bools and floats by value.\<close>

fun py_eq_int :: "json \<Rightarrow> int \<Rightarrow> bool" where
  "py_eq_int (JInt i) n = (i = n)"
| "py_eq_int (JBool b) n = ((if b then 1 else 0) = n)"
| "py_eq_int (JFloat (Finite r)) n = (r = of_int n)"
| "py_eq_int _ n = False"

text \<open>Truth value: empty strings, lists, objects, zero and null are false.\<close>

fun py_truthy :: "json \<Rightarrow> bool" where
  "py_truthy JNull = False"
| "py_truthy (JBool b) = b"
| "py_truthy (JInt i) = (i \<noteq> 0)"
| "py_truthy (JFloat f) = (f \<noteq> Finite 0)"
| "py_truthy (JStr s) = (s \<noteq> [])"
| "py_truthy (JList xs) = (xs \<noteq> [])"
| "py_truthy (JObj kvs) = (kvs \<noteq> [])"

subsection \<open>Key order\<close>

text \<open>The effect of \<open>sort_keys=True\<close> on the value that is written.\<close>

fun sort_keys :: "json \<Rightarrow> json" where
  "sort_keys (JObj kvs) = JObj (sort_key fst (map (\<lambda>(k, v). (k, sort_keys v)) kvs))"
| "sort_keys (JList xs) = JList (map sort_keys xs)"
| "sort_keys v = v"

text \<open>Values that a Python dict display builds: no object has a key twice.\<close>

fun json_wf :: "json \<Rightarrow> bool" where
  "json_wf (JObj kvs) \<longleftrightarrow> distinct (map fst kvs) \<and> (\<forall>kv \<in> set kvs. json_wf (snd kv))"
| "json_wf (JList xs) \<longleftrightarrow> (\<forall>x \<in> set xs. json_wf x)"
| "json_wf _ \<longleftrightarrow> True"

lemma map_of_sort_key:
  assumes "distinct (map fst kvs)"
  shows "map_of (sort_key fst kvs) = map_of kvs"
proof -
  have "distinct (map fst (sort_key fst kvs))"
    using assms by (simp add: distinct_map)
  then show ?thesis
    using assms by (intro map_of_inject_set [THEN iffD2]) auto
qed

lemma map_of_map_snd: "map_of (map (\<lambda>(k, v). (k, f v)) kvs) k = map_option f (map_of kvs k)"
  by (induction kvs) auto

definition sorted_fields :: "fields \<Rightarrow> fields" where
  "sorted_fields kvs = sort_key fst (map (\<lambda>(k, v). (k, sort_keys v)) kvs)"

lemma sort_keys_obj: "sort_keys (JObj kvs) = JObj (sorted_fields kvs)"
  by (simp add: sorted_fields_def)

lemma map_fst_sort_keys: "map fst (map (\<lambda>(k, v). (k, sort_keys v)) kvs) = map fst kvs"
  by (induction kvs) auto

lemma map_of_sorted_fields:
  assumes "distinct (map fst kvs)"
  shows "map_of (sorted_fields kvs) k = map_option sort_keys (map_of kvs k)"
proof -
  have "distinct (map fst (map (\<lambda>(k, v). (k, sort_keys v)) kvs))"
    using assms by (simp only: map_fst_sort_keys)
  then show ?thesis
    by (simp add: sorted_fields_def map_of_sort_key map_of_map_snd)
qed

lemma jget_sorted_fields:
  assumes "distinct (map fst kvs)"
  shows "jget (sorted_fields kvs) k = sort_keys (jget kvs k)"
  using assms by (simp add: jget_def map_of_sorted_fields split: option.splits)

lemma key_set_sorted_fields [simp]: "key_set (sorted_fields kvs) = key_set kvs"
  by (force simp: key_set_def sorted_fields_def)

lemma jget_simps [simp]:
  "jget [] k = JNull"
  "jget ((k', v) # kvs) k = (if k = k' then v else jget kvs k)"
  by (simp_all add: jget_def)

lemma key_set_simps [simp]:
  "key_set [] = {}"
  "key_set ((k, v) # kvs) = insert k (key_set kvs)"
  by (simp_all add: key_set_def)

declare sort_keys.simps(1) [simp del]

section \<open>Canonical UUIDs\<close>

definition is_hex :: "char \<Rightarrow> bool" where
  "is_hex c = (let n = (of_char c :: nat) in
     (48 \<le> n \<and> n \<le> 57) \<or> (97 \<le> n \<and> n \<le> 102) \<or> (65 \<le> n \<and> n \<le> 70))"

definition is_lower_hex :: "char \<Rightarrow> bool" where
  "is_lower_hex c = (let n = (of_char c :: nat) in (48 \<le> n \<and> n \<le> 57) \<or> (97 \<le> n \<and> n \<le> 102))"

definition lower_char :: "char \<Rightarrow> char" where
  "lower_char c = (let n = (of_char c :: nat) in
     if 65 \<le> n \<and> n \<le> 90 then char_of (n + 32) else c)"

function remove_sub :: "string \<Rightarrow> string \<Rightarrow> string" where
  "remove_sub p s =
     (if s = [] then []
      else if p \<noteq> [] \<and> starts_with p s then remove_sub p (drop (length p) s)
      else hd s # remove_sub p (tl s))"
  by pat_completeness auto
termination
  by (relation "measure (\<lambda>(p, s). length s)") auto

declare remove_sub.simps [simp del]

text \<open>
  \<open>uuid.UUID(value)\<close>: the prefixes urn: and uuid:, braces and hyphens are dropped, and 32
  hexadecimal digits must remain; \<open>str()\<close> of it is the hyphenated lower-case form.
\<close>

definition uuid_digits :: "string \<Rightarrow> string" where
  "uuid_digits s =
     filter (\<lambda>c. c \<noteq> CHR ''-'')
       (strip_chars (\<lambda>c. c = CHR ''{'' \<or> c = CHR ''}'')
         (remove_sub ''uuid:'' (remove_sub ''urn:'' s)))"

definition uuid_format :: "string \<Rightarrow> string" where
  "uuid_format h =
     take 8 h @ ''-'' @ take 4 (drop 8 h) @ ''-'' @ take 4 (drop 12 h) @ ''-''
       @ take 4 (drop 16 h) @ ''-'' @ drop 20 h"

definition uuid_str :: "string \<Rightarrow> string result" where
  "uuid_str s =
     (let h = uuid_digits s
      in if length h = 32 \<and> list_all is_hex h
         then Inr (uuid_format (map lower_char h))
         else Inl (PyException ValueError))"

definition canonical_uuid :: "string \<Rightarrow> bool" where
  "canonical_uuid s \<longleftrightarrow> uuid_str s = Inr s"

text \<open>oslo's \<open>is_uuid_like\<close>: the lower-cased digits of the value are those of the parsed UUID.\<close>

definition is_uuid_like :: "string \<Rightarrow> bool" where
  "is_uuid_like s \<longleftrightarrow>
     (let h = map lower_char (uuid_digits s) in length h = 32 \<and> list_all is_lower_hex h)"

lemma uuid_format_set: "set (uuid_format h) \<subseteq> insert CHR ''-'' (set h)"
  by (auto simp: uuid_format_def dest: in_set_takeD in_set_dropD)

lemma lower_char_hex: "is_hex c \<Longrightarrow> is_lower_hex (lower_char c)"
  by (auto simp: is_hex_def is_lower_hex_def lower_char_def Let_def)

lemma uuid_str_chars:
  assumes "uuid_str s = Inr t"
  shows "\<forall>c \<in> set t. is_lower_hex c \<or> c = CHR ''-''"
proof -
  let ?h = "uuid_digits s"
  have h: "list_all is_hex ?h" and t: "t = uuid_format (map lower_char ?h)"
    using assms by (auto simp: uuid_str_def Let_def split: if_splits)
  have "\<forall>c \<in> set (map lower_char ?h). is_lower_hex c"
    using h by (auto simp: list_all_iff lower_char_hex)
  then show ?thesis
    using uuid_format_set [of "map lower_char ?h"] t by blast
qed

lemma canonical_uuid_no_slash: "canonical_uuid u \<Longrightarrow> CHR ''/'' \<notin> set u"
  using uuid_str_chars [of u u]
  by (auto simp: canonical_uuid_def is_lower_hex_def Let_def)

lemma uuid_str_length:
  assumes "uuid_str s = Inr t"
  shows "length t = 36"
  using assms by (auto simp: uuid_str_def uuid_format_def Let_def split: if_splits)

lemma canonical_uuid_ne: "canonical_uuid u \<Longrightarrow> u \<noteq> []"
  using uuid_str_length [of u u] by (auto simp: canonical_uuid_def)

section \<open>Text checks\<close>

definition printable :: "string \<Rightarrow> bool" where
  "printable s \<longleftrightarrow> (\<forall>c \<in> set s. 32 \<le> (of_char c :: nat))"

definition word_char :: "char \<Rightarrow> bool" where
  "word_char c = (let n = (of_char c :: nat) in
     (48 \<le> n \<and> n \<le> 57) \<or> (65 \<le> n \<and> n \<le> 90) \<or> (97 \<le> n \<and> n \<le> 122))"

section \<open>Library operations the code is parametric in\<close>

text \<open>
  The bytes the registry stores are of type \<open>'b\<close>. \<open>l_dumps\<close> is oslo's jsonutils.dumps with
  compact separators on a value whose keys are already in order, \<open>l_loads\<close> is decoding and
  jsonutils.loads (\<open>None\<close> for the exceptions of either), \<open>l_dumps_utf8\<close> is jsonutils.dumps
  with \<open>ensure_ascii=False\<close>, \<open>l_sha256\<close> is the hexadecimal SHA-256 digest of bytes,
  \<open>l_encode\<close> the bytes of a string, \<open>l_str\<close> is \<open>str()\<close> of floats, lists and objects, and
  \<open>l_loads_text\<close> is jsonutils.loads on a text.
\<close>

record 'b lib =
  l_dumps :: "json \<Rightarrow> 'b"
  l_loads :: "'b \<Rightarrow> json option"
  l_dumps_utf8 :: "json \<Rightarrow> 'b"
  l_sha256 :: "'b \<Rightarrow> string"
  l_encode :: "string \<Rightarrow> 'b"
  l_str :: "json \<Rightarrow> string"
  l_loads_text :: "string \<Rightarrow> json option"

text \<open>
  What the code relies on: reading back the text written for a value gives the value, with
  the keys of its objects in order.
\<close>

definition codec_ok :: "'b lib \<Rightarrow> bool" where
  "codec_ok L \<longleftrightarrow> (\<forall>v. json_wf v \<longrightarrow> l_loads L (l_dumps L (sort_keys v)) = Some (sort_keys v))"

fun py_str :: "'b lib \<Rightarrow> json \<Rightarrow> string" where
  "py_str L JNull = ''None''"
| "py_str L (JBool b) = (if b then ''True'' else ''False'')"
| "py_str L (JInt i) = int_dec i"
| "py_str L (JStr s) = s"
| "py_str L v = l_str L v"

definition json_bytes :: "'b lib \<Rightarrow> json \<Rightarrow> 'b" where
  "json_bytes L v = l_dumps L (sort_keys v)"

lemma loads_json_bytes:
  assumes "codec_ok L" and "json_wf (JObj kvs)"
  shows "l_loads L (json_bytes L (JObj kvs)) = Some (JObj (sorted_fields kvs))"
  using assms unfolding codec_ok_def json_bytes_def by (metis sort_keys_obj)

lemma json_bytes_obj_inject:
  assumes "codec_ok L" and "json_wf (JObj kvs)" and "json_wf (JObj kvs')"
    and "json_bytes L (JObj kvs) = json_bytes L (JObj kvs')"
  shows "sort_keys (jget kvs k) = sort_keys (jget kvs' k)"
proof -
  have "sorted_fields kvs = sorted_fields kvs'"
    using assms loads_json_bytes by (metis option.inject json.inject(6))
  moreover have "distinct (map fst kvs)" and "distinct (map fst kvs')"
    using assms by simp_all
  ultimately show ?thesis
    using jget_sorted_fields by metis
qed

text \<open>
  A concrete library over JSON values themselves, for which the codec property holds: used
  where a theorem is applied at a concrete input.
\<close>

definition json_lib :: "json lib" where
  "json_lib =
     \<lparr>l_dumps = id, l_loads = Some, l_dumps_utf8 = id,
      l_sha256 = (\<lambda>_. replicate 64 CHR ''0''), l_encode = JStr, l_str = (\<lambda>_. ''''),
      l_loads_text = (\<lambda>_. None)\<rparr>"

lemma codec_ok_json_lib [simp]: "codec_ok json_lib"
  by (simp add: codec_ok_def json_lib_def)

end
