(* ===== verification/Idmap_Records.thy ===== *)
theory Idmap_Records
  imports Py_Values
begin

text \<open>
  The data of the ID-map allocator (nova/virt/incus/idmap.py): the records of an allocation
  generation, its release intent and its host claims, the proofs that retire a claim, and
  the immutable configuration of an allocator object with its construction checks.
\<close>

section \<open>Generations, intents, claims\<close>

text \<open>
  IDMapAssignment, IDMapReleaseIntent and IDMapHostClaim share the six fields of an
  allocation generation; \<open>_same_generation\<close> compares any two of them on these fields.
\<close>

record generation =
  instance_uuid :: string
  map_base :: int
  map_size :: int
  map_slot :: int
  allocation_id :: string
  fingerprint :: string

record assignment = generation +
  host_ids :: "string list"

record release_intent = generation +
  instance_name :: string

datatype claim_state = Unmaterialized | Possible | Committed | Cleaned

fun claim_state_str :: "claim_state \<Rightarrow> string" where
  "claim_state_str Unmaterialized = ''unmaterialized''"
| "claim_state_str Possible = ''possible''"
| "claim_state_str Committed = ''committed''"
| "claim_state_str Cleaned = ''cleaned''"

definition parse_claim_state :: "string \<Rightarrow> claim_state option" where
  "parse_claim_state s =
     (if s = ''unmaterialized'' then Some Unmaterialized
      else if s = ''possible'' then Some Possible
      else if s = ''committed'' then Some Committed
      else if s = ''cleaned'' then Some Cleaned
      else None)"

lemma parse_claim_state_str [simp]: "parse_claim_state (claim_state_str s) = Some s"
  by (cases s) (simp_all add: parse_claim_state_def)

lemma parse_claim_state_Some: "parse_claim_state t = Some s \<Longrightarrow> t = claim_state_str s"
  by (auto simp: parse_claim_state_def split: if_splits)

lemma claim_state_str_inject [simp]: "claim_state_str s = claim_state_str t \<longleftrightarrow> s = t"
  by (metis option.inject parse_claim_state_str)

definition same_generation :: "'x generation_scheme \<Rightarrow> 'y generation_scheme \<Rightarrow> bool" where
  "same_generation l r \<longleftrightarrow>
     instance_uuid l = instance_uuid r \<and> map_base l = map_base r \<and> map_size l = map_size r \<and>
     map_slot l = map_slot r \<and> allocation_id l = allocation_id r \<and>
     fingerprint l = fingerprint r"

lemma same_generation_refl [simp]: "same_generation a a"
  by (simp add: same_generation_def)

lemma same_generation_sym: "same_generation a b \<Longrightarrow> same_generation b a"
  by (simp add: same_generation_def)

lemma same_generation_trans [trans]:
  "same_generation a b \<Longrightarrow> same_generation b c \<Longrightarrow> same_generation a c"
  by (simp add: same_generation_def)

section \<open>Proofs that retire a claim\<close>

text \<open>
  The fields common to IDMapMaterializationProof and IDMapRootfsReleaseProof
  (IDMapRootfsReleaseReceipt has the fields of the latter).
\<close>

record proof_base =
  p_token :: string
  p_allocation_id :: string
  p_compute_id :: string
  p_owner :: string
  p_project :: string
  p_instance_name :: string
  p_idmap_base :: int
  p_idmap_size :: int
  p_storage_driver :: string
  p_storage_pool :: string
  p_storage_volume :: string
  p_rbd_image :: string
  p_storage_identity :: string
  p_baseline_clean :: bool
  p_cleanup_disposition :: string
  p_state :: string
  p_outcome :: string
  p_digest :: string

record materialization_proof = proof_base +
  m_storage_phase :: string
  m_started :: bool
  m_finished :: bool

record release_proof = proof_base +
  r_materialization_id :: string
  r_created_at :: int
  r_completed_at :: int

type_synonym release_receipt = release_proof

datatype cleanup_proof =
    Materialization materialization_proof
  | Release release_proof

fun proof_common :: "cleanup_proof \<Rightarrow> proof_base" where
  "proof_common (Materialization p) = proof_base.truncate p"
| "proof_common (Release p) = proof_base.truncate p"

record host_claim = generation +
  host_id :: string
  materialization_id :: string
  state :: claim_state
  proof_of :: "cleanup_proof option"

record fence_proof =
  f_instance_uuid :: string
  f_host_id :: string
  f_allocation_id :: string
  f_fence_agent :: string
  f_fenced_at :: string
  f_operator :: string
  f_evidence :: string

section \<open>Argument checks\<close>

text \<open>
  \<open>_instance_uuid\<close>, \<open>_materialization_id\<close> and \<open>_host_id\<close> accept exactly the canonical
  spelling of a UUID.
\<close>

definition check_uuid :: "string \<Rightarrow> string result" where
  "check_uuid v = (if canonical_uuid v then Inr v else Inl ConfigurationError)"

definition instance_uuid_arg :: "string \<Rightarrow> string result" where
  "instance_uuid_arg v = check_uuid v"

definition materialization_id_arg :: "string \<Rightarrow> string result" where
  "materialization_id_arg v = check_uuid v"

definition host_id_arg :: "string \<Rightarrow> string result" where
  "host_id_arg v = check_uuid v"

definition instance_name_ok :: "string \<Rightarrow> bool" where
  "instance_name_ok v \<longleftrightarrow> v \<noteq> [] \<and> length v \<le> 255 \<and> printable v"

definition instance_name_arg :: "string \<Rightarrow> string result" where
  "instance_name_arg v = (if instance_name_ok v then Inr v else Inl ConfigurationError)"

lemma check_uuid_Inr [simp]: "check_uuid v = Inr w \<longleftrightarrow> canonical_uuid v \<and> w = v"
  by (auto simp: check_uuid_def)

lemmas uuid_args [simp] = instance_uuid_arg_def materialization_id_arg_def host_id_arg_def

lemma instance_name_arg_Inr [simp]: "instance_name_arg v = Inr w \<longleftrightarrow> instance_name_ok v \<and> w = v"
  by (auto simp: instance_name_arg_def)

text \<open>The same checks on a JSON value: \<open>not isinstance(value, str)\<close> is refused alike.\<close>

definition uuid_field :: "json \<Rightarrow> string result" where
  "uuid_field v = (case v of JStr s \<Rightarrow> check_uuid s | _ \<Rightarrow> Inl ConfigurationError)"

definition name_field :: "json \<Rightarrow> string result" where
  "name_field v = (case v of JStr s \<Rightarrow> instance_name_arg s | _ \<Rightarrow> Inl ConfigurationError)"

lemma uuid_field_Inr [simp]: "uuid_field v = Inr s \<longleftrightarrow> v = JStr s \<and> canonical_uuid s"
  by (auto simp: uuid_field_def split: json.splits)

lemma name_field_Inr [simp]: "name_field v = Inr s \<longleftrightarrow> v = JStr s \<and> instance_name_ok s"
  by (auto simp: name_field_def split: json.splits)

text \<open>\<open>str(uuid.UUID(v))\<close> on a JSON value.\<close>

fun uuid_str_field :: "json \<Rightarrow> string result" where
  "uuid_str_field (JStr s) = uuid_str s"
| "uuid_str_field JNull = Inl (PyException TypeError)"
| "uuid_str_field _ = Inl (PyException AttributeError)"

text \<open>\<open>_positive_int\<close> on an int.\<close>

definition positive_int :: "int \<Rightarrow> bool \<Rightarrow> int result" where
  "positive_int v allow_zero =
     (if v < (if allow_zero then 0 else 1) then Inl ConfigurationError else Inr v)"

lemma positive_int_Inr [simp]:
  "positive_int v z = Inr w \<longleftrightarrow> w = v \<and> (if z then 0 else 1) \<le> v"
  by (auto simp: positive_int_def)

text \<open>\<open>__post_init__\<close> of IDMapAssignment: the host claims are unique, sorted and canonical.\<close>

definition sorted_unique :: "string list \<Rightarrow> string list" where
  "sorted_unique xs = sort (remdups xs)"

definition assignment_post_init :: "assignment \<Rightarrow> assignment result" where
  "assignment_post_init a =
     (if host_ids a \<noteq> sorted_unique (host_ids a) then Inl (PyException ValueError)
      else if \<not> list_all canonical_uuid (host_ids a) then Inl (PyException ValueError)
      else Inr a)"

lemma sorted_unique_id: "sorted xs \<Longrightarrow> distinct xs \<Longrightarrow> sorted_unique xs = xs"
  by (simp add: sorted_unique_def sorted_sort_id distinct_remdups_id)

lemma sorted_unique_props [simp]:
  "sorted (sorted_unique xs)" "distinct (sorted_unique xs)" "set (sorted_unique xs) = set xs"
  by (simp_all add: sorted_unique_def)

lemma sorted_unique_eq_iff: "xs = sorted_unique xs \<longleftrightarrow> sorted xs \<and> distinct xs"
  by (metis sorted_unique_id sorted_unique_props(1,2))

section \<open>The allocator object\<close>

record 'b allocator =
  al_lib :: "'b lib"
  al_namespace :: string
  al_base :: int
  al_size :: int
  al_count :: int
  al_fingerprint :: string
  al_username :: "string option"
  al_token :: string
  al_lease_ttl :: int

definition schema_version :: int where
  "schema_version = 3"

definition audit_control_schema :: int where
  "audit_control_schema = 1"

definition key_prefix :: string where
  "key_prefix = ''/openstack-incus/idmaps/v3''"

definition al_prefix :: "'b allocator \<Rightarrow> string" where
  "al_prefix A = key_prefix @ ''/'' @ al_namespace A"

definition al_control_prefix :: "'b allocator \<Rightarrow> string" where
  "al_control_prefix A = key_prefix @ ''-control/'' @ al_namespace A"

text \<open>The configuration record and its fingerprint.\<close>

definition config_material :: "int \<Rightarrow> int \<Rightarrow> string \<Rightarrow> int \<Rightarrow> fields" where
  "config_material base count namespace sz =
     [(''base'', JInt base), (''count'', JInt count), (''namespace'', JStr namespace),
      (''schema'', JInt schema_version), (''size'', JInt sz)]"

definition config_fingerprint :: "'b lib \<Rightarrow> int \<Rightarrow> int \<Rightarrow> string \<Rightarrow> int \<Rightarrow> string" where
  "config_fingerprint L base count namespace sz =
     l_sha256 L (json_bytes L (JObj (config_material base count namespace sz)))"

definition config_fields :: "'b allocator \<Rightarrow> fields" where
  "config_fields A =
     config_material (al_base A) (al_count A) (al_namespace A) (al_size A)
       @ [(''fingerprint'', JStr (al_fingerprint A))]"

definition config_raw :: "'b allocator \<Rightarrow> 'b" where
  "config_raw A = json_bytes (al_lib A) (JObj (config_fields A))"

text \<open>The regular expression of a namespace, matched on the whole string.\<close>

definition namespace_ok :: "string \<Rightarrow> bool" where
  "namespace_ok s \<longleftrightarrow>
     (case s of [] \<Rightarrow> False
      | c # cs \<Rightarrow> word_char c \<and> length cs \<le> 127 \<and>
          list_all (\<lambda>d. word_char d \<or> d = CHR ''_'' \<or> d = CHR ''.'' \<or> d = CHR ''-'') cs)"

text \<open>
  The constructor. An endpoint is what urlparse returns for it: \<open>None\<close> when it raises.
\<close>

record endpoint =
  ep_scheme :: string
  ep_hostname :: string
  ep_username :: string
  ep_password :: string
  ep_query :: string
  ep_fragment :: string
  ep_path :: string

record options =
  o_endpoint :: "endpoint option"
  o_namespace :: "string option"
  o_base :: json
  o_size :: json
  o_count :: json
  o_timeout :: json
  o_audit_lease_ttl :: json
  o_ca_cert :: string
  o_cert_cert :: string
  o_cert_key :: string
  o_username :: string
  o_password_file :: string
  o_allow_insecure :: bool

definition int_option :: "json \<Rightarrow> int result" where
  "int_option v =
     rbind (except_r (\<lambda>e. e \<in> {PyException TypeError, PyException ValueError}) ConfigurationError (py_int v))
       (\<lambda>i. positive_int i False)"

definition parse_endpoint :: "endpoint option \<Rightarrow> endpoint result" where
  "parse_endpoint e =
     (case e of None \<Rightarrow> Inl ConfigurationError
      | Some p \<Rightarrow>
          if ep_scheme p \<notin> {''http'', ''https''} \<or> ep_hostname p = [] \<or> ep_username p \<noteq> []
             \<or> ep_password p \<noteq> [] \<or> ep_query p \<noteq> [] \<or> ep_fragment p \<noteq> []
             \<or> ep_path p \<notin> {'''', ''/''}
          then Inl ConfigurationError else Inr p)"

definition make_allocator :: "'b lib \<Rightarrow> string \<Rightarrow> options \<Rightarrow> 'b allocator result" where
  "make_allocator L token opts =
     (case o_namespace opts of None \<Rightarrow> Inl ConfigurationError | Some ns \<Rightarrow>
      rbind (check (strip_chars is_space ns \<noteq> []) ConfigurationError) (\<lambda>_.
      rbind (int_option (o_base opts)) (\<lambda>base.
      rbind (int_option (o_size opts)) (\<lambda>sz.
      rbind (int_option (o_count opts)) (\<lambda>count.
      rbind (int_option (o_timeout opts)) (\<lambda>timeout.
      rbind (int_option (o_audit_lease_ttl opts)) (\<lambda>ttl.
      rbind (check (namespace_ok ns) ConfigurationError) (\<lambda>_.
      rbind (check ((o_cert_cert opts \<noteq> []) = (o_cert_key opts \<noteq> [])) ConfigurationError) (\<lambda>_.
      rbind (check ((o_username opts \<noteq> []) = (o_password_file opts \<noteq> [])) ConfigurationError) (\<lambda>_.
      rbind (check (o_password_file opts = [] \<or> starts_with ''/'' (o_password_file opts))
               ConfigurationError) (\<lambda>_.
      rbind (parse_endpoint (o_endpoint opts)) (\<lambda>parsed.
      rbind (check (o_allow_insecure opts \<or>
               (ep_scheme parsed = ''https'' \<and> o_ca_cert opts \<noteq> [] \<and> o_cert_cert opts \<noteq> [] \<and>
                o_cert_key opts \<noteq> [] \<and> o_username opts \<noteq> [] \<and> o_password_file opts \<noteq> []))
               ConfigurationError) (\<lambda>_.
      rbind (check (base + count * sz \<le> 2 ^ 32) ConfigurationError) (\<lambda>_.
      Inr \<lparr>al_lib = L, al_namespace = ns, al_base = base, al_size = sz, al_count = count,
           al_fingerprint = config_fingerprint L base count ns sz,
           al_username = (if o_username opts = [] then None else Some (o_username opts)),
           al_token = token, al_lease_ttl = ttl\<rparr>))))))))))))))"

text \<open>What a constructed allocator satisfies, and all that later theorems assume of one.\<close>

definition allocator_ok :: "'b allocator \<Rightarrow> bool" where
  "allocator_ok A \<longleftrightarrow>
     0 < al_base A \<and> 0 < al_size A \<and> 0 < al_count A \<and>
     al_base A + al_count A * al_size A \<le> 2 ^ 32 \<and>
     namespace_ok (al_namespace A) \<and>
     al_fingerprint A =
       config_fingerprint (al_lib A) (al_base A) (al_count A) (al_namespace A) (al_size A) \<and>
     codec_ok (al_lib A)"

lemma int_option_pos: "int_option v = Inr i \<Longrightarrow> 0 < i"
  by (auto simp: int_option_def)

lemma make_allocator_ok:
  assumes "make_allocator L token opts = Inr A" and "codec_ok L"
  shows "allocator_ok A"
  using assms
  by (auto simp: make_allocator_def allocator_ok_def dest!: int_option_pos split: option.splits)

definition slot_base :: "'b allocator \<Rightarrow> int \<Rightarrow> int" where
  "slot_base A slot = al_base A + slot * al_size A"

text \<open>The slots are disjoint ranges below \<open>2 ^ 32\<close>.\<close>

lemma slot_range_bounds:
  assumes "allocator_ok A" and "0 \<le> s" and "s < al_count A"
  shows "0 < slot_base A s" and "slot_base A s + al_size A \<le> 2 ^ 32"
proof -
  have pos: "0 < al_base A" "0 < al_size A"
    and top: "al_base A + al_count A * al_size A \<le> 2 ^ 32"
    using assms(1) by (simp_all add: allocator_ok_def)
  show "0 < slot_base A s" using pos assms(2) by (simp add: slot_base_def add_pos_nonneg)
  have "(s + 1) * al_size A \<le> al_count A * al_size A"
    using assms(3) pos by (intro mult_right_mono) auto
  with top show "slot_base A s + al_size A \<le> 2 ^ 32"
    by (simp add: slot_base_def algebra_simps)
qed

lemma slot_ranges_disjoint:
  assumes "0 < al_size A" and "s \<noteq> t"
  shows "{slot_base A s ..< slot_base A s + al_size A} \<inter>
         {slot_base A t ..< slot_base A t + al_size A} = {}"
proof -
  have *: "slot_base A i + al_size A \<le> slot_base A j" if "i < j" for i j
  proof -
    have "(i + 1) * al_size A \<le> j * al_size A"
      using that assms(1) by (intro mult_right_mono) auto
    then show ?thesis by (simp add: slot_base_def algebra_simps)
  qed
  from assms(2) consider "s < t" | "t < s" by linarith
  then show ?thesis by cases (auto dest: *)
qed

lemma slot_base_inject [simp]:
  "0 < al_size A \<Longrightarrow> slot_base A s = slot_base A t \<longleftrightarrow> s = t"
  by (auto simp: slot_base_def)

end
