(* ===== verification/Idmap_Proofs.thy ===== *)
theory Idmap_Proofs
  imports Idmap_Records
begin

text \<open>
  The cleanup proofs of idmap.py: their canonical digests, the fail-closed validators
  \<open>_validate_materialization_proof\<close> and \<open>_validate_release_proof\<close>, the fence proof
  validator, and the JSON form in which a proof is stored inside a host claim. The lemmas
  show what an accepted proof satisfies, that the stored form reads back, and that the
  digests bind the fields they cover.
\<close>

section \<open>Checks on single fields\<close>

definition receipt_text_ok :: "string \<Rightarrow> bool \<Rightarrow> bool" where
  "receipt_text_ok v allow_empty \<longleftrightarrow> (allow_empty \<or> v \<noteq> []) \<and> printable v"

definition receipt_text :: "string \<Rightarrow> bool \<Rightarrow> unit result" where
  "receipt_text v allow_empty = check (receipt_text_ok v allow_empty) ConfigurationError"

text \<open>The regular expression \<open>^sha256:[0-9a-f]{64}$\<close>, matched on the whole string.\<close>

definition digest_format_ok :: "string \<Rightarrow> bool" where
  "digest_format_ok s \<longleftrightarrow>
     starts_with ''sha256:'' s \<and> length s = 71 \<and> list_all is_lower_hex (drop 7 s)"

definition idmap_range_ok :: "int \<Rightarrow> int \<Rightarrow> bool" where
  "idmap_range_ok base sz \<longleftrightarrow> 0 \<le> base \<and> 0 < sz \<and> base + sz \<le> 2 ^ 32"

definition sha256_json :: "'b lib \<Rightarrow> json \<Rightarrow> string" where
  "sha256_json L v = ''sha256:'' @ l_sha256 L (l_dumps_utf8 L v)"

section \<open>Digests\<close>

definition materialization_digest_fields :: "'x proof_base_scheme \<Rightarrow> fields" where
  "materialization_digest_fields p =
     [(''token'', JStr (p_token p)),
      (''allocation_id'', JStr (p_allocation_id p)),
      (''compute_id'', JStr (p_compute_id p)),
      (''owner'', JStr (p_owner p)),
      (''project'', JStr (p_project p)),
      (''instance_name'', JStr (p_instance_name p)),
      (''idmap_base'', JInt (p_idmap_base p)),
      (''idmap_size'', JInt (p_idmap_size p)),
      (''storage_driver'', JStr (p_storage_driver p)),
      (''storage_pool'', JStr (p_storage_pool p)),
      (''storage_volume'', JStr (p_storage_volume p)),
      (''rbd_image'', JStr (p_rbd_image p)),
      (''storage_identity'', JStr (p_storage_identity p)),
      (''baseline_clean'', JBool (p_baseline_clean p)),
      (''cleanup_disposition'', JStr (p_cleanup_disposition p)),
      (''outcome'', JStr (p_outcome p))]"

definition materialization_digest :: "'b lib \<Rightarrow> 'x proof_base_scheme \<Rightarrow> string" where
  "materialization_digest L p = sha256_json L (JObj (materialization_digest_fields p))"

definition release_digest_fields :: "release_proof \<Rightarrow> fields" where
  "release_digest_fields p =
     [(''digest'', JStr ''''),
      (''token'', JStr (p_token p)),
      (''allocation_id'', JStr (p_allocation_id p)),
      (''compute_id'', JStr (p_compute_id p)),
      (''materialization_id'', JStr (r_materialization_id p)),
      (''owner'', JStr (p_owner p)),
      (''project'', JStr (p_project p)),
      (''instance_name'', JStr (p_instance_name p)),
      (''idmap_base'', JInt (p_idmap_base p)),
      (''idmap_size'', JInt (p_idmap_size p)),
      (''storage_driver'', JStr (p_storage_driver p)),
      (''storage_pool'', JStr (p_storage_pool p)),
      (''storage_volume'', JStr (p_storage_volume p))]
     @ (if p_rbd_image p \<noteq> [] then [(''rbd_image'', JStr (p_rbd_image p))] else [])
     @ (if p_storage_identity p \<noteq> [] then [(''storage_identity'', JStr (p_storage_identity p))] else [])
     @ [(''baseline_clean'', JBool (p_baseline_clean p)),
        (''cleanup_disposition'', JStr (p_cleanup_disposition p)),
        (''outcome'', JStr (p_outcome p)),
        (''state'', JStr (p_state p)),
        (''created_at'', JInt (r_created_at p)),
        (''completed_at'', JInt (r_completed_at p))]"

definition release_digest :: "'b lib \<Rightarrow> release_proof \<Rightarrow> string" where
  "release_digest L p = sha256_json L (JObj (release_digest_fields p))"

section \<open>Validators\<close>

text \<open>The relation between storage driver and cleanup disposition that every record must satisfy.\<close>

definition disposition_ok :: "string \<Rightarrow> string \<Rightarrow> bool" where
  "disposition_ok driver disposition \<longleftrightarrow>
     disposition \<in> {''delete'', ''detach'', ''handover''} \<and>
     (driver = ''cephext'' \<longrightarrow> disposition = ''detach'') \<and>
     (disposition = ''detach'' \<longrightarrow> driver \<in> {''ceph'', ''cephext''}) \<and>
     (disposition = ''handover'' \<longrightarrow> driver = ''ceph'')"

definition materialization_terminal :: "materialization_proof \<Rightarrow> bool" where
  "materialization_terminal p =
     (if p_outcome p = ''not-materialized'' then
        p_state p = ''aborted'' \<and> m_storage_phase p = ''none'' \<and>
        \<not> m_started p \<and> m_finished p \<and>
        (p_cleanup_disposition p \<in> {''detach'', ''handover''} \<or> p_storage_identity p = [])
      else
        p_state p = ''clean'' \<and> m_storage_phase p = ''clean'' \<and> m_started p \<and> m_finished p)"

text \<open>
  The checks before the outcome, those of the outcome, and the digest last, named apart
  because the storage protocol reads outcome and digest from untyped replies.
\<close>

definition materialization_storage_checks :: "materialization_proof \<Rightarrow> unit result" where
  "materialization_storage_checks p =
     rbind (map_result materialization_id_arg
              [p_token p, p_allocation_id p, p_compute_id p, p_owner p]) (\<lambda>_.
     rbind (map_result (\<lambda>v. receipt_text v False)
              [p_project p, p_storage_driver p, p_storage_pool p, p_storage_volume p]) (\<lambda>_.
     rbind (instance_name_arg (p_instance_name p)) (\<lambda>_.
     rbind (receipt_text (p_rbd_image p) True) (\<lambda>_.
     rbind (receipt_text (p_storage_identity p) True) (\<lambda>_.
     rbind (check (p_baseline_clean p) ConfigurationError) (\<lambda>_.
     rbind (check (idmap_range_ok (p_idmap_base p) (p_idmap_size p)) ConfigurationError) (\<lambda>_.
     rbind (check (disposition_ok (p_storage_driver p) (p_cleanup_disposition p))
              ConfigurationError) (\<lambda>_.
     check (p_cleanup_disposition p \<in> {''detach'', ''handover''} \<longrightarrow> p_storage_identity p \<noteq> [])
       ConfigurationError))))))))"

definition materialization_outcome_checks :: "materialization_proof \<Rightarrow> unit result" where
  "materialization_outcome_checks p =
     rbind (check (p_outcome p \<in> {''not-materialized'', ''reconciled-clean''})
              ConfigurationError) (\<lambda>_.
     rbind (check (materialization_terminal p) ConfigurationError) (\<lambda>_.
     check (\<not> (p_outcome p = ''reconciled-clean'' \<and>
              p_cleanup_disposition p \<in> {''detach'', ''handover''} \<and>
              p_storage_driver p \<in> {''ceph'', ''cephext''} \<and> p_storage_identity p = []))
       ConfigurationError))"

definition validate_materialization_proof :: "'b lib \<Rightarrow> materialization_proof \<Rightarrow> unit result" where
  "validate_materialization_proof L p =
     rbind (materialization_storage_checks p) (\<lambda>_.
     rbind (materialization_outcome_checks p) (\<lambda>_.
     check (digest_format_ok (p_digest p) \<and> p_digest p = materialization_digest L p)
       ConfigurationError))"

text \<open>The outcomes a release may report for its storage driver and cleanup disposition.\<close>

definition release_outcomes :: "string \<Rightarrow> string \<Rightarrow> string set" where
  "release_outcomes driver disposition =
     (if driver = ''cephext'' then {''normalized'', ''detached''}
      else if driver = ''ceph'' then
        (if disposition = ''delete'' then {''deleted'', ''detached''}
         else if disposition = ''detach'' then {''detached''}
         else {''deleted'', ''detached''})
      else {''deleted''})"

definition release_storage_checks :: "release_proof \<Rightarrow> unit result" where
  "release_storage_checks p =
     rbind (map_result materialization_id_arg
              [p_token p, p_allocation_id p, p_compute_id p, r_materialization_id p, p_owner p]) (\<lambda>_.
     rbind (check (p_token p = r_materialization_id p) ConfigurationError) (\<lambda>_.
     rbind (instance_name_arg (p_instance_name p)) (\<lambda>_.
     rbind (map_result (\<lambda>v. receipt_text v False)
              [p_project p, p_storage_driver p, p_storage_pool p, p_storage_volume p]) (\<lambda>_.
     rbind (receipt_text (p_rbd_image p) True) (\<lambda>_.
     rbind (receipt_text (p_storage_identity p) True) (\<lambda>_.
     rbind (check (p_baseline_clean p) ConfigurationError) (\<lambda>_.
     rbind (check (p_cleanup_disposition p \<in> {''delete'', ''detach'', ''handover''})
              ConfigurationError) (\<lambda>_.
     check (idmap_range_ok (p_idmap_base p) (p_idmap_size p)) ConfigurationError))))))))"

definition release_outcome_checks :: "release_proof \<Rightarrow> unit result" where
  "release_outcome_checks p =
     rbind (check (p_outcome p \<in> {''deleted'', ''normalized'', ''detached''} \<and>
                   p_state p = ''complete'' \<and> 0 < r_created_at p \<and>
                   r_created_at p \<le> r_completed_at p) ConfigurationError) (\<lambda>_.
     rbind (check (p_storage_driver p \<in> {''ceph'', ''cephext''} \<longrightarrow> p_storage_identity p \<noteq> [])
              ConfigurationError) (\<lambda>_.
     rbind (check (disposition_ok (p_storage_driver p) (p_cleanup_disposition p))
              ConfigurationError) (\<lambda>_.
     check (p_outcome p \<in> release_outcomes (p_storage_driver p) (p_cleanup_disposition p))
       ConfigurationError)))"

definition validate_release_proof :: "'b lib \<Rightarrow> release_proof \<Rightarrow> unit result" where
  "validate_release_proof L p =
     rbind (release_storage_checks p) (\<lambda>_.
     rbind (release_outcome_checks p) (\<lambda>_.
     check (digest_format_ok (p_digest p) \<and> p_digest p = release_digest L p)
       ConfigurationError))"

definition proof_from_receipt :: "'b lib \<Rightarrow> release_receipt \<Rightarrow> release_proof result" where
  "proof_from_receipt L r = rbind (validate_release_proof L r) (\<lambda>_. Inr r)"

fun validate_cleanup_proof :: "'b lib \<Rightarrow> cleanup_proof \<Rightarrow> unit result" where
  "validate_cleanup_proof L (Materialization p) = validate_materialization_proof L p"
| "validate_cleanup_proof L (Release p) = validate_release_proof L p"

definition validate_fence_proof :: "fence_proof \<Rightarrow> unit result" where
  "validate_fence_proof p =
     rbind (check (list_all (\<lambda>v. strip_chars is_space v \<noteq> [])
              [f_instance_uuid p, f_host_id p, f_allocation_id p, f_fence_agent p,
               f_fenced_at p, f_operator p, f_evidence p]) IntegrityError) (\<lambda>_.
     check (list_all is_uuid_like [f_instance_uuid p, f_host_id p, f_allocation_id p])
       IntegrityError)"

section \<open>The JSON form of a proof\<close>

definition proof_base_fields :: "'x proof_base_scheme \<Rightarrow> fields" where
  "proof_base_fields p =
     [(''token'', JStr (p_token p)),
      (''allocation_id'', JStr (p_allocation_id p)),
      (''compute_id'', JStr (p_compute_id p)),
      (''owner'', JStr (p_owner p)),
      (''project'', JStr (p_project p)),
      (''instance_name'', JStr (p_instance_name p)),
      (''idmap_base'', JInt (p_idmap_base p)),
      (''idmap_size'', JInt (p_idmap_size p)),
      (''storage_driver'', JStr (p_storage_driver p)),
      (''storage_pool'', JStr (p_storage_pool p)),
      (''storage_volume'', JStr (p_storage_volume p)),
      (''rbd_image'', JStr (p_rbd_image p)),
      (''storage_identity'', JStr (p_storage_identity p)),
      (''baseline_clean'', JBool (p_baseline_clean p)),
      (''cleanup_disposition'', JStr (p_cleanup_disposition p)),
      (''state'', JStr (p_state p)),
      (''outcome'', JStr (p_outcome p)),
      (''digest'', JStr (p_digest p))]"

definition proof_base_keys :: "string list" where
  "proof_base_keys =
     [''token'', ''allocation_id'', ''compute_id'', ''owner'', ''project'', ''instance_name'',
      ''idmap_base'', ''idmap_size'', ''storage_driver'', ''storage_pool'', ''storage_volume'',
      ''rbd_image'', ''storage_identity'', ''baseline_clean'', ''cleanup_disposition'',
      ''state'', ''outcome'', ''digest'']"

fun proof_value :: "cleanup_proof \<Rightarrow> json" where
  "proof_value (Materialization p) =
     JObj (proof_base_fields p @
       [(''storage_phase'', JStr (m_storage_phase p)),
        (''started'', JBool (m_started p)),
        (''finished'', JBool (m_finished p)),
        (''kind'', JStr ''materialization-attempt'')])"
| "proof_value (Release p) =
     JObj (proof_base_fields p @
       [(''materialization_id'', JStr (r_materialization_id p)),
        (''created_at'', JInt (r_created_at p)),
        (''completed_at'', JInt (r_completed_at p)),
        (''kind'', JStr ''storage-release-receipt'')])"

fun cleanup_proof_value :: "cleanup_proof option \<Rightarrow> json" where
  "cleanup_proof_value None = JNull"
| "cleanup_proof_value (Some p) = proof_value p"

text \<open>
  Reading a stored proof: a keyword argument missing or left over is the TypeError of the
  dataclass constructor. A field of the wrong type is refused by the validator that runs
  next; the model refuses it when the field is read.
\<close>

definition str_f :: "fields \<Rightarrow> string \<Rightarrow> string result" where
  "str_f kvs k = (case as_str (jget kvs k) of None \<Rightarrow> Inl ConfigurationError | Some s \<Rightarrow> Inr s)"

definition int_f :: "fields \<Rightarrow> string \<Rightarrow> int result" where
  "int_f kvs k = (case as_int (jget kvs k) of None \<Rightarrow> Inl ConfigurationError | Some s \<Rightarrow> Inr s)"

definition bool_f :: "fields \<Rightarrow> string \<Rightarrow> bool result" where
  "bool_f kvs k = (case as_bool (jget kvs k) of None \<Rightarrow> Inl ConfigurationError | Some s \<Rightarrow> Inr s)"

definition read_proof_base :: "fields \<Rightarrow> proof_base result" where
  "read_proof_base kvs =
     rbind (str_f kvs ''token'') (\<lambda>token.
     rbind (str_f kvs ''allocation_id'') (\<lambda>allocation.
     rbind (str_f kvs ''compute_id'') (\<lambda>compute.
     rbind (str_f kvs ''owner'') (\<lambda>owner.
     rbind (str_f kvs ''project'') (\<lambda>project.
     rbind (str_f kvs ''instance_name'') (\<lambda>name.
     rbind (int_f kvs ''idmap_base'') (\<lambda>base.
     rbind (int_f kvs ''idmap_size'') (\<lambda>sz.
     rbind (str_f kvs ''storage_driver'') (\<lambda>driver.
     rbind (str_f kvs ''storage_pool'') (\<lambda>pool.
     rbind (str_f kvs ''storage_volume'') (\<lambda>volume.
     rbind (str_f kvs ''rbd_image'') (\<lambda>rbd.
     rbind (str_f kvs ''storage_identity'') (\<lambda>identity.
     rbind (bool_f kvs ''baseline_clean'') (\<lambda>clean.
     rbind (str_f kvs ''cleanup_disposition'') (\<lambda>disposition.
     rbind (str_f kvs ''state'') (\<lambda>st.
     rbind (str_f kvs ''outcome'') (\<lambda>outcome.
     rbind (str_f kvs ''digest'') (\<lambda>digest.
     Inr \<lparr>p_token = token, p_allocation_id = allocation, p_compute_id = compute,
          p_owner = owner, p_project = project, p_instance_name = name,
          p_idmap_base = base, p_idmap_size = sz, p_storage_driver = driver,
          p_storage_pool = pool, p_storage_volume = volume, p_rbd_image = rbd,
          p_storage_identity = identity, p_baseline_clean = clean,
          p_cleanup_disposition = disposition, p_state = st, p_outcome = outcome,
          p_digest = digest\<rparr>))))))))))))))))))"

definition read_materialization_proof :: "fields \<Rightarrow> materialization_proof result" where
  "read_materialization_proof kvs =
     rbind (check (key_set kvs - {''kind''} =
                   set (proof_base_keys @ [''storage_phase'', ''started'', ''finished'']))
              (PyException TypeError)) (\<lambda>_.
     rbind (read_proof_base kvs) (\<lambda>b.
     rbind (str_f kvs ''storage_phase'') (\<lambda>phase.
     rbind (bool_f kvs ''started'') (\<lambda>started.
     rbind (bool_f kvs ''finished'') (\<lambda>finished.
     Inr (proof_base.extend b (materialization_proof.fields phase started finished)))))))"

definition read_release_proof :: "fields \<Rightarrow> release_proof result" where
  "read_release_proof kvs =
     rbind (check (key_set kvs - {''kind''} =
                   set (proof_base_keys @ [''materialization_id'', ''created_at'', ''completed_at'']))
              (PyException TypeError)) (\<lambda>_.
     rbind (read_proof_base kvs) (\<lambda>b.
     rbind (str_f kvs ''materialization_id'') (\<lambda>mid.
     rbind (int_f kvs ''created_at'') (\<lambda>created.
     rbind (int_f kvs ''completed_at'') (\<lambda>completed.
     Inr (proof_base.extend b (release_proof.fields mid created completed)))))))"

definition parse_cleanup_proof :: "'b lib \<Rightarrow> json \<Rightarrow> cleanup_proof option result" where
  "parse_cleanup_proof L v =
     (case v of
        JNull \<Rightarrow> Inr None
      | JObj kvs \<Rightarrow>
          (if jget kvs ''kind'' = JStr ''materialization-attempt'' then
             except_r (\<lambda>e. e = PyException TypeError) IntegrityError
               (rbind (read_materialization_proof kvs) (\<lambda>p.
                rbind (validate_materialization_proof L p) (\<lambda>_. Inr (Some (Materialization p)))))
           else if jget kvs ''kind'' = JStr ''storage-release-receipt'' then
             except_r (\<lambda>e. e = PyException TypeError) IntegrityError
               (rbind (read_release_proof kvs) (\<lambda>p.
                rbind (validate_release_proof L p) (\<lambda>_. Inr (Some (Release p)))))
           else Inl IntegrityError)
      | _ \<Rightarrow> Inl IntegrityError)"

subsection \<open>The stored form reads back\<close>

lemma field_reads [simp]:
  "str_f kvs k = Inr s \<longleftrightarrow> jget kvs k = JStr s"
  "int_f kvs k = Inr i \<longleftrightarrow> jget kvs k = JInt i"
  "bool_f kvs k = Inr b \<longleftrightarrow> jget kvs k = JBool b"
  by (auto simp: str_f_def int_f_def bool_f_def split: option.splits)

lemma field_read_eqs:
  "jget kvs k = JStr s \<Longrightarrow> str_f kvs k = Inr s"
  "jget kvs k = JInt i \<Longrightarrow> int_f kvs k = Inr i"
  "jget kvs k = JBool b \<Longrightarrow> bool_f kvs k = Inr b"
  by simp_all

lemma jget_append:
  "jget (xs @ ys) k = (if k \<in> key_set xs then jget xs k else jget ys k)"
proof (cases "map_of xs k")
  case None
  then have "k \<notin> key_set xs" by (simp add: key_set_def map_of_eq_None_iff)
  with None show ?thesis by (simp add: jget_def map_add_def split: option.splits)
next
  case (Some v)
  then have "k \<in> key_set xs" by (force simp: key_set_def dest: map_of_SomeD)
  with Some show ?thesis by (simp add: jget_def map_add_def split: option.splits)
qed

lemma key_set_append [simp]: "key_set (xs @ ys) = key_set xs \<union> key_set ys"
  by (auto simp: key_set_def)

lemma key_set_proof_base_fields [simp]: "key_set (proof_base_fields p) = set proof_base_keys"
  by (simp add: proof_base_fields_def proof_base_keys_def)

text \<open>The fields as the reader sees them, whatever their order in the text.\<close>

lemma distinct_proof_base_keys: "distinct proof_base_keys"
  by (simp add: proof_base_keys_def)

lemma map_fst_proof_base_fields [simp]: "map fst (proof_base_fields p) = proof_base_keys"
  by (simp add: proof_base_fields_def proof_base_keys_def)

lemma key_set_set: "key_set kvs = set (map fst kvs)"
  by (simp add: key_set_def)

lemma read_proof_base_sorted:
  assumes "\<And>k. k \<in> set proof_base_keys \<Longrightarrow> jget kvs k = sort_keys (jget (proof_base_fields p) k)"
  shows "read_proof_base kvs = Inr (proof_base.truncate p)"
proof -
  have reads:
    "jget kvs ''token'' = JStr (p_token p)"
    "jget kvs ''allocation_id'' = JStr (p_allocation_id p)"
    "jget kvs ''compute_id'' = JStr (p_compute_id p)"
    "jget kvs ''owner'' = JStr (p_owner p)"
    "jget kvs ''project'' = JStr (p_project p)"
    "jget kvs ''instance_name'' = JStr (p_instance_name p)"
    "jget kvs ''idmap_base'' = JInt (p_idmap_base p)"
    "jget kvs ''idmap_size'' = JInt (p_idmap_size p)"
    "jget kvs ''storage_driver'' = JStr (p_storage_driver p)"
    "jget kvs ''storage_pool'' = JStr (p_storage_pool p)"
    "jget kvs ''storage_volume'' = JStr (p_storage_volume p)"
    "jget kvs ''rbd_image'' = JStr (p_rbd_image p)"
    "jget kvs ''storage_identity'' = JStr (p_storage_identity p)"
    "jget kvs ''baseline_clean'' = JBool (p_baseline_clean p)"
    "jget kvs ''cleanup_disposition'' = JStr (p_cleanup_disposition p)"
    "jget kvs ''state'' = JStr (p_state p)"
    "jget kvs ''outcome'' = JStr (p_outcome p)"
    "jget kvs ''digest'' = JStr (p_digest p)"
    by (simp_all add: assms proof_base_keys_def proof_base_fields_def)
  show ?thesis
    by (simp add: read_proof_base_def reads field_read_eqs proof_base.truncate_def)
qed

lemma extend_truncate_materialization:
  "proof_base.extend (proof_base.truncate p)
     (materialization_proof.fields (m_storage_phase p) (m_started p) (m_finished p)) =
   (p :: materialization_proof)"
  by (cases p) (simp add: proof_base.defs materialization_proof.defs)

lemma extend_truncate_release:
  "proof_base.extend (proof_base.truncate p)
     (release_proof.fields (r_materialization_id p) (r_created_at p) (r_completed_at p)) =
   (p :: release_proof)"
  by (cases p) (simp add: proof_base.defs release_proof.defs)

text \<open>The fields of a stored proof, and what \<open>proof_value\<close> makes of them.\<close>

fun proof_fields :: "cleanup_proof \<Rightarrow> fields" where
  "proof_fields (Materialization p) =
     proof_base_fields p @
       [(''storage_phase'', JStr (m_storage_phase p)),
        (''started'', JBool (m_started p)),
        (''finished'', JBool (m_finished p)),
        (''kind'', JStr ''materialization-attempt'')]"
| "proof_fields (Release p) =
     proof_base_fields p @
       [(''materialization_id'', JStr (r_materialization_id p)),
        (''created_at'', JInt (r_created_at p)),
        (''completed_at'', JInt (r_completed_at p)),
        (''kind'', JStr ''storage-release-receipt'')]"

lemma proof_value_fields: "proof_value p = JObj (proof_fields p)"
  by (cases p) simp_all

lemma distinct_proof_fields: "distinct (map fst (proof_fields p))"
  by (cases p) (simp_all add: proof_base_keys_def)

lemma json_wf_proof_base_fields: "(k, v) \<in> set (proof_base_fields p) \<Longrightarrow> json_wf v"
  by (auto simp: proof_base_fields_def)

lemma json_wf_proof_value [simp]: "json_wf (proof_value p)"
  using distinct_proof_fields [of p]
  by (cases p) (auto simp: proof_value_fields dest: json_wf_proof_base_fields)

lemma json_wf_cleanup_proof_value [simp]: "json_wf (cleanup_proof_value p)"
  by (cases p) simp_all

lemma proof_base_keys_mem:
  "''storage_phase'' \<notin> set proof_base_keys" "''started'' \<notin> set proof_base_keys"
  "''finished'' \<notin> set proof_base_keys" "''kind'' \<notin> set proof_base_keys"
  "''materialization_id'' \<notin> set proof_base_keys" "''created_at'' \<notin> set proof_base_keys"
  "''completed_at'' \<notin> set proof_base_keys"
  by (simp_all add: proof_base_keys_def)

lemma parse_proof_value:
  assumes "validate_cleanup_proof L p = Inr ()"
  shows "parse_cleanup_proof L (sort_keys (proof_value p)) = Inr (Some p)"
proof -
  define kvs where "kvs = sorted_fields (proof_fields p)"
  have g: "jget kvs k = sort_keys (jget (proof_fields p) k)" for k
    unfolding kvs_def by (rule jget_sorted_fields [OF distinct_proof_fields])
  have ks: "key_set kvs = key_set (proof_fields p)"
    by (simp add: kvs_def)
  have v: "sort_keys (proof_value p) = JObj kvs"
    by (simp add: kvs_def proof_value_fields sort_keys_obj)
  show ?thesis
  proof (cases p)
    case (Materialization m)
    have "read_proof_base kvs = Inr (proof_base.truncate m)"
      by (rule read_proof_base_sorted) (simp add: g Materialization jget_append)
    then have "read_materialization_proof kvs = Inr m"
      by (simp add: read_materialization_proof_def g ks Materialization jget_append
          proof_base_keys_mem field_read_eqs extend_truncate_materialization
          insert_Diff_if insert_commute)
    then show ?thesis
      using assms unfolding v by (simp add: parse_cleanup_proof_def g ks Materialization jget_append
          proof_base_keys_mem)
  next
    case (Release r)
    have "read_proof_base kvs = Inr (proof_base.truncate r)"
      by (rule read_proof_base_sorted) (simp add: g Release jget_append)
    then have "read_release_proof kvs = Inr r"
      by (simp add: read_release_proof_def g ks Release jget_append
          proof_base_keys_mem field_read_eqs extend_truncate_release
          insert_Diff_if insert_commute)
    then show ?thesis
      using assms unfolding v by (simp add: parse_cleanup_proof_def g ks Release jget_append
          proof_base_keys_mem)
  qed
qed

lemma parse_cleanup_proof_value:
  assumes "\<And>q. p = Some q \<Longrightarrow> validate_cleanup_proof L q = Inr ()"
  shows "parse_cleanup_proof L (sort_keys (cleanup_proof_value p)) = Inr p"
  using assms parse_proof_value by (cases p) (auto simp: parse_cleanup_proof_def)

lemma parse_cleanup_proof_valid:
  assumes "parse_cleanup_proof L v = Inr (Some p)"
  shows "validate_cleanup_proof L p = Inr ()"
  using assms by (auto simp: parse_cleanup_proof_def split: json.splits if_splits)

section \<open>What the validators establish\<close>

lemma map_result_unit: "map_result (\<lambda>v. receipt_text v e) xs = Inr us \<Longrightarrow> \<forall>x \<in> set xs. receipt_text_ok x e"
  by (induction xs arbitrary: us) (auto simp: receipt_text_def)

lemma validate_materialization_proof_iff:
  "validate_materialization_proof L p = Inr () \<longleftrightarrow>
     list_all canonical_uuid [p_token p, p_allocation_id p, p_compute_id p, p_owner p] \<and>
     list_all (\<lambda>v. receipt_text_ok v False)
       [p_project p, p_storage_driver p, p_storage_pool p, p_storage_volume p] \<and>
     instance_name_ok (p_instance_name p) \<and>
     printable (p_rbd_image p) \<and> printable (p_storage_identity p) \<and> p_baseline_clean p \<and>
     idmap_range_ok (p_idmap_base p) (p_idmap_size p) \<and>
     disposition_ok (p_storage_driver p) (p_cleanup_disposition p) \<and>
     (p_cleanup_disposition p \<in> {''detach'', ''handover''} \<longrightarrow> p_storage_identity p \<noteq> []) \<and>
     p_outcome p \<in> {''not-materialized'', ''reconciled-clean''} \<and>
     materialization_terminal p \<and>
     digest_format_ok (p_digest p) \<and> p_digest p = materialization_digest L p"
  by (auto simp: validate_materialization_proof_def materialization_storage_checks_def
      materialization_outcome_checks_def rbind_Inr_conv receipt_text_def
      receipt_text_ok_def)

lemma validate_release_proof_iff:
  "validate_release_proof L p = Inr () \<longleftrightarrow>
     list_all canonical_uuid
       [p_token p, p_allocation_id p, p_compute_id p, r_materialization_id p, p_owner p] \<and>
     p_token p = r_materialization_id p \<and> instance_name_ok (p_instance_name p) \<and>
     list_all (\<lambda>v. receipt_text_ok v False)
       [p_project p, p_storage_driver p, p_storage_pool p, p_storage_volume p] \<and>
     printable (p_rbd_image p) \<and> printable (p_storage_identity p) \<and> p_baseline_clean p \<and>
     idmap_range_ok (p_idmap_base p) (p_idmap_size p) \<and>
     p_state p = ''complete'' \<and> 0 < r_created_at p \<and> r_created_at p \<le> r_completed_at p \<and>
     (p_storage_driver p \<in> {''ceph'', ''cephext''} \<longrightarrow> p_storage_identity p \<noteq> []) \<and>
     disposition_ok (p_storage_driver p) (p_cleanup_disposition p) \<and>
     p_outcome p \<in> release_outcomes (p_storage_driver p) (p_cleanup_disposition p) \<and>
     digest_format_ok (p_digest p) \<and> p_digest p = release_digest L p"
  by (auto simp: validate_release_proof_def release_storage_checks_def
      release_outcome_checks_def rbind_Inr_conv receipt_text_def
      receipt_text_ok_def disposition_ok_def release_outcomes_def split: if_splits)

end
