(* ===== verification/Idmap_Codec.thy ===== *)
theory Idmap_Codec
  imports Idmap_Proofs
begin

text \<open>
  The registry's keys and records: the functions of idmap.py that build a key, write a
  record canonically and read it back (assignment, release intent, host claim, fence ledger
  entry, audit coordinator, audit failure, configuration). For each record one lemma
  characterises its reader: it accepts exactly the canonical bytes of a valid record.
\<close>

section \<open>Keys\<close>

definition configuration_key :: "'b allocator \<Rightarrow> string" where
  "configuration_key A = al_prefix A @ ''/config''"

definition audit_coordinator_key :: "'b allocator \<Rightarrow> string" where
  "audit_coordinator_key A = al_control_prefix A @ ''/coordinator''"

definition audit_failure_key :: "'b allocator \<Rightarrow> string" where
  "audit_failure_key A = al_control_prefix A @ ''/failure''"

text \<open>
  The \<open>_of\<close> functions are the key formats; \<open>instance_key\<close> and its kin add the argument
  check of the method. Callers that already checked their argument use the format.
\<close>

definition instance_key_of :: "'b allocator \<Rightarrow> string \<Rightarrow> string" where
  "instance_key_of A u = al_prefix A @ ''/instances/'' @ u"

definition slot_key_of :: "'b allocator \<Rightarrow> int \<Rightarrow> string" where
  "slot_key_of A slot = al_prefix A @ ''/slots/'' @ int_dec slot"

definition release_key_of :: "'b allocator \<Rightarrow> string \<Rightarrow> string" where
  "release_key_of A u = al_prefix A @ ''/releases/'' @ u"

definition host_claim_key_of :: "'b allocator \<Rightarrow> string \<Rightarrow> string \<Rightarrow> string" where
  "host_claim_key_of A h u = al_prefix A @ ''/hosts/'' @ h @ ''/'' @ u"

definition fence_key_of :: "'b allocator \<Rightarrow> string \<Rightarrow> string \<Rightarrow> string" where
  "fence_key_of A h u = al_prefix A @ ''/fences/'' @ h @ ''/'' @ u"

definition instance_key :: "'b allocator \<Rightarrow> string \<Rightarrow> string result" where
  "instance_key A u = rbind (instance_uuid_arg u) (\<lambda>v. Inr (instance_key_of A v))"

definition slot_key :: "'b allocator \<Rightarrow> int \<Rightarrow> string result" where
  "slot_key A slot =
     rbind (positive_int slot True) (\<lambda>s.
       if al_count A \<le> s then Inl ConfigurationError else Inr (slot_key_of A s))"

definition release_key :: "'b allocator \<Rightarrow> string \<Rightarrow> string result" where
  "release_key A u = rbind (instance_uuid_arg u) (\<lambda>v. Inr (release_key_of A v))"

definition host_claim_key :: "'b allocator \<Rightarrow> string \<Rightarrow> string \<Rightarrow> string result" where
  "host_claim_key A h u =
     rbind (host_id_arg h) (\<lambda>h'. rbind (instance_uuid_arg u) (\<lambda>u'. Inr (host_claim_key_of A h' u')))"

definition fence_key :: "'b allocator \<Rightarrow> string \<Rightarrow> string \<Rightarrow> string result" where
  "fence_key A h u =
     rbind (host_id_arg h) (\<lambda>h'. rbind (instance_uuid_arg u) (\<lambda>u'. Inr (fence_key_of A h' u')))"

lemmas key_of_defs =
  instance_key_of_def slot_key_of_def release_key_of_def host_claim_key_of_def fence_key_of_def
  configuration_key_def

lemma append_slash_inject:
  assumes "CHR ''/'' \<notin> set h" and "CHR ''/'' \<notin> set h'"
  shows "h @ CHR ''/'' # u = h' @ CHR ''/'' # u' \<longleftrightarrow> h = h' \<and> u = u'"
proof
  assume eq: "h @ CHR ''/'' # u = h' @ CHR ''/'' # u'"
  then have "split_on CHR ''/'' (h @ CHR ''/'' # u) = split_on CHR ''/'' (h' @ CHR ''/'' # u')"
    by (simp only:)
  then have "h = h'" using assms by (simp add: split_on_append)
  with eq show "h = h' \<and> u = u'" by simp
qed simp

lemma key_of_inject [simp]:
  "instance_key_of A u = instance_key_of A u' \<longleftrightarrow> u = u'"
  "slot_key_of A s = slot_key_of A s' \<longleftrightarrow> s = s'"
  "release_key_of A u = release_key_of A u' \<longleftrightarrow> u = u'"
  by (simp_all add: key_of_defs)

lemma pair_key_inject [simp]:
  assumes "canonical_uuid h" and "canonical_uuid h'"
  shows "host_claim_key_of A h u = host_claim_key_of A h' u' \<longleftrightarrow> h = h' \<and> u = u'"
    and "fence_key_of A h u = fence_key_of A h' u' \<longleftrightarrow> h = h' \<and> u = u'"
  using assms
  by (simp_all add: key_of_defs append_slash_inject canonical_uuid_no_slash)

lemma key_of_distinct [simp]:
  "instance_key_of A u \<noteq> slot_key_of A s" "slot_key_of A s \<noteq> instance_key_of A u"
  "instance_key_of A u \<noteq> release_key_of A u'" "release_key_of A u' \<noteq> instance_key_of A u"
  "instance_key_of A u \<noteq> host_claim_key_of A h u'" "host_claim_key_of A h u' \<noteq> instance_key_of A u"
  "instance_key_of A u \<noteq> fence_key_of A h u'" "fence_key_of A h u' \<noteq> instance_key_of A u"
  "instance_key_of A u \<noteq> configuration_key A" "configuration_key A \<noteq> instance_key_of A u"
  "slot_key_of A s \<noteq> release_key_of A u" "release_key_of A u \<noteq> slot_key_of A s"
  "slot_key_of A s \<noteq> host_claim_key_of A h u" "host_claim_key_of A h u \<noteq> slot_key_of A s"
  "slot_key_of A s \<noteq> fence_key_of A h u" "fence_key_of A h u \<noteq> slot_key_of A s"
  "slot_key_of A s \<noteq> configuration_key A" "configuration_key A \<noteq> slot_key_of A s"
  "release_key_of A u \<noteq> host_claim_key_of A h u'" "host_claim_key_of A h u' \<noteq> release_key_of A u"
  "release_key_of A u \<noteq> fence_key_of A h u'" "fence_key_of A h u' \<noteq> release_key_of A u"
  "release_key_of A u \<noteq> configuration_key A" "configuration_key A \<noteq> release_key_of A u"
  "host_claim_key_of A h u \<noteq> fence_key_of A h' u'" "fence_key_of A h' u' \<noteq> host_claim_key_of A h u"
  "host_claim_key_of A h u \<noteq> configuration_key A" "configuration_key A \<noteq> host_claim_key_of A h u"
  "fence_key_of A h u \<noteq> configuration_key A" "configuration_key A \<noteq> fence_key_of A h u"
  by (simp_all add: key_of_defs)

text \<open>The records of a namespace are below its prefix; the audit control records are not.\<close>

definition in_namespace :: "'b allocator \<Rightarrow> string \<Rightarrow> bool" where
  "in_namespace A k \<longleftrightarrow> starts_with (al_prefix A @ ''/'') k"

lemma in_namespace_keys [simp]:
  "in_namespace A (instance_key_of A u)" "in_namespace A (slot_key_of A s)"
  "in_namespace A (release_key_of A u)" "in_namespace A (host_claim_key_of A h u)"
  "in_namespace A (fence_key_of A h u)" "in_namespace A (configuration_key A)"
  by (simp_all add: in_namespace_def key_of_defs)

lemma control_keys_outside [simp]:
  "\<not> in_namespace A (audit_coordinator_key A)" "\<not> in_namespace A (audit_failure_key A)"
  by (simp_all add: in_namespace_def audit_coordinator_key_def audit_failure_key_def
      al_prefix_def al_control_prefix_def)

lemma control_keys_distinct [simp]:
  "audit_coordinator_key A \<noteq> audit_failure_key A" "audit_failure_key A \<noteq> audit_coordinator_key A"
  by (simp_all add: audit_coordinator_key_def audit_failure_key_def)

lemma outside_namespace_neq:
  "\<not> in_namespace A k \<Longrightarrow> in_namespace A k' \<Longrightarrow> k \<noteq> k'"
  by auto

section \<open>Valid records\<close>

definition valid_generation :: "'b allocator \<Rightarrow> 'x generation_scheme \<Rightarrow> bool" where
  "valid_generation A g \<longleftrightarrow>
     canonical_uuid (instance_uuid g) \<and> canonical_uuid (allocation_id g) \<and>
     0 \<le> map_slot g \<and> map_slot g < al_count A \<and> map_size g = al_size A \<and>
     map_base g = slot_base A (map_slot g) \<and> fingerprint g = al_fingerprint A"

definition valid_assignment :: "'b allocator \<Rightarrow> assignment \<Rightarrow> bool" where
  "valid_assignment A a \<longleftrightarrow>
     valid_generation A a \<and> sorted (host_ids a) \<and> distinct (host_ids a) \<and>
     list_all canonical_uuid (host_ids a)"

definition valid_intent :: "'b allocator \<Rightarrow> release_intent \<Rightarrow> bool" where
  "valid_intent A i \<longleftrightarrow> valid_generation A i \<and> instance_name_ok (instance_name i)"

definition proof_binds :: "host_claim \<Rightarrow> proof_base \<Rightarrow> bool" where
  "proof_binds c p \<longleftrightarrow>
     p_token p = materialization_id c \<and> p_allocation_id p = allocation_id c \<and>
     p_compute_id p = host_id c \<and> p_owner p = instance_uuid c \<and>
     p_idmap_base p = map_base c \<and> p_idmap_size p = map_size c"

definition validate_claim_proof_binding :: "host_claim \<Rightarrow> unit result" where
  "validate_claim_proof_binding c =
     (case proof_of c of None \<Rightarrow> Inr ()
      | Some p \<Rightarrow> check (proof_binds c (proof_common p)) IntegrityError)"

definition valid_claim :: "'b allocator \<Rightarrow> host_claim \<Rightarrow> bool" where
  "valid_claim A c \<longleftrightarrow>
     valid_generation A c \<and> canonical_uuid (host_id c) \<and> canonical_uuid (materialization_id c) \<and>
     (state c = Cleaned) = (proof_of c \<noteq> None) \<and>
     (\<forall>p. proof_of c = Some p \<longrightarrow>
        validate_cleanup_proof (al_lib A) p = Inr () \<and> proof_binds c (proof_common p))"

section \<open>Assignment records\<close>

definition assignment_fields ::
  "'b allocator \<Rightarrow> string \<Rightarrow> int \<Rightarrow> string \<Rightarrow> string list \<Rightarrow> fields" where
  "assignment_fields A u slot aid hosts =
     [(''allocation_id'', JStr aid),
      (''base'', JInt (slot_base A slot)),
      (''fingerprint'', JStr (al_fingerprint A)),
      (''host_ids'', JList (map JStr hosts)),
      (''instance_uuid'', JStr u),
      (''schema'', JInt schema_version),
      (''size'', JInt (al_size A)),
      (''slot'', JInt slot)]"

definition assignment_raw ::
  "'b allocator \<Rightarrow> string \<Rightarrow> int \<Rightarrow> string \<Rightarrow> string list \<Rightarrow> 'b result" where
  "assignment_raw A u slot aid hosts =
     rbind (map_result host_id_arg (sorted_unique hosts)) (\<lambda>_.
     Inr (json_bytes (al_lib A) (JObj (assignment_fields A u slot aid (sorted_unique hosts)))))"

definition enc_assignment :: "'b allocator \<Rightarrow> assignment \<Rightarrow> 'b" where
  "enc_assignment A a =
     json_bytes (al_lib A)
       (JObj (assignment_fields A (instance_uuid a) (map_slot a) (allocation_id a) (host_ids a)))"

definition record_error :: "idmap_error \<Rightarrow> bool" where
  "record_error e \<longleftrightarrow>
     e \<in> {PyException AttributeError, PyException TypeError, PyException ValueError}"

definition assignment_keys :: "string list" where
  "assignment_keys =
     [''allocation_id'', ''base'', ''fingerprint'', ''host_ids'', ''instance_uuid'', ''schema'',
      ''size'', ''slot'']"

definition read_host_ids :: "json \<Rightarrow> string list result" where
  "read_host_ids v =
     (case v of
        JList xs \<Rightarrow>
          rbind (map_result (\<lambda>x. case x of JStr s \<Rightarrow> Inr s | _ \<Rightarrow> Inl IntegrityError) xs) (\<lambda>hs.
          if hs = sorted_unique hs then Inr hs else Inl IntegrityError)
      | _ \<Rightarrow> Inl IntegrityError)"

definition parse_assignment ::
  "'b allocator \<Rightarrow> 'b \<Rightarrow> string option \<Rightarrow> int option \<Rightarrow> assignment result" where
  "parse_assignment A raw expected_uuid expected_slot =
     (case l_loads (al_lib A) raw of
        Some (JObj v) \<Rightarrow>
          rbind (check (key_set v = set assignment_keys) IntegrityError) (\<lambda>_.
          rbind (read_host_ids (jget v ''host_ids'')) (\<lambda>hosts.
          rbind (except_r record_error IntegrityError
            (rbind (uuid_field (jget v ''instance_uuid'')) (\<lambda>u.
             rbind (py_int (jget v ''base'')) (\<lambda>base.
             rbind (py_int (jget v ''size'')) (\<lambda>sz.
             rbind (py_int (jget v ''slot'')) (\<lambda>slot.
             rbind (uuid_str_field (jget v ''allocation_id'')) (\<lambda>aid.
             assignment_post_init
               \<lparr>instance_uuid = u, map_base = base, map_size = sz, map_slot = slot,
                allocation_id = aid,
                fingerprint = py_str (al_lib A) (jget v ''fingerprint''),
                host_ids = hosts\<rparr>)))))))
            (\<lambda>a.
          rbind (check (fingerprint a = al_fingerprint A \<and>
                        py_eq_int (jget v ''schema'') schema_version \<and>
                        map_size a = al_size A \<and> 0 \<le> map_slot a \<and> map_slot a < al_count A \<and>
                        map_base a = al_base A + map_slot a * al_size A) IntegrityError) (\<lambda>_.
          rbind (check (\<forall>u \<in> set_option expected_uuid. instance_uuid a = u) IntegrityError) (\<lambda>_.
          rbind (check (\<forall>s \<in> set_option expected_slot. map_slot a = s) IntegrityError) (\<lambda>_.
          rbind (assignment_raw A (instance_uuid a) (map_slot a) (allocation_id a) (host_ids a))
            (\<lambda>canonical.
          if raw = canonical then Inr a else Inl IntegrityError)))))))
      | _ \<Rightarrow> Inl IntegrityError)"

lemma map_result_host_id: "map_result host_id_arg xs = Inr ys \<longleftrightarrow> list_all canonical_uuid xs \<and> ys = xs"
  by (induction xs arbitrary: ys) (auto simp: rbind_Inr_conv)

lemma map_result_host_id_ok [simp]: "list_all canonical_uuid xs \<Longrightarrow> map_result host_id_arg xs = Inr xs"
  by (simp add: map_result_host_id)

lemma assignment_raw_enc:
  assumes "valid_assignment A a"
  shows "assignment_raw A (instance_uuid a) (map_slot a) (allocation_id a) (host_ids a) =
         Inr (enc_assignment A a)"
proof -
  have "sorted_unique (host_ids a) = host_ids a"
    using assms by (simp add: valid_assignment_def sorted_unique_id)
  moreover have "list_all canonical_uuid (host_ids a)"
    using assms by (simp add: valid_assignment_def)
  ultimately show ?thesis by (simp add: assignment_raw_def enc_assignment_def)
qed

lemma map_result_JStr [simp]:
  "map_result (\<lambda>x. case x of JStr s \<Rightarrow> Inr s | _ \<Rightarrow> Inl IntegrityError) (map JStr hs) = Inr hs"
  by (induction hs) simp_all

lemma json_wf_assignment_fields [simp]: "json_wf (JObj (assignment_fields A u s aid hs))"
  by (simp add: assignment_fields_def)

lemma sort_keys_strs [simp]: "sort_keys (JList (map JStr hs)) = JList (map JStr hs)"
  by (simp add: comp_def)

lemma jget_assignment_fields:
  "jget (assignment_fields A u s aid hs) ''allocation_id'' = JStr aid"
  "jget (assignment_fields A u s aid hs) ''base'' = JInt (slot_base A s)"
  "jget (assignment_fields A u s aid hs) ''fingerprint'' = JStr (al_fingerprint A)"
  "jget (assignment_fields A u s aid hs) ''host_ids'' = JList (map JStr hs)"
  "jget (assignment_fields A u s aid hs) ''instance_uuid'' = JStr u"
  "jget (assignment_fields A u s aid hs) ''schema'' = JInt schema_version"
  "jget (assignment_fields A u s aid hs) ''size'' = JInt (al_size A)"
  "jget (assignment_fields A u s aid hs) ''slot'' = JInt s"
  "key_set (assignment_fields A u s aid hs) = set assignment_keys"
  by (simp_all add: assignment_fields_def assignment_keys_def)

lemma distinct_assignment_fields: "distinct (map fst (assignment_fields A u s aid hs))"
  by (simp add: assignment_fields_def)

lemma allocator_ok_codec [simp]: "allocator_ok A \<Longrightarrow> codec_ok (al_lib A)"
  by (simp add: allocator_ok_def)

lemma parse_enc_assignment:
  assumes ok: "allocator_ok A" and v: "valid_assignment A a"
    and u: "\<forall>x \<in> set_option eu. instance_uuid a = x"
    and s: "\<forall>x \<in> set_option es. map_slot a = x"
  shows "parse_assignment A (enc_assignment A a) eu es = Inr a"
proof -
  define f where "f = sorted_fields
    (assignment_fields A (instance_uuid a) (map_slot a) (allocation_id a) (host_ids a))"
  have load: "l_loads (al_lib A) (enc_assignment A a) = Some (JObj f)"
    using ok by (simp add: enc_assignment_def f_def loads_json_bytes del: json_wf.simps)
  have g: "jget f k = sort_keys (jget (assignment_fields A (instance_uuid a) (map_slot a)
      (allocation_id a) (host_ids a)) k)" for k
    by (simp add: f_def jget_sorted_fields distinct_assignment_fields)
  have ks: "key_set f = set assignment_keys"
    by (simp add: f_def jget_assignment_fields)
  have can: "canonical_uuid (instance_uuid a)" "uuid_str (allocation_id a) = Inr (allocation_id a)"
    using v by (simp_all add: valid_assignment_def valid_generation_def canonical_uuid_def)
  have hosts: "sorted_unique (host_ids a) = host_ids a" "list_all canonical_uuid (host_ids a)"
    using v by (simp_all add: valid_assignment_def sorted_unique_id)
  have rh: "read_host_ids (JList (map JStr (host_ids a))) = Inr (host_ids a)"
    by (simp add: read_host_ids_def hosts)
  have a: "\<lparr>instance_uuid = instance_uuid a, map_base = slot_base A (map_slot a),
      map_size = al_size A, map_slot = map_slot a, allocation_id = allocation_id a,
      fingerprint = al_fingerprint A, host_ids = host_ids a\<rparr> = a"
    using v by (cases a) (simp add: valid_assignment_def valid_generation_def)
  have b: "map_base a = al_base A + map_slot a * al_size A" "map_size a = al_size A"
    "fingerprint a = al_fingerprint A" "0 \<le> map_slot a" "map_slot a < al_count A"
    using v by (simp_all add: slot_base_def valid_assignment_def valid_generation_def)
  have post: "assignment_post_init a = Inr a"
    by (simp add: assignment_post_init_def hosts)
  have rh': "read_host_ids (jget f ''host_ids'') = Inr (host_ids a)"
    by (simp add: g jget_assignment_fields rh del: sort_keys.simps)
  have fields: "jget f ''instance_uuid'' = JStr (instance_uuid a)"
    "jget f ''base'' = JInt (slot_base A (map_slot a))" "jget f ''size'' = JInt (al_size A)"
    "jget f ''slot'' = JInt (map_slot a)" "jget f ''allocation_id'' = JStr (allocation_id a)"
    "jget f ''fingerprint'' = JStr (al_fingerprint A)" "jget f ''schema'' = JInt schema_version"
    by (simp_all add: g jget_assignment_fields)
  show ?thesis
    using u s v unfolding parse_assignment_def load option.case json.case
    by (simp add: ks rh' fields can uuid_field_def check_uuid_def a post assignment_raw_enc b)
qed

text \<open>
  The converse: what the reader accepts is valid and canonical. That the stored identifiers
  are canonical follows from the final comparison with the canonical bytes, because both
  texts denote the same JSON value.
\<close>

lemma loads_canonical_field:
  assumes "codec_ok L" and "json_wf (JObj fs)"
    and "l_loads L (json_bytes L (JObj fs)) = Some (JObj v)"
  shows "jget v k = sort_keys (jget fs k)"
proof -
  have "v = sorted_fields fs"
    using assms loads_json_bytes [OF assms(1,2)] by simp
  moreover have "distinct (map fst fs)" using assms(2) by simp
  ultimately show ?thesis by (simp add: jget_sorted_fields)
qed

lemma assignment_post_init_Inr:
  "assignment_post_init a = Inr b \<longleftrightarrow>
     b = a \<and> sorted (host_ids a) \<and> distinct (host_ids a) \<and> list_all canonical_uuid (host_ids a)"
  by (auto simp: assignment_post_init_def sorted_unique_eq_iff)

lemma parse_assignment_Inr:
  assumes ok: "allocator_ok A" and parse: "parse_assignment A raw eu es = Inr a"
  shows "valid_assignment A a" and "raw = enc_assignment A a"
    and "\<forall>x \<in> set_option eu. instance_uuid a = x" and "\<forall>x \<in> set_option es. map_slot a = x"
proof -
  obtain v where load: "l_loads (al_lib A) raw = Some (JObj v)"
    using parse by (auto simp: parse_assignment_def split: option.splits json.splits)
  from parse obtain hosts u base sz slot aid canonical where
    u: "jget v ''instance_uuid'' = JStr u" "canonical_uuid u"
    and aid: "uuid_str_field (jget v ''allocation_id'') = Inr aid"
    and a: "assignment_post_init
       \<lparr>instance_uuid = u, map_base = base, map_size = sz, map_slot = slot,
        allocation_id = aid, fingerprint = py_str (al_lib A) (jget v ''fingerprint''),
        host_ids = hosts\<rparr> = Inr a"
    and cfg: "fingerprint a = al_fingerprint A" "map_size a = al_size A" "0 \<le> map_slot a"
      "map_slot a < al_count A" "map_base a = al_base A + map_slot a * al_size A"
    and eu: "\<forall>x \<in> set_option eu. instance_uuid a = x"
    and es: "\<forall>x \<in> set_option es. map_slot a = x"
    and can: "assignment_raw A (instance_uuid a) (map_slot a) (allocation_id a) (host_ids a) =
        Inr canonical"
    and raw: "raw = canonical"
    unfolding parse_assignment_def load option.case json.case
    by (auto simp: rbind_Inr_conv split: if_splits)
  have a_eq: "instance_uuid a = u" "allocation_id a = aid"
    and hosts: "sorted (host_ids a)" "distinct (host_ids a)" "list_all canonical_uuid (host_ids a)"
    using a by (auto simp: assignment_post_init_Inr)
  have enc: "raw = enc_assignment A a"
    using can raw hosts by (simp add: assignment_raw_def enc_assignment_def sorted_unique_id)
  have "jget v ''allocation_id'' = JStr (allocation_id a)"
    using loads_canonical_field [OF allocator_ok_codec [OF ok] json_wf_assignment_fields
        load [unfolded enc enc_assignment_def], of "''allocation_id''"]
    by (simp add: jget_assignment_fields)
  with aid a_eq have "canonical_uuid (allocation_id a)"
    by (simp add: canonical_uuid_def)
  then show "valid_assignment A a"
    using u a_eq hosts cfg by (simp add: valid_assignment_def valid_generation_def slot_base_def)
  show "raw = enc_assignment A a" by (rule enc)
  show "\<forall>x \<in> set_option eu. instance_uuid a = x" by (rule eu)
  show "\<forall>x \<in> set_option es. map_slot a = x" by (rule es)
qed

lemma parse_assignment_iff:
  assumes "allocator_ok A"
  shows "parse_assignment A raw eu es = Inr a \<longleftrightarrow>
    valid_assignment A a \<and> raw = enc_assignment A a \<and>
    (\<forall>x \<in> set_option eu. instance_uuid a = x) \<and> (\<forall>x \<in> set_option es. map_slot a = x)"
proof
  assume p: "parse_assignment A raw eu es = Inr a"
  show "valid_assignment A a \<and> raw = enc_assignment A a \<and>
    (\<forall>x \<in> set_option eu. instance_uuid a = x) \<and> (\<forall>x \<in> set_option es. map_slot a = x)"
    by (intro conjI parse_assignment_Inr [OF assms p])
next
  assume v: "valid_assignment A a \<and> raw = enc_assignment A a \<and>
    (\<forall>x \<in> set_option eu. instance_uuid a = x) \<and> (\<forall>x \<in> set_option es. map_slot a = x)"
  have "parse_assignment A (enc_assignment A a) eu es = Inr a"
    using v by (elim conjE) (rule parse_enc_assignment [OF assms])
  with v show "parse_assignment A raw eu es = Inr a" by (elim conjE) (simp only:)
qed

lemma enc_assignment_inject:
  assumes "allocator_ok A" and "valid_assignment A a" and "valid_assignment A b"
  shows "enc_assignment A a = enc_assignment A b \<longleftrightarrow> a = b"
proof
  assume eq: "enc_assignment A a = enc_assignment A b"
  have "parse_assignment A (enc_assignment A a) None None = Inr a"
    by (rule parse_enc_assignment [OF assms(1,2)]) simp_all
  moreover have "parse_assignment A (enc_assignment A b) None None = Inr b"
    by (rule parse_enc_assignment [OF assms(1,3)]) simp_all
  ultimately show "a = b" unfolding eq by (simp only: sum.inject)
next
  assume "a = b"
  then show "enc_assignment A a = enc_assignment A b" by (rule arg_cong)
qed

section \<open>Release intents\<close>

definition intent_fields :: "'x generation_scheme \<Rightarrow> string \<Rightarrow> fields" where
  "intent_fields g name =
     [(''allocation_id'', JStr (allocation_id g)),
      (''base'', JInt (map_base g)),
      (''fingerprint'', JStr (fingerprint g)),
      (''instance_name'', JStr name),
      (''instance_uuid'', JStr (instance_uuid g)),
      (''schema'', JInt schema_version),
      (''size'', JInt (map_size g)),
      (''slot'', JInt (map_slot g))]"

definition release_intent_raw :: "'b allocator \<Rightarrow> 'x generation_scheme \<Rightarrow> string \<Rightarrow> 'b result" where
  "release_intent_raw A g name =
     rbind (instance_name_arg name) (\<lambda>n. Inr (json_bytes (al_lib A) (JObj (intent_fields g n))))"

definition enc_intent :: "'b allocator \<Rightarrow> release_intent \<Rightarrow> 'b" where
  "enc_intent A i = json_bytes (al_lib A) (JObj (intent_fields i (instance_name i)))"

definition intent_keys :: "string list" where
  "intent_keys =
     [''allocation_id'', ''base'', ''fingerprint'', ''instance_name'', ''instance_uuid'',
      ''schema'', ''size'', ''slot'']"

definition parse_release_intent :: "'b allocator \<Rightarrow> 'b \<Rightarrow> string option \<Rightarrow> release_intent result" where
  "parse_release_intent A raw expected_uuid =
     (case l_loads (al_lib A) raw of
        Some (JObj v) \<Rightarrow>
          rbind (check (key_set v = set intent_keys) IntegrityError) (\<lambda>_.
          rbind (except_r record_error IntegrityError
            (rbind (uuid_field (jget v ''instance_uuid'')) (\<lambda>u.
             rbind (name_field (jget v ''instance_name'')) (\<lambda>name.
             rbind (py_int (jget v ''base'')) (\<lambda>base.
             rbind (py_int (jget v ''size'')) (\<lambda>sz.
             rbind (py_int (jget v ''slot'')) (\<lambda>slot.
             rbind (uuid_str_field (jget v ''allocation_id'')) (\<lambda>aid.
             Inr \<lparr>instance_uuid = u, map_base = base, map_size = sz, map_slot = slot,
                  allocation_id = aid,
                  fingerprint = py_str (al_lib A) (jget v ''fingerprint''),
                  instance_name = name\<rparr>)))))))) (\<lambda>i.
          rbind (check (py_eq_int (jget v ''schema'') schema_version \<and>
                        fingerprint i = al_fingerprint A \<and> map_size i = al_size A \<and>
                        0 \<le> map_slot i \<and> map_slot i < al_count A \<and>
                        map_base i = al_base A + map_slot i * al_size A) IntegrityError) (\<lambda>_.
          rbind (check (\<forall>u \<in> set_option expected_uuid. instance_uuid i = u) IntegrityError) (\<lambda>_.
          rbind (release_intent_raw A i (instance_name i)) (\<lambda>canonical.
          if raw = canonical then Inr i else Inl IntegrityError)))))
      | _ \<Rightarrow> Inl IntegrityError)"

lemma json_wf_intent_fields [simp]: "json_wf (JObj (intent_fields g n))"
  by (simp add: intent_fields_def)

lemma distinct_intent_fields: "distinct (map fst (intent_fields g n))"
  by (simp add: intent_fields_def)

lemma jget_intent_fields:
  "jget (intent_fields g n) ''allocation_id'' = JStr (allocation_id g)"
  "jget (intent_fields g n) ''base'' = JInt (map_base g)"
  "jget (intent_fields g n) ''fingerprint'' = JStr (fingerprint g)"
  "jget (intent_fields g n) ''instance_name'' = JStr n"
  "jget (intent_fields g n) ''instance_uuid'' = JStr (instance_uuid g)"
  "jget (intent_fields g n) ''schema'' = JInt schema_version"
  "jget (intent_fields g n) ''size'' = JInt (map_size g)"
  "jget (intent_fields g n) ''slot'' = JInt (map_slot g)"
  "key_set (intent_fields g n) = set intent_keys"
  by (simp_all add: intent_fields_def intent_keys_def)

lemma parse_enc_intent:
  assumes ok: "allocator_ok A" and v: "valid_intent A i"
    and u: "\<forall>x \<in> set_option eu. instance_uuid i = x"
  shows "parse_release_intent A (enc_intent A i) eu = Inr i"
proof -
  define f where "f = sorted_fields (intent_fields i (instance_name i))"
  have load: "l_loads (al_lib A) (enc_intent A i) = Some (JObj f)"
    using ok by (simp add: enc_intent_def f_def loads_json_bytes del: json_wf.simps)
  have g: "jget f k = sort_keys (jget (intent_fields i (instance_name i)) k)" for k
    by (simp add: f_def jget_sorted_fields distinct_intent_fields)
  have ks: "key_set f = set intent_keys"
    by (simp add: f_def jget_intent_fields)
  have fields: "jget f ''instance_uuid'' = JStr (instance_uuid i)"
    "jget f ''instance_name'' = JStr (instance_name i)"
    "jget f ''base'' = JInt (map_base i)" "jget f ''size'' = JInt (map_size i)"
    "jget f ''slot'' = JInt (map_slot i)" "jget f ''allocation_id'' = JStr (allocation_id i)"
    "jget f ''fingerprint'' = JStr (fingerprint i)" "jget f ''schema'' = JInt schema_version"
    by (simp_all add: g jget_intent_fields)
  have can: "canonical_uuid (instance_uuid i)" "uuid_str (allocation_id i) = Inr (allocation_id i)"
    "instance_name_ok (instance_name i)"
    using v by (simp_all add: valid_intent_def valid_generation_def canonical_uuid_def)
  have b: "map_base i = al_base A + map_slot i * al_size A" "map_size i = al_size A"
    "fingerprint i = al_fingerprint A" "0 \<le> map_slot i" "map_slot i < al_count A"
    using v by (simp_all add: slot_base_def valid_intent_def valid_generation_def)
  have raw: "release_intent_raw A i (instance_name i) = Inr (enc_intent A i)"
    by (simp add: release_intent_raw_def enc_intent_def instance_name_arg_def can)
  have i: "\<lparr>instance_uuid = instance_uuid i, map_base = map_base i, map_size = map_size i,
      map_slot = map_slot i, allocation_id = allocation_id i, fingerprint = fingerprint i,
      instance_name = instance_name i\<rparr> = i"
    by (cases i) simp
  show ?thesis
    using u unfolding parse_release_intent_def load option.case json.case
    by (simp add: ks fields can uuid_field_def name_field_def instance_name_arg_def check_uuid_def
        i raw) (simp add: b)
qed

lemma parse_release_intent_Inr:
  assumes ok: "allocator_ok A" and parse: "parse_release_intent A raw eu = Inr i"
  shows "valid_intent A i" and "raw = enc_intent A i" and "\<forall>x \<in> set_option eu. instance_uuid i = x"
proof -
  obtain v where load: "l_loads (al_lib A) raw = Some (JObj v)"
    using parse by (auto simp: parse_release_intent_def split: option.splits json.splits)
  from parse have facts: "canonical_uuid (instance_uuid i)" "instance_name_ok (instance_name i)"
    "uuid_str_field (jget v ''allocation_id'') = Inr (allocation_id i)"
    "fingerprint i = al_fingerprint A" "map_size i = al_size A" "0 \<le> map_slot i"
    "map_slot i < al_count A" "map_base i = al_base A + map_slot i * al_size A"
    and eu: "\<forall>x \<in> set_option eu. instance_uuid i = x"
    and enc: "raw = enc_intent A i"
    unfolding parse_release_intent_def load option.case json.case
    by (auto simp: rbind_Inr_conv release_intent_raw_def enc_intent_def split: if_splits)
  have "jget v ''allocation_id'' = JStr (allocation_id i)"
    using loads_canonical_field [OF allocator_ok_codec [OF ok] json_wf_intent_fields
        load [unfolded enc enc_intent_def], of "''allocation_id''"]
    by (simp add: jget_intent_fields)
  with facts have "canonical_uuid (allocation_id i)"
    by (simp add: canonical_uuid_def)
  with facts show "valid_intent A i"
    by (simp add: valid_intent_def valid_generation_def slot_base_def)
  show "raw = enc_intent A i" by (rule enc)
  show "\<forall>x \<in> set_option eu. instance_uuid i = x" by (rule eu)
qed

lemma parse_release_intent_iff:
  assumes "allocator_ok A"
  shows "parse_release_intent A raw eu = Inr i \<longleftrightarrow>
    valid_intent A i \<and> raw = enc_intent A i \<and> (\<forall>x \<in> set_option eu. instance_uuid i = x)"
proof
  assume p: "parse_release_intent A raw eu = Inr i"
  show "valid_intent A i \<and> raw = enc_intent A i \<and> (\<forall>x \<in> set_option eu. instance_uuid i = x)"
    by (intro conjI parse_release_intent_Inr [OF assms p])
next
  assume v: "valid_intent A i \<and> raw = enc_intent A i \<and> (\<forall>x \<in> set_option eu. instance_uuid i = x)"
  have "parse_release_intent A (enc_intent A i) eu = Inr i"
    using v by (elim conjE) (rule parse_enc_intent [OF assms])
  with v show "parse_release_intent A raw eu = Inr i" by (elim conjE) (simp only:)
qed

end
