(* ===== verification/Idmap_Claims.thy ===== *)
theory Idmap_Claims
  imports Idmap_Codec
begin

text \<open>
  The remaining record formats of idmap.py: host claims with their cleanup proofs, fence
  ledger entries, the audit coordinator and audit failure records, and the immutable
  configuration of a namespace, each with the lemma that characterises its reader.
\<close>

section \<open>Host claims\<close>

definition claim_fields ::
  "'x generation_scheme \<Rightarrow> string \<Rightarrow> string \<Rightarrow> claim_state \<Rightarrow> cleanup_proof option \<Rightarrow> fields" where
  "claim_fields g h m st proof =
     [(''allocation_id'', JStr (allocation_id g)),
      (''base'', JInt (map_base g)),
      (''fingerprint'', JStr (fingerprint g)),
      (''host_id'', JStr h),
      (''instance_uuid'', JStr (instance_uuid g)),
      (''materialization_id'', JStr m),
      (''proof'', cleanup_proof_value proof),
      (''schema'', JInt schema_version),
      (''size'', JInt (map_size g)),
      (''slot'', JInt (map_slot g)),
      (''state'', JStr (claim_state_str st))]"

definition host_claim_raw ::
  "'b allocator \<Rightarrow> 'x generation_scheme \<Rightarrow> string \<Rightarrow> string \<Rightarrow> claim_state \<Rightarrow> cleanup_proof option
     \<Rightarrow> 'b result" where
  "host_claim_raw A g h m st proof =
     rbind (check ((st = Cleaned) = (proof \<noteq> None)) ConfigurationError) (\<lambda>_.
     rbind (host_id_arg h) (\<lambda>h'.
     rbind (instance_uuid_arg (instance_uuid g)) (\<lambda>_.
     rbind (materialization_id_arg m) (\<lambda>m'.
     Inr (json_bytes (al_lib A) (JObj (claim_fields g h' m' st proof)))))))"

definition enc_claim :: "'b allocator \<Rightarrow> host_claim \<Rightarrow> 'b" where
  "enc_claim A c =
     json_bytes (al_lib A)
       (JObj (claim_fields c (host_id c) (materialization_id c) (state c) (proof_of c)))"

definition claim_keys :: "string list" where
  "claim_keys =
     [''allocation_id'', ''base'', ''fingerprint'', ''host_id'', ''instance_uuid'',
      ''materialization_id'', ''proof'', ''schema'', ''size'', ''slot'', ''state'']"

definition claim_error :: "idmap_error \<Rightarrow> bool" where
  "claim_error e \<longleftrightarrow> record_error e \<or> e = ConfigurationError"

definition read_claim_state :: "string \<Rightarrow> claim_state result" where
  "read_claim_state s =
     (case parse_claim_state s of None \<Rightarrow> Inl IntegrityError | Some st \<Rightarrow> Inr st)"

definition parse_host_claim ::
  "'b allocator \<Rightarrow> 'b \<Rightarrow> string option \<Rightarrow> string option \<Rightarrow> host_claim result" where
  "parse_host_claim A raw expected_host expected_uuid =
     (case l_loads (al_lib A) raw of
        Some (JObj v) \<Rightarrow>
          rbind (check (key_set v = set claim_keys) IntegrityError) (\<lambda>_.
          rbind (except_r claim_error IntegrityError
            (rbind (uuid_field (jget v ''host_id'')) (\<lambda>h.
             rbind (uuid_field (jget v ''materialization_id'')) (\<lambda>m.
             rbind (uuid_field (jget v ''instance_uuid'')) (\<lambda>u.
             rbind (py_int (jget v ''base'')) (\<lambda>base.
             rbind (py_int (jget v ''size'')) (\<lambda>sz.
             rbind (py_int (jget v ''slot'')) (\<lambda>slot.
             rbind (uuid_str_field (jget v ''allocation_id'')) (\<lambda>aid.
             rbind (parse_cleanup_proof (al_lib A) (jget v ''proof'')) (\<lambda>proof.
             Inr (\<lambda>st. \<lparr>instance_uuid = u, map_base = base, map_size = sz, map_slot = slot,
                  allocation_id = aid,
                  fingerprint = py_str (al_lib A) (jget v ''fingerprint''),
                  host_id = h, materialization_id = m, state = st, proof_of = proof\<rparr>))))))))))) (\<lambda>mk.
          rbind (check (py_eq_int (jget v ''schema'') schema_version \<and>
                        fingerprint (mk Unmaterialized) = al_fingerprint A \<and>
                        map_size (mk Unmaterialized) = al_size A \<and>
                        0 \<le> map_slot (mk Unmaterialized) \<and>
                        map_slot (mk Unmaterialized) < al_count A \<and>
                        map_base (mk Unmaterialized) =
                          al_base A + map_slot (mk Unmaterialized) * al_size A) IntegrityError) (\<lambda>_.
          rbind (check (\<forall>h \<in> set_option expected_host. host_id (mk Unmaterialized) = h)
                   IntegrityError) (\<lambda>_.
          rbind (check (\<forall>u \<in> set_option expected_uuid. instance_uuid (mk Unmaterialized) = u)
                   IntegrityError) (\<lambda>_.
          rbind (read_claim_state (py_str (al_lib A) (jget v ''state''))) (\<lambda>st.
          rbind (check ((st = Cleaned) = (proof_of (mk st) \<noteq> None)) IntegrityError) (\<lambda>_.
          rbind (validate_claim_proof_binding (mk st)) (\<lambda>_.
          rbind (host_claim_raw A (mk st) (host_id (mk st)) (materialization_id (mk st)) st
                   (proof_of (mk st))) (\<lambda>canonical.
          if raw = canonical then Inr (mk st) else Inl IntegrityError)))))))))
      | _ \<Rightarrow> Inl IntegrityError)"

lemma claim_fields_distinct: "distinct (map fst (claim_fields g h m st p))"
  by (simp add: claim_fields_def)

lemma json_wf_claim_fields [simp]: "json_wf (JObj (claim_fields g h m st p))"
  by (simp add: claim_fields_def)

lemma jget_claim_fields:
  "jget (claim_fields g h m st p) ''allocation_id'' = JStr (allocation_id g)"
  "jget (claim_fields g h m st p) ''base'' = JInt (map_base g)"
  "jget (claim_fields g h m st p) ''fingerprint'' = JStr (fingerprint g)"
  "jget (claim_fields g h m st p) ''host_id'' = JStr h"
  "jget (claim_fields g h m st p) ''instance_uuid'' = JStr (instance_uuid g)"
  "jget (claim_fields g h m st p) ''materialization_id'' = JStr m"
  "jget (claim_fields g h m st p) ''proof'' = cleanup_proof_value p"
  "jget (claim_fields g h m st p) ''schema'' = JInt schema_version"
  "jget (claim_fields g h m st p) ''size'' = JInt (map_size g)"
  "jget (claim_fields g h m st p) ''slot'' = JInt (map_slot g)"
  "jget (claim_fields g h m st p) ''state'' = JStr (claim_state_str st)"
  "key_set (claim_fields g h m st p) = set claim_keys"
  by (simp_all add: claim_fields_def claim_keys_def)

lemma validate_claim_proof_binding_Inr:
  "validate_claim_proof_binding c = Inr () \<longleftrightarrow>
     (\<forall>p. proof_of c = Some p \<longrightarrow> proof_binds c (proof_common p))"
  by (simp add: validate_claim_proof_binding_def split: option.splits)

lemma read_claim_state_Inr: "read_claim_state s = Inr st \<longleftrightarrow> s = claim_state_str st"
  by (auto simp: read_claim_state_def parse_claim_state_Some split: option.splits)

lemma parse_enc_claim:
  assumes ok: "allocator_ok A" and v: "valid_claim A c"
    and h: "\<forall>x \<in> set_option eh. host_id c = x" and u: "\<forall>x \<in> set_option eu. instance_uuid c = x"
  shows "parse_host_claim A (enc_claim A c) eh eu = Inr c"
proof -
  let ?fs = "claim_fields c (host_id c) (materialization_id c) (state c) (proof_of c)"
  define f where "f = sorted_fields ?fs"
  have load: "l_loads (al_lib A) (enc_claim A c) = Some (JObj f)"
    using ok by (simp add: enc_claim_def f_def loads_json_bytes del: json_wf.simps)
  have g: "jget f k = sort_keys (jget ?fs k)" for k
    by (simp add: f_def jget_sorted_fields claim_fields_distinct)
  have ks: "key_set f = set claim_keys"
    by (simp add: f_def jget_claim_fields)
  have fields: "jget f ''instance_uuid'' = JStr (instance_uuid c)"
    "jget f ''host_id'' = JStr (host_id c)"
    "jget f ''materialization_id'' = JStr (materialization_id c)"
    "jget f ''base'' = JInt (map_base c)" "jget f ''size'' = JInt (map_size c)"
    "jget f ''slot'' = JInt (map_slot c)" "jget f ''allocation_id'' = JStr (allocation_id c)"
    "jget f ''fingerprint'' = JStr (fingerprint c)" "jget f ''schema'' = JInt schema_version"
    "jget f ''state'' = JStr (claim_state_str (state c))"
    by (simp_all add: g jget_claim_fields)
  have pr: "parse_cleanup_proof (al_lib A) (jget f ''proof'') = Inr (proof_of c)"
    using v unfolding g jget_claim_fields
    by (intro parse_cleanup_proof_value) (simp add: valid_claim_def)
  have can: "canonical_uuid (instance_uuid c)" "uuid_str (allocation_id c) = Inr (allocation_id c)"
    "canonical_uuid (host_id c)" "canonical_uuid (materialization_id c)"
    using v by (simp_all add: valid_claim_def valid_generation_def canonical_uuid_def)
  have b: "map_base c = al_base A + map_slot c * al_size A" "map_size c = al_size A"
    "fingerprint c = al_fingerprint A" "0 \<le> map_slot c" "map_slot c < al_count A"
    using v by (simp_all add: slot_base_def valid_claim_def valid_generation_def)
  have st: "(state c = Cleaned) = (\<exists>y. proof_of c = Some y)"
    using v by (simp add: valid_claim_def)
  have bind: "validate_claim_proof_binding c = Inr ()"
    using v by (simp add: valid_claim_def validate_claim_proof_binding_Inr)
  have raw: "host_claim_raw A c (host_id c) (materialization_id c) (state c) (proof_of c) =
      Inr (enc_claim A c)"
    by (simp add: host_claim_raw_def enc_claim_def check_uuid_def can st)
  have c: "\<lparr>instance_uuid = instance_uuid c, map_base = map_base c, map_size = map_size c,
      map_slot = map_slot c, allocation_id = allocation_id c, fingerprint = fingerprint c,
      host_id = host_id c, materialization_id = materialization_id c, state = state c,
      proof_of = proof_of c\<rparr> = c"
    by (cases c) simp
  have rs: "read_claim_state (claim_state_str (state c)) = Inr (state c)"
    by (simp add: read_claim_state_Inr)
  show ?thesis
    using h u unfolding parse_host_claim_def load option.case json.case
    by (simp add: ks fields pr can uuid_field_def check_uuid_def rs c raw bind st) (simp add: b)
qed

lemma parse_host_claim_Inr:
  assumes ok: "allocator_ok A" and parse: "parse_host_claim A raw eh eu = Inr c"
  shows "valid_claim A c" and "raw = enc_claim A c"
    and "\<forall>x \<in> set_option eh. host_id c = x" and "\<forall>x \<in> set_option eu. instance_uuid c = x"
proof -
  obtain v where load: "l_loads (al_lib A) raw = Some (JObj v)"
    using parse by (auto simp: parse_host_claim_def split: option.splits json.splits)
  from parse have facts: "canonical_uuid (instance_uuid c)" "canonical_uuid (host_id c)"
    "canonical_uuid (materialization_id c)"
    "uuid_str_field (jget v ''allocation_id'') = Inr (allocation_id c)"
    "parse_cleanup_proof (al_lib A) (jget v ''proof'') = Inr (proof_of c)"
    "fingerprint c = al_fingerprint A" "map_size c = al_size A" "0 \<le> map_slot c"
    "map_slot c < al_count A" "map_base c = al_base A + map_slot c * al_size A"
    and st: "(state c = Cleaned) = (proof_of c \<noteq> None)"
    and bind: "validate_claim_proof_binding c = Inr ()"
    and eh: "\<forall>x \<in> set_option eh. host_id c = x"
    and eu: "\<forall>x \<in> set_option eu. instance_uuid c = x"
    and can: "host_claim_raw A c (host_id c) (materialization_id c) (state c) (proof_of c) = Inr raw"
    unfolding parse_host_claim_def load option.case json.case
    by (auto simp: rbind_Inr_conv split: if_splits)
  have enc: "raw = enc_claim A c"
    using can by (auto simp: host_claim_raw_def enc_claim_def)
  have "jget v ''allocation_id'' = JStr (allocation_id c)"
    using loads_canonical_field [OF allocator_ok_codec [OF ok] json_wf_claim_fields
        load [unfolded enc enc_claim_def], of "''allocation_id''"]
    by (simp add: jget_claim_fields)
  with facts have "canonical_uuid (allocation_id c)"
    by (simp add: canonical_uuid_def)
  moreover have "validate_cleanup_proof (al_lib A) p = Inr ()" if "proof_of c = Some p" for p
    using facts(5) that by (auto intro: parse_cleanup_proof_valid)
  ultimately show "valid_claim A c"
    using facts st bind
    by (simp add: valid_claim_def valid_generation_def slot_base_def validate_claim_proof_binding_Inr)
  show "raw = enc_claim A c" by (rule enc)
  show "\<forall>x \<in> set_option eh. host_id c = x" by (rule eh)
  show "\<forall>x \<in> set_option eu. instance_uuid c = x" by (rule eu)
qed

lemma parse_host_claim_iff:
  assumes "allocator_ok A"
  shows "parse_host_claim A raw eh eu = Inr c \<longleftrightarrow>
    valid_claim A c \<and> raw = enc_claim A c \<and>
    (\<forall>x \<in> set_option eh. host_id c = x) \<and> (\<forall>x \<in> set_option eu. instance_uuid c = x)"
proof
  assume p: "parse_host_claim A raw eh eu = Inr c"
  show "valid_claim A c \<and> raw = enc_claim A c \<and>
    (\<forall>x \<in> set_option eh. host_id c = x) \<and> (\<forall>x \<in> set_option eu. instance_uuid c = x)"
    by (intro conjI parse_host_claim_Inr [OF assms p])
next
  assume v: "valid_claim A c \<and> raw = enc_claim A c \<and>
    (\<forall>x \<in> set_option eh. host_id c = x) \<and> (\<forall>x \<in> set_option eu. instance_uuid c = x)"
  have "parse_host_claim A (enc_claim A c) eh eu = Inr c"
    using v by (elim conjE) (rule parse_enc_claim [OF assms])
  with v show "parse_host_claim A raw eh eu = Inr c" by (elim conjE) (simp only:)
qed

end
