(* ===== verification/Idmap_Control.thy ===== *)
theory Idmap_Control
  imports Idmap_Claims
begin

text \<open>
  The records of idmap.py that are not allocation state: fence ledger entries, the audit
  coordinator and audit failure records of the control prefix, and the immutable
  configuration of a namespace.
\<close>

section \<open>Fence ledger entries\<close>

definition fence_fields :: "fence_proof \<Rightarrow> string \<Rightarrow> fields" where
  "fence_fields p token =
     [(''schema'', JInt schema_version),
      (''kind'', JStr ''fence-retirement''),
      (''instance_uuid'', JStr (f_instance_uuid p)),
      (''host_id'', JStr (f_host_id p)),
      (''allocation_id'', JStr (f_allocation_id p)),
      (''materialization_id'', JStr token),
      (''fence_agent'', JStr (f_fence_agent p)),
      (''fenced_at'', JStr (f_fenced_at p)),
      (''operator'', JStr (f_operator p)),
      (''evidence'', JStr (f_evidence p))]"

definition fence_proof_raw :: "'b allocator \<Rightarrow> fence_proof \<Rightarrow> string \<Rightarrow> 'b result" where
  "fence_proof_raw A p token =
     rbind (instance_uuid_arg (f_instance_uuid p)) (\<lambda>_.
     rbind (host_id_arg (f_host_id p)) (\<lambda>_.
     rbind (materialization_id_arg (f_allocation_id p)) (\<lambda>_.
     rbind (materialization_id_arg token) (\<lambda>_.
     Inr (json_bytes (al_lib A) (JObj (fence_fields p token)))))))"

definition enc_fence :: "'b allocator \<Rightarrow> fence_proof \<Rightarrow> string \<Rightarrow> 'b" where
  "enc_fence A p token = json_bytes (al_lib A) (JObj (fence_fields p token))"

text \<open>
  The audit's reader. Every exception of the try block becomes an integrity error; the
  entry of an older release has no materialization token.
\<close>

definition read_fence_fields :: "fields \<Rightarrow> fence_proof result" where
  "read_fence_fields v =
     rbind (str_f v ''instance_uuid'') (\<lambda>u.
     rbind (str_f v ''host_id'') (\<lambda>h.
     rbind (str_f v ''allocation_id'') (\<lambda>aid.
     rbind (str_f v ''fence_agent'') (\<lambda>agent.
     rbind (str_f v ''fenced_at'') (\<lambda>fenced.
     rbind (str_f v ''operator'') (\<lambda>oper.
     rbind (str_f v ''evidence'') (\<lambda>evidence.
     Inr \<lparr>f_instance_uuid = u, f_host_id = h, f_allocation_id = aid, f_fence_agent = agent,
          f_fenced_at = fenced, f_operator = oper, f_evidence = evidence\<rparr>)))))))"

definition parse_fence_record :: "'b allocator \<Rightarrow> 'b \<Rightarrow> (fence_proof \<times> string option) result" where
  "parse_fence_record A raw =
     (case l_loads (al_lib A) raw of
        Some (JObj v) \<Rightarrow>
          except_r (\<lambda>_. True) IntegrityError
            (rbind (read_fence_fields v) (\<lambda>p.
             rbind (validate_fence_proof p) (\<lambda>_.
             if py_truthy (jget v ''materialization_id'')
             then rbind (uuid_field (jget v ''materialization_id'')) (\<lambda>t. Inr (p, Some t))
             else Inr (p, None))))
      | _ \<Rightarrow> Inl IntegrityError)"

lemma distinct_fence_fields: "distinct (map fst (fence_fields p t))"
  by (simp add: fence_fields_def)

lemma json_wf_fence_fields [simp]: "json_wf (JObj (fence_fields p t))"
  by (simp add: fence_fields_def)

lemma jget_fence_fields:
  "jget (fence_fields p t) ''instance_uuid'' = JStr (f_instance_uuid p)"
  "jget (fence_fields p t) ''host_id'' = JStr (f_host_id p)"
  "jget (fence_fields p t) ''allocation_id'' = JStr (f_allocation_id p)"
  "jget (fence_fields p t) ''materialization_id'' = JStr t"
  "jget (fence_fields p t) ''fence_agent'' = JStr (f_fence_agent p)"
  "jget (fence_fields p t) ''fenced_at'' = JStr (f_fenced_at p)"
  "jget (fence_fields p t) ''operator'' = JStr (f_operator p)"
  "jget (fence_fields p t) ''evidence'' = JStr (f_evidence p)"
  by (simp_all add: fence_fields_def)

lemma parse_enc_fence:
  assumes "allocator_ok A" and "validate_fence_proof p = Inr ()" and "canonical_uuid t"
  shows "parse_fence_record A (enc_fence A p t) = Inr (p, Some t)"
proof -
  define f where "f = sorted_fields (fence_fields p t)"
  have load: "l_loads (al_lib A) (enc_fence A p t) = Some (JObj f)"
    using assms by (simp add: enc_fence_def f_def loads_json_bytes del: json_wf.simps)
  have g: "jget f k = sort_keys (jget (fence_fields p t) k)" for k
    by (simp add: f_def jget_sorted_fields distinct_fence_fields)
  have fields: "read_fence_fields f = Inr p"
    by (simp add: read_fence_fields_def g jget_fence_fields str_f_def)
  have tok: "jget f ''materialization_id'' = JStr t"
    by (simp add: g jget_fence_fields)
  show ?thesis
    using assms(2,3) unfolding parse_fence_record_def load option.case json.case
    by (simp add: fields tok canonical_uuid_ne uuid_field_def check_uuid_def)
qed

lemma parse_fence_record_errors:
  "parse_fence_record A raw = Inl e \<Longrightarrow> e = IntegrityError"
  by (auto simp: parse_fence_record_def except_r_def split: option.splits json.splits sum.splits)

lemma validate_fence_proof_Inr:
  "validate_fence_proof p = Inr () \<longleftrightarrow>
     list_all (\<lambda>v. strip_chars is_space v \<noteq> [])
       [f_instance_uuid p, f_host_id p, f_allocation_id p, f_fence_agent p, f_fenced_at p,
        f_operator p, f_evidence p] \<and>
     list_all is_uuid_like [f_instance_uuid p, f_host_id p, f_allocation_id p]"
  by (auto simp: validate_fence_proof_def rbind_Inr_conv)

section \<open>Audit coordinator\<close>

datatype coordinator_state = Pending | Healthy

fun coordinator_state_str :: "coordinator_state \<Rightarrow> string" where
  "coordinator_state_str Pending = ''pending''"
| "coordinator_state_str Healthy = ''healthy''"

record coordinator =
  co_token :: string
  co_state :: coordinator_state
  co_generation :: string

definition coordinator_fields :: "'b allocator \<Rightarrow> string \<Rightarrow> string \<Rightarrow> string \<Rightarrow> fields" where
  "coordinator_fields A token st gen =
     [(''fingerprint'', JStr (al_fingerprint A)),
      (''generation'', JStr gen),
      (''kind'', JStr ''audit-coordinator''),
      (''namespace'', JStr (al_namespace A)),
      (''schema'', JInt audit_control_schema),
      (''state'', JStr st),
      (''token'', JStr token)]"

definition audit_coordinator_raw :: "'b allocator \<Rightarrow> string \<Rightarrow> coordinator_state \<Rightarrow> string \<Rightarrow> 'b" where
  "audit_coordinator_raw A token st gen =
     json_bytes (al_lib A) (JObj (coordinator_fields A token (coordinator_state_str st) gen))"

definition coordinator_keys :: "string list" where
  "coordinator_keys =
     [''fingerprint'', ''generation'', ''kind'', ''namespace'', ''schema'', ''state'', ''token'']"

text \<open>
  Membership of the state in the frozenset hashes it: a list or an object raises TypeError,
  outside the try block.
\<close>

fun read_coordinator_state :: "json \<Rightarrow> coordinator_state result" where
  "read_coordinator_state (JStr s) =
     (if s = ''pending'' then Inr Pending
      else if s = ''healthy'' then Inr Healthy else Inl IntegrityError)"
| "read_coordinator_state (JList _) = Inl (PyException TypeError)"
| "read_coordinator_state (JObj _) = Inl (PyException TypeError)"
| "read_coordinator_state _ = Inl IntegrityError"

definition parse_audit_coordinator :: "'b allocator \<Rightarrow> 'b \<Rightarrow> coordinator result" where
  "parse_audit_coordinator A raw =
     (case l_loads (al_lib A) raw of
        Some (JObj v) \<Rightarrow>
          rbind (except_r record_error IntegrityError
            (rbind (uuid_str_field (jget v ''token'')) (\<lambda>t.
             rbind (uuid_str_field (jget v ''generation'')) (\<lambda>gen. Inr (t, gen))))) (\<lambda>(t, gen).
          rbind (check (key_set v = set coordinator_keys \<and>
                        py_eq_int (jget v ''schema'') audit_control_schema \<and>
                        jget v ''kind'' = JStr ''audit-coordinator'' \<and>
                        jget v ''namespace'' = JStr (al_namespace A) \<and>
                        jget v ''fingerprint'' = JStr (al_fingerprint A)) IntegrityError) (\<lambda>_.
          rbind (read_coordinator_state (jget v ''state'')) (\<lambda>st.
          rbind (check (jget v ''token'' = JStr t \<and> jget v ''generation'' = JStr gen \<and>
                        raw = audit_coordinator_raw A t st gen) IntegrityError) (\<lambda>_.
          Inr \<lparr>co_token = t, co_state = st, co_generation = gen\<rparr>))))
      | _ \<Rightarrow> Inl IntegrityError)"

lemma distinct_coordinator_fields: "distinct (map fst (coordinator_fields A t s g))"
  by (simp add: coordinator_fields_def)

lemma json_wf_coordinator_fields [simp]: "json_wf (JObj (coordinator_fields A t s g))"
  by (simp add: coordinator_fields_def)

lemma jget_coordinator_fields:
  "jget (coordinator_fields A t s g) ''fingerprint'' = JStr (al_fingerprint A)"
  "jget (coordinator_fields A t s g) ''generation'' = JStr g"
  "jget (coordinator_fields A t s g) ''kind'' = JStr ''audit-coordinator''"
  "jget (coordinator_fields A t s g) ''namespace'' = JStr (al_namespace A)"
  "jget (coordinator_fields A t s g) ''schema'' = JInt audit_control_schema"
  "jget (coordinator_fields A t s g) ''state'' = JStr s"
  "jget (coordinator_fields A t s g) ''token'' = JStr t"
  "key_set (coordinator_fields A t s g) = set coordinator_keys"
  by (simp_all add: coordinator_fields_def coordinator_keys_def)

lemma read_coordinator_state_str [simp]:
  "read_coordinator_state (JStr (coordinator_state_str st)) = Inr st"
  by (cases st) simp_all

lemma parse_enc_coordinator:
  assumes "allocator_ok A" and "canonical_uuid t" and "canonical_uuid g"
  shows "parse_audit_coordinator A (audit_coordinator_raw A t st g) =
         Inr \<lparr>co_token = t, co_state = st, co_generation = g\<rparr>"
proof -
  define f where "f = sorted_fields (coordinator_fields A t (coordinator_state_str st) g)"
  have load: "l_loads (al_lib A) (audit_coordinator_raw A t st g) = Some (JObj f)"
    using assms(1) by (simp add: audit_coordinator_raw_def f_def loads_json_bytes del: json_wf.simps)
  have "jget f k = sort_keys (jget (coordinator_fields A t (coordinator_state_str st) g) k)" for k
    by (simp add: f_def jget_sorted_fields distinct_coordinator_fields)
  then have fields: "jget f ''token'' = JStr t" "jget f ''generation'' = JStr g"
    "jget f ''kind'' = JStr ''audit-coordinator''" "jget f ''namespace'' = JStr (al_namespace A)"
    "jget f ''schema'' = JInt audit_control_schema" "jget f ''state'' = JStr (coordinator_state_str st)"
    "jget f ''fingerprint'' = JStr (al_fingerprint A)"
    by (simp_all add: jget_coordinator_fields)
  have ks: "key_set f = set coordinator_keys"
    by (simp add: f_def jget_coordinator_fields)
  have can: "uuid_str t = Inr t" "uuid_str g = Inr g"
    using assms(2,3) by (simp_all add: canonical_uuid_def)
  show ?thesis
    unfolding parse_audit_coordinator_def load option.case json.case
    by (simp add: fields ks can del: read_coordinator_state.simps)
qed

lemma parse_audit_coordinator_Inr:
  assumes "parse_audit_coordinator A raw = Inr c"
  shows "canonical_uuid (co_token c)" and "canonical_uuid (co_generation c)"
    and "raw = audit_coordinator_raw A (co_token c) (co_state c) (co_generation c)"
  using assms
  by (auto simp: parse_audit_coordinator_def rbind_Inr_conv canonical_uuid_def
      split: option.splits json.splits)

section \<open>Audit failure\<close>

definition failure_fields :: "'b allocator \<Rightarrow> string \<Rightarrow> string \<Rightarrow> fields" where
  "failure_fields A reason token =
     [(''fingerprint'', JStr (al_fingerprint A)),
      (''kind'', JStr ''audit-failure''),
      (''namespace'', JStr (al_namespace A)),
      (''reason'', JStr reason),
      (''schema'', JInt audit_control_schema),
      (''token'', JStr token)]"

definition audit_failure_raw :: "'b allocator \<Rightarrow> string \<Rightarrow> 'b" where
  "audit_failure_raw A reason =
     json_bytes (al_lib A) (JObj (failure_fields A (take 2048 reason) (al_token A)))"

definition failure_keys :: "string list" where
  "failure_keys = [''fingerprint'', ''kind'', ''namespace'', ''reason'', ''schema'', ''token'']"

text \<open>The parsed reason of a failure record.\<close>

definition parse_audit_failure :: "'b allocator \<Rightarrow> 'b \<Rightarrow> string result" where
  "parse_audit_failure A raw =
     (case l_loads (al_lib A) raw of
        Some (JObj v) \<Rightarrow>
          rbind (except_r record_error IntegrityError (uuid_str_field (jget v ''token''))) (\<lambda>t.
          rbind (check (key_set v = set failure_keys \<and>
                        py_eq_int (jget v ''schema'') audit_control_schema \<and>
                        jget v ''kind'' = JStr ''audit-failure'' \<and>
                        jget v ''namespace'' = JStr (al_namespace A) \<and>
                        jget v ''fingerprint'' = JStr (al_fingerprint A) \<and>
                        as_str (jget v ''reason'') \<noteq> None \<and>
                        py_truthy (jget v ''reason'') \<and>
                        jget v ''token'' = JStr t) IntegrityError) (\<lambda>_.
          rbind (check (raw = json_bytes (al_lib A) (JObj v)) IntegrityError) (\<lambda>_.
          Inr (the (as_str (jget v ''reason''))))))
      | _ \<Rightarrow> Inl IntegrityError)"

lemma distinct_failure_fields: "distinct (map fst (failure_fields A r t))"
  by (simp add: failure_fields_def)

lemma json_wf_failure_fields [simp]: "json_wf (JObj (failure_fields A r t))"
  by (simp add: failure_fields_def)

lemma jget_failure_fields:
  "jget (failure_fields A r t) ''fingerprint'' = JStr (al_fingerprint A)"
  "jget (failure_fields A r t) ''kind'' = JStr ''audit-failure''"
  "jget (failure_fields A r t) ''namespace'' = JStr (al_namespace A)"
  "jget (failure_fields A r t) ''reason'' = JStr r"
  "jget (failure_fields A r t) ''schema'' = JInt audit_control_schema"
  "jget (failure_fields A r t) ''token'' = JStr t"
  "key_set (failure_fields A r t) = set failure_keys"
  by (simp_all add: failure_fields_def failure_keys_def)

lemma sort_keys_failure_fields [simp]:
  "sort_keys (JObj (sorted_fields (failure_fields A r t))) = sort_keys (JObj (failure_fields A r t))"
  unfolding sort_keys_obj sorted_fields_def failure_fields_def by simp

lemma parse_audit_failure_raw:
  assumes "allocator_ok A" and "canonical_uuid (al_token A)" and "reason \<noteq> []"
  shows "parse_audit_failure A (audit_failure_raw A reason) = Inr (take 2048 reason)"
proof -
  define f where "f = sorted_fields (failure_fields A (take 2048 reason) (al_token A))"
  have load: "l_loads (al_lib A) (audit_failure_raw A reason) = Some (JObj f)"
    using assms(1) by (simp add: audit_failure_raw_def f_def loads_json_bytes del: json_wf.simps)
  have "jget f k = sort_keys (jget (failure_fields A (take 2048 reason) (al_token A)) k)" for k
    by (simp add: f_def jget_sorted_fields distinct_failure_fields)
  then have fields: "jget f ''token'' = JStr (al_token A)" "jget f ''kind'' = JStr ''audit-failure''"
    "jget f ''namespace'' = JStr (al_namespace A)" "jget f ''schema'' = JInt audit_control_schema"
    "jget f ''reason'' = JStr (take 2048 reason)" "jget f ''fingerprint'' = JStr (al_fingerprint A)"
    by (simp_all add: jget_failure_fields)
  have ks: "key_set f = set failure_keys"
    by (simp add: f_def jget_failure_fields)
  have can: "uuid_str (al_token A) = Inr (al_token A)"
    using assms(2) by (simp add: canonical_uuid_def)
  have raw: "audit_failure_raw A reason = json_bytes (al_lib A) (JObj f)"
    by (simp add: audit_failure_raw_def json_bytes_def f_def)
  show ?thesis
    using assms(3) unfolding parse_audit_failure_def load option.case json.case
    by (simp add: fields ks can) (simp add: raw)
qed

section \<open>Configuration\<close>

definition drop_key :: "string \<Rightarrow> fields \<Rightarrow> fields" where
  "drop_key k kvs = filter (\<lambda>kv. fst kv \<noteq> k) kvs"

definition config_keys :: "string list" where
  "config_keys = [''base'', ''count'', ''fingerprint'', ''namespace'', ''schema'', ''size'']"

definition validate_configuration :: "'b allocator \<Rightarrow> 'b \<Rightarrow> unit result" where
  "validate_configuration A raw =
     (case l_loads (al_lib A) raw of
        Some (JObj v) \<Rightarrow>
          rbind (check (key_set v = set config_keys \<and>
                        list_all (\<lambda>k. as_int (jget v k) \<noteq> None)
                          [''base'', ''count'', ''schema'', ''size''] \<and>
                        list_all (\<lambda>k. as_str (jget v k) \<noteq> None)
                          [''namespace'', ''fingerprint'']) IntegrityError) (\<lambda>_.
          rbind (check (jget v ''fingerprint'' =
                        JStr (l_sha256 (al_lib A)
                          (json_bytes (al_lib A) (JObj (drop_key ''fingerprint'' v)))))
                   IntegrityError) (\<lambda>_.
          check (list_all (\<lambda>k. jget v k = jget (config_fields A) k) config_keys)
            ConfigurationError))
      | _ \<Rightarrow> Inl IntegrityError)"

lemma config_fields_sorted:
  "sorted_fields (config_fields A) =
     [(''base'', JInt (al_base A)), (''count'', JInt (al_count A)),
      (''fingerprint'', JStr (al_fingerprint A)), (''namespace'', JStr (al_namespace A)),
      (''schema'', JInt schema_version), (''size'', JInt (al_size A))]"
  by (simp add: sorted_fields_def config_fields_def config_material_def)

lemma validate_config_raw:
  assumes "allocator_ok A"
  shows "validate_configuration A (config_raw A) = Inr ()"
proof -
  have wf: "json_wf (JObj (config_fields A))"
    by (simp add: config_fields_def config_material_def)
  have load: "l_loads (al_lib A) (config_raw A) = Some (JObj (sorted_fields (config_fields A)))"
    unfolding config_raw_def using assms wf by (intro loads_json_bytes) simp_all
  have mat: "drop_key ''fingerprint'' (sorted_fields (config_fields A)) =
      config_material (al_base A) (al_count A) (al_namespace A) (al_size A)"
    by (simp add: config_fields_sorted drop_key_def config_material_def)
  have fp: "al_fingerprint A = l_sha256 (al_lib A) (json_bytes (al_lib A)
      (JObj (config_material (al_base A) (al_count A) (al_namespace A) (al_size A))))"
    using assms by (simp add: allocator_ok_def config_fingerprint_def)
  have fp': "jget (sorted_fields (config_fields A)) ''fingerprint'' = JStr (al_fingerprint A)"
    by (simp add: config_fields_sorted)
  show ?thesis
    unfolding validate_configuration_def load option.case json.case mat fp' fp [symmetric]
    by (simp add: config_fields_sorted config_keys_def) (simp add: config_fields_def config_material_def)
qed

text \<open>What an accepted configuration says: the range, the fingerprint and the namespace agree.\<close>

lemma validate_configuration_Inr:
  assumes "validate_configuration A raw = Inr ()"
  shows "\<exists>v. l_loads (al_lib A) raw = Some (JObj v) \<and> key_set v = set config_keys \<and>
    (\<forall>k \<in> set config_keys. jget v k = jget (config_fields A) k)"
  using assms
  by (auto simp: validate_configuration_def rbind_Inr_conv list_all_iff split: option.splits json.splits)

end
