(* ===== verification/Etcd_Gateway.thy ===== *)
theory Etcd_Gateway
  imports Idmap_Control
begin

text \<open>
  How idmap.py talks to etcd. The gateway client (etcd3gw) is code the repository does not
  contain: a record of functions over a world \<open>'s\<close>, each returning a reply or an exception.
  This theory holds the transactions the code builds, the replies it takes apart, the
  authentication retry, the bounded transaction retry, the audit control records and the
  guarded exact reads. Keys and values travel base64-encoded; the model carries the decoded
  text, and \<open>None\<close> where decoding fails.
\<close>

section \<open>Transactions and replies\<close>

datatype 'b compare =
    CmpValue string 'b
  | CmpLease string int
  | CmpAbsent string

datatype 'b request =
    ReqPut string 'b "int option"
  | ReqDelete string
  | ReqRange string
  | ReqCount string string

record 'b txn =
  t_compare :: "'b compare list"
  t_success :: "'b request list"
  t_failure :: "'b request list"

text \<open>
  One element of the reply: malformed, or a range response whose \<open>kvs\<close> is a list or not
  and whose count is any JSON value. An absent lease reads as 0.
\<close>

datatype 'b wire_kv =
    KvMalformed
  | Kv "string option" "'b option" json

datatype 'b wire_resp =
    RespMalformed
  | RespRange "'b wire_kv list option" json

datatype 'b responses = RespsAbsent | RespsNotList | Resps "'b wire_resp list"

record 'b reply =
  rp_dict :: bool
  rp_fields :: fields
  rp_header :: bool
  rp_succeeded :: "json option"
  rp_responses :: "'b responses"

section \<open>The gateway client\<close>

datatype exn_class = Transient | Raised idmap_error | OtherExn

text \<open>An exception: its class, its \<open>detail_text\<close> attribute if any, and \<open>str()\<close> of it.\<close>

record gw_exn =
  x_class :: exn_class
  x_detail :: "json option"
  x_text :: string

definition raised :: "idmap_error \<Rightarrow> gw_exn" where
  "raised e = \<lparr>x_class = Raised e, x_detail = None, x_text = ''''\<rparr>"

record etcd_lease =
  lease_id :: "int option"

record password_file =
  pf_open :: bool
  pf_regular :: bool
  pf_mode :: int
  pf_size :: int
  pf_content :: string

text \<open>
  \<open>g_now\<close> is time.monotonic() in microseconds, \<open>g_text\<close> the message of an exception after
  the fixed prefix, \<open>g_decode\<close> UTF-8 decoding. A malformed element of a get or prefix reply
  is \<open>None\<close>.
\<close>

record ('s, 'b) gateway =
  g_txn :: "'b txn \<Rightarrow> 's \<Rightarrow> (gw_exn + 'b reply) \<times> 's"
  g_get :: "string \<Rightarrow> 's \<Rightarrow> (gw_exn + 'b option list) \<times> 's"
  g_prefix :: "string \<Rightarrow> 's \<Rightarrow> (gw_exn + (string \<times> 'b) option list) \<times> 's"
  g_lease :: "int \<Rightarrow> 's \<Rightarrow> (gw_exn + etcd_lease) \<times> 's"
  g_refresh :: "etcd_lease \<Rightarrow> 's \<Rightarrow> (gw_exn + int option) \<times> 's"
  g_revoke :: "etcd_lease \<Rightarrow> 's \<Rightarrow> (gw_exn + unit) \<times> 's"
  g_authenticate :: "string \<Rightarrow> string \<Rightarrow> 's \<Rightarrow> (gw_exn + json) \<times> 's"
  g_password :: "'s \<Rightarrow> password_file \<times> 's"
  g_decode :: "string \<Rightarrow> string option"
  g_uuid4 :: "'s \<Rightarrow> string \<times> 's"
  g_now :: "'s \<Rightarrow> int \<times> 's"
  g_text :: "'s \<Rightarrow> string \<times> 's"

text \<open>The mutable attributes of the allocator object, and the world its client acts on.\<close>

record ('s, 'b) client =
  cl_world :: 's
  cl_initialized :: bool
  cl_checked_at :: "int option"
  cl_latch :: bool
  cl_lease :: "etcd_lease option"
  cl_health_raw :: "'b option"
  cl_health_lease :: "int option"
  cl_authenticated :: bool
  cl_auth_generation :: int

type_synonym ('s, 'b, 'a) cprog = "(('s, 'b) client, 'a) prog"
type_synonym ('s, 'b, 'a) gprog = "('s, 'b) client \<Rightarrow> (gw_exn + 'a) \<times> ('s, 'b) client"

definition on_world :: "('s \<Rightarrow> 'a \<times> 's) \<Rightarrow> ('s, 'b) client \<Rightarrow> 'a \<times> ('s, 'b) client" where
  "on_world f c = (case f (cl_world c) of (a, s) \<Rightarrow> (a, c\<lparr>cl_world := s\<rparr>))"

text \<open>Calls that cannot fail.\<close>

definition fetch :: "('s \<Rightarrow> 'a \<times> 's) \<Rightarrow> ('s, 'b, 'a) cprog" where
  "fetch f = (\<lambda>c. case on_world f c of (a, c') \<Rightarrow> (Inr a, c'))"

section \<open>Gateway errors and authentication\<close>

definition join_texts :: "fields \<Rightarrow> string" where
  "join_texts d =
     join_on CHR '' '' (List.map_filter as_str [jget d ''message'', jget d ''error''])"

definition gateway_error_text :: "'b lib \<Rightarrow> gw_exn \<Rightarrow> string" where
  "gateway_error_text L x =
     (case x_detail x of
        Some (JObj d) \<Rightarrow> join_texts d
      | Some (JStr s) \<Rightarrow>
          (case l_loads_text L s of
             Some (JObj body) \<Rightarrow> if join_texts body \<noteq> [] then join_texts body else s
           | _ \<Rightarrow> s)
      | _ \<Rightarrow> x_text x)"

definition is_invalid_auth_token :: "'b lib \<Rightarrow> gw_exn \<Rightarrow> bool result" where
  "is_invalid_auth_token L x =
     rbind (case x_detail x of
              Some (JObj d) \<Rightarrow>
                (case py_int (jget d ''code'') of
                   Inr i \<Rightarrow> Inr (i = 16)
                 | Inl e \<Rightarrow> if e \<in> {PyException TypeError, PyException ValueError} then Inr False
                            else Inl e)
            | _ \<Rightarrow> Inr False) (\<lambda>coded.
     Inr (coded \<or> contains_sub ''etcdserver: invalid auth token''
                    (map lower_char (gateway_error_text L x))))"

definition read_password :: "('s, 'b) gateway \<Rightarrow> password_file \<Rightarrow> string result" where
  "read_password G f =
     rbind (check (pf_open f \<and> pf_regular f \<and> pf_mode f mod 8 = 0 \<and> pf_size f \<le> 4096)
              BackendError) (\<lambda>_.
     let password = rev (dropWhile (\<lambda>c. c = CHR 0x0D \<or> c = CHR 0x0A) (rev (pf_content f))) in
     rbind (check (password \<noteq> [] \<and> CHR 0x00 \<notin> set password) ConfigurationError) (\<lambda>_.
     case g_decode G password of None \<Rightarrow> Inl ConfigurationError | Some p \<Rightarrow> Inr p))"

definition authenticate_locked ::
  "'b allocator \<Rightarrow> ('s, 'b) gateway \<Rightarrow> ('s, 'b, int) cprog" where
  "authenticate_locked A G =
     bnd (modify (\<lambda>c. c\<lparr>cl_authenticated := False\<rparr>)) (\<lambda>_.
     bnd (fetch (g_password G)) (\<lambda>file.
     bnd (lift (read_password G file)) (\<lambda>password.
     bnd (fetch (g_authenticate G (case al_username A of Some u \<Rightarrow> u | None \<Rightarrow> '''') password)) (\<lambda>r.
     case r of
       Inl x \<Rightarrow> (case x_class x of Raised e \<Rightarrow> raise e | _ \<Rightarrow> raise BackendError)
     | Inr v \<Rightarrow>
         (case v of
            JObj d \<Rightarrow>
              (case jget d ''token'' of
                 JStr t \<Rightarrow>
                   if t = [] then raise BackendError
                   else bnd (modify (\<lambda>c. c\<lparr>cl_authenticated := True,
                                          cl_auth_generation := cl_auth_generation c + 1\<rparr>)) (\<lambda>_.
                        bnd get_state (\<lambda>c. ret (cl_auth_generation c)))
               | _ \<Rightarrow> raise BackendError)
          | _ \<Rightarrow> raise BackendError)))))"

definition ensure_authenticated ::
  "'b allocator \<Rightarrow> ('s, 'b) gateway \<Rightarrow> ('s, 'b, int option) cprog" where
  "ensure_authenticated A G =
     (if al_username A = None then ret None
      else bnd get_state (\<lambda>c.
        if cl_authenticated c then ret (Some (cl_auth_generation c))
        else bnd (authenticate_locked A G) (\<lambda>g. ret (Some g))))"

definition refresh_authentication ::
  "'b allocator \<Rightarrow> ('s, 'b) gateway \<Rightarrow> int \<Rightarrow> ('s, 'b, int) cprog" where
  "refresh_authentication A G failed =
     bnd get_state (\<lambda>c.
       if cl_authenticated c \<and> cl_auth_generation c \<noteq> failed then ret (cl_auth_generation c)
       else authenticate_locked A G)"

text \<open>
  \<open>_call_with_auth_retry\<close>: \<open>dict_of\<close> gives the fields of a result that is a dict, which the
  code normalises to an exception when it carries an authentication error.
\<close>

definition checked_call ::
  "'b lib \<Rightarrow> ('a \<Rightarrow> fields option) \<Rightarrow> ('s, 'b, 'a) gprog \<Rightarrow> ('s, 'b, 'a) gprog" where
  "checked_call L dict_of callback = (\<lambda>c.
     case callback c of
       (Inl x, c') \<Rightarrow> (Inl x, c')
     | (Inr r, c') \<Rightarrow>
         (case dict_of r of
            None \<Rightarrow> (Inr r, c')
          | Some d \<Rightarrow>
              let x = \<lparr>x_class = OtherExn, x_detail = Some (JObj d),
                       x_text = ''etcd gateway returned an error response''\<rparr>
              in case is_invalid_auth_token L x of
                   Inl e \<Rightarrow> (Inl (raised e), c')
                 | Inr True \<Rightarrow> (Inl x, c')
                 | Inr False \<Rightarrow> (Inr r, c')))"

definition call_with_auth_retry ::
  "'b allocator \<Rightarrow> ('s, 'b) gateway \<Rightarrow> ('a \<Rightarrow> fields option) \<Rightarrow> ('s, 'b, 'a) gprog \<Rightarrow>
     ('s, 'b, 'a) gprog" where
  "call_with_auth_retry A G dict_of callback = (\<lambda>c.
     case ensure_authenticated A G c of
       (Inl e, c1) \<Rightarrow> (Inl (raised e), c1)
     | (Inr generation, c1) \<Rightarrow>
         (case checked_call (al_lib A) dict_of callback c1 of
            (Inr r, c2) \<Rightarrow> (Inr r, c2)
          | (Inl x, c2) \<Rightarrow>
              (case generation of
                 None \<Rightarrow> (Inl x, c2)
               | Some g \<Rightarrow>
                   (case is_invalid_auth_token (al_lib A) x of
                      Inl e \<Rightarrow> (Inl (raised e), c2)
                    | Inr False \<Rightarrow> (Inl x, c2)
                    | Inr True \<Rightarrow>
                        (case refresh_authentication A G g c2 of
                           (Inl e, c3) \<Rightarrow> (Inl (raised e), c3)
                         | (Inr _, c3) \<Rightarrow> checked_call (al_lib A) dict_of callback c3)))))"

text \<open>\<open>except Exception: raise IDMapBackendError\<close> around such a call.\<close>

definition guarded_call ::
  "'b allocator \<Rightarrow> ('s, 'b) gateway \<Rightarrow> ('s \<Rightarrow> (gw_exn + 'a) \<times> 's) \<Rightarrow> ('s, 'b, 'a) cprog" where
  "guarded_call A G f = (\<lambda>c.
     case call_with_auth_retry A G (\<lambda>_. None) (on_world f) c of
       (Inl x, c') \<Rightarrow> (Inl BackendError, c')
     | (Inr r, c') \<Rightarrow> (Inr r, c'))"

definition get_raw :: "'b allocator \<Rightarrow> ('s, 'b) gateway \<Rightarrow> string \<Rightarrow> ('s, 'b, 'b option) cprog" where
  "get_raw A G key =
     bnd (guarded_call A G (g_get G key)) (\<lambda>values.
       case values of
         [] \<Rightarrow> ret None
       | [Some v] \<Rightarrow> ret (Some v)
       | _ \<Rightarrow> raise IntegrityError)"

fun all_some :: "'a option list \<Rightarrow> 'a list option" where
  "all_some [] = Some []"
| "all_some (None # xs) = None"
| "all_some (Some x # xs) = map_option ((#) x) (all_some xs)"

definition get_prefix_raw ::
  "'b allocator \<Rightarrow> ('s, 'b) gateway \<Rightarrow> string \<Rightarrow> ('s, 'b, (string \<times> 'b) list) cprog" where
  "get_prefix_raw A G prefix =
     bnd (guarded_call A G (g_prefix G prefix)) (\<lambda>entries.
       case all_some entries of None \<Rightarrow> raise IntegrityError | Some kvs \<Rightarrow> ret kvs)"

section \<open>Transactions with bounded retries\<close>

definition reply_dict :: "'b reply \<Rightarrow> fields option" where
  "reply_dict r = (if rp_dict r then Some (rp_fields r) else None)"

text \<open>
  The inner loop: up to \<open>n\<close> further calls after transient errors. The pauses between them
  are time passing in the world.
\<close>

fun transient_calls ::
  "'b allocator \<Rightarrow> ('s, 'b) gateway \<Rightarrow> 'b txn \<Rightarrow> nat \<Rightarrow> ('s, 'b, 'b reply) cprog" where
  "transient_calls A G t 0 = (\<lambda>c.
     case call_with_auth_retry A G reply_dict (on_world (g_txn G t)) c of
       (Inr r, c') \<Rightarrow> (Inr r, c')
     | (Inl x, c') \<Rightarrow> (Inl BackendError, c'))"
| "transient_calls A G t (Suc n) = (\<lambda>c.
     case call_with_auth_retry A G reply_dict (on_world (g_txn G t)) c of
       (Inr r, c') \<Rightarrow> (Inr r, c')
     | (Inl x, c') \<Rightarrow>
         if x_class x = Transient then transient_calls A G t n c' else (Inl BackendError, c'))"

definition normalize_reply :: "'b reply \<Rightarrow> (bool \<times> 'b wire_resp list) option" where
  "normalize_reply r =
     (if rp_dict r \<and> rp_header r then
        (case (rp_succeeded r, rp_responses r) of
           (None, RespsAbsent) \<Rightarrow> Some (False, [])
         | (None, Resps rs) \<Rightarrow> Some (False, rs)
         | (Some (JBool b), RespsAbsent) \<Rightarrow> Some (b, [])
         | (Some (JBool b), Resps rs) \<Rightarrow> Some (b, rs)
         | _ \<Rightarrow> None)
      else None)"

definition transaction_response ::
  "'b allocator \<Rightarrow> ('s, 'b) gateway \<Rightarrow> 'b txn \<Rightarrow> ('s, 'b, bool \<times> 'b wire_resp list) cprog" where
  "transaction_response A G t =
     bnd (transient_calls A G t 3) (\<lambda>r.
     case normalize_reply r of
       Some result \<Rightarrow> ret result
     | None \<Rightarrow>
         if al_username A \<noteq> None then
           bnd get_state (\<lambda>c.
           bnd (refresh_authentication A G (cl_auth_generation c)) (\<lambda>_.
           bnd (transient_calls A G t 3) (\<lambda>r'.
           case normalize_reply r' of Some result \<Rightarrow> ret result | None \<Rightarrow> raise BackendError)))
         else raise BackendError)"

definition transaction ::
  "'b allocator \<Rightarrow> ('s, 'b) gateway \<Rightarrow> 'b txn \<Rightarrow> ('s, 'b, bool) cprog" where
  "transaction A G t = bnd (transaction_response A G t) (\<lambda>r. ret (fst r))"

section \<open>Range responses\<close>

definition decode_lease :: "json \<Rightarrow> int result" where
  "decode_lease v =
     (case v of
        JInt i \<Rightarrow> if i < 0 then Inl IntegrityError else Inr i
      | JStr s \<Rightarrow>
          (case int_of_str s of
             Inl e \<Rightarrow> Inl IntegrityError
           | Inr i \<Rightarrow> if i < 0 \<or> s \<noteq> int_dec i then Inl IntegrityError else Inr i)
      | _ \<Rightarrow> Inl IntegrityError)"

definition parse_range_entry :: "'b wire_resp \<Rightarrow> string \<Rightarrow> ('b option \<times> int) result" where
  "parse_range_entry resp expected =
     (case resp of
        RespMalformed \<Rightarrow> Inl BackendError
      | RespRange None _ \<Rightarrow> Inl IntegrityError
      | RespRange (Some []) _ \<Rightarrow> Inr (None, 0)
      | RespRange (Some [KvMalformed]) _ \<Rightarrow> Inl BackendError
      | RespRange (Some [Kv key value lease]) _ \<Rightarrow>
          rbind (check (key = Some expected) IntegrityError) (\<lambda>_.
          rbind (decode_lease lease) (\<lambda>l.
          case value of None \<Rightarrow> Inl IntegrityError | Some v \<Rightarrow> Inr (Some v, l)))
      | RespRange (Some (_ # _ # _)) _ \<Rightarrow> Inl IntegrityError)"

definition parse_range :: "'b wire_resp \<Rightarrow> string \<Rightarrow> 'b option result" where
  "parse_range resp expected = rbind (parse_range_entry resp expected) (\<lambda>e. Inr (fst e))"

text \<open>The exclusive end of a prefix range: the last byte below 255 is incremented.\<close>

function prefix_range_end :: "string \<Rightarrow> string result" where
  "prefix_range_end p =
     (if p = [] then Inl ConfigurationError
      else if (of_char (last p) :: nat) < 255
           then Inr (butlast p @ [char_of (of_char (last p) + 1 :: nat)])
           else prefix_range_end (butlast p))"
  by pat_completeness auto
termination
  by (relation "measure length") auto

declare prefix_range_end.simps [simp del]

definition count_range :: "string \<Rightarrow> 'b request result" where
  "count_range p = rbind (prefix_range_end p) (\<lambda>e. Inr (ReqCount p e))"

section \<open>Guards and audit control\<close>

definition compare_config :: "'b allocator \<Rightarrow> 'b compare" where
  "compare_config A = CmpValue (configuration_key A) (config_raw A)"

definition compare_lease :: "string \<Rightarrow> int \<Rightarrow> 'b compare result" where
  "compare_lease key l = rbind (positive_int l False) (\<lambda>l'. Inr (CmpLease key l'))"

definition put_with_lease :: "string \<Rightarrow> 'b \<Rightarrow> etcd_lease \<Rightarrow> 'b request result" where
  "put_with_lease key raw l =
     (case lease_id l of
        Some i \<Rightarrow> if i \<le> 0 then Inl BackendError else Inr (ReqPut key raw (Some i))
      | None \<Rightarrow> Inl BackendError)"

definition guard_compares_for ::
  "'b allocator \<Rightarrow> 'b option \<Rightarrow> int option \<Rightarrow> 'b compare list result" where
  "guard_compares_for A raw lease =
     (case (raw, lease) of
        (Some r, Some l) \<Rightarrow>
          if l \<le> 0 then Inl BackendError
          else Inr [compare_config A, CmpAbsent (audit_failure_key A),
                    CmpValue (audit_coordinator_key A) r, CmpLease (audit_coordinator_key A) l]
      | _ \<Rightarrow> Inl BackendError)"

definition guard_compares :: "'b allocator \<Rightarrow> ('s, 'b, 'b compare list) cprog" where
  "guard_compares A =
     bnd get_state (\<lambda>c. lift (guard_compares_for A (cl_health_raw c) (cl_health_lease c)))"

text \<open>Health and sticky failure at one revision: the coordinator entry and the failure entry.\<close>

definition config_missing_check :: "'b allocator \<Rightarrow> 'b wire_resp list \<Rightarrow> 'a result" where
  "config_missing_check A responses =
     (case responses of
        [r] \<Rightarrow>
          rbind (parse_range r (configuration_key A)) (\<lambda>raw.
          case raw of
            None \<Rightarrow> Inl IntegrityError
          | Some c \<Rightarrow> rbind (validate_configuration A c) (\<lambda>_. Inl BackendError))
      | _ \<Rightarrow> Inl BackendError)"

definition audit_control_txn :: "'b allocator \<Rightarrow> 'b txn" where
  "audit_control_txn A =
     \<lparr>t_compare = [compare_config A],
      t_success = [ReqRange (audit_coordinator_key A), ReqRange (audit_failure_key A)],
      t_failure = [ReqRange (configuration_key A)]\<rparr>"

definition read_audit_control ::
  "'b allocator \<Rightarrow> ('s, 'b) gateway \<Rightarrow>
     ('s, 'b, ('b option \<times> int) \<times> ('b option \<times> int)) cprog" where
  "read_audit_control A G =
     bnd (transaction_response A G (audit_control_txn A)) (\<lambda>(succeeded, responses).
       if \<not> succeeded then lift (config_missing_check A responses)
       else case responses of
         [r1, r2] \<Rightarrow>
           lift (rbind (parse_range_entry r1 (audit_coordinator_key A)) (\<lambda>co.
                 rbind (parse_range_entry r2 (audit_failure_key A)) (\<lambda>fa. Inr (co, fa))))
       | _ \<Rightarrow> raise BackendError)"

text \<open>\<open>_latch_fleet_failure\<close> never returns.\<close>

definition latch_fleet_failure :: "'b allocator \<Rightarrow> 'b \<Rightarrow> int \<Rightarrow> ('s, 'b, 'a) cprog" where
  "latch_fleet_failure A raw lease =
     bnd (lift (parse_audit_failure A raw)) (\<lambda>_.
     bnd (modify (\<lambda>c. c\<lparr>cl_latch := True\<rparr>)) (\<lambda>_. raise IntegrityError))"

text \<open>A failure record found by a caller latches; its absence lets the caller go on.\<close>

definition latch_if_failed :: "'b allocator \<Rightarrow> 'b option \<times> int \<Rightarrow> ('s, 'b, unit) cprog" where
  "latch_if_failed A failure =
     (case fst failure of None \<Rightarrow> ret () | Some raw \<Rightarrow> latch_fleet_failure A raw (snd failure))"

text \<open>Adopting a live, healthy coordinator generation as the guard of later transactions.\<close>

definition adopt_healthy :: "'b allocator \<Rightarrow> 'b option \<times> int \<Rightarrow> ('s, 'b, 'b) cprog" where
  "adopt_healthy A entry =
     (case entry of
        (Some raw, lease) \<Rightarrow>
          if lease \<le> 0 then raise BackendError
          else bnd (lift (parse_audit_coordinator A raw)) (\<lambda>co.
               if co_state co \<noteq> Healthy then raise BackendError
               else bnd (modify (\<lambda>c. c\<lparr>cl_health_raw := Some raw, cl_health_lease := Some lease\<rparr>))
                      (\<lambda>_. ret raw))
      | (None, _) \<Rightarrow> raise BackendError)"

definition refresh_fleet_read_guard ::
  "'b allocator \<Rightarrow> ('s, 'b) gateway \<Rightarrow> 'b option \<Rightarrow> ('s, 'b, bool) cprog" where
  "refresh_fleet_read_guard A G expected =
     bnd (read_audit_control A G) (\<lambda>(co, failure).
     bnd (latch_if_failed A failure) (\<lambda>_.
     bnd (adopt_healthy A co) (\<lambda>raw. ret (Some raw \<noteq> expected))))"

section \<open>Guarded exact reads\<close>

type_synonym 'b snapshot = "string \<Rightarrow> 'b option"

definition read_txn :: "'b allocator \<Rightarrow> 'b compare list \<Rightarrow> string list \<Rightarrow> 'b txn" where
  "read_txn A guards keys =
     \<lparr>t_compare = guards, t_success = map ReqRange keys,
      t_failure = [ReqRange (configuration_key A)]\<rparr>"

definition snapshot_of :: "string list \<Rightarrow> 'b option list \<Rightarrow> 'b snapshot" where
  "snapshot_of keys values k = (case map_of (zip keys values) k of None \<Rightarrow> None | Some v \<Rightarrow> v)"

text \<open>One attempt; \<open>again\<close> is the next one, where the code has one left.\<close>

definition read_exact_attempt ::
  "'b allocator \<Rightarrow> ('s, 'b) gateway \<Rightarrow> string list \<Rightarrow> ('s, 'b, 'b snapshot) cprog option \<Rightarrow>
     ('s, 'b, 'b snapshot) cprog" where
  "read_exact_attempt A G keys again =
     bnd get_state (\<lambda>c.
     bnd (lift (guard_compares_for A (cl_health_raw c) (cl_health_lease c))) (\<lambda>guards.
     bnd (transaction_response A G (read_txn A guards keys)) (\<lambda>(succeeded, responses).
       if succeeded then
         (if length responses \<noteq> length keys then raise BackendError
          else bnd (lift (map_result (\<lambda>(r, k). parse_range r k) (zip responses keys)))
                 (\<lambda>values. ret (snapshot_of keys values)))
       else
         (case responses of
            [r] \<Rightarrow>
              bnd (lift (rbind (parse_range r (configuration_key A)) (\<lambda>raw.
                         case raw of None \<Rightarrow> Inl IntegrityError
                         | Some cfg \<Rightarrow> validate_configuration A cfg))) (\<lambda>_.
              case again of
                None \<Rightarrow> raise BackendError
              | Some m \<Rightarrow>
                  bnd (refresh_fleet_read_guard A G (cl_health_raw c)) (\<lambda>changed.
                    if changed then m else raise BackendError))
          | _ \<Rightarrow> raise BackendError))))"

definition read_exact ::
  "'b allocator \<Rightarrow> ('s, 'b) gateway \<Rightarrow> string list \<Rightarrow> ('s, 'b, 'b snapshot) cprog" where
  "read_exact A G keys =
     (if \<not> distinct keys then raise ConfigurationError
      else read_exact_attempt A G keys (Some (read_exact_attempt A G keys None)))"

end
