(* ===== verification/Idmap_Audit.thy ===== *)
theory Idmap_Audit
  imports Etcd_Gateway "HOL-Library.Product_Lexorder"
begin

text \<open>
  The full audit of a namespace: the records of one prefix read are sorted into families by
  their keys, each record is parsed against its key, and the relationships between the
  families are checked (\<open>_audit_records\<close> to \<open>_audit_snapshot\<close> of idmap.py). The reading
  itself is in the state, the rest is a function of the entries read.
\<close>

section \<open>Entries\<close>

text \<open>\<open>_audit_records\<close>: the records besides the configuration, which must be valid.\<close>

fun collect_records :: "'b allocator \<Rightarrow> (string \<times> 'b) list \<Rightarrow> (string \<times> 'b) list \<Rightarrow>
    (string \<times> 'b) list result" where
  "collect_records A [] records = Inr records"
| "collect_records A ((key, raw) # entries) records =
     rbind (check (in_namespace A key) IntegrityError) (\<lambda>_.
     rbind (check (map_of records key = None) IntegrityError) (\<lambda>_.
     collect_records A entries (records @ [(key, raw)])))"

definition audit_records :: "'b allocator \<Rightarrow> (string \<times> 'b) list \<Rightarrow> (string \<times> 'b) list result" where
  "audit_records A entries =
     rbind (collect_records A entries []) (\<lambda>records.
     case map_of records (configuration_key A) of
       None \<Rightarrow> Inl IntegrityError
     | Some raw \<Rightarrow>
         rbind (validate_configuration A raw) (\<lambda>_.
         Inr (filter (\<lambda>kv. fst kv \<noteq> configuration_key A) records)))"

section \<open>Families\<close>

text \<open>The dictionaries the audit fills; an instance or slot record keeps its bytes beside it.\<close>

record 'b families =
  fa_instances :: "(string \<times> assignment \<times> 'b) list"
  fa_slots :: "(int \<times> assignment \<times> 'b) list"
  fa_intents :: "(string \<times> release_intent) list"
  fa_claims :: "((string \<times> string) \<times> host_claim) list"
  fa_fences :: "((string \<times> string) \<times> string option) list"

definition no_families :: "'b families" where
  "no_families = \<lparr>fa_instances = [], fa_slots = [], fa_intents = [], fa_claims = [], fa_fences = []\<rparr>"

text \<open>A key part that must be a canonical UUID.\<close>

definition key_uuid :: "string \<Rightarrow> string result" where
  "key_uuid s = except_r (\<lambda>e. e = ConfigurationError) IntegrityError (check_uuid s)"

definition key_pair :: "string \<Rightarrow> (string \<times> string) result" where
  "key_pair suffix =
     (case split_on CHR ''/'' suffix of
        [h, u] \<Rightarrow> rbind (key_uuid h) (\<lambda>h'. rbind (key_uuid u) (\<lambda>u'. Inr (h', u')))
      | _ \<Rightarrow> Inl IntegrityError)"

text \<open>What one record says, before it is entered into its dictionary.\<close>

definition classify_instance :: "'b allocator \<Rightarrow> string \<Rightarrow> 'b \<Rightarrow> (string \<times> assignment \<times> 'b) result" where
  "classify_instance A suffix raw =
     rbind (key_uuid suffix) (\<lambda>u.
     rbind (parse_assignment A raw (Some u) None) (\<lambda>a. Inr (u, a, raw)))"

definition classify_slot :: "'b allocator \<Rightarrow> string \<Rightarrow> 'b \<Rightarrow> (int \<times> assignment \<times> 'b) result" where
  "classify_slot A suffix raw =
     rbind (check (canonical_dec suffix) IntegrityError) (\<lambda>_.
     let slot = int (dec_val suffix) in
     rbind (check (slot < al_count A) IntegrityError) (\<lambda>_.
     rbind (parse_assignment A raw None (Some slot)) (\<lambda>a. Inr (slot, a, raw))))"

definition classify_release :: "'b allocator \<Rightarrow> string \<Rightarrow> 'b \<Rightarrow> (string \<times> release_intent) result" where
  "classify_release A suffix raw =
     rbind (key_uuid suffix) (\<lambda>u.
     rbind (parse_release_intent A raw (Some u)) (\<lambda>i. Inr (u, i)))"

definition classify_host ::
  "'b allocator \<Rightarrow> string \<Rightarrow> 'b \<Rightarrow> ((string \<times> string) \<times> host_claim) result" where
  "classify_host A suffix raw =
     rbind (key_pair suffix) (\<lambda>(h, u).
     rbind (parse_host_claim A raw (Some h) (Some u)) (\<lambda>c. Inr ((h, u), c)))"

definition classify_fence ::
  "'b allocator \<Rightarrow> string \<Rightarrow> 'b \<Rightarrow> ((string \<times> string) \<times> string option) result" where
  "classify_fence A suffix raw =
     rbind (key_pair suffix) (\<lambda>(h, u).
     rbind (parse_fence_record A raw) (\<lambda>(p, t).
     rbind (check (f_host_id p = h \<and> f_instance_uuid p = u) IntegrityError) (\<lambda>_. Inr ((h, u), t))))"

definition fresh_key :: "'k \<Rightarrow> ('k \<times> 'v) list \<Rightarrow> unit result" where
  "fresh_key k kvs = check (map_of kvs k = None) IntegrityError"

definition audit_parse_instance_record ::
  "'b allocator \<Rightarrow> string \<Rightarrow> 'b \<Rightarrow> 'b families \<Rightarrow> 'b families result" where
  "audit_parse_instance_record A suffix raw F =
     rbind (classify_instance A suffix raw) (\<lambda>r.
     rbind (fresh_key (fst r) (fa_instances F)) (\<lambda>_.
     Inr (F\<lparr>fa_instances := fa_instances F @ [r]\<rparr>)))"

definition audit_parse_slot_record ::
  "'b allocator \<Rightarrow> string \<Rightarrow> 'b \<Rightarrow> 'b families \<Rightarrow> 'b families result" where
  "audit_parse_slot_record A suffix raw F =
     rbind (classify_slot A suffix raw) (\<lambda>r.
     rbind (fresh_key (fst r) (fa_slots F)) (\<lambda>_.
     Inr (F\<lparr>fa_slots := fa_slots F @ [r]\<rparr>)))"

definition audit_parse_release_record ::
  "'b allocator \<Rightarrow> string \<Rightarrow> 'b \<Rightarrow> 'b families \<Rightarrow> 'b families result" where
  "audit_parse_release_record A suffix raw F =
     rbind (classify_release A suffix raw) (\<lambda>r.
     rbind (fresh_key (fst r) (fa_intents F)) (\<lambda>_.
     Inr (F\<lparr>fa_intents := fa_intents F @ [r]\<rparr>)))"

definition audit_parse_host_record ::
  "'b allocator \<Rightarrow> string \<Rightarrow> 'b \<Rightarrow> 'b families \<Rightarrow> 'b families result" where
  "audit_parse_host_record A suffix raw F =
     rbind (classify_host A suffix raw) (\<lambda>r.
     rbind (fresh_key (fst r) (fa_claims F)) (\<lambda>_.
     Inr (F\<lparr>fa_claims := fa_claims F @ [r]\<rparr>)))"

text \<open>The fence dictionary is assigned without a duplicate check.\<close>

definition audit_parse_fence_record ::
  "'b allocator \<Rightarrow> string \<Rightarrow> 'b \<Rightarrow> 'b families \<Rightarrow> 'b families result" where
  "audit_parse_fence_record A suffix raw F =
     rbind (classify_fence A suffix raw) (\<lambda>r.
     Inr (F\<lparr>fa_fences := filter (\<lambda>e. fst e \<noteq> fst r) (fa_fences F) @ [r]\<rparr>))"

definition instance_prefix :: "'b allocator \<Rightarrow> string" where
  "instance_prefix A = al_prefix A @ ''/instances/''"

definition slot_prefix :: "'b allocator \<Rightarrow> string" where
  "slot_prefix A = al_prefix A @ ''/slots/''"

definition release_prefix :: "'b allocator \<Rightarrow> string" where
  "release_prefix A = al_prefix A @ ''/releases/''"

definition host_prefix :: "'b allocator \<Rightarrow> string" where
  "host_prefix A = al_prefix A @ ''/hosts/''"

definition fence_prefix :: "'b allocator \<Rightarrow> string" where
  "fence_prefix A = al_prefix A @ ''/fences/''"

definition audit_parse_record ::
  "'b allocator \<Rightarrow> string \<Rightarrow> 'b \<Rightarrow> 'b families \<Rightarrow> 'b families result" where
  "audit_parse_record A key raw F =
     (if starts_with (instance_prefix A) key
      then audit_parse_instance_record A (drop (length (instance_prefix A)) key) raw F
      else if starts_with (slot_prefix A) key
      then audit_parse_slot_record A (drop (length (slot_prefix A)) key) raw F
      else if starts_with (release_prefix A) key
      then audit_parse_release_record A (drop (length (release_prefix A)) key) raw F
      else if starts_with (host_prefix A) key
      then audit_parse_host_record A (drop (length (host_prefix A)) key) raw F
      else if starts_with (fence_prefix A) key
      then audit_parse_fence_record A (drop (length (fence_prefix A)) key) raw F
      else Inl IntegrityError)"

fun audit_parse_record_families ::
  "'b allocator \<Rightarrow> (string \<times> 'b) list \<Rightarrow> 'b families \<Rightarrow> 'b families result" where
  "audit_parse_record_families A [] F = Inr F"
| "audit_parse_record_families A ((key, raw) # records) F =
     rbind (audit_parse_record A key raw F) (\<lambda>F'. audit_parse_record_families A records F')"

section \<open>Relationships\<close>

definition fence_relationship_ok :: "'b families \<Rightarrow> (string \<times> string) \<times> string option \<Rightarrow> bool" where
  "fence_relationship_ok F e =
     (case snd e of None \<Rightarrow> True
      | Some token \<Rightarrow>
          (case map_of (fa_claims F) (fst e) of
             None \<Rightarrow> True | Some c \<Rightarrow> materialization_id c \<noteq> token))"

definition audit_validate_fence_relationships :: "'b families \<Rightarrow> unit result" where
  "audit_validate_fence_relationships F =
     check (list_all (fence_relationship_ok F) (fa_fences F)) IntegrityError"

fun validate_instance_slots ::
  "'b families \<Rightarrow> (string \<times> assignment \<times> 'b) list \<Rightarrow> (int \<Rightarrow> string option) \<Rightarrow> unit result" where
  "validate_instance_slots F [] claimed = Inr ()"
| "validate_instance_slots F ((u, a, raw) # xs) claimed =
     rbind (check (\<forall>p \<in> set_option (claimed (map_slot a)). p = u) IntegrityError) (\<lambda>_.
     rbind (check (map_of (fa_slots F) (map_slot a) = Some (a, raw)) IntegrityError) (\<lambda>_.
     validate_instance_slots F xs (claimed(map_slot a \<mapsto> u))))"

fun validate_slot_instances ::
  "'b families \<Rightarrow> (int \<times> assignment \<times> 'b) list \<Rightarrow> (string \<Rightarrow> int option) \<Rightarrow> unit result" where
  "validate_slot_instances F [] claimed = Inr ()"
| "validate_slot_instances F ((s, a, raw) # xs) claimed =
     rbind (check (\<forall>p \<in> set_option (claimed (instance_uuid a)). p = s) IntegrityError) (\<lambda>_.
     rbind (check (map_of (fa_instances F) (instance_uuid a) = Some (a, raw)) IntegrityError) (\<lambda>_.
     validate_slot_instances F xs (claimed(instance_uuid a \<mapsto> s))))"

definition audit_validate_slot_relationships :: "'b families \<Rightarrow> unit result" where
  "audit_validate_slot_relationships F =
     rbind (validate_instance_slots F (fa_instances F) (\<lambda>_. None)) (\<lambda>_.
     validate_slot_instances F (fa_slots F) (\<lambda>_. None))"

definition release_relationship_ok :: "'b families \<Rightarrow> string \<times> release_intent \<Rightarrow> bool" where
  "release_relationship_ok F e =
     (case map_of (fa_instances F) (fst e) of
        None \<Rightarrow> False | Some (a, raw) \<Rightarrow> same_generation a (snd e))"

definition audit_validate_release_relationships :: "'b families \<Rightarrow> unit result" where
  "audit_validate_release_relationships F =
     check (list_all (release_relationship_ok F) (fa_intents F)) IntegrityError"

definition allocation_claims_ok :: "'b families \<Rightarrow> string \<times> assignment \<times> 'b \<Rightarrow> bool" where
  "allocation_claims_ok F e =
     (case e of (u, a, raw) \<Rightarrow>
        list_all (\<lambda>h. case map_of (fa_claims F) (h, u) of
                        None \<Rightarrow> False | Some c \<Rightarrow> same_generation c a) (host_ids a))"

definition claim_allocation_ok :: "'b families \<Rightarrow> (string \<times> string) \<times> host_claim \<Rightarrow> bool" where
  "claim_allocation_ok F e =
     (case e of ((h, u), c) \<Rightarrow>
        (case map_of (fa_instances F) u of
           None \<Rightarrow> False | Some (a, raw) \<Rightarrow> h \<in> set (host_ids a) \<and> same_generation c a))"

definition audit_validate_host_relationships :: "'b families \<Rightarrow> unit result" where
  "audit_validate_host_relationships F =
     rbind (check (list_all (allocation_claims_ok F) (fa_instances F)) IntegrityError) (\<lambda>_.
     check (list_all (claim_allocation_ok F) (fa_claims F)) IntegrityError)"

section \<open>The snapshot\<close>

type_synonym audit_result = "assignment list \<times> release_intent list \<times> host_claim list"

definition sorted_snapshot :: "'b families \<Rightarrow> audit_result" where
  "sorted_snapshot F =
     (sort_key map_slot (map (\<lambda>(u, a, raw). a) (fa_instances F)),
      sort_key map_slot (map snd (fa_intents F)),
      sort_key (\<lambda>c. (map_slot c, instance_uuid c, host_id c)) (map snd (fa_claims F)))"

definition audit_entries :: "'b allocator \<Rightarrow> (string \<times> 'b) list \<Rightarrow> audit_result result" where
  "audit_entries A entries =
     rbind (audit_records A entries) (\<lambda>records.
     rbind (audit_parse_record_families A records no_families) (\<lambda>F.
     rbind (audit_validate_fence_relationships F) (\<lambda>_.
     rbind (audit_validate_slot_relationships F) (\<lambda>_.
     rbind (audit_validate_release_relationships F) (\<lambda>_.
     rbind (audit_validate_host_relationships F) (\<lambda>_.
     Inr (sorted_snapshot F)))))))"

definition audit_snapshot :: "'b allocator \<Rightarrow> ('s, 'b) gateway \<Rightarrow> ('s, 'b, audit_result) cprog" where
  "audit_snapshot A G =
     bnd (get_prefix_raw A G (al_prefix A @ ''/'')) (\<lambda>entries. lift (audit_entries A entries))"

section \<open>Latching\<close>

definition error_text :: "('s, 'b) gateway \<Rightarrow> ('s, 'b, string) cprog" where
  "error_text G = bnd (fetch (g_text G)) (\<lambda>t. ret (''Incus ID map allocation failed: '' @ t))"

definition failure_txn :: "'b allocator \<Rightarrow> 'b \<Rightarrow> 'b txn" where
  "failure_txn A raw =
     \<lparr>t_compare = [compare_config A, CmpAbsent (audit_failure_key A)],
      t_success = [ReqPut (audit_failure_key A) raw None],
      t_failure = [ReqRange (audit_failure_key A)]\<rparr>"

definition publish_integrity_failure :: "'b allocator \<Rightarrow> ('s, 'b) gateway \<Rightarrow> ('s, 'b, unit) cprog" where
  "publish_integrity_failure A G =
     bnd (error_text G) (\<lambda>reason.
     bnd (modify (\<lambda>c. c\<lparr>cl_latch := True\<rparr>)) (\<lambda>_.
     bnd (transaction_response A G (failure_txn A (audit_failure_raw A reason)))
       (\<lambda>(succeeded, responses).
       if succeeded then ret ()
       else case responses of
         [r] \<Rightarrow>
           bnd (lift (parse_range_entry r (audit_failure_key A))) (\<lambda>(existing, lease).
             case existing of
               None \<Rightarrow> raise BackendError
             | Some raw \<Rightarrow>
                 bnd (lift (parse_audit_failure A raw)) (\<lambda>_.
                   if lease \<noteq> 0 then raise IntegrityError else ret ()))
       | _ \<Rightarrow> raise BackendError)))"

text \<open>
  The handler shared by the audit, the initialisation and the coordinator: an integrity
  error is published, a failing publication does not replace it.
\<close>

definition latch_and_publish :: "'b allocator \<Rightarrow> ('s, 'b) gateway \<Rightarrow> ('s, 'b, 'a) cprog" where
  "latch_and_publish A G =
     bnd (modify (\<lambda>c. c\<lparr>cl_latch := True\<rparr>)) (\<lambda>_.
     bnd (handle (\<lambda>e. e = BackendError) (publish_integrity_failure A G) (\<lambda>_. ret ())) (\<lambda>_.
     raise IntegrityError))"

definition audit_with_latch :: "'b allocator \<Rightarrow> ('s, 'b) gateway \<Rightarrow> ('s, 'b, audit_result) cprog" where
  "audit_with_latch A G =
     handle (\<lambda>e. e = IntegrityError) (audit_snapshot A G) (\<lambda>_. latch_and_publish A G)"

definition audit :: "'b allocator \<Rightarrow> ('s, 'b) gateway \<Rightarrow> ('s, 'b, assignment list) cprog" where
  "audit A G = bnd (audit_with_latch A G) (\<lambda>(assignments, intents, claims). ret assignments)"

definition list_release_intents ::
  "'b allocator \<Rightarrow> ('s, 'b) gateway \<Rightarrow> ('s, 'b, release_intent list) cprog" where
  "list_release_intents A G = bnd (audit_with_latch A G) (\<lambda>(assignments, intents, claims). ret intents)"

definition audit_state :: "'b allocator \<Rightarrow> ('s, 'b) gateway \<Rightarrow> ('s, 'b, audit_result) cprog" where
  "audit_state A G = audit_with_latch A G"

section \<open>The count probe\<close>

definition read_count :: "'b wire_resp \<Rightarrow> int result" where
  "read_count resp =
     (case resp of
        RespMalformed \<Rightarrow> Inl BackendError
      | RespRange kvs count \<Rightarrow>
          rbind (except_r (\<lambda>e. e \<in> {PyException TypeError, PyException ValueError}) BackendError
                   (py_int count)) (\<lambda>n.
          if n < 0 then Inl BackendError else Inr n))"

definition probe_counts_ok :: "int \<Rightarrow> int \<Rightarrow> int \<Rightarrow> int \<Rightarrow> bool" where
  "probe_counts_ok instances slots releases hosts \<longleftrightarrow>
     instances = slots \<and> releases \<le> instances \<and> \<not> (instances = 0 \<and> hosts \<noteq> 0)"

definition probe_requests :: "'b allocator \<Rightarrow> 'b request list result" where
  "probe_requests A =
     map_result count_range [instance_prefix A, slot_prefix A, release_prefix A, host_prefix A]"

definition probe_txn :: "'b allocator \<Rightarrow> 'b compare list \<Rightarrow> 'b request list \<Rightarrow> 'b txn" where
  "probe_txn A guards requests =
     \<lparr>t_compare = guards, t_success = requests, t_failure = [ReqRange (configuration_key A)]\<rparr>"

definition probe_snapshot ::
  "'b allocator \<Rightarrow> ('s, 'b) gateway \<Rightarrow> bool \<Rightarrow> ('s, 'b, int list) cprog" where
  "probe_snapshot A G guarded =
     bnd (if guarded then guard_compares A else ret [compare_config A]) (\<lambda>guards.
     bnd (lift (probe_requests A)) (\<lambda>requests.
     bnd (transaction_response A G (probe_txn A guards requests)) (\<lambda>(succeeded, responses).
       if \<not> succeeded then raise IntegrityError
       else if length responses \<noteq> 4 then raise BackendError
       else bnd (lift (map_result read_count responses)) (\<lambda>counts.
         if probe_counts_ok (counts ! 0) (counts ! 1) (counts ! 2) (counts ! 3)
         then ret counts else raise IntegrityError))))"

end
