(* ===== verification/Idmap_Coordinator.thy ===== *)
theory Idmap_Coordinator
  imports Idmap_Audit
begin

text \<open>
  The fleet auditor and the life cycle of a registry: the lease-backed coordinator record
  that elects one auditor, the coordinated audit, the health check every operation starts
  with, and the creation and validation of the namespace configuration
  (\<open>_replace_audit_coordinator\<close> to \<open>_ensure_initialized\<close> of idmap.py), followed by the
  listing operations.
\<close>

section \<open>The coordinator record\<close>

definition revoke_audit_lease :: "'b allocator \<Rightarrow> ('s, 'b) gateway \<Rightarrow> etcd_lease \<Rightarrow> ('s, 'b, unit) cprog" where
  "revoke_audit_lease A G l = handle (\<lambda>_. True) (guarded_call A G (g_revoke G l)) (\<lambda>_. ret ())"

definition grant_audit_lease :: "'b allocator \<Rightarrow> ('s, 'b) gateway \<Rightarrow> ('s, 'b, etcd_lease) cprog" where
  "grant_audit_lease A G = guarded_call A G (g_lease G (al_lease_ttl A))"

definition refresh_audit_lease :: "'b allocator \<Rightarrow> ('s, 'b) gateway \<Rightarrow> etcd_lease \<Rightarrow> ('s, 'b, int) cprog" where
  "refresh_audit_lease A G l =
     bnd (guarded_call A G (g_refresh G l)) (\<lambda>ttl.
       case ttl of None \<Rightarrow> raise BackendError
       | Some t \<Rightarrow> if t \<le> 0 then raise BackendError else ret t)"

definition coordinator_compares ::
  "'b allocator \<Rightarrow> 'b option \<Rightarrow> int option \<Rightarrow> 'b compare list result" where
  "coordinator_compares A expected lease =
     (case expected of
        None \<Rightarrow> Inr [CmpAbsent (audit_coordinator_key A)]
      | Some raw \<Rightarrow>
          (case lease of
             None \<Rightarrow> Inl ConfigurationError
           | Some l \<Rightarrow>
               if l < 0 then Inl ConfigurationError
               else if l = 0 then Inr [CmpValue (audit_coordinator_key A) raw,
                                       CmpLease (audit_coordinator_key A) 0]
               else rbind (compare_lease (audit_coordinator_key A) l) (\<lambda>cmp.
                    Inr [CmpValue (audit_coordinator_key A) raw, cmp])))"

definition coordinator_txn :: "'b allocator \<Rightarrow> 'b compare list \<Rightarrow> 'b request \<Rightarrow> 'b txn" where
  "coordinator_txn A cmps put =
     \<lparr>t_compare = [compare_config A, CmpAbsent (audit_failure_key A)] @ cmps,
      t_success = [put], t_failure = []\<rparr>"

definition replace_audit_coordinator ::
  "'b allocator \<Rightarrow> ('s, 'b) gateway \<Rightarrow> 'b option \<Rightarrow> int option \<Rightarrow> 'b \<Rightarrow> etcd_lease \<Rightarrow>
     ('s, 'b, bool) cprog" where
  "replace_audit_coordinator A G expected expected_lease desired l =
     bnd (lift (coordinator_compares A expected expected_lease)) (\<lambda>cmps.
     bnd (lift (put_with_lease (audit_coordinator_key A) desired l)) (\<lambda>put.
     transaction A G (coordinator_txn A cmps put)))"

definition no_health :: "('s, 'b, unit) cprog" where
  "no_health = modify (\<lambda>c. c\<lparr>cl_health_raw := None, cl_health_lease := None\<rparr>)"

text \<open>The owner flag, the coordinator record the owner expects, and whether it is a new owner.\<close>

definition begin_coordinated_audit ::
  "'b allocator \<Rightarrow> ('s, 'b) gateway \<Rightarrow> ('s, 'b, bool \<times> 'b option \<times> bool) cprog" where
  "begin_coordinated_audit A G =
     bnd (read_audit_control A G) (\<lambda>((raw, lease), failure).
     bnd (latch_if_failed A failure) (\<lambda>_.
     if raw = None \<or> lease = 0 then
       bnd (case raw of None \<Rightarrow> ret ()
            | Some r \<Rightarrow> bnd (lift (parse_audit_coordinator A r)) (\<lambda>_. ret ())) (\<lambda>_.
       bnd (grant_audit_lease A G) (\<lambda>l.
       bnd (fetch (g_uuid4 G)) (\<lambda>generation.
       let pending = audit_coordinator_raw A (al_token A) Pending generation in
       bnd (handle (\<lambda>_. True) (replace_audit_coordinator A G raw (Some lease) pending l)
              (\<lambda>e. bnd (revoke_audit_lease A G l) (\<lambda>_. raise e))) (\<lambda>acquired.
       if \<not> acquired then bnd (revoke_audit_lease A G l) (\<lambda>_. ret (False, None, False))
       else bnd (modify (\<lambda>c. c\<lparr>cl_lease := Some l\<rparr>)) (\<lambda>_.
            bnd no_health (\<lambda>_. ret (True, Some pending, True)))))))
     else
       bnd (lift (parse_audit_coordinator A (the raw))) (\<lambda>co.
       if co_token co \<noteq> al_token A then ret (False, None, False)
       else bnd get_state (\<lambda>c.
       case cl_lease c of
         None \<Rightarrow> raise BackendError
       | Some l \<Rightarrow>
           (case lease_id l of
              Some i \<Rightarrow>
                if i \<le> 0 \<or> lease \<noteq> i then bnd no_health (\<lambda>_. raise BackendError)
                else if co_state co \<noteq> Healthy then raise BackendError
                else bnd (modify (\<lambda>c. c\<lparr>cl_health_raw := raw, cl_health_lease := Some lease\<rparr>)) (\<lambda>_.
                     bnd (refresh_audit_lease A G l) (\<lambda>_. ret (True, raw, False)))
            | None \<Rightarrow> bnd no_health (\<lambda>_. raise BackendError))))))"

definition raise_if_integrity_latched :: "('s, 'b, unit) cprog" where
  "raise_if_integrity_latched =
     bnd get_state (\<lambda>c. if cl_latch c then raise IntegrityError else ret ())"

definition owned_lease :: "('s, 'b) client \<Rightarrow> etcd_lease" where
  "owned_lease c = (case cl_lease c of None \<Rightarrow> \<lparr>lease_id = None\<rparr> | Some l \<Rightarrow> l)"

text \<open>The handler of a failed coordinated audit: a healthy generation goes back to pending.\<close>

definition demote_coordinator :: "'b allocator \<Rightarrow> ('s, 'b) gateway \<Rightarrow> 'b \<Rightarrow> idmap_error \<Rightarrow> ('s, 'b, 'a) cprog" where
  "demote_coordinator A G expected e =
     bnd (lift (parse_audit_coordinator A expected)) (\<lambda>co.
     bnd (if co_state co = Healthy then
            bnd (fetch (g_uuid4 G)) (\<lambda>generation.
            bnd get_state (\<lambda>c.
            handle (\<lambda>x. x = BackendError)
              (bnd (replace_audit_coordinator A G (Some expected) (lease_id (owned_lease c))
                      (audit_coordinator_raw A (al_token A) Pending generation) (owned_lease c))
                 (\<lambda>_. ret ()))
              (\<lambda>_. ret ())))
          else ret ()) (\<lambda>_.
     bnd no_health (\<lambda>_. raise e)))"

definition run_coordinated_audit ::
  "'b allocator \<Rightarrow> ('s, 'b) gateway \<Rightarrow> bool \<Rightarrow> ('s, 'b, bool \<times> audit_result option) cprog" where
  "run_coordinated_audit A G full =
     bnd raise_if_integrity_latched (\<lambda>_.
     bnd (handle (\<lambda>e. e = IntegrityError) (begin_coordinated_audit A G)
            (\<lambda>e. bnd (handle (\<lambda>x. x = BackendError) (publish_integrity_failure A G) (\<lambda>_. ret ()))
                   (\<lambda>_. raise e))) (\<lambda>(owner, expected, newly).
     case (owner, expected) of
       (True, Some raw) \<Rightarrow>
         bnd (handle (\<lambda>_. True)
                (if full \<or> newly then bnd (audit_with_latch A G) (\<lambda>s. ret (Some s))
                 else handle (\<lambda>e. e = IntegrityError)
                        (bnd (probe_snapshot A G False) (\<lambda>_. ret None))
                        (\<lambda>_. bnd (audit_with_latch A G) (\<lambda>s. ret (Some s))))
                (demote_coordinator A G raw)) (\<lambda>snapshot.
         bnd (fetch (g_uuid4 G)) (\<lambda>generation.
         bnd get_state (\<lambda>c.
         let healthy = audit_coordinator_raw A (al_token A) Healthy generation;
             l = owned_lease c in
         bnd (replace_audit_coordinator A G (Some raw) (lease_id l) healthy l) (\<lambda>replaced.
         if \<not> replaced then raise BackendError
         else bnd (modify (\<lambda>c. c\<lparr>cl_health_raw := Some healthy, cl_health_lease := lease_id l\<rparr>))
                (\<lambda>_. ret (True, snapshot))))))
     | _ \<Rightarrow> ret (False, None)))"

definition ensure_fleet_healthy :: "'b allocator \<Rightarrow> ('s, 'b) gateway \<Rightarrow> ('s, 'b, unit) cprog" where
  "ensure_fleet_healthy A G =
     bnd (read_audit_control A G) (\<lambda>(co, failure).
     bnd (latch_if_failed A failure) (\<lambda>_.
     if fst co \<noteq> None \<and> snd co > 0 then bnd (adopt_healthy A co) (\<lambda>_. ret ())
     else
       bnd (run_coordinated_audit A G True) (\<lambda>(owner, snapshot).
       if owner then ret ()
       else bnd (read_audit_control A G) (\<lambda>(co', failure').
            bnd (latch_if_failed A failure') (\<lambda>_.
            bnd (adopt_healthy A co') (\<lambda>_. ret ()))))))"

section \<open>Creation and validation of a registry\<close>

definition create_config_txn :: "'b allocator \<Rightarrow> 'b txn" where
  "create_config_txn A =
     \<lparr>t_compare = [CmpAbsent (configuration_key A)],
      t_success = [ReqPut (configuration_key A) (config_raw A) None],
      t_failure = []\<rparr>"

definition create_configuration :: "'b allocator \<Rightarrow> ('s, 'b) gateway \<Rightarrow> ('s, 'b, unit) cprog" where
  "create_configuration A G =
     bnd (handle (\<lambda>e. e = BackendError)
            (bnd (transaction A G (create_config_txn A)) (\<lambda>created. ret (Some created)))
            (\<lambda>e. bnd (get_raw A G (configuration_key A)) (\<lambda>current.
                   if current = Some (config_raw A) then ret None else raise e))) (\<lambda>created.
     if created = Some False then
       bnd (get_raw A G (configuration_key A)) (\<lambda>current.
         if current = None then raise BackendError else ret ())
     else ret ())"

definition initialize :: "'b allocator \<Rightarrow> ('s, 'b) gateway \<Rightarrow> ('s, 'b, unit) cprog" where
  "initialize A G =
     bnd (get_raw A G (configuration_key A)) (\<lambda>raw.
     case raw of
       None \<Rightarrow> raise IntegrityError
     | Some r \<Rightarrow>
         bnd (lift (validate_configuration A r)) (\<lambda>_.
         modify (\<lambda>c. c\<lparr>cl_initialized := True\<rparr>)))"

definition bootstrap :: "'b allocator \<Rightarrow> ('s, 'b) gateway \<Rightarrow> ('s, 'b, unit) cprog" where
  "bootstrap A G =
     bnd raise_if_integrity_latched (\<lambda>_.
     bnd (get_prefix_raw A G (al_prefix A @ ''/'')) (\<lambda>entries.
     if entries \<noteq> [] then
       (if \<not> list_ex (\<lambda>e. fst e = configuration_key A) entries then raise IntegrityError
        else bnd (audit_with_latch A G) (\<lambda>_. modify (\<lambda>c. c\<lparr>cl_initialized := True\<rparr>)))
     else
       bnd (create_configuration A G) (\<lambda>_.
       bnd (initialize A G) (\<lambda>_.
       bnd (get_prefix_raw A G (al_prefix A @ ''/'')) (\<lambda>created.
       if created \<noteq> [(configuration_key A, config_raw A)] then raise IntegrityError
       else bnd (audit_with_latch A G) (\<lambda>_. ret ()))))))"

text \<open>Five seconds, in the microseconds of the model's clock.\<close>

definition initialize_revalidate :: int where
  "initialize_revalidate = 5000000"

definition ensure_initialized :: "'b allocator \<Rightarrow> ('s, 'b) gateway \<Rightarrow> ('s, 'b, unit) cprog" where
  "ensure_initialized A G =
     bnd raise_if_integrity_latched (\<lambda>_.
     bnd (fetch (g_now G)) (\<lambda>now.
     bnd get_state (\<lambda>c.
     bnd (if \<not> cl_initialized c \<or>
             (case cl_checked_at c of None \<Rightarrow> True | Some t \<Rightarrow> initialize_revalidate \<le> now - t)
          then bnd (handle (\<lambda>e. e = IntegrityError) (initialize A G) (\<lambda>_. latch_and_publish A G)) (\<lambda>_.
               bnd (fetch (g_now G)) (\<lambda>t. modify (\<lambda>c. c\<lparr>cl_checked_at := Some t\<rparr>)))
          else ret ()) (\<lambda>_.
     ensure_fleet_healthy A G))))"

section \<open>Probe and listings\<close>

definition probe :: "'b allocator \<Rightarrow> ('s, 'b) gateway \<Rightarrow> ('s, 'b, int list) cprog" where
  "probe A G = bnd (ensure_initialized A G) (\<lambda>_. probe_snapshot A G True)"

fun parse_listed :: "string \<Rightarrow> (string \<Rightarrow> 'b \<Rightarrow> 'a result) \<Rightarrow> (string \<times> 'b) list \<Rightarrow> string list \<Rightarrow>
    'a list result" where
  "parse_listed prefix parse [] seen = Inr []"
| "parse_listed prefix parse ((key, raw) # entries) seen =
     rbind (key_uuid (if starts_with prefix key then drop (length prefix) key else '''')) (\<lambda>u.
     rbind (check (u \<notin> set seen) IntegrityError) (\<lambda>_.
     rbind (parse u raw) (\<lambda>v.
     rbind (parse_listed prefix parse entries (u # seen)) (\<lambda>vs. Inr (v # vs)))))"

definition by_slot :: "('x generation_scheme) list \<Rightarrow> ('x generation_scheme) list" where
  "by_slot xs = sort_key (\<lambda>g. (map_slot g, instance_uuid g)) xs"

definition list_release_intent_candidates ::
  "'b allocator \<Rightarrow> ('s, 'b) gateway \<Rightarrow> ('s, 'b, release_intent list) cprog" where
  "list_release_intent_candidates A G =
     bnd (ensure_initialized A G) (\<lambda>_.
     bnd (get_prefix_raw A G (release_prefix A)) (\<lambda>entries.
     bnd (lift (parse_listed (release_prefix A) (\<lambda>u raw. parse_release_intent A raw (Some u))
                  entries [])) (\<lambda>intents. ret (by_slot intents))))"

definition read_intents ::
  "'b allocator \<Rightarrow> 'b snapshot \<Rightarrow> string list \<Rightarrow> release_intent list result" where
  "read_intents A snap uuids =
     map_result (\<lambda>u. parse_release_intent A (the (snap (release_key_of A u))) (Some u))
       (filter (\<lambda>u. snap (release_key_of A u) \<noteq> None) uuids)"

definition list_release_intents_for_instances ::
  "'b allocator \<Rightarrow> ('s, 'b) gateway \<Rightarrow> string list \<Rightarrow> ('s, 'b, release_intent list) cprog" where
  "list_release_intents_for_instances A G uuids =
     bnd (ensure_initialized A G) (\<lambda>_.
     bnd (lift (map_result instance_uuid_arg uuids)) (\<lambda>checked.
     let us = sorted_unique checked in
     if us = [] then ret []
     else bnd (read_exact A G (map (release_key_of A) us)) (\<lambda>snap.
          bnd (lift (read_intents A snap us)) (\<lambda>intents. ret (by_slot intents)))))"

definition list_host_claims ::
  "'b allocator \<Rightarrow> ('s, 'b) gateway \<Rightarrow> string \<Rightarrow> ('s, 'b, host_claim list) cprog" where
  "list_host_claims A G h =
     bnd (ensure_initialized A G) (\<lambda>_.
     bnd (lift (host_id_arg h)) (\<lambda>h'.
     let prefix = host_prefix A @ h' @ ''/'' in
     bnd (get_prefix_raw A G prefix) (\<lambda>entries.
     bnd (lift (parse_listed prefix (\<lambda>u raw. parse_host_claim A raw (Some h') (Some u))
                  entries [])) (\<lambda>claims. ret (by_slot claims)))))"

text \<open>
  \<open>get_fence_proof\<close> indexes the stored object directly: a missing key or a value that is not
  an object raises the Python exception of the indexing.
\<close>

definition load_fence_proof :: "'b allocator \<Rightarrow> 'b \<Rightarrow> (string \<Rightarrow> json) result" where
  "load_fence_proof A raw =
     (case l_loads (al_lib A) raw of
        None \<Rightarrow> Inl (PyException ValueError)
      | Some (JObj v) \<Rightarrow>
          if list_all (\<lambda>k. k \<in> key_set v)
               [''instance_uuid'', ''host_id'', ''allocation_id'', ''fence_agent'', ''fenced_at'',
                ''operator'', ''evidence'']
          then Inr (jget v) else Inl (PyException KeyError)
      | Some _ \<Rightarrow> Inl (PyException TypeError))"

definition get_fence_proof ::
  "'b allocator \<Rightarrow> ('s, 'b) gateway \<Rightarrow> string \<Rightarrow> string \<Rightarrow> ('s, 'b, (string \<Rightarrow> json) option) cprog" where
  "get_fence_proof A G u h =
     bnd (ensure_initialized A G) (\<lambda>_.
     bnd (lift (fence_key A h u)) (\<lambda>key.
     bnd (read_exact A G [key]) (\<lambda>snap.
     case snap key of None \<Rightarrow> ret None
     | Some raw \<Rightarrow> bnd (lift (load_fence_proof A raw)) (\<lambda>f. ret (Some f)))))"

end
