(* ===== verification/Idmap_Allocator.thy ===== *)
theory Idmap_Allocator
  imports Idmap_Coordinator
begin

text \<open>
  The operations of IDMapAllocator: the exact read of one generation with its companion
  records, the compare-and-swap statement its operations share, and allocation. The exact
  read has the bound of the code (16 attempts) and ends in the code's conflict error.
\<close>

section \<open>Reading one generation\<close>

record 'b held =
  h_current :: assignment
  h_raw :: 'b
  h_intent :: "(release_intent \<times> 'b) option"
  h_claims :: "(string \<times> host_claim \<times> 'b) list"

definition claim_of :: "'b held \<Rightarrow> string \<Rightarrow> host_claim option" where
  "claim_of s h = map_option fst (map_of (h_claims s) h)"

definition claim_raw_of :: "'b held \<Rightarrow> string \<Rightarrow> 'b option" where
  "claim_raw_of s h = map_option snd (map_of (h_claims s) h)"

definition intent_of :: "'b held \<Rightarrow> release_intent option" where
  "intent_of s = map_option fst (h_intent s)"

definition read_claim :: "'b allocator \<Rightarrow> 'b snapshot \<Rightarrow> assignment \<Rightarrow> string \<Rightarrow> string \<Rightarrow>
    (string \<times> host_claim \<times> 'b) result" where
  "read_claim A snap a u h =
     (case snap (host_claim_key_of A h u) of
        None \<Rightarrow> Inl IntegrityError
      | Some raw \<Rightarrow>
          rbind (parse_host_claim A raw (Some h) (Some u)) (\<lambda>c.
          if same_generation c a then Inr (h, c, raw) else Inl IntegrityError))"

definition read_intent :: "'b allocator \<Rightarrow> 'b snapshot \<Rightarrow> assignment \<Rightarrow> string \<Rightarrow>
    (release_intent \<times> 'b) option result" where
  "read_intent A snap a u =
     (case snap (release_key_of A u) of
        None \<Rightarrow> Inr None
      | Some raw \<Rightarrow>
          rbind (parse_release_intent A raw (Some u)) (\<lambda>i.
          if same_generation a i then Inr (Some (i, raw)) else Inl IntegrityError))"

definition held_of :: "'b allocator \<Rightarrow> 'b snapshot \<Rightarrow> assignment \<Rightarrow> 'b \<Rightarrow> string \<Rightarrow> 'b held result" where
  "held_of A snap a raw u =
     rbind (check (snap (slot_key_of A (map_slot a)) = Some raw) IntegrityError) (\<lambda>_.
     rbind (map_result (read_claim A snap a u) (host_ids a)) (\<lambda>claims.
     rbind (read_intent A snap a u) (\<lambda>intent.
     Inr \<lparr>h_current = a, h_raw = raw, h_intent = intent, h_claims = claims\<rparr>)))"

definition read_state_attempt ::
  "'b allocator \<Rightarrow> ('s, 'b) gateway \<Rightarrow> string \<Rightarrow> ('s, 'b, 'b held option option) cprog" where
  "read_state_attempt A G u =
     bnd (read_exact A G [instance_key_of A u, release_key_of A u]) (\<lambda>first.
     case first (instance_key_of A u) of
       None \<Rightarrow> if first (release_key_of A u) \<noteq> None then raise IntegrityError else ret (Some None)
     | Some raw \<Rightarrow>
         bnd (lift (parse_assignment A raw (Some u) None)) (\<lambda>a.
         bnd (lift (map_result (\<lambda>h. host_claim_key A h u) (host_ids a))) (\<lambda>host_keys.
         bnd (lift (slot_key A (map_slot a))) (\<lambda>slot.
         bnd (read_exact A G ([instance_key_of A u, slot, release_key_of A u] @ host_keys)) (\<lambda>snap.
         if snap (instance_key_of A u) \<noteq> Some raw then ret None
         else bnd (lift (held_of A snap a raw u)) (\<lambda>s. ret (Some (Some s))))))))"

definition read_assignment_state ::
  "'b allocator \<Rightarrow> ('s, 'b) gateway \<Rightarrow> string \<Rightarrow> ('s, 'b, 'b held option) cprog" where
  "read_assignment_state A G u =
     bnd (lift (instance_key A u)) (\<lambda>_.
     bnd (lift (release_key A u)) (\<lambda>_.
     retry 16 (read_state_attempt A G u) (raise ConflictError)))"

definition get_assignment ::
  "'b allocator \<Rightarrow> ('s, 'b) gateway \<Rightarrow> string \<Rightarrow> ('s, 'b, assignment option) cprog" where
  "get_assignment A G u =
     bnd (read_assignment_state A G u) (\<lambda>s. ret (map_option h_current s))"

definition get_allocatable_assignment ::
  "'b allocator \<Rightarrow> ('s, 'b) gateway \<Rightarrow> string \<Rightarrow> ('s, 'b, assignment option) cprog" where
  "get_allocatable_assignment A G u =
     bnd (read_assignment_state A G u) (\<lambda>s.
       case s of
         None \<Rightarrow> ret None
       | Some held \<Rightarrow> if h_intent held \<noteq> None then raise ConflictError else ret (Some (h_current held)))"

definition get_allocation ::
  "'b allocator \<Rightarrow> ('s, 'b) gateway \<Rightarrow> string \<Rightarrow> ('s, 'b, assignment option) cprog" where
  "get_allocation A G u =
     bnd (ensure_initialized A G) (\<lambda>_.
     bnd (lift (instance_uuid_arg u)) (\<lambda>u. get_assignment A G u))"

definition get_release_intent ::
  "'b allocator \<Rightarrow> ('s, 'b) gateway \<Rightarrow> string \<Rightarrow> ('s, 'b, release_intent option) cprog" where
  "get_release_intent A G u =
     bnd (ensure_initialized A G) (\<lambda>_.
     bnd (lift (instance_uuid_arg u)) (\<lambda>u.
     bnd (read_assignment_state A G u) (\<lambda>s.
     ret (case s of None \<Rightarrow> None | Some held \<Rightarrow> intent_of held))))"

definition observed_claim :: "'b held option \<Rightarrow> string \<Rightarrow> host_claim option" where
  "observed_claim s h = (case s of None \<Rightarrow> None | Some held \<Rightarrow> claim_of held h)"

definition get_host_claim ::
  "'b allocator \<Rightarrow> ('s, 'b) gateway \<Rightarrow> string \<Rightarrow> string \<Rightarrow> ('s, 'b, host_claim option) cprog" where
  "get_host_claim A G u h =
     bnd (ensure_initialized A G) (\<lambda>_.
     bnd (lift (instance_uuid_arg u)) (\<lambda>u.
     bnd (lift (host_id_arg h)) (\<lambda>h.
     bnd (read_assignment_state A G u) (\<lambda>s. ret (observed_claim s h)))))"

section \<open>Compare and swap\<close>

text \<open>
  The statement shared by the operations: a guarded transaction; after a backend error the
  outcome is read back (\<open>recover\<close> gives the value to return, if the write is there), after
  success it is verified, after a lost comparison the loop goes on.
\<close>

definition cas_txn :: "'b compare list \<Rightarrow> 'b compare list \<Rightarrow> 'b request list \<Rightarrow> 'b txn" where
  "cas_txn guards cmps puts = \<lparr>t_compare = guards @ cmps, t_success = puts, t_failure = []\<rparr>"

definition cas ::
  "'b allocator \<Rightarrow> ('s, 'b) gateway \<Rightarrow> 'b compare list \<Rightarrow> 'b request list \<Rightarrow>
     ('s, 'b, 'a option) cprog \<Rightarrow> ('s, 'b, 'a) cprog \<Rightarrow> ('s, 'b, 'a option) cprog" where
  "cas A G cmps puts recover verify =
     bnd (guard_compares A) (\<lambda>guards.
     bnd (handle (\<lambda>e. e = BackendError)
            (bnd (transaction A G (cas_txn guards cmps puts)) (\<lambda>ok. ret (Inr ok)))
            (\<lambda>e. bnd recover (\<lambda>r. case r of Some v \<Rightarrow> ret (Inl v) | None \<Rightarrow> raise e))) (\<lambda>outcome.
     case outcome of
       Inl v \<Rightarrow> ret (Some v)
     | Inr ok \<Rightarrow> if ok then bnd verify (\<lambda>v. ret (Some v)) else ret None))"

definition require_generation :: "assignment \<Rightarrow> assignment option \<Rightarrow> unit result" where
  "require_generation current expected =
     (case expected of None \<Rightarrow> Inr ()
      | Some a \<Rightarrow> check (same_generation current a) ConflictError)"

text \<open>The comparisons of the records a caller has read.\<close>

definition cmp_pair :: "'b allocator \<Rightarrow> 'b held \<Rightarrow> 'b compare list" where
  "cmp_pair A s =
     [CmpValue (instance_key_of A (instance_uuid (h_current s))) (h_raw s),
      CmpValue (slot_key_of A (map_slot (h_current s))) (h_raw s)]"

definition put_pair :: "'b allocator \<Rightarrow> assignment \<Rightarrow> 'b \<Rightarrow> 'b request list" where
  "put_pair A a raw =
     [ReqPut (instance_key_of A (instance_uuid a)) raw None,
      ReqPut (slot_key_of A (map_slot a)) raw None]"

section \<open>Allocation\<close>

definition preferred_slot :: "'b allocator \<Rightarrow> int \<Rightarrow> int option \<Rightarrow> int result" where
  "preferred_slot A base sz =
     rbind (case sz of None \<Rightarrow> Inr ()
            | Some n \<Rightarrow> rbind (positive_int n False) (\<lambda>m. check (m = al_size A) ConflictError)) (\<lambda>_.
     rbind (positive_int base False) (\<lambda>b.
     let offset = b - al_base A in
     rbind (check (\<not> (offset < 0 \<or> offset mod al_size A \<noteq> 0)) ConflictError) (\<lambda>_.
     let slot = offset div al_size A in
     if al_count A \<le> slot then Inl ConflictError else Inr slot)))"

definition allocate_cmps :: "'b allocator \<Rightarrow> string \<Rightarrow> int \<Rightarrow> 'b compare list" where
  "allocate_cmps A u slot =
     [CmpAbsent (instance_key_of A u), CmpAbsent (slot_key_of A slot), CmpAbsent (release_key_of A u)]"

definition is_allocation :: "int \<Rightarrow> string \<Rightarrow> assignment option \<Rightarrow> bool" where
  "is_allocation slot aid current =
     (case current of None \<Rightarrow> False | Some a \<Rightarrow> map_slot a = slot \<and> allocation_id a = aid)"

text \<open>One attempt of \<open>_try_allocate\<close>; \<open>again\<close> is the second one.\<close>

definition try_allocate_attempt ::
  "'b allocator \<Rightarrow> ('s, 'b) gateway \<Rightarrow> string \<Rightarrow> int \<Rightarrow> string \<Rightarrow> 'b \<Rightarrow>
     ('s, 'b, assignment option) cprog option \<Rightarrow> ('s, 'b, assignment option) cprog" where
  "try_allocate_attempt A G u slot aid raw again =
     bnd get_state (\<lambda>c.
     bnd (lift (guard_compares_for A (cl_health_raw c) (cl_health_lease c))) (\<lambda>guards.
     bnd (handle (\<lambda>e. e = BackendError)
            (bnd (transaction A G (cas_txn guards (allocate_cmps A u slot)
                    [ReqPut (instance_key_of A u) raw None, ReqPut (slot_key_of A slot) raw None]))
               (\<lambda>ok. ret (Inr ok)))
            (\<lambda>e. bnd (get_allocatable_assignment A G u) (\<lambda>current.
                   if is_allocation slot aid current then ret (Inl current) else raise e)))
       (\<lambda>outcome.
     case outcome of
       Inl current \<Rightarrow> ret current
     | Inr True \<Rightarrow>
         bnd (get_allocatable_assignment A G u) (\<lambda>current.
           if is_allocation slot aid current then ret current else raise IntegrityError)
     | Inr False \<Rightarrow>
         (case again of
            None \<Rightarrow> ret None
          | Some m \<Rightarrow>
              bnd (refresh_fleet_read_guard A G (cl_health_raw c)) (\<lambda>changed.
                if changed then m else ret None)))))"

definition try_allocate ::
  "'b allocator \<Rightarrow> ('s, 'b) gateway \<Rightarrow> string \<Rightarrow> int \<Rightarrow> string \<Rightarrow> ('s, 'b, assignment option) cprog" where
  "try_allocate A G u slot aid =
     bnd (lift (instance_key A u)) (\<lambda>_.
     bnd (lift (slot_key A slot)) (\<lambda>_.
     bnd (lift (assignment_raw A u slot aid [])) (\<lambda>raw.
     try_allocate_attempt A G u slot aid raw
       (Some (try_allocate_attempt A G u slot aid raw None)))))"

fun hex_val :: "char \<Rightarrow> nat" where
  "hex_val c = (let n = (of_char c :: nat) in if n < 58 then n - 48 else n - 87)"

text \<open>The first eight bytes of the digest of the instance, as a big-endian number.\<close>

definition start_slot :: "'b allocator \<Rightarrow> string \<Rightarrow> int" where
  "start_slot A u =
     int (foldl (\<lambda>acc c. 16 * acc + hex_val c) 0 (take 16 (l_sha256 (al_lib A) (l_encode (al_lib A) u))))
       mod al_count A"

definition search_slots :: "'b allocator \<Rightarrow> string \<Rightarrow> int list" where
  "search_slots A u = map (\<lambda>offset. (start_slot A u + offset) mod al_count A) [0..al_count A - 1]"

definition slot_owner ::
  "'b allocator \<Rightarrow> ('s, 'b) gateway \<Rightarrow> int \<Rightarrow> ('s, 'b, assignment option) cprog" where
  "slot_owner A G slot =
     bnd (lift (slot_key A slot)) (\<lambda>key.
     bnd (read_exact A G [key]) (\<lambda>snap.
     case snap key of
       None \<Rightarrow> ret None
     | Some raw \<Rightarrow> bnd (lift (parse_assignment A raw None (Some slot))) (\<lambda>a. ret (Some a))))"

definition allocate_slot ::
  "'b allocator \<Rightarrow> ('s, 'b) gateway \<Rightarrow> string \<Rightarrow> int option \<Rightarrow> string \<Rightarrow> int \<Rightarrow>
     ('s, 'b, assignment option) cprog" where
  "allocate_slot A G u preferred aid slot =
     bnd (slot_owner A G slot) (\<lambda>owner.
     if owner \<noteq> None then (if preferred \<noteq> None then raise ConflictError else ret None)
     else bnd (try_allocate A G u slot aid) (\<lambda>allocated.
       case allocated of
         Some a \<Rightarrow>
           bnd (get_allocatable_assignment A G u) (\<lambda>verified.
             case verified of
               None \<Rightarrow> raise IntegrityError
             | Some v \<Rightarrow> if same_generation v a then ret (Some v) else raise IntegrityError)
       | None \<Rightarrow>
           bnd (get_allocatable_assignment A G u) (\<lambda>current.
           case current of
             Some a \<Rightarrow>
               if preferred \<noteq> None \<and> preferred \<noteq> Some (map_slot a) then raise ConflictError
               else ret (Some a)
           | None \<Rightarrow>
               bnd (slot_owner A G slot) (\<lambda>owner'.
               case owner' of
                 None \<Rightarrow> raise BackendError
               | Some _ \<Rightarrow> if preferred \<noteq> None then raise ConflictError else ret None))))"

definition allocate_preference :: "'b allocator \<Rightarrow> int option \<Rightarrow> int option \<Rightarrow> int option result" where
  "allocate_preference A base sz =
     (case base of
        Some b \<Rightarrow> rbind (preferred_slot A b sz) (\<lambda>s. Inr (Some s))
      | None \<Rightarrow>
          (case sz of
             None \<Rightarrow> Inr None
           | Some n \<Rightarrow> rbind (positive_int n False) (\<lambda>m.
                         if m = al_size A then Inr None else Inl ConflictError)))"

definition allocate ::
  "'b allocator \<Rightarrow> ('s, 'b) gateway \<Rightarrow> string \<Rightarrow> int option \<Rightarrow> int option \<Rightarrow> ('s, 'b, assignment) cprog" where
  "allocate A G u base sz =
     bnd (ensure_initialized A G) (\<lambda>_.
     bnd (lift (instance_uuid_arg u)) (\<lambda>u.
     bnd (get_allocatable_assignment A G u) (\<lambda>current.
     bnd (lift (allocate_preference A base sz)) (\<lambda>preferred.
     case current of
       Some a \<Rightarrow>
         if preferred \<noteq> None \<and> preferred \<noteq> Some (map_slot a) then raise ConflictError else ret a
     | None \<Rightarrow>
         bnd (fetch (g_uuid4 G)) (\<lambda>aid.
         for_each (case preferred of Some s \<Rightarrow> [s] | None \<Rightarrow> search_slots A u)
           (allocate_slot A G u preferred aid) (raise ExhaustedError))))))"

definition adopt ::
  "'b allocator \<Rightarrow> ('s, 'b) gateway \<Rightarrow> string \<Rightarrow> int \<Rightarrow> int option \<Rightarrow> ('s, 'b, assignment) cprog" where
  "adopt A G u base sz =
     allocate A G u (Some base) (Some (case sz of None \<Rightarrow> al_size A | Some n \<Rightarrow> n))"

end
