(* ===== verification/Idmap_Claim_Ops.thy ===== *)
theory Idmap_Claim_Ops
  imports Idmap_Allocator
begin

text \<open>
  The operations of IDMapAllocator on one generation: claiming it for a host, moving the
  claim through its states, recording cleanup proofs, retiring claims, the release barrier
  and the release. Each is a loop of at most 64 compare-and-swap attempts that ends in the
  code's conflict error when it is exhausted.
\<close>

section \<open>Claims\<close>

definition held_generation :: "'b held option \<Rightarrow> assignment \<Rightarrow> bool" where
  "held_generation s current =
     (case s of None \<Rightarrow> False | Some held \<Rightarrow> same_generation (h_current held) current)"

definition claimed_by :: "'b held option \<Rightarrow> string \<Rightarrow> string \<Rightarrow> bool" where
  "claimed_by s h m =
     (case observed_claim s h of None \<Rightarrow> False | Some c \<Rightarrow> materialization_id c = m)"

definition observed_state :: "'b held option \<Rightarrow> string \<Rightarrow> claim_state option" where
  "observed_state s h = map_option state (observed_claim s h)"

definition observed_proof :: "'b held option \<Rightarrow> string \<Rightarrow> cleanup_proof option" where
  "observed_proof s h = (case observed_claim s h of None \<Rightarrow> None | Some c \<Rightarrow> proof_of c)"

text \<open>Reading back after a swap: the value to return when \<open>p\<close> holds of what is stored.\<close>

definition reread ::
  "'b allocator \<Rightarrow> ('s, 'b) gateway \<Rightarrow> string \<Rightarrow> ('b held option \<Rightarrow> bool) \<Rightarrow>
     ('s, 'b, assignment option option) cprog" where
  "reread A G u p =
     bnd (read_assignment_state A G u) (\<lambda>s.
       ret (if p s then Some (map_option h_current s) else None))"

definition reread_or_fail ::
  "'b allocator \<Rightarrow> ('s, 'b) gateway \<Rightarrow> string \<Rightarrow> ('b held option \<Rightarrow> bool) \<Rightarrow>
     ('s, 'b, assignment option) cprog" where
  "reread_or_fail A G u p =
     bnd (reread A G u p) (\<lambda>r. case r of Some v \<Rightarrow> ret v | None \<Rightarrow> raise IntegrityError)"

definition claim_replace ::
  "'b allocator \<Rightarrow> ('s, 'b) gateway \<Rightarrow> string \<Rightarrow> string \<Rightarrow> string \<Rightarrow> 'b held \<Rightarrow> 'b \<Rightarrow>
     ('s, 'b, assignment option option) cprog" where
  "claim_replace A G u h m s old =
     bnd (lift (host_claim_raw A (h_current s) h m Unmaterialized None)) (\<lambda>raw.
     cas A G
       (cmp_pair A s @ [CmpValue (host_claim_key_of A h u) old, CmpAbsent (release_key_of A u)])
       [ReqPut (host_claim_key_of A h u) raw None]
       (reread A G u (\<lambda>obs. held_generation obs (h_current s) \<and> claimed_by obs h m \<and>
                          observed_state obs h = Some Unmaterialized))
       (reread_or_fail A G u (\<lambda>obs. held_generation obs (h_current s) \<and> claimed_by obs h m \<and>
                          observed_state obs h = Some Unmaterialized \<and> observed_proof obs h = None)))"

definition claim_insert ::
  "'b allocator \<Rightarrow> ('s, 'b) gateway \<Rightarrow> string \<Rightarrow> string \<Rightarrow> string \<Rightarrow> 'b held \<Rightarrow>
     ('s, 'b, assignment option option) cprog" where
  "claim_insert A G u h m s =
     bnd (lift (assignment_post_init
            ((h_current s)\<lparr>host_ids := sort (host_ids (h_current s) @ [h])\<rparr>))) (\<lambda>desired.
     bnd (lift (assignment_raw A (instance_uuid desired) (map_slot desired) (allocation_id desired)
                  (host_ids desired))) (\<lambda>desired_raw.
     bnd (lift (host_claim_raw A (h_current s) h m Unmaterialized None)) (\<lambda>raw.
     cas A G
       (cmp_pair A s @ [CmpAbsent (host_claim_key_of A h u), CmpAbsent (release_key_of A u)])
       (put_pair A desired desired_raw @ [ReqPut (host_claim_key_of A h u) raw None])
       (reread A G u (\<lambda>obs. held_generation obs (h_current s) \<and> claimed_by obs h m))
       (reread_or_fail A G u (\<lambda>obs. held_generation obs (h_current s) \<and> claimed_by obs h m)))))"

definition claim_attempt ::
  "'b allocator \<Rightarrow> ('s, 'b) gateway \<Rightarrow> string \<Rightarrow> string \<Rightarrow> string \<Rightarrow> assignment option \<Rightarrow>
     ('s, 'b, assignment option option) cprog" where
  "claim_attempt A G u h m expected =
     bnd (read_assignment_state A G u) (\<lambda>read.
     case read of
       None \<Rightarrow> raise IntegrityError
     | Some s \<Rightarrow>
         bnd (lift (require_generation (h_current s) expected)) (\<lambda>_.
         case map_of (h_claims s) h of
           Some (existing, old) \<Rightarrow>
             if materialization_id existing = m then ret (Some (Some (h_current s)))
             else if state existing \<noteq> Cleaned \<or> proof_of existing = None then raise ConflictError
             else if h_intent s \<noteq> None then raise ConflictError
             else claim_replace A G u h m s old
         | None \<Rightarrow>
             if h_intent s \<noteq> None then raise ConflictError else claim_insert A G u h m s))"

definition claim ::
  "'b allocator \<Rightarrow> ('s, 'b) gateway \<Rightarrow> string \<Rightarrow> string \<Rightarrow> string \<Rightarrow> assignment option \<Rightarrow>
     ('s, 'b, assignment option) cprog" where
  "claim A G u h m expected =
     bnd (ensure_initialized A G) (\<lambda>_.
     bnd (lift (instance_uuid_arg u)) (\<lambda>u.
     bnd (lift (host_id_arg h)) (\<lambda>h.
     bnd (lift (materialization_id_arg m)) (\<lambda>m.
     retry 64 (claim_attempt A G u h m expected) (raise ConflictError)))))"

section \<open>State transitions of a claim\<close>

text \<open>
  The swap of one claim record: the allocation pair and the claim as they were read, and the
  release key absent where the caller asks for it.
\<close>

definition claim_swap ::
  "'b allocator \<Rightarrow> ('s, 'b) gateway \<Rightarrow> 'b held \<Rightarrow> 'b \<Rightarrow> host_claim \<Rightarrow> bool \<Rightarrow> 
     (host_claim option \<Rightarrow> bool) \<Rightarrow> ('s, 'b, host_claim option) cprog" where
  "claim_swap A G s old desired no_release recovered =
     (let u = instance_uuid desired; h = host_id desired in
     bnd (lift (host_claim_raw A desired h (materialization_id desired) (state desired)
                  (proof_of desired))) (\<lambda>raw.
     cas A G
       (cmp_pair A s @ [CmpValue (host_claim_key_of A h u) old]
          @ (if no_release then [CmpAbsent (release_key_of A u)] else []))
       [ReqPut (host_claim_key_of A h u) raw None]
       (bnd (get_host_claim A G u h) (\<lambda>obs. ret (if recovered obs then obs else None)))
       (bnd (get_host_claim A G u h) (\<lambda>obs.
          if obs = Some desired then ret desired else raise IntegrityError))))"

definition claim_in_state :: "string \<Rightarrow> claim_state \<Rightarrow> host_claim option \<Rightarrow> bool" where
  "claim_in_state m st obs =
     (case obs of None \<Rightarrow> False | Some c \<Rightarrow> materialization_id c = m \<and> state c = st)"

definition mark_possible_attempt ::
  "'b allocator \<Rightarrow> ('s, 'b) gateway \<Rightarrow> string \<Rightarrow> string \<Rightarrow> string \<Rightarrow> assignment option \<Rightarrow>
     ('s, 'b, host_claim option) cprog" where
  "mark_possible_attempt A G u h m expected =
     bnd (read_assignment_state A G u) (\<lambda>read.
     case read of
       None \<Rightarrow> raise IntegrityError
     | Some s \<Rightarrow>
         bnd (lift (require_generation (h_current s) expected)) (\<lambda>_.
         if h_intent s \<noteq> None then raise ConflictError
         else case map_of (h_claims s) h of
           None \<Rightarrow> raise ConflictError
         | Some (c, old) \<Rightarrow>
             if materialization_id c \<noteq> m then raise ConflictError
             else if state c = Possible then ret (Some c)
             else if state c \<noteq> Unmaterialized then raise ConflictError
             else claim_swap A G s old (c\<lparr>state := Possible\<rparr>) True (claim_in_state m Possible)))"

definition mark_materialization_possible ::
  "'b allocator \<Rightarrow> ('s, 'b) gateway \<Rightarrow> string \<Rightarrow> string \<Rightarrow> string \<Rightarrow> assignment option \<Rightarrow>
     ('s, 'b, host_claim) cprog" where
  "mark_materialization_possible A G u h m expected =
     bnd (ensure_initialized A G) (\<lambda>_.
     bnd (lift (instance_uuid_arg u)) (\<lambda>u.
     bnd (lift (host_id_arg h)) (\<lambda>h.
     bnd (lift (materialization_id_arg m)) (\<lambda>m.
     retry 64 (mark_possible_attempt A G u h m expected) (raise ConflictError)))))"

definition mark_committed_attempt ::
  "'b allocator \<Rightarrow> ('s, 'b) gateway \<Rightarrow> string \<Rightarrow> string \<Rightarrow> string \<Rightarrow> assignment option \<Rightarrow>
     ('s, 'b, host_claim option) cprog" where
  "mark_committed_attempt A G u h m expected =
     bnd (read_assignment_state A G u) (\<lambda>read.
     case read of
       None \<Rightarrow> raise IntegrityError
     | Some s \<Rightarrow>
         bnd (lift (require_generation (h_current s) expected)) (\<lambda>_.
         case map_of (h_claims s) h of
           None \<Rightarrow> raise ConflictError
         | Some (c, old) \<Rightarrow>
             if materialization_id c \<noteq> m then raise ConflictError
             else if state c = Committed then ret (Some c)
             else if state c \<noteq> Possible then raise ConflictError
             else claim_swap A G s old (c\<lparr>state := Committed\<rparr>) False (claim_in_state m Committed)))"

definition mark_materialization_committed ::
  "'b allocator \<Rightarrow> ('s, 'b) gateway \<Rightarrow> string \<Rightarrow> string \<Rightarrow> string \<Rightarrow> assignment option \<Rightarrow>
     ('s, 'b, host_claim) cprog" where
  "mark_materialization_committed A G u h m expected =
     bnd (ensure_initialized A G) (\<lambda>_.
     bnd (lift (instance_uuid_arg u)) (\<lambda>u.
     bnd (lift (host_id_arg h)) (\<lambda>h.
     bnd (lift (materialization_id_arg m)) (\<lambda>m.
     retry 64 (mark_committed_attempt A G u h m expected) (raise ConflictError)))))"

text \<open>The state a claim must be in for a proof to clean it.\<close>

fun required_state :: "cleanup_proof \<Rightarrow> claim_state" where
  "required_state (Materialization p) =
     (if p_outcome p = ''not-materialized'' then Unmaterialized else Possible)"
| "required_state (Release p) = Committed"

definition record_proof_attempt ::
  "'b allocator \<Rightarrow> ('s, 'b) gateway \<Rightarrow> string \<Rightarrow> string \<Rightarrow> string \<Rightarrow> cleanup_proof \<Rightarrow>
     assignment option \<Rightarrow> ('s, 'b, host_claim option) cprog" where
  "record_proof_attempt A G u h m proof expected =
     bnd (read_assignment_state A G u) (\<lambda>read.
     case read of
       None \<Rightarrow> raise IntegrityError
     | Some s \<Rightarrow>
         bnd (lift (require_generation (h_current s) expected)) (\<lambda>_.
         case map_of (h_claims s) h of
           None \<Rightarrow> raise ConflictError
         | Some (c, old) \<Rightarrow>
             if materialization_id c \<noteq> m then raise ConflictError
             else if state c = Cleaned then
               (if proof_of c = Some proof then ret (Some c) else raise ConflictError)
             else if state c \<noteq> required_state proof then raise ConflictError
             else
               let candidate = c\<lparr>state := Cleaned, proof_of := Some proof\<rparr> in
               bnd (lift (validate_claim_proof_binding candidate)) (\<lambda>_.
               claim_swap A G s old candidate False (\<lambda>obs. obs = Some candidate))))"

definition record_claim_proof ::
  "'b allocator \<Rightarrow> ('s, 'b) gateway \<Rightarrow> string \<Rightarrow> string \<Rightarrow> string \<Rightarrow> cleanup_proof \<Rightarrow>
     assignment option \<Rightarrow> ('s, 'b, host_claim) cprog" where
  "record_claim_proof A G u h m proof expected =
     bnd (ensure_initialized A G) (\<lambda>_.
     bnd (lift (instance_uuid_arg u)) (\<lambda>u.
     bnd (lift (host_id_arg h)) (\<lambda>h.
     bnd (lift (materialization_id_arg m)) (\<lambda>m.
     retry 64 (record_proof_attempt A G u h m proof expected) (raise ConflictError)))))"

definition record_materialization_proof ::
  "'b allocator \<Rightarrow> ('s, 'b) gateway \<Rightarrow> string \<Rightarrow> string \<Rightarrow> string \<Rightarrow> materialization_proof \<Rightarrow>
     assignment option \<Rightarrow> ('s, 'b, host_claim) cprog" where
  "record_materialization_proof A G u h m proof expected =
     bnd (lift (validate_materialization_proof (al_lib A) proof)) (\<lambda>_.
     record_claim_proof A G u h m (Materialization proof) expected)"

definition record_rootfs_release_proof ::
  "'b allocator \<Rightarrow> ('s, 'b) gateway \<Rightarrow> string \<Rightarrow> string \<Rightarrow> string \<Rightarrow> release_receipt \<Rightarrow>
     assignment option \<Rightarrow> ('s, 'b, host_claim) cprog" where
  "record_rootfs_release_proof A G u h m receipt expected =
     bnd (lift (proof_from_receipt (al_lib A) receipt)) (\<lambda>proof.
     record_claim_proof A G u h m (Release proof) expected)"

section \<open>Removing a claim\<close>

definition without_host :: "assignment \<Rightarrow> string \<Rightarrow> assignment" where
  "without_host a h = a\<lparr>host_ids := filter (\<lambda>v. v \<noteq> h) (host_ids a)\<rparr>"

definition claim_gone :: "string \<Rightarrow> 'b held option \<Rightarrow> bool" where
  "claim_gone h obs = (case obs of None \<Rightarrow> True | Some s \<Rightarrow> h \<notin> fst ` set (h_claims s))"

text \<open>
  The swap that fencing, abandoning and retiring share; fencing also writes its ledger. The
  ledger text is built before the guards instead of after them, which cannot be observed:
  its identifiers were compared with canonical ones before.
\<close>

definition claim_remove ::
  "'b allocator \<Rightarrow> ('s, 'b) gateway \<Rightarrow> string \<Rightarrow> string \<Rightarrow> 'b held \<Rightarrow> 'b \<Rightarrow> fence_proof option \<Rightarrow>
     host_claim \<Rightarrow> ('s, 'b, assignment option option) cprog" where
  "claim_remove A G u h s old fence c =
     bnd (lift (assignment_post_init (without_host (h_current s) h))) (\<lambda>desired.
     bnd (lift (assignment_raw A (instance_uuid desired) (map_slot desired) (allocation_id desired)
                  (host_ids desired))) (\<lambda>desired_raw.
     bnd (lift (case fence of
                  None \<Rightarrow> Inr []
                | Some p \<Rightarrow> rbind (fence_proof_raw A p (materialization_id c)) (\<lambda>raw.
                              Inr [ReqPut (fence_key_of A h u) raw None]))) (\<lambda>ledger.
     cas A G
       (cmp_pair A s @ [CmpValue (host_claim_key_of A h u) old])
       (ledger @ put_pair A desired desired_raw @ [ReqDelete (host_claim_key_of A h u)])
       (reread A G u (claim_gone h))
       (reread_or_fail A G u (claim_gone h)))))"

definition fence_retire_attempt ::
  "'b allocator \<Rightarrow> ('s, 'b) gateway \<Rightarrow> string \<Rightarrow> string \<Rightarrow> fence_proof \<Rightarrow> assignment option \<Rightarrow>
     ('s, 'b, assignment option option) cprog" where
  "fence_retire_attempt A G u h p expected =
     bnd (read_assignment_state A G u) (\<lambda>read.
     case read of
       None \<Rightarrow> ret (Some None)
     | Some s \<Rightarrow>
         bnd (lift (require_generation (h_current s) expected)) (\<lambda>_.
         case map_of (h_claims s) h of
           None \<Rightarrow> ret (Some (Some (h_current s)))
         | Some (c, old) \<Rightarrow>
             if state c = Cleaned \<and> proof_of c \<noteq> None then raise ConflictError
             else if f_allocation_id p \<noteq> allocation_id (h_current s) then raise IntegrityError
             else claim_remove A G u h s old (Some p) c))"

definition fence_retire_claim ::
  "'b allocator \<Rightarrow> ('s, 'b) gateway \<Rightarrow> string \<Rightarrow> string \<Rightarrow> fence_proof \<Rightarrow> assignment option \<Rightarrow>
     ('s, 'b, assignment option) cprog" where
  "fence_retire_claim A G u h p expected =
     bnd (lift (validate_fence_proof p)) (\<lambda>_.
     bnd (ensure_initialized A G) (\<lambda>_.
     bnd (lift (instance_uuid_arg u)) (\<lambda>u.
     bnd (lift (host_id_arg h)) (\<lambda>h.
     bnd (lift (check (f_host_id p = h) IntegrityError)) (\<lambda>_.
     bnd (lift (check (f_instance_uuid p = u) IntegrityError)) (\<lambda>_.
     retry 64 (fence_retire_attempt A G u h p expected) (raise ConflictError)))))))"

definition abandon_attempt ::
  "'b allocator \<Rightarrow> ('s, 'b) gateway \<Rightarrow> string \<Rightarrow> string \<Rightarrow> string \<Rightarrow> assignment option \<Rightarrow>
     ('s, 'b, assignment option option) cprog" where
  "abandon_attempt A G u h m expected =
     bnd (read_assignment_state A G u) (\<lambda>read.
     case read of
       None \<Rightarrow> ret (Some None)
     | Some s \<Rightarrow>
         bnd (lift (require_generation (h_current s) expected)) (\<lambda>_.
         case map_of (h_claims s) h of
           None \<Rightarrow> ret (Some (Some (h_current s)))
         | Some (c, old) \<Rightarrow>
             if materialization_id c \<noteq> m then raise ConflictError
             else if state c \<noteq> Unmaterialized then raise ConflictError
             else claim_remove A G u h s old None c))"

definition abandon_unregistered_claim ::
  "'b allocator \<Rightarrow> ('s, 'b) gateway \<Rightarrow> string \<Rightarrow> string \<Rightarrow> string \<Rightarrow> assignment option \<Rightarrow>
     ('s, 'b, assignment option) cprog" where
  "abandon_unregistered_claim A G u h m expected =
     bnd (ensure_initialized A G) (\<lambda>_.
     bnd (lift (instance_uuid_arg u)) (\<lambda>u.
     bnd (lift (host_id_arg h)) (\<lambda>h.
     bnd (lift (materialization_id_arg m)) (\<lambda>m.
     retry 64 (abandon_attempt A G u h m expected) (raise ConflictError)))))"

definition retire_attempt ::
  "'b allocator \<Rightarrow> ('s, 'b) gateway \<Rightarrow> string \<Rightarrow> string \<Rightarrow> string \<Rightarrow> assignment option \<Rightarrow>
     ('s, 'b, assignment option option) cprog" where
  "retire_attempt A G u h m expected =
     bnd (read_assignment_state A G u) (\<lambda>read.
     case read of
       None \<Rightarrow> ret (Some None)
     | Some s \<Rightarrow>
         bnd (lift (require_generation (h_current s) expected)) (\<lambda>_.
         case map_of (h_claims s) h of
           None \<Rightarrow> ret (Some (Some (h_current s)))
         | Some (c, old) \<Rightarrow>
             if materialization_id c \<noteq> m then raise ConflictError
             else if state c \<noteq> Cleaned \<or> proof_of c = None then raise ConflictError
             else claim_remove A G u h s old None c))"

definition retire_claim ::
  "'b allocator \<Rightarrow> ('s, 'b) gateway \<Rightarrow> string \<Rightarrow> string \<Rightarrow> string \<Rightarrow> assignment option \<Rightarrow>
     ('s, 'b, assignment option) cprog" where
  "retire_claim A G u h m expected =
     bnd (ensure_initialized A G) (\<lambda>_.
     bnd (lift (instance_uuid_arg u)) (\<lambda>u.
     bnd (lift (host_id_arg h)) (\<lambda>h.
     bnd (lift (materialization_id_arg m)) (\<lambda>m.
     retry 64 (retire_attempt A G u h m expected) (raise ConflictError)))))"

section \<open>Release\<close>

definition observed_intent :: "'b held option \<Rightarrow> release_intent option" where
  "observed_intent obs = (case obs of None \<Rightarrow> None | Some s \<Rightarrow> intent_of s)"

definition request_release_attempt ::
  "'b allocator \<Rightarrow> ('s, 'b) gateway \<Rightarrow> string \<Rightarrow> string \<Rightarrow> assignment option \<Rightarrow>
     ('s, 'b, release_intent option) cprog" where
  "request_release_attempt A G u name expected =
     bnd (read_assignment_state A G u) (\<lambda>read.
     case read of
       None \<Rightarrow> raise IntegrityError
     | Some s \<Rightarrow>
         bnd (lift (require_generation (h_current s) expected)) (\<lambda>_.
         bnd (lift (release_intent_raw A (h_current s) name)) (\<lambda>raw.
         bnd (lift (parse_release_intent A raw (Some u))) (\<lambda>desired.
         case intent_of s of
           Some existing \<Rightarrow> if existing = desired then ret (Some existing) else raise ConflictError
         | None \<Rightarrow>
             cas A G
               (cmp_pair A s @ [CmpAbsent (release_key_of A u)])
               [ReqPut (release_key_of A u) raw None]
               (bnd (read_assignment_state A G u) (\<lambda>obs.
                  ret (if observed_intent obs = Some desired then Some desired else None)))
               (bnd (read_assignment_state A G u) (\<lambda>obs.
                  if observed_intent obs = Some desired then ret desired else raise IntegrityError))))))"

definition request_release ::
  "'b allocator \<Rightarrow> ('s, 'b) gateway \<Rightarrow> string \<Rightarrow> string \<Rightarrow> assignment option \<Rightarrow>
     ('s, 'b, release_intent) cprog" where
  "request_release A G u name expected =
     bnd (ensure_initialized A G) (\<lambda>_.
     bnd (lift (instance_uuid_arg u)) (\<lambda>u.
     bnd (lift (instance_name_arg name)) (\<lambda>name.
     retry 64 (request_release_attempt A G u name expected) (raise ConflictError))))"

definition assert_startable ::
  "'b allocator \<Rightarrow> ('s, 'b) gateway \<Rightarrow> string \<Rightarrow> string \<Rightarrow> string \<Rightarrow> assignment option \<Rightarrow>
     ('s, 'b, assignment) cprog" where
  "assert_startable A G u h m expected =
     bnd (ensure_initialized A G) (\<lambda>_.
     bnd (lift (instance_uuid_arg u)) (\<lambda>u.
     bnd (lift (host_id_arg h)) (\<lambda>h.
     bnd (lift (materialization_id_arg m)) (\<lambda>m.
     bnd (read_assignment_state A G u) (\<lambda>read.
     case read of
       None \<Rightarrow> raise IntegrityError
     | Some s \<Rightarrow>
         bnd (lift (require_generation (h_current s) expected)) (\<lambda>_.
         if h_intent s \<noteq> None then raise ConflictError
         else case claim_of s h of
           None \<Rightarrow> raise ConflictError
         | Some c \<Rightarrow>
             if materialization_id c \<noteq> m then raise ConflictError
             else if state c \<noteq> Committed then raise ConflictError
             else ret (h_current s)))))))"

text \<open>
  A swap outside a loop: the same statement, but a lost comparison and a lost reply are both
  answered by whether the allocation is still there.
\<close>

definition release_swap ::
  "'b allocator \<Rightarrow> ('s, 'b) gateway \<Rightarrow> string \<Rightarrow> 'b held \<Rightarrow> 'b \<Rightarrow> ('s, 'b, bool) cprog" where
  "release_swap A G u s intent_raw =
     bnd (cas A G
            (cmp_pair A s @ [CmpValue (release_key_of A (instance_uuid (h_current s))) intent_raw])
            [ReqDelete (instance_key_of A (instance_uuid (h_current s))),
             ReqDelete (slot_key_of A (map_slot (h_current s))),
             ReqDelete (release_key_of A (instance_uuid (h_current s)))]
            (bnd (read_assignment_state A G u) (\<lambda>obs. ret (if obs = None then Some True else None)))
            (bnd (read_assignment_state A G u) (\<lambda>obs.
               if obs \<noteq> None then raise IntegrityError else ret True))) (\<lambda>r.
     case r of
       Some b \<Rightarrow> ret b
     | None \<Rightarrow> bnd (read_assignment_state A G u) (\<lambda>obs. ret (obs = None)))"

definition release :: "'b allocator \<Rightarrow> ('s, 'b) gateway \<Rightarrow> release_intent \<Rightarrow> ('s, 'b, bool) cprog" where
  "release A G intent =
     bnd (ensure_initialized A G) (\<lambda>_.
     bnd (read_assignment_state A G (instance_uuid intent)) (\<lambda>read.
     case read of
       None \<Rightarrow> ret True
     | Some s \<Rightarrow>
         (case h_intent s of
            None \<Rightarrow> ret False
          | Some (existing, intent_raw) \<Rightarrow>
              if existing \<noteq> intent then ret False
              else if \<not> same_generation (h_current s) intent then ret False
              else if host_ids (h_current s) \<noteq> [] then ret False
              else if h_claims s \<noteq> [] then raise IntegrityError
              else release_swap A G (instance_uuid intent) s intent_raw)))"

end
