(* ===== verification/Idmap_Restore.thy ===== *)
theory Idmap_Restore
  imports Idmap_Claim_Ops
begin

text \<open>
  Disaster recovery of one allocation generation: the validation of what is to be restored,
  without any access to etcd, and the restoring loop of at most 32 attempts, each starting
  from a full audit (\<open>validate_restore\<close>, \<open>_validate_restore_intent\<close> and \<open>restore\<close> of
  idmap.py).
\<close>

definition as_configuration_error :: "'a result \<Rightarrow> 'a result" where
  "as_configuration_error r = except_r record_error ConfigurationError r"

definition bare_assignment :: "'b allocator \<Rightarrow> 'x generation_scheme \<Rightarrow> string list \<Rightarrow> assignment" where
  "bare_assignment A g hosts =
     \<lparr>instance_uuid = instance_uuid g, map_base = map_base g, map_size = map_size g,
      map_slot = map_slot g, allocation_id = allocation_id g, fingerprint = fingerprint g,
      host_ids = hosts\<rparr>"

definition restore_claim_ok :: "'b allocator \<Rightarrow> assignment \<Rightarrow> host_claim \<Rightarrow> unit result" where
  "restore_claim_ok A a c =
     rbind (check (same_generation a c) ConfigurationError) (\<lambda>_.
     rbind (host_claim_raw A c (host_id c) (materialization_id c) (state c) (proof_of c)) (\<lambda>raw.
     rbind (parse_host_claim A raw (Some (host_id c)) (Some (instance_uuid a))) (\<lambda>parsed.
     check (parsed = c) ConfigurationError)))"

definition validate_restore ::
  "'b allocator \<Rightarrow> string \<Rightarrow> int \<Rightarrow> int \<Rightarrow> string \<Rightarrow> string \<Rightarrow> host_claim list \<Rightarrow> assignment result" where
  "validate_restore A u base sz aid fp claims =
     rbind (instance_uuid_arg u) (\<lambda>u.
     rbind (preferred_slot A base (Some sz)) (\<lambda>slot.
     rbind (as_configuration_error (uuid_str aid)) (\<lambda>normalized.
     rbind (check (normalized = aid) ConfigurationError) (\<lambda>_.
     rbind (check (fp = al_fingerprint A) ConfigurationError) (\<lambda>_.
     rbind (check (claims = sort_key host_id claims) ConfigurationError) (\<lambda>_.
     rbind (as_configuration_error (assignment_post_init
              \<lparr>instance_uuid = u, map_base = base, map_size = sz, map_slot = slot,
               allocation_id = normalized, fingerprint = al_fingerprint A,
               host_ids = map host_id claims\<rparr>)) (\<lambda>a.
     rbind (map_result (restore_claim_ok A a) claims) (\<lambda>_. Inr a))))))))"

definition validate_restore_intent ::
  "'b allocator \<Rightarrow> assignment \<Rightarrow> release_intent option \<Rightarrow> (release_intent \<times> 'b) option result" where
  "validate_restore_intent A a intent =
     (case intent of
        None \<Rightarrow> Inr None
      | Some i \<Rightarrow>
          rbind (check (same_generation a i) ConfigurationError) (\<lambda>_.
          rbind (release_intent_raw A a (instance_name i)) (\<lambda>raw.
          rbind (parse_release_intent A raw (Some (instance_uuid a))) (\<lambda>parsed.
          rbind (check (parsed = i) ConfigurationError) (\<lambda>_. Inr (Some (parsed, raw)))))))"

text \<open>What the loop looks for in an audit and in an exact read.\<close>

definition find_instance :: "string \<Rightarrow> ('x generation_scheme) list \<Rightarrow> ('x generation_scheme) option" where
  "find_instance u xs = List.find (\<lambda>v. instance_uuid v = u) xs"

definition find_slot :: "int \<Rightarrow> ('x generation_scheme) list \<Rightarrow> ('x generation_scheme) option" where
  "find_slot s xs = List.find (\<lambda>v. map_slot v = s) xs"

definition held_claims :: "'b held option \<Rightarrow> (string \<times> host_claim) list" where
  "held_claims read = (case read of None \<Rightarrow> [] | Some s \<Rightarrow> map (\<lambda>(h, c, raw). (h, c)) (h_claims s))"

text \<open>Two dictionaries with distinct keys are equal.\<close>

definition same_dict :: "('k \<times> 'v) list \<Rightarrow> ('k \<times> 'v) list \<Rightarrow> bool" where
  "same_dict xs ys \<longleftrightarrow> set xs = set ys"

definition expected_claims :: "host_claim list \<Rightarrow> (string \<times> host_claim) list" where
  "expected_claims claims = map (\<lambda>c. (host_id c, c)) claims"

text \<open>The audit and exact read after a swap: what is stored is what was to be restored.\<close>

definition restored ::
  "'b allocator \<Rightarrow> ('s, 'b) gateway \<Rightarrow> assignment \<Rightarrow> release_intent option \<Rightarrow> host_claim list \<Rightarrow>
     ('s, 'b, assignment option) cprog" where
  "restored A G a intent claims =
     bnd (audit_with_latch A G) (\<lambda>(assignments, intents, unused).
     bnd (read_assignment_state A G (instance_uuid a)) (\<lambda>read.
     ret (if find_instance (instance_uuid a) assignments = Some a \<and>
             find_instance (instance_uuid a) intents = intent \<and>
             same_dict (held_claims read) (expected_claims claims)
          then Some a else None)))"

definition claim_record :: "'b allocator \<Rightarrow> assignment \<Rightarrow> host_claim \<Rightarrow> (string \<times> 'b) result" where
  "claim_record A a c =
     rbind (host_claim_key A (host_id c) (instance_uuid a)) (\<lambda>key.
     rbind (host_claim_raw A c (host_id c) (materialization_id c) (state c) (proof_of c)) (\<lambda>raw.
     Inr (key, raw)))"

definition restore_intent_swap ::
  "'b allocator \<Rightarrow> ('s, 'b) gateway \<Rightarrow> assignment \<Rightarrow> 'b \<Rightarrow> (string \<times> 'b) list \<Rightarrow> 
     release_intent option \<Rightarrow> 'b \<Rightarrow> host_claim list \<Rightarrow> ('s, 'b, assignment option) cprog" where
  "restore_intent_swap A G a raw records intent intent_raw claims =
     bnd (guard_compares A) (\<lambda>guards.
     handle (\<lambda>e. e = BackendError)
       (bnd (transaction A G (cas_txn guards
          ([CmpValue (instance_key_of A (instance_uuid a)) raw,
            CmpValue (slot_key_of A (map_slot a)) raw,
            CmpAbsent (release_key_of A (instance_uuid a))]
           @ map (\<lambda>(k, r). CmpValue k r) records)
          [ReqPut (release_key_of A (instance_uuid a)) intent_raw None])) (\<lambda>_. ret None))
       (\<lambda>e. bnd (restored A G a intent claims) (\<lambda>r.
          case r of Some v \<Rightarrow> ret (Some v) | None \<Rightarrow> raise e)))"

definition restore_existing ::
  "'b allocator \<Rightarrow> ('s, 'b) gateway \<Rightarrow> assignment \<Rightarrow> 'b \<Rightarrow> (string \<times> 'b) list \<Rightarrow>
     (release_intent \<times> 'b) option \<Rightarrow> host_claim list \<Rightarrow> assignment \<Rightarrow> release_intent option \<Rightarrow>
     ('s, 'b, assignment option) cprog" where
  "restore_existing A G a raw records desired claims existing intent =
     bnd (read_assignment_state A G (instance_uuid a)) (\<lambda>read.
     if existing \<noteq> a \<or> \<not> same_dict (held_claims read) (expected_claims claims) then raise ConflictError
     else if intent = map_option fst desired \<and> observed_intent read = intent then ret (Some existing)
     else case desired of
       None \<Rightarrow> raise ConflictError
     | Some (i, intent_raw) \<Rightarrow>
         if intent \<noteq> None then raise ConflictError
         else restore_intent_swap A G a raw records (Some i) intent_raw claims)"

definition restore_absent ::
  "'b allocator \<Rightarrow> ('s, 'b) gateway \<Rightarrow> assignment \<Rightarrow> 'b \<Rightarrow> (string \<times> 'b) list \<Rightarrow>
     (release_intent \<times> 'b) option \<Rightarrow> host_claim list \<Rightarrow> ('s, 'b, assignment option) cprog" where
  "restore_absent A G a raw records desired claims =
     cas A G
       ([CmpAbsent (instance_key_of A (instance_uuid a)), CmpAbsent (slot_key_of A (map_slot a)),
         CmpAbsent (release_key_of A (instance_uuid a))] @ map (\<lambda>(k, r). CmpAbsent k) records)
       ([ReqPut (instance_key_of A (instance_uuid a)) raw None,
         ReqPut (slot_key_of A (map_slot a)) raw None]
        @ (case desired of None \<Rightarrow> []
           | Some (i, intent_raw) \<Rightarrow> [ReqPut (release_key_of A (instance_uuid a)) intent_raw None])
        @ map (\<lambda>(k, r). ReqPut k r None) records)
       (restored A G a (map_option fst desired) claims)
       (bnd (restored A G a (map_option fst desired) claims) (\<lambda>r.
          case r of None \<Rightarrow> raise IntegrityError | Some v \<Rightarrow> ret v))"

definition restore_attempt ::
  "'b allocator \<Rightarrow> ('s, 'b) gateway \<Rightarrow> assignment \<Rightarrow> 'b \<Rightarrow> (string \<times> 'b) list \<Rightarrow>
     (release_intent \<times> 'b) option \<Rightarrow> host_claim list \<Rightarrow> ('s, 'b, assignment option) cprog" where
  "restore_attempt A G a raw records desired claims =
     bnd (audit_with_latch A G) (\<lambda>(assignments, intents, unused).
     case find_instance (instance_uuid a) assignments of
       Some existing \<Rightarrow>
         restore_existing A G a raw records desired claims existing
           (find_instance (instance_uuid a) intents)
     | None \<Rightarrow>
         if find_slot (map_slot a) assignments \<noteq> None then raise ConflictError
         else if find_instance (instance_uuid a) intents \<noteq> None then raise IntegrityError
         else restore_absent A G a raw records desired claims)"

definition restore ::
  "'b allocator \<Rightarrow> ('s, 'b) gateway \<Rightarrow> string \<Rightarrow> int \<Rightarrow> int \<Rightarrow> string \<Rightarrow> string \<Rightarrow> host_claim list \<Rightarrow>
     release_intent option \<Rightarrow> ('s, 'b, assignment) cprog" where
  "restore A G u base sz aid fp claims intent =
     bnd (lift (validate_restore A u base sz aid fp claims)) (\<lambda>a.
     bnd (lift (validate_restore_intent A a intent)) (\<lambda>desired.
     bnd (ensure_initialized A G) (\<lambda>_.
     bnd (lift (assignment_raw A (instance_uuid a) (map_slot a) (allocation_id a) (host_ids a))) (\<lambda>raw.
     bnd (lift (map_result (claim_record A a) claims)) (\<lambda>records.
     retry 32 (restore_attempt A G a raw records desired claims) (raise ConflictError))))))"

end
