(* ===== verification/Registry_Spec.thy ===== *)
theory Registry_Spec
  imports Idmap_Restore
begin

text \<open>
  The abstract specification of the allocator: a registry of allocations, release intents,
  host claims and fence entries, the eleven actions that change it with their enabling
  conditions and effects, and the invariant that every action preserves. Nothing here speaks
  of keys, bytes or transactions; theory Registry_Refinement relates it to them.
\<close>

section \<open>Registries\<close>

record 'b registry =
  rg_config :: 'b
  rg_insts :: "string \<Rightarrow> assignment option"
  rg_intents :: "string \<Rightarrow> release_intent option"
  rg_claims :: "string \<times> string \<Rightarrow> host_claim option"
  rg_fences :: "string \<times> string \<Rightarrow> 'b option"

definition insts_ok :: "'b allocator \<Rightarrow> 'b registry \<Rightarrow> bool" where
  "insts_ok A R \<longleftrightarrow>
     (\<forall>u a. rg_insts R u = Some a \<longrightarrow> valid_assignment A a \<and> instance_uuid a = u)"

definition slots_ok :: "'b registry \<Rightarrow> bool" where
  "slots_ok R \<longleftrightarrow>
     (\<forall>u u' a a'. rg_insts R u = Some a \<longrightarrow> rg_insts R u' = Some a' \<longrightarrow>
        map_slot a = map_slot a' \<longrightarrow> u = u')"

definition intents_ok :: "'b allocator \<Rightarrow> 'b registry \<Rightarrow> bool" where
  "intents_ok A R \<longleftrightarrow>
     (\<forall>u i. rg_intents R u = Some i \<longrightarrow> valid_intent A i \<and> instance_uuid i = u \<and>
        (\<exists>a. rg_insts R u = Some a \<and> same_generation a i))"

definition claims_ok :: "'b allocator \<Rightarrow> 'b registry \<Rightarrow> bool" where
  "claims_ok A R \<longleftrightarrow>
     (\<forall>h u c. rg_claims R (h, u) = Some c \<longrightarrow>
        valid_claim A c \<and> host_id c = h \<and> instance_uuid c = u \<and>
        (\<exists>a. rg_insts R u = Some a \<and> same_generation c a \<and> h \<in> set (host_ids a)))"

definition hosts_ok :: "'b registry \<Rightarrow> bool" where
  "hosts_ok R \<longleftrightarrow>
     (\<forall>u a h. rg_insts R u = Some a \<longrightarrow> h \<in> set (host_ids a) \<longrightarrow> rg_claims R (h, u) \<noteq> None)"

definition fences_ok :: "'b allocator \<Rightarrow> 'b registry \<Rightarrow> bool" where
  "fences_ok A R \<longleftrightarrow>
     (\<forall>h u raw. rg_fences R (h, u) = Some raw \<longrightarrow>
        canonical_uuid h \<and> canonical_uuid u \<and>
        (\<exists>p t. parse_fence_record A raw = Inr (p, t) \<and> f_host_id p = h \<and> f_instance_uuid p = u))"

definition registry_ok :: "'b allocator \<Rightarrow> 'b registry \<Rightarrow> bool" where
  "registry_ok A R \<longleftrightarrow>
     validate_configuration A (rg_config R) = Inr () \<and> insts_ok A R \<and> slots_ok R \<and>
     intents_ok A R \<and> claims_ok A R \<and> hosts_ok R \<and> fences_ok A R"

lemma registry_okD:
  assumes "registry_ok A R"
  shows "insts_ok A R" "slots_ok R" "intents_ok A R" "claims_ok A R" "hosts_ok R" "fences_ok A R"
    "validate_configuration A (rg_config R) = Inr ()"
  using assms by (simp_all add: registry_ok_def)

text \<open>The empty registry under the allocator's own configuration.\<close>

definition empty_registry :: "'b allocator \<Rightarrow> 'b registry" where
  "empty_registry A =
     \<lparr>rg_config = config_raw A, rg_insts = (\<lambda>_. None), rg_intents = (\<lambda>_. None),
      rg_claims = (\<lambda>_. None), rg_fences = (\<lambda>_. None)\<rparr>"

lemma empty_registry_ok: "allocator_ok A \<Longrightarrow> registry_ok A (empty_registry A)"
  by (simp add: registry_ok_def empty_registry_def insts_ok_def slots_ok_def intents_ok_def
      claims_ok_def hosts_ok_def fences_ok_def validate_config_raw)

section \<open>Actions\<close>

datatype action =
    Allocate assignment
  | ClaimInsert assignment host_claim
  | ClaimReplace assignment host_claim host_claim
  | ClaimMove assignment host_claim host_claim
  | Fence assignment host_claim fence_proof
  | Abandon assignment host_claim
  | Retire assignment host_claim
  | RequestRelease assignment release_intent
  | ReleaseGeneration assignment release_intent
  | RestoreAbsent assignment "host_claim list" "release_intent option"
  | RestoreIntent assignment "host_claim list" release_intent

text \<open>A claim of the generation and its new value: the moves of the claim state machine.\<close>

definition claim_for :: "'b allocator \<Rightarrow> assignment \<Rightarrow> host_claim \<Rightarrow> bool" where
  "claim_for A a c \<longleftrightarrow> valid_assignment A a \<and> valid_claim A c \<and> same_generation c a"

definition claim_move :: "host_claim \<Rightarrow> host_claim \<Rightarrow> bool" where
  "claim_move c c' \<longleftrightarrow>
     (state c = Unmaterialized \<and> c' = c\<lparr>state := Possible\<rparr>) \<or>
     (state c = Possible \<and> c' = c\<lparr>state := Committed\<rparr>) \<or>
     (\<exists>p. state c = required_state p \<and> c' = c\<lparr>state := Cleaned, proof_of := Some p\<rparr>)"

definition with_host :: "assignment \<Rightarrow> string \<Rightarrow> assignment" where
  "with_host a h = a\<lparr>host_ids := sort (host_ids a @ [h])\<rparr>"

fun action_ok :: "'b allocator \<Rightarrow> action \<Rightarrow> bool" where
  "action_ok A (Allocate a) \<longleftrightarrow> valid_assignment A a \<and> host_ids a = []"
| "action_ok A (ClaimInsert a c) \<longleftrightarrow>
     claim_for A a c \<and> host_id c \<notin> set (host_ids a) \<and> state c = Unmaterialized"
| "action_ok A (ClaimReplace a c c') \<longleftrightarrow>
     claim_for A a c \<and> claim_for A a c' \<and> host_id c = host_id c' \<and> host_id c \<in> set (host_ids a) \<and>
     state c = Cleaned \<and> state c' = Unmaterialized \<and> materialization_id c \<noteq> materialization_id c'"
| "action_ok A (ClaimMove a c c') \<longleftrightarrow>
     claim_for A a c \<and> claim_for A a c' \<and> host_id c \<in> set (host_ids a) \<and> claim_move c c'"
| "action_ok A (Fence a c p) \<longleftrightarrow>
     claim_for A a c \<and> host_id c \<in> set (host_ids a) \<and> state c \<noteq> Cleaned \<and>
     validate_fence_proof p = Inr () \<and> f_host_id p = host_id c \<and> f_instance_uuid p = instance_uuid c \<and>
     f_allocation_id p = allocation_id a"
| "action_ok A (Abandon a c) \<longleftrightarrow>
     claim_for A a c \<and> host_id c \<in> set (host_ids a) \<and> state c = Unmaterialized"
| "action_ok A (Retire a c) \<longleftrightarrow>
     claim_for A a c \<and> host_id c \<in> set (host_ids a) \<and> state c = Cleaned"
| "action_ok A (RequestRelease a i) \<longleftrightarrow>
     valid_assignment A a \<and> valid_intent A i \<and> same_generation a i"
| "action_ok A (ReleaseGeneration a i) \<longleftrightarrow>
     valid_assignment A a \<and> valid_intent A i \<and> same_generation a i \<and> host_ids a = []"
| "action_ok A (RestoreAbsent a cs i) \<longleftrightarrow>
     valid_assignment A a \<and> list_all (\<lambda>c. valid_claim A c \<and> same_generation c a) cs \<and>
     map host_id cs = host_ids a \<and>
     (\<forall>x \<in> set_option i. valid_intent A x \<and> same_generation a x)"
| "action_ok A (RestoreIntent a cs i) \<longleftrightarrow>
     valid_assignment A a \<and> list_all (\<lambda>c. valid_claim A c \<and> same_generation c a) cs \<and>
     valid_intent A i \<and> same_generation a i"

definition slot_free :: "'b registry \<Rightarrow> int \<Rightarrow> bool" where
  "slot_free R s \<longleftrightarrow> (\<forall>u a. rg_insts R u = Some a \<longrightarrow> map_slot a \<noteq> s)"

text \<open>The condition under which an action takes effect.\<close>

fun enabled :: "'b registry \<Rightarrow> action \<Rightarrow> bool" where
  "enabled R (Allocate a) \<longleftrightarrow>
     rg_insts R (instance_uuid a) = None \<and> slot_free R (map_slot a) \<and>
     rg_intents R (instance_uuid a) = None"
| "enabled R (ClaimInsert a c) \<longleftrightarrow>
     rg_insts R (instance_uuid a) = Some a \<and> rg_claims R (host_id c, instance_uuid a) = None \<and>
     rg_intents R (instance_uuid a) = None"
| "enabled R (ClaimReplace a c c') \<longleftrightarrow>
     rg_insts R (instance_uuid a) = Some a \<and> rg_claims R (host_id c, instance_uuid a) = Some c \<and>
     rg_intents R (instance_uuid a) = None"
| "enabled R (ClaimMove a c c') \<longleftrightarrow>
     rg_insts R (instance_uuid a) = Some a \<and> rg_claims R (host_id c, instance_uuid a) = Some c \<and>
     (state c' = Possible \<longrightarrow> rg_intents R (instance_uuid a) = None)"
| "enabled R (Fence a c p) \<longleftrightarrow>
     rg_insts R (instance_uuid a) = Some a \<and> rg_claims R (host_id c, instance_uuid a) = Some c"
| "enabled R (Abandon a c) \<longleftrightarrow>
     rg_insts R (instance_uuid a) = Some a \<and> rg_claims R (host_id c, instance_uuid a) = Some c"
| "enabled R (Retire a c) \<longleftrightarrow>
     rg_insts R (instance_uuid a) = Some a \<and> rg_claims R (host_id c, instance_uuid a) = Some c"
| "enabled R (RequestRelease a i) \<longleftrightarrow>
     rg_insts R (instance_uuid a) = Some a \<and> rg_intents R (instance_uuid a) = None"
| "enabled R (ReleaseGeneration a i) \<longleftrightarrow>
     rg_insts R (instance_uuid a) = Some a \<and> rg_intents R (instance_uuid a) = Some i"
| "enabled R (RestoreAbsent a cs i) \<longleftrightarrow>
     rg_insts R (instance_uuid a) = None \<and> slot_free R (map_slot a) \<and>
     rg_intents R (instance_uuid a) = None \<and>
     list_all (\<lambda>c. rg_claims R (host_id c, instance_uuid a) = None) cs"
| "enabled R (RestoreIntent a cs i) \<longleftrightarrow>
     rg_insts R (instance_uuid a) = Some a \<and> rg_intents R (instance_uuid a) = None \<and>
     list_all (\<lambda>c. rg_claims R (host_id c, instance_uuid a) = Some c) cs"

definition put_inst :: "assignment \<Rightarrow> 'b registry \<Rightarrow> 'b registry" where
  "put_inst a R = R\<lparr>rg_insts := (rg_insts R)(instance_uuid a \<mapsto> a)\<rparr>"

definition put_claim :: "host_claim \<Rightarrow> 'b registry \<Rightarrow> 'b registry" where
  "put_claim c R = R\<lparr>rg_claims := (rg_claims R)((host_id c, instance_uuid c) \<mapsto> c)\<rparr>"

definition drop_claim :: "host_claim \<Rightarrow> 'b registry \<Rightarrow> 'b registry" where
  "drop_claim c R = R\<lparr>rg_claims := (rg_claims R)((host_id c, instance_uuid c) := None)\<rparr>"

definition put_intent :: "release_intent \<Rightarrow> 'b registry \<Rightarrow> 'b registry" where
  "put_intent i R = R\<lparr>rg_intents := (rg_intents R)(instance_uuid i \<mapsto> i)\<rparr>"

definition remove_claim :: "assignment \<Rightarrow> host_claim \<Rightarrow> 'b registry \<Rightarrow> 'b registry" where
  "remove_claim a c R = drop_claim c (put_inst (without_host a (host_id c)) R)"

text \<open>The effect of an enabled action.\<close>

fun effect :: "'b allocator \<Rightarrow> action \<Rightarrow> 'b registry \<Rightarrow> 'b registry" where
  "effect A (Allocate a) R = put_inst a R"
| "effect A (ClaimInsert a c) R = put_claim c (put_inst (with_host a (host_id c)) R)"
| "effect A (ClaimReplace a c c') R = put_claim c' R"
| "effect A (ClaimMove a c c') R = put_claim c' R"
| "effect A (Fence a c p) R =
     (remove_claim a c R)\<lparr>rg_fences := (rg_fences R)
        ((host_id c, instance_uuid c) \<mapsto> enc_fence A p (materialization_id c))\<rparr>"
| "effect A (Abandon a c) R = remove_claim a c R"
| "effect A (Retire a c) R = remove_claim a c R"
| "effect A (RequestRelease a i) R = put_intent i R"
| "effect A (ReleaseGeneration a i) R =
     R\<lparr>rg_insts := (rg_insts R)(instance_uuid a := None),
       rg_intents := (rg_intents R)(instance_uuid a := None)\<rparr>"
| "effect A (RestoreAbsent a cs i) R =
     fold put_claim cs ((case i of None \<Rightarrow> id | Some x \<Rightarrow> put_intent x) (put_inst a R))"
| "effect A (RestoreIntent a cs i) R = put_intent i R"

lemmas registry_updates =
  put_inst_def put_claim_def drop_claim_def put_intent_def remove_claim_def

end
