(* ===== verification/Registry_Invariant.thy ===== *)
theory Registry_Invariant
  imports Registry_Spec
begin

text \<open>
  Every enabled action keeps the registry invariant: slots stay injective, every claim keeps
  its allocation and every allocation its claims, intents and claims stay within their
  generation.
\<close>

section \<open>Assignments with and without a host\<close>

lemma host_updates [simp]:
  "instance_uuid (with_host a h) = instance_uuid a" "instance_uuid (without_host a h) = instance_uuid a"
  "map_slot (with_host a h) = map_slot a" "map_slot (without_host a h) = map_slot a"
  "allocation_id (with_host a h) = allocation_id a" "allocation_id (without_host a h) = allocation_id a"
  "set (host_ids (with_host a h)) = insert h (set (host_ids a))"
  "set (host_ids (without_host a h)) = set (host_ids a) - {h}"
  by (auto simp: with_host_def without_host_def)

lemma same_generation_hosts [simp]:
  "same_generation c (with_host a h) = same_generation c a"
  "same_generation c (without_host a h) = same_generation c a"
  "same_generation (with_host a h) c = same_generation a c"
  "same_generation (without_host a h) c = same_generation a c"
  by (simp_all add: same_generation_def with_host_def without_host_def)

lemma valid_generation_hosts [simp]:
  "valid_generation A (with_host a h) = valid_generation A a"
  "valid_generation A (without_host a h) = valid_generation A a"
  by (simp_all add: valid_generation_def with_host_def without_host_def)

lemma valid_with_host:
  "valid_assignment A a \<Longrightarrow> canonical_uuid h \<Longrightarrow> h \<notin> set (host_ids a) \<Longrightarrow>
   valid_assignment A (with_host a h)"
  by (auto simp: valid_assignment_def with_host_def list_all_iff valid_generation_def)

lemma valid_without_host: "valid_assignment A a \<Longrightarrow> valid_assignment A (without_host a h)"
  by (auto simp: valid_assignment_def without_host_def list_all_iff valid_generation_def
      sorted_wrt_filter)

lemma same_generation_uuid: "same_generation c a \<Longrightarrow> instance_uuid c = instance_uuid a"
  by (simp add: same_generation_def)

lemma same_generation_slot: "same_generation c a \<Longrightarrow> map_slot c = map_slot a"
  by (simp add: same_generation_def)

section \<open>Updates of one family\<close>

lemma registry_update_simps [simp]:
  "rg_config (put_inst a R) = rg_config R" "rg_config (put_claim c R) = rg_config R"
  "rg_config (drop_claim c R) = rg_config R" "rg_config (put_intent i R) = rg_config R"
  "rg_intents (put_inst a R) = rg_intents R" "rg_intents (put_claim c R) = rg_intents R"
  "rg_intents (drop_claim c R) = rg_intents R"
  "rg_insts (put_claim c R) = rg_insts R" "rg_insts (drop_claim c R) = rg_insts R"
  "rg_insts (put_intent i R) = rg_insts R"
  "rg_claims (put_inst a R) = rg_claims R" "rg_claims (put_intent i R) = rg_claims R"
  "rg_fences (put_inst a R) = rg_fences R" "rg_fences (put_claim c R) = rg_fences R"
  "rg_fences (drop_claim c R) = rg_fences R" "rg_fences (put_intent i R) = rg_fences R"
  by (simp_all add: registry_updates)

lemma registry_update_lookups [simp]:
  "rg_insts (put_inst a R) u = (if u = instance_uuid a then Some a else rg_insts R u)"
  "rg_intents (put_intent i R) u = (if u = instance_uuid i then Some i else rg_intents R u)"
  "rg_claims (put_claim c R) k = (if k = (host_id c, instance_uuid c) then Some c else rg_claims R k)"
  "rg_claims (drop_claim c R) k = (if k = (host_id c, instance_uuid c) then None else rg_claims R k)"
  by (simp_all add: registry_updates)

text \<open>Which families each part of the invariant looks at.\<close>

lemma invariant_frames [simp]:
  "insts_ok A (put_claim c R) = insts_ok A R" "insts_ok A (drop_claim c R) = insts_ok A R"
  "insts_ok A (put_intent i R) = insts_ok A R" "slots_ok (put_claim c R) = slots_ok R"
  "slots_ok (drop_claim c R) = slots_ok R" "slots_ok (put_intent i R) = slots_ok R"
  "intents_ok A (put_claim c R) = intents_ok A R" "intents_ok A (drop_claim c R) = intents_ok A R"
  "claims_ok A (put_intent i R) = claims_ok A R" "hosts_ok (put_intent i R) = hosts_ok R"
  "fences_ok A (put_inst a R) = fences_ok A R" "fences_ok A (put_claim c R) = fences_ok A R"
  "fences_ok A (drop_claim c R) = fences_ok A R" "fences_ok A (put_intent i R) = fences_ok A R"
  by (simp_all add: insts_ok_def slots_ok_def intents_ok_def claims_ok_def hosts_ok_def fences_ok_def)

lemma insts_okD:
  assumes "insts_ok A R" and "rg_insts R u = Some a"
  shows "valid_assignment A a" and "instance_uuid a = u"
  using assms unfolding insts_ok_def by blast+

lemma slots_okD:
  "slots_ok R \<Longrightarrow> rg_insts R u = Some a \<Longrightarrow> rg_insts R u' = Some a' \<Longrightarrow> map_slot a = map_slot a' \<Longrightarrow> u = u'"
  unfolding slots_ok_def by blast

lemma intents_okE:
  assumes "intents_ok A R" and "rg_intents R u = Some i"
  obtains a where "valid_intent A i" "instance_uuid i = u" "rg_insts R u = Some a"
    "same_generation a i"
  using assms unfolding intents_ok_def by blast

lemma claims_okE:
  assumes "claims_ok A R" and "rg_claims R (h, u) = Some c"
  obtains a where "valid_claim A c" "host_id c = h" "instance_uuid c = u" "rg_insts R u = Some a"
    "same_generation c a" "h \<in> set (host_ids a)"
  using assms unfolding claims_ok_def by blast

lemma hosts_okD:
  "hosts_ok R \<Longrightarrow> rg_insts R u = Some a \<Longrightarrow> h \<in> set (host_ids a) \<Longrightarrow> rg_claims R (h, u) \<noteq> None"
  unfolding hosts_ok_def by blast

text \<open>Intents and claims survive when their allocations keep generation and hosts.\<close>

lemma intents_ok_mono:
  assumes "intents_ok A R" and "\<And>u i. rg_intents S u = Some i \<Longrightarrow> rg_intents R u = Some i"
    and "\<And>u i a. rg_intents S u = Some i \<Longrightarrow> rg_insts R u = Some a \<Longrightarrow>
      \<exists>b. rg_insts S u = Some b \<and> (same_generation a i \<longrightarrow> same_generation b i)"
  shows "intents_ok A S"
  unfolding intents_ok_def
proof (intro allI impI)
  fix u i
  assume i: "rg_intents S u = Some i"
  obtain a where a: "valid_intent A i" "instance_uuid i = u" "rg_insts R u = Some a" "same_generation a i"
    using assms(1) assms(2) [OF i] by (rule intents_okE)
  from assms(3) [OF i a(3)] a
  show "valid_intent A i \<and> instance_uuid i = u \<and> (\<exists>a. rg_insts S u = Some a \<and> same_generation a i)"
    by blast
qed

lemma claims_ok_mono:
  assumes "claims_ok A R"
    and "\<And>h u c. rg_claims S (h, u) = Some c \<Longrightarrow> rg_claims R (h, u) = Some c"
    and "\<And>h u c a. rg_claims S (h, u) = Some c \<Longrightarrow> rg_insts R u = Some a \<Longrightarrow> h \<in> set (host_ids a) \<Longrightarrow>
      \<exists>b. rg_insts S u = Some b \<and> (same_generation c a \<longrightarrow> same_generation c b) \<and> h \<in> set (host_ids b)"
  shows "claims_ok A S"
  unfolding claims_ok_def
proof (intro allI impI)
  fix h u c
  assume c: "rg_claims S (h, u) = Some c"
  obtain a where a: "valid_claim A c" "host_id c = h" "instance_uuid c = u" "rg_insts R u = Some a"
    "same_generation c a" "h \<in> set (host_ids a)"
    using assms(1) assms(2) [OF c] by (rule claims_okE)
  from assms(3) [OF c a(4,6)] a
  show "valid_claim A c \<and> host_id c = h \<and> instance_uuid c = u \<and>
    (\<exists>a. rg_insts S u = Some a \<and> same_generation c a \<and> h \<in> set (host_ids a))"
    by blast
qed

lemma put_claim_ok:
  assumes ok: "registry_ok A R" and inst: "rg_insts R (instance_uuid a) = Some a"
    and h: "host_id c \<in> set (host_ids a)" and c: "valid_claim A c" "same_generation c a"
  shows "registry_ok A (put_claim c R)"
proof -
  have u: "instance_uuid c = instance_uuid a" using c(2) by (rule same_generation_uuid)
  have "claims_ok A (put_claim c R)"
    using registry_okD(4) [OF ok] inst h c by (auto simp: claims_ok_def u)
  then show ?thesis
    using ok by (auto simp: registry_ok_def insts_ok_def slots_ok_def intents_ok_def hosts_ok_def
        fences_ok_def)
qed

lemma intents_ok_put_intent:
  assumes "intents_ok A R" and "rg_insts R (instance_uuid i) = Some a"
    and "valid_intent A i" and "same_generation a i"
  shows "intents_ok A (put_intent i R)"
  unfolding intents_ok_def
proof (intro allI impI)
  fix u j
  assume j: "rg_intents (put_intent i R) u = Some j"
  show "valid_intent A j \<and> instance_uuid j = u \<and>
    (\<exists>a. rg_insts (put_intent i R) u = Some a \<and> same_generation a j)"
  proof (cases "u = instance_uuid i")
    case True
    with j assms(2-4) show ?thesis by simp
  next
    case False
    with j have "rg_intents R u = Some j" by simp
    with assms(1) show ?thesis by (rule intents_okE) simp
  qed
qed

lemma put_intent_ok:
  assumes ok: "registry_ok A R" and inst: "rg_insts R (instance_uuid a) = Some a"
    and i: "valid_intent A i" "same_generation a i"
  shows "registry_ok A (put_intent i R)"
proof -
  have u: "instance_uuid i = instance_uuid a" using i(2) by (simp add: same_generation_def)
  have "intents_ok A (put_intent i R)"
    using registry_okD(3) [OF ok] inst i by (intro intents_ok_put_intent) (simp_all add: u)
  then show ?thesis
    using ok by (simp add: registry_ok_def)
qed

lemma valid_claim_host: "valid_claim A c \<Longrightarrow> canonical_uuid (host_id c)"
  by (simp add: valid_claim_def)

lemma replace_inst_ok:
  assumes ok: "registry_ok A R" and inst: "rg_insts R (instance_uuid a) = Some a"
    and b: "valid_assignment A b" "instance_uuid b = instance_uuid a" "map_slot b = map_slot a"
      "same_generation b a"
  shows "insts_ok A (put_inst b R)" and "slots_ok (put_inst b R)" and "intents_ok A (put_inst b R)"
proof -
  show "insts_ok A (put_inst b R)"
    using registry_okD(1) [OF ok] b by (auto simp: insts_ok_def)
  have *: "u = instance_uuid a" if "rg_insts R u = Some a'" "map_slot a' = map_slot a" for u a'
    using registry_okD(2) [OF ok] that inst unfolding slots_ok_def by metis
  show "slots_ok (put_inst b R)"
    unfolding slots_ok_def
  proof (intro allI impI)
    fix u u' c c'
    assume "rg_insts (put_inst b R) u = Some c" "rg_insts (put_inst b R) u' = Some c'"
      "map_slot c = map_slot c'"
    then show "u = u'"
      using b(2,3) * registry_okD(2) [OF ok] unfolding slots_ok_def
      by (auto split: if_splits)
  qed
  show "intents_ok A (put_inst b R)"
    using registry_okD(3) [OF ok]
    by (rule intents_ok_mono) (use inst b(2) same_generation_trans [OF b(4)] in auto)
qed

lemma claim_insert_ok:
  assumes ok: "registry_ok A R" and inst: "rg_insts R (instance_uuid a) = Some a"
    and c: "claim_for A a c" "host_id c \<notin> set (host_ids a)"
  shows "registry_ok A (put_claim c (put_inst (with_host a (host_id c)) R))"
proof -
  let ?b = "with_host a (host_id c)"
  have cf: "valid_assignment A a" "valid_claim A c" "same_generation c a"
    using c(1) by (simp_all add: claim_for_def)
  have u: "instance_uuid c = instance_uuid a" using cf(3) by (rule same_generation_uuid)
  have b: "valid_assignment A ?b"
    using cf c(2) by (intro valid_with_host) (simp_all add: valid_claim_host)
  note base = replace_inst_ok [OF ok inst b host_updates(1) host_updates(3)]
  have cl: "claims_ok A (put_claim c (put_inst ?b R))"
    unfolding claims_ok_def
  proof (intro allI impI)
    fix h w d
    assume d: "rg_claims (put_claim c (put_inst ?b R)) (h, w) = Some d"
    show "valid_claim A d \<and> host_id d = h \<and> instance_uuid d = w \<and>
      (\<exists>a. rg_insts (put_claim c (put_inst ?b R)) w = Some a \<and> same_generation d a \<and>
         h \<in> set (host_ids a))"
    proof (cases "h = host_id c \<and> w = instance_uuid c")
      case True
      then have "d = c" using d by simp
      with cf True show ?thesis by (simp add: u)
    next
      case False
      with d have "rg_claims R (h, w) = Some d" by (auto split: if_splits)
      from registry_okD(4) [OF ok] this show ?thesis
        by (rule claims_okE) (use inst in \<open>auto simp: u\<close>)
    qed
  qed
  have ho: "hosts_ok (put_claim c (put_inst ?b R))"
    unfolding hosts_ok_def
  proof (intro allI impI)
    fix w b h
    assume "rg_insts (put_claim c (put_inst ?b R)) w = Some b" "h \<in> set (host_ids b)"
    then show "rg_claims (put_claim c (put_inst ?b R)) (h, w) \<noteq> None"
      using hosts_okD [OF registry_okD(5) [OF ok]] inst by (auto simp: u split: if_splits)
  qed
  have gen: "same_generation ?b a" by simp
  show ?thesis
    using base [OF gen] cl ho ok
    by (simp add: registry_ok_def)
qed

lemma remove_claim_ok:
  assumes ok: "registry_ok A R" and inst: "rg_insts R (instance_uuid a) = Some a"
    and c: "claim_for A a c"
  shows "registry_ok A (remove_claim a c R)"
proof -
  let ?b = "without_host a (host_id c)"
  have cf: "valid_assignment A a" "same_generation c a"
    using c by (simp_all add: claim_for_def)
  have u: "instance_uuid c = instance_uuid a" using cf(2) by (rule same_generation_uuid)
  have b: "valid_assignment A ?b" using cf(1) by (rule valid_without_host)
  note base = replace_inst_ok [OF ok inst b host_updates(2) host_updates(4)]
  have cl: "claims_ok A (remove_claim a c R)"
    using registry_okD(4) [OF ok]
    by (rule claims_ok_mono) (use inst in \<open>auto simp: u remove_claim_def split: if_splits\<close>)
  have ho: "hosts_ok (remove_claim a c R)"
    unfolding hosts_ok_def remove_claim_def
  proof (intro allI impI)
    fix w b h
    assume "rg_insts (drop_claim c (put_inst ?b R)) w = Some b" "h \<in> set (host_ids b)"
    then show "rg_claims (drop_claim c (put_inst ?b R)) (h, w) \<noteq> None"
      using hosts_okD [OF registry_okD(5) [OF ok]] inst by (auto simp: u split: if_splits)
  qed
  have gen: "same_generation ?b a" by simp
  show ?thesis
    using base [OF gen] cl ho ok
    by (simp add: registry_ok_def remove_claim_def)
qed

lemma allocate_ok:
  assumes ok: "registry_ok A R" and a: "valid_assignment A a"
    and free: "rg_insts R (instance_uuid a) = None" "slot_free R (map_slot a)"
      "rg_intents R (instance_uuid a) = None"
  shows "insts_ok A (put_inst a R)" "slots_ok (put_inst a R)" "intents_ok A (put_inst a R)"
    "claims_ok A (put_inst a R)"
proof -
  show "insts_ok A (put_inst a R)"
    using registry_okD(1) [OF ok] a by (auto simp: insts_ok_def)
  show "slots_ok (put_inst a R)"
    unfolding slots_ok_def
  proof (intro allI impI)
    fix u u' c c'
    assume "rg_insts (put_inst a R) u = Some c" "rg_insts (put_inst a R) u' = Some c'"
      "map_slot c = map_slot c'"
    then show "u = u'"
      using free(2) slots_okD [OF registry_okD(2) [OF ok]]
      by (auto simp: slot_free_def split: if_splits)
  qed
  show "intents_ok A (put_inst a R)"
    using registry_okD(3) [OF ok] by (rule intents_ok_mono) (use free in auto)
  show "claims_ok A (put_inst a R)"
    using registry_okD(4) [OF ok] by (rule claims_ok_mono) (use free in auto)
qed

section \<open>Several claims at once\<close>

lemma fold_put_claim_simps [simp]:
  "rg_config (fold put_claim cs R) = rg_config R" "rg_insts (fold put_claim cs R) = rg_insts R"
  "rg_intents (fold put_claim cs R) = rg_intents R" "rg_fences (fold put_claim cs R) = rg_fences R"
  by (induction cs arbitrary: R) simp_all

lemma fold_put_claim_frames [simp]:
  "insts_ok A (fold put_claim cs R) = insts_ok A R" "slots_ok (fold put_claim cs R) = slots_ok R"
  "intents_ok A (fold put_claim cs R) = intents_ok A R" "fences_ok A (fold put_claim cs R) = fences_ok A R"
  by (simp_all add: insts_ok_def slots_ok_def intents_ok_def fences_ok_def)

lemma fold_put_claim_lookup:
  "rg_claims (fold put_claim cs R) k =
     (case map_of (rev (map (\<lambda>c. ((host_id c, instance_uuid c), c)) cs)) k of
        Some c \<Rightarrow> Some c | None \<Rightarrow> rg_claims R k)"
  by (induction cs arbitrary: R) (auto split: option.splits simp: map_add_def)

lemma map_of_claims_Some:
  assumes "map_of (rev (map (\<lambda>c. ((host_id c, instance_uuid c), c)) cs)) k = Some c"
  shows "c \<in> set cs" and "k = (host_id c, instance_uuid c)"
  using map_of_SomeD [OF assms] by auto

lemma map_of_claims_None:
  "map_of (rev (map (\<lambda>c. ((host_id c, instance_uuid c), c)) cs)) k = None \<longleftrightarrow>
   (\<forall>c \<in> set cs. k \<noteq> (host_id c, instance_uuid c))"
  by (auto simp: map_of_eq_None_iff image_iff)

lemma restore_absent_ok:
  assumes ok: "registry_ok A R" and act: "action_ok A (RestoreAbsent a cs i)"
    and en: "enabled R (RestoreAbsent a cs i)"
  shows "registry_ok A (effect A (RestoreAbsent a cs i) R)"
proof -
  define R1 where "R1 = (case i of None \<Rightarrow> id | Some x \<Rightarrow> put_intent x) (put_inst a R)"
  have a: "valid_assignment A a" and cs: "\<forall>c \<in> set cs. valid_claim A c \<and> same_generation c a"
    and hosts: "map host_id cs = host_ids a"
    and i: "\<And>x. i = Some x \<Longrightarrow> valid_intent A x \<and> same_generation a x"
    using act by (auto simp: list_all_iff)
  have free: "rg_insts R (instance_uuid a) = None" "slot_free R (map_slot a)"
    "rg_intents R (instance_uuid a) = None"
    using en by simp_all
  note base = allocate_ok [OF ok a free]
  have R1: "rg_config R1 = rg_config R" "rg_insts R1 = rg_insts (put_inst a R)"
    "rg_claims R1 = rg_claims R" "rg_fences R1 = rg_fences R"
    by (auto simp: R1_def split: option.splits)
  have fr: "insts_ok A R1 = insts_ok A (put_inst a R)" "slots_ok R1 = slots_ok (put_inst a R)"
    "fences_ok A R1 = fences_ok A R"
    by (simp_all add: insts_ok_def slots_ok_def fences_ok_def R1)
  have in1: "intents_ok A R1"
    using base(3) i
    by (auto simp: R1_def same_generation_def intro: intents_ok_put_intent split: option.splits)
  have u: "\<forall>c \<in> set cs. instance_uuid c = instance_uuid a"
    using cs by (auto dest: same_generation_uuid)
  have seth: "set (host_ids a) = host_id ` set cs"
    using hosts by (metis list.set_map)
  have fin: "rg_claims (fold put_claim cs R1) (h, w) = Some c \<longleftrightarrow>
      (if w = instance_uuid a \<and> h \<in> set (host_ids a)
       then map_of (rev (map (\<lambda>c. ((host_id c, instance_uuid c), c)) cs)) (h, w) = Some c
       else rg_claims R (h, w) = Some c)" for h w c
    using u seth
    by (auto simp: fold_put_claim_lookup R1 split: option.splits dest: map_of_claims_Some
        simp: map_of_claims_None)
  have cl: "claims_ok A (fold put_claim cs R1)"
    unfolding claims_ok_def
  proof (intro allI impI)
    fix h w c
    assume *: "rg_claims (fold put_claim cs R1) (h, w) = Some c"
    show "valid_claim A c \<and> host_id c = h \<and> instance_uuid c = w \<and>
      (\<exists>a. rg_insts (fold put_claim cs R1) w = Some a \<and> same_generation c a \<and> h \<in> set (host_ids a))"
    proof (cases "w = instance_uuid a \<and> h \<in> set (host_ids a)")
      case True
      have m: "map_of (rev (map (\<lambda>c. ((host_id c, instance_uuid c), c)) cs)) (h, w) = Some c"
        using * unfolding fin if_P [OF True] .
      show ?thesis
      proof -
        have c: "c \<in> set cs" "h = host_id c" "w = instance_uuid c"
          using map_of_claims_Some [OF m] by simp_all
        have "rg_insts (fold put_claim cs R1) w = Some a"
          using True by (simp add: R1)
        then show ?thesis
          using bspec [OF cs c(1)] True c(2) c(3) [symmetric]
          by (intro conjI exI [of _ a]) simp_all
      qed
    next
      case False
      have "rg_claims (put_inst a R) (h, w) = Some c"
        using * unfolding fin if_not_P [OF False] by simp
      with base(4) show ?thesis by (rule claims_okE) (simp add: R1)
    qed
  qed
  have ho: "hosts_ok (fold put_claim cs R1)"
    unfolding hosts_ok_def
  proof (intro allI impI)
    fix w b h
    assume "rg_insts (fold put_claim cs R1) w = Some b" "h \<in> set (host_ids b)"
    then show "rg_claims (fold put_claim cs R1) (h, w) \<noteq> None"
      using registry_okD(5) [OF ok] seth u
      by (auto simp: R1 fold_put_claim_lookup hosts_ok_def map_of_claims_None
          split: option.splits if_splits)
  qed
  have "effect A (RestoreAbsent a cs i) R = fold put_claim cs R1" by (simp add: R1_def)
  then show ?thesis
    using base(1,2) in1 cl ho ok fr by (simp add: registry_ok_def R1)
qed

section \<open>The invariant\<close>

lemma release_ok:
  assumes ok: "registry_ok A R" and inst: "rg_insts R (instance_uuid a) = Some a" and "host_ids a = []"
  shows "registry_ok A (effect A (ReleaseGeneration a i) R)"
proof -
  have "claims_ok A (effect A (ReleaseGeneration a i) R)"
    using registry_okD(4) [OF ok] by (rule claims_ok_mono) (use assms(2,3) in auto)
  moreover have "intents_ok A (effect A (ReleaseGeneration a i) R)"
    using registry_okD(3) [OF ok] by (rule intents_ok_mono) (auto split: if_splits)
  ultimately show ?thesis
    using ok by (auto simp: registry_ok_def insts_ok_def slots_ok_def hosts_ok_def fences_ok_def)
qed

lemma fence_ok:
  assumes A: "allocator_ok A" and ok: "registry_ok A R" and act: "action_ok A (Fence a c p)"
    and inst: "rg_insts R (instance_uuid a) = Some a"
  shows "registry_ok A (effect A (Fence a c p) R)"
proof -
  have cf: "claim_for A a c" using act by simp
  have c: "canonical_uuid (materialization_id c)" "canonical_uuid (host_id c)"
    "canonical_uuid (instance_uuid c)"
    using cf by (simp_all add: claim_for_def valid_claim_def valid_generation_def)
  have "parse_fence_record A (enc_fence A p (materialization_id c)) =
      Inr (p, Some (materialization_id c))"
    using A act c by (intro parse_enc_fence) simp_all
  then have "fences_ok A (effect A (Fence a c p) R)"
    using registry_okD(6) [OF ok] act c by (auto simp: fences_ok_def remove_claim_def)
  moreover have "registry_ok A (remove_claim a c R)"
    using ok inst cf by (rule remove_claim_ok)
  ultimately show ?thesis
    by (simp add: registry_ok_def insts_ok_def slots_ok_def intents_ok_def claims_ok_def hosts_ok_def)
qed

lemma effect_ok:
  assumes A: "allocator_ok A" and ok: "registry_ok A R" and act: "action_ok A act"
    and en: "enabled R act"
  shows "registry_ok A (effect A act R)"
proof (cases act)
  case (Allocate a)
  have a: "valid_assignment A a" "host_ids a = []"
    and free: "rg_insts R (instance_uuid a) = None" "slot_free R (map_slot a)"
      "rg_intents R (instance_uuid a) = None"
    using act en Allocate by simp_all
  have "hosts_ok (put_inst a R)"
    using registry_okD(5) [OF ok] a(2) by (auto simp: hosts_ok_def split: if_splits)
  with allocate_ok [OF ok a(1) free] ok show ?thesis
    by (simp add: Allocate registry_ok_def fences_ok_def)
next
  case (ClaimInsert a c)
  with act en show ?thesis by (simp add: claim_insert_ok [OF ok])
next
  case (ClaimReplace a c c')
  with act en show ?thesis
    by (auto simp: claim_for_def intro: put_claim_ok [OF ok])
next
  case (ClaimMove a c c')
  have "host_id c' = host_id c" using act ClaimMove by (auto simp: claim_move_def)
  with act en ClaimMove show ?thesis
    by (auto simp: claim_for_def intro: put_claim_ok [OF ok])
next
  case (Fence a c p)
  with act en show ?thesis using fence_ok [OF A ok] by simp
next
  case (Abandon a c)
  with act en show ?thesis by (simp add: remove_claim_ok [OF ok])
next
  case (Retire a c)
  with act en show ?thesis by (simp add: remove_claim_ok [OF ok])
next
  case (RequestRelease a i)
  have "registry_ok A (put_intent i R)"
    using ok by (rule put_intent_ok [where a = a]) (use act en RequestRelease in simp_all)
  with RequestRelease show ?thesis by simp
next
  case (ReleaseGeneration a i)
  have "registry_ok A (effect A (ReleaseGeneration a i) R)"
    using ok by (rule release_ok) (use act en ReleaseGeneration in simp_all)
  with ReleaseGeneration show ?thesis by simp
next
  case (RestoreAbsent a cs i)
  with act en show ?thesis using restore_absent_ok [OF ok] by blast
next
  case (RestoreIntent a cs i)
  have "registry_ok A (put_intent i R)"
    using ok by (rule put_intent_ok [where a = a]) (use act en RestoreIntent in simp_all)
  with RestoreIntent show ?thesis by simp
qed

end
