(* ===== verification/Etcd_Store.thy ===== *)
theory Etcd_Store
  imports Registry_Invariant "HOL-Library.AList"
begin

text \<open>
  The etcd that the allocator's unit tests run against (\<open>_FakeEtcd\<close> and \<open>_FakeLease\<close> of
  nova/tests/unit/virt/incus/test_idmap.py): a key-value store with leases whose
  transactions compare, then put, delete or range. Its faults and hooks become a script of
  events: before any call, transactions of other clients may commit and leases may expire,
  and a call may fail before or after it took effect or lose its reply. The gateway built on
  it interprets the contracts that the allocator's theorems assume of an etcd gateway.
\<close>

section \<open>The store\<close>

type_synonym 'b kv = "(string \<times> 'b \<times> int) list"

definition val :: "'b kv \<Rightarrow> string \<Rightarrow> 'b option" where
  "val kv k = map_option fst (map_of kv k)"

definition key_lease :: "'b kv \<Rightarrow> string \<Rightarrow> int" where
  "key_lease kv k = (case map_of kv k of None \<Rightarrow> 0 | Some (v, l) \<Rightarrow> l)"

fun match_compare :: "'b kv \<Rightarrow> 'b compare \<Rightarrow> bool" where
  "match_compare kv (CmpAbsent k) \<longleftrightarrow> val kv k = None"
| "match_compare kv (CmpValue k v) \<longleftrightarrow> val kv k = Some v"
| "match_compare kv (CmpLease k l) \<longleftrightarrow> key_lease kv k = l"

definition store_range :: "'b kv \<Rightarrow> string \<Rightarrow> 'b wire_resp" where
  "store_range kv k =
     (case map_of kv k of
        None \<Rightarrow> RespRange (Some []) (JStr ''0'')
      | Some (v, l) \<Rightarrow> RespRange (Some [Kv (Some k) (Some v) (JStr (int_dec l))]) (JStr ''1''))"

definition store_count :: "'b kv \<Rightarrow> string \<Rightarrow> string \<Rightarrow> nat" where
  "store_count kv first end = length (filter (\<lambda>(k, v). first \<le> k \<and> k < end) kv)"

text \<open>One request: the store after it and the responses it adds.\<close>

fun run_request :: "'b kv \<Rightarrow> 'b request \<Rightarrow> 'b kv \<times> 'b wire_resp list" where
  "run_request kv (ReqPut k v l) =
     (AList.update k (v, case l of None \<Rightarrow> 0 | Some i \<Rightarrow> i) kv, [])"
| "run_request kv (ReqDelete k) = (AList.delete k kv, [])"
| "run_request kv (ReqRange k) = (kv, [store_range kv k])"
| "run_request kv (ReqCount first end) =
     (kv, [RespRange (Some []) (JStr (nat_dec (store_count kv first end)))])"

fun run_requests :: "'b kv \<Rightarrow> 'b request list \<Rightarrow> 'b kv \<times> 'b wire_resp list" where
  "run_requests kv [] = (kv, [])"
| "run_requests kv (r # rs) =
     (let (kv1, out1) = run_request kv r; (kv2, out2) = run_requests kv1 rs in (kv2, out1 @ out2))"

definition txn_holds :: "'b kv \<Rightarrow> 'b txn \<Rightarrow> bool" where
  "txn_holds kv t \<longleftrightarrow> list_all (match_compare kv) (t_compare t)"

definition run_txn :: "'b kv \<Rightarrow> 'b txn \<Rightarrow> bool \<times> 'b kv \<times> 'b wire_resp list" where
  "run_txn kv t =
     (txn_holds kv t, run_requests kv (if txn_holds kv t then t_success t else t_failure t))"

definition txn_store :: "'b kv \<Rightarrow> 'b txn \<Rightarrow> 'b kv" where
  "txn_store kv t = fst (snd (run_txn kv t))"

definition expire_lease :: "'b kv \<Rightarrow> int \<Rightarrow> 'b kv" where
  "expire_lease kv l = filter (\<lambda>(k, v, l'). l' \<noteq> l) kv"

section \<open>Requests on values\<close>

fun put_val :: "(string \<Rightarrow> 'b option) \<Rightarrow> 'b request \<Rightarrow> string \<Rightarrow> 'b option" where
  "put_val st (ReqPut k v l) = st(k \<mapsto> v)"
| "put_val st (ReqDelete k) = st(k := None)"
| "put_val st (ReqRange k) = st"
| "put_val st (ReqCount a b) = st"

fun holds :: "(string \<Rightarrow> 'b option) \<Rightarrow> 'b compare \<Rightarrow> bool" where
  "holds st (CmpAbsent k) \<longleftrightarrow> st k = None"
| "holds st (CmpValue k v) \<longleftrightarrow> st k = Some v"
| "holds st (CmpLease k l) \<longleftrightarrow> True"

lemma match_compare_holds: "match_compare kv c \<Longrightarrow> holds (val kv) c"
  by (cases c) simp_all

lemma val_update [simp]: "val (AList.update k v kv) = (val kv)(k \<mapsto> fst v)"
  by (rule ext) (simp add: val_def update_conv)

lemma val_delete [simp]: "val (AList.delete k kv) = (val kv)(k := None)"
  by (rule ext) (simp add: val_def delete_conv)

lemma val_run_request: "val (fst (run_request kv r)) = put_val (val kv) r"
  by (cases r) simp_all

lemma val_run_requests: "val (fst (run_requests kv rs)) = foldl put_val (val kv) rs"
proof (induction rs arbitrary: kv)
  case (Cons r rs)
  obtain kv1 out1 where r: "run_request kv r = (kv1, out1)" by (cases "run_request kv r")
  then have "val kv1 = put_val (val kv) r" by (metis fst_conv val_run_request)
  with Cons [of kv1] r show ?case by (cases "run_requests kv1 rs") simp
qed simp

lemma val_txn_store:
  "val (txn_store kv t) =
     foldl put_val (val kv) (if txn_holds kv t then t_success t else t_failure t)"
  by (simp add: txn_store_def run_txn_def val_run_requests)

lemma val_fun_upd_other: "k \<noteq> k' \<Longrightarrow> (st(k := v)) k' = st k'"
  by simp

section \<open>The world: store, script and supplies\<close>

datatype fault =
    NoFault
  | FailBefore exn_class
  | FailAfter exn_class
  | LostReply

record 'b event =
  ev_others :: "'b txn list"
  ev_expire :: "int list"
  ev_fault :: fault

record 'b world =
  w_kv :: "'b kv"
  w_next_lease :: int
  w_leases :: "int list"
  w_uuids :: "string list"
  w_clock :: int
  w_script :: "'b event list"

definition quiet_event :: "'b event" where
  "quiet_event = \<lparr>ev_others = [], ev_expire = [], ev_fault = NoFault\<rparr>"

definition next_event :: "'b world \<Rightarrow> 'b event" where
  "next_event w = (case w_script w of [] \<Rightarrow> quiet_event | e # es \<Rightarrow> e)"

text \<open>What happens before a call takes effect.\<close>

definition begin_call :: "'b world \<Rightarrow> fault \<times> 'b world" where
  "begin_call w =
     (let e = next_event w in
      (ev_fault e,
       w\<lparr>w_kv := foldl expire_lease (foldl txn_store (w_kv w) (ev_others e)) (ev_expire e),
         w_leases := filter (\<lambda>l. l \<notin> set (ev_expire e)) (w_leases w),
         w_script := drop 1 (w_script w)\<rparr>))"

definition os_error :: "exn_class \<Rightarrow> gw_exn" where
  "os_error c = \<lparr>x_class = c, x_detail = None, x_text = ''unavailable''\<rparr>"

definition faulty :: "('b world \<Rightarrow> 'a \<times> 'b world) \<Rightarrow> ('a \<Rightarrow> 'a) \<Rightarrow> 'b world \<Rightarrow> (gw_exn + 'a) \<times> 'b world" where
  "faulty call lost w =
     (case begin_call w of (f, w1) \<Rightarrow>
        (case f of
           FailBefore c \<Rightarrow> (Inl (os_error c), w1)
         | NoFault \<Rightarrow> (case call w1 of (r, w2) \<Rightarrow> (Inr r, w2))
         | FailAfter c \<Rightarrow> (case call w1 of (r, w2) \<Rightarrow> (Inl (os_error c), w2))
         | LostReply \<Rightarrow> (case call w1 of (r, w2) \<Rightarrow> (Inr (lost r), w2))))"

definition fake_transaction :: "'b txn \<Rightarrow> 'b world \<Rightarrow> 'b reply \<times> 'b world" where
  "fake_transaction t w =
     (case run_txn (w_kv w) t of (ok, kv, out) \<Rightarrow>
        (\<lparr>rp_dict = True, rp_fields = [], rp_header = True, rp_succeeded = Some (JBool ok),
          rp_responses = Resps out\<rparr>, w\<lparr>w_kv := kv\<rparr>))"

definition empty_body :: "'b reply \<Rightarrow> 'b reply" where
  "empty_body r = r\<lparr>rp_dict := False\<rparr>"

definition fake_get :: "string \<Rightarrow> 'b world \<Rightarrow> 'b option list \<times> 'b world" where
  "fake_get k w = ((case val (w_kv w) k of None \<Rightarrow> [] | Some v \<Rightarrow> [Some v]), w)"

definition fake_prefix :: "string \<Rightarrow> 'b world \<Rightarrow> (string \<times> 'b) option list \<times> 'b world" where
  "fake_prefix p w =
     (map (\<lambda>(k, v, l). Some (k, v)) (sort_key fst (filter (\<lambda>e. starts_with p (fst e)) (w_kv w))), w)"

definition fake_lease :: "'b world \<Rightarrow> etcd_lease \<times> 'b world" where
  "fake_lease w =
     (\<lparr>lease_id = Some (w_next_lease w)\<rparr>,
      w\<lparr>w_next_lease := w_next_lease w + 1, w_leases := w_next_lease w # w_leases w\<rparr>)"

definition fake_refresh :: "etcd_lease \<Rightarrow> 'b world \<Rightarrow> int option \<times> 'b world" where
  "fake_refresh l w =
     ((case lease_id l of None \<Rightarrow> None
       | Some i \<Rightarrow> if i \<in> set (w_leases w) then Some 60 else Some (-1)), w)"

definition fake_revoke :: "etcd_lease \<Rightarrow> 'b world \<Rightarrow> unit \<times> 'b world" where
  "fake_revoke l w =
     ((), case lease_id l of None \<Rightarrow> w
          | Some i \<Rightarrow> if i \<le> 0 then w
                      else w\<lparr>w_kv := expire_lease (w_kv w) i, w_leases := filter (\<lambda>j. j \<noteq> i) (w_leases w)\<rparr>)"

definition default_uuid :: string where
  "default_uuid = ''00000000-0000-4000-8000-000000000000''"

definition fake_uuid4 :: "'b world \<Rightarrow> string \<times> 'b world" where
  "fake_uuid4 w =
     (case w_uuids w of [] \<Rightarrow> (default_uuid, w) | x # xs \<Rightarrow> (x, w\<lparr>w_uuids := xs\<rparr>))"

definition no_password :: password_file where
  "no_password = \<lparr>pf_open = False, pf_regular = False, pf_mode = 0, pf_size = 0, pf_content = []\<rparr>"

definition fake_gateway :: "('b world, 'b) gateway" where
  "fake_gateway =
     \<lparr>g_txn = (\<lambda>t. faulty (fake_transaction t) empty_body),
      g_get = (\<lambda>k. faulty (fake_get k) id),
      g_prefix = (\<lambda>p. faulty (fake_prefix p) id),
      g_lease = (\<lambda>ttl. faulty fake_lease id),
      g_refresh = (\<lambda>l. faulty (fake_refresh l) id),
      g_revoke = (\<lambda>l. faulty (fake_revoke l) id),
      g_authenticate = (\<lambda>u p w. (Inr JNull, w)),
      g_password = (\<lambda>w. (no_password, w)),
      g_decode = (\<lambda>s. Some s),
      g_uuid4 = fake_uuid4,
      g_now = (\<lambda>w. (w_clock w, w)),
      g_text = (\<lambda>w. (''failure'', w))\<rparr>"

end
