(* ===== verification/Registry_Refinement.thy ===== *)
theory Registry_Refinement
  imports Etcd_Store
begin

text \<open>
  The transactions of the allocator refine the actions of the abstract registry: under a
  store that represents a registry, the comparisons of an action's transaction hold exactly
  when the action is enabled, and its requests lead to a store that represents the
  registry after the action.
\<close>

section \<open>Representation\<close>

definition known_key :: "'b allocator \<Rightarrow> string \<Rightarrow> bool" where
  "known_key A k \<longleftrightarrow>
     k = configuration_key A \<or> (\<exists>u. k = instance_key_of A u) \<or> (\<exists>s. k = slot_key_of A s) \<or>
     (\<exists>u. k = release_key_of A u) \<or>
     (\<exists>h u. canonical_uuid h \<and> (k = host_claim_key_of A h u \<or> k = fence_key_of A h u))"

definition represents :: "'b allocator \<Rightarrow> 'b registry \<Rightarrow> (string \<Rightarrow> 'b option) \<Rightarrow> bool" where
  "represents A R st \<longleftrightarrow>
     st (configuration_key A) = Some (rg_config R) \<and>
     (\<forall>u. st (instance_key_of A u) = map_option (enc_assignment A) (rg_insts R u)) \<and>
     (\<forall>u a. rg_insts R u = Some a \<longrightarrow> st (slot_key_of A (map_slot a)) = Some (enc_assignment A a)) \<and>
     (\<forall>s. slot_free R s \<longrightarrow> st (slot_key_of A s) = None) \<and>
     (\<forall>u. st (release_key_of A u) = map_option (enc_intent A) (rg_intents R u)) \<and>
     (\<forall>h u. canonical_uuid h \<longrightarrow>
        st (host_claim_key_of A h u) = map_option (enc_claim A) (rg_claims R (h, u))) \<and>
     (\<forall>h u. canonical_uuid h \<longrightarrow> st (fence_key_of A h u) = rg_fences R (h, u)) \<and>
     (\<forall>k. in_namespace A k \<longrightarrow> \<not> known_key A k \<longrightarrow> st k = None)"

lemma representsD:
  assumes "represents A R st"
  shows "st (configuration_key A) = Some (rg_config R)"
    and "st (instance_key_of A u) = map_option (enc_assignment A) (rg_insts R u)"
    and "rg_insts R u = Some a \<Longrightarrow> st (slot_key_of A (map_slot a)) = Some (enc_assignment A a)"
    and "slot_free R s \<Longrightarrow> st (slot_key_of A s) = None"
    and "st (release_key_of A u) = map_option (enc_intent A) (rg_intents R u)"
    and "canonical_uuid h \<Longrightarrow>
      st (host_claim_key_of A h u) = map_option (enc_claim A) (rg_claims R (h, u))"
    and "canonical_uuid h \<Longrightarrow> st (fence_key_of A h u) = rg_fences R (h, u)"
    and "in_namespace A k \<Longrightarrow> \<not> known_key A k \<Longrightarrow> st k = None"
  using assms unfolding represents_def by blast+

lemma known_keys [simp]:
  "known_key A (configuration_key A)" "known_key A (instance_key_of A u)"
  "known_key A (slot_key_of A s)" "known_key A (release_key_of A u)"
  "canonical_uuid h \<Longrightarrow> known_key A (host_claim_key_of A h u)"
  "canonical_uuid h \<Longrightarrow> known_key A (fence_key_of A h u)"
  unfolding known_key_def by blast+

text \<open>Keys outside the namespace are none of the registry's.\<close>

lemma represents_outside:
  assumes "represents A R st" and "\<And>k. in_namespace A k \<Longrightarrow> st' k = st k"
  shows "represents A R st'"
  using assms(1) unfolding represents_def by (simp add: assms(2))

section \<open>The transaction of an action\<close>

definition cmp_alloc :: "'b allocator \<Rightarrow> assignment \<Rightarrow> 'b compare list" where
  "cmp_alloc A a =
     [CmpValue (instance_key_of A (instance_uuid a)) (enc_assignment A a),
      CmpValue (slot_key_of A (map_slot a)) (enc_assignment A a)]"

definition cmp_claim :: "'b allocator \<Rightarrow> host_claim \<Rightarrow> 'b compare" where
  "cmp_claim A c = CmpValue (host_claim_key_of A (host_id c) (instance_uuid c)) (enc_claim A c)"

definition cmp_no_release :: "'b allocator \<Rightarrow> assignment \<Rightarrow> 'b compare" where
  "cmp_no_release A a = CmpAbsent (release_key_of A (instance_uuid a))"

fun action_compares :: "'b allocator \<Rightarrow> action \<Rightarrow> 'b compare list" where
  "action_compares A (Allocate a) =
     [CmpAbsent (instance_key_of A (instance_uuid a)), CmpAbsent (slot_key_of A (map_slot a)),
      cmp_no_release A a]"
| "action_compares A (ClaimInsert a c) =
     cmp_alloc A a @ [CmpAbsent (host_claim_key_of A (host_id c) (instance_uuid c)), cmp_no_release A a]"
| "action_compares A (ClaimReplace a c c') = cmp_alloc A a @ [cmp_claim A c, cmp_no_release A a]"
| "action_compares A (ClaimMove a c c') =
     cmp_alloc A a @ [cmp_claim A c] @ (if state c' = Possible then [cmp_no_release A a] else [])"
| "action_compares A (Fence a c p) = cmp_alloc A a @ [cmp_claim A c]"
| "action_compares A (Abandon a c) = cmp_alloc A a @ [cmp_claim A c]"
| "action_compares A (Retire a c) = cmp_alloc A a @ [cmp_claim A c]"
| "action_compares A (RequestRelease a i) = cmp_alloc A a @ [cmp_no_release A a]"
| "action_compares A (ReleaseGeneration a i) =
     cmp_alloc A a @ [CmpValue (release_key_of A (instance_uuid a)) (enc_intent A i)]"
| "action_compares A (RestoreAbsent a cs i) =
     [CmpAbsent (instance_key_of A (instance_uuid a)), CmpAbsent (slot_key_of A (map_slot a)),
      cmp_no_release A a]
     @ map (\<lambda>c. CmpAbsent (host_claim_key_of A (host_id c) (instance_uuid c))) cs"
| "action_compares A (RestoreIntent a cs i) =
     cmp_alloc A a @ [cmp_no_release A a] @ map (cmp_claim A) cs"

definition put_alloc :: "'b allocator \<Rightarrow> assignment \<Rightarrow> 'b request list" where
  "put_alloc A a =
     [ReqPut (instance_key_of A (instance_uuid a)) (enc_assignment A a) None,
      ReqPut (slot_key_of A (map_slot a)) (enc_assignment A a) None]"

definition put_claim_req :: "'b allocator \<Rightarrow> host_claim \<Rightarrow> 'b request" where
  "put_claim_req A c =
     ReqPut (host_claim_key_of A (host_id c) (instance_uuid c)) (enc_claim A c) None"

definition put_intent_req :: "'b allocator \<Rightarrow> release_intent \<Rightarrow> 'b request" where
  "put_intent_req A i = ReqPut (release_key_of A (instance_uuid i)) (enc_intent A i) None"

definition remove_reqs :: "'b allocator \<Rightarrow> assignment \<Rightarrow> host_claim \<Rightarrow> 'b request list" where
  "remove_reqs A a c =
     put_alloc A (without_host a (host_id c))
       @ [ReqDelete (host_claim_key_of A (host_id c) (instance_uuid c))]"

fun action_requests :: "'b allocator \<Rightarrow> action \<Rightarrow> 'b request list" where
  "action_requests A (Allocate a) = put_alloc A a"
| "action_requests A (ClaimInsert a c) = put_alloc A (with_host a (host_id c)) @ [put_claim_req A c]"
| "action_requests A (ClaimReplace a c c') = [put_claim_req A c']"
| "action_requests A (ClaimMove a c c') = [put_claim_req A c']"
| "action_requests A (Fence a c p) =
     [ReqPut (fence_key_of A (host_id c) (instance_uuid c))
        (enc_fence A p (materialization_id c)) None] @ remove_reqs A a c"
| "action_requests A (Abandon a c) = remove_reqs A a c"
| "action_requests A (Retire a c) = remove_reqs A a c"
| "action_requests A (RequestRelease a i) = [put_intent_req A i]"
| "action_requests A (ReleaseGeneration a i) =
     [ReqDelete (instance_key_of A (instance_uuid a)), ReqDelete (slot_key_of A (map_slot a)),
      ReqDelete (release_key_of A (instance_uuid a))]"
| "action_requests A (RestoreAbsent a cs i) =
     put_alloc A a @ (case i of None \<Rightarrow> [] | Some x \<Rightarrow> [put_intent_req A x])
       @ map (put_claim_req A) cs"
| "action_requests A (RestoreIntent a cs i) = [put_intent_req A i]"

section \<open>Comparisons hold exactly when the action is enabled\<close>

lemma slot_free_iff:
  assumes "represents A R st"
  shows "st (slot_key_of A s) = None \<longleftrightarrow> slot_free R s"
proof
  assume n: "st (slot_key_of A s) = None"
  show "slot_free R s"
    unfolding slot_free_def
  proof (intro allI impI notI)
    fix u a
    assume "rg_insts R u = Some a" and "map_slot a = s"
    with representsD(3) [OF assms] n show False by fastforce
  qed
qed (rule representsD(4) [OF assms])

lemma enc_intent_inject:
  assumes "allocator_ok A" and "valid_intent A i" and "valid_intent A j"
  shows "enc_intent A i = enc_intent A j \<longleftrightarrow> i = j"
proof
  assume eq: "enc_intent A i = enc_intent A j"
  have "parse_release_intent A (enc_intent A i) None = Inr i"
    by (rule parse_enc_intent [OF assms(1,2)]) simp
  moreover have "parse_release_intent A (enc_intent A j) None = Inr j"
    by (rule parse_enc_intent [OF assms(1,3)]) simp
  ultimately show "i = j" unfolding eq by (simp only: sum.inject)
qed (rule arg_cong)

lemma enc_claim_inject:
  assumes "allocator_ok A" and "valid_claim A c" and "valid_claim A d"
  shows "enc_claim A c = enc_claim A d \<longleftrightarrow> c = d"
proof
  assume eq: "enc_claim A c = enc_claim A d"
  have "parse_host_claim A (enc_claim A c) None None = Inr c"
    by (rule parse_enc_claim [OF assms(1,2)]) simp_all
  moreover have "parse_host_claim A (enc_claim A d) None None = Inr d"
    by (rule parse_enc_claim [OF assms(1,3)]) simp_all
  ultimately show "c = d" unfolding eq by (simp only: sum.inject)
qed (rule arg_cong)

lemma instance_value_iff:
  assumes A: "allocator_ok A" and ok: "registry_ok A R" and rep: "represents A R st"
    and a: "valid_assignment A a"
  shows "st (instance_key_of A u) = Some (enc_assignment A a) \<longleftrightarrow> rg_insts R u = Some a"
proof (cases "rg_insts R u")
  case (Some b)
  have "valid_assignment A b" using registry_okD(1) [OF ok] Some by (rule insts_okD)
  then show ?thesis
    using enc_assignment_inject [OF A _ a] Some by (simp add: representsD(2) [OF rep])
qed (simp add: representsD(2) [OF rep])

lemma claim_value_iff:
  assumes A: "allocator_ok A" and ok: "registry_ok A R" and rep: "represents A R st"
    and c: "valid_claim A c" and h: "canonical_uuid h"
  shows "st (host_claim_key_of A h u) = Some (enc_claim A c) \<longleftrightarrow> rg_claims R (h, u) = Some c"
proof (cases "rg_claims R (h, u)")
  case (Some b)
  obtain a where "valid_claim A b" using registry_okD(4) [OF ok] Some by (rule claims_okE)
  then show ?thesis
    using enc_claim_inject [OF A _ c] Some by (simp add: representsD(6) [OF rep h])
qed (simp add: representsD(6) [OF rep h])

lemma intent_value_iff:
  assumes A: "allocator_ok A" and ok: "registry_ok A R" and rep: "represents A R st"
    and i: "valid_intent A i"
  shows "st (release_key_of A u) = Some (enc_intent A i) \<longleftrightarrow> rg_intents R u = Some i"
proof (cases "rg_intents R u")
  case (Some b)
  obtain a where "valid_intent A b" using registry_okD(3) [OF ok] Some by (rule intents_okE)
  then show ?thesis
    using enc_intent_inject [OF A _ i] Some by (simp add: representsD(5) [OF rep])
qed (simp add: representsD(5) [OF rep])

text \<open>The pair of comparisons on an allocation says that it is the stored one.\<close>

lemma cmp_alloc_iff:
  assumes "allocator_ok A" "registry_ok A R" "represents A R st" "valid_assignment A a"
  shows "list_all (holds st) (cmp_alloc A a) \<longleftrightarrow> rg_insts R (instance_uuid a) = Some a"
  using instance_value_iff [OF assms] representsD(3) [OF assms(3)]
  by (auto simp: cmp_alloc_def)

lemma cmp_claim_iff:
  assumes "allocator_ok A" "registry_ok A R" "represents A R st" "valid_claim A c"
  shows "holds st (cmp_claim A c) \<longleftrightarrow> rg_claims R (host_id c, instance_uuid c) = Some c"
  using claim_value_iff [OF assms valid_claim_host [OF assms(4)]] by (simp add: cmp_claim_def)

lemma cmp_no_release_iff:
  assumes "represents A R st"
  shows "holds st (cmp_no_release A a) \<longleftrightarrow> rg_intents R (instance_uuid a) = None"
  by (simp add: cmp_no_release_def representsD(5) [OF assms])

lemma cmp_claim_absent_iff:
  assumes "represents A R st" "valid_claim A c"
  shows "st (host_claim_key_of A (host_id c) u) = None \<longleftrightarrow> rg_claims R (host_id c, u) = None"
  by (simp add: representsD(6) [OF assms(1) valid_claim_host [OF assms(2)]])

lemma claim_for_D:
  assumes "claim_for A a c"
  shows "valid_assignment A a" "valid_claim A c" "same_generation c a" "instance_uuid c = instance_uuid a"
  using assms by (auto simp: claim_for_def same_generation_def)

lemma action_enabled_iff:
  assumes A: "allocator_ok A" and ok: "registry_ok A R" and rep: "represents A R st"
    and act: "action_ok A act"
  shows "list_all (holds st) (action_compares A act) \<longleftrightarrow> enabled R act"
proof -
  note alloc = cmp_alloc_iff [OF A ok rep] and cl = cmp_claim_iff [OF A ok rep]
    and rel = cmp_no_release_iff [OF rep] and free = slot_free_iff [OF rep]
    and inst = representsD(2) [OF rep] and abs = cmp_claim_absent_iff [OF rep]
  show ?thesis
  proof (cases act)
    case (Allocate a)
    then show ?thesis by (simp add: inst free rel)
  next
    case (ClaimInsert a c)
    with act have "claim_for A a c" by simp
    note c = claim_for_D [OF this]
    show ?thesis using abs [OF c(2)] by (simp add: ClaimInsert alloc [OF c(1)] rel c(4))
  next
    case (ClaimReplace a c c')
    with act have "claim_for A a c" by simp
    note c = claim_for_D [OF this]
    show ?thesis using cl [OF c(2)] by (simp add: ClaimReplace alloc [OF c(1)] rel c(4))
  next
    case (ClaimMove a c c')
    with act have "claim_for A a c" by simp
    note c = claim_for_D [OF this]
    show ?thesis using cl [OF c(2)] by (simp add: ClaimMove alloc [OF c(1)] rel c(4))
  next
    case (Fence a c p)
    with act have "claim_for A a c" by simp
    note c = claim_for_D [OF this]
    show ?thesis using cl [OF c(2)] by (simp add: Fence alloc [OF c(1)] c(4))
  next
    case (Abandon a c)
    with act have "claim_for A a c" by simp
    note c = claim_for_D [OF this]
    show ?thesis using cl [OF c(2)] by (simp add: Abandon alloc [OF c(1)] c(4))
  next
    case (Retire a c)
    with act have "claim_for A a c" by simp
    note c = claim_for_D [OF this]
    show ?thesis using cl [OF c(2)] by (simp add: Retire alloc [OF c(1)] c(4))
  next
    case (RequestRelease a i)
    with act show ?thesis by (simp add: alloc rel)
  next
    case (ReleaseGeneration a i)
    with act intent_value_iff [OF A ok rep] show ?thesis by (simp add: alloc)
  next
    case (RestoreAbsent a cs i)
    have cs: "valid_claim A c \<and> instance_uuid c = instance_uuid a" if "c \<in> set cs" for c
      using act RestoreAbsent that by (auto simp: list_all_iff same_generation_def)
    have "list_all (holds st) (map (\<lambda>c. CmpAbsent (host_claim_key_of A (host_id c) (instance_uuid c))) cs)
      = list_all (\<lambda>c. rg_claims R (host_id c, instance_uuid a) = None) cs"
      using cs abs by (auto simp: list_all_iff)
    then show ?thesis by (simp add: RestoreAbsent inst free rel del: list.pred_map)
  next
    case (RestoreIntent a cs i)
    have cs: "valid_claim A c \<and> instance_uuid c = instance_uuid a" if "c \<in> set cs" for c
      using act RestoreIntent that by (auto simp: list_all_iff same_generation_def)
    have "list_all (holds st) (map (cmp_claim A) cs)
      = list_all (\<lambda>c. rg_claims R (host_id c, instance_uuid a) = Some c) cs"
      using cs cl by (auto simp: list_all_iff)
    with act RestoreIntent show ?thesis by (simp add: alloc rel del: list.pred_map)
  qed
qed

section \<open>Requests carry out the effect\<close>

lemma representsI:
  assumes "st (configuration_key A) = Some (rg_config R)"
    and "\<And>u. st (instance_key_of A u) = map_option (enc_assignment A) (rg_insts R u)"
    and "\<And>u a. rg_insts R u = Some a \<Longrightarrow> st (slot_key_of A (map_slot a)) = Some (enc_assignment A a)"
    and "\<And>s. slot_free R s \<Longrightarrow> st (slot_key_of A s) = None"
    and "\<And>u. st (release_key_of A u) = map_option (enc_intent A) (rg_intents R u)"
    and "\<And>h u. canonical_uuid h \<Longrightarrow>
      st (host_claim_key_of A h u) = map_option (enc_claim A) (rg_claims R (h, u))"
    and "\<And>h u. canonical_uuid h \<Longrightarrow> st (fence_key_of A h u) = rg_fences R (h, u)"
    and "\<And>k. in_namespace A k \<Longrightarrow> \<not> known_key A k \<Longrightarrow> st k = None"
  shows "represents A R st"
  using assms unfolding represents_def by blast

lemma slot_free_frames [simp]:
  "slot_free (put_claim c R) s = slot_free R s" "slot_free (drop_claim c R) s = slot_free R s"
  "slot_free (put_intent i R) s = slot_free R s"
  by (simp_all add: slot_free_def)

lemma upd_unknown:
  "known_key A k \<Longrightarrow> \<not> known_key A k' \<Longrightarrow> (st(k := v)) k' = st k'"
  by auto

lemma represents_put_claim:
  assumes rep: "represents A R st" and h: "canonical_uuid (host_id c)"
  shows "represents A (put_claim c R)
    (st(host_claim_key_of A (host_id c) (instance_uuid c) \<mapsto> enc_claim A c))"
  by (rule representsI)
    (simp_all add: representsD [OF rep] h pair_key_inject [OF _ h] upd_unknown [OF known_keys(5) [OF h]]
      del: fun_upd_apply, simp_all add: representsD [OF rep] h)

lemma represents_drop_claim:
  assumes rep: "represents A R st" and h: "canonical_uuid (host_id c)"
  shows "represents A (drop_claim c R)
    (st(host_claim_key_of A (host_id c) (instance_uuid c) := None))"
  by (rule representsI)
    (simp_all add: representsD [OF rep] h pair_key_inject [OF _ h] upd_unknown [OF known_keys(5) [OF h]]
      del: fun_upd_apply, simp_all add: representsD [OF rep] h)

lemma represents_put_intent:
  assumes rep: "represents A R st"
  shows "represents A (put_intent i R) (st(release_key_of A (instance_uuid i) \<mapsto> enc_intent A i))"
  by (rule representsI)
    (simp_all add: representsD [OF rep] upd_unknown [OF known_keys(4)]
      del: fun_upd_apply, simp_all add: representsD [OF rep])

lemma represents_put_fence:
  assumes rep: "represents A R st" and h: "canonical_uuid h"
  shows "represents A (R\<lparr>rg_fences := (rg_fences R)((h, u) \<mapsto> raw)\<rparr>) (st(fence_key_of A h u \<mapsto> raw))"
  by (rule representsI)
    (simp_all add: representsD [OF rep] h upd_unknown [OF known_keys(6) [OF h]] slot_free_def
      del: fun_upd_apply, simp_all add: representsD [OF rep] h slot_free_def)

text \<open>
  A new or replaced allocation: no other allocation holds the slot, and a replaced one held
  the same.
\<close>

lemma represents_put_inst:
  assumes rep: "represents A R st"
    and same: "\<And>b. rg_insts R (instance_uuid a) = Some b \<Longrightarrow> map_slot b = map_slot a"
    and other: "\<And>u b. rg_insts R u = Some b \<Longrightarrow> u \<noteq> instance_uuid a \<Longrightarrow> map_slot b \<noteq> map_slot a"
  shows "represents A (put_inst a R) (st(instance_key_of A (instance_uuid a) \<mapsto> enc_assignment A a,
    slot_key_of A (map_slot a) \<mapsto> enc_assignment A a))"
    (is "represents A ?R ?st")
proof (rule representsI)
  show "?st (slot_key_of A (map_slot b)) = Some (enc_assignment A b)" if "rg_insts ?R u = Some b" for u b
    using that other representsD(3) [OF rep] by (auto split: if_splits)
  show "?st (slot_key_of A s) = None" if free: "slot_free ?R s" for s
  proof -
    note freeD = free [unfolded slot_free_def, rule_format]
    have ne: "s \<noteq> map_slot a" using freeD [of "instance_uuid a" a] by auto
    have "slot_free R s"
      unfolding slot_free_def
    proof (intro allI impI)
      fix u b
      assume b: "rg_insts R u = Some b"
      show "map_slot b \<noteq> s"
      proof (cases "u = instance_uuid a")
        case True
        with same b ne show ?thesis by simp
      next
        case False
        with freeD [of u b] b show ?thesis by simp
      qed
    qed
    with ne representsD(4) [OF rep] show ?thesis by simp
  qed
qed (simp_all add: representsD [OF rep] upd_unknown [OF known_keys(2)] upd_unknown [OF known_keys(3)]
    del: fun_upd_apply, simp_all add: representsD [OF rep])

lemma represents_release:
  assumes rep: "represents A R st" and inst: "rg_insts R (instance_uuid a) = Some a"
    and slots: "slots_ok R"
  shows "represents A (effect A (ReleaseGeneration a i) R)
    (st(instance_key_of A (instance_uuid a) := None, slot_key_of A (map_slot a) := None,
        release_key_of A (instance_uuid a) := None))"
    (is "represents A ?R ?st")
proof (rule representsI)
  have other: "map_slot b \<noteq> map_slot a" if "rg_insts R u = Some b" "u \<noteq> instance_uuid a" for u b
    using slots_okD [OF slots that(1) inst] that(2) by auto
  show "?st (slot_key_of A (map_slot b)) = Some (enc_assignment A b)" if "rg_insts ?R u = Some b" for u b
    using that other representsD(3) [OF rep] by (auto split: if_splits)
  show "?st (slot_key_of A s) = None" if free: "slot_free ?R s" for s
  proof (cases "s = map_slot a")
    case False
    have "slot_free R s"
      unfolding slot_free_def
    proof (intro allI impI)
      fix u b
      assume b: "rg_insts R u = Some b"
      show "map_slot b \<noteq> s"
        using free [unfolded slot_free_def, rule_format, of u b] b False inst
        by (cases "u = instance_uuid a") auto
    qed
    with False representsD(4) [OF rep] show ?thesis by simp
  qed simp
qed (simp_all add: representsD [OF rep] upd_unknown [OF known_keys(2)] upd_unknown [OF known_keys(3)]
    upd_unknown [OF known_keys(4)] del: fun_upd_apply, simp_all add: representsD [OF rep])

lemma represents_replace:
  assumes ok: "registry_ok A R" and rep: "represents A R st"
    and inst: "rg_insts R (instance_uuid a) = Some a"
    and b: "instance_uuid b = instance_uuid a" "map_slot b = map_slot a"
  shows "represents A (put_inst b R) (foldl put_val st (put_alloc A b))"
proof -
  have "represents A (put_inst b R) (st(instance_key_of A (instance_uuid b) \<mapsto> enc_assignment A b,
    slot_key_of A (map_slot b) \<mapsto> enc_assignment A b))"
    using rep
  proof (rule represents_put_inst)
    show "map_slot c = map_slot b" if "rg_insts R (instance_uuid b) = Some c" for c
      using that inst b by simp
    show "map_slot c \<noteq> map_slot b" if "rg_insts R u = Some c" "u \<noteq> instance_uuid b" for u c
      using slots_okD [OF registry_okD(2) [OF ok] that(1) inst] that(2) b by auto
  qed
  then show ?thesis by (simp add: put_alloc_def)
qed

lemma represents_new:
  assumes rep: "represents A R st" and "rg_insts R (instance_uuid a) = None" "slot_free R (map_slot a)"
  shows "represents A (put_inst a R) (foldl put_val st (put_alloc A a))"
proof -
  have "represents A (put_inst a R) (st(instance_key_of A (instance_uuid a) \<mapsto> enc_assignment A a,
    slot_key_of A (map_slot a) \<mapsto> enc_assignment A a))"
    using rep by (rule represents_put_inst) (use assms(2,3) in \<open>auto simp: slot_free_def\<close>)
  then show ?thesis by (simp add: put_alloc_def)
qed

lemma represents_put_claim_req:
  assumes "represents A R st" and "valid_claim A c"
  shows "represents A (put_claim c R) (put_val st (put_claim_req A c))"
  using represents_put_claim [OF assms(1) valid_claim_host [OF assms(2)]]
  by (simp add: put_claim_req_def)

lemma represents_put_intent_req:
  assumes "represents A R st"
  shows "represents A (put_intent i R) (put_val st (put_intent_req A i))"
  using represents_put_intent [OF assms] by (simp add: put_intent_req_def)

lemma represents_put_claims:
  assumes "represents A R st" and "list_all (valid_claim A) cs"
  shows "represents A (fold put_claim cs R) (foldl put_val st (map (put_claim_req A) cs))"
  using assms
proof (induction cs arbitrary: R st)
  case (Cons c cs)
  have "represents A (put_claim c R) (put_val st (put_claim_req A c))"
    using Cons.prems by (intro represents_put_claim_req) simp_all
  with Cons show ?case by simp
qed simp

lemma represents_remove:
  assumes ok: "registry_ok A R" and rep: "represents A R st"
    and inst: "rg_insts R (instance_uuid a) = Some a" and c: "claim_for A a c"
  shows "represents A (remove_claim a c R) (foldl put_val st (remove_reqs A a c))"
proof -
  have "represents A (put_inst (without_host a (host_id c)) R)
      (foldl put_val st (put_alloc A (without_host a (host_id c))))"
    using ok rep inst by (rule represents_replace) simp_all
  from represents_drop_claim [OF this valid_claim_host [OF claim_for_D(2) [OF c]]]
  show ?thesis by (simp add: remove_claim_def remove_reqs_def)
qed

lemma effect_represents:
  assumes A: "allocator_ok A" and ok: "registry_ok A R" and rep: "represents A R st"
    and act: "action_ok A act" and en: "enabled R act"
  shows "represents A (effect A act R) (foldl put_val st (action_requests A act))"
proof (cases act)
  case (Allocate a)
  with en show ?thesis by (simp add: represents_new [OF rep])
next
  case (ClaimInsert a c)
  have c: "valid_claim A c" using act ClaimInsert by (simp add: claim_for_def)
  have "represents A (put_inst (with_host a (host_id c)) R)
      (foldl put_val st (put_alloc A (with_host a (host_id c))))"
    using ok rep by (rule represents_replace [where a = a]) (use en ClaimInsert in simp_all)
  from represents_put_claim_req [OF this c] show ?thesis by (simp add: ClaimInsert)
next
  case (ClaimReplace a c c')
  have "valid_claim A c'" using act ClaimReplace by (simp add: claim_for_def)
  from represents_put_claim_req [OF rep this] show ?thesis by (simp add: ClaimReplace)
next
  case (ClaimMove a c c')
  have "valid_claim A c'" using act ClaimMove by (simp add: claim_for_def)
  from represents_put_claim_req [OF rep this] show ?thesis by (simp add: ClaimMove)
next
  case (Fence a c p)
  have c: "claim_for A a c" and inst: "rg_insts R (instance_uuid a) = Some a"
    using act en Fence by simp_all
  let ?raw = "enc_fence A p (materialization_id c)"
  let ?F = "(rg_fences R)((host_id c, instance_uuid c) \<mapsto> ?raw)"
  have f: "represents A (R\<lparr>rg_fences := ?F\<rparr>)
      (st(fence_key_of A (host_id c) (instance_uuid c) \<mapsto> ?raw))"
    using rep valid_claim_host [OF claim_for_D(2) [OF c]] by (rule represents_put_fence)
  have ok': "registry_ok A (R\<lparr>rg_fences := ?F\<rparr>)"
  proof -
    have "registry_ok A (effect A act R)" using A ok act en by (rule effect_ok)
    then have "fences_ok A (R\<lparr>rg_fences := ?F\<rparr>)"
      by (simp add: Fence registry_ok_def fences_ok_def)
    with ok show ?thesis
      by (simp add: registry_ok_def insts_ok_def slots_ok_def intents_ok_def claims_ok_def hosts_ok_def)
  qed
  have eq: "remove_claim a c (R\<lparr>rg_fences := ?F\<rparr>) = effect A act R"
    by (simp add: Fence remove_claim_def drop_claim_def put_inst_def)
  have inst': "rg_insts (R\<lparr>rg_fences := ?F\<rparr>) (instance_uuid a) = Some a" using inst by simp
  from represents_remove [OF ok' f inst' c] show ?thesis
    unfolding eq by (simp add: Fence)
next
  case (Abandon a c)
  with act en show ?thesis by (simp add: represents_remove [OF ok rep])
next
  case (Retire a c)
  with act en show ?thesis by (simp add: represents_remove [OF ok rep])
next
  case (RequestRelease a i)
  with represents_put_intent_req [OF rep] show ?thesis by simp
next
  case (ReleaseGeneration a i)
  with en represents_release [OF rep _ registry_okD(2) [OF ok]] show ?thesis by simp
next
  case (RestoreAbsent a cs i)
  have "represents A (put_inst a R) (foldl put_val st (put_alloc A a))"
    using rep by (rule represents_new) (use en RestoreAbsent in simp_all)
  then have "represents A ((case i of None \<Rightarrow> id | Some x \<Rightarrow> put_intent x) (put_inst a R))
      (foldl put_val st (put_alloc A a @ (case i of None \<Rightarrow> [] | Some x \<Rightarrow> [put_intent_req A x])))"
    using represents_put_intent_req by (auto split: option.splits)
  moreover have "list_all (valid_claim A) cs"
    using act RestoreAbsent by (simp add: list_all_iff)
  ultimately show ?thesis
    using represents_put_claims by (fastforce simp: RestoreAbsent)
next
  case (RestoreIntent a cs i)
  with represents_put_intent_req [OF rep] show ?thesis by simp
qed

end
