(* ===== verification/Allocator_Safety.thy ===== *)
theory Allocator_Safety
  imports Registry_Refinement
begin

text \<open>
  What the allocator may write, and that it writes nothing else. A permitted transaction is
  the guarded transaction of an action, a read, a change of the audit control records or the
  creation of the configuration; every permitted transaction keeps the store a
  representation of a registry reachable by actions. The locale \<open>fleet_gateway\<close> is the
  contract of a gateway, shared by any number of allocators and with any faults, and its
  lemmas show that each operation issues permitted transactions only.
\<close>

section \<open>Reachable registries\<close>

inductive registry_step :: "'b allocator \<Rightarrow> 'b registry \<Rightarrow> 'b registry \<Rightarrow> bool" for A where
  act: "action_ok A act \<Longrightarrow> enabled R act \<Longrightarrow> registry_step A R (effect A act R)"

inductive_simps registry_step_iff: "registry_step A R S"

definition reaches :: "'b allocator \<Rightarrow> 'b registry \<Rightarrow> 'b registry \<Rightarrow> bool" where
  "reaches A R S \<longleftrightarrow> (registry_step A)\<^sup>*\<^sup>* R S"

lemma registry_step_ok:
  "registry_step A R S \<Longrightarrow> allocator_ok A \<Longrightarrow> registry_ok A R \<Longrightarrow> registry_ok A S"
  by (auto simp: registry_step_iff effect_ok)

lemma reaches_ok:
  assumes "allocator_ok A" and "reaches A R S" and "registry_ok A R"
  shows "registry_ok A S"
  using assms(2,3) unfolding reaches_def
  by (induction rule: rtranclp_induct) (auto intro: registry_step_ok [OF _ assms(1)])

lemma reaches_refl [simp]: "reaches A R R"
  by (simp add: reaches_def)

lemma reaches_step: "reaches A R S \<Longrightarrow> registry_step A S T \<Longrightarrow> reaches A R T"
  by (simp add: reaches_def)

lemma reaches_trans: "reaches A R S \<Longrightarrow> reaches A S T \<Longrightarrow> reaches A R T"
  by (simp add: reaches_def)

section \<open>Permitted transactions\<close>

definition is_guard :: "'b allocator \<Rightarrow> 'b compare list \<Rightarrow> bool" where
  "is_guard A g \<longleftrightarrow> (\<exists>raw l. guard_compares_for A (Some raw) (Some l) = Inr g)"

definition action_txn :: "'b allocator \<Rightarrow> 'b compare list \<Rightarrow> action \<Rightarrow> 'b txn" where
  "action_txn A g act = cas_txn g (action_compares A act) (action_requests A act)"

fun is_read :: "'b request \<Rightarrow> bool" where
  "is_read (ReqRange k) = True"
| "is_read (ReqCount a b) = True"
| "is_read _ = False"

text \<open>
  A write of one of the two audit control records, which lie outside the namespace. Both
  transactions compare the absence of a failure record.
\<close>

fun is_control :: "'b allocator \<Rightarrow> 'b request \<Rightarrow> bool" where
  "is_control A (ReqPut k v l) = (k \<in> {audit_coordinator_key A, audit_failure_key A})"
| "is_control A r = is_read r"

definition control_txn :: "'b allocator \<Rightarrow> 'b txn \<Rightarrow> bool" where
  "control_txn A t \<longleftrightarrow>
     (\<exists>raw. t = failure_txn A raw) \<or>
     (\<exists>cmps raw l. t = coordinator_txn A cmps (ReqPut (audit_coordinator_key A) raw l))"

definition read_only :: "'b txn \<Rightarrow> bool" where
  "read_only t \<longleftrightarrow> list_all is_read (t_success t) \<and> list_all is_read (t_failure t)"

definition permitted :: "'b allocator \<Rightarrow> 'b txn \<Rightarrow> bool" where
  "permitted A t \<longleftrightarrow>
     (\<exists>g act. is_guard A g \<and> action_ok A act \<and> t = action_txn A g act) \<or>
     read_only t \<or> control_txn A t \<or> t = create_config_txn A"

definition represented :: "'b allocator \<Rightarrow> 'b registry \<Rightarrow> (string \<Rightarrow> 'b option) \<Rightarrow> bool" where
  "represented A R0 st \<longleftrightarrow> (\<exists>R. reaches A R0 R \<and> represents A R st)"

definition unleased :: "'b allocator \<Rightarrow> 'b kv \<Rightarrow> bool" where
  "unleased A kv \<longleftrightarrow> (\<forall>k. in_namespace A k \<longrightarrow> key_lease kv k = 0)"

definition store_ok :: "'b allocator \<Rightarrow> 'b registry \<Rightarrow> 'b kv \<Rightarrow> bool" where
  "store_ok A R0 kv \<longleftrightarrow> distinct (map fst kv) \<and> unleased A kv \<and> represented A R0 (val kv)"

lemma foldl_put_outside:
  assumes "list_all (is_control A) rs" and "in_namespace A k"
  shows "foldl put_val st rs k = st k"
  using assms(1)
proof (induction rs arbitrary: st)
  case (Cons r rs)
  have "put_val st r k = st k"
    using Cons.prems assms(2) by (cases r) (auto)
  with Cons show ?case by simp
qed simp

lemma is_read_control: "list_all is_read rs \<Longrightarrow> list_all (is_control A) rs"
  by (rule list.pred_mono_strong, assumption) (metis is_control.simps is_read.elims(2))

lemma control_txn_requests:
  assumes "read_only t \<or> control_txn A t"
  shows "list_all (is_control A) (t_success t)" and "list_all (is_control A) (t_failure t)"
  using assms
  by (auto simp: read_only_def control_txn_def failure_txn_def coordinator_txn_def is_read_control)

lemma txn_holds_values: "txn_holds kv t \<Longrightarrow> list_all (holds (val kv)) (t_compare t)"
  unfolding txn_holds_def by (auto simp: list_all_iff match_compare_holds)

text \<open>A permitted transaction is a step of the abstract registry, or none.\<close>

lemma action_txn_effect:
  assumes A: "allocator_ok A" and ok: "registry_ok A R" and rep: "represents A R (val kv)"
    and act: "action_ok A act" and t: "t = action_txn A g act" and h: "txn_holds kv t"
  shows "enabled R act" and "represents A (effect A act R) (val (txn_store kv t))"
proof -
  have "list_all (holds (val kv)) (action_compares A act)"
    using txn_holds_values [OF h] by (simp add: t action_txn_def cas_txn_def)
  then show en: "enabled R act" by (simp add: action_enabled_iff [OF A ok rep act])
  show "represents A (effect A act R) (val (txn_store kv t))"
    using effect_represents [OF A ok rep act en] h
    by (simp add: val_txn_store t action_txn_def cas_txn_def)
qed

lemma permitted_step:
  assumes A: "allocator_ok A" and ok: "registry_ok A R" and rep: "represents A R (val kv)"
    and t: "permitted A t"
  shows "represents A R (val (txn_store kv t)) \<or>
    (\<exists>S. registry_step A R S \<and> represents A S (val (txn_store kv t)))"
proof -
  consider g act where "action_ok A act" "t = action_txn A g act"
    | "read_only t \<or> control_txn A t" | "t = create_config_txn A"
    using t unfolding permitted_def by blast
  then show ?thesis
  proof cases
    case 1
    show ?thesis
    proof (cases "txn_holds kv t")
      case True
      from action_txn_effect [OF A ok rep 1 True] show ?thesis
        using registry_step.act [OF 1(1)] by blast
    next
      case False
      with rep show ?thesis by (simp add: val_txn_store 1 action_txn_def cas_txn_def)
    qed
  next
    case 2
    have "val (txn_store kv t) k = val kv k" if "in_namespace A k" for k
      using foldl_put_outside [OF control_txn_requests(1) [OF 2] that]
        foldl_put_outside [OF control_txn_requests(2) [OF 2] that]
      by (simp add: val_txn_store)
    with represents_outside [OF rep] show ?thesis by blast
  next
    case 3
    have "val kv (configuration_key A) \<noteq> None" using rep by (simp add: representsD(1))
    then have "\<not> txn_holds kv t" by (simp add: txn_holds_def 3 create_config_txn_def)
    with rep show ?thesis by (simp add: val_txn_store 3 create_config_txn_def)
  qed
qed

lemma represented_permitted:
  assumes A: "allocator_ok A" and R0: "registry_ok A R0" and rep: "represented A R0 (val kv)"
    and t: "permitted A t"
  shows "represented A R0 (val (txn_store kv t))"
proof -
  obtain R where R: "reaches A R0 R" "represents A R (val kv)"
    using rep by (auto simp: represented_def)
  from permitted_step [OF A reaches_ok [OF A R(1) R0] R(2) t] R(1) show ?thesis
    unfolding represented_def by (blast intro: reaches_step)
qed

subsection \<open>A published failure is sticky\<close>

lemma run_requests_Cons:
  "fst (run_requests kv (r # rs)) = fst (run_requests (fst (run_request kv r)) rs)"
  by (simp split: prod.splits)

lemma run_requests_read: "list_all is_read rs \<Longrightarrow> fst (run_requests kv rs) = kv"
proof (induction rs)
  case (Cons r rs)
  then have "fst (run_request kv r) = kv" by (cases r) simp_all
  with Cons show ?case unfolding run_requests_Cons by simp
qed simp

lemma guard_absent: "is_guard A g \<Longrightarrow> CmpAbsent (audit_failure_key A) \<in> set g"
  by (auto simp: is_guard_def guard_compares_for_def split: if_splits)

lemma frozen_txn:
  assumes t: "permitted A t" and f: "val kv (audit_failure_key A) \<noteq> None"
    and c: "val kv (configuration_key A) \<noteq> None"
  shows "txn_store kv t = kv"
proof -
  have no: "\<not> txn_holds kv t" if "CmpAbsent k \<in> set (t_compare t)" "val kv k \<noteq> None" for k
    using that by (force simp: txn_holds_def list_all_iff)
  have fails: "txn_store kv t = kv" if "\<not> txn_holds kv t" "list_all is_read (t_failure t)"
    using that by (simp add: txn_store_def run_txn_def run_requests_read)
  consider g act where "is_guard A g" "t = action_txn A g act" | "read_only t"
    | "control_txn A t" | "t = create_config_txn A"
    using t unfolding permitted_def by blast
  then show ?thesis
  proof cases
    case 1
    then have "\<not> txn_holds kv t"
      using no [OF _ f] guard_absent by (auto simp: action_txn_def cas_txn_def)
    then show ?thesis by (rule fails) (simp add: 1 action_txn_def cas_txn_def)
  next
    case 2
    then show ?thesis by (simp add: txn_store_def run_txn_def read_only_def run_requests_read)
  next
    case 3
    then have "\<not> txn_holds kv t" "list_all is_read (t_failure t)"
      using no [OF _ f] by (auto simp: control_txn_def failure_txn_def coordinator_txn_def)
    then show ?thesis by (rule fails)
  next
    case 4
    then have "\<not> txn_holds kv t" using no [OF _ c] by (simp add: create_config_txn_def)
    then show ?thesis by (rule fails) (simp add: 4 create_config_txn_def)
  qed
qed

subsection \<open>Keys and leases of the store\<close>

fun unleased_put :: "'b allocator \<Rightarrow> 'b request \<Rightarrow> bool" where
  "unleased_put A (ReqPut k v l) \<longleftrightarrow> (in_namespace A k \<longrightarrow> l = None)"
| "unleased_put A _ \<longleftrightarrow> True"

lemma distinct_run_request: "distinct (map fst kv) \<Longrightarrow> distinct (map fst (fst (run_request kv r)))"
  by (cases r) (simp_all add: distinct_update distinct_delete)

lemma unleased_run_request:
  "unleased A kv \<Longrightarrow> unleased_put A r \<Longrightarrow> unleased A (fst (run_request kv r))"
  by (cases r) (auto simp: unleased_def key_lease_def update_conv delete_conv split: option.splits if_splits)

lemma run_requests_keys:
  "distinct (map fst kv) \<Longrightarrow> unleased A kv \<Longrightarrow> list_all (unleased_put A) rs \<Longrightarrow>
   distinct (map fst (fst (run_requests kv rs))) \<and> unleased A (fst (run_requests kv rs))"
proof (induction rs arbitrary: kv)
  case (Cons r rs)
  then show ?case
    unfolding run_requests_Cons by (simp add: distinct_run_request unleased_run_request)
qed simp

lemma control_unleased: "list_all (is_control A) rs \<Longrightarrow> list_all (unleased_put A) rs"
proof (rule list.pred_mono_strong, assumption)
  fix r
  assume "is_control A r"
  then show "unleased_put A r" by (cases r) auto
qed

lemma action_requests_unleased: "list_all (unleased_put A) (action_requests A act)"
  by (cases act) (auto simp: put_alloc_def put_claim_req_def put_intent_req_def remove_reqs_def
      list_all_iff split: option.splits)

lemma permitted_unleased:
  assumes "permitted A t"
  shows "list_all (unleased_put A) (t_success t)" and "list_all (unleased_put A) (t_failure t)"
  using assms control_txn_requests [THEN control_unleased]
  by (auto simp: permitted_def action_txn_def cas_txn_def create_config_txn_def
      action_requests_unleased)

lemma store_ok_permitted:
  assumes A: "allocator_ok A" and R0: "registry_ok A R0" and st: "store_ok A R0 kv"
    and t: "permitted A t"
  shows "store_ok A R0 (txn_store kv t)"
proof -
  have "distinct (map fst (txn_store kv t)) \<and> unleased A (txn_store kv t)"
    using run_requests_keys [of kv A] st permitted_unleased [OF t]
    by (simp add: txn_store_def run_txn_def store_ok_def)
  with represented_permitted [OF A R0 _ t] st show ?thesis by (simp add: store_ok_def)
qed

lemma map_of_expire:
  assumes "distinct (map fst kv)"
  shows "map_of (expire_lease kv l) k =
    (case map_of kv k of Some (v, l') \<Rightarrow> if l' = l then None else Some (v, l') | None \<Rightarrow> None)"
  using assms unfolding expire_lease_def
proof (induction kv)
  case (Cons e kv)
  have "map_of (filter (\<lambda>(k, v, l'). l' \<noteq> l) kv) (fst e) = None" and "map_of kv (fst e) = None"
    using Cons.prems by (auto simp: map_of_eq_None_iff)
  with Cons show ?case by (cases e) auto
qed simp

lemma store_ok_expire:
  assumes st: "store_ok A R0 kv" and l: "l \<noteq> 0"
  shows "store_ok A R0 (expire_lease kv l)"
proof -
  have d: "distinct (map fst kv)" and u: "unleased A kv" and r: "represented A R0 (val kv)"
    using st by (simp_all add: store_ok_def)
  have m: "map_of (expire_lease kv l) k = map_of kv k" if "in_namespace A k" for k
    using u that l by (auto simp: map_of_expire [OF d] unleased_def key_lease_def split: option.splits)
  have "represented A R0 (val (expire_lease kv l))"
    using r represents_outside [where st = "val kv"] m by (auto simp: represented_def val_def)
  moreover have "unleased A (expire_lease kv l)"
    using u m by (simp add: unleased_def key_lease_def)
  moreover have "distinct (map fst (expire_lease kv l))"
    using d by (simp add: expire_lease_def distinct_map_filter)
  ultimately show ?thesis by (simp add: store_ok_def)
qed

section \<open>Stable properties of a store\<close>

text \<open>A property is stable when neither a permitted transaction nor an expired lease ends it.\<close>

definition stable :: "'b allocator \<Rightarrow> ('b kv \<Rightarrow> bool) \<Rightarrow> bool" where
  "stable A P \<longleftrightarrow>
     (\<forall>kv t. permitted A t \<longrightarrow> P kv \<longrightarrow> P (txn_store kv t)) \<and>
     (\<forall>kv l. 0 < l \<longrightarrow> P kv \<longrightarrow> P (expire_lease kv l))"

lemma stableD:
  assumes "stable A P"
  shows "permitted A t \<Longrightarrow> P kv \<Longrightarrow> P (txn_store kv t)" and "0 < l \<Longrightarrow> P kv \<Longrightarrow> P (expire_lease kv l)"
  using assms unfolding stable_def by blast+

lemma stable_store_ok: "allocator_ok A \<Longrightarrow> registry_ok A R0 \<Longrightarrow> stable A (store_ok A R0)"
  by (simp add: stable_def store_ok_permitted store_ok_expire)

text \<open>A store with a published failure: its namespace is as it was when the failure appeared.\<close>

definition frozen :: "'b allocator \<Rightarrow> 'b kv \<Rightarrow> 'b kv \<Rightarrow> bool" where
  "frozen A kv0 kv \<longleftrightarrow>
     distinct (map fst kv) \<and> unleased A kv \<and> key_lease kv (audit_failure_key A) = 0 \<and>
     val kv (audit_failure_key A) \<noteq> None \<and> val kv (configuration_key A) \<noteq> None \<and>
     (\<forall>k. in_namespace A k \<or> k = audit_failure_key A \<longrightarrow> val kv k = val kv0 k)"

lemma expire_unleased:
  assumes "distinct (map fst kv)" and "key_lease kv k = 0" and "l \<noteq> 0"
  shows "map_of (expire_lease kv l) k = map_of kv k"
  unfolding map_of_expire [OF assms(1)]
  using assms(2,3) by (simp add: key_lease_def split: option.splits prod.splits)

lemma stable_frozen: "stable A (frozen A kv0)"
  unfolding stable_def
proof (intro conjI allI impI)
  fix kv t
  assume "permitted A t" and f: "frozen A kv0 kv"
  then have "txn_store kv t = kv" by (intro frozen_txn) (auto simp: frozen_def)
  with f show "frozen A kv0 (txn_store kv t)" by simp
next
  fix kv and l :: int
  assume l: "0 < l" and f: "frozen A kv0 kv"
  have m: "map_of (expire_lease kv l) k = map_of kv k"
    if "in_namespace A k \<or> k = audit_failure_key A" for k
    using f l that by (intro expire_unleased) (auto simp: frozen_def unleased_def)
  have v: "val (expire_lease kv l) k = val kv k" "key_lease (expire_lease kv l) k = key_lease kv k"
    if "in_namespace A k \<or> k = audit_failure_key A" for k
    using m [OF that] by (simp_all add: val_def key_lease_def)
  have "distinct (map fst (expire_lease kv l))"
    using f by (simp add: frozen_def expire_lease_def distinct_map_filter)
  moreover have "unleased A (expire_lease kv l)" using f v by (simp add: frozen_def unleased_def)
  moreover have "val (expire_lease kv l) (audit_failure_key A) = val kv (audit_failure_key A)"
    "val (expire_lease kv l) (configuration_key A) = val kv (configuration_key A)"
    "key_lease (expire_lease kv l) (audit_failure_key A) = key_lease kv (audit_failure_key A)"
    by (rule v; simp)+
  moreover have "val kv (audit_failure_key A) \<noteq> None" "val kv (configuration_key A) \<noteq> None"
    "key_lease kv (audit_failure_key A) = 0"
    using f unfolding frozen_def by blast+
  moreover have "\<forall>k. in_namespace A k \<or> k = audit_failure_key A \<longrightarrow>
      val (expire_lease kv l) k = val kv0 k"
    using f v by (simp add: frozen_def)
  ultimately show "frozen A kv0 (expire_lease kv l)" unfolding frozen_def by metis
qed

end
