(* ===== verification/Fleet_Gateway.thy ===== *)
theory Fleet_Gateway
  imports Allocator_Safety
begin

text \<open>
  The contract of a gateway that a fleet of allocators shares, and what follows from it for
  the layers below the operations: every call, the authentication and transaction retries,
  the audit control reads and the coordinated audit keep the invariant of the world.
\<close>

section \<open>Rules for the judgement\<close>

text \<open>
  The rules follow the shape of the programs: what a checked value is known to satisfy goes
  with it, everything else is only kept.
\<close>

lemma ensures_bnd_lift [ensures_intros]:
  "(\<And>a. r = Inr a \<Longrightarrow> ensures J (f a) Q) \<Longrightarrow> ensures J (bnd (lift r) f) Q"
  by (cases r) (auto simp: ensures_raise)

lemma ensures_bnd_get [ensures_intros]:
  "(\<And>c. J c \<Longrightarrow> ensures J (f c) Q) \<Longrightarrow> ensures J (bnd get_state f) Q"
  by (rule ensures_bnd [where P = J]) (auto intro: ensures_get_state)

lemma ensures_bnd_modify [ensures_intros]:
  "(\<And>c. J c \<Longrightarrow> J (g c)) \<Longrightarrow> ensures J (f ()) Q \<Longrightarrow> ensures J (bnd (modify g) f) Q"
  by (rule ensures_bnd [where P = "\<lambda>_. True"]) (auto intro: ensures_modify)

lemma ensures_list [ensures_intros]:
  "(x = [] \<Longrightarrow> ensures J m Q) \<Longrightarrow> (\<And>y ys. x = y # ys \<Longrightarrow> ensures J (f y ys) Q) \<Longrightarrow>
   ensures J (case x of [] \<Rightarrow> m | y # ys \<Rightarrow> f y ys) Q"
  by (cases x) auto

lemma ensures_case_bool [ensures_intros]:
  "(b \<Longrightarrow> ensures J m Q) \<Longrightarrow> (\<not> b \<Longrightarrow> ensures J n Q) \<Longrightarrow>
   ensures J (case b of True \<Rightarrow> m | False \<Rightarrow> n) Q"
  by (cases b) auto

lemma ensures_prod_applied [ensures_intros]:
  "(\<And>a b. x = (a, b) \<Longrightarrow> ensures J (f a b c) Q) \<Longrightarrow> ensures J ((case x of (a, b) \<Rightarrow> f a b) c) Q"
  by (cases x) auto

named_theorems keeps_intros \<open>programs that keep the invariant\<close>

lemma ensures_keep:
  assumes "ensures J m (\<lambda>_. True)" and "\<And>a. ensures J (f a) Q"
  shows "ensures J (bnd m f) Q"
  using assms by (intro ensures_bnd [where P = "\<lambda>_. True"]) auto

lemma ensures_handle_keep [keeps_intros]:
  assumes "ensures J m (\<lambda>_. True)" and "\<And>e. p e \<Longrightarrow> ensures J (h e) (\<lambda>_. True)"
  shows "ensures J (handle p m h) (\<lambda>_. True)"
  using assms by (rule ensures_handle)

definition keeps :: "('w \<Rightarrow> bool) \<Rightarrow> ('w \<Rightarrow> 'a \<times> 'w) \<Rightarrow> bool" where
  "keeps J m \<longleftrightarrow> (\<forall>w a w'. J w \<longrightarrow> m w = (a, w') \<longrightarrow> J w')"

lemma keeps_ensures: "keeps J m = ensures J m (\<lambda>_. True)"
  by (auto simp: keeps_def ensures_def)

lemma keepsD: "keeps J m \<Longrightarrow> J w \<Longrightarrow> m w = (a, w') \<Longrightarrow> J w'"
  by (simp add: keeps_def)

lemma guard_for_is_guard:
  assumes "guard_compares_for A raw lease = Inr g"
  shows "is_guard A g"
proof (cases raw)
  case None
  with assms show ?thesis by (simp add: guard_compares_for_def)
next
  case (Some r)
  show ?thesis
  proof (cases lease)
    case None
    with Some assms show ?thesis by (simp add: guard_compares_for_def)
  next
    fix l
    assume "lease = Some l"
    with Some assms show ?thesis unfolding is_guard_def by blast
  qed
qed

section \<open>The contract\<close>

locale fleet_gateway =
  fixes A :: "'b allocator" and G :: "('s, 'b) gateway" and I :: "'s \<Rightarrow> bool"
  assumes allocator: "I s \<Longrightarrow> allocator_ok A"
    and txn_keeps: "permitted A t \<Longrightarrow> keeps I (g_txn G t)"
    and get_keeps: "keeps I (g_get G k)"
    and prefix_keeps: "keeps I (g_prefix G k)"
    and lease_keeps: "keeps I (g_lease G ttl)"
    and refresh_keeps: "keeps I (g_refresh G l)"
    and revoke_keeps: "keeps I (g_revoke G l)"
    and authenticate_keeps: "keeps I (g_authenticate G user password)"
    and password_keeps: "keeps I (g_password G)"
    and now_keeps: "keeps I (g_now G)"
    and text_keeps: "keeps I (g_text G)"
    and uuid_keeps: "keeps I (g_uuid4 G)"
    and uuid_canonical: "I s \<Longrightarrow> canonical_uuid (fst (g_uuid4 G s))"
begin

definition J :: "('s, 'b) client \<Rightarrow> bool" where
  "J c \<longleftrightarrow> I (cl_world c)"

lemma J_update [simp]:
  "J (cl_initialized_update f c) = J c" "J (cl_checked_at_update f1 c) = J c"
  "J (cl_latch_update f c) = J c" "J (cl_lease_update f2 c) = J c"
  "J (cl_health_raw_update f3 c) = J c" "J (cl_health_lease_update f4 c) = J c"
  "J (cl_authenticated_update f c) = J c" "J (cl_auth_generation_update f5 c) = J c"
  by (simp_all add: J_def)

lemma ensures_allocator: "(allocator_ok A \<Longrightarrow> ensures J m Q) \<Longrightarrow> ensures J m Q"
  by (auto simp: ensures_def J_def dest: allocator)

lemma keeps_on_world: "keeps I f \<Longrightarrow> keeps J (on_world f)"
  by (auto simp: keeps_def on_world_def J_def split: prod.splits)

lemma fetch_keeps [keeps_intros]: "keeps I f \<Longrightarrow> ensures J (fetch f) (\<lambda>_. True)"
  by (auto simp: keeps_def ensures_def fetch_def on_world_def J_def split: prod.splits)

lemma fetch_bnd:
  "keeps I f \<Longrightarrow> (\<And>a. ensures J (h a) Q) \<Longrightarrow> ensures J (bnd (fetch f) h) Q"
  by (rule ensures_keep) (rule fetch_keeps)

lemma fetch_uuid: "ensures J (fetch (g_uuid4 G)) canonical_uuid"
  using uuid_keeps uuid_canonical
  by (fastforce simp: keeps_def ensures_def fetch_def on_world_def J_def split: prod.splits)

lemma fetch_uuid_bnd [keeps_intros]:
  "(\<And>u. canonical_uuid u \<Longrightarrow> ensures J (h u) Q) \<Longrightarrow> ensures J (bnd (fetch (g_uuid4 G)) h) Q"
  by (rule ensures_bnd [OF fetch_uuid])

subsection \<open>Authentication and calls\<close>

lemma authenticate_locked_keeps [keeps_intros]: "ensures J (authenticate_locked A G) (\<lambda>_. True)"
  unfolding authenticate_locked_def
  by (intro ensures_intros fetch_bnd password_keeps authenticate_keeps)
    (auto intro!: ensures_intros split: exn_class.splits json.splits)

lemma ensure_authenticated_keeps [keeps_intros]: "ensures J (ensure_authenticated A G) (\<lambda>_. True)"
  unfolding ensure_authenticated_def
  by (intro ensures_intros ensures_keep [OF authenticate_locked_keeps]) simp_all

lemma refresh_authentication_keeps [keeps_intros]: "ensures J (refresh_authentication A G g) (\<lambda>_. True)"
  unfolding refresh_authentication_def
  by (intro ensures_intros authenticate_locked_keeps) simp_all

lemma checked_call_keeps: "keeps J m \<Longrightarrow> keeps J (checked_call L dict m)"
  unfolding keeps_def checked_call_def
  by (auto split: prod.splits sum.splits option.splits bool.splits simp: Let_def)

lemma call_with_auth_retry_keeps:
  assumes "keeps J m"
  shows "keeps J (call_with_auth_retry A G dict m)"
proof -
  note cc = keepsD [OF checked_call_keeps [OF assms]]
    and ea = keepsD [OF ensure_authenticated_keeps [folded keeps_ensures]]
    and ra = keepsD [OF refresh_authentication_keeps [folded keeps_ensures]]
  show ?thesis
    unfolding keeps_def
  proof (intro allI impI)
    fix c r c'
    assume "J c" and run: "call_with_auth_retry A G dict m c = (r, c')"
    obtain g c1 where 1: "ensure_authenticated A G c = (g, c1)" by (cases "ensure_authenticated A G c")
    have J1: "J c1" using \<open>J c\<close> 1 by (rule ea)
    obtain r2 c2 where 2: "checked_call (al_lib A) dict m c1 = (r2, c2)"
      by (cases "checked_call (al_lib A) dict m c1")
    have J2: "J c2" using J1 2 by (rule cc)
    show "J c'"
    proof (cases g)
      case (Inl e)
      with run 1 J1 show ?thesis by (simp add: call_with_auth_retry_def)
    next
      case (Inr generation)
      note g = Inr
      show ?thesis
      proof (cases r2)
        case (Inr v)
        with run 1 2 g J2 show ?thesis by (simp add: call_with_auth_retry_def)
      next
        case (Inl x)
        note r2 = this
        show ?thesis
        proof (cases "generation = None \<or> is_invalid_auth_token (al_lib A) x \<noteq> Inr True")
          case True
          with run 1 2 g r2 J2 show ?thesis
            by (auto simp: call_with_auth_retry_def split: sum.splits option.splits bool.splits)
        next
          case False
          then obtain n where n: "generation = Some n" "is_invalid_auth_token (al_lib A) x = Inr True"
            by auto
          obtain r3 c3 where 3: "refresh_authentication A G n c2 = (r3, c3)"
            by (cases "refresh_authentication A G n c2")
          have J3: "J c3" using J2 3 by (rule ra)
          from run 1 2 g r2 n 3 J3 show ?thesis
            by (cases r3) (auto simp: call_with_auth_retry_def dest: cc)
        qed
      qed
    qed
  qed
qed

lemma guarded_call_keeps [keeps_intros]:
  assumes "keeps I f"
  shows "ensures J (guarded_call A G f) (\<lambda>_. True)"
proof -
  have k: "J c \<Longrightarrow> call_with_auth_retry A G (\<lambda>_. None) (on_world f) c = (r, c') \<Longrightarrow> J c'" for c r c'
    by (rule keepsD [OF call_with_auth_retry_keeps [OF keeps_on_world [OF assms]]])
  show ?thesis
    by (auto simp: ensures_def guarded_call_def split: prod.splits sum.splits dest: k)
qed

lemma get_raw_keeps [keeps_intros]: "ensures J (get_raw A G k) (\<lambda>_. True)"
  unfolding get_raw_def
  by (intro ensures_keep [OF guarded_call_keeps [OF get_keeps]]) (intro ensures_intros, simp_all)

lemma get_prefix_raw_keeps [keeps_intros]: "ensures J (get_prefix_raw A G k) (\<lambda>_. True)"
  unfolding get_prefix_raw_def
  by (intro ensures_keep [OF guarded_call_keeps [OF prefix_keeps]]) (intro ensures_intros, simp_all)

subsection \<open>Transactions\<close>

lemma transient_calls_keeps: "permitted A t \<Longrightarrow> ensures J (transient_calls A G t n) (\<lambda>_. True)"
proof (induction n)
  case 0
  have "keeps J (call_with_auth_retry A G reply_dict (on_world (g_txn G t)))"
    using 0 by (intro call_with_auth_retry_keeps keeps_on_world txn_keeps)
  then show ?case
    by (auto simp: ensures_def keeps_def split: prod.splits sum.splits)
next
  case (Suc n)
  have "keeps J (call_with_auth_retry A G reply_dict (on_world (g_txn G t)))"
    using Suc.prems by (intro call_with_auth_retry_keeps keeps_on_world txn_keeps)
  then have k: "J c \<Longrightarrow> call_with_auth_retry A G reply_dict (on_world (g_txn G t)) c = (r, c') \<Longrightarrow> J c'"
    for c r c' by (rule keepsD)
  show ?case
    using Suc.IH [OF Suc.prems]
    by (auto simp: ensures_def split: prod.splits sum.splits if_splits dest: k)
qed

lemma transaction_response_keeps [keeps_intros]:
  assumes "permitted A t"
  shows "ensures J (transaction_response A G t) (\<lambda>_. True)"
  unfolding transaction_response_def
  by (intro ensures_keep [OF transient_calls_keeps [OF assms]] ensures_intros
      ensures_keep [OF refresh_authentication_keeps]) simp_all

lemma transaction_keeps [keeps_intros]: "permitted A t \<Longrightarrow> ensures J (transaction A G t) (\<lambda>_. True)"
  unfolding transaction_def
  by (intro ensures_keep [OF transaction_response_keeps] ensures_intros) simp_all

lemma permitted_read: "list_all is_read (t_success t) \<Longrightarrow> list_all is_read (t_failure t) \<Longrightarrow> permitted A t"
  by (simp add: permitted_def read_only_def)

lemma permitted_failure: "permitted A (failure_txn A raw)"
  by (auto simp: permitted_def control_txn_def)

lemma permitted_coordinator:
  "permitted A (coordinator_txn A cmps (ReqPut (audit_coordinator_key A) raw l))"
  by (auto simp: permitted_def control_txn_def)

lemma guard_compares_guard: "ensures J (guard_compares A) (is_guard A)"
  unfolding guard_compares_def
  by (intro ensures_bnd_get ensures_lift) (rule guard_for_is_guard)

subsection \<open>Audit control and exact reads\<close>

lemma read_audit_control_keeps [keeps_intros]: "ensures J (read_audit_control A G) (\<lambda>_. True)"
  unfolding read_audit_control_def
  by (intro ensures_keep [OF transaction_response_keeps] ensures_intros permitted_read)
    (simp_all add: audit_control_txn_def)

lemma latch_if_failed_keeps [keeps_intros]: "ensures J (latch_if_failed A failure) (\<lambda>_. True)"
  unfolding latch_if_failed_def latch_fleet_failure_def by (intro ensures_intros) simp_all

lemma adopt_healthy_keeps [keeps_intros]: "ensures J (adopt_healthy A e) (\<lambda>_. True)"
  unfolding adopt_healthy_def by (intro ensures_intros) simp_all

lemma refresh_fleet_read_guard_keeps [keeps_intros]: "ensures J (refresh_fleet_read_guard A G expected) (\<lambda>_. True)"
  unfolding refresh_fleet_read_guard_def
  by (intro ensures_keep [OF read_audit_control_keeps] ensures_intros
      ensures_keep [OF latch_if_failed_keeps] ensures_keep [OF adopt_healthy_keeps]) simp_all

lemma permitted_read_txn: "permitted A (read_txn A guards keys)"
  by (rule permitted_read) (simp_all add: read_txn_def list_all_iff)

lemma read_exact_attempt_keeps:
  assumes "\<And>m. again = Some m \<Longrightarrow> ensures J m (\<lambda>_. True)"
  shows "ensures J (read_exact_attempt A G keys again) (\<lambda>_. True)"
  unfolding read_exact_attempt_def
  by (intro ensures_intros ensures_keep [OF transaction_response_keeps [OF permitted_read_txn]]
      ensures_keep [OF refresh_fleet_read_guard_keeps]) (simp_all add: assms)

lemma read_exact_keeps [keeps_intros]: "ensures J (read_exact A G keys) (\<lambda>_. True)"
  unfolding read_exact_def
  by (intro ensures_intros read_exact_attempt_keeps) (auto intro: read_exact_attempt_keeps)

end

end
