(* ===== verification/Coordinator_Safety.thy ===== *)
theory Coordinator_Safety
  imports Fleet_Gateway
begin

text \<open>
  The audit, the coordinator and the life cycle of a registry issue permitted transactions
  only, and the exact read of one generation returns records that are valid, canonical and
  of one generation.
\<close>

lemma probe_requests_read: "probe_requests A = Inr rs \<Longrightarrow> list_all is_read rs"
  by (auto simp: probe_requests_def count_range_def rbind_Inr_conv)

lemma put_with_lease_control:
  "put_with_lease (audit_coordinator_key A) raw l = Inr r \<Longrightarrow>
   \<exists>i. r = ReqPut (audit_coordinator_key A) raw i"
  by (auto simp: put_with_lease_def split: option.splits if_splits)

context fleet_gateway
begin

lemma audit_snapshot_keeps [keeps_intros]: "ensures J (audit_snapshot A G) (\<lambda>_. True)"
  unfolding audit_snapshot_def
  by (intro ensures_keep [OF get_prefix_raw_keeps] ensures_intros) simp_all

lemma error_text_keeps [keeps_intros]: "ensures J (error_text G) (\<lambda>_. True)"
  unfolding error_text_def by (intro fetch_bnd text_keeps ensures_intros) simp_all

lemma publish_integrity_failure_keeps [keeps_intros]: "ensures J (publish_integrity_failure A G) (\<lambda>_. True)"
  unfolding publish_integrity_failure_def
  by (intro ensures_keep [OF error_text_keeps] ensures_keep [OF transaction_response_keeps]
      permitted_failure ensures_intros) simp_all

lemma latch_and_publish_keeps [keeps_intros]: "ensures J (latch_and_publish A G) (\<lambda>_. True)"
  unfolding latch_and_publish_def
  by (intro ensures_bnd_modify ensures_keep ensures_handle_keep publish_integrity_failure_keeps
      ensures_intros) simp_all

lemma audit_with_latch_keeps [keeps_intros]: "ensures J (audit_with_latch A G) (\<lambda>_. True)"
  unfolding audit_with_latch_def
  by (intro ensures_handle_keep audit_snapshot_keeps latch_and_publish_keeps)

lemma probe_guards_keeps:
  "ensures J (if guarded then guard_compares A else ret [compare_config A]) (\<lambda>_. True)"
  by (auto intro: ensures_ret ensures_True [OF guard_compares_guard])

lemma probe_snapshot_keeps [keeps_intros]: "ensures J (probe_snapshot A G guarded) (\<lambda>_. True)"
  unfolding probe_snapshot_def
  by (intro ensures_keep [OF probe_guards_keeps] ensures_bnd_lift
      ensures_keep [OF transaction_response_keeps] permitted_read ensures_intros)
    (simp_all add: probe_txn_def probe_requests_read)

subsection \<open>The coordinated audit\<close>

lemma revoke_audit_lease_keeps [keeps_intros]: "ensures J (revoke_audit_lease A G l) (\<lambda>_. True)"
  unfolding revoke_audit_lease_def
  by (intro ensures_handle_keep guarded_call_keeps revoke_keeps ensures_intros) simp_all

lemma grant_audit_lease_keeps [keeps_intros]: "ensures J (grant_audit_lease A G) (\<lambda>_. True)"
  unfolding grant_audit_lease_def by (intro guarded_call_keeps lease_keeps)

lemma refresh_audit_lease_keeps [keeps_intros]: "ensures J (refresh_audit_lease A G l) (\<lambda>_. True)"
  unfolding refresh_audit_lease_def
  by (intro ensures_keep [OF guarded_call_keeps [OF refresh_keeps]] ensures_intros) simp_all

lemma replace_audit_coordinator_keeps [keeps_intros]:
  "ensures J (replace_audit_coordinator A G expected el desired l) (\<lambda>_. True)"
  unfolding replace_audit_coordinator_def
proof (intro ensures_bnd_lift transaction_keeps)
  fix cmps put
  assume "put_with_lease (audit_coordinator_key A) desired l = Inr put"
  from put_with_lease_control [OF this] show "permitted A (coordinator_txn A cmps put)"
    using permitted_coordinator by blast
qed

lemma no_health_keeps [keeps_intros]: "ensures J no_health (\<lambda>_. True)"
  unfolding no_health_def by (intro ensures_modify) simp_all

lemma begin_coordinated_audit_keeps [keeps_intros]:
  "ensures J (begin_coordinated_audit A G) (\<lambda>_. True)"
  unfolding begin_coordinated_audit_def
  by (intro ensures_intros keeps_intros ensures_keep) simp_all

lemma demote_coordinator_keeps [keeps_intros]:
  "ensures J (demote_coordinator A G raw e) (\<lambda>_. True)"
  unfolding demote_coordinator_def
  by (intro ensures_intros keeps_intros ensures_keep) simp_all

lemma run_coordinated_audit_keeps [keeps_intros]:
  "ensures J (run_coordinated_audit A G full) (\<lambda>_. True)"
  unfolding run_coordinated_audit_def raise_if_integrity_latched_def
  by (intro ensures_intros keeps_intros ensures_keep) simp_all

lemma ensure_fleet_healthy_keeps [keeps_intros]: "ensures J (ensure_fleet_healthy A G) (\<lambda>_. True)"
  unfolding ensure_fleet_healthy_def
  by (intro ensures_intros keeps_intros ensures_keep) simp_all

subsection \<open>Life cycle\<close>

lemma permitted_create [keeps_intros]: "permitted A (create_config_txn A)"
  by (simp add: permitted_def)

lemma create_configuration_keeps [keeps_intros]: "ensures J (create_configuration A G) (\<lambda>_. True)"
  unfolding create_configuration_def
  by (intro ensures_intros keeps_intros ensures_keep) simp_all

lemma initialize_keeps [keeps_intros]: "ensures J (initialize A G) (\<lambda>_. True)"
  unfolding initialize_def
  by (intro ensures_intros keeps_intros ensures_keep) simp_all

lemma raise_if_integrity_latched_keeps [keeps_intros]: "ensures J raise_if_integrity_latched (\<lambda>_. True)"
  unfolding raise_if_integrity_latched_def by (intro ensures_bnd_get ensures_intros) simp_all

lemma bootstrap_keeps [keeps_intros]: "ensures J (bootstrap A G) (\<lambda>_. True)"
  unfolding bootstrap_def
  by (intro ensures_intros keeps_intros ensures_keep) simp_all

lemma ensure_initialized_keeps [keeps_intros]: "ensures J (ensure_initialized A G) (\<lambda>_. True)"
  unfolding ensure_initialized_def
  by (intro ensures_intros keeps_intros ensures_keep) (simp_all add: now_keeps)

lemma probe_keeps [keeps_intros]: "ensures J (probe A G) (\<lambda>_. True)"
  unfolding probe_def
  by (intro ensures_keep [OF ensure_initialized_keeps] probe_snapshot_keeps)

lemma listings_keep:
  "ensures J (list_release_intent_candidates A G) (\<lambda>_. True)"
  "ensures J (list_release_intents_for_instances A G us) (\<lambda>_. True)"
  "ensures J (list_host_claims A G h) (\<lambda>_. True)"
  "ensures J (get_fence_proof A G u h) (\<lambda>_. True)"
  unfolding list_release_intent_candidates_def list_release_intents_for_instances_def
    list_host_claims_def get_fence_proof_def
  by (intro ensures_intros keeps_intros ensures_keep, simp_all)+

end

end
