(* ===== verification/Operations_Safety.thy ===== *)
theory Operations_Safety
  imports Coordinator_Safety
begin

text \<open>
  The operations of the allocator issue permitted transactions only: the exact read returns
  records that are valid and canonical, and the comparisons and requests an operation builds
  from them are those of an action.
\<close>

section \<open>What an exact read returns\<close>

definition held_ok :: "'b allocator \<Rightarrow> string \<Rightarrow> 'b held \<Rightarrow> bool" where
  "held_ok A u s \<longleftrightarrow>
     valid_assignment A (h_current s) \<and> instance_uuid (h_current s) = u \<and>
     h_raw s = enc_assignment A (h_current s) \<and>
     (\<forall>i raw. h_intent s = Some (i, raw) \<longrightarrow>
        valid_intent A i \<and> raw = enc_intent A i \<and> same_generation (h_current s) i) \<and>
     map fst (h_claims s) = host_ids (h_current s) \<and>
     (\<forall>h c raw. (h, c, raw) \<in> set (h_claims s) \<longrightarrow>
        claim_for A (h_current s) c \<and> raw = enc_claim A c \<and> host_id c = h)"

lemma read_claim_Inr:
  assumes A: "allocator_ok A" and a: "valid_assignment A a" and r: "read_claim A snap a u h = Inr x"
  shows "fst x = h \<and> claim_for A a (fst (snd x)) \<and> snd (snd x) = enc_claim A (fst (snd x)) \<and>
    host_id (fst (snd x)) = h"
proof -
  obtain raw c where "snap (host_claim_key_of A h u) = Some raw" and x: "x = (h, c, raw)"
    and p: "parse_host_claim A raw (Some h) (Some u) = Inr c" and g: "same_generation c a"
    using r by (auto simp: read_claim_def rbind_Inr_conv split: option.splits if_splits)
  from parse_host_claim_Inr [OF A p] g a x show ?thesis by (simp add: claim_for_def)
qed

lemma read_intent_Inr:
  assumes A: "allocator_ok A" and r: "read_intent A snap a u = Inr (Some (i, raw))"
  shows "valid_intent A i \<and> raw = enc_intent A i \<and> same_generation a i"
proof -
  from r have p: "parse_release_intent A raw (Some u) = Inr i" and g: "same_generation a i"
    by (auto simp: read_intent_def rbind_Inr_conv split: option.splits if_splits)
  from parse_release_intent_Inr [OF A p] g show ?thesis by simp
qed

lemma held_of_ok:
  assumes A: "allocator_ok A" and p: "parse_assignment A raw (Some u) None = Inr a"
    and h: "held_of A snap a raw u = Inr s"
  shows "held_ok A u s"
proof -
  note pa = parse_assignment_Inr [OF A p]
  obtain claims intent where cs: "map_result (read_claim A snap a u) (host_ids a) = Inr claims"
    and i: "read_intent A snap a u = Inr intent"
    and s: "s = \<lparr>h_current = a, h_raw = raw, h_intent = intent, h_claims = claims\<rparr>"
    using h by (auto simp: held_of_def rbind_Inr_conv)
  have all: "list_all2 (\<lambda>h x. read_claim A snap a u h = Inr x) (host_ids a) claims"
    using map_result_list_all2 [OF cs] .
  have each: "fst (claims ! n) = host_ids a ! n \<and> claim_for A a (fst (snd (claims ! n))) \<and>
      snd (snd (claims ! n)) = enc_claim A (fst (snd (claims ! n))) \<and>
      host_id (fst (snd (claims ! n))) = host_ids a ! n" if "n < length claims" for n
    using read_claim_Inr [OF A pa(1)] list_all2_nthD2 [OF all that] by blast
  have fsts: "map fst claims = host_ids a"
    using each list_all2_lengthD [OF all] by (intro nth_equalityI) simp_all
  have "claim_for A a c \<and> r = enc_claim A c \<and> host_id c = h" if mem: "(h, c, r) \<in> set claims" for h c r
  proof -
    obtain n where "n < length claims" "claims ! n = (h, c, r)"
      using mem unfolding in_set_conv_nth by blast
    with each [of n] show ?thesis by simp
  qed
  with pa fsts i s read_intent_Inr [OF A] show ?thesis by (auto simp: held_ok_def)
qed

lemma held_ok_claim:
  assumes "held_ok A u s" and "map_of (h_claims s) h = Some (c, old)"
  shows "claim_for A (h_current s) c" "old = enc_claim A c" "host_id c = h"
    "h \<in> set (host_ids (h_current s))" "instance_uuid c = u" "instance_uuid (h_current s) = u"
proof -
  have m: "(h, c, old) \<in> set (h_claims s)" using assms(2) by (rule map_of_SomeD)
  with assms(1) show "claim_for A (h_current s) c" "old = enc_claim A c" "host_id c = h"
    unfolding held_ok_def by blast+
  then show "instance_uuid c = u" using assms(1) by (auto simp: claim_for_def held_ok_def same_generation_def)
  have "h \<in> fst ` set (h_claims s)" using m by force
  then show "h \<in> set (host_ids (h_current s))"
    using assms(1) unfolding held_ok_def by (metis list.set_map)
  show "instance_uuid (h_current s) = u" using assms(1) by (simp add: held_ok_def)
qed

lemma held_ok_no_claim:
  assumes "held_ok A u s" and "map_of (h_claims s) h = None"
  shows "h \<notin> set (host_ids (h_current s))"
  using assms by (metis held_ok_def list.set_map map_of_eq_None_iff)

lemma held_ok_pair:
  assumes "held_ok A u s"
  shows "cmp_pair A s = cmp_alloc A (h_current s)"
  using assms by (simp add: cmp_pair_def cmp_alloc_def held_ok_def)

section \<open>What an operation writes\<close>

lemma permitted_action:
  assumes "is_guard A g" and "action_ok A act"
    and "cmps = action_compares A act" and "puts = action_requests A act"
  shows "permitted A (cas_txn g cmps puts)"
  using assms unfolding permitted_def action_txn_def by blast

text \<open>The claim that an operation writes for a new materialization.\<close>

definition new_claim :: "assignment \<Rightarrow> string \<Rightarrow> string \<Rightarrow> host_claim" where
  "new_claim a h m =
     \<lparr>instance_uuid = instance_uuid a, map_base = map_base a, map_size = map_size a,
      map_slot = map_slot a, allocation_id = allocation_id a, fingerprint = fingerprint a,
      host_id = h, materialization_id = m, state = Unmaterialized, proof_of = None\<rparr>"

lemma new_claim_simps [simp]:
  "instance_uuid (new_claim a h m) = instance_uuid a" "host_id (new_claim a h m) = h"
  "materialization_id (new_claim a h m) = m" "state (new_claim a h m) = Unmaterialized"
  "proof_of (new_claim a h m) = None" "same_generation (new_claim a h m) a"
  by (simp_all add: new_claim_def same_generation_def)

lemma host_claim_raw_Inr:
  "host_claim_raw A g h m st p = Inr raw \<longleftrightarrow>
     (st = Cleaned) = (p \<noteq> None) \<and> canonical_uuid h \<and> canonical_uuid (instance_uuid g) \<and>
     canonical_uuid m \<and> raw = json_bytes (al_lib A) (JObj (claim_fields g h m st p))"
  by (auto simp: host_claim_raw_def rbind_Inr_conv)

lemma new_claim_for:
  assumes "valid_assignment A a" and "host_claim_raw A a h m Unmaterialized None = Inr raw"
  shows "claim_for A a (new_claim a h m)" and "raw = enc_claim A (new_claim a h m)"
  using assms
  by (auto simp: host_claim_raw_Inr claim_for_def valid_claim_def valid_assignment_def
      valid_generation_def slot_base_def new_claim_def same_generation_def enc_claim_def claim_fields_def)

lemma swap_raw:
  "host_claim_raw A c (host_id c) (materialization_id c) (state c) (proof_of c) = Inr raw \<Longrightarrow>
   raw = enc_claim A c"
  by (simp add: host_claim_raw_Inr enc_claim_def)

lemma assignment_raw_Inr:
  assumes "valid_assignment A a"
    and "assignment_raw A (instance_uuid a) (map_slot a) (allocation_id a) (host_ids a) = Inr raw"
  shows "raw = enc_assignment A a"
  using assignment_raw_enc [OF assms(1)] assms(2) by simp

text \<open>A move of a valid claim gives a valid claim.\<close>

lemma claim_update_frames [simp]:
  "same_generation (c\<lparr>state := st\<rparr>) g = same_generation c g"
  "same_generation (c\<lparr>proof_of := p\<rparr>) g = same_generation c g"
  "valid_generation A (c\<lparr>state := st\<rparr>) = valid_generation A c"
  "valid_generation A (c\<lparr>proof_of := p\<rparr>) = valid_generation A c"
  "proof_binds (c\<lparr>state := st\<rparr>) b = proof_binds c b"
  "proof_binds (c\<lparr>proof_of := p\<rparr>) b = proof_binds c b"
  by (simp_all add: same_generation_def valid_generation_def proof_binds_def)

lemma claim_move_for:
  assumes c: "claim_for A a c" and m: "claim_move c c'"
    and p: "\<And>p. proof_of c' = Some p \<Longrightarrow> proof_of c \<noteq> Some p \<Longrightarrow>
      validate_cleanup_proof (al_lib A) p = Inr () \<and> proof_binds c (proof_common p)"
  shows "claim_for A a c'"
proof -
  from m consider "state c = Unmaterialized" "c' = c\<lparr>state := Possible\<rparr>"
    | "state c = Possible" "c' = c\<lparr>state := Committed\<rparr>"
    | q where "state c \<noteq> Cleaned" "c' = c\<lparr>state := Cleaned, proof_of := Some q\<rparr>"
    unfolding claim_move_def
    by (metis claim_state.distinct required_state.elims)
  then show ?thesis
  proof cases
    case 3
    have "proof_of c = None" using c 3(1) by (simp add: claim_for_def valid_claim_def)
    with 3 c p [of q] show ?thesis by (simp add: claim_for_def valid_claim_def)
  qed (use c in \<open>simp_all add: claim_for_def valid_claim_def\<close>)
qed

section \<open>Every operation keeps the invariant\<close>

context fleet_gateway
begin

lemma read_state_attempt_held:
  "ensures J (read_state_attempt A G u) (\<lambda>r. \<forall>a. r = Some a \<longrightarrow> (\<forall>s. a = Some s \<longrightarrow> held_ok A u s))"
proof (rule ensures_allocator)
  assume A: "allocator_ok A"
  show ?thesis
    unfolding read_state_attempt_def
    by (intro ensures_keep [OF read_exact_keeps] ensures_intros) (auto intro: held_of_ok [OF A])
qed

lemma read_assignment_state_held:
  "ensures J (read_assignment_state A G u) (\<lambda>r. \<forall>s. r = Some s \<longrightarrow> held_ok A u s)"
  unfolding read_assignment_state_def
  by (intro ensures_bnd_lift ensures_retry read_state_attempt_held ensures_raise)

lemma read_bnd [keeps_intros]:
  "(\<And>r. (\<And>s. r = Some s \<Longrightarrow> held_ok A u s) \<Longrightarrow> ensures J (f r) Q) \<Longrightarrow>
   ensures J (bnd (read_assignment_state A G u) f) Q"
  by (rule ensures_bnd [OF read_assignment_state_held]) simp

lemma read_assignment_state_keeps [keeps_intros]:
  "ensures J (read_assignment_state A G u) (\<lambda>_. True)"
  by (rule ensures_True [OF read_assignment_state_held])

lemma ensures_retry_keep [keeps_intros]:
  "ensures J body (\<lambda>_. True) \<Longrightarrow> ensures J final (\<lambda>_. True) \<Longrightarrow> ensures J (retry n body final) (\<lambda>_. True)"
  by (rule ensures_retry) simp_all

lemma readers_keep [keeps_intros]:
  "ensures J (get_assignment A G u) (\<lambda>_. True)"
  "ensures J (get_allocatable_assignment A G u) (\<lambda>_. True)"
  "ensures J (get_allocation A G u) (\<lambda>_. True)"
  "ensures J (get_release_intent A G u) (\<lambda>_. True)"
  "ensures J (get_host_claim A G u h) (\<lambda>_. True)"
  "ensures J (reread A G u p) (\<lambda>_. True)"
  "ensures J (reread_or_fail A G u p) (\<lambda>_. True)"
  unfolding get_assignment_def get_allocatable_assignment_def get_allocation_def
    get_release_intent_def get_host_claim_def reread_def reread_or_fail_def
  by (intro ensures_intros keeps_intros ensures_keep, simp_all)+

lemma cas_keeps:
  assumes "\<And>g. is_guard A g \<Longrightarrow> permitted A (cas_txn g cmps puts)"
    and "ensures J recover (\<lambda>_. True)" and "ensures J verify (\<lambda>_. True)"
  shows "ensures J (cas A G cmps puts recover verify) (\<lambda>_. True)"
  unfolding cas_def
  by (rule ensures_bnd [OF guard_compares_guard], intro ensures_keep ensures_handle_keep
      transaction_keeps assms ensures_option ensures_ret ensures_raise ensures_sum ensures_if) simp_all

lemma cas_action_keeps:
  assumes "action_ok A act" and "cmps = action_compares A act" and "puts = action_requests A act"
    and "ensures J recover (\<lambda>_. True)" and "ensures J verify (\<lambda>_. True)"
  shows "ensures J (cas A G cmps puts recover verify) (\<lambda>_. True)"
  using assms by (intro cas_keeps permitted_action)

end

end
