(* ===== verification/Claim_Safety.thy ===== *)
theory Claim_Safety
  imports Operations_Safety
begin

text \<open>
  Operation by operation: what each transaction of the allocator is an action of, and the
  consequence that every operation keeps the invariant of the world.
\<close>

section \<open>Allocation\<close>

definition new_assignment :: "'b allocator \<Rightarrow> string \<Rightarrow> int \<Rightarrow> string \<Rightarrow> assignment" where
  "new_assignment A u slot aid =
     \<lparr>instance_uuid = u, map_base = slot_base A slot, map_size = al_size A, map_slot = slot,
      allocation_id = aid, fingerprint = al_fingerprint A, host_ids = []\<rparr>"

lemma new_assignment_simps [simp]:
  "instance_uuid (new_assignment A u slot aid) = u" "map_slot (new_assignment A u slot aid) = slot"
  "allocation_id (new_assignment A u slot aid) = aid" "host_ids (new_assignment A u slot aid) = []"
  by (simp_all add: new_assignment_def)

lemma slot_key_Inr: "slot_key A s = Inr k \<longleftrightarrow> 0 \<le> s \<and> s < al_count A \<and> k = slot_key_of A s"
  by (auto simp: slot_key_def rbind_Inr_conv)

lemma instance_key_Inr: "instance_key A u = Inr k \<longleftrightarrow> canonical_uuid u \<and> k = instance_key_of A u"
  by (auto simp: instance_key_def rbind_Inr_conv)

lemma new_assignment_valid:
  assumes "canonical_uuid u" "canonical_uuid aid" "0 \<le> slot" "slot < al_count A"
  shows "valid_assignment A (new_assignment A u slot aid)"
  using assms by (simp add: valid_assignment_def valid_generation_def new_assignment_def)

lemma new_assignment_raw:
  "assignment_raw A u slot aid [] = Inr raw \<Longrightarrow> raw = enc_assignment A (new_assignment A u slot aid)"
  by (simp add: assignment_raw_def sorted_unique_def enc_assignment_def)

text \<open>The request list of an attempt to allocate is that of the action.\<close>

lemma allocate_action:
  "allocate_cmps A u slot = action_compares A (Allocate (new_assignment A u slot aid))"
  "[ReqPut (instance_key_of A u) (enc_assignment A (new_assignment A u slot aid)) None,
    ReqPut (slot_key_of A slot) (enc_assignment A (new_assignment A u slot aid)) None] =
   action_requests A (Allocate (new_assignment A u slot aid))"
  by (simp_all add: allocate_cmps_def cmp_no_release_def put_alloc_def)

section \<open>Claims\<close>

lemma claim_insert_action:
  assumes "claim_for A a c" and "host_id c \<notin> set (host_ids a)" and "state c = Unmaterialized"
  shows "action_ok A (ClaimInsert a c)"
  using assms by simp

lemma claim_moves:
  "state c = Unmaterialized \<Longrightarrow> claim_move c (c\<lparr>state := Possible\<rparr>)"
  "state c = Possible \<Longrightarrow> claim_move c (c\<lparr>state := Committed\<rparr>)"
  "state c = required_state p \<Longrightarrow> claim_move c (c\<lparr>state := Cleaned, proof_of := Some p\<rparr>)"
  unfolding claim_move_def by blast+

lemma with_host_init:
  "assignment_post_init (a\<lparr>host_ids := sort (host_ids a @ [h])\<rparr>) = Inr b \<Longrightarrow> b = with_host a h"
  by (simp add: assignment_post_init_Inr with_host_def)

lemma without_host_init: "assignment_post_init (without_host a h) = Inr b \<Longrightarrow> b = without_host a h"
  by (simp add: assignment_post_init_Inr)

lemma put_pair_alloc: "raw = enc_assignment A a \<Longrightarrow> put_pair A a raw = put_alloc A a"
  by (simp add: put_pair_def put_alloc_def)

section \<open>Release\<close>

definition new_intent :: "assignment \<Rightarrow> string \<Rightarrow> release_intent" where
  "new_intent a name =
     \<lparr>instance_uuid = instance_uuid a, map_base = map_base a, map_size = map_size a,
      map_slot = map_slot a, allocation_id = allocation_id a, fingerprint = fingerprint a,
      instance_name = name\<rparr>"

lemma new_intent_raw:
  assumes "valid_assignment A a" and "release_intent_raw A a name = Inr raw"
  shows "valid_intent A (new_intent a name)" and "raw = enc_intent A (new_intent a name)"
    and "same_generation a (new_intent a name)" and "instance_uuid (new_intent a name) = instance_uuid a"
  using assms
  by (auto simp: release_intent_raw_def rbind_Inr_conv valid_intent_def valid_assignment_def
      valid_generation_def slot_base_def new_intent_def enc_intent_def intent_fields_def
      same_generation_def)

section \<open>The operations\<close>

context fleet_gateway
begin

lemma try_allocate_attempt_keeps:
  assumes "canonical_uuid u" "canonical_uuid aid" "0 \<le> slot" "slot < al_count A"
    and "raw = enc_assignment A (new_assignment A u slot aid)"
    and "\<And>m. again = Some m \<Longrightarrow> ensures J m (\<lambda>_. True)"
  shows "ensures J (try_allocate_attempt A G u slot aid raw again) (\<lambda>_. True)"
proof -
  have act: "action_ok A (Allocate (new_assignment A u slot aid))"
    using new_assignment_valid [OF assms(1-4)] by simp
  have t: "ensures J (transaction A G (cas_txn g (allocate_cmps A u slot)
      [ReqPut (instance_key_of A u) raw None, ReqPut (slot_key_of A slot) raw None])) (\<lambda>_. True)"
    if "guard_compares_for A r l = Inr g" for g r l
    using permitted_action [OF guard_for_is_guard [OF that] act allocate_action(1) allocate_action(2)]
    unfolding assms(5) by (rule transaction_keeps)
  show ?thesis
    unfolding try_allocate_attempt_def
    by (intro ensures_intros keeps_intros ensures_keep [OF t] ensures_keep) (simp_all add: assms(6))
qed

lemma try_allocate_keeps [keeps_intros]:
  assumes "canonical_uuid aid"
  shows "ensures J (try_allocate A G u slot aid) (\<lambda>_. True)"
  unfolding try_allocate_def
  by (intro ensures_bnd_lift try_allocate_attempt_keeps)
    (auto simp: slot_key_Inr instance_key_Inr assms new_assignment_raw intro!: try_allocate_attempt_keeps)

lemma slot_owner_keeps [keeps_intros]: "ensures J (slot_owner A G slot) (\<lambda>_. True)"
  unfolding slot_owner_def
  by (intro ensures_intros keeps_intros ensures_keep) simp_all

lemma allocate_slot_keeps [keeps_intros]:
  "canonical_uuid aid \<Longrightarrow> ensures J (allocate_slot A G u p aid slot) (\<lambda>_. True)"
  unfolding allocate_slot_def
  by (intro ensures_intros keeps_intros ensures_keep) simp_all

lemma for_each_keeps [keeps_intros]:
  "(\<And>x. ensures J (body x) (\<lambda>_. True)) \<Longrightarrow> ensures J final (\<lambda>_. True) \<Longrightarrow>
   ensures J (for_each xs body final) (\<lambda>_. True)"
  by (rule ensures_for_each) simp_all

lemma allocate_keeps [keeps_intros]: "ensures J (allocate A G u base sz) (\<lambda>_. True)"
  unfolding allocate_def
  by (intro ensures_intros keeps_intros ensures_keep) simp_all

lemma adopt_keeps [keeps_intros]: "ensures J (adopt A G u base sz) (\<lambda>_. True)"
  unfolding adopt_def by (rule allocate_keeps)

subsection \<open>Claims\<close>

lemma claim_insert_keeps:
  assumes s: "held_ok A u s" and no: "map_of (h_claims s) h = None"
  shows "ensures J (claim_insert A G u h m s) (\<lambda>_. True)"
  unfolding claim_insert_def
proof (intro ensures_bnd_lift)
  fix desired desired_raw raw
  assume d: "assignment_post_init ((h_current s)\<lparr>host_ids := sort (host_ids (h_current s) @ [h])\<rparr>) = Inr desired"
    and dr: "assignment_raw A (instance_uuid desired) (map_slot desired) (allocation_id desired)
      (host_ids desired) = Inr desired_raw"
    and r: "host_claim_raw A (h_current s) h m Unmaterialized None = Inr raw"
  have a: "valid_assignment A (h_current s)" "instance_uuid (h_current s) = u"
    using s by (simp_all add: held_ok_def)
  note c = new_claim_for [OF a(1) r]
  have h: "h \<notin> set (host_ids (h_current s))" using s no by (rule held_ok_no_claim)
  have b: "desired = with_host (h_current s) h" using d by (rule with_host_init)
  have "valid_assignment A desired"
    using a(1) h r unfolding b by (intro valid_with_host) (simp_all add: host_claim_raw_Inr)
  then have dr': "desired_raw = enc_assignment A desired" using dr by (rule assignment_raw_Inr)
  have pp: "put_pair A (with_host (h_current s) h) desired_raw = put_alloc A (with_host (h_current s) h)"
    using put_pair_alloc [OF dr'] unfolding b .
  show "ensures J (cas A G
      (cmp_pair A s @ [CmpAbsent (host_claim_key_of A h u), CmpAbsent (release_key_of A u)])
      (put_pair A desired desired_raw @ [ReqPut (host_claim_key_of A h u) raw None])
      (reread A G u (\<lambda>obs. held_generation obs (h_current s) \<and> claimed_by obs h m))
      (reread_or_fail A G u (\<lambda>obs. held_generation obs (h_current s) \<and> claimed_by obs h m))) (\<lambda>_. True)"
    by (rule cas_action_keeps [where act = "ClaimInsert (h_current s) (new_claim (h_current s) h m)"])
      (simp_all add: c h held_ok_pair [OF s] a(2) cmp_no_release_def pp b
        put_claim_req_def readers_keep)
qed

lemma claim_replace_keeps:
  assumes s: "held_ok A u s" and ex: "map_of (h_claims s) h = Some (c, old)"
    and st: "state c = Cleaned" "materialization_id c \<noteq> m"
  shows "ensures J (claim_replace A G u h m s old) (\<lambda>_. True)"
  unfolding claim_replace_def
proof (intro ensures_bnd_lift)
  fix raw
  assume r: "host_claim_raw A (h_current s) h m Unmaterialized None = Inr raw"
  note hc = held_ok_claim [OF s ex]
  have a: "valid_assignment A (h_current s)" using s by (simp add: held_ok_def)
  note c = new_claim_for [OF a r]
  show "ensures J (cas A G
      (cmp_pair A s @ [CmpValue (host_claim_key_of A h u) old, CmpAbsent (release_key_of A u)])
      [ReqPut (host_claim_key_of A h u) raw None]
      (reread A G u (\<lambda>obs. held_generation obs (h_current s) \<and> claimed_by obs h m \<and>
         observed_state obs h = Some Unmaterialized))
      (reread_or_fail A G u (\<lambda>obs. held_generation obs (h_current s) \<and> claimed_by obs h m \<and>
         observed_state obs h = Some Unmaterialized \<and> observed_proof obs h = None))) (\<lambda>_. True)"
    by (rule cas_action_keeps
        [where act = "ClaimReplace (h_current s) c (new_claim (h_current s) h m)"])
      (simp_all add: c hc st held_ok_pair [OF s] cmp_no_release_def cmp_claim_def
        put_claim_req_def readers_keep)
qed

lemma claim_attempt_keeps: "ensures J (claim_attempt A G u h m expected) (\<lambda>_. True)"
  unfolding claim_attempt_def
  by (intro read_bnd ensures_intros)
    (auto intro: claim_insert_keeps claim_replace_keeps)

lemma claim_keeps: "ensures J (claim A G u h m expected) (\<lambda>_. True)"
  unfolding claim_def
  by (intro ensures_keep [OF ensure_initialized_keeps] ensures_bnd_lift ensures_retry_keep
      claim_attempt_keeps ensures_raise)

subsection \<open>Moves of a claim\<close>

lemma claim_swap_keeps:
  assumes s: "held_ok A u s" and ex: "map_of (h_claims s) h = Some (c, old)"
    and move: "claim_move c c'" and same: "host_id c' = h" "instance_uuid c' = u"
    and p: "\<And>p. proof_of c' = Some p \<Longrightarrow> proof_of c \<noteq> Some p \<Longrightarrow>
      validate_cleanup_proof (al_lib A) p = Inr () \<and> proof_binds c (proof_common p)"
    and nr: "no_release = (state c' = Possible)"
  shows "ensures J (claim_swap A G s old c' no_release recovered) (\<lambda>_. True)"
  unfolding claim_swap_def Let_def
proof (intro ensures_bnd_lift)
  fix raw
  assume "host_claim_raw A c' (host_id c') (materialization_id c') (state c') (proof_of c') = Inr raw"
  then have raw: "raw = enc_claim A c'" by (rule swap_raw)
  note hc = held_ok_claim [OF s ex]
  have c': "claim_for A (h_current s) c'" using hc(1) move p by (rule claim_move_for)
  have rec: "ensures J (bnd (get_host_claim A G u h) (\<lambda>obs. ret (if recovered obs then obs else None))) (\<lambda>_. True)"
    by (intro ensures_keep readers_keep ensures_ret) simp
  have ver: "ensures J (bnd (get_host_claim A G u h) (\<lambda>obs. if obs = Some c' then ret c' else raise IntegrityError)) (\<lambda>_. True)"
    by (intro ensures_keep readers_keep ensures_if ensures_ret ensures_raise) simp
  show "ensures J (cas A G
      (cmp_pair A s @ [CmpValue (host_claim_key_of A (host_id c') (instance_uuid c')) old]
        @ (if no_release then [CmpAbsent (release_key_of A (instance_uuid c'))] else []))
      [ReqPut (host_claim_key_of A (host_id c') (instance_uuid c')) raw None]
      (bnd (get_host_claim A G (instance_uuid c') (host_id c')) (\<lambda>obs. ret (if recovered obs then obs else None)))
      (bnd (get_host_claim A G (instance_uuid c') (host_id c'))
        (\<lambda>obs. if obs = Some c' then ret c' else raise IntegrityError))) (\<lambda>_. True)"
    unfolding same
    by (rule cas_action_keeps [where act = "ClaimMove (h_current s) c c'"])
      (simp_all add: hc c' move held_ok_pair [OF s] cmp_no_release_def cmp_claim_def
        put_claim_req_def same raw nr rec ver)
qed

lemma mark_possible_attempt_keeps: "ensures J (mark_possible_attempt A G u h m expected) (\<lambda>_. True)"
  unfolding mark_possible_attempt_def
  by (intro read_bnd ensures_intros claim_swap_keeps)
    (auto intro: claim_moves dest: held_ok_claim(3,5))

lemma mark_materialization_possible_keeps:
  "ensures J (mark_materialization_possible A G u h m expected) (\<lambda>_. True)"
  unfolding mark_materialization_possible_def
  by (intro ensures_keep [OF ensure_initialized_keeps] ensures_bnd_lift ensures_retry_keep
      mark_possible_attempt_keeps ensures_raise)

lemma mark_committed_attempt_keeps: "ensures J (mark_committed_attempt A G u h m expected) (\<lambda>_. True)"
  unfolding mark_committed_attempt_def
  by (intro read_bnd ensures_intros claim_swap_keeps)
    (auto intro: claim_moves dest: held_ok_claim(3,5))

lemma mark_materialization_committed_keeps:
  "ensures J (mark_materialization_committed A G u h m expected) (\<lambda>_. True)"
  unfolding mark_materialization_committed_def
  by (intro ensures_keep [OF ensure_initialized_keeps] ensures_bnd_lift ensures_retry_keep
      mark_committed_attempt_keeps ensures_raise)

lemma record_proof_attempt_keeps:
  assumes "validate_cleanup_proof (al_lib A) proof = Inr ()"
  shows "ensures J (record_proof_attempt A G u h m proof expected) (\<lambda>_. True)"
  unfolding record_proof_attempt_def Let_def
  by (intro read_bnd ensures_intros claim_swap_keeps)
    (auto simp: validate_claim_proof_binding_Inr assms intro: claim_moves dest: held_ok_claim(3,5))

lemma record_claim_proof_keeps:
  "validate_cleanup_proof (al_lib A) proof = Inr () \<Longrightarrow>
   ensures J (record_claim_proof A G u h m proof expected) (\<lambda>_. True)"
  unfolding record_claim_proof_def
  by (intro ensures_keep [OF ensure_initialized_keeps] ensures_bnd_lift ensures_retry_keep
      record_proof_attempt_keeps ensures_raise)

lemma record_proofs_keep:
  "ensures J (record_materialization_proof A G u h m p expected) (\<lambda>_. True)"
  "ensures J (record_rootfs_release_proof A G u h m r expected) (\<lambda>_. True)"
  unfolding record_materialization_proof_def record_rootfs_release_proof_def
  by (intro ensures_bnd_lift record_claim_proof_keeps; auto simp: proof_from_receipt_def rbind_Inr_conv)+

end

end
