(* ===== verification/Release_Safety.thy ===== *)
theory Release_Safety
  imports Claim_Safety
begin

text \<open>
  The removal of claims, the release barrier, the release and the restoration of a
  generation keep the invariant of the world.
\<close>

lemma fence_proof_raw_Inr:
  "fence_proof_raw A p t = Inr raw \<Longrightarrow> raw = enc_fence A p t"
  by (auto simp: fence_proof_raw_def enc_fence_def rbind_Inr_conv)

section \<open>What is restored\<close>

text \<open>A validated restoration: a valid allocation with its claims in the order of its hosts.\<close>

lemma preferred_slot_Inr:
  assumes "preferred_slot A base (Some sz) = Inr slot" and "allocator_ok A"
  shows "0 \<le> slot" "slot < al_count A" "base = slot_base A slot" "sz = al_size A"
proof -
  have s: "sz = al_size A" and o: "\<not> (base - al_base A < 0)" "(base - al_base A) mod al_size A = 0"
    and c: "\<not> al_count A \<le> (base - al_base A) div al_size A"
    and slot: "slot = (base - al_base A) div al_size A"
    using assms(1) by (auto simp: preferred_slot_def rbind_Inr_conv Let_def split: if_splits)
  have pos: "0 < al_size A" using assms(2) by (simp add: allocator_ok_def)
  show "0 \<le> slot" using o(1) pos by (simp add: slot pos_imp_zdiv_nonneg_iff)
  show "slot < al_count A" using c slot by simp
  have "(base - al_base A) div al_size A * al_size A = base - al_base A"
    using o(2) by (simp add: dvd_div_mult_self mod_eq_0_iff_dvd)
  then show "base = slot_base A slot" by (simp add: slot_base_def slot)
  show "sz = al_size A" by (rule s)
qed

lemma map_result_units: "map_result f xs = Inr us \<Longrightarrow> x \<in> set xs \<Longrightarrow> \<exists>u. f x = Inr u"
  by (induction xs arbitrary: us) auto

lemma restore_claim_ok_Inr:
  assumes "allocator_ok A" and "restore_claim_ok A a c = Inr u"
  shows "same_generation c a" and "valid_claim A c"
  using assms parse_host_claim_Inr [OF assms(1)]
  by (auto simp: restore_claim_ok_def rbind_Inr_conv intro: same_generation_sym)

lemma validate_restore_Inr:
  assumes A: "allocator_ok A" and v: "validate_restore A u base sz aid fp claims = Inr a"
  shows "valid_assignment A a" and "host_ids a = map host_id claims" and "instance_uuid a = u"
    and "\<forall>c \<in> set claims. valid_claim A c \<and> same_generation c a"
proof -
  from v obtain slot us where u: "canonical_uuid u" and slot: "preferred_slot A base (Some sz) = Inr slot"
    and aid: "uuid_str aid = Inr aid"
    and a: "assignment_post_init \<lparr>instance_uuid = u, map_base = base, map_size = sz, map_slot = slot,
       allocation_id = aid, fingerprint = al_fingerprint A, host_ids = map host_id claims\<rparr> = Inr a"
    and cs: "map_result (restore_claim_ok A a) claims = Inr us"
    by (auto simp: validate_restore_def rbind_Inr_conv as_configuration_error_def)
  note sl = preferred_slot_Inr [OF slot A]
  show "valid_assignment A a" "host_ids a = map host_id claims" "instance_uuid a = u"
    using a u aid sl
    by (auto simp: assignment_post_init_Inr valid_assignment_def valid_generation_def canonical_uuid_def)
  show "\<forall>c \<in> set claims. valid_claim A c \<and> same_generation c a"
    using map_result_units [OF cs] restore_claim_ok_Inr [OF A] by blast
qed

lemma validate_restore_intent_Inr:
  assumes A: "allocator_ok A" and v: "validate_restore_intent A a i = Inr d"
  shows "case d of None \<Rightarrow> i = None
    | Some (x, raw) \<Rightarrow> i = Some x \<and> valid_intent A x \<and> same_generation a x \<and> raw = enc_intent A x"
proof (cases i)
  case None
  with v show ?thesis by (auto simp: validate_restore_intent_def)
next
  case (Some x)
  from v Some obtain raw where g: "same_generation a x"
    and p: "parse_release_intent A raw (Some (instance_uuid a)) = Inr x" and d: "d = Some (x, raw)"
    by (auto simp: validate_restore_intent_def rbind_Inr_conv)
  from parse_release_intent_Inr [OF A p] g d Some show ?thesis by simp
qed

lemma claim_records_Inr:
  assumes "map_result (claim_record A a) cs = Inr rs"
    and "\<forall>c \<in> set cs. same_generation c a"
  shows "rs = map (\<lambda>c. (host_claim_key_of A (host_id c) (instance_uuid c), enc_claim A c)) cs"
  using assms
proof (induction cs arbitrary: rs)
  case (Cons c cs)
  then obtain r rs' where r: "claim_record A a c = Inr r" and rs': "map_result (claim_record A a) cs = Inr rs'"
    and rs: "rs = r # rs'"
    by auto
  have "r = (host_claim_key_of A (host_id c) (instance_uuid c), enc_claim A c)"
    using r Cons.prems(2)
    by (auto simp: claim_record_def rbind_Inr_conv host_claim_key_def same_generation_def dest: swap_raw)
  with Cons rs rs' show ?case by simp
qed simp

context fleet_gateway
begin

section \<open>Removing a claim\<close>

lemma claim_remove_keeps:
  assumes s: "held_ok A u s" and ex: "map_of (h_claims s) h = Some (c, old)"
    and act: "action_ok A (case fence of None \<Rightarrow> (if state c = Cleaned then Retire (h_current s) c
                           else Abandon (h_current s) c) | Some p \<Rightarrow> Fence (h_current s) c p)"
  shows "ensures J (claim_remove A G u h s old fence c) (\<lambda>_. True)"
  unfolding claim_remove_def
proof (intro ensures_bnd_lift)
  fix desired desired_raw ledger
  assume d: "assignment_post_init (without_host (h_current s) h) = Inr desired"
    and dr: "assignment_raw A (instance_uuid desired) (map_slot desired) (allocation_id desired)
      (host_ids desired) = Inr desired_raw"
    and l: "(case fence of None \<Rightarrow> Inr []
             | Some p \<Rightarrow> rbind (fence_proof_raw A p (materialization_id c)) (\<lambda>raw.
                 Inr [ReqPut (fence_key_of A h u) raw None])) = Inr ledger"
  note hc = held_ok_claim [OF s ex]
  have b: "desired = without_host (h_current s) h" using d by (rule without_host_init)
  have "valid_assignment A desired"
    using s unfolding b by (intro valid_without_host) (simp add: held_ok_def)
  then have dr': "desired_raw = enc_assignment A desired" using dr by (rule assignment_raw_Inr)
  have pp: "put_pair A desired desired_raw = put_alloc A (without_host (h_current s) h)"
    using put_pair_alloc [OF dr'] unfolding b .
  have l': "ledger = (case fence of None \<Rightarrow> []
      | Some p \<Rightarrow> [ReqPut (fence_key_of A h u) (enc_fence A p (materialization_id c)) None])"
    using l by (auto split: option.splits simp: rbind_Inr_conv dest: fence_proof_raw_Inr)
  show "ensures J (cas A G (cmp_pair A s @ [CmpValue (host_claim_key_of A h u) old])
      (ledger @ put_pair A desired desired_raw @ [ReqDelete (host_claim_key_of A h u)])
      (reread A G u (claim_gone h)) (reread_or_fail A G u (claim_gone h))) (\<lambda>_. True)"
    by (rule cas_action_keeps [OF act])
      (auto simp: held_ok_pair [OF s] cmp_claim_def hc pp l' remove_reqs_def readers_keep
        split: option.splits)
qed

lemma fence_retire_attempt_keeps:
  assumes "validate_fence_proof p = Inr ()" and "f_host_id p = h" and "f_instance_uuid p = u"
  shows "ensures J (fence_retire_attempt A G u h p expected) (\<lambda>_. True)"
  unfolding fence_retire_attempt_def
proof (intro read_bnd ensures_intros claim_remove_keeps)
  fix r s e c old
  assume "\<And>s. r = Some s \<Longrightarrow> held_ok A u s" and "r = Some s" and "e = (c, old)"
    and "map_of (h_claims s) h = Some e"
    and st: "\<not> (state c = Cleaned \<and> proof_of c \<noteq> None)"
    and aid: "\<not> f_allocation_id p \<noteq> allocation_id (h_current s)"
  then have s: "held_ok A u s" and ex: "map_of (h_claims s) h = Some (c, old)" by blast+
  note hc = held_ok_claim [OF s ex]
  show "held_ok A u s" by (rule s)
  show "map_of (h_claims s) h = Some (c, old)" by (rule ex)
  have "state c \<noteq> Cleaned" using hc(1) st by (simp add: claim_for_def valid_claim_def)
  with hc assms aid show "action_ok A (case Some p of
      None \<Rightarrow> if state c = Cleaned then Retire (h_current s) c else Abandon (h_current s) c
    | Some p \<Rightarrow> Fence (h_current s) c p)" by simp
qed simp_all

lemma fence_retire_claim_keeps: "ensures J (fence_retire_claim A G u h p expected) (\<lambda>_. True)"
  unfolding fence_retire_claim_def
  by (intro ensures_bnd_lift ensures_keep [OF ensure_initialized_keeps] ensures_retry_keep
      fence_retire_attempt_keeps ensures_raise) auto

lemma abandon_attempt_keeps: "ensures J (abandon_attempt A G u h m expected) (\<lambda>_. True)"
  unfolding abandon_attempt_def
  by (intro read_bnd ensures_intros claim_remove_keeps) (auto dest: held_ok_claim)

lemma abandon_unregistered_claim_keeps:
  "ensures J (abandon_unregistered_claim A G u h m expected) (\<lambda>_. True)"
  unfolding abandon_unregistered_claim_def
  by (intro ensures_bnd_lift ensures_keep [OF ensure_initialized_keeps] ensures_retry_keep
      abandon_attempt_keeps ensures_raise)

lemma retire_attempt_keeps: "ensures J (retire_attempt A G u h m expected) (\<lambda>_. True)"
  unfolding retire_attempt_def
  by (intro read_bnd ensures_intros claim_remove_keeps) (auto dest: held_ok_claim)

lemma retire_claim_keeps: "ensures J (retire_claim A G u h m expected) (\<lambda>_. True)"
  unfolding retire_claim_def
  by (intro ensures_bnd_lift ensures_keep [OF ensure_initialized_keeps] ensures_retry_keep
      retire_attempt_keeps ensures_raise)

section \<open>Release\<close>

lemma request_release_attempt_keeps:
  "ensures J (request_release_attempt A G u name expected) (\<lambda>_. True)"
  unfolding request_release_attempt_def
proof (intro read_bnd ensures_option ensures_raise ensures_bnd_lift ensures_if ensures_ret)
  fix r s g raw desired
  assume "\<And>s. r = Some s \<Longrightarrow> held_ok A u s" and "r = Some s"
    and raw: "release_intent_raw A (h_current s) name = Inr raw"
  then have s: "held_ok A u s" by blast
  have a: "valid_assignment A (h_current s)" "instance_uuid (h_current s) = u"
    using s by (simp_all add: held_ok_def)
  note i = new_intent_raw [OF a(1) raw]
  show "ensures J (cas A G (cmp_pair A s @ [CmpAbsent (release_key_of A u)])
      [ReqPut (release_key_of A u) raw None]
      (bnd (read_assignment_state A G u) (\<lambda>obs.
         ret (if observed_intent obs = Some desired then Some desired else None)))
      (bnd (read_assignment_state A G u) (\<lambda>obs.
         if observed_intent obs = Some desired then ret desired else raise IntegrityError))) (\<lambda>_. True)"
    by (rule cas_action_keeps [where act = "RequestRelease (h_current s) (new_intent (h_current s) name)"])
      (use a i held_ok_pair [OF s] in \<open>auto simp: cmp_no_release_def put_intent_req_def
        intro!: ensures_keep readers_keep read_assignment_state_keeps ensures_ret ensures_if ensures_raise\<close>)
qed simp_all

lemma request_release_keeps: "ensures J (request_release A G u name expected) (\<lambda>_. True)"
  unfolding request_release_def
  by (intro ensures_bnd_lift ensures_keep [OF ensure_initialized_keeps] ensures_retry_keep
      request_release_attempt_keeps ensures_raise)

lemma assert_startable_keeps: "ensures J (assert_startable A G u h m expected) (\<lambda>_. True)"
  unfolding assert_startable_def
  by (intro ensures_intros keeps_intros ensures_keep) simp_all

lemma release_swap_keeps:
  assumes s: "held_ok A u s" and i: "h_intent s = Some (i, raw)" and e: "host_ids (h_current s) = []"
  shows "ensures J (release_swap A G u s raw) (\<lambda>_. True)"
proof -
  have a: "valid_assignment A (h_current s)" "valid_intent A i" "raw = enc_intent A i"
    "same_generation (h_current s) i"
    using s i by (auto simp: held_ok_def)
  show ?thesis
    unfolding release_swap_def
    by (rule ensures_keep [OF cas_action_keeps [where act = "ReleaseGeneration (h_current s) i"]])
      (auto simp: a e held_ok_pair [OF s]
        intro!: ensures_option ensures_keep read_assignment_state_keeps ensures_ret ensures_if ensures_raise)
qed

lemma release_keeps: "ensures J (release A G i) (\<lambda>_. True)"
  unfolding release_def
  by (intro ensures_keep [OF ensure_initialized_keeps] read_bnd ensures_intros) (auto intro: release_swap_keeps)

section \<open>Restoration\<close>

lemma restored_keeps: "ensures J (restored A G a i cs) (\<lambda>_. True)"
  unfolding restored_def
  by (intro ensures_keep [OF audit_with_latch_keeps] ensures_prod read_bnd ensures_ret) simp

lemma restore_absent_keeps:
  assumes a: "valid_assignment A a" and cs: "\<forall>c \<in> set cs. valid_claim A c \<and> same_generation c a"
    and h: "host_ids a = map host_id cs" and raw: "raw = enc_assignment A a"
    and rs: "rs = map (\<lambda>c. (host_claim_key_of A (host_id c) (instance_uuid c), enc_claim A c)) cs"
    and d: "case d of None \<Rightarrow> True
      | Some (x, ir) \<Rightarrow> valid_intent A x \<and> same_generation a x \<and> ir = enc_intent A x"
  shows "ensures J (restore_absent A G a raw rs d cs) (\<lambda>_. True)"
proof -
  have i: "instance_uuid (fst x) = instance_uuid a" if "d = Some x" for x
    using d that by (auto simp: same_generation_def split: prod.splits)
  have act: "action_ok A (RestoreAbsent a cs (map_option fst d))"
    using a cs h d by (auto simp: list_all_iff split: option.splits)
  have ver: "ensures J (bnd (restored A G a (map_option fst d) cs) (\<lambda>r.
      case r of None \<Rightarrow> raise IntegrityError | Some v \<Rightarrow> ret v)) (\<lambda>_. True)"
    by (intro ensures_keep [OF restored_keeps] ensures_option ensures_raise ensures_ret) simp
  have reqs: "[ReqPut (instance_key_of A (instance_uuid a)) raw None,
         ReqPut (slot_key_of A (map_slot a)) raw None]
        @ (case d of None \<Rightarrow> []
           | Some (i, intent_raw) \<Rightarrow> [ReqPut (release_key_of A (instance_uuid a)) intent_raw None])
        @ map (\<lambda>(k, r). ReqPut k r None) rs = action_requests A (RestoreAbsent a cs (map_option fst d))"
    using d i by (auto simp: put_alloc_def raw rs put_intent_req_def put_claim_req_def split: option.splits)
  have cmps: "[CmpAbsent (instance_key_of A (instance_uuid a)), CmpAbsent (slot_key_of A (map_slot a)),
         CmpAbsent (release_key_of A (instance_uuid a))] @ map (\<lambda>(k, r). CmpAbsent k) rs =
      action_compares A (RestoreAbsent a cs (map_option fst d))"
    by (simp add: cmp_no_release_def rs)
  show ?thesis
    unfolding restore_absent_def by (rule cas_action_keeps [OF act cmps reqs restored_keeps ver])
qed

lemma restore_intent_swap_keeps:
  assumes a: "valid_assignment A a" and cs: "\<forall>c \<in> set cs. valid_claim A c \<and> same_generation c a"
    and raw: "raw = enc_assignment A a"
    and rs: "rs = map (\<lambda>c. (host_claim_key_of A (host_id c) (instance_uuid c), enc_claim A c)) cs"
    and d: "valid_intent A x" "same_generation a x" "ir = enc_intent A x"
  shows "ensures J (restore_intent_swap A G a raw rs i ir claims) (\<lambda>_. True)"
proof -
  have u: "instance_uuid x = instance_uuid a" using d(2) by (simp add: same_generation_def)
  have act: "action_ok A (RestoreIntent a cs x)" using a cs d by (simp add: list_all_iff)
  have t: "ensures J (transaction A G (cas_txn g
      ([CmpValue (instance_key_of A (instance_uuid a)) raw, CmpValue (slot_key_of A (map_slot a)) raw,
        CmpAbsent (release_key_of A (instance_uuid a))] @ map (\<lambda>(k, r). CmpValue k r) rs)
      [ReqPut (release_key_of A (instance_uuid a)) ir None])) (\<lambda>_. True)" if "is_guard A g" for g
    by (rule transaction_keeps, rule permitted_action [OF that act])
      (simp_all add: cmp_alloc_def cmp_no_release_def raw rs cmp_claim_def put_intent_req_def u d(3))
  show ?thesis
    unfolding restore_intent_swap_def
    by (rule ensures_bnd [OF guard_compares_guard], intro ensures_handle_keep ensures_keep [OF t]
        ensures_keep [OF restored_keeps] ensures_option ensures_ret ensures_raise) simp_all
qed

lemma restore_attempt_keeps:
  assumes a: "valid_assignment A a" and cs: "\<forall>c \<in> set cs. valid_claim A c \<and> same_generation c a"
    and h: "host_ids a = map host_id cs" and raw: "raw = enc_assignment A a"
    and rs: "rs = map (\<lambda>c. (host_claim_key_of A (host_id c) (instance_uuid c), enc_claim A c)) cs"
    and d: "case d of None \<Rightarrow> True
      | Some (x, ir) \<Rightarrow> valid_intent A x \<and> same_generation a x \<and> ir = enc_intent A x"
  shows "ensures J (restore_attempt A G a raw rs d cs) (\<lambda>_. True)"
proof -
  have ex: "ensures J (restore_existing A G a raw rs d cs b i) (\<lambda>_. True)" for b i
    unfolding restore_existing_def
    by (intro read_bnd ensures_intros)
      (use d in \<open>auto intro: restore_intent_swap_keeps [OF a cs raw rs]\<close>)
  show ?thesis
    unfolding restore_attempt_def
    by (intro ensures_keep [OF audit_with_latch_keeps] ensures_prod ensures_option ensures_if
        ensures_raise ex restore_absent_keeps [OF a cs h raw rs d])
qed

lemma restore_keeps: "ensures J (restore A G u base sz aid fp cs i) (\<lambda>_. True)"
  unfolding restore_def
proof (rule ensures_allocator, intro ensures_bnd_lift ensures_keep [OF ensure_initialized_keeps] ensures_retry_keep ensures_raise)
  fix a d raw rs
  assume allocator: "allocator_ok A"
  assume v: "validate_restore A u base sz aid fp cs = Inr a" and vi: "validate_restore_intent A a i = Inr d"
    and r: "assignment_raw A (instance_uuid a) (map_slot a) (allocation_id a) (host_ids a) = Inr raw"
    and rs: "map_result (claim_record A a) cs = Inr rs"
  note va = validate_restore_Inr [OF allocator v]
  have d: "case d of None \<Rightarrow> True
      | Some (x, ir) \<Rightarrow> valid_intent A x \<and> same_generation a x \<and> ir = enc_intent A x"
    using validate_restore_intent_Inr [OF allocator vi] by (auto split: option.splits)
  show "ensures J (restore_attempt A G a raw rs d cs) (\<lambda>_. True)"
    using va(1,4,2) assignment_raw_Inr [OF va(1) r] claim_records_Inr [OF rs] d
    by (intro restore_attempt_keeps) auto
qed

end

end
