(* ===== verification/Fleet.thy ===== *)
theory Fleet
  imports Release_Safety
begin

text \<open>
  A fleet: one allocator's calls, run against the etcd of the unit tests, with the
  transactions of other allocators, lease expiries, failed calls and lost replies between
  and inside its calls as the script says. The gateway contract is discharged here, and the
  consequences for whole runs are drawn.
\<close>

section \<open>The world of a fleet\<close>

definition event_ok :: "'b allocator \<Rightarrow> 'b event \<Rightarrow> bool" where
  "event_ok A e \<longleftrightarrow> list_all (permitted A) (ev_others e) \<and> list_all (\<lambda>l. 0 < l) (ev_expire e)"

text \<open>
  A world whose script holds permitted events only, and whose store satisfies a stable
  property.
\<close>

definition world_inv :: "'b allocator \<Rightarrow> ('b kv \<Rightarrow> bool) \<Rightarrow> 'b world \<Rightarrow> bool" where
  "world_inv A P w \<longleftrightarrow>
     allocator_ok A \<and> stable A P \<and> P (w_kv w) \<and>
     list_all (event_ok A) (w_script w) \<and> list_all canonical_uuid (w_uuids w)"

lemma foldl_txn_stable:
  assumes "stable A P"
  shows "P kv \<Longrightarrow> list_all (permitted A) ts \<Longrightarrow> P (foldl txn_store kv ts)"
  by (induction ts arbitrary: kv) (simp_all add: stableD(1) [OF assms])

lemma foldl_expire_stable:
  assumes "stable A P"
  shows "P kv \<Longrightarrow> list_all (\<lambda>l. 0 < l) ls \<Longrightarrow> P (foldl expire_lease kv ls)"
  by (induction ls arbitrary: kv) (simp_all add: stableD(2) [OF assms])

lemma next_event_ok: "world_inv A P w \<Longrightarrow> event_ok A (next_event w)"
  by (cases "w_script w") (simp_all add: world_inv_def next_event_def quiet_event_def event_ok_def)

lemma begin_call_ok:
  assumes w: "world_inv A P w"
  shows "world_inv A P (snd (begin_call w))"
proof -
  have e: "event_ok A (next_event w)" using w by (rule next_event_ok)
  have P: "stable A P" using w by (simp add: world_inv_def)
  have "list_all (event_ok A) (drop 1 (w_script w))"
    using w by (cases "w_script w") (simp_all add: world_inv_def)
  moreover have "P (foldl expire_lease
      (foldl txn_store (w_kv w) (ev_others (next_event w))) (ev_expire (next_event w)))"
    using w e by (intro foldl_expire_stable [OF P] foldl_txn_stable [OF P])
      (simp_all add: world_inv_def event_ok_def)
  ultimately show ?thesis
    using w by (simp add: begin_call_def Let_def world_inv_def)
qed

lemma faulty_keeps:
  assumes "\<And>w. world_inv A P w \<Longrightarrow> world_inv A P (snd (call w))"
  shows "keeps (world_inv A P) (faulty call lost)"
  unfolding keeps_def
proof (intro allI impI)
  fix w r w'
  assume w: "world_inv A P w" and run: "faulty call lost w = (r, w')"
  obtain f w1 where b: "begin_call w = (f, w1)" by (cases "begin_call w")
  have w1: "world_inv A P w1" using begin_call_ok [OF w] b by simp
  obtain a w2 where c: "call w1 = (a, w2)" by (cases "call w1")
  have w2: "world_inv A P w2" using assms [OF w1] c by simp
  show "world_inv A P w'"
    using run b c w1 w2 by (cases f) (auto simp: faulty_def)
qed

lemma fake_transaction_ok:
  assumes "permitted A t" and "world_inv A P w"
  shows "world_inv A P (snd (fake_transaction t w))"
proof -
  have "snd (fake_transaction t w) = w\<lparr>w_kv := txn_store (w_kv w) t\<rparr>"
    by (simp add: fake_transaction_def txn_store_def split: prod.splits)
  then show ?thesis
    using assms stableD(1) [of A P t "w_kv w"] by (simp add: world_inv_def)
qed

interpretation fake: fleet_gateway A fake_gateway "world_inv A P"
  for A :: "'b allocator" and P :: "'b kv \<Rightarrow> bool"
proof
  show "keeps (world_inv A P) (g_txn fake_gateway t)" if "permitted A t" for t
    unfolding fake_gateway_def by (simp add: faulty_keeps fake_transaction_ok that)
  show "keeps (world_inv A P) (g_get fake_gateway k)" for k
    unfolding fake_gateway_def by (simp add: faulty_keeps fake_get_def)
  show "keeps (world_inv A P) (g_prefix fake_gateway k)" for k
    unfolding fake_gateway_def by (simp add: faulty_keeps fake_prefix_def)
  have "world_inv A P (snd (fake_lease w))" if "world_inv A P w" for w
    using that by (simp add: fake_lease_def world_inv_def)
  then show "keeps (world_inv A P) (g_lease fake_gateway ttl)" for ttl
    unfolding fake_gateway_def by (simp add: faulty_keeps)
  show "keeps (world_inv A P) (g_refresh fake_gateway l)" for l
    unfolding fake_gateway_def by (simp add: faulty_keeps fake_refresh_def)
  have "world_inv A P (snd (fake_revoke l w))" if "world_inv A P w" for l w
    using that by (auto simp: fake_revoke_def world_inv_def stableD(2) split: option.splits)
  then show "keeps (world_inv A P) (g_revoke fake_gateway l)" for l
    unfolding fake_gateway_def by (simp add: faulty_keeps)
  show "keeps (world_inv A P) (g_uuid4 fake_gateway)"
    by (auto simp: keeps_def fake_gateway_def fake_uuid4_def world_inv_def split: list.splits)
  show "canonical_uuid (fst (g_uuid4 fake_gateway s))" if "world_inv A P s" for s
  proof -
    have "canonical_uuid default_uuid" by code_simp
    with that show ?thesis
      by (auto simp: fake_gateway_def fake_uuid4_def world_inv_def split: list.splits)
  qed
qed (auto simp: world_inv_def keeps_def fake_gateway_def)

section \<open>Runs\<close>

datatype call =
    CallInitialize
  | CallBootstrap
  | CallAudit
  | CallProbe
  | CallCoordinatedAudit bool
  | CallListIntents
  | CallListClaims string
  | CallIntentsFor "string list"
  | CallGet string
  | CallHostClaim string string
  | CallIntent string
  | CallFenceProof string string
  | CallAllocate string "int option" "int option"
  | CallAdopt string int "int option"
  | CallClaim string string string "assignment option"
  | CallPossible string string string "assignment option"
  | CallCommitted string string string "assignment option"
  | CallMaterializationProof string string string materialization_proof "assignment option"
  | CallReleaseProof string string string release_receipt "assignment option"
  | CallFence string string fence_proof "assignment option"
  | CallAbandon string string string "assignment option"
  | CallRetire string string string "assignment option"
  | CallRequestRelease string string "assignment option"
  | CallStartable string string string "assignment option"
  | CallRelease release_intent
  | CallRestore string int int string string "host_claim list" "release_intent option"

fun serve :: "'b allocator \<Rightarrow> ('s, 'b) gateway \<Rightarrow> call \<Rightarrow> ('s, 'b) client \<Rightarrow> ('s, 'b) client" where
  "serve A G CallInitialize c = snd (initialize A G c)"
| "serve A G CallBootstrap c = snd (bootstrap A G c)"
| "serve A G CallAudit c = snd (audit A G c)"
| "serve A G CallProbe c = snd (probe A G c)"
| "serve A G (CallCoordinatedAudit full) c = snd (run_coordinated_audit A G full c)"
| "serve A G CallListIntents c = snd (list_release_intent_candidates A G c)"
| "serve A G (CallListClaims h) c = snd (list_host_claims A G h c)"
| "serve A G (CallIntentsFor us) c = snd (list_release_intents_for_instances A G us c)"
| "serve A G (CallGet u) c = snd (get_allocation A G u c)"
| "serve A G (CallHostClaim u h) c = snd (get_host_claim A G u h c)"
| "serve A G (CallIntent u) c = snd (get_release_intent A G u c)"
| "serve A G (CallFenceProof u h) c = snd (get_fence_proof A G u h c)"
| "serve A G (CallAllocate u b s) c = snd (allocate A G u b s c)"
| "serve A G (CallAdopt u b s) c = snd (adopt A G u b s c)"
| "serve A G (CallClaim u h m a) c = snd (claim A G u h m a c)"
| "serve A G (CallPossible u h m a) c = snd (mark_materialization_possible A G u h m a c)"
| "serve A G (CallCommitted u h m a) c = snd (mark_materialization_committed A G u h m a c)"
| "serve A G (CallMaterializationProof u h m p a) c = snd (record_materialization_proof A G u h m p a c)"
| "serve A G (CallReleaseProof u h m r a) c = snd (record_rootfs_release_proof A G u h m r a c)"
| "serve A G (CallFence u h p a) c = snd (fence_retire_claim A G u h p a c)"
| "serve A G (CallAbandon u h m a) c = snd (abandon_unregistered_claim A G u h m a c)"
| "serve A G (CallRetire u h m a) c = snd (retire_claim A G u h m a c)"
| "serve A G (CallRequestRelease u n a) c = snd (request_release A G u n a c)"
| "serve A G (CallStartable u h m a) c = snd (assert_startable A G u h m a c)"
| "serve A G (CallRelease i) c = snd (release A G i c)"
| "serve A G (CallRestore u b s aid fp cs i) c = snd (restore A G u b s aid fp cs i c)"

definition run_calls :: "'b allocator \<Rightarrow> ('s, 'b) gateway \<Rightarrow> call list \<Rightarrow> ('s, 'b) client \<Rightarrow> ('s, 'b) client" where
  "run_calls A G calls c = foldl (\<lambda>c call. serve A G call c) c calls"

context fleet_gateway
begin

lemma ensures_snd: "ensures J m Q \<Longrightarrow> J c \<Longrightarrow> J (snd (m c))"
  by (cases "m c") (auto dest: ensuresD)

lemma audit_keeps: "ensures J (audit A G) (\<lambda>_. True)"
  unfolding audit_def by (intro ensures_keep [OF audit_with_latch_keeps] ensures_prod ensures_ret) simp

lemma serve_keeps: "J c \<Longrightarrow> J (serve A G call c)"
  by (cases call) (simp_all add: ensures_snd [OF initialize_keeps] ensures_snd [OF bootstrap_keeps]
      ensures_snd [OF audit_keeps] ensures_snd [OF probe_keeps] ensures_snd [OF run_coordinated_audit_keeps]
      ensures_snd [OF listings_keep(1)] ensures_snd [OF listings_keep(2)] ensures_snd [OF listings_keep(3)]
      ensures_snd [OF listings_keep(4)] ensures_snd [OF readers_keep(3)] ensures_snd [OF readers_keep(4)]
      ensures_snd [OF readers_keep(5)]
      ensures_snd [OF allocate_keeps] ensures_snd [OF adopt_keeps] ensures_snd [OF claim_keeps]
      ensures_snd [OF mark_materialization_possible_keeps]
      ensures_snd [OF mark_materialization_committed_keeps] ensures_snd [OF record_proofs_keep(1)]
      ensures_snd [OF record_proofs_keep(2)] ensures_snd [OF fence_retire_claim_keeps]
      ensures_snd [OF abandon_unregistered_claim_keeps] ensures_snd [OF retire_claim_keeps]
      ensures_snd [OF request_release_keeps] ensures_snd [OF assert_startable_keeps]
      ensures_snd [OF release_keeps] ensures_snd [OF restore_keeps])

lemma run_calls_keeps: "J c \<Longrightarrow> J (run_calls A G calls c)"
  unfolding run_calls_def by (induction calls arbitrary: c) (simp_all add: serve_keeps)

end

text \<open>A stable property of the store outlasts every run of calls.\<close>

lemma run_calls_stable:
  assumes "world_inv A P (cl_world c)"
  shows "world_inv A P (cl_world (run_calls A fake_gateway calls c))"
  using fake.run_calls_keeps assms unfolding fake.J_def by blast

text \<open>In particular the store goes on representing a reachable registry.\<close>

definition world_ok :: "'b allocator \<Rightarrow> 'b registry \<Rightarrow> 'b world \<Rightarrow> bool" where
  "world_ok A R0 w \<longleftrightarrow>
     allocator_ok A \<and> registry_ok A R0 \<and> store_ok A R0 (w_kv w) \<and>
     list_all (event_ok A) (w_script w) \<and> list_all canonical_uuid (w_uuids w)"

lemma world_ok_inv: "world_ok A R0 w \<longleftrightarrow> registry_ok A R0 \<and> world_inv A (store_ok A R0) w"
  by (auto simp: world_ok_def world_inv_def stable_store_ok)

lemma run_calls_world:
  "world_ok A R0 (cl_world c) \<Longrightarrow> world_ok A R0 (cl_world (run_calls A fake_gateway calls c))"
  by (simp add: world_ok_inv run_calls_stable)

end
