(* ===== verification/Registry_Properties.thy ===== *)
theory Registry_Properties
  imports Fleet
begin

text \<open>
  What the actions allow and forbid, step by step: the claim state machine, the authority to
  remove a claim, the release barrier, the immutability of a generation and the deletion of
  an allocation. The theorems at the end carry each of them over to the records in the store
  and the permitted transactions.
\<close>

section \<open>Steps of the abstract registry\<close>

lemma fold_put_claim_other:
  "(\<forall>c \<in> set cs. k \<noteq> (host_id c, instance_uuid c)) \<Longrightarrow> rg_claims (fold put_claim cs R) k = rg_claims R k"
  by (induction cs arbitrary: R) simp_all

lemma fold_put_claim_mem:
  assumes "rg_claims (fold put_claim cs R) k = Some c" and "rg_claims R k \<noteq> Some c"
  shows "c \<in> set cs" "k = (host_id c, instance_uuid c)"
  using assms map_of_claims_Some [of cs k c]
  by (auto simp: fold_put_claim_lookup split: option.splits)

lemma restore_claims [simp]:
  "rg_claims ((case i of None \<Rightarrow> id | Some x \<Rightarrow> put_intent x) R) = rg_claims R"
  "rg_insts ((case i of None \<Rightarrow> id | Some x \<Rightarrow> put_intent x) R) = rg_insts R"
  "rg_fences ((case i of None \<Rightarrow> id | Some x \<Rightarrow> put_intent x) R) = rg_fences R"
  by (cases i; simp)+

text \<open>The successor of a claim that stays.\<close>

definition claim_next :: "host_claim \<Rightarrow> host_claim \<Rightarrow> bool" where
  "claim_next c c' \<longleftrightarrow>
     c' = c \<or> claim_move c c' \<or>
     (state c = Cleaned \<and> state c' = Unmaterialized \<and> same_generation c c' \<and>
      materialization_id c' \<noteq> materialization_id c)"

lemma claim_for_key:
  "claim_for A a c \<Longrightarrow> (host_id c, instance_uuid c) = (host_id c, instance_uuid a)"
  by (simp add: claim_for_def same_generation_def)

lemma claim_move_same:
  assumes "claim_move c c'"
  shows "host_id c' = host_id c" "materialization_id c' = materialization_id c"
    "instance_uuid c' = instance_uuid c"
  using assms by (auto simp: claim_move_def)

lemma step_claim:
  assumes step: "registry_step A R S" and c: "rg_claims R k = Some c" and c': "rg_claims S k = Some c'"
  shows "claim_next c c'"
proof -
  obtain act where act: "action_ok A act" "enabled R act" and S: "S = effect A act R"
    using step by (auto simp: registry_step_iff)
  show ?thesis
  proof (cases act)
    case (RestoreAbsent a cs i)
    have "rg_claims (put_inst a R) (host_id d, instance_uuid d) = None" if "d \<in> set cs" for d
      using act RestoreAbsent that by (auto simp: list_all_iff same_generation_def)
    with c c' S RestoreAbsent have "c' = c"
      using fold_put_claim_mem [of cs "(case i of None \<Rightarrow> id | Some x \<Rightarrow> put_intent x) (put_inst a R)" k c']
      by (cases "c' = c") auto
    then show ?thesis by (simp add: claim_next_def)
  next
    case (ClaimMove a d d')
    then have "host_id d' = host_id d" using act claim_move_same(1) by simp
    with act S c c' ClaimMove show ?thesis
      by (auto simp: claim_next_def claim_for_def same_generation_def split: if_splits)
  qed (use act S c c' in \<open>auto simp: claim_next_def claim_for_def same_generation_def remove_claim_def
      split: if_splits\<close>)
qed

text \<open>A claim appears unmaterialized and without a release intent, or by restoring its generation.\<close>

lemma step_new_claim:
  assumes step: "registry_step A R S" and c: "rg_claims R (h, u) = None" and c': "rg_claims S (h, u) = Some c'"
  shows "rg_intents R u = None \<and> (state c' = Unmaterialized \<or> rg_insts R u = None)"
proof -
  obtain act where act: "action_ok A act" "enabled R act" and S: "S = effect A act R"
    using step by (auto simp: registry_step_iff)
  show ?thesis
  proof (cases act)
    case (RestoreAbsent a cs i)
    then have "c' \<in> set cs" "(h, u) = (host_id c', instance_uuid c')"
      using fold_put_claim_mem [of cs "(case i of None \<Rightarrow> id | Some x \<Rightarrow> put_intent x) (put_inst a R)" "(h, u)" c']
        c c' S by auto
    with act RestoreAbsent show ?thesis by (auto simp: list_all_iff same_generation_def)
  next
    case (ClaimMove a d d')
    then have "host_id d' = host_id d" using act claim_move_same(1) by simp
    with act S c c' ClaimMove show ?thesis
      by (auto simp: claim_for_def same_generation_def split: if_splits)
  qed (use act S c c' in \<open>auto simp: claim_for_def same_generation_def remove_claim_def
      split: if_splits\<close>)
qed

text \<open>A claim is removed cleaned, or never materialized, or by a fence entry naming its token.\<close>

definition disposed :: "'b allocator \<Rightarrow> 'b registry \<Rightarrow> host_claim \<Rightarrow> bool" where
  "disposed A S c \<longleftrightarrow>
     (state c = Cleaned \<and> proof_of c \<noteq> None) \<or> state c = Unmaterialized \<or>
     (\<exists>p. validate_fence_proof p = Inr () \<and> f_host_id p = host_id c \<and>
          f_allocation_id p = allocation_id c \<and>
          rg_fences S (host_id c, instance_uuid c) = Some (enc_fence A p (materialization_id c)))"

lemma step_gone_claim:
  assumes step: "registry_step A R S" and c: "rg_claims R k = Some c" and gone: "rg_claims S k = None"
  shows "disposed A S c"
proof -
  obtain act where act: "action_ok A act" "enabled R act" and S: "S = effect A act R"
    using step by (auto simp: registry_step_iff)
  show ?thesis
  proof (cases act)
    case (RestoreAbsent a cs i)
    then have False
      using c gone S by (auto simp: fold_put_claim_lookup split: option.splits)
    then show ?thesis ..
  next
    case (Retire a d)
    then have "c = d" "claim_for A a c" "state c = Cleaned"
      using act S c gone by (auto simp: claim_for_def same_generation_def remove_claim_def split: if_splits)
    then show ?thesis by (simp add: disposed_def claim_for_def valid_claim_def)
  next
    case (Fence a d p)
    then have "c = d"
      using act S c gone by (auto simp: claim_for_def same_generation_def remove_claim_def split: if_splits)
    with Fence act S show ?thesis by (auto simp: disposed_def claim_for_def same_generation_def)
  qed (use act S c gone in \<open>auto simp: disposed_def claim_for_def same_generation_def remove_claim_def
      split: if_splits\<close>)
qed

text \<open>An allocation keeps its generation for as long as it exists.\<close>

lemma step_alloc:
  assumes step: "registry_step A R S" and a: "rg_insts R u = Some a" and b: "rg_insts S u = Some b"
  shows "same_generation a b"
proof -
  obtain act where act: "action_ok A act" "enabled R act" and S: "S = effect A act R"
    using step by (auto simp: registry_step_iff)
  show ?thesis
    using act S a b
    by (cases act) (auto simp: remove_claim_def split: if_splits)
qed

text \<open>It disappears behind its release intent and without hosts.\<close>

lemma step_gone_alloc:
  assumes step: "registry_step A R S" and a: "rg_insts R u = Some a" and b: "rg_insts S u = None"
  shows "host_ids a = [] \<and> (\<exists>i. rg_intents R u = Some i \<and> same_generation a i) \<and> rg_intents S u = None"
proof -
  obtain act where act: "action_ok A act" "enabled R act" and S: "S = effect A act R"
    using step by (auto simp: registry_step_iff)
  show ?thesis
    using act S a b
    by (cases act) (auto simp: remove_claim_def split: if_splits)
qed

text \<open>Behind a release intent no claim appears and none becomes possible.\<close>

lemma step_barrier:
  assumes step: "registry_step A R S" and i: "rg_intents R u = Some i" and c': "rg_claims S (h, u) = Some c'"
  shows "\<exists>c. rg_claims R (h, u) = Some c \<and>
    (c' = c \<or> (claim_move c c' \<and> state c' \<in> {Committed, Cleaned}))"
proof (cases "rg_claims R (h, u)")
  case None
  with step_new_claim [OF step None c'] i show ?thesis by simp
next
  case (Some c)
  obtain act where act: "action_ok A act" "enabled R act" and S: "S = effect A act R"
    using step by (auto simp: registry_step_iff)
  have "c' = c \<or> (claim_move c c' \<and> state c' \<noteq> Possible)"
  proof (cases act)
    case (RestoreAbsent a cs k)
    have "u \<noteq> instance_uuid a" using act RestoreAbsent i by auto
    moreover have "\<forall>d \<in> set cs. instance_uuid d = instance_uuid a"
      using act RestoreAbsent by (auto simp: list_all_iff same_generation_def)
    ultimately have "rg_claims S (h, u) = rg_claims R (h, u)"
      using S RestoreAbsent by (auto simp: fold_put_claim_other)
    with c' Some show ?thesis by simp
  next
    case (ClaimMove a d d')
    then have "host_id d' = host_id d" using act claim_move_same(1) by simp
    with act S Some c' i ClaimMove show ?thesis
      by (auto simp: claim_for_def same_generation_def split: if_splits)
  qed (use act S Some c' i in \<open>auto simp: claim_for_def same_generation_def remove_claim_def
      split: if_splits\<close>)
  moreover have "claim_move c c' \<Longrightarrow> state c' \<noteq> Unmaterialized"
    by (auto simp: claim_move_def)
  ultimately show ?thesis
    using Some by (cases "state c'") auto
qed

text \<open>An intent stays as it is until its generation is deleted.\<close>

lemma step_intent:
  assumes step: "registry_step A R S" and i: "rg_intents R u = Some i"
  shows "rg_intents S u = Some i \<or> rg_insts S u = None"
proof -
  obtain act where act: "action_ok A act" "enabled R act" and S: "S = effect A act R"
    using step by (auto simp: registry_step_iff)
  show ?thesis
  proof (cases act)
    case (RestoreAbsent a cs k)
    with act S i show ?thesis by (cases k) (auto simp: same_generation_def)
  qed (use act S i in \<open>auto simp: remove_claim_def same_generation_def\<close>)
qed

end
