(* ===== verification/Sample_Registry.thy ===== *)
theory Sample_Registry
  imports Registry_Properties
begin

text \<open>
  A small concrete fleet at which the theorems are applied: an allocator of four slots, two
  instances, a host, and a registry that grew by actions from the empty one. Its bytes are
  JSON values.
\<close>

definition demo :: "json allocator" where
  "demo =
     \<lparr>al_lib = json_lib, al_namespace = ''prod'', al_base = 100000, al_size = 65536, al_count = 4,
      al_fingerprint = replicate 64 CHR ''0'', al_username = None,
      al_token = ''99999999-9999-4999-8999-999999999999'', al_lease_ttl = 60\<rparr>"

definition uuid_1 :: string where "uuid_1 = ''11111111-1111-4111-8111-111111111111''"
definition uuid_2 :: string where "uuid_2 = ''22222222-2222-4222-8222-222222222222''"
definition host_1 :: string where "host_1 = ''aaaaaaaa-aaaa-4aaa-8aaa-aaaaaaaaaaaa''"
definition token_1 :: string where "token_1 = ''bbbbbbbb-bbbb-4bbb-8bbb-bbbbbbbbbbbb''"
definition generation_1 :: string where "generation_1 = ''cccccccc-cccc-4ccc-8ccc-cccccccccccc''"
definition generation_2 :: string where "generation_2 = ''dddddddd-dddd-4ddd-8ddd-dddddddddddd''"

lemma canonical_samples [simp]:
  "canonical_uuid uuid_1" "canonical_uuid uuid_2" "canonical_uuid host_1" "canonical_uuid token_1"
  "canonical_uuid generation_1" "canonical_uuid generation_2"
  by code_simp+

lemma sample_uuids_distinct [simp]: "uuid_1 \<noteq> uuid_2" "uuid_2 \<noteq> uuid_1"
  by (simp_all add: uuid_1_def uuid_2_def)

lemma demo_ok [simp]: "allocator_ok demo"
proof -
  have "namespace_ok ''prod''" by code_simp
  then show ?thesis
    by (simp add: allocator_ok_def demo_def config_fingerprint_def json_lib_def codec_ok_json_lib
        [unfolded json_lib_def])
qed

definition sample_alloc :: "string \<Rightarrow> int \<Rightarrow> string \<Rightarrow> string list \<Rightarrow> assignment" where
  "sample_alloc u s aid hs =
     \<lparr>instance_uuid = u, map_base = slot_base demo s, map_size = al_size demo, map_slot = s,
      allocation_id = aid, fingerprint = al_fingerprint demo, host_ids = hs\<rparr>"

definition alloc_1 :: assignment where "alloc_1 = sample_alloc uuid_1 0 generation_1 []"
definition alloc_2 :: assignment where "alloc_2 = sample_alloc uuid_2 3 generation_2 []"

definition claim_1 :: "claim_state \<Rightarrow> host_claim" where
  "claim_1 s =
     \<lparr>instance_uuid = uuid_1, map_base = slot_base demo 0, map_size = al_size demo, map_slot = 0,
      allocation_id = generation_1, fingerprint = al_fingerprint demo, host_id = host_1,
      materialization_id = token_1, state = s, proof_of = None\<rparr>"

definition intent_1 :: release_intent where
  "intent_1 =
     \<lparr>instance_uuid = uuid_1, map_base = slot_base demo 0, map_size = al_size demo, map_slot = 0,
      allocation_id = generation_1, fingerprint = al_fingerprint demo, instance_name = ''vm-1''\<rparr>"

lemmas sample_records = alloc_1_def alloc_2_def sample_alloc_def claim_1_def intent_1_def

lemma demo_slots [simp]: "al_count demo = 4"
  by (simp add: demo_def)

lemma samples_valid [simp]:
  "valid_assignment demo alloc_1" "valid_assignment demo alloc_2"
  "valid_assignment demo (with_host alloc_1 host_1)"
  "s \<noteq> Cleaned \<Longrightarrow> valid_claim demo (claim_1 s)" "valid_intent demo intent_1"
proof -
  have "instance_name_ok ''vm-1''" by code_simp
  then show "valid_assignment demo alloc_1" "valid_assignment demo alloc_2"
    "valid_assignment demo (with_host alloc_1 host_1)"
    "s \<noteq> Cleaned \<Longrightarrow> valid_claim demo (claim_1 s)" "valid_intent demo intent_1"
    by (auto simp: sample_records valid_assignment_def valid_generation_def valid_claim_def
        valid_intent_def with_host_def)
qed

text \<open>The actions by which the sample registry came about.\<close>

definition sample_actions :: "action list" where
  "sample_actions =
     [Allocate alloc_1, Allocate alloc_2, ClaimInsert alloc_1 (claim_1 Unmaterialized),
      ClaimMove (with_host alloc_1 host_1) (claim_1 Unmaterialized) (claim_1 Possible),
      RequestRelease (with_host alloc_1 host_1) intent_1]"

fun run_actions :: "'b allocator \<Rightarrow> action list \<Rightarrow> 'b registry \<Rightarrow> 'b registry" where
  "run_actions A [] R = R"
| "run_actions A (act # acts) R = run_actions A acts (effect A act R)"

fun actions_ok :: "'b allocator \<Rightarrow> action list \<Rightarrow> 'b registry \<Rightarrow> bool" where
  "actions_ok A [] R \<longleftrightarrow> True"
| "actions_ok A (act # acts) R \<longleftrightarrow>
     action_ok A act \<and> enabled R act \<and> actions_ok A acts (effect A act R)"

lemma run_actions_reaches: "actions_ok A acts R \<Longrightarrow> reaches A R (run_actions A acts R)"
proof (induction acts arbitrary: R)
  case (Cons act acts)
  then have "reaches A R (effect A act R)"
    by (auto intro: reaches_step [OF reaches_refl] registry_step.act)
  moreover have "reaches A (effect A act R) (run_actions A acts (effect A act R))"
    using Cons by simp
  ultimately show ?case by (auto intro: reaches_trans)
qed simp

definition sample_registry :: "json registry" where
  "sample_registry = run_actions demo sample_actions (empty_registry demo)"

lemma sample_claim_for [simp]:
  "s \<noteq> Cleaned \<Longrightarrow> claim_for demo alloc_1 (claim_1 s)"
  "s \<noteq> Cleaned \<Longrightarrow> claim_for demo (with_host alloc_1 host_1) (claim_1 s)"
  by (simp_all add: claim_for_def) (simp_all add: sample_records same_generation_def with_host_def)

lemma sample_actions_ok: "actions_ok demo sample_actions (empty_registry demo)"
proof -
  have keys: "instance_uuid alloc_1 = uuid_1" "instance_uuid alloc_2 = uuid_2"
    "map_slot alloc_1 = 0" "map_slot alloc_2 = 3" "host_ids alloc_1 = []" "host_ids alloc_2 = []"
    "instance_uuid (claim_1 s) = uuid_1" "host_id (claim_1 s) = host_1" "state (claim_1 s) = s"
    "instance_uuid intent_1 = uuid_1" "same_generation alloc_1 intent_1" for s
    by (simp_all add: sample_records same_generation_def with_host_def)
  have wh: "instance_uuid (with_host a h) = instance_uuid a" "h \<in> set (host_ids (with_host a h))"
    "map_slot (with_host a h) = map_slot a"
    "same_generation (with_host a h) g = same_generation a g" for a h and g :: release_intent
    by (simp_all add: with_host_def same_generation_def)
  have mv: "claim_move (claim_1 Unmaterialized) (claim_1 Possible)"
    by (simp add: claim_move_def claim_1_def)
  show ?thesis
    by (simp add: sample_actions_def keys wh mv empty_registry_def slot_free_def registry_updates)
qed

lemma sample_registry_reached: "reaches demo (empty_registry demo) sample_registry"
  unfolding sample_registry_def by (rule run_actions_reaches [OF sample_actions_ok])

lemma sample_registry_ok [simp]: "registry_ok demo sample_registry"
  by (rule reaches_ok [OF demo_ok sample_registry_reached empty_registry_ok [OF demo_ok]])

lemma sample_registry_contents:
  "rg_insts sample_registry uuid_1 = Some (with_host alloc_1 host_1)"
  "rg_insts sample_registry uuid_2 = Some alloc_2"
  "rg_claims sample_registry (host_1, uuid_1) = Some (claim_1 Possible)"
  "rg_intents sample_registry uuid_1 = Some intent_1"
  "rg_intents sample_registry uuid_2 = None"
  by (simp_all add: sample_registry_def sample_actions_def registry_updates empty_registry_def
      with_host_def) (simp_all add: sample_records with_host_def)

section \<open>The sample store\<close>

lemma run_actions_represents:
  assumes A: "allocator_ok A"
  shows "registry_ok A R \<Longrightarrow> represents A R st \<Longrightarrow> actions_ok A acts R \<Longrightarrow>
    represents A (run_actions A acts R) (foldl put_val st (concat (map (action_requests A) acts)))"
proof (induction acts arbitrary: R st)
  case (Cons act acts)
  have "represents A (effect A act R) (foldl put_val st (action_requests A act))"
    using Cons.prems by (intro effect_represents [OF A]) simp_all
  moreover have "registry_ok A (effect A act R)"
    using Cons.prems effect_ok [OF A] by simp
  ultimately show ?case using Cons by simp
qed simp

definition healthy_raw :: json where
  "healthy_raw = audit_coordinator_raw demo token_1 Healthy generation_1"

definition sample_store :: "action list \<Rightarrow> json kv" where
  "sample_store acts =
     fst (run_requests
       [(configuration_key demo, config_raw demo, 0), (audit_coordinator_key demo, healthy_raw, 7)]
       (concat (map (action_requests demo) acts)))"

definition sample_guard :: "json compare list" where
  "sample_guard =
     [compare_config demo, CmpAbsent (audit_failure_key demo),
      CmpValue (audit_coordinator_key demo) healthy_raw, CmpLease (audit_coordinator_key demo) 7]"

lemma sample_guard [simp]: "is_guard demo sample_guard"
  unfolding is_guard_def
  by (intro exI [where x = healthy_raw] exI [where x = 7])
    (simp add: guard_compares_for_def sample_guard_def)

lemma not_coordinator [simp]: "in_namespace A k \<Longrightarrow> k \<noteq> audit_coordinator_key A"
  by auto

lemma sample_start_represents:
  "represents demo (empty_registry demo)
     (val [(configuration_key demo, config_raw demo, 0), (audit_coordinator_key demo, healthy_raw, 7)])"
  by (auto simp: represents_def empty_registry_def val_def known_key_def slot_free_def)

lemma sample_store_ok:
  assumes "actions_ok demo acts (empty_registry demo)"
  shows "store_ok demo (empty_registry demo) (sample_store acts)"
    and "represents demo (run_actions demo acts (empty_registry demo)) (val (sample_store acts))"
proof -
  let ?kv = "[(configuration_key demo, config_raw demo, 0), (audit_coordinator_key demo, healthy_raw, 7)]"
  show rep: "represents demo (run_actions demo acts (empty_registry demo)) (val (sample_store acts))"
    using run_actions_represents [OF demo_ok empty_registry_ok [OF demo_ok] sample_start_represents assms]
    by (simp add: sample_store_def val_run_requests)
  have "unleased demo ?kv"
    by (auto simp: unleased_def key_lease_def)
  moreover have "list_all (unleased_put demo) (concat (map (action_requests demo) acts))"
    using action_requests_unleased [of demo] by (auto simp: list_all_iff)
  ultimately have "distinct (map fst (sample_store acts)) \<and> unleased demo (sample_store acts)"
    unfolding sample_store_def by (intro run_requests_keys) auto
  then show "store_ok demo (empty_registry demo) (sample_store acts)"
    using rep run_actions_reaches [OF assms] by (auto simp: store_ok_def represented_def)
qed

lemma sample_store_represents: "represents demo sample_registry (val (sample_store sample_actions))"
  using sample_store_ok(2) [OF sample_actions_ok] by (simp add: sample_registry_def)

lemma sample_fields:
  "instance_uuid alloc_1 = uuid_1" "instance_uuid alloc_2 = uuid_2"
  "map_slot alloc_1 = 0" "map_slot alloc_2 = 3" "host_ids alloc_1 = []" "host_ids alloc_2 = []"
  "instance_uuid (claim_1 s) = uuid_1" "host_id (claim_1 s) = host_1" "state (claim_1 s) = s"
  "instance_uuid intent_1 = uuid_1"
  by (simp_all add: sample_records)

lemma sample_commit_ok:
  "action_ok demo (ClaimMove (with_host alloc_1 host_1) (claim_1 Possible) (claim_1 Committed))"
  by (simp add: sample_fields claim_move_def) (simp add: claim_1_def)

definition sample_world :: "json kv \<Rightarrow> json world" where
  "sample_world kv =
     \<lparr>w_kv = kv, w_next_lease = 8, w_leases = [7], w_uuids = [generation_2], w_clock = 0,
      w_script =
        [\<lparr>ev_others = [action_txn demo sample_guard
             (ClaimMove (with_host alloc_1 host_1) (claim_1 Possible) (claim_1 Committed))],
          ev_expire = [], ev_fault = LostReply\<rparr>,
         \<lparr>ev_others = [], ev_expire = [7], ev_fault = FailAfter Transient\<rparr>]\<rparr>"

definition sample_client :: "json kv \<Rightarrow> (json world, json) client" where
  "sample_client kv =
     \<lparr>cl_world = sample_world kv, cl_initialized = True, cl_checked_at = Some 0, cl_latch = False,
      cl_lease = Some \<lparr>lease_id = Some 7\<rparr>, cl_health_raw = Some healthy_raw,
      cl_health_lease = Some 7, cl_authenticated = True, cl_auth_generation = 0\<rparr>"

lemma sample_kv [simp]: "w_kv (cl_world (sample_client kv)) = kv"
  by (simp add: sample_client_def sample_world_def)

lemma sample_world_ok:
  assumes "store_ok demo (empty_registry demo) kv"
  shows "world_ok demo (empty_registry demo) (cl_world (sample_client kv))"
proof -
  have "permitted demo (action_txn demo sample_guard
      (ClaimMove (with_host alloc_1 host_1) (claim_1 Possible) (claim_1 Committed)))"
    unfolding permitted_def using sample_guard sample_commit_ok by blast
  then show ?thesis
    using assms empty_registry_ok [OF demo_ok]
    by (simp add: world_ok_def sample_client_def sample_world_def event_ok_def)
qed

abbreviation sample_kv_1 :: "json kv" where
  "sample_kv_1 \<equiv> sample_store sample_actions"

lemmas sample_kv_1_ok = sample_store_ok(1) [OF sample_actions_ok]

text \<open>The same store with a published integrity failure.\<close>

definition failed_kv :: "json kv" where
  "failed_kv = AList.update (audit_failure_key demo) (audit_failure_raw demo ''orphan slot'', 0) sample_kv_1"

lemma failed_kv_ok: "store_ok demo (empty_registry demo) failed_kv"
proof -
  have "unleased demo failed_kv" "distinct (map fst failed_kv)"
    using sample_kv_1_ok
    by (auto simp: store_ok_def failed_kv_def unleased_def key_lease_def update_conv distinct_update)
  moreover have "represents demo sample_registry (val failed_kv)"
    using sample_store_represents by (rule represents_outside) (auto simp: failed_kv_def)
  ultimately show ?thesis
    using sample_registry_reached by (auto simp: store_ok_def represented_def)
qed

lemma failed_kv_failure:
  "val failed_kv (audit_failure_key demo) = Some (audit_failure_raw demo ''orphan slot'')"
  "key_lease failed_kv (audit_failure_key demo) = 0"
  by (simp_all add: failed_kv_def key_lease_def update_conv)

end
