(* ===== verification/Registry_Views.thy ===== *)
theory Registry_Views
  imports Sample_Registry
begin

text \<open>
  The registry as a reader of the store sees it: the records that the code's own parsers
  find under the keys of an instance or of a host and an instance. In a store the allocators
  keep, the view is the abstract registry, and a permitted transaction is a step of it or
  leaves it alone. The theorems of the root are stated over these views.
\<close>

definition stored_assignment :: "'b allocator \<Rightarrow> (string \<Rightarrow> 'b option) \<Rightarrow> string \<Rightarrow> assignment option" where
  "stored_assignment A st u =
     (case st (instance_key_of A u) of None \<Rightarrow> None
      | Some raw \<Rightarrow> (case parse_assignment A raw (Some u) None of Inl e \<Rightarrow> None | Inr a \<Rightarrow> Some a))"

definition stored_intent :: "'b allocator \<Rightarrow> (string \<Rightarrow> 'b option) \<Rightarrow> string \<Rightarrow> release_intent option" where
  "stored_intent A st u =
     (case st (release_key_of A u) of None \<Rightarrow> None
      | Some raw \<Rightarrow> (case parse_release_intent A raw (Some u) of Inl e \<Rightarrow> None | Inr i \<Rightarrow> Some i))"

definition stored_claim ::
  "'b allocator \<Rightarrow> (string \<Rightarrow> 'b option) \<Rightarrow> string \<Rightarrow> string \<Rightarrow> host_claim option" where
  "stored_claim A st h u =
     (case st (host_claim_key_of A h u) of None \<Rightarrow> None
      | Some raw \<Rightarrow> (case parse_host_claim A raw (Some h) (Some u) of Inl e \<Rightarrow> None | Inr c \<Rightarrow> Some c))"

lemma stored_views:
  assumes A: "allocator_ok A" and R: "registry_ok A R" and rep: "represents A R st"
  shows "stored_assignment A st u = rg_insts R u"
    and "stored_intent A st u = rg_intents R u"
    and "canonical_uuid h \<Longrightarrow> stored_claim A st h u = rg_claims R (h, u)"
proof -
  note ok = registry_okD [OF R] and D = representsD [OF rep]
  show "stored_assignment A st u = rg_insts R u"
  proof (cases "rg_insts R u")
    case (Some a)
    with ok(1) have "valid_assignment A a" "instance_uuid a = u" by (auto simp: insts_ok_def)
    then have "parse_assignment A (enc_assignment A a) (Some u) None = Inr a"
      using parse_assignment_iff [OF A] by auto
    with Some show ?thesis by (simp add: stored_assignment_def D)
  qed (simp add: stored_assignment_def D)
  show "stored_intent A st u = rg_intents R u"
  proof (cases "rg_intents R u")
    case (Some i)
    with ok(3) have "valid_intent A i" "instance_uuid i = u" by (auto simp: intents_ok_def)
    then have "parse_release_intent A (enc_intent A i) (Some u) = Inr i"
      using parse_release_intent_iff [OF A] by auto
    with Some show ?thesis by (simp add: stored_intent_def D)
  qed (simp add: stored_intent_def D)
  assume h: "canonical_uuid h"
  show "stored_claim A st h u = rg_claims R (h, u)"
  proof (cases "rg_claims R (h, u)")
    case (Some c)
    with ok(4) have "valid_claim A c" "host_id c = h" "instance_uuid c = u"
      by (auto simp: claims_ok_def)
    then have "parse_host_claim A (enc_claim A c) (Some h) (Some u) = Inr c"
      using parse_host_claim_iff [OF A] by auto
    with Some h show ?thesis by (simp add: stored_claim_def D)
  qed (use h in \<open>simp add: stored_claim_def D\<close>)
qed

lemma store_okE:
  assumes "allocator_ok A" and "registry_ok A R0" and "store_ok A R0 kv"
  obtains R where "reaches A R0 R" and "registry_ok A R" and "represents A R (val kv)"
  using assms reaches_ok by (auto simp: store_ok_def represented_def)

lemma store_stepE:
  assumes "allocator_ok A" and "registry_ok A R0" and "store_ok A R0 kv" and "permitted A t"
  obtains R S where "registry_ok A R" and "registry_ok A S" and "represents A R (val kv)"
    and "represents A S (val (txn_store kv t))" and "S = R \<or> registry_step A R S"
proof -
  obtain R where R: "registry_ok A R" "represents A R (val kv)"
    using assms by (auto elim: store_okE)
  from permitted_step [OF assms(1) R assms(4)] R show ?thesis
    using that registry_step_ok [OF _ assms(1)] by blast
qed

text \<open>An allocation's hosts are those with a claim.\<close>

lemma registry_host_claims:
  assumes "registry_ok A R" and "rg_insts R u = Some a"
  shows "h \<in> set (host_ids a) \<longleftrightarrow> rg_claims R (h, u) \<noteq> None"
proof
  assume "h \<in> set (host_ids a)"
  with assms show "rg_claims R (h, u) \<noteq> None"
    using registry_okD(5) [OF assms(1)] unfolding hosts_ok_def by blast
next
  assume "rg_claims R (h, u) \<noteq> None"
  then obtain c where "rg_claims R (h, u) = Some c" by blast
  with assms show "h \<in> set (host_ids a)"
    using registry_okD(4) [OF assms(1)] by (force simp: claims_ok_def)
qed

lemma valid_assignment_range:
  assumes "allocator_ok A" and "valid_assignment A a"
  shows "{map_base a ..< map_base a + map_size a} \<subseteq> {1 ..< 2 ^ 32}" and "0 < map_size a"
  using assms slot_range_bounds [OF assms(1), of "map_slot a"]
  by (auto simp: valid_assignment_def valid_generation_def allocator_ok_def)

lemma registry_ranges_disjoint:
  assumes A: "allocator_ok A" and R: "registry_ok A R"
    and a: "rg_insts R u = Some a" and b: "rg_insts R v = Some b" and "u \<noteq> v"
  shows "{map_base a ..< map_base a + map_size a} \<inter> {map_base b ..< map_base b + map_size b} = {}"
proof -
  have v: "valid_assignment A a" "valid_assignment A b"
    using registry_okD(1) [OF R] a b by (auto simp: insts_ok_def)
  have "map_slot a \<noteq> map_slot b"
    using registry_okD(2) [OF R] a b \<open>u \<noteq> v\<close> by (auto simp: slots_ok_def)
  moreover have "0 < al_size A" using A by (simp add: allocator_ok_def)
  ultimately have "{slot_base A (map_slot a) ..< slot_base A (map_slot a) + al_size A} \<inter>
      {slot_base A (map_slot b) ..< slot_base A (map_slot b) + al_size A} = {}"
    by (intro slot_ranges_disjoint)
  with v show ?thesis by (simp only: valid_assignment_def valid_generation_def)
qed

lemma sample_views:
  "stored_assignment demo (val (sample_store sample_actions)) uuid_1 = Some (with_host alloc_1 host_1)"
  "stored_assignment demo (val (sample_store sample_actions)) uuid_2 = Some alloc_2"
  "stored_intent demo (val (sample_store sample_actions)) uuid_1 = Some intent_1"
  "stored_claim demo (val (sample_store sample_actions)) host_1 uuid_1 = Some (claim_1 Possible)"
  using stored_views [OF demo_ok sample_registry_ok sample_store_represents]
  by (simp_all add: sample_registry_contents)

text \<open>Another allocator's transaction that commits the sample claim.\<close>

definition commit_txn :: "json txn" where
  "commit_txn = action_txn demo sample_guard
     (ClaimMove (with_host alloc_1 host_1) (claim_1 Possible) (claim_1 Committed))"

lemma sample_commit_permitted: "permitted demo commit_txn"
  unfolding permitted_def commit_txn_def using sample_guard sample_commit_ok by blast

lemma sample_commit_claim:
  "stored_claim demo (val (txn_store sample_kv_1 commit_txn)) host_1 uuid_1 = Some (claim_1 Committed)"
  and sample_commit_alloc:
  "stored_assignment demo (val (txn_store sample_kv_1 commit_txn)) uuid_1 = Some (with_host alloc_1 host_1)"
proof -
  have "txn_holds sample_kv_1 commit_txn" by code_simp
  note e = action_txn_effect [OF demo_ok sample_registry_ok sample_store_represents
    sample_commit_ok commit_txn_def this]
  note v = stored_views [OF demo_ok effect_ok [OF demo_ok sample_registry_ok sample_commit_ok e(1)] e(2)]
  show "stored_claim demo (val (txn_store sample_kv_1 commit_txn)) host_1 uuid_1 = Some (claim_1 Committed)"
    by (simp add: v put_claim_def sample_fields)
  show "stored_assignment demo (val (txn_store sample_kv_1 commit_txn)) uuid_1 =
      Some (with_host alloc_1 host_1)"
    by (simp add: v sample_registry_contents)
qed

text \<open>An operator fences the sample host: the claim goes and the fence entry stays.\<close>

definition fence_1 :: fence_proof where
  "fence_1 =
     \<lparr>f_instance_uuid = uuid_1, f_host_id = host_1, f_allocation_id = generation_1,
      f_fence_agent = ''ipmi'', f_fenced_at = ''2024-01-01'', f_operator = ''ops'', f_evidence = ''off''\<rparr>"

lemma fence_1_ok: "validate_fence_proof fence_1 = Inr ()"
  by code_simp

lemma sample_fence_ok:
  "action_ok demo (Fence (with_host alloc_1 host_1) (claim_1 Possible) fence_1)"
  by (simp add: sample_fields fence_1_ok) (simp add: fence_1_def sample_records)

definition fence_txn :: "json txn" where
  "fence_txn = action_txn demo sample_guard
     (Fence (with_host alloc_1 host_1) (claim_1 Possible) fence_1)"

lemma sample_fence_permitted: "permitted demo fence_txn"
  unfolding permitted_def fence_txn_def using sample_guard sample_fence_ok by blast

lemma sample_fence_claim:
  "stored_claim demo (val (txn_store sample_kv_1 fence_txn)) host_1 uuid_1 = None"
proof -
  have "txn_holds sample_kv_1 fence_txn" by code_simp
  note e = action_txn_effect [OF demo_ok sample_registry_ok sample_store_represents
    sample_fence_ok fence_txn_def this]
  show ?thesis
    using stored_views(3) [OF demo_ok effect_ok [OF demo_ok sample_registry_ok sample_fence_ok e(1)] e(2),
        of host_1 uuid_1]
    by (simp add: remove_claim_def drop_claim_def sample_fields)
qed

text \<open>A second sample store: an instance without hosts behind its release intent, and its release.\<close>

definition intent_2 :: release_intent where
  "intent_2 =
     \<lparr>instance_uuid = uuid_2, map_base = slot_base demo 3, map_size = al_size demo, map_slot = 3,
      allocation_id = generation_2, fingerprint = al_fingerprint demo, instance_name = ''vm-2''\<rparr>"

lemma intent_2_ok: "valid_intent demo intent_2" "same_generation alloc_2 intent_2"
  "instance_uuid intent_2 = uuid_2"
proof -
  have "instance_name_ok ''vm-2''" by code_simp
  then show "valid_intent demo intent_2" "same_generation alloc_2 intent_2"
    "instance_uuid intent_2 = uuid_2"
    by (simp_all add: intent_2_def sample_records valid_intent_def valid_generation_def
        same_generation_def)
qed

definition release_actions :: "action list" where
  "release_actions = [Allocate alloc_2, RequestRelease alloc_2 intent_2]"

lemma release_actions_ok: "actions_ok demo release_actions (empty_registry demo)"
  by (simp add: release_actions_def sample_fields intent_2_ok empty_registry_def slot_free_def
      registry_updates)

abbreviation release_kv :: "json kv" where
  "release_kv \<equiv> sample_store release_actions"

definition release_txn :: "json txn" where
  "release_txn = action_txn demo sample_guard (ReleaseGeneration alloc_2 intent_2)"

lemma release_action_ok: "action_ok demo (ReleaseGeneration alloc_2 intent_2)"
  by (simp add: intent_2_ok sample_fields)

lemma release_permitted: "permitted demo release_txn"
  unfolding permitted_def release_txn_def using sample_guard release_action_ok by blast

lemma release_views:
  "stored_assignment demo (val release_kv) uuid_2 = Some alloc_2"
  "stored_intent demo (val release_kv) uuid_2 = Some intent_2"
  "stored_assignment demo (val (txn_store release_kv release_txn)) uuid_2 = None"
proof -
  let ?R = "run_actions demo release_actions (empty_registry demo)"
  note rep = sample_store_ok(2) [OF release_actions_ok]
  have R: "registry_ok demo ?R"
    by (rule reaches_ok [OF demo_ok run_actions_reaches [OF release_actions_ok]
          empty_registry_ok [OF demo_ok]])
  show "stored_assignment demo (val release_kv) uuid_2 = Some alloc_2"
    "stored_intent demo (val release_kv) uuid_2 = Some intent_2"
    using stored_views(1,2) [OF demo_ok R rep]
    by (simp_all add: release_actions_def registry_updates sample_fields intent_2_ok)
  have "txn_holds release_kv release_txn" by code_simp
  note e = action_txn_effect [OF demo_ok R rep release_action_ok release_txn_def this]
  show "stored_assignment demo (val (txn_store release_kv release_txn)) uuid_2 = None"
    using stored_views(1) [OF demo_ok effect_ok [OF demo_ok R release_action_ok e(1)] e(2), of uuid_2]
    by (simp add: sample_fields)
qed

end
