(* ===== verification/Codec_Theorems.thy ===== *)
theory Codec_Theorems
  imports Registry_Views
begin

text \<open>
  Properties of the records and of single operations on them: what the parsers accept is
  what the writers produce, what an accepted cleanup proof establishes, digests, key ranges
  and the slot search.
\<close>

section \<open>Records read back\<close>

text \<open>
  C36: An allocation record is accepted exactly when it is the text the allocator itself
  writes for a valid allocation with the expected instance and slot, and it is read back as
  that allocation.
\<close>

theorem assignment_reads_back:
  assumes "allocator_ok A"
  shows "parse_assignment A raw eu es = Inr a \<longleftrightarrow>
    valid_assignment A a \<and>
    assignment_raw A (instance_uuid a) (map_slot a) (allocation_id a) (host_ids a) = Inr raw \<and>
    eu \<in> {None, Some (instance_uuid a)} \<and> es \<in> {None, Some (map_slot a)}"
  unfolding parse_assignment_iff [OF assms]
  by (cases eu; cases es; cases "valid_assignment A a")
    (auto simp: assignment_raw_enc [of A a])

theorem assignment_reads_back_witness:
  "parse_assignment demo (enc_assignment demo alloc_2) (Some uuid_2) (Some 3) = Inr alloc_2"
  using assignment_reads_back [OF demo_ok] samples_valid(2) assignment_raw_enc [OF samples_valid(2)]
  by (simp add: sample_fields)

lemma check_uuid_canonical: "canonical_uuid v \<Longrightarrow> check_uuid v = Inr v"
  by (simp add: check_uuid_def)

lemma host_claim_raw_enc:
  assumes "valid_claim A c"
  shows "host_claim_raw A c (host_id c) (materialization_id c) (state c) (proof_of c) = Inr (enc_claim A c)"
  using assms by (simp add: valid_claim_def valid_generation_def host_claim_raw_def enc_claim_def
      check_uuid_canonical)

text \<open>
  A host claim record, with the cleanup proof stored inside it, is accepted exactly
  when it is the text the allocator writes for a valid claim of the expected host and
  instance; a valid claim carries a proof exactly when it is cleaned, and that proof
  validates and is bound to the claim's token, host, instance, generation and range.
\<close>

theorem claim_reads_back:
  assumes "allocator_ok A"
  shows "parse_host_claim A raw eh eu = Inr c \<longleftrightarrow>
    valid_claim A c \<and>
    host_claim_raw A c (host_id c) (materialization_id c) (state c) (proof_of c) = Inr raw \<and>
    eh \<in> {None, Some (host_id c)} \<and> eu \<in> {None, Some (instance_uuid c)}"
proof (cases "valid_claim A c")
  case True
  with host_claim_raw_enc [OF this] show ?thesis
    unfolding parse_host_claim_iff [OF assms] by (cases eh; cases eu) auto
qed (simp add: parse_host_claim_iff [OF assms])

theorem claim_reads_back_witness:
  "parse_host_claim demo (enc_claim demo (claim_1 Possible)) None (Some uuid_1) = Inr (claim_1 Possible)"
  using claim_reads_back [OF demo_ok] samples_valid(4) [of Possible] host_claim_raw_enc [OF samples_valid(4) [of Possible]]
  by (simp add: sample_fields)

text \<open>
  The same for a release intent.
\<close>

theorem intent_reads_back:
  assumes "allocator_ok A"
  shows "parse_release_intent A raw eu = Inr i \<longleftrightarrow>
    valid_intent A i \<and> release_intent_raw A i (instance_name i) = Inr raw \<and>
    eu \<in> {None, Some (instance_uuid i)}"
proof (cases "valid_intent A i")
  case True
  then have "release_intent_raw A i (instance_name i) = Inr (enc_intent A i)"
    by (auto simp: valid_intent_def release_intent_raw_def enc_intent_def rbind_Inr_conv)
  with True show ?thesis
    unfolding parse_release_intent_iff [OF assms] by (cases eu) auto
qed (simp add: parse_release_intent_iff [OF assms])

theorem intent_reads_back_witness:
  "parse_release_intent demo (enc_intent demo intent_1) (Some uuid_1) = Inr intent_1"
proof -
  have "release_intent_raw demo intent_1 (instance_name intent_1) = Inr (enc_intent demo intent_1)"
    using samples_valid(5)
    by (auto simp: valid_intent_def release_intent_raw_def enc_intent_def rbind_Inr_conv)
  then show ?thesis using intent_reads_back [OF demo_ok] by (simp add: sample_fields)
qed

text \<open>
  The audit coordinator record and the sticky failure record read back as what was
  written; the reason of a failure is cut at 2048 characters.
\<close>

theorem control_records_read_back:
  assumes "allocator_ok A" and "canonical_uuid token" and "canonical_uuid gen"
    and "canonical_uuid (al_token A)" and "reason \<noteq> []"
  shows "parse_audit_coordinator A (audit_coordinator_raw A token st gen) =
      Inr \<lparr>co_token = token, co_state = st, co_generation = gen\<rparr> \<and>
    parse_audit_failure A (audit_failure_raw A reason) = Inr (take 2048 reason)"
  using parse_enc_coordinator [OF assms(1-3)] parse_audit_failure_raw [OF assms(1,4,5)] by simp

theorem control_records_read_back_witness:
  "parse_audit_coordinator demo healthy_raw =
      Inr \<lparr>co_token = token_1, co_state = Healthy, co_generation = generation_1\<rparr> \<and>
    parse_audit_failure demo (audit_failure_raw demo ''orphan slot'') = Inr (take 2048 ''orphan slot'')"
proof -
  have "canonical_uuid (al_token demo)" by code_simp
  from control_records_read_back [OF demo_ok canonical_samples(4,5) this, of "''orphan slot''" Healthy]
  show ?thesis unfolding healthy_raw_def by simp
qed

section \<open>Cleanup proofs\<close>

text \<open>The fields a digest covers determine the record.\<close>

lemma materialization_digest_fields_inject:
  assumes "materialization_digest_fields p = materialization_digest_fields q"
    and "materialization_terminal p" and "materialization_terminal q" and "p_digest p = p_digest q"
    and "p_outcome p \<in> {''not-materialized'', ''reconciled-clean''}"
  shows "p = q"
  using assms
  by (cases p; cases q)
    (simp add: materialization_digest_fields_def materialization_terminal_def split: if_splits)

lemma release_digest_fields_inject:
  assumes "release_digest_fields p = release_digest_fields q" and "p_digest p = p_digest q"
  shows "p = q"
  using assms
  by (cases p; cases q) (simp add: release_digest_fields_def split: if_splits)

fun same_kind :: "cleanup_proof \<Rightarrow> cleanup_proof \<Rightarrow> bool" where
  "same_kind (Materialization p) (Materialization q) = True"
| "same_kind (Release p) (Release q) = True"
| "same_kind p q = False"

text \<open>
  An accepted cleanup proof is determined by its digest: two different accepted proofs
  of one kind with the same digest exhibit two different JSON documents on which the digest
  function collides.
\<close>

theorem cleanup_digest_binds:
  assumes "validate_cleanup_proof L x = Inr ()" and "validate_cleanup_proof L y = Inr ()"
    and "same_kind x y"
    and "p_digest (proof_common x) = p_digest (proof_common y)" and "x \<noteq> y"
  shows "\<exists>v w. v \<noteq> w \<and> sha256_json L v = sha256_json L w"
proof (cases x)
  case (Materialization p)
  with assms(3) obtain q where y: "y = Materialization q" by (cases y) auto
  have pq: "p_digest p = p_digest q" "p \<noteq> q"
    using assms(4,5) Materialization y by (auto simp: proof_base.truncate_def)
  have terminal: "materialization_terminal p" "materialization_terminal q"
    and digests: "p_digest p = materialization_digest L p" "p_digest q = materialization_digest L q"
    using assms(1,2) Materialization y by (simp_all add: validate_materialization_proof_iff)
  have "JObj (materialization_digest_fields p) \<noteq> JObj (materialization_digest_fields q)"
    using materialization_digest_fields_inject [OF _ terminal pq(1)] pq(2) assms(1) Materialization
    by (auto simp: validate_materialization_proof_iff)
  with digests pq(1) show ?thesis unfolding materialization_digest_def by metis
next
  case (Release p)
  with assms(3) obtain q where y: "y = Release q" by (cases y) auto
  have pq: "p_digest p = p_digest q" "p \<noteq> q"
    using assms(4,5) Release y by (auto simp: proof_base.truncate_def)
  have digests: "p_digest p = release_digest L p" "p_digest q = release_digest L q"
    using assms(1,2) Release y by (simp_all add: validate_release_proof_iff)
  have "JObj (release_digest_fields p) \<noteq> JObj (release_digest_fields q)"
    using release_digest_fields_inject [OF _ pq(1)] pq(2) by blast
  with digests pq(1) show ?thesis unfolding release_digest_def by metis
qed

text \<open>A sample release proof, varied in its completion time.\<close>

definition release_at :: "int \<Rightarrow> release_proof" where
  "release_at t =
     \<lparr>p_token = token_1, p_allocation_id = generation_1, p_compute_id = host_1, p_owner = uuid_1,
      p_project = ''default'', p_instance_name = ''vm-1'', p_idmap_base = 100000,
      p_idmap_size = 65536, p_storage_driver = ''ceph'', p_storage_pool = ''nova'',
      p_storage_volume = ''vm-1'', p_rbd_image = '''', p_storage_identity = ''rbd:1'',
      p_baseline_clean = True, p_cleanup_disposition = ''delete'', p_state = ''complete'',
      p_outcome = ''deleted'', p_digest = ''sha256:'' @ replicate 64 CHR ''0'',
      r_materialization_id = token_1, r_created_at = 5, r_completed_at = t\<rparr>"

lemma release_at_ok: "validate_release_proof json_lib (release_at 6) = Inr ()"
  "validate_release_proof json_lib (release_at 7) = Inr ()"
  by code_simp+

theorem cleanup_digest_binds_witness:
  "\<exists>v w. v \<noteq> w \<and> sha256_json json_lib v = sha256_json json_lib w"
  by (rule cleanup_digest_binds [of json_lib "Release (release_at 6)" "Release (release_at 7)"])
    (simp_all add: release_at_ok, simp_all add: release_at_def proof_base.truncate_def)

text \<open>
  An accepted release proof is consistent with its storage: an externally owned Ceph
  root (cephext) is only ever detached, and its outcome is never a deletion; a Ceph root
  names an immutable identity; a detached root is never reported deleted, and any other
  driver can only report a deletion of a delete disposition. Its ID range lies in the 32-bit
  space and it completed after it was created.
\<close>

theorem release_proof_storage:
  assumes "validate_release_proof L p = Inr ()"
  shows "(p_storage_driver p = ''cephext'' \<longrightarrow>
       p_cleanup_disposition p = ''detach'' \<and> p_outcome p \<in> {''normalized'', ''detached''}) \<and>
    (p_storage_driver p \<in> {''ceph'', ''cephext''} \<longrightarrow> p_storage_identity p \<noteq> []) \<and>
    (p_cleanup_disposition p = ''detach'' \<longrightarrow> p_outcome p \<noteq> ''deleted'') \<and>
    (p_storage_driver p \<notin> {''ceph'', ''cephext''} \<longrightarrow>
       p_cleanup_disposition p = ''delete'' \<and> p_outcome p = ''deleted'') \<and>
    {p_idmap_base p ..< p_idmap_base p + p_idmap_size p} \<subseteq> {0 ..< 2 ^ 32} \<and>
    p_token p = r_materialization_id p \<and> 0 < r_created_at p \<and> r_created_at p \<le> r_completed_at p"
  using assms
  by (auto simp: validate_release_proof_iff disposition_ok_def release_outcomes_def
      idmap_range_ok_def split: if_splits)

theorem release_proof_storage_witness:
  "{p_idmap_base (release_at 6) ..< p_idmap_base (release_at 6) + p_idmap_size (release_at 6)}
     \<subseteq> {0 ..< 2 ^ 32} \<and> p_storage_identity (release_at 6) \<noteq> []"
  using release_proof_storage [OF release_at_ok(1)] by (simp add: release_at_def)

text \<open>
  An accepted materialization proof is terminal: either nothing was materialized (the
  attempt was aborted before it started, and for a delete disposition there is no volume to
  name), or it was started, finished and cleaned; a volume that is left behind (detach or
  handover) is a Ceph volume with an immutable identity.
\<close>

theorem materialization_proof_terminal:
  assumes "validate_materialization_proof L p = Inr ()"
  shows "((p_outcome p = ''not-materialized'' \<and> p_state p = ''aborted'' \<and> \<not> m_started p \<and>
         (p_cleanup_disposition p = ''delete'' \<longrightarrow> p_storage_identity p = [])) \<or>
      (p_outcome p = ''reconciled-clean'' \<and> p_state p = ''clean'' \<and> m_started p)) \<and>
    m_finished p \<and> p_baseline_clean p \<and>
    (p_cleanup_disposition p \<in> {''detach'', ''handover''} \<longrightarrow>
       p_storage_driver p \<in> {''ceph'', ''cephext''} \<and> p_storage_identity p \<noteq> []) \<and>
    {p_idmap_base p ..< p_idmap_base p + p_idmap_size p} \<subseteq> {0 ..< 2 ^ 32}"
  using assms
  by (auto simp: validate_materialization_proof_iff disposition_ok_def materialization_terminal_def
      idmap_range_ok_def split: if_splits)

definition aborted_1 :: materialization_proof where
  "aborted_1 =
     \<lparr>p_token = token_1, p_allocation_id = generation_1, p_compute_id = host_1, p_owner = uuid_1,
      p_project = ''default'', p_instance_name = ''vm-1'', p_idmap_base = 100000,
      p_idmap_size = 65536, p_storage_driver = ''zfs'', p_storage_pool = ''nova'',
      p_storage_volume = ''vm-1'', p_rbd_image = '''', p_storage_identity = '''',
      p_baseline_clean = True, p_cleanup_disposition = ''delete'', p_state = ''aborted'',
      p_outcome = ''not-materialized'', p_digest = ''sha256:'' @ replicate 64 CHR ''0'',
      m_storage_phase = ''none'', m_started = False, m_finished = True\<rparr>"

theorem materialization_proof_terminal_witness:
  "m_finished aborted_1 \<and> p_baseline_clean aborted_1 \<and> \<not> m_started aborted_1"
proof -
  have "validate_materialization_proof json_lib aborted_1 = Inr ()" by code_simp
  from materialization_proof_terminal [OF this] show ?thesis by (simp add: aborted_1_def)
qed

end
