(* ===== verification/Audit_Spec.thy ===== *)
theory Audit_Spec
  imports Registry_Views
begin

text \<open>
  What the full audit accepts. The records it parses are entries with a key and bytes that
  determine each other; its dictionaries are views of the list of entries; and its
  relationship checks hold exactly when the entries represent a registry that satisfies the
  invariant and no fence entry names a live token.
\<close>

section \<open>Entries\<close>

datatype 'b entry =
    InstanceEntry assignment 'b
  | SlotEntry assignment 'b
  | IntentEntry release_intent 'b
  | ClaimEntry host_claim 'b
  | FenceEntry string string "string option" 'b

fun entry_key :: "'b allocator \<Rightarrow> 'b entry \<Rightarrow> string" where
  "entry_key A (InstanceEntry a raw) = instance_key_of A (instance_uuid a)"
| "entry_key A (SlotEntry a raw) = slot_key_of A (map_slot a)"
| "entry_key A (IntentEntry i raw) = release_key_of A (instance_uuid i)"
| "entry_key A (ClaimEntry c raw) = host_claim_key_of A (host_id c) (instance_uuid c)"
| "entry_key A (FenceEntry h u t raw) = fence_key_of A h u"

fun entry_raw :: "'b entry \<Rightarrow> 'b" where
  "entry_raw (InstanceEntry a raw) = raw"
| "entry_raw (SlotEntry a raw) = raw"
| "entry_raw (IntentEntry i raw) = raw"
| "entry_raw (ClaimEntry c raw) = raw"
| "entry_raw (FenceEntry h u t raw) = raw"

fun entry_ok :: "'b allocator \<Rightarrow> 'b entry \<Rightarrow> bool" where
  "entry_ok A (InstanceEntry a raw) \<longleftrightarrow> valid_assignment A a \<and> raw = enc_assignment A a"
| "entry_ok A (SlotEntry a raw) \<longleftrightarrow> valid_assignment A a \<and> raw = enc_assignment A a"
| "entry_ok A (IntentEntry i raw) \<longleftrightarrow> valid_intent A i \<and> raw = enc_intent A i"
| "entry_ok A (ClaimEntry c raw) \<longleftrightarrow> valid_claim A c \<and> raw = enc_claim A c"
| "entry_ok A (FenceEntry h u t raw) \<longleftrightarrow> canonical_uuid h \<and> canonical_uuid u \<and>
     (\<exists>p. parse_fence_record A raw = Inr (p, t) \<and> f_host_id p = h \<and> f_instance_uuid p = u)"

text \<open>The parsing of one record, without the dictionary it is entered into.\<close>

definition classify :: "'b allocator \<Rightarrow> string \<Rightarrow> 'b \<Rightarrow> 'b entry result" where
  "classify A key raw =
     (if starts_with (instance_prefix A) key
      then rbind (classify_instance A (drop (length (instance_prefix A)) key) raw)
             (\<lambda>(u, a, raw). Inr (InstanceEntry a raw))
      else if starts_with (slot_prefix A) key
      then rbind (classify_slot A (drop (length (slot_prefix A)) key) raw)
             (\<lambda>(s, a, raw). Inr (SlotEntry a raw))
      else if starts_with (release_prefix A) key
      then rbind (classify_release A (drop (length (release_prefix A)) key) raw)
             (\<lambda>(u, i). Inr (IntentEntry i raw))
      else if starts_with (host_prefix A) key
      then rbind (classify_host A (drop (length (host_prefix A)) key) raw)
             (\<lambda>(k, c). Inr (ClaimEntry c raw))
      else if starts_with (fence_prefix A) key
      then rbind (classify_fence A (drop (length (fence_prefix A)) key) raw)
             (\<lambda>((h, u), t). Inr (FenceEntry h u t raw))
      else Inl IntegrityError)"

lemma key_uuid_Inr [simp]: "key_uuid s = Inr v \<longleftrightarrow> canonical_uuid s \<and> v = s"
  by (auto simp: key_uuid_def)

lemma key_pair_Inr:
  "key_pair s = Inr (h, u) \<longleftrightarrow> canonical_uuid h \<and> canonical_uuid u \<and> s = h @ ''/'' @ u"
proof
  assume "key_pair s = Inr (h, u)"
  then have "split_on CHR ''/'' s = [h, u]" and c: "canonical_uuid h" "canonical_uuid u"
    by (auto simp: key_pair_def rbind_Inr_conv split: list.splits)
  then show "canonical_uuid h \<and> canonical_uuid u \<and> s = h @ ''/'' @ u"
    using join_split [of "CHR ''/''" s] by simp
next
  assume "canonical_uuid h \<and> canonical_uuid u \<and> s = h @ ''/'' @ u"
  then show "key_pair s = Inr (h, u)"
    by (simp add: key_pair_def split_on_append split_on_no_sep canonical_uuid_no_slash
        key_uuid_def check_uuid_def)
qed

lemmas prefix_defs =
  instance_prefix_def slot_prefix_def release_prefix_def host_prefix_def fence_prefix_def

lemma prefix_keys:
  "instance_prefix A @ u = instance_key_of A u"
  "slot_prefix A @ int_dec n = slot_key_of A n"
  "release_prefix A @ u = release_key_of A u"
  "host_prefix A @ h @ CHR ''/'' # u = host_claim_key_of A h u"
  "fence_prefix A @ h @ CHR ''/'' # u = fence_key_of A h u"
  by (simp_all add: prefix_defs key_of_defs)

lemma classify_instance_key:
  assumes A: "allocator_ok A"
  shows "classify A (instance_prefix A @ s) raw = Inr e \<longleftrightarrow>
    (\<exists>a. e = InstanceEntry a raw \<and> entry_ok A e \<and> s = instance_uuid a)"
  by (auto simp: classify_def classify_instance_def rbind_Inr_conv parse_assignment_iff [OF A]
      valid_assignment_def valid_generation_def)

lemma classify_slot_key:
  assumes A: "allocator_ok A"
  shows "classify A (slot_prefix A @ s) raw = Inr e \<longleftrightarrow>
    (\<exists>a. e = SlotEntry a raw \<and> entry_ok A e \<and> s = int_dec (map_slot a))"
proof -
  have "classify A (slot_prefix A @ s) raw =
      rbind (classify_slot A s raw) (\<lambda>(s, a, raw). Inr (SlotEntry a raw))"
    by (simp add: classify_def prefix_defs)
  moreover have "canonical_dec s \<Longrightarrow> int_dec (int (dec_val s)) = s"
    by (simp add: int_dec_nonneg nat_dec_dec_val)
  ultimately show ?thesis
    by (auto simp: classify_slot_def rbind_Inr_conv parse_assignment_iff [OF A] Let_def
        valid_assignment_def valid_generation_def int_dec_nonneg)
qed

lemma classify_release_key:
  assumes A: "allocator_ok A"
  shows "classify A (release_prefix A @ s) raw = Inr e \<longleftrightarrow>
    (\<exists>i. e = IntentEntry i raw \<and> entry_ok A e \<and> s = instance_uuid i)"
proof -
  have "classify A (release_prefix A @ s) raw =
      rbind (classify_release A s raw) (\<lambda>(u, i). Inr (IntentEntry i raw))"
    by (simp add: classify_def prefix_defs)
  then show ?thesis
    by (auto simp: classify_release_def rbind_Inr_conv parse_release_intent_iff [OF A]
        valid_intent_def valid_generation_def)
qed

lemma classify_host_key:
  assumes A: "allocator_ok A"
  shows "classify A (host_prefix A @ s) raw = Inr e \<longleftrightarrow>
    (\<exists>c. e = ClaimEntry c raw \<and> entry_ok A e \<and> s = host_id c @ ''/'' @ instance_uuid c)"
proof -
  have "classify A (host_prefix A @ s) raw =
      rbind (classify_host A s raw) (\<lambda>(k, c). Inr (ClaimEntry c raw))"
    by (simp add: classify_def prefix_defs)
  then show ?thesis
    by (auto simp: classify_host_def rbind_Inr_conv key_pair_Inr parse_host_claim_iff [OF A]
        valid_claim_def valid_generation_def split_paired_Ex)
qed

lemma classify_fence_key:
  shows "classify A (fence_prefix A @ s) raw = Inr e \<longleftrightarrow>
    (\<exists>h u t. e = FenceEntry h u t raw \<and> entry_ok A e \<and> s = h @ ''/'' @ u)"
proof -
  have "classify A (fence_prefix A @ s) raw =
      rbind (classify_fence A s raw) (\<lambda>((h, u), t). Inr (FenceEntry h u t raw))"
    by (simp add: classify_def prefix_defs)
  then show ?thesis
    by (auto simp: classify_fence_def rbind_Inr_conv key_pair_Inr split_paired_Ex)
qed

lemmas classify_keys = classify_instance_key classify_slot_key classify_release_key classify_host_key

lemma classify_iff:
  assumes A: "allocator_ok A"
  shows "classify A k raw = Inr e \<longleftrightarrow> entry_ok A e \<and> k = entry_key A e \<and> raw = entry_raw e"
proof
  assume e: "classify A k raw = Inr e"
  then consider s where "k = instance_prefix A @ s" | s where "k = slot_prefix A @ s"
    | s where "k = release_prefix A @ s" | s where "k = host_prefix A @ s"
    | s where "k = fence_prefix A @ s"
    by (auto simp: classify_def starts_with_conv split: if_splits)
  then show "entry_ok A e \<and> k = entry_key A e \<and> raw = entry_raw e"
    by cases (use e in \<open>auto simp: classify_keys [OF A] classify_keys [OF A, unfolded prefix_keys]
      classify_fence_key prefix_keys\<close>)
next
  assume e: "entry_ok A e \<and> k = entry_key A e \<and> raw = entry_raw e"
  then show "classify A k raw = Inr e"
    by (cases e) (auto simp: prefix_keys [symmetric] classify_keys [OF A] classify_fence_key)
qed

section \<open>The dictionaries are views of the entries\<close>

fun as_instance :: "'b entry \<Rightarrow> (string \<times> assignment \<times> 'b) option" where
  "as_instance (InstanceEntry a raw) = Some (instance_uuid a, a, raw)"
| "as_instance _ = None"

fun as_slot :: "'b entry \<Rightarrow> (int \<times> assignment \<times> 'b) option" where
  "as_slot (SlotEntry a raw) = Some (map_slot a, a, raw)"
| "as_slot _ = None"

fun as_intent :: "'b entry \<Rightarrow> (string \<times> release_intent) option" where
  "as_intent (IntentEntry i raw) = Some (instance_uuid i, i)"
| "as_intent _ = None"

fun as_claim :: "'b entry \<Rightarrow> ((string \<times> string) \<times> host_claim) option" where
  "as_claim (ClaimEntry c raw) = Some ((host_id c, instance_uuid c), c)"
| "as_claim _ = None"

fun as_fence :: "'b entry \<Rightarrow> ((string \<times> string) \<times> string option \<times> 'b) option" where
  "as_fence (FenceEntry h u t raw) = Some ((h, u), t, raw)"
| "as_fence _ = None"

abbreviation view :: "('e \<Rightarrow> 'x option) \<Rightarrow> 'e list \<Rightarrow> 'x list" where
  "view f es \<equiv> List.map_filter f es"

definition families_of :: "'b entry list \<Rightarrow> 'b families" where
  "families_of es =
     \<lparr>fa_instances = view as_instance es, fa_slots = view as_slot es, fa_intents = view as_intent es,
      fa_claims = view as_claim es, fa_fences = map (\<lambda>(k, t, raw). (k, t)) (view as_fence es)\<rparr>"

lemma set_view: "x \<in> set (view f es) \<longleftrightarrow> (\<exists>e \<in> set es. f e = Some x)"
  by (induction es) (auto simp: List.map_filter_def)

lemma view_snoc: "view f (es @ [e]) = view f es @ (case f e of None \<Rightarrow> [] | Some x \<Rightarrow> [x])"
  by (simp add: List.map_filter_def split: option.splits)

lemma view_None: "(\<And>e v. e \<in> set es \<Longrightarrow> f e \<noteq> Some (k, v)) \<Longrightarrow> map_of (view f es) k = None"
  by (force simp: map_of_eq_None_iff set_view)

text \<open>A view whose keys are determined by the keys of the entries is a map.\<close>

lemma view_lookup:
  assumes "distinct (map g es)" and "\<And>e e' k v w. e \<in> set es \<Longrightarrow> e' \<in> set es \<Longrightarrow>
      f e = Some (k, v) \<Longrightarrow> f e' = Some (k, w) \<Longrightarrow> g e = g e'"
  shows "map_of (view f es) k = Some v \<longleftrightarrow> (\<exists>e \<in> set es. f e = Some (k, v))"
  using assms
proof (induction es)
  case (Cons e es)
  have IH: "map_of (view f es) k = Some v \<longleftrightarrow> (\<exists>e \<in> set es. f e = Some (k, v))"
    using Cons.prems by (intro Cons.IH) auto
  show ?case
  proof (cases "f e")
    case None
    then show ?thesis using IH by (simp add: List.map_filter_def)
  next
    case (Some kv)
    obtain k' v' where kv: "kv = (k', v')" by (cases kv)
    have other: "f d \<noteq> Some (k', w)" if "d \<in> set es" for d w
      using Cons.prems(1) Cons.prems(2) [of e d k' v' w] that Some kv by (auto simp: image_iff)
    show ?thesis
      using IH Some kv other by (cases "k = k'") (auto simp: List.map_filter_def)
  qed
qed (simp add: List.map_filter_def)

definition entries_ok :: "'b allocator \<Rightarrow> 'b entry list \<Rightarrow> bool" where
  "entries_ok A es \<longleftrightarrow> list_all (entry_ok A) es \<and> distinct (map (entry_key A) es)"

lemma entries_lookup:
  assumes "entries_ok A es"
  shows "map_of (view as_instance es) u = Some (a, raw) \<longleftrightarrow> InstanceEntry a raw \<in> set es \<and> instance_uuid a = u"
    and "map_of (view as_slot es) s = Some (a, raw) \<longleftrightarrow> SlotEntry a raw \<in> set es \<and> map_slot a = s"
    and "map_of (view as_intent es) u = Some i \<longleftrightarrow> IntentEntry i (enc_intent A i) \<in> set es \<and> instance_uuid i = u"
    and "map_of (view as_claim es) (h, u) = Some c \<longleftrightarrow>
      ClaimEntry c (enc_claim A c) \<in> set es \<and> host_id c = h \<and> instance_uuid c = u"
    and "map_of (view as_fence es) (h, u) = Some (t, raw) \<longleftrightarrow> FenceEntry h u t raw \<in> set es"
proof -
  have d: "distinct (map (entry_key A) es)" and ok: "\<And>e. e \<in> set es \<Longrightarrow> entry_ok A e"
    using assms by (auto simp: entries_ok_def list_all_iff)
  have i: "as_instance e = Some (k, v) \<longleftrightarrow> (\<exists>a raw. e = InstanceEntry a raw \<and> k = instance_uuid a \<and> v = (a, raw))"
    and s': "as_slot e = Some (k', v) \<longleftrightarrow> (\<exists>a raw. e = SlotEntry a raw \<and> k' = map_slot a \<and> v = (a, raw))"
    and n: "as_intent e = Some (k, v') \<longleftrightarrow> (\<exists>raw. e = IntentEntry v' raw \<and> k = instance_uuid v')"
    and c: "as_claim e = Some (k'', c') \<longleftrightarrow> (\<exists>raw. e = ClaimEntry c' raw \<and> k'' = (host_id c', instance_uuid c'))"
    and f: "as_fence e = Some (k'', f') \<longleftrightarrow> (\<exists>h u t raw. e = FenceEntry h u t raw \<and> k'' = (h, u) \<and> f' = (t, raw))"
    for e :: "'b entry" and k k' v v' k'' c' f'
    by (cases e; auto)+
  show "map_of (view as_instance es) u = Some (a, raw) \<longleftrightarrow> InstanceEntry a raw \<in> set es \<and> instance_uuid a = u"
    by (subst view_lookup [OF d]) (auto simp: i)
  show "map_of (view as_slot es) s = Some (a, raw) \<longleftrightarrow> SlotEntry a raw \<in> set es \<and> map_slot a = s"
    by (subst view_lookup [OF d]) (auto simp: s')
  show "map_of (view as_intent es) u = Some i \<longleftrightarrow> IntentEntry i (enc_intent A i) \<in> set es \<and> instance_uuid i = u"
    by (subst view_lookup [OF d]) (use ok in \<open>fastforce simp: n\<close>)+
  show "map_of (view as_claim es) (h, u) = Some c \<longleftrightarrow>
      ClaimEntry c (enc_claim A c) \<in> set es \<and> host_id c = h \<and> instance_uuid c = u"
    by (subst view_lookup [OF d]) (use ok in \<open>fastforce simp: c\<close>)+
  show "map_of (view as_fence es) (h, u) = Some (t, raw) \<longleftrightarrow> FenceEntry h u t raw \<in> set es"
    by (subst view_lookup [OF d]) (auto simp: f)
qed

section \<open>Parsing all records\<close>

fun enter :: "'b families \<Rightarrow> 'b entry \<Rightarrow> 'b families result" where
  "enter F (InstanceEntry a raw) =
     rbind (fresh_key (instance_uuid a) (fa_instances F))
       (\<lambda>_. Inr (F\<lparr>fa_instances := fa_instances F @ [(instance_uuid a, a, raw)]\<rparr>))"
| "enter F (SlotEntry a raw) =
     rbind (fresh_key (map_slot a) (fa_slots F))
       (\<lambda>_. Inr (F\<lparr>fa_slots := fa_slots F @ [(map_slot a, a, raw)]\<rparr>))"
| "enter F (IntentEntry i raw) =
     rbind (fresh_key (instance_uuid i) (fa_intents F))
       (\<lambda>_. Inr (F\<lparr>fa_intents := fa_intents F @ [(instance_uuid i, i)]\<rparr>))"
| "enter F (ClaimEntry c raw) =
     rbind (fresh_key (host_id c, instance_uuid c) (fa_claims F))
       (\<lambda>_. Inr (F\<lparr>fa_claims := fa_claims F @ [((host_id c, instance_uuid c), c)]\<rparr>))"
| "enter F (FenceEntry h u t raw) =
     Inr (F\<lparr>fa_fences := filter (\<lambda>e. fst e \<noteq> (h, u)) (fa_fences F) @ [((h, u), t)]\<rparr>)"

lemma rbind_cong: "r = s \<Longrightarrow> (\<And>a. s = Inr a \<Longrightarrow> f a = g a) \<Longrightarrow> rbind r f = rbind s g"
  by (cases s) auto

lemma parse_instance_enter:
  assumes A: "allocator_ok A"
  shows "audit_parse_instance_record A s raw F =
    rbind (rbind (classify_instance A s raw) (\<lambda>(u, a, raw). Inr (InstanceEntry a raw))) (enter F)"
proof (cases "classify_instance A s raw")
  case (Inr r)
  then obtain a where "r = (instance_uuid a, a, raw)"
    by (auto simp: classify_instance_def rbind_Inr_conv parse_assignment_iff [OF A] Let_def)
  then show ?thesis by (simp add: audit_parse_instance_record_def Inr)
qed (simp add: audit_parse_instance_record_def)

lemma parse_slot_enter:
  assumes A: "allocator_ok A"
  shows "audit_parse_slot_record A s raw F =
    rbind (rbind (classify_slot A s raw) (\<lambda>(s, a, raw). Inr (SlotEntry a raw))) (enter F)"
proof (cases "classify_slot A s raw")
  case (Inr r)
  then obtain a where "r = (map_slot a, a, raw)"
    by (auto simp: classify_slot_def rbind_Inr_conv parse_assignment_iff [OF A] Let_def)
  then show ?thesis by (simp add: audit_parse_slot_record_def Inr)
qed (simp add: audit_parse_slot_record_def)

lemma parse_release_enter:
  assumes A: "allocator_ok A"
  shows "audit_parse_release_record A s raw F =
    rbind (rbind (classify_release A s raw) (\<lambda>(u, i). Inr (IntentEntry i raw))) (enter F)"
proof (cases "classify_release A s raw")
  case (Inr r)
  then obtain i where "r = (instance_uuid i, i)"
    by (auto simp: classify_release_def rbind_Inr_conv parse_release_intent_iff [OF A] Let_def)
  then show ?thesis by (simp add: audit_parse_release_record_def Inr)
qed (simp add: audit_parse_release_record_def)

lemma parse_host_enter:
  assumes A: "allocator_ok A"
  shows "audit_parse_host_record A s raw F =
    rbind (rbind (classify_host A s raw) (\<lambda>(k, c). Inr (ClaimEntry c raw))) (enter F)"
proof (cases "classify_host A s raw")
  case (Inr r)
  then obtain c where "r = ((host_id c, instance_uuid c), c)"
    by (auto simp: classify_host_def rbind_Inr_conv parse_host_claim_iff [OF A] Let_def)
  then show ?thesis by (simp add: audit_parse_host_record_def Inr)
qed (simp add: audit_parse_host_record_def)

lemma parse_fence_enter:
  shows "audit_parse_fence_record A s raw F =
    rbind (rbind (classify_fence A s raw) (\<lambda>((h, u), t). Inr (FenceEntry h u t raw))) (enter F)"
proof (cases "classify_fence A s raw")
  case (Inr r)
  then obtain h u t where "r = ((h, u), t)"
    by (auto simp: classify_fence_def rbind_Inr_conv  Let_def)
  then show ?thesis by (simp add: audit_parse_fence_record_def Inr)
qed (simp add: audit_parse_fence_record_def)

lemma audit_parse_record_classify:
  assumes A: "allocator_ok A"
  shows "audit_parse_record A key raw F = rbind (classify A key raw) (enter F)"
  unfolding audit_parse_record_def classify_def parse_instance_enter [OF A] parse_slot_enter [OF A]
    parse_release_enter [OF A] parse_host_enter [OF A] parse_fence_enter
  by simp

lemma families_of_snoc:
  "families_of (es @ [e]) = (case e of
     InstanceEntry a raw \<Rightarrow> (families_of es)\<lparr>fa_instances := view as_instance es @ [(instance_uuid a, a, raw)]\<rparr>
   | SlotEntry a raw \<Rightarrow> (families_of es)\<lparr>fa_slots := view as_slot es @ [(map_slot a, a, raw)]\<rparr>
   | IntentEntry i raw \<Rightarrow> (families_of es)\<lparr>fa_intents := view as_intent es @ [(instance_uuid i, i)]\<rparr>
   | ClaimEntry c raw \<Rightarrow> (families_of es)\<lparr>fa_claims := view as_claim es @ [((host_id c, instance_uuid c), c)]\<rparr>
   | FenceEntry h u t raw \<Rightarrow>
       (families_of es)\<lparr>fa_fences := map (\<lambda>(k, t, raw). (k, t)) (view as_fence es) @ [((h, u), t)]\<rparr>)"
  by (cases e) (simp_all add: families_of_def view_snoc)

lemma enter_families_of:
  assumes "entries_ok A (es @ [e])"
  shows "enter (families_of es) e = Inr (families_of (es @ [e]))"
proof -
  have new: "entry_key A d \<noteq> entry_key A e" if "d \<in> set es" for d
  proof -
    have "entry_key A e \<notin> entry_key A ` set es" using assms by (simp add: entries_ok_def)
    with that show ?thesis by (metis imageI)
  qed
  show ?thesis
  proof (cases e)
    case (InstanceEntry a raw)
    have "map_of (view as_instance es) (instance_uuid a) = None"
    proof (rule view_None)
      fix d v
      assume "d \<in> set es"
      from new [OF this] InstanceEntry show "as_instance d \<noteq> Some (instance_uuid a, v)" by (cases d) auto
    qed
    with InstanceEntry show ?thesis by (simp add: families_of_snoc fresh_key_def) (simp add: families_of_def)
  next
    case (SlotEntry a raw)
    have "map_of (view as_slot es) (map_slot a) = None"
    proof (rule view_None)
      fix d v
      assume "d \<in> set es"
      from new [OF this] SlotEntry show "as_slot d \<noteq> Some (map_slot a, v)" by (cases d) auto
    qed
    with SlotEntry show ?thesis by (simp add: families_of_snoc fresh_key_def) (simp add: families_of_def)
  next
    case (IntentEntry i raw)
    have "map_of (view as_intent es) (instance_uuid i) = None"
    proof (rule view_None)
      fix d v
      assume "d \<in> set es"
      from new [OF this] IntentEntry show "as_intent d \<noteq> Some (instance_uuid i, v)" by (cases d) auto
    qed
    with IntentEntry show ?thesis by (simp add: families_of_snoc fresh_key_def) (simp add: families_of_def)
  next
    case (ClaimEntry c raw)
    have "map_of (view as_claim es) (host_id c, instance_uuid c) = None"
    proof (rule view_None)
      fix d v
      assume "d \<in> set es"
      from new [OF this] ClaimEntry show "as_claim d \<noteq> Some ((host_id c, instance_uuid c), v)"
        by (cases d) auto
    qed
    with ClaimEntry show ?thesis by (simp add: families_of_snoc fresh_key_def) (simp add: families_of_def)
  next
    case (FenceEntry h u t raw)
    have "fst x \<noteq> (h, u)" if "x \<in> set (map (\<lambda>(k, t, raw). (k, t)) (view as_fence es))" for x
    proof -
      from that obtain d t' r where "d \<in> set es" "as_fence d = Some (fst x, t', r)"
        by (auto simp: set_view)
      with new [of d] FenceEntry show ?thesis by (cases d) auto
    qed
    then have "filter (\<lambda>e. fst e \<noteq> (h, u)) (map (\<lambda>(k, t, raw). (k, t)) (view as_fence es)) =
        map (\<lambda>(k, t, raw). (k, t)) (view as_fence es)"
      by (simp add: filter_id_conv)
    with FenceEntry show ?thesis by (simp add: families_of_snoc) (simp add: families_of_def)
  qed
qed

lemma parse_families:
  assumes A: "allocator_ok A"
  shows "list_all (entry_ok A) es0 \<Longrightarrow> distinct (map (entry_key A) es0 @ map fst rs) \<Longrightarrow>
    audit_parse_record_families A rs (families_of es0) =
    rbind (map_result (\<lambda>(k, r). classify A k r) rs) (\<lambda>es. Inr (families_of (es0 @ es)))"
proof (induction rs arbitrary: es0)
  case (Cons kr rs)
  obtain k r where kr: "kr = (k, r)" by (cases kr)
  show ?case
  proof (cases "classify A k r")
    case (Inl x)
    then show ?thesis by (simp add: kr audit_parse_record_classify [OF A])
  next
    case (Inr e)
    then have e: "entry_ok A e" "k = entry_key A e" by (simp_all add: classify_iff [OF A])
    have ok: "entries_ok A (es0 @ [e])" using Cons.prems e kr by (auto simp: entries_ok_def)
    have "audit_parse_record_families A rs (families_of (es0 @ [e])) =
        rbind (map_result (\<lambda>(k, r). classify A k r) rs) (\<lambda>es. Inr (families_of ((es0 @ [e]) @ es)))"
      using Cons.prems e kr by (intro Cons.IH) auto
    then show ?thesis
      by (simp add: kr audit_parse_record_classify [OF A] Inr enter_families_of [OF ok] rbind_assoc)
  qed
qed simp

section \<open>Relationships of the entries\<close>

definition slots_match :: "'b entry list \<Rightarrow> bool" where
  "slots_match es \<longleftrightarrow> (\<forall>a raw. InstanceEntry a raw \<in> set es \<longleftrightarrow> SlotEntry a raw \<in> set es)"

definition intents_match :: "'b entry list \<Rightarrow> bool" where
  "intents_match es \<longleftrightarrow>
     (\<forall>i raw. IntentEntry i raw \<in> set es \<longrightarrow>
        (\<exists>a raw'. InstanceEntry a raw' \<in> set es \<and> same_generation a i))"

definition claims_match :: "'b allocator \<Rightarrow> 'b entry list \<Rightarrow> bool" where
  "claims_match A es \<longleftrightarrow>
     (\<forall>a raw. InstanceEntry a raw \<in> set es \<longrightarrow> (\<forall>h \<in> set (host_ids a).
        \<exists>c. ClaimEntry c (enc_claim A c) \<in> set es \<and> host_id c = h \<and> same_generation c a)) \<and>
     (\<forall>c raw. ClaimEntry c raw \<in> set es \<longrightarrow>
        (\<exists>a raw'. InstanceEntry a raw' \<in> set es \<and> host_id c \<in> set (host_ids a) \<and> same_generation c a))"

definition fences_match :: "'b entry list \<Rightarrow> bool" where
  "fences_match es \<longleftrightarrow>
     (\<forall>h u t raw c raw'. FenceEntry h u (Some t) raw \<in> set es \<longrightarrow> ClaimEntry c raw' \<in> set es \<longrightarrow>
        host_id c = h \<longrightarrow> instance_uuid c = u \<longrightarrow> materialization_id c \<noteq> t)"

lemma validate_instance_slots_iff:
  assumes key: "\<And>a raw a' raw'. map_of (fa_slots F) (map_slot a) = Some (a', raw') \<Longrightarrow> map_slot a' = map_slot a"
  shows "(\<forall>s p. claimed s = Some p \<longrightarrow> (\<exists>a raw. map_of (fa_slots F) s = Some (a, raw) \<and> instance_uuid a = p)) \<Longrightarrow>
    (\<forall>x \<in> set xs. fst x = instance_uuid (fst (snd x))) \<Longrightarrow>
    validate_instance_slots F xs claimed = Inr () \<longleftrightarrow>
    (\<forall>x \<in> set xs. map_of (fa_slots F) (map_slot (fst (snd x))) = Some (snd x))"
proof (induction xs arbitrary: claimed)
  case (Cons x xs)
  obtain a raw where x: "x = (instance_uuid a, a, raw)" using Cons.prems(2) by (cases x) auto
  show ?case
  proof (cases "map_of (fa_slots F) (map_slot a) = Some (a, raw)")
    case True
    have first: "\<forall>p \<in> set_option (claimed (map_slot a)). p = instance_uuid a"
      using Cons.prems(1) True by force
    have "\<forall>s p. (claimed(map_slot a \<mapsto> instance_uuid a)) s = Some p \<longrightarrow>
        (\<exists>a raw. map_of (fa_slots F) s = Some (a, raw) \<and> instance_uuid a = p)"
      using Cons.prems(1) True by simp
    note IH = Cons.IH [OF this]
    have "\<forall>x \<in> set xs. fst x = instance_uuid (fst (snd x))" using Cons.prems(2) by simp
    from IH [OF this] first True show ?thesis by (simp add: x del: fun_upd_apply)
  next
    case False
    then show ?thesis by (auto simp: x rbind_Inr_conv)
  qed
qed simp

lemma validate_slot_instances_iff:
  "(\<forall>u p. claimed u = Some p \<longrightarrow> (\<exists>a raw. map_of (fa_instances F) u = Some (a, raw) \<and> map_slot a = p)) \<Longrightarrow>
    (\<forall>x \<in> set xs. fst x = map_slot (fst (snd x))) \<Longrightarrow>
    validate_slot_instances F xs claimed = Inr () \<longleftrightarrow>
    (\<forall>x \<in> set xs. map_of (fa_instances F) (instance_uuid (fst (snd x))) = Some (snd x))"
proof (induction xs arbitrary: claimed)
  case (Cons x xs)
  obtain a raw where x: "x = (map_slot a, a, raw)" using Cons.prems(2) by (cases x) auto
  show ?case
  proof (cases "map_of (fa_instances F) (instance_uuid a) = Some (a, raw)")
    case True
    have first: "\<forall>p \<in> set_option (claimed (instance_uuid a)). p = map_slot a"
      using Cons.prems(1) True by force
    have "\<forall>u p. (claimed(instance_uuid a \<mapsto> map_slot a)) u = Some p \<longrightarrow>
        (\<exists>a raw. map_of (fa_instances F) u = Some (a, raw) \<and> map_slot a = p)"
      using Cons.prems(1) True by simp
    note IH = Cons.IH [OF this]
    have "\<forall>x \<in> set xs. fst x = map_slot (fst (snd x))" using Cons.prems(2) by simp
    from IH [OF this] first True show ?thesis by (simp add: x del: fun_upd_apply)
  next
    case False
    then show ?thesis by (auto simp: x rbind_Inr_conv)
  qed
qed simp

lemma as_views:
  "as_instance e = Some x \<longleftrightarrow> (\<exists>a raw. e = InstanceEntry a raw \<and> x = (instance_uuid a, a, raw))"
  "as_slot e = Some y \<longleftrightarrow> (\<exists>a raw. e = SlotEntry a raw \<and> y = (map_slot a, a, raw))"
  "as_intent e = Some z \<longleftrightarrow> (\<exists>i raw. e = IntentEntry i raw \<and> z = (instance_uuid i, i))"
  "as_claim e = Some w \<longleftrightarrow> (\<exists>c raw. e = ClaimEntry c raw \<and> w = ((host_id c, instance_uuid c), c))"
  "as_fence e = Some v \<longleftrightarrow> (\<exists>h u t raw. e = FenceEntry h u t raw \<and> v = ((h, u), t, raw))"
  by (cases e; auto)+

lemma ball_views:
  "(\<forall>x \<in> set (view as_instance es). P1 x) \<longleftrightarrow>
     (\<forall>a raw. InstanceEntry a raw \<in> set es \<longrightarrow> P1 (instance_uuid a, a, raw))"
  "(\<forall>y \<in> set (view as_slot es). P2 y) \<longleftrightarrow>
     (\<forall>a raw. SlotEntry a raw \<in> set es \<longrightarrow> P2 (map_slot a, a, raw))"
  "(\<forall>z \<in> set (view as_intent es). P3 z) \<longleftrightarrow>
     (\<forall>i raw. IntentEntry i raw \<in> set es \<longrightarrow> P3 (instance_uuid i, i))"
  "(\<forall>w \<in> set (view as_claim es). P4 w) \<longleftrightarrow>
     (\<forall>c raw. ClaimEntry c raw \<in> set es \<longrightarrow> P4 ((host_id c, instance_uuid c), c))"
  "(\<forall>v \<in> set (view as_fence es). P5 v) \<longleftrightarrow>
     (\<forall>h u t raw. FenceEntry h u t raw \<in> set es \<longrightarrow> P5 ((h, u), t, raw))"
  unfolding Ball_def set_view as_views by blast+

lemma families_of_simps [simp]:
  "fa_instances (families_of es) = view as_instance es" "fa_slots (families_of es) = view as_slot es"
  "fa_intents (families_of es) = view as_intent es" "fa_claims (families_of es) = view as_claim es"
  "fa_fences (families_of es) = map (\<lambda>(k, t, raw). (k, t)) (view as_fence es)"
  by (simp_all add: families_of_def)

lemma slot_relationships_iff:
  assumes ok: "entries_ok A es"
  shows "audit_validate_slot_relationships (families_of es) = Inr () \<longleftrightarrow> slots_match es"
proof -
  note L = entries_lookup [OF ok]
  have 1: "validate_instance_slots (families_of es) (view as_instance es) (\<lambda>_. None) = Inr () \<longleftrightarrow>
      (\<forall>a raw. InstanceEntry a raw \<in> set es \<longrightarrow> SlotEntry a raw \<in> set es)"
    by (subst validate_instance_slots_iff) (auto simp: L ball_views)
  have 2: "validate_slot_instances (families_of es) (view as_slot es) (\<lambda>_. None) = Inr () \<longleftrightarrow>
      (\<forall>a raw. SlotEntry a raw \<in> set es \<longrightarrow> InstanceEntry a raw \<in> set es)"
    by (subst validate_slot_instances_iff) (auto simp: L ball_views)
  show ?thesis
    by (auto simp: audit_validate_slot_relationships_def rbind_Inr_conv 1 2 slots_match_def)
qed

lemma release_relationships_iff:
  assumes ok: "entries_ok A es"
  shows "audit_validate_release_relationships (families_of es) = Inr () \<longleftrightarrow> intents_match es"
proof -
  have "release_relationship_ok (families_of es) (instance_uuid i, i) \<longleftrightarrow>
      (\<exists>a raw. InstanceEntry a raw \<in> set es \<and> same_generation a i)" for i
  proof (cases "map_of (view as_instance es) (instance_uuid i)")
    case None
    then have "InstanceEntry a raw \<notin> set es" if "same_generation a i" for a raw
      using entries_lookup(1) [OF ok, of "instance_uuid i" a raw] that by (simp add: same_generation_def)
    with None show ?thesis by (auto simp: release_relationship_ok_def)
  next
    case (Some v)
    obtain a raw where v: "v = (a, raw)" by (cases v)
    have "InstanceEntry a raw \<in> set es" using Some v entries_lookup(1) [OF ok] by simp
    moreover have "b = a" if "InstanceEntry b r \<in> set es" "same_generation b i" for b r
      using entries_lookup(1) [OF ok, of "instance_uuid i" b r] that Some v
      by (simp add: same_generation_def)
    ultimately show ?thesis using Some v by (auto simp: release_relationship_ok_def)
  qed
  then show ?thesis
    by (simp add: audit_validate_release_relationships_def list_all_iff ball_views intents_match_def)
qed

lemma host_relationships_iff:
  assumes ok: "entries_ok A es"
  shows "audit_validate_host_relationships (families_of es) = Inr () \<longleftrightarrow> claims_match A es"
proof -
  note L = entries_lookup [OF ok]
  have 1: "allocation_claims_ok (families_of es) (instance_uuid a, a, raw) \<longleftrightarrow>
      (\<forall>h \<in> set (host_ids a). \<exists>c. ClaimEntry c (enc_claim A c) \<in> set es \<and> host_id c = h \<and>
        same_generation c a)" for a raw
  proof -
    have "(case map_of (view as_claim es) (h, instance_uuid a) of None \<Rightarrow> False
        | Some c \<Rightarrow> same_generation c a) \<longleftrightarrow>
      (\<exists>c. ClaimEntry c (enc_claim A c) \<in> set es \<and> host_id c = h \<and> same_generation c a)" for h
    proof (cases "map_of (view as_claim es) (h, instance_uuid a)")
      case None
      then show ?thesis using L(4) [of h "instance_uuid a"] by (force simp: same_generation_def)
    next
      case (Some c)
      then have "ClaimEntry c (enc_claim A c) \<in> set es" "host_id c = h" unfolding L(4) by blast+
      moreover have "d = c" if "ClaimEntry d (enc_claim A d) \<in> set es" "host_id d = h"
        "same_generation d a" for d
      proof -
        have "map_of (view as_claim es) (h, instance_uuid a) = Some d"
          unfolding L(4) using that by (simp add: same_generation_def)
        with Some show ?thesis by simp
      qed
      ultimately have "(\<exists>c. ClaimEntry c (enc_claim A c) \<in> set es \<and> host_id c = h \<and> same_generation c a) \<longleftrightarrow>
          same_generation c a" by blast
      with Some show ?thesis by simp
    qed
    then show ?thesis by (simp add: allocation_claims_ok_def list_all_iff)
  qed
  have 2: "claim_allocation_ok (families_of es) ((host_id c, instance_uuid c), c) \<longleftrightarrow>
      (\<exists>a raw. InstanceEntry a raw \<in> set es \<and> host_id c \<in> set (host_ids a) \<and> same_generation c a)" for c
  proof (cases "map_of (view as_instance es) (instance_uuid c)")
    case None
    then show ?thesis using L(1) [of "instance_uuid c"] by (force simp: claim_allocation_ok_def same_generation_def)
  next
    case (Some v)
    obtain a raw where v: "v = (a, raw)" by (cases v)
    have "InstanceEntry a raw \<in> set es" using Some v L(1) by simp
    moreover have "b = a" if "InstanceEntry b r \<in> set es" "same_generation c b" for b r
      using L(1) [of "instance_uuid c" b r] that Some v by (simp add: same_generation_def)
    ultimately show ?thesis using Some v by (auto simp: claim_allocation_ok_def)
  qed
  have "list_all (allocation_claims_ok (families_of es)) (view as_instance es) \<longleftrightarrow>
      (\<forall>a raw. InstanceEntry a raw \<in> set es \<longrightarrow> (\<forall>h \<in> set (host_ids a).
        \<exists>c. ClaimEntry c (enc_claim A c) \<in> set es \<and> host_id c = h \<and> same_generation c a))"
    by (simp only: list_all_iff ball_views 1)
  moreover have "list_all (claim_allocation_ok (families_of es)) (view as_claim es) \<longleftrightarrow>
      (\<forall>c raw. ClaimEntry c raw \<in> set es \<longrightarrow>
        (\<exists>a raw'. InstanceEntry a raw' \<in> set es \<and> host_id c \<in> set (host_ids a) \<and> same_generation c a))"
    by (simp only: list_all_iff ball_views 2)
  ultimately show ?thesis
    by (simp only: audit_validate_host_relationships_def rbind_Inr_conv check_Inr families_of_simps
        claims_match_def ex_simps simp_thms)
qed

lemma fence_relationships_iff:
  assumes ok: "entries_ok A es"
  shows "audit_validate_fence_relationships (families_of es) = Inr () \<longleftrightarrow> fences_match es"
proof -
  note L = entries_lookup [OF ok]
  have raw: "raw = enc_claim A c" if "ClaimEntry c raw \<in> set es" for c raw
    using ok that by (auto simp: entries_ok_def list_all_iff)
  have "fence_relationship_ok (families_of es) ((h, u), t) \<longleftrightarrow>
      (\<forall>token c raw. t = Some token \<longrightarrow> ClaimEntry c raw \<in> set es \<longrightarrow> host_id c = h \<longrightarrow>
        instance_uuid c = u \<longrightarrow> materialization_id c \<noteq> token)" for h u t
  proof (cases "map_of (view as_claim es) (h, u)")
    case None
    have "\<not> (ClaimEntry c raw \<in> set es \<and> host_id c = h \<and> instance_uuid c = u)" for c raw
    proof (rule notI)
      assume "ClaimEntry c raw \<in> set es \<and> host_id c = h \<and> instance_uuid c = u"
      with raw [of c raw] have "map_of (view as_claim es) (h, u) = Some c" unfolding L(4) by blast
      with None show False by simp
    qed
    with None show ?thesis by (auto simp: fence_relationship_ok_def split: option.splits)
  next
    case (Some c)
    then have c: "ClaimEntry c (enc_claim A c) \<in> set es" "host_id c = h" "instance_uuid c = u"
      unfolding L(4) by blast+
    have uniq: "d = c" if "ClaimEntry d r \<in> set es" "host_id d = h" "instance_uuid d = u" for d r
    proof -
      have "map_of (view as_claim es) (h, u) = Some d" unfolding L(4) using raw that by blast
      with Some show ?thesis by simp
    qed
    show ?thesis
    proof (cases t)
      case None
      then show ?thesis by (simp add: fence_relationship_ok_def)
    next
      case (Some token)
      have "(\<forall>d r. ClaimEntry d r \<in> set es \<longrightarrow> host_id d = h \<longrightarrow> instance_uuid d = u \<longrightarrow>
          materialization_id d \<noteq> token) \<longleftrightarrow> materialization_id c \<noteq> token"
        using c uniq by blast
      with Some \<open>map_of (view as_claim es) (h, u) = Some c\<close> show ?thesis
        by (simp add: fence_relationship_ok_def)
    qed
  qed
  then show ?thesis
    by (simp add: audit_validate_fence_relationships_def list_all_iff ball_views fences_match_def
        split_beta) blast
qed

section \<open>The registry of the entries\<close>

definition registry_of :: "'b \<Rightarrow> 'b entry list \<Rightarrow> 'b registry" where
  "registry_of cfg es =
     \<lparr>rg_config = cfg,
      rg_insts = (\<lambda>u. map_option fst (map_of (view as_instance es) u)),
      rg_intents = map_of (view as_intent es), rg_claims = map_of (view as_claim es),
      rg_fences = (\<lambda>k. map_option snd (map_of (view as_fence es) k))\<rparr>"

text \<open>No fence entry names the token of a live claim.\<close>

definition fences_clear :: "'b allocator \<Rightarrow> 'b registry \<Rightarrow> bool" where
  "fences_clear A R \<longleftrightarrow>
     (\<forall>h u raw c p t. rg_fences R (h, u) = Some raw \<longrightarrow> rg_claims R (h, u) = Some c \<longrightarrow>
        parse_fence_record A raw = Inr (p, Some t) \<longrightarrow> materialization_id c \<noteq> t)"

definition all_match :: "'b allocator \<Rightarrow> 'b entry list \<Rightarrow> bool" where
  "all_match A es \<longleftrightarrow> fences_match es \<and> slots_match es \<and> intents_match es \<and> claims_match A es"

lemma registry_of_lookup:
  assumes ok: "entries_ok A es"
  shows "rg_insts (registry_of cfg es) u = Some a \<longleftrightarrow> InstanceEntry a (enc_assignment A a) \<in> set es \<and> instance_uuid a = u"
    and "rg_intents (registry_of cfg es) u = Some i \<longleftrightarrow> IntentEntry i (enc_intent A i) \<in> set es \<and> instance_uuid i = u"
    and "rg_claims (registry_of cfg es) (h, u) = Some c \<longleftrightarrow>
      ClaimEntry c (enc_claim A c) \<in> set es \<and> host_id c = h \<and> instance_uuid c = u"
    and "rg_fences (registry_of cfg es) (h, u) = Some raw \<longleftrightarrow> (\<exists>t. FenceEntry h u t raw \<in> set es)"
proof -
  have "InstanceEntry a raw \<in> set es \<Longrightarrow> raw = enc_assignment A a" for raw
    using ok by (auto simp: entries_ok_def list_all_iff)
  then show "rg_insts (registry_of cfg es) u = Some a \<longleftrightarrow> InstanceEntry a (enc_assignment A a) \<in> set es \<and> instance_uuid a = u"
    using entries_lookup(1) [OF ok, of u a] by (auto simp: registry_of_def)
qed (auto simp: registry_of_def entries_lookup [OF ok])

lemma entries_okD:
  assumes "entries_ok A es" and "e \<in> set es"
  shows "entry_ok A e"
  using assms by (simp add: entries_ok_def list_all_iff)

lemma registry_of_ok:
  assumes A: "allocator_ok A" and ok: "entries_ok A es" and m: "all_match A es"
    and cfg: "validate_configuration A cfg = Inr ()"
  shows "registry_ok A (registry_of cfg es)" and "fences_clear A (registry_of cfg es)"
proof -
  let ?R = "registry_of cfg es"
  note L = registry_of_lookup [OF ok, of cfg] and D = entries_okD [OF ok]
  have inst: "insts_ok A ?R" using D by (force simp: insts_ok_def L)
  have slot: "slots_ok ?R"
    unfolding slots_ok_def L
  proof (intro allI impI, elim conjE)
    fix u u' a a'
    assume a: "InstanceEntry a (enc_assignment A a) \<in> set es" "InstanceEntry a' (enc_assignment A a') \<in> set es"
      and s: "map_slot a = map_slot a'" and u: "instance_uuid a = u" "instance_uuid a' = u'"
    have "SlotEntry a (enc_assignment A a) \<in> set es" "SlotEntry a' (enc_assignment A a') \<in> set es"
      using m a by (simp_all add: all_match_def slots_match_def)
    then have "a = a'"
      using entries_lookup(2) [OF ok, of "map_slot a"] s by (metis option.inject prod.inject)
    with u show "u = u'" by simp
  qed
  have intents: "intents_ok A ?R"
    unfolding intents_ok_def L
  proof (intro allI impI, elim conjE)
    fix u i
    assume i: "IntentEntry i (enc_intent A i) \<in> set es" and u: "instance_uuid i = u"
    obtain a raw where a: "InstanceEntry a raw \<in> set es" "same_generation a i"
      using m i by (auto simp: all_match_def intents_match_def)
    have "raw = enc_assignment A a" using D [OF a(1)] by simp
    with a i u D [OF i] show "valid_intent A i \<and> instance_uuid i = u \<and>
        (\<exists>a. (InstanceEntry a (enc_assignment A a) \<in> set es \<and> instance_uuid a = u) \<and> same_generation a i)"
      by (auto simp: same_generation_def)
  qed
  have claims: "claims_ok A ?R"
    unfolding claims_ok_def L
  proof (intro allI impI, elim conjE)
    fix h u c
    assume c: "ClaimEntry c (enc_claim A c) \<in> set es" and k: "host_id c = h" "instance_uuid c = u"
    obtain a raw where a: "InstanceEntry a raw \<in> set es" "host_id c \<in> set (host_ids a)" "same_generation c a"
      using m c by (force simp: all_match_def claims_match_def)
    have "raw = enc_assignment A a" using D [OF a(1)] by simp
    with a c k D [OF c] show "valid_claim A c \<and> host_id c = h \<and> instance_uuid c = u \<and>
        (\<exists>a. (InstanceEntry a (enc_assignment A a) \<in> set es \<and> instance_uuid a = u) \<and>
          same_generation c a \<and> h \<in> set (host_ids a))"
      by (auto simp: same_generation_def)
  qed
  have hosts: "hosts_ok ?R"
    unfolding hosts_ok_def
  proof (intro allI impI)
    fix u a h
    assume "rg_insts ?R u = Some a" and h: "h \<in> set (host_ids a)"
    then have a: "InstanceEntry a (enc_assignment A a) \<in> set es" "instance_uuid a = u"
      by (simp_all add: L)
    have "claims_match A es" using m by (simp add: all_match_def)
    with a h obtain c where "ClaimEntry c (enc_claim A c) \<in> set es" "host_id c = h" "same_generation c a"
      unfolding claims_match_def by blast
    with a(2) have "rg_claims ?R (h, u) = Some c" by (simp add: L same_generation_def)
    then show "rg_claims ?R (h, u) \<noteq> None" by simp
  qed
  have "fences_ok A ?R"
    unfolding fences_ok_def L using D by force
  with inst slot intents claims hosts cfg show "registry_ok A ?R"
    by (simp add: registry_ok_def) (simp add: registry_of_def)
  show "fences_clear A ?R"
    unfolding fences_clear_def L
  proof (intro allI impI, elim exE conjE)
    fix h u raw c p t t'
    assume f: "FenceEntry h u t' raw \<in> set es" and p: "parse_fence_record A raw = Inr (p, Some t)"
      and c: "ClaimEntry c (enc_claim A c) \<in> set es" "host_id c = h" "instance_uuid c = u"
    have "t' = Some t" using D [OF f] p by auto
    with f have "FenceEntry h u (Some t) raw \<in> set es" by simp
    with c m show "materialization_id c \<noteq> t" unfolding all_match_def fences_match_def by blast
  qed
qed

section \<open>Entries and stores\<close>

abbreviation record_of :: "'b allocator \<Rightarrow> 'b entry \<Rightarrow> string \<times> 'b" where
  "record_of A e \<equiv> (entry_key A e, entry_raw e)"

lemma map_result_classify:
  assumes A: "allocator_ok A"
  shows "map_result (\<lambda>(k, r). classify A k r) rs = Inr es \<longleftrightarrow>
    rs = map (record_of A) es \<and> list_all (entry_ok A) es"
proof (induction rs arbitrary: es)
  case (Cons kr rs)
  obtain k r where kr: "kr = (k, r)" by (cases kr)
  show ?case
    by (cases es) (auto simp: kr rbind_Inr_conv Cons.IH classify_iff [OF A])
qed auto

text \<open>The store holds the configuration and exactly the records of the entries.\<close>

definition holds_entries :: "'b allocator \<Rightarrow> (string \<Rightarrow> 'b option) \<Rightarrow> 'b \<Rightarrow> 'b entry list \<Rightarrow> bool" where
  "holds_entries A st cfg es \<longleftrightarrow>
     st (configuration_key A) = Some cfg \<and>
     (\<forall>k r. k \<noteq> configuration_key A \<longrightarrow> (st k = Some r \<longleftrightarrow> (\<exists>e \<in> set es. record_of A e = (k, r))))"

lemma holds_entries_of:
  assumes "distinct (map fst entries)" and "map_of entries (configuration_key A) = Some cfg"
    and "filter (\<lambda>kv. fst kv \<noteq> configuration_key A) entries = map (record_of A) es"
  shows "holds_entries A (map_of entries) cfg es"
proof -
  have "map_of entries k = Some r \<longleftrightarrow> (\<exists>e \<in> set es. record_of A e = (k, r))"
    if "k \<noteq> configuration_key A" for k r
  proof -
    have "map_of entries k = Some r \<longleftrightarrow> (k, r) \<in> set (filter (\<lambda>kv. fst kv \<noteq> configuration_key A) entries)"
      using that by (simp add: map_of_eq_Some_iff [OF assms(1)])
    also have "\<dots> \<longleftrightarrow> (\<exists>e \<in> set es. record_of A e = (k, r))" by (force simp: assms(3))
    finally show ?thesis .
  qed
  with assms(2) show ?thesis by (simp add: holds_entries_def)
qed

lemma holds_entriesD:
  assumes "holds_entries A st cfg es" and "k \<noteq> configuration_key A"
  shows "st k = Some r \<longleftrightarrow> (\<exists>e \<in> set es. entry_key A e = k \<and> entry_raw e = r)"
  using assms by (simp add: holds_entries_def)

text \<open>What the store holds under each kind of key.\<close>

lemma entry_key_iff:
  "entry_key A e = instance_key_of A u \<longleftrightarrow> (\<exists>a raw. e = InstanceEntry a raw \<and> instance_uuid a = u)"
  "entry_key A e = slot_key_of A s \<longleftrightarrow> (\<exists>a raw. e = SlotEntry a raw \<and> map_slot a = s)"
  "entry_key A e = release_key_of A u \<longleftrightarrow> (\<exists>i raw. e = IntentEntry i raw \<and> instance_uuid i = u)"
  "entry_ok A e \<Longrightarrow> canonical_uuid h \<Longrightarrow> entry_key A e = host_claim_key_of A h u \<longleftrightarrow>
     (\<exists>c raw. e = ClaimEntry c raw \<and> host_id c = h \<and> instance_uuid c = u)"
  "entry_ok A e \<Longrightarrow> canonical_uuid h \<Longrightarrow> entry_key A e = fence_key_of A h u \<longleftrightarrow>
     (\<exists>t raw. e = FenceEntry h u t raw)"
  by (cases e; auto simp: valid_claim_def)+

lemma stored_entries:
  assumes ok: "entries_ok A es" and st: "holds_entries A st cfg es"
  shows "st (instance_key_of A u) = Some r \<longleftrightarrow>
      (\<exists>a. InstanceEntry a r \<in> set es \<and> instance_uuid a = u)"
    and "st (slot_key_of A s) = Some r \<longleftrightarrow> (\<exists>a. SlotEntry a r \<in> set es \<and> map_slot a = s)"
    and "st (release_key_of A u) = Some r \<longleftrightarrow> (\<exists>i. IntentEntry i r \<in> set es \<and> instance_uuid i = u)"
    and "canonical_uuid h \<Longrightarrow> st (host_claim_key_of A h u) = Some r \<longleftrightarrow>
      (\<exists>c. ClaimEntry c r \<in> set es \<and> host_id c = h \<and> instance_uuid c = u)"
    and "canonical_uuid h \<Longrightarrow> st (fence_key_of A h u) = Some r \<longleftrightarrow> (\<exists>t. FenceEntry h u t r \<in> set es)"
proof -
  note D = holds_entriesD [OF st]
  show "st (instance_key_of A u) = Some r \<longleftrightarrow> (\<exists>a. InstanceEntry a r \<in> set es \<and> instance_uuid a = u)"
    by (subst D) (force simp: entry_key_iff)+
  show "st (slot_key_of A s) = Some r \<longleftrightarrow> (\<exists>a. SlotEntry a r \<in> set es \<and> map_slot a = s)"
    by (subst D) (force simp: entry_key_iff)+
  show "st (release_key_of A u) = Some r \<longleftrightarrow> (\<exists>i. IntentEntry i r \<in> set es \<and> instance_uuid i = u)"
    by (subst D) (force simp: entry_key_iff)+
  show "st (host_claim_key_of A h u) = Some r \<longleftrightarrow>
      (\<exists>c. ClaimEntry c r \<in> set es \<and> host_id c = h \<and> instance_uuid c = u)" if "canonical_uuid h"
    by (subst D) (use that entries_okD [OF ok] in \<open>force simp: entry_key_iff\<close>)+
  show "st (fence_key_of A h u) = Some r \<longleftrightarrow> (\<exists>t. FenceEntry h u t r \<in> set es)" if "canonical_uuid h"
    by (subst D) (use that entries_okD [OF ok] in \<open>force simp: entry_key_iff\<close>)+
qed

lemma option_eqI: "(\<And>r. x = Some r \<longleftrightarrow> y = Some r) \<Longrightarrow> x = y"
  by (cases x; cases y) auto

lemma represents_of_entries:
  assumes ok: "entries_ok A es" and st: "holds_entries A st cfg es" and m: "slots_match es"
  shows "represents A (registry_of cfg es) st"
proof (rule representsI)
  note L = registry_of_lookup [OF ok, of cfg] and S = stored_entries [OF ok st] and D = entries_okD [OF ok]
  show "st (configuration_key A) = Some (rg_config (registry_of cfg es))"
    using st by (simp add: holds_entries_def registry_of_def)
  show "st (instance_key_of A u) = map_option (enc_assignment A) (rg_insts (registry_of cfg es) u)" for u
    by (rule option_eqI) (use D in \<open>force simp: S L\<close>)
  show "st (slot_key_of A (map_slot a)) = Some (enc_assignment A a)"
    if "rg_insts (registry_of cfg es) u = Some a" for u a
    using that m by (auto simp: S L slots_match_def)
  show "st (slot_key_of A s) = None" if free: "slot_free (registry_of cfg es) s" for s
  proof (rule ccontr)
    assume "st (slot_key_of A s) \<noteq> None"
    then obtain a r where a: "SlotEntry a r \<in> set es" "map_slot a = s" by (auto simp: S)
    then have "InstanceEntry a (enc_assignment A a) \<in> set es" using m D [OF a(1)] by (auto simp: slots_match_def)
    then have "rg_insts (registry_of cfg es) (instance_uuid a) = Some a" by (simp add: L)
    with free a show False by (auto simp: slot_free_def)
  qed
  show "st (release_key_of A u) = map_option (enc_intent A) (rg_intents (registry_of cfg es) u)" for u
    by (rule option_eqI) (use D in \<open>force simp: S L\<close>)
  show "st (host_claim_key_of A h u) = map_option (enc_claim A) (rg_claims (registry_of cfg es) (h, u))"
    if "canonical_uuid h" for h u
    by (rule option_eqI) (use D that in \<open>force simp: S L\<close>)
  show "st (fence_key_of A h u) = rg_fences (registry_of cfg es) (h, u)" if "canonical_uuid h" for h u
    by (rule option_eqI) (use that in \<open>simp add: S L\<close>)
  show "st k = None" if "in_namespace A k" "\<not> known_key A k" for k
  proof (rule ccontr)
    assume "st k \<noteq> None"
    moreover have "k \<noteq> configuration_key A" using that by auto
    ultimately obtain e where e: "e \<in> set es" "entry_key A e = k"
      using holds_entriesD [OF st] by fastforce
    with D [OF e(1)] that(2) show False by (cases e) (auto simp: valid_claim_def)
  qed
qed

section \<open>Every valid registry is accepted\<close>

lemma entry_exists:
  assumes R: "registry_ok A R" and rep: "represents A R st"
    and k: "in_namespace A k" "k \<noteq> configuration_key A" and r: "st k = Some r"
  shows "\<exists>e. entry_ok A e \<and> record_of A e = (k, r)"
proof -
  note ok = registry_okD [OF R] and D = representsD [OF rep]
  have "known_key A k" using D(8) k(1) r by force
  with k(2) consider u where "k = instance_key_of A u" | s where "k = slot_key_of A s"
    | u where "k = release_key_of A u" | h u where "canonical_uuid h" "k = host_claim_key_of A h u"
    | h u where "canonical_uuid h" "k = fence_key_of A h u"
    unfolding known_key_def by blast
  then show ?thesis
  proof cases
    case 1
    then obtain a where a: "rg_insts R u = Some a" "r = enc_assignment A a" using r by (auto simp: D)
    then have "valid_assignment A a" "instance_uuid a = u" using ok(1) by (auto simp: insts_ok_def)
    with 1 a show ?thesis by (intro exI [of _ "InstanceEntry a r"]) simp
  next
    case 2
    then have "\<not> slot_free R s" using r D(4) by force
    then obtain u a where a: "rg_insts R u = Some a" "map_slot a = s" by (auto simp: slot_free_def)
    then have "valid_assignment A a" "r = enc_assignment A a"
      using ok(1) D(3) [OF a(1)] 2 r by (auto simp: insts_ok_def)
    with 2 a show ?thesis by (intro exI [of _ "SlotEntry a r"]) simp
  next
    case 3
    then obtain i where i: "rg_intents R u = Some i" "r = enc_intent A i" using r by (auto simp: D)
    then have "valid_intent A i" "instance_uuid i = u" using ok(3) by (auto simp: intents_ok_def)
    with 3 i show ?thesis by (intro exI [of _ "IntentEntry i r"]) simp
  next
    case 4
    then obtain c where c: "rg_claims R (h, u) = Some c" "r = enc_claim A c" using r by (auto simp: D)
    then have "valid_claim A c" "host_id c = h" "instance_uuid c = u" using ok(4) by (auto simp: claims_ok_def)
    with 4 c show ?thesis by (intro exI [of _ "ClaimEntry c r"]) simp
  next
    case 5
    then have "rg_fences R (h, u) = Some r" using r by (simp add: D)
    then obtain p t where "canonical_uuid u" "parse_fence_record A r = Inr (p, t)" "f_host_id p = h"
      "f_instance_uuid p = u" using ok(6) unfolding fences_ok_def by blast
    with 5 show ?thesis by (intro exI [of _ "FenceEntry h u t r"]) simp
  qed
qed

lemma entries_exist:
  assumes R: "registry_ok A R" and rep: "represents A R st"
  shows "\<forall>(k, r) \<in> set rs. in_namespace A k \<and> k \<noteq> configuration_key A \<and> st k = Some r \<Longrightarrow>
    \<exists>es. rs = map (record_of A) es \<and> list_all (entry_ok A) es"
proof (induction rs)
  case (Cons kr rs)
  then obtain es where es: "rs = map (record_of A) es" "list_all (entry_ok A) es" by auto
  obtain e where "entry_ok A e" "record_of A e = kr"
    using entry_exists [OF R rep, of "fst kr" "snd kr"] Cons.prems by (cases kr) auto
  with es show ?case by (intro exI [of _ "e # es"]) simp
qed simp

lemma registry_of_entries:
  assumes A: "allocator_ok A" and R: "registry_ok A R" and rep: "represents A R st"
    and ok: "entries_ok A es" and st: "holds_entries A st cfg es"
  shows "registry_of cfg es = R"
proof -
  note L = registry_of_lookup [OF ok, of cfg] and S = stored_entries [OF ok st]
    and D = entries_okD [OF ok] and RD = representsD [OF rep] and RO = registry_okD [OF R]
  have "rg_config (registry_of cfg es) = rg_config R"
    using st RD(1) by (simp add: holds_entries_def registry_of_def)
  moreover have "rg_insts (registry_of cfg es) u = rg_insts R u" for u
  proof (rule option_eqI)
    fix a
    have "rg_insts (registry_of cfg es) u = Some a \<longleftrightarrow>
        valid_assignment A a \<and> instance_uuid a = u \<and> st (instance_key_of A u) = Some (enc_assignment A a)"
    proof
      assume "rg_insts (registry_of cfg es) u = Some a"
      then show "valid_assignment A a \<and> instance_uuid a = u \<and> st (instance_key_of A u) = Some (enc_assignment A a)"
        using D by (force simp: L S)
    next
      assume v: "valid_assignment A a \<and> instance_uuid a = u \<and> st (instance_key_of A u) = Some (enc_assignment A a)"
      then obtain b where b: "InstanceEntry b (enc_assignment A a) \<in> set es" "instance_uuid b = u"
        by (auto simp: S)
      then have "b = a" using D [OF b(1)] v enc_assignment_inject [OF A] by auto
      with b show "rg_insts (registry_of cfg es) u = Some a" by (simp add: L)
    qed
    also have "\<dots> \<longleftrightarrow> rg_insts R u = Some a"
      using instance_value_iff [OF A R rep] RO(1) by (auto simp: insts_ok_def)
    finally show "rg_insts (registry_of cfg es) u = Some a \<longleftrightarrow> rg_insts R u = Some a" .
  qed
  moreover have "rg_intents (registry_of cfg es) u = rg_intents R u" for u
  proof (rule option_eqI)
    fix i
    have "rg_intents (registry_of cfg es) u = Some i \<longleftrightarrow>
        valid_intent A i \<and> instance_uuid i = u \<and> st (release_key_of A u) = Some (enc_intent A i)"
    proof
      assume "rg_intents (registry_of cfg es) u = Some i"
      then show "valid_intent A i \<and> instance_uuid i = u \<and> st (release_key_of A u) = Some (enc_intent A i)"
        using D by (force simp: L S)
    next
      assume v: "valid_intent A i \<and> instance_uuid i = u \<and> st (release_key_of A u) = Some (enc_intent A i)"
      then obtain b where b: "IntentEntry b (enc_intent A i) \<in> set es" "instance_uuid b = u"
        by (auto simp: S)
      then have "b = i" using D [OF b(1)] v enc_intent_inject [OF A] by auto
      with b show "rg_intents (registry_of cfg es) u = Some i" by (simp add: L)
    qed
    also have "\<dots> \<longleftrightarrow> rg_intents R u = Some i"
      using intent_value_iff [OF A R rep] RO(3) by (auto simp: intents_ok_def)
    finally show "rg_intents (registry_of cfg es) u = Some i \<longleftrightarrow> rg_intents R u = Some i" .
  qed
  moreover have "rg_claims (registry_of cfg es) (h, u) = rg_claims R (h, u)" for h u
  proof (rule option_eqI)
    fix c
    have "rg_claims (registry_of cfg es) (h, u) = Some c \<longleftrightarrow> valid_claim A c \<and> host_id c = h \<and>
        instance_uuid c = u \<and> st (host_claim_key_of A h u) = Some (enc_claim A c)"
    proof
      assume "rg_claims (registry_of cfg es) (h, u) = Some c"
      then have c: "ClaimEntry c (enc_claim A c) \<in> set es" "host_id c = h" "instance_uuid c = u"
        by (simp_all add: L)
      then have "valid_claim A c" using D by fastforce
      moreover from this have "canonical_uuid h" using c by (simp add: valid_claim_def)
      ultimately show "valid_claim A c \<and> host_id c = h \<and> instance_uuid c = u \<and>
          st (host_claim_key_of A h u) = Some (enc_claim A c)" using c by (auto simp: S)
    next
      assume v: "valid_claim A c \<and> host_id c = h \<and> instance_uuid c = u \<and>
          st (host_claim_key_of A h u) = Some (enc_claim A c)"
      then have "canonical_uuid h" by (auto simp: valid_claim_def)
      then obtain b where b: "ClaimEntry b (enc_claim A c) \<in> set es" "host_id b = h" "instance_uuid b = u"
        using v S(4) by blast
      then have "b = c" using D [OF b(1)] v enc_claim_inject [OF A] by auto
      with b show "rg_claims (registry_of cfg es) (h, u) = Some c" by (simp add: L)
    qed
    also have "\<dots> \<longleftrightarrow> rg_claims R (h, u) = Some c"
    proof -
      have "valid_claim A c \<Longrightarrow> canonical_uuid (host_id c)" by (simp add: valid_claim_def)
      moreover have "rg_claims R (h, u) = Some c \<Longrightarrow> valid_claim A c \<and> host_id c = h \<and> instance_uuid c = u"
        using RO(4) unfolding claims_ok_def by blast
      ultimately show ?thesis using claim_value_iff [OF A R rep, of c h u] by blast
    qed
    finally show "rg_claims (registry_of cfg es) (h, u) = Some c \<longleftrightarrow> rg_claims R (h, u) = Some c" .
  qed
  moreover have "rg_fences (registry_of cfg es) (h, u) = rg_fences R (h, u)" for h u
  proof (rule option_eqI)
    fix raw
    show "rg_fences (registry_of cfg es) (h, u) = Some raw \<longleftrightarrow> rg_fences R (h, u) = Some raw"
    proof (cases "canonical_uuid h")
      case True
      then show ?thesis using S(5) [OF True, of u raw] RD(7) [OF True, of u] by (simp add: L)
    next
      case False
      have "FenceEntry h u t raw \<notin> set es" for t using D False by fastforce
      moreover have "rg_fences R (h, u) \<noteq> Some raw" using RO(6) False by (auto simp: fences_ok_def)
      ultimately show ?thesis by (simp add: L)
    qed
  qed
  ultimately show ?thesis by (intro registry.equality ext) auto
qed

lemma registry_all_match:
  assumes A: "allocator_ok A" and ok: "entries_ok A es" and st: "holds_entries A st cfg es"
    and R: "registry_ok A (registry_of cfg es)" and rep: "represents A (registry_of cfg es) st"
    and clear: "fences_clear A (registry_of cfg es)"
  shows "all_match A es"
proof -
  note L = registry_of_lookup [OF ok, of cfg] and S = stored_entries [OF ok st]
    and D = entries_okD [OF ok] and RD = representsD [OF rep] and RO = registry_okD [OF R]
  have slots: "slots_match es"
    unfolding slots_match_def
  proof (intro allI iffI)
    fix a raw
    assume a: "InstanceEntry a raw \<in> set es"
    then have raw: "raw = enc_assignment A a" "valid_assignment A a" using D by fastforce+
    with a have "rg_insts (registry_of cfg es) (instance_uuid a) = Some a" by (simp add: L)
    from RD(3) [OF this] obtain b where b: "SlotEntry b raw \<in> set es" by (auto simp: S raw)
    then have "b = a" using D [OF b] raw enc_assignment_inject [OF A] by auto
    with b show "SlotEntry a raw \<in> set es" by simp
  next
    fix a raw
    assume a: "SlotEntry a raw \<in> set es"
    then have raw: "raw = enc_assignment A a" "valid_assignment A a" using D by fastforce+
    have s: "st (slot_key_of A (map_slot a)) = Some raw" using a by (auto simp: S)
    then have "\<not> slot_free (registry_of cfg es) (map_slot a)" using RD(4) by force
    then obtain u b where b: "rg_insts (registry_of cfg es) u = Some b" "map_slot b = map_slot a"
      by (auto simp: slot_free_def)
    then have "enc_assignment A b = raw" using RD(3) [OF b(1)] s by simp
    moreover have "valid_assignment A b" using b(1) RO(1) unfolding insts_ok_def by blast
    ultimately have "b = a" using raw enc_assignment_inject [OF A, of b a] by simp
    with b(1) raw show "InstanceEntry a raw \<in> set es" by (simp add: L)
  qed
  have intents: "intents_match es"
    unfolding intents_match_def
  proof (intro allI impI)
    fix i raw
    assume i: "IntentEntry i raw \<in> set es"
    then have "raw = enc_intent A i" using D by fastforce
    with i have "rg_intents (registry_of cfg es) (instance_uuid i) = Some i" by (simp add: L)
    then obtain a where "rg_insts (registry_of cfg es) (instance_uuid i) = Some a" "same_generation a i"
      using RO(3) unfolding intents_ok_def by blast
    then show "\<exists>a raw'. InstanceEntry a raw' \<in> set es \<and> same_generation a i" by (auto simp: L)
  qed
  have claims: "claims_match A es"
    unfolding claims_match_def
  proof (intro conjI allI impI ballI)
    fix a raw h
    assume a: "InstanceEntry a raw \<in> set es" and h: "h \<in> set (host_ids a)"
    then have "raw = enc_assignment A a" using D by fastforce
    with a have i: "rg_insts (registry_of cfg es) (instance_uuid a) = Some a" by (simp add: L)
    then obtain c where c: "rg_claims (registry_of cfg es) (h, instance_uuid a) = Some c"
      using registry_host_claims [OF R i] h by blast
    then obtain b where "rg_insts (registry_of cfg es) (instance_uuid a) = Some b" "same_generation c b"
      using RO(4) unfolding claims_ok_def by blast
    with i have "same_generation c a" by simp
    with c show "\<exists>c. ClaimEntry c (enc_claim A c) \<in> set es \<and> host_id c = h \<and> same_generation c a"
      by (auto simp: L)
  next
    fix c raw
    assume c: "ClaimEntry c raw \<in> set es"
    then have "raw = enc_claim A c" using D by fastforce
    with c have "rg_claims (registry_of cfg es) (host_id c, instance_uuid c) = Some c" by (simp add: L)
    then obtain a where "rg_insts (registry_of cfg es) (instance_uuid c) = Some a" "same_generation c a"
      "host_id c \<in> set (host_ids a)"
      using RO(4) unfolding claims_ok_def by blast
    then show "\<exists>a raw'. InstanceEntry a raw' \<in> set es \<and> host_id c \<in> set (host_ids a) \<and> same_generation c a"
      by (auto simp: L)
  qed
  have "fences_match es"
    unfolding fences_match_def
  proof (intro allI impI)
    fix h u t raw c raw'
    assume f: "FenceEntry h u (Some t) raw \<in> set es" and c: "ClaimEntry c raw' \<in> set es"
      and k: "host_id c = h" "instance_uuid c = u"
    have "raw' = enc_claim A c" using D [OF c] by simp
    with c k have "rg_claims (registry_of cfg es) (h, u) = Some c" by (simp add: L)
    moreover have "rg_fences (registry_of cfg es) (h, u) = Some raw" using f by (auto simp: L)
    moreover obtain p where "parse_fence_record A raw = Inr (p, Some t)" using D [OF f] by auto
    ultimately show "materialization_id c \<noteq> t" using clear unfolding fences_clear_def by blast
  qed
  with slots intents claims show ?thesis by (simp add: all_match_def)
qed

section \<open>The audit\<close>

lemma collect_records_Inr:
  "collect_records A entries records = Inr rs \<longleftrightarrow>
     rs = records @ entries \<and> list_all (\<lambda>kv. in_namespace A (fst kv)) entries \<and>
     distinct (map fst entries) \<and> fst ` set records \<inter> fst ` set entries = {}"
proof (induction entries arbitrary: records)
  case (Cons e entries)
  show ?case
    by (cases e) (auto simp: rbind_Inr_conv Cons.IH map_of_eq_None_iff)
qed auto

lemma audit_entries_Inr:
  assumes A: "allocator_ok A"
  shows "audit_entries A entries = Inr res \<longleftrightarrow>
    list_all (\<lambda>kv. in_namespace A (fst kv)) entries \<and> distinct (map fst entries) \<and>
    (\<exists>cfg es. map_of entries (configuration_key A) = Some cfg \<and> validate_configuration A cfg = Inr () \<and>
       filter (\<lambda>kv. fst kv \<noteq> configuration_key A) entries = map (record_of A) es \<and>
       entries_ok A es \<and> all_match A es \<and> res = sorted_snapshot (families_of es))"
proof -
  let ?rs = "filter (\<lambda>kv. fst kv \<noteq> configuration_key A) entries"
  have rec: "audit_records A entries = Inr rs \<longleftrightarrow>
      list_all (\<lambda>kv. in_namespace A (fst kv)) entries \<and> distinct (map fst entries) \<and>
      (\<exists>cfg. map_of entries (configuration_key A) = Some cfg \<and> validate_configuration A cfg = Inr ()) \<and>
      rs = ?rs" for rs
    by (auto simp: audit_records_def rbind_Inr_conv collect_records_Inr split: option.splits)
  have fam: "audit_parse_record_families A ?rs no_families = Inr F \<longleftrightarrow>
      (\<exists>es. ?rs = map (record_of A) es \<and> entries_ok A es \<and> F = families_of es)"
    if d: "distinct (map fst entries)" for F
  proof -
    have d': "distinct (map fst ?rs)" using d by (simp add: distinct_map_filter)
    have n: "no_families = families_of []"
      by (simp add: no_families_def families_of_def List.map_filter_def)
    have "audit_parse_record_families A ?rs (families_of []) =
        rbind (map_result (\<lambda>(k, r). classify A k r) ?rs) (\<lambda>es. Inr (families_of ([] @ es)))"
      using d' by (intro parse_families [OF A]) simp_all
    then have e: "audit_parse_record_families A ?rs no_families =
        rbind (map_result (\<lambda>(k, r). classify A k r) ?rs) (\<lambda>es. Inr (families_of es))"
      by (simp only: n append_Nil)
    have dist: "distinct (map (entry_key A) es)" if "?rs = map (record_of A) es" for es
      using d' by (simp add: that comp_def)
    show ?thesis
      unfolding e rbind_Inr_conv map_result_classify [OF A] entries_ok_def using dist by blast
  qed
  have rel: "audit_validate_fence_relationships (families_of es) = Inr () \<and>
      audit_validate_slot_relationships (families_of es) = Inr () \<and>
      audit_validate_release_relationships (families_of es) = Inr () \<and>
      audit_validate_host_relationships (families_of es) = Inr () \<longleftrightarrow> all_match A es"
    if "entries_ok A es" for es
    by (simp add: fence_relationships_iff [OF that] slot_relationships_iff [OF that]
        release_relationships_iff [OF that] host_relationships_iff [OF that] all_match_def)
  have "audit_entries A entries = Inr res \<longleftrightarrow>
      (\<exists>rs F. audit_records A entries = Inr rs \<and> audit_parse_record_families A rs no_families = Inr F \<and>
        audit_validate_fence_relationships F = Inr () \<and> audit_validate_slot_relationships F = Inr () \<and>
        audit_validate_release_relationships F = Inr () \<and> audit_validate_host_relationships F = Inr () \<and>
        res = sorted_snapshot F)"
    by (auto simp: audit_entries_def rbind_Inr_conv)
  also have "\<dots> \<longleftrightarrow> (\<exists>F. list_all (\<lambda>kv. in_namespace A (fst kv)) entries \<and> distinct (map fst entries) \<and>
      (\<exists>cfg. map_of entries (configuration_key A) = Some cfg \<and> validate_configuration A cfg = Inr ()) \<and>
      audit_parse_record_families A ?rs no_families = Inr F \<and>
      audit_validate_fence_relationships F = Inr () \<and> audit_validate_slot_relationships F = Inr () \<and>
      audit_validate_release_relationships F = Inr () \<and> audit_validate_host_relationships F = Inr () \<and>
      res = sorted_snapshot F)"
    unfolding rec by blast
  also have "\<dots> \<longleftrightarrow> list_all (\<lambda>kv. in_namespace A (fst kv)) entries \<and> distinct (map fst entries) \<and>
    (\<exists>cfg es. map_of entries (configuration_key A) = Some cfg \<and> validate_configuration A cfg = Inr () \<and>
       ?rs = map (record_of A) es \<and> entries_ok A es \<and> all_match A es \<and>
       res = sorted_snapshot (families_of es))"
  proof (cases "distinct (map fst entries)")
    case True
    show ?thesis unfolding fam [OF True] using rel by blast
  qed simp
  finally show ?thesis .
qed

end
