(* ===== verification/Audit_Theorems.thy ===== *)
theory Audit_Theorems
  imports Audit_Spec
begin

text \<open>
  The audit against its specification, and the count probe: what they accept, what they
  return, and that a valid registry never raises an alarm.
\<close>

section \<open>The full audit\<close>

lemma map_of_filter_keys: "P k \<Longrightarrow> map_of (filter (\<lambda>kv. P (fst kv)) xs) k = map_of xs k"
  by (induction xs) auto

text \<open>What a prefix read of the namespace lists.\<close>

definition listing :: "'b allocator \<Rightarrow> 'b kv \<Rightarrow> (string \<times> 'b) list" where
  "listing A kv = filter (\<lambda>e. in_namespace A (fst e)) (map (\<lambda>(k, v, l). (k, v)) kv)"

lemma listing_represents:
  assumes "represents A R (val kv)"
  shows "represents A R (map_of (listing A kv))"
proof -
  have m: "map_of (map (\<lambda>(k, v, l). (k, v)) kv) k = val kv k" for k
    by (induction kv) (auto simp: val_def)
  show ?thesis
    using assms by (rule represents_outside) (simp add: listing_def map_of_filter_keys m)
qed

lemma listing_distinct: "distinct (map fst kv) \<Longrightarrow> distinct (map fst (listing A kv))"
proof -
  have "map fst (map (\<lambda>(k, v, l). (k, v)) kv) = map fst kv"
    by (induction kv) auto
  then show "distinct (map fst kv) \<Longrightarrow> distinct (map fst (listing A kv))"
    unfolding listing_def by (metis distinct_map_filter)
qed

lemma audit_registry:
  assumes A: "allocator_ok A" and cfg: "map_of entries (configuration_key A) = Some cfg"
    and d: "distinct (map fst entries)" and v: "validate_configuration A cfg = Inr ()"
    and es: "filter (\<lambda>kv. fst kv \<noteq> configuration_key A) entries = map (record_of A) es"
    and ok: "entries_ok A es" and m: "all_match A es"
  shows "registry_ok A (registry_of cfg es)" and "fences_clear A (registry_of cfg es)"
    and "represents A (registry_of cfg es) (map_of entries)"
  using registry_of_ok [OF A ok m v] represents_of_entries [OF ok holds_entries_of [OF d cfg es]] m
  by (simp_all add: all_match_def)

lemma audit_ok_iff:
  assumes A: "allocator_ok A"
  shows "is_ok (audit_entries A entries) \<longleftrightarrow>
    list_all (\<lambda>kv. in_namespace A (fst kv)) entries \<and> distinct (map fst entries) \<and>
    (\<exists>R. registry_ok A R \<and> represents A R (map_of entries) \<and> fences_clear A R)"
    (is "?l = ?r")
proof
  assume ?l
  then obtain res where "audit_entries A entries = Inr res"
    by (cases "audit_entries A entries") simp_all
  then show ?r
    unfolding audit_entries_Inr [OF A] using audit_registry [OF A] by blast
next
  assume r: ?r
  then obtain R where R: "registry_ok A R" "represents A R (map_of entries)" "fences_clear A R"
    by blast
  let ?rs = "filter (\<lambda>kv. fst kv \<noteq> configuration_key A) entries"
  note cfg = representsD(1) [OF R(2)]
  have "\<forall>(k, x) \<in> set ?rs. in_namespace A k \<and> k \<noteq> configuration_key A \<and> map_of entries k = Some x"
    using r by (auto simp: list_all_iff map_of_eq_Some_iff)
  from entries_exist [OF R(1,2) this] obtain es where
    es: "?rs = map (record_of A) es" "list_all (entry_ok A) es" by blast
  have "distinct (map fst ?rs)" using r by (simp add: distinct_map_filter)
  then have ok: "entries_ok A es" using es by (simp add: entries_ok_def comp_def)
  have "distinct (map fst entries)" using r by blast
  note st = holds_entries_of [OF this cfg es(1)]
  note eq = registry_of_entries [OF A R(1,2) ok st]
  have "all_match A es" using R by (intro registry_all_match [OF A ok st]) (simp_all only: eq)
  then have "audit_entries A entries = Inr (sorted_snapshot (families_of es))"
    unfolding audit_entries_Inr [OF A] using r cfg registry_okD(7) [OF R(1)] es(1) ok by blast
  then show ?l by simp
qed

text \<open>
  C34: The full audit accepts the records of a namespace exactly when they are a namespace
  listing without duplicates that represents some registry satisfying the invariant in which
  no fence entry names the token of a live claim. In particular it never raises a false
  alarm, which would freeze the whole fleet.
\<close>

theorem audit_sound_and_complete:
  assumes "allocator_ok A"
  shows "is_ok (audit_entries A entries) \<longleftrightarrow>
    list_all (\<lambda>kv. in_namespace A (fst kv)) entries \<and> distinct (map fst entries) \<and>
    (\<exists>R. registry_ok A R \<and> represents A R (map_of entries) \<and> fences_clear A R)"
  using assms by (rule audit_ok_iff)

theorem audit_sound_and_complete_witness: "is_ok (audit_entries demo (listing demo sample_kv_1))"
proof -
  have "represents demo sample_registry (map_of (listing demo sample_kv_1))"
    using sample_store_represents by (rule listing_represents)
  moreover have "fences_clear demo sample_registry"
    by (simp add: fences_clear_def sample_registry_def sample_actions_def registry_updates
        empty_registry_def)
  moreover have "distinct (map fst (listing demo sample_kv_1))"
    using sample_kv_1_ok by (simp add: listing_distinct store_ok_def)
  ultimately show ?thesis
    using audit_sound_and_complete [OF demo_ok, of "listing demo sample_kv_1"] sample_registry_ok
    by (auto simp: list_all_iff listing_def)
qed

text \<open>
  What the audit returns are exactly the allocations, the release intents and the host
  claims of the registry, the first two ordered by slot.
\<close>

theorem audit_lists_registry:
  assumes A: "allocator_ok A" and "audit_entries A entries = Inr (as, is, cs)"
  shows "\<exists>R. registry_ok A R \<and> represents A R (map_of entries) \<and>
    set as = ran (rg_insts R) \<and> set is = ran (rg_intents R) \<and> set cs = ran (rg_claims R) \<and>
    sorted (map map_slot as) \<and> sorted (map map_slot is)"
proof -
  from assms(2) obtain cfg es where
    cfg: "map_of entries (configuration_key A) = Some cfg" "distinct (map fst entries)"
      "validate_configuration A cfg = Inr ()"
    and es: "filter (\<lambda>kv. fst kv \<noteq> configuration_key A) entries = map (record_of A) es"
      "entries_ok A es" "all_match A es"
    and res: "(as, is, cs) = sorted_snapshot (families_of es)"
    unfolding audit_entries_Inr [OF A] by blast
  note L = registry_of_lookup [OF es(2), of cfg] and D = entries_okD [OF es(2)]
  have lists: "as = sort_key map_slot (map (\<lambda>(u, a, raw). a) (view as_instance es))"
    "is = sort_key map_slot (map snd (view as_intent es))"
    "cs = sort_key (\<lambda>c. (map_slot c, instance_uuid c, host_id c)) (map snd (view as_claim es))"
    using res by (simp_all add: sorted_snapshot_def)
  have "set as = {a. \<exists>raw. InstanceEntry a raw \<in> set es}"
    by (force simp: lists set_view as_views)
  also have "\<dots> = ran (rg_insts (registry_of cfg es))"
    using D by (fastforce simp: ran_def L)
  finally have as: "set as = ran (rg_insts (registry_of cfg es))" .
  have "set is = {i. \<exists>raw. IntentEntry i raw \<in> set es}" by (force simp: lists set_view as_views)
  also have "\<dots> = ran (rg_intents (registry_of cfg es))" using D by (fastforce simp: ran_def L)
  finally have "is": "set is = ran (rg_intents (registry_of cfg es))" .
  have "set cs = {c. \<exists>raw. ClaimEntry c raw \<in> set es}" by (force simp: lists set_view as_views)
  also have "\<dots> = ran (rg_claims (registry_of cfg es))" using D by (fastforce simp: ran_def L split_paired_Ex)
  finally have cs: "set cs = ran (rg_claims (registry_of cfg es))" .
  show ?thesis
    using audit_registry [OF A cfg(1-3) es] as "is" cs
    by (intro exI [of _ "registry_of cfg es"]) (simp add: lists)
qed

text \<open>One allocation and its slot record.\<close>

definition sample_entries :: "(string \<times> json) list" where
  "sample_entries =
     [(configuration_key demo, config_raw demo),
      (instance_key_of demo uuid_1, enc_assignment demo alloc_1),
      (slot_key_of demo 0, enc_assignment demo alloc_1)]"

theorem audit_lists_registry_witness:
  "\<exists>R. registry_ok demo R \<and> represents demo R (map_of sample_entries) \<and>
    set [alloc_1] = ran (rg_insts R) \<and> set [] = ran (rg_intents R) \<and> set [] = ran (rg_claims R) \<and>
    sorted (map map_slot [alloc_1]) \<and> sorted (map map_slot ([] :: release_intent list))"
proof (rule audit_lists_registry [OF demo_ok])
  show "audit_entries demo sample_entries = Inr ([alloc_1], [], [])" by code_simp
qed

section \<open>The fence ledger and new claims\<close>

text \<open>
  Inserting a claim does not consult the fence ledger. After any claim that is not yet
  materialized was fenced, the claim can be inserted again with the same token, by an action
  the code permits and that is enabled; the audit then rejects every listing of the registry.
\<close>

theorem fenced_token_reuse:
  assumes A: "allocator_ok A" and R: "registry_ok A R"
    and ok: "action_ok A (Fence a c p)" and en: "enabled R (Fence a c p)"
    and fresh: "state c = Unmaterialized" "rg_intents R (instance_uuid a) = None"
    and st: "represents A (effect A (ClaimInsert (without_host a (host_id c)) c) (effect A (Fence a c p) R))
      (map_of entries)"
  shows "action_ok A (ClaimInsert (without_host a (host_id c)) c) \<and>
    enabled (effect A (Fence a c p) R) (ClaimInsert (without_host a (host_id c)) c) \<and>
    \<not> is_ok (audit_entries A entries)"
proof -
  let ?act = "ClaimInsert (without_host a (host_id c)) c"
  let ?S = "effect A ?act (effect A (Fence a c p) R)"
  have act: "action_ok A ?act"
    using ok fresh(1) by (auto simp: claim_for_def valid_without_host)
  have u: "instance_uuid a = instance_uuid c"
    using ok by (auto simp: claim_for_def same_generation_def)
  have en': "enabled (effect A (Fence a c p) R) ?act"
    using fresh(2) u by (simp add: registry_updates)
  have cf: "canonical_uuid (materialization_id c)" "canonical_uuid (host_id c)"
    using ok by (simp_all add: claim_for_def valid_claim_def valid_generation_def)
  have S: "registry_ok A ?S"
    by (intro effect_ok [OF A] R ok en act en')
  have held: "rg_claims ?S (host_id c, instance_uuid c) = Some c"
    "rg_fences ?S (host_id c, instance_uuid c) = Some (enc_fence A p (materialization_id c))"
    by (simp_all add: registry_updates)
  have parse: "parse_fence_record A (enc_fence A p (materialization_id c)) =
      Inr (p, Some (materialization_id c))"
    using A ok cf by (intro parse_enc_fence) simp_all
  have "\<not> fences_clear A T" if T: "registry_ok A T" "represents A T (map_of entries)" for T
  proof -
    have "rg_claims T (host_id c, instance_uuid c) = Some c"
      using stored_views(3) [OF A T cf(2), where u = "instance_uuid c"]
        stored_views(3) [OF A S st cf(2), where u = "instance_uuid c"] held(1) by argo
    moreover have "rg_fences T (host_id c, instance_uuid c) = Some (enc_fence A p (materialization_id c))"
      using representsD(7) [OF T(2) cf(2), where u = "instance_uuid c"]
        representsD(7) [OF st cf(2), where u = "instance_uuid c"] held(2) by argo
    ultimately show ?thesis using parse unfolding fences_clear_def by blast
  qed
  with act en' show ?thesis unfolding audit_ok_iff [OF A] by blast
qed

text \<open>A fresh claim of the first instance, fenced and inserted again.\<close>

definition reuse_actions :: "action list" where
  "reuse_actions =
     [Allocate alloc_1, ClaimInsert alloc_1 (claim_1 Unmaterialized),
      Fence (with_host alloc_1 host_1) (claim_1 Unmaterialized) fence_1,
      ClaimInsert (without_host (with_host alloc_1 host_1) host_1) (claim_1 Unmaterialized)]"

lemma reuse_alloc: "without_host (with_host alloc_1 host_1) host_1 = alloc_1"
  by (simp add: without_host_def with_host_def sample_records)

lemma reuse_fence_ok: "action_ok demo (Fence (with_host alloc_1 host_1) (claim_1 Unmaterialized) fence_1)"
  by (simp add: sample_fields fence_1_ok) (simp add: fence_1_def sample_records)

lemma reuse_actions_ok: "actions_ok demo reuse_actions (empty_registry demo)"
  using reuse_fence_ok
  by (simp add: reuse_actions_def reuse_alloc sample_fields empty_registry_def slot_free_def
      registry_updates)

theorem fenced_token_reuse_witness:
  "\<not> is_ok (audit_entries demo (listing demo (sample_store reuse_actions)))"
proof -
  let ?R = "run_actions demo (take 2 reuse_actions) (empty_registry demo)"
  have R: "registry_ok demo ?R"
    by (rule reaches_ok [OF demo_ok run_actions_reaches empty_registry_ok [OF demo_ok]])
      (use reuse_actions_ok in \<open>simp add: reuse_actions_def\<close>)
  have en: "enabled ?R (Fence (with_host alloc_1 host_1) (claim_1 Unmaterialized) fence_1)"
    "rg_intents ?R (instance_uuid (with_host alloc_1 host_1)) = None"
    by (simp_all add: reuse_actions_def sample_fields registry_updates empty_registry_def)
  have "represents demo (run_actions demo reuse_actions (empty_registry demo))
      (map_of (listing demo (sample_store reuse_actions)))"
    using sample_store_ok(2) [OF reuse_actions_ok] by (rule listing_represents)
  then have st: "represents demo
      (effect demo (ClaimInsert (without_host (with_host alloc_1 host_1) (host_id (claim_1 Unmaterialized)))
         (claim_1 Unmaterialized))
        (effect demo (Fence (with_host alloc_1 host_1) (claim_1 Unmaterialized) fence_1) ?R))
      (map_of (listing demo (sample_store reuse_actions)))"
    by (simp add: reuse_actions_def sample_fields)
  show ?thesis
    using fenced_token_reuse [OF demo_ok R reuse_fence_ok en(1) _ en(2) st] by (simp add: sample_fields)
qed

end
