(* ===== verification/Search_Theorems.thy ===== *)
theory Search_Theorems
  imports Registry_Views
begin

text \<open>
  Properties of the arithmetic of the allocator: the end of an etcd prefix range, lease
  identifiers, the slot of a preferred base and the order in which slots are tried.
\<close>

section \<open>Prefix ranges\<close>

lemma between_chars:
  assumes "(of_char d :: nat) = of_char c + 1"
  shows "c \<le> x \<and> x < d \<longleftrightarrow> x = (c :: char)"
proof -
  have "c \<le> x \<and> x < d \<longleftrightarrow> (of_char c :: nat) \<le> of_char x \<and> (of_char x :: nat) < of_char c + 1"
    using assms unfolding less_eq_char_def less_char_def by simp
  also have "\<dots> \<longleftrightarrow> (of_char c :: nat) = of_char x" by linarith
  also have "\<dots> \<longleftrightarrow> x = c" by (simp add: eq_commute)
  finally show ?thesis .
qed

text \<open>Between a string and the string with its last byte incremented lie its extensions.\<close>

lemma range_snoc:
  fixes c d :: char
  assumes "(of_char d :: nat) = of_char c + 1"
  shows "(p @ [c] \<le> s \<and> s < p @ [d]) = starts_with (p @ [c]) s"
proof (induction p arbitrary: s)
  case Nil
  show ?case
  proof (cases s)
    case (Cons x s')
    have "[c] \<le> x # s' \<longleftrightarrow> c \<le> x" "x # s' < [d] \<longleftrightarrow> x < d"
      by (cases s'; simp add: le_less)+
    with Cons between_chars [OF assms, of x] show ?thesis by (simp only: append_Nil) auto
  qed simp
next
  case (Cons b p)
  show ?case
  proof (cases s)
    case (Cons x s')
    have "(b # p @ [c] \<le> x # s' \<and> x # s' < b # p @ [d]) = (x = b \<and> p @ [c] \<le> s' \<and> s' < p @ [d])"
      by (simp only: Cons_le_Cons Cons_less_Cons) (auto dest: less_asym)
    with Cons Cons.IH [of s'] show ?thesis by auto
  qed simp
qed

text \<open>A prefix that ends in 255 is the upper end of the shorter prefix.\<close>

lemma below_max:
  assumes "of_char m = (255 :: nat)"
  shows "(p @ [m] \<le> s \<and> starts_with p s) = starts_with (p @ [m]) s"
proof (induction p arbitrary: s)
  case Nil
  have m: "x \<le> m" for x :: char
  proof -
    have "(of_char x :: nat) < 256" by simp
    then have "(of_char x :: nat) \<le> of_char m" unfolding assms by linarith
    then show ?thesis by (simp only: less_eq_char_def)
  qed
  show ?case
  proof (cases s)
    case (Cons x s')
    have "[m] \<le> x # s' \<longleftrightarrow> m \<le> x" by (cases s'; simp add: le_less)
    also have "\<dots> \<longleftrightarrow> m = x" using m [of x] by (auto dest: order_antisym)
    finally show ?thesis using Cons by simp
  qed simp
next
  case (Cons b p)
  show ?case
  proof (cases s)
    case (Cons x s')
    have "(b # p @ [m] \<le> x # s' \<and> b = x) = (p @ [m] \<le> s' \<and> b = x)" by auto
    with Cons Cons.IH [of s'] show ?thesis by auto
  qed simp
qed

lemma prefix_le: "(p :: string) \<le> p @ s"
  by (induction p) simp_all

lemma range_covers_prefix:
  assumes "prefix_range_end p = Inr e"
  shows "(p \<le> k \<and> k < e) = starts_with p k"
  using assms
proof (induction p rule: prefix_range_end.induct)
  case (1 p)
  then have ne: "p \<noteq> []" by (auto simp: prefix_range_end.simps)
  then have p: "butlast p @ [last p] = p" by simp
  show ?case
  proof (cases "(of_char (last p) :: nat) < 255")
    case True
    with 1 ne have e: "e = butlast p @ [char_of (of_char (last p) + 1 :: nat)]"
      by (simp add: prefix_range_end.simps [of p])
    have "(of_char (char_of (of_char (last p) + 1 :: nat) :: char) :: nat) = of_char (last p) + 1"
      using True by simp
    from range_snoc [OF this, of "butlast p" k] show ?thesis by (simp only: e p)
  next
    case False
    have "(of_char (last p) :: nat) < 256" by simp
    with False have m: "of_char (last p) = (255 :: nat)" by linarith
    have "prefix_range_end (butlast p) = Inr e"
      using 1(2) ne False by (simp add: prefix_range_end.simps [of p])
    from 1(1) [OF ne False this] have IH: "(butlast p \<le> k \<and> k < e) = starts_with (butlast p) k" .
    have "butlast p \<le> p" using prefix_le [of "butlast p" "[last p]"] by (simp only: p)
    then have "(p \<le> k \<and> k < e) = (p \<le> k \<and> starts_with (butlast p) k)"
      using IH by (metis order_trans)
    also have "\<dots> = starts_with p k" using below_max [OF m, of "butlast p" k] by (simp only: p)
    finally show ?thesis .
  qed
qed

text \<open>
  The end computed for a prefix delimits exactly the keys with that prefix: a key lies
  at or above the prefix and below the end when it starts with it, also when the prefix ends
  in bytes that cannot be incremented.
\<close>

theorem prefix_range_exact:
  assumes "prefix_range_end p = Inr e"
  shows "(p \<le> k \<and> k < e) = starts_with p k"
  using assms by (rule range_covers_prefix)

theorem prefix_range_exact_witness:
  "(''v3/hosts/'' \<le> ''v3/hosts/a'' \<and> ''v3/hosts/a'' < ''v3/hosts0'') = starts_with ''v3/hosts/'' ''v3/hosts/a''"
  by (rule prefix_range_exact) code_simp

section \<open>Lease identifiers\<close>

lemma strip_chars_id:
  assumes "s \<noteq> [] \<Longrightarrow> \<not> p (hd s)" and "s \<noteq> [] \<Longrightarrow> \<not> p (last s)"
  shows "strip_chars p s = s"
proof (cases s)
  case (Cons c cs)
  with assms(1) have 1: "dropWhile p s = s" by simp
  have "rev s = last s # rev (butlast s)" using Cons
    by (metis append_butlast_last_id list.distinct(1) rev.simps(2) rev_rev_ident rev_append
        append_Cons append_Nil)
  with assms(2) Cons have "dropWhile p (rev s) = rev s" by simp
  with 1 show ?thesis by (simp add: strip_chars_def)
qed (simp add: strip_chars_def)

lemma digit_facts:
  assumes "is_digit c"
  shows "\<not> is_space c" "c \<noteq> CHR ''_''" "c \<noteq> CHR ''-''" "c \<noteq> CHR ''+''"
  using assms by (auto simp: is_digit_def is_space_def Let_def)

lemma int_of_str_nat_dec: "int_of_str (nat_dec n) = Inr (int n)"
proof -
  have d: "\<forall>c \<in> set (nat_dec n). is_digit c" and ne: "nat_dec n \<noteq> []"
    using nat_dec_digits [of n] by (simp_all add: list_all_iff)
  obtain c cs where cs: "nat_dec n = c # cs" using ne by (cases "nat_dec n") auto
  have "strip_chars is_space (nat_dec n) = nat_dec n"
    using d ne by (intro strip_chars_id) (simp_all add: digit_facts(1))
  moreover have "split_on CHR ''_'' (nat_dec n) = [nat_dec n]"
    using d digit_facts(2) by (intro split_on_no_sep) blast
  ultimately show ?thesis
    using d cs digit_facts(3,4) [of c] dec_val_nat_dec [of n]
    by (simp add: int_of_str_def list_all_iff)
qed

lemma int_of_dec: "0 \<le> i \<Longrightarrow> int_of_str (int_dec i) = Inr i"
  by (simp add: int_dec_nonneg int_of_str_nat_dec)

text \<open>
  A lease identifier is accepted exactly when it is a non-negative JSON integer or the
  canonical decimal text of one.
\<close>

theorem lease_canonical:
  "decode_lease v = Inr i \<longleftrightarrow> 0 \<le> i \<and> v \<in> {JInt i, JStr (int_dec i)}"
proof (cases v)
  case (JStr s)
  have "int_of_str (int_dec i) = Inr i" if "0 \<le> i"
    using that int_of_dec by simp
  with JStr show ?thesis
    by (auto simp: decode_lease_def split: sum.splits)
qed (auto simp: decode_lease_def split: if_splits)

section \<open>Slots\<close>

text \<open>
  A preferred base is accepted exactly when it is the base of one of the allocator's
  slots and the preferred size, if any, is the configured one; the slot is the one that
  starts there.
\<close>

theorem preferred_slot_exact:
  assumes "allocator_ok A"
  shows "preferred_slot A base sz = Inr s \<longleftrightarrow>
    0 \<le> s \<and> s < al_count A \<and> base = slot_base A s \<and> sz \<in> {None, Some (al_size A)}"
proof -
  have pos: "0 < al_size A" "0 < al_base A" using assms by (simp_all add: allocator_ok_def)
  show ?thesis
  proof (cases "sz \<in> {None, Some (al_size A)}")
    case True
    then have sz: "(case sz of None \<Rightarrow> Inr () | Some n \<Rightarrow>
        rbind (positive_int n False) (\<lambda>m. check (m = al_size A) ConflictError)) = Inr ()"
      using pos by (auto simp: positive_int_def)
    show ?thesis
    proof
      assume "preferred_slot A base sz = Inr s"
      then have s: "s = (base - al_base A) div al_size A" "\<not> al_count A \<le> s"
        and o: "al_base A \<le> base" "(base - al_base A) mod al_size A = 0"
        unfolding preferred_slot_def sz by (auto simp: Let_def rbind_Inr_conv split: if_splits)
      have "s * al_size A = base - al_base A"
        using o(2) by (simp add: s(1) dvd_div_mult_self mod_eq_0_iff_dvd)
      with s o(1) pos True show "0 \<le> s \<and> s < al_count A \<and> base = slot_base A s \<and> sz \<in> {None, Some (al_size A)}"
        by (simp add: slot_base_def pos_imp_zdiv_nonneg_iff)
    next
      assume "0 \<le> s \<and> s < al_count A \<and> base = slot_base A s \<and> sz \<in> {None, Some (al_size A)}"
      then have s: "0 \<le> s" "s < al_count A" and b: "base = al_base A + s * al_size A"
        by (simp_all add: slot_base_def)
      have "0 \<le> s * al_size A" using s pos by simp
      then have p: "positive_int base False = Inr base"
        using pos by (simp add: b positive_int_def)
      have "base - al_base A = s * al_size A" by (simp add: b)
      moreover have "\<not> s * al_size A < 0" using \<open>0 \<le> s * al_size A\<close> by linarith
      ultimately show "preferred_slot A base sz = Inr s"
        unfolding preferred_slot_def sz rbind_simps p Let_def
        using s pos by (simp del: not_less)
    qed
  next
    case False
    then show ?thesis
      by (cases sz) (auto simp: preferred_slot_def positive_int_def rbind_Inr_conv)
  qed
qed

theorem preferred_slot_exact_witness: "preferred_slot demo (100000 + 65536) (Some 65536) = Inr 1"
  using preferred_slot_exact [OF demo_ok, of "100000 + 65536" "Some 65536" 1]
  by (simp add: demo_def slot_base_def)

text \<open>
  The slot search tries every slot of the allocator exactly once, beginning with the
  slot that the instance's digest selects.
\<close>

theorem search_visits_every_slot:
  assumes "allocator_ok A"
  shows "distinct (search_slots A u) \<and> set (search_slots A u) = {0 ..< al_count A} \<and>
    hd (search_slots A u) = start_slot A u"
proof -
  let ?n = "al_count A" and ?s = "start_slot A u"
  have n: "0 < ?n" using assms by (simp add: allocator_ok_def)
  then have s: "0 \<le> ?s" "?s < ?n" by (simp_all add: start_slot_def)
  have inj: "inj_on (\<lambda>i. (?s + i) mod ?n) {0 ..< ?n}"
  proof (rule inj_onI)
    fix i j
    assume ij: "i \<in> {0 ..< ?n}" "j \<in> {0 ..< ?n}" and eq: "(?s + i) mod ?n = (?s + j) mod ?n"
    from eq have "?n dvd (?s + i) - (?s + j)" by (simp only: mod_eq_dvd_iff)
    then have d: "?n dvd i - j" by simp
    then have d': "?n dvd j - i" by (simp add: dvd_diff_commute)
    show "i = j"
    proof (cases i j rule: linorder_cases)
      case less
      then show ?thesis using zdvd_not_zless [of "j - i" ?n] d' ij by simp
    next
      case greater
      then show ?thesis using zdvd_not_zless [of "i - j" ?n] d ij by simp
    qed
  qed
  have set: "set [0 .. ?n - 1] = {0 ..< ?n}" by auto
  have sub: "set (search_slots A u) \<subseteq> {0 ..< ?n}"
    using n by (auto simp: search_slots_def)
  have d: "distinct (search_slots A u)"
    using inj by (simp add: search_slots_def distinct_map set del: set_upto)
  have "length (search_slots A u) = nat ?n" by (simp add: search_slots_def)
  with distinct_card [OF d] have "card (set (search_slots A u)) = card {0 ..< ?n}" by simp
  then have "set (search_slots A u) = {0 ..< ?n}"
    using sub by (intro card_subset_eq) auto
  moreover have "hd (search_slots A u) = ?s"
    using n s by (simp add: search_slots_def upto_rec1 mod_pos_pos_trivial)
  ultimately show ?thesis using d by simp
qed

theorem search_visits_every_slot_witness:
  "distinct (search_slots demo uuid_1) \<and> set (search_slots demo uuid_1) = {0, 1, 2, 3}"
proof -
  have "{0 ..< al_count demo} = {0, 1, 2, 3}" by (simp add: demo_slots) (auto simp: atLeastLessThan_def)
  with search_visits_every_slot [OF demo_ok, of uuid_1] show ?thesis by simp
qed

end
