(* ===== verification/Probe_Theorems.thy ===== *)
theory Probe_Theorems
  imports Audit_Spec Search_Theorems
begin

text \<open>
  The count probe on a store the allocators keep: what the four counts are, and that their
  relationships hold, so the probe raises no alarm on a valid registry.
\<close>

section \<open>The keys a count covers\<close>

text \<open>The keys a prefix range counts.\<close>

definition stored_under :: "(string \<Rightarrow> 'b option) \<Rightarrow> string \<Rightarrow> string set" where
  "stored_under st p = {k. starts_with p k \<and> st k \<noteq> None}"

lemma count_stored:
  assumes d: "distinct (map fst kv)" and e: "\<And>k. (p \<le> k \<and> k < e) = starts_with p k"
  shows "store_count kv p e = card (stored_under (val kv) p)" and "finite (stored_under (val kv) p)"
proof -
  have "val kv k \<noteq> None \<longleftrightarrow> k \<in> fst ` set kv" for k
    by (simp add: val_def map_of_eq_None_iff)
  then have s: "stored_under (val kv) p = set (filter (starts_with p) (map fst kv))"
    by (auto simp: stored_under_def)
  have "store_count kv p e = length (filter (starts_with p) (map fst kv))"
    by (simp add: store_count_def e filter_map comp_def case_prod_unfold)
  also have "\<dots> = card (stored_under (val kv) p)"
    unfolding s using d by (intro distinct_card [symmetric] distinct_filter)
  finally show "store_count kv p e = card (stored_under (val kv) p)" .
  show "finite (stored_under (val kv) p)" by (simp only: s finite_set)
qed

lemma prefix_not_key:
  "slot_prefix A @ s \<noteq> instance_key_of A u" "slot_prefix A @ s \<noteq> release_key_of A u"
  "slot_prefix A @ s \<noteq> configuration_key A" "slot_prefix A @ s \<noteq> host_claim_key_of A h u"
  "slot_prefix A @ s \<noteq> fence_key_of A h u"
  "host_prefix A @ s \<noteq> instance_key_of A u" "host_prefix A @ s \<noteq> release_key_of A u"
  "host_prefix A @ s \<noteq> configuration_key A" "host_prefix A @ s \<noteq> slot_key_of A n"
  "host_prefix A @ s \<noteq> fence_key_of A h u"
  by (simp_all add: key_of_defs prefix_defs)

lemma known_under:
  "known_key A (slot_prefix A @ s) \<Longrightarrow> \<exists>n. slot_prefix A @ s = slot_key_of A n"
  "known_key A (host_prefix A @ s) \<Longrightarrow>
     \<exists>h u. canonical_uuid h \<and> host_prefix A @ s = host_claim_key_of A h u"
  unfolding known_key_def by (simp_all only: prefix_not_key simp_thms)

lemma stored_slots:
  assumes rep: "represents A R st"
  shows "stored_under st (slot_prefix A) =
    (\<lambda>u. slot_key_of A (map_slot (the (rg_insts R u)))) ` dom (rg_insts R)" (is "?l = ?r")
proof
  note D = representsD [OF rep]
  show "?l \<subseteq> ?r"
  proof
    fix k
    assume "k \<in> ?l"
    then obtain s where k: "k = slot_prefix A @ s" and st: "st k \<noteq> None"
      by (auto simp: stored_under_def starts_with_conv)
    then have "in_namespace A k" by (simp add: in_namespace_def prefix_defs)
    with st D(8) [of k] have "known_key A k" by argo
    then obtain n where n: "k = slot_key_of A n"
      unfolding k using known_under(1) by blast
    with st D(4) [of n] have "\<not> slot_free R n" by auto
    then obtain u a where a: "rg_insts R u = Some a" "map_slot a = n" by (auto simp: slot_free_def)
    then have "k = slot_key_of A (map_slot (the (rg_insts R u)))" using n by simp
    moreover have "u \<in> dom (rg_insts R)" using a by blast
    ultimately show "k \<in> ?r" by blast
  qed
  show "?r \<subseteq> ?l"
    using D(3) by (auto simp: stored_under_def prefix_keys(2) [symmetric])
qed

lemma stored_hosts:
  assumes R: "registry_ok A R" and rep: "represents A R st"
  shows "stored_under st (host_prefix A) = (\<lambda>(h, u). host_claim_key_of A h u) ` dom (rg_claims R)"
    (is "?l = ?r")
proof
  note D = representsD [OF rep]
  show "?l \<subseteq> ?r"
  proof
    fix k
    assume "k \<in> ?l"
    then obtain s where k: "k = host_prefix A @ s" and st: "st k \<noteq> None"
      by (auto simp: stored_under_def starts_with_conv)
    then have "in_namespace A k" by (simp add: in_namespace_def prefix_defs)
    with st D(8) [of k] have "known_key A k" by argo
    then obtain h u where h: "canonical_uuid h" "k = host_claim_key_of A h u"
      unfolding k using known_under(2) by blast
    with st D(6) have "(h, u) \<in> dom (rg_claims R)" by auto
    with h show "k \<in> ?r" by force
  qed
  have "canonical_uuid h" if "rg_claims R (h, u) = Some c" for h u c
    using registry_okD(4) [OF R] that unfolding claims_ok_def valid_claim_def by blast
  then show "?r \<subseteq> ?l"
    using D(6) by (auto simp: stored_under_def prefix_keys(4) [symmetric] simp del: append_assoc) 
qed

lemma stored_single:
  assumes rep: "represents A R st"
  shows "stored_under st (instance_prefix A) = instance_key_of A ` dom (rg_insts R)"
    and "stored_under st (release_prefix A) = release_key_of A ` dom (rg_intents R)"
proof -
  note D = representsD [OF rep]
  have i: "starts_with (instance_prefix A) k \<longleftrightarrow> (\<exists>u. k = instance_key_of A u)"
    "starts_with (release_prefix A) k \<longleftrightarrow> (\<exists>u. k = release_key_of A u)" for k
    by (simp_all add: starts_with_conv prefix_keys)
  show "stored_under st (instance_prefix A) = instance_key_of A ` dom (rg_insts R)"
    by (auto simp: stored_under_def i D image_iff)
  show "stored_under st (release_prefix A) = release_key_of A ` dom (rg_intents R)"
    by (auto simp: stored_under_def i D image_iff)
qed

lemma registry_counts:
  assumes R: "registry_ok A R" and rep: "represents A R st"
  shows "card (stored_under st (instance_prefix A)) = card (dom (rg_insts R))"
    and "card (stored_under st (slot_prefix A)) = card (dom (rg_insts R))"
    and "card (stored_under st (release_prefix A)) = card (dom (rg_intents R))"
    and "card (stored_under st (host_prefix A)) = card (dom (rg_claims R))"
proof -
  show "card (stored_under st (instance_prefix A)) = card (dom (rg_insts R))"
    unfolding stored_single(1) [OF rep] by (intro card_image) (simp add: inj_on_def)
  show "card (stored_under st (release_prefix A)) = card (dom (rg_intents R))"
    unfolding stored_single(2) [OF rep] by (intro card_image) (simp add: inj_on_def)
  have "inj_on (\<lambda>u. slot_key_of A (map_slot (the (rg_insts R u)))) (dom (rg_insts R))"
    using registry_okD(2) [OF R] unfolding slots_ok_def inj_on_def by auto
  then show "card (stored_under st (slot_prefix A)) = card (dom (rg_insts R))"
    unfolding stored_slots [OF rep] by (rule card_image)
  have "canonical_uuid h" if "rg_claims R (h, u) = Some c" for h u c
    using registry_okD(4) [OF R] that unfolding claims_ok_def valid_claim_def by blast
  then have "inj_on (\<lambda>(h, u). host_claim_key_of A h u) (dom (rg_claims R))"
    by (auto simp: inj_on_def)
  then show "card (stored_under st (host_prefix A)) = card (dom (rg_claims R))"
    unfolding stored_hosts [OF R rep] by (rule card_image)
qed

lemma prefix_ranges:
  assumes A: "allocator_ok A"
  shows "\<exists>e1 e2 e3 e4. probe_requests A =
      Inr [ReqCount (instance_prefix A) e1, ReqCount (slot_prefix A) e2,
           ReqCount (release_prefix A) e3, ReqCount (host_prefix A) e4] \<and>
    prefix_range_end (instance_prefix A) = Inr e1 \<and> prefix_range_end (slot_prefix A) = Inr e2 \<and>
    prefix_range_end (release_prefix A) = Inr e3 \<and> prefix_range_end (host_prefix A) = Inr e4"
proof -
  have "\<exists>e. prefix_range_end (p @ [CHR ''/'']) = Inr e" for p
    by (simp add: prefix_range_end.simps)
  then obtain f where f: "\<And>p. prefix_range_end (p @ [CHR ''/'']) = Inr (f p)" by metis
  have "prefix_range_end (instance_prefix A) = Inr (f (al_prefix A @ ''/instances''))"
    "prefix_range_end (slot_prefix A) = Inr (f (al_prefix A @ ''/slots''))"
    "prefix_range_end (release_prefix A) = Inr (f (al_prefix A @ ''/releases''))"
    "prefix_range_end (host_prefix A) = Inr (f (al_prefix A @ ''/hosts''))"
    by (simp_all add: prefix_defs f [symmetric])
  then show ?thesis by (simp add: probe_requests_def count_range_def)
qed
text \<open>
  On a store the allocators keep, the probe's transaction is answered with the number of
  allocations, the same number of slot records, the number of release intents and the number
  of host claims, and these counts satisfy the relationships the probe checks: a probe never
  reports drift of a valid registry.
\<close>

theorem probe_counts_registry:
  assumes A: "allocator_ok A" and R0: "registry_ok A R0" and kv: "store_ok A R0 kv"
    and guards: "list_all (match_compare kv) guards"
  shows "\<exists>reqs i r h. probe_requests A = Inr reqs \<and>
    fst (run_txn kv (probe_txn A guards reqs)) \<and>
    map_result read_count (snd (snd (run_txn kv (probe_txn A guards reqs)))) = Inr [i, i, r, h] \<and>
    i = int (card {u. stored_assignment A (val kv) u \<noteq> None}) \<and>
    r = int (card {u. stored_intent A (val kv) u \<noteq> None}) \<and>
    h = int (card {hu. canonical_uuid (fst hu) \<and> stored_claim A (val kv) (fst hu) (snd hu) \<noteq> None}) \<and>
    probe_counts_ok i i r h"
proof -
  obtain R where R: "registry_ok A R" "represents A R (val kv)"
    using A R0 kv by (rule store_okE)
  obtain e1 e2 e3 e4 where req: "probe_requests A =
      Inr [ReqCount (instance_prefix A) e1, ReqCount (slot_prefix A) e2,
           ReqCount (release_prefix A) e3, ReqCount (host_prefix A) e4]" (is "_ = Inr ?reqs")
    and ends: "prefix_range_end (instance_prefix A) = Inr e1" "prefix_range_end (slot_prefix A) = Inr e2"
    "prefix_range_end (release_prefix A) = Inr e3" "prefix_range_end (host_prefix A) = Inr e4"
    using prefix_ranges [OF A] by blast
  have d: "distinct (map fst kv)" using kv by (simp add: store_ok_def)
  note cnt = count_stored(1) [OF d range_covers_prefix]
  note fin = count_stored(2) [OF d range_covers_prefix]
  note counts = cnt [OF ends(1)] cnt [OF ends(2)] cnt [OF ends(3)] cnt [OF ends(4)]
    registry_counts [OF R]
  let ?i = "card (dom (rg_insts R))" and ?r = "card (dom (rg_intents R))"
    and ?h = "card (dom (rg_claims R))"
  have run: "fst (run_txn kv (probe_txn A guards ?reqs))"
    "map_result read_count (snd (snd (run_txn kv (probe_txn A guards ?reqs)))) =
      Inr [int ?i, int ?i, int ?r, int ?h]"
    using guards by (simp_all add: run_txn_def txn_holds_def probe_txn_def counts read_count_def
        int_of_str_nat_dec)
  have "finite (dom (rg_insts R))"
    using fin [OF ends(1)] unfolding stored_single(1) [OF R(2)]
    by (rule finite_imageD) (simp add: inj_on_def)
  moreover have "dom (rg_intents R) \<subseteq> dom (rg_insts R)"
    using registry_okD(3) [OF R(1)] unfolding intents_ok_def by blast
  ultimately have le: "?r \<le> ?i" by (rule card_mono)
  have none: "?h = 0" if "?i = 0"
  proof -
    have "dom (rg_insts R) = {}" using that \<open>finite (dom (rg_insts R))\<close> by simp
    then have "rg_claims R (h, u) = None" for h u
      using registry_okD(4) [OF R(1)] unfolding claims_ok_def by (cases "rg_claims R (h, u)") blast+
    then have "dom (rg_claims R) = {}" by auto
    then show ?thesis by simp
  qed
  note views = stored_views [OF A R]
  have sets: "{u. stored_assignment A (val kv) u \<noteq> None} = dom (rg_insts R)"
    "{u. stored_intent A (val kv) u \<noteq> None} = dom (rg_intents R)"
    by (simp_all add: views dom_def)
  have "canonical_uuid h" if "rg_claims R (h, u) = Some c" for h u c
    using registry_okD(4) [OF R(1)] that unfolding claims_ok_def valid_claim_def by blast
  then have claims: "{hu. canonical_uuid (fst hu) \<and> stored_claim A (val kv) (fst hu) (snd hu) \<noteq> None} =
      dom (rg_claims R)"
    by (auto simp: views)
  have "probe_counts_ok (int ?i) (int ?i) (int ?r) (int ?h)"
    using le none by (cases "?i = 0") (simp_all add: probe_counts_ok_def)
  with req run show ?thesis unfolding sets claims by blast
qed

theorem probe_counts_registry_witness:
  "\<exists>reqs i r h. probe_requests demo = Inr reqs \<and>
    fst (run_txn sample_kv_1 (probe_txn demo [] reqs)) \<and>
    map_result read_count (snd (snd (run_txn sample_kv_1 (probe_txn demo [] reqs)))) = Inr [i, i, r, h] \<and>
    probe_counts_ok i i r h"
proof -
  have "list_all (match_compare sample_kv_1) []" by simp
  from probe_counts_registry [OF demo_ok empty_registry_ok [OF demo_ok] sample_kv_1_ok this]
  show ?thesis by blast
qed

end
