(* ===== verification/Latch_Theorems.thy ===== *)
theory Latch_Theorems
  imports Registry_Views
begin

text \<open>
  The process-local integrity latch: when an audit sets it, what a latched allocator still
  does, and the corrupt records that do not set it.
\<close>

section \<open>A latched allocator\<close>

lemma bnd_fails: "m c = (Inl e, c') \<Longrightarrow> bnd m f c = (Inl e, c')"
  by (simp add: bnd_def)

lemma latched_raises: "cl_latch c \<Longrightarrow> raise_if_integrity_latched c = (Inl IntegrityError, c)"
  by (simp add: raise_if_integrity_latched_def bnd_def get_state_def raise_def)

lemma latched_ensure: "cl_latch c \<Longrightarrow> ensure_initialized A G c = (Inl IntegrityError, c)"
  unfolding ensure_initialized_def by (rule bnd_fails) (rule latched_raises)

lemma latched_starts:
  assumes "cl_latch c"
  shows "bnd (ensure_initialized A G) f c = (Inl IntegrityError, c)"
    and "bnd raise_if_integrity_latched g c = (Inl IntegrityError, c)"
  by (simp_all add: bnd_def latched_ensure latched_raises assms)

lemma lift_check_inert: "(\<And>a. snd (f a c) = c) \<Longrightarrow> snd (bnd (lift r) f c) = c"
  by (cases r) (simp_all add: bnd_def lift_def)

lemma latched_inert:
  assumes "cl_latch c"
  shows "snd (bnd (ensure_initialized A G) f c) = c" "snd (bnd raise_if_integrity_latched g c) = c"
  by (simp_all add: latched_starts [OF assms])

text \<open>
  C35: Once the integrity latch of an allocator is set, every operation other than the
  read-only audit and the bare initialisation leaves the allocator, and the world behind its
  gateway, exactly as they were: no call reaches etcd.
\<close>

theorem latched_client_inert:
  assumes "cl_latch c" and "call \<noteq> CallInitialize" and "call \<noteq> CallAudit"
  shows "serve A G call c = c"
  using assms(2,3)
  by (cases call)
    (simp_all add: latched_inert [OF assms(1)] lift_check_inert bootstrap_def run_coordinated_audit_def
      probe_def list_release_intent_candidates_def list_host_claims_def get_allocation_def
      list_release_intents_for_instances_def get_host_claim_def get_release_intent_def get_fence_proof_def
      allocate_def adopt_def claim_def mark_materialization_possible_def
      mark_materialization_committed_def record_materialization_proof_def
      record_rootfs_release_proof_def record_claim_proof_def fence_retire_claim_def
      abandon_unregistered_claim_def retire_claim_def request_release_def assert_startable_def
      release_def restore_def)

theorem latched_client_inert_witness:
  "serve demo fake_gateway (CallRelease intent_1) ((sample_client sample_kv_1)\<lparr>cl_latch := True\<rparr>) =
     (sample_client sample_kv_1)\<lparr>cl_latch := True\<rparr>"
  by (rule latched_client_inert) simp_all

section \<open>When an audit latches\<close>

definition latch_is :: "bool \<Rightarrow> ('s, 'b) client \<Rightarrow> bool" where
  "latch_is b c \<longleftrightarrow> cl_latch c = b"

lemma latch_is_update [simp]:
  "latch_is b (cl_world_update f0 c) = latch_is b c"
  "latch_is b (cl_authenticated_update f c) = latch_is b c"
  "latch_is b (cl_auth_generation_update f1 c) = latch_is b c"
  by (simp_all add: latch_is_def)

lemma fetch_latch: "ensures (latch_is b) (fetch f) (\<lambda>_. True)"
  by (auto simp: ensures_def fetch_def on_world_def split: prod.splits)

lemma authenticate_latch: "ensures (latch_is b) (authenticate_locked A G) (\<lambda>_. True)"
  unfolding authenticate_locked_def
  by (intro ensures_intros ensures_keep [OF fetch_latch])
    (auto intro!: ensures_intros split: exn_class.splits json.splits)

lemma ensure_authenticated_latch: "ensures (latch_is b) (ensure_authenticated A G) (\<lambda>_. True)"
  unfolding ensure_authenticated_def
  by (intro ensures_intros ensures_keep [OF authenticate_latch]) simp_all

lemma refresh_latch: "ensures (latch_is b) (refresh_authentication A G g) (\<lambda>_. True)"
  unfolding refresh_authentication_def
  by (intro ensures_intros authenticate_latch) simp_all

lemma on_world_latch: "latch_is b c \<Longrightarrow> on_world f c = (r, c') \<Longrightarrow> latch_is b c'"
  by (auto simp: on_world_def split: prod.splits)

lemma checked_call_latch:
  "checked_call L d (on_world f) c = (r, c') \<Longrightarrow> latch_is b c \<Longrightarrow> latch_is b c'"
  by (auto simp: checked_call_def Let_def split: prod.splits sum.splits option.splits bool.splits
      dest: on_world_latch)

lemma call_latch:
  assumes "latch_is b c" and "call_with_auth_retry A G d (on_world f) c = (r, c')"
  shows "latch_is b c'"
proof -
  have 1: "ensure_authenticated A G c = (q, c1) \<Longrightarrow> latch_is b c1" for q c1
    using ensure_authenticated_latch [of b A G] assms(1) unfolding ensures_def by blast
  have 2: "refresh_authentication A G g c2 = (q, c3) \<Longrightarrow> latch_is b c2 \<Longrightarrow> latch_is b c3" for g c2 q c3
    using refresh_latch [of b A G g] unfolding ensures_def by blast
  show ?thesis
    using assms(2)
    by (auto simp: call_with_auth_retry_def split: prod.splits sum.splits option.splits bool.splits
        dest!: 1) (blast dest: checked_call_latch 2)+
qed

lemma guarded_call_latch: "ensures (latch_is b) (guarded_call A G f) (\<lambda>_. True)"
  by (auto simp: ensures_def guarded_call_def split: prod.splits sum.splits dest: call_latch)

lemma audit_snapshot_latch: "ensures (latch_is b) (audit_snapshot A G) (\<lambda>_. True)"
  unfolding audit_snapshot_def get_prefix_raw_def
  by (intro ensures_intros ensures_keep [OF ensures_keep [OF guarded_call_latch]]) simp_all

lemma transient_latch: "ensures (latch_is b) (transient_calls A G t n) (\<lambda>_. True)"
proof (induction n)
  case 0
  show ?case by (auto simp: ensures_def split: prod.splits sum.splits dest: call_latch)
next
  case (Suc n)
  show ?case
    unfolding ensures_def
  proof (intro allI impI conjI TrueI)
    fix c r c'
    assume c: "latch_is b c" and run: "transient_calls A G t (Suc n) c = (r, c')"
    obtain q c1 where call: "call_with_auth_retry A G reply_dict (on_world (g_txn G t)) c = (q, c1)"
      by (cases "call_with_auth_retry A G reply_dict (on_world (g_txn G t)) c")
    have "latch_is b c1" using c call by (rule call_latch)
    with run call Suc show "latch_is b c'"
      unfolding ensures_def by (auto split: sum.splits if_splits)
  qed
qed

lemma publish_latch: "ensures (latch_is True) (publish_integrity_failure A G) (\<lambda>_. True)"
  unfolding publish_integrity_failure_def error_text_def transaction_response_def
  by (intro ensures_intros ensures_keep [OF transient_latch] ensures_keep [OF refresh_latch]
      ensures_keep [OF fetch_latch] ensures_keep [OF ensures_keep [OF transient_latch]]
      ensures_keep [OF ensures_keep [OF fetch_latch]]) (simp_all add: latch_is_def)

lemma latch_and_publish_latches:
  assumes "latch_and_publish A G c = (r, c')"
  shows "cl_latch c'" and "\<not> is_ok r"
proof -
  define m where "m = handle (\<lambda>e. e = BackendError) (publish_integrity_failure A G) (\<lambda>_. ret ())"
  obtain q c1 where m: "m (c\<lparr>cl_latch := True\<rparr>) = (q, c1)" by (cases "m (c\<lparr>cl_latch := True\<rparr>)")
  have e: "ensures (latch_is True) m (\<lambda>_. True)"
    unfolding m_def by (intro ensures_handle publish_latch ensures_ret) simp
  have "latch_is True c1"
    by (rule ensuresD(1) [OF e _ m]) (simp add: latch_is_def)
  then have "cl_latch c1" by (simp add: latch_is_def)
  moreover have "(r, c') = (case q of Inl e \<Rightarrow> (Inl e, c1) | Inr _ \<Rightarrow> (Inl IntegrityError, c1))"
    unfolding assms [symmetric]
    by (simp add: latch_and_publish_def m_def [symmetric] bnd_def modify_def m raise_def split: sum.split)
  ultimately show "cl_latch c'" and "\<not> is_ok r" by (auto split: sum.splits)
qed

text \<open>
  An audit sets the integrity latch exactly when the snapshot it read was rejected with
  an integrity error, whatever the gateway answers; and an audit that latched returns an
  error, never a listing.
\<close>

theorem audit_latch_exact:
  assumes c: "\<not> cl_latch c" and run: "audit A G c = (r, c')"
  shows "cl_latch c' = (fst (audit_snapshot A G c) = Inl IntegrityError) \<and>
    (cl_latch c' \<longrightarrow> \<not> is_ok r)"
proof -
  obtain q c1 where a: "audit_snapshot A G c = (q, c1)" by (cases "audit_snapshot A G c")
  have "latch_is False c1"
    by (rule ensuresD(1) [OF audit_snapshot_latch _ a]) (simp add: latch_is_def c)
  then have c1: "\<not> cl_latch c1" by (simp add: latch_is_def)
  have "cl_latch c' = (q = Inl IntegrityError) \<and> (cl_latch c' \<longrightarrow> \<not> is_ok r)"
  proof (cases "q = Inl IntegrityError")
    case True
    obtain q2 c2 where l: "latch_and_publish A G c1 = (q2 :: audit_result result, c2)"
      by (cases "latch_and_publish A G c1 :: audit_result result \<times> _")
    note L = latch_and_publish_latches [OF l]
    have "audit A G c = (case q2 of Inl e \<Rightarrow> (Inl e, c2) | Inr (as, is, cs) \<Rightarrow> (Inr as, c2))"
      using True l by (simp add: audit_def audit_with_latch_def bnd_def handle_def a ret_def
          split: sum.splits prod.splits)
    with run L True show ?thesis by (auto split: sum.splits)
  next
    case False
    then have "audit A G c = (case q of Inl e \<Rightarrow> (Inl e, c1) | Inr (as, is, cs) \<Rightarrow> (Inr as, c1))"
      by (cases q) (auto simp: audit_def audit_with_latch_def bnd_def handle_def a ret_def)
    with run c1 False show ?thesis by (auto split: sum.splits prod.splits)
  qed
  then show ?thesis by (simp add: a)
qed

section \<open>Records that escape the latch\<close>

text \<open>A quiet etcd and an initialised allocator.\<close>

definition quiet_client :: "json kv \<Rightarrow> (json world, json) client" where
  "quiet_client kv =
     \<lparr>cl_world = \<lparr>w_kv = kv, w_next_lease = 8, w_leases = [7], w_uuids = [], w_clock = 0, w_script = []\<rparr>,
      cl_initialized = True, cl_checked_at = Some 0, cl_latch = False, cl_lease = None,
      cl_health_raw = Some healthy_raw, cl_health_lease = Some 7, cl_authenticated = True,
      cl_auth_generation = 0\<rparr>"

definition healthy_kv :: "json kv" where
  "healthy_kv =
     [(configuration_key demo, config_raw demo, 0), (audit_coordinator_key demo, healthy_raw, 7)]"

fun set_field :: "string \<Rightarrow> json \<Rightarrow> json \<Rightarrow> json" where
  "set_field k v (JObj d) = JObj (map (\<lambda>(k', v'). (k', if k' = k then v else v')) d)"
| "set_field k v j = j"

text \<open>An instance record without its slot record, and two corruptions of its fields.\<close>

definition orphan_kv :: "string \<Rightarrow> json \<Rightarrow> json kv" where
  "orphan_kv k v =
     healthy_kv @ [(instance_key_of demo uuid_1, set_field k v (enc_assignment demo alloc_1), 0)]"



theorem audit_latch_exact_witness:
  "cl_latch (snd (audit demo fake_gateway (quiet_client (orphan_kv ''slot'' (JInt 0)))))"
proof -
  let ?c = "quiet_client (orphan_kv ''slot'' (JInt 0))"
  have "\<not> cl_latch ?c" by (simp add: quiet_client_def)
  moreover have "audit demo fake_gateway ?c = (fst (audit demo fake_gateway ?c), snd (audit demo fake_gateway ?c))"
    by simp
  ultimately have "cl_latch (snd (audit demo fake_gateway ?c)) =
      (fst (audit_snapshot demo fake_gateway ?c) = Inl IntegrityError)"
    using audit_latch_exact by blast
  moreover have "fst (audit_snapshot demo fake_gateway ?c) = Inl IntegrityError" by code_simp
  ultimately show ?thesis by (simp only:)
qed

section \<open>Two error messages\<close>

text \<open>
  The guarded probe compares the coordinator record too, so a renewed health lease makes it
  report that the configuration record changed, which it did not.
\<close>

lemma probe_reports_renewed_lease:
  "fst (probe_snapshot demo fake_gateway True
     ((quiet_client healthy_kv)\<lparr>cl_health_lease := Some 8\<rparr>)) = Inl IntegrityError \<and>
   fst (probe_snapshot demo fake_gateway False (quiet_client healthy_kv)) = Inr [0, 0, 0, 0]"
  by (intro conjI; code_simp)

text \<open>A coordinator record whose state is a list is looked up in a set: a TypeError.\<close>

lemma coordinator_state_list:
  "parse_audit_coordinator demo (set_field ''state'' (JList []) healthy_raw) =
     Inl (PyException TypeError)"
  by code_simp

end
