(* ===== verification/Storage_Protocol.thy ===== *)
theory Storage_Protocol
  imports Idmap_Claims
begin

text \<open>
  The client of Incus's storage ownership protocol (nova/virt/incus/storage_protocol.py): the
  immutable binding of a materialization, the validation of the attempts and release receipts
  that Incus returns, and the operations that register, observe, abort, settle and acknowledge
  them. The Incus endpoint is a parameter: a function from a request to a reply over a world.
\<close>

section \<open>Identities and bindings\<close>

text \<open>
  StorageMaterializationIdentity is given by the caller; the storage fields of
  StorageMaterializationBinding may come from a reply and are untyped until they are checked.
\<close>

record storage_identity =
  s_token :: string
  s_allocation_id :: string
  s_compute_id :: string
  s_owner :: string
  s_project :: string
  s_instance_name :: string
  s_idmap_base :: int
  s_idmap_size :: int

record storage_binding = storage_identity +
  s_storage_driver :: json
  s_storage_pool :: json
  s_storage_volume :: json
  s_cleanup_disposition :: json
  s_rbd_image :: json

text \<open>\<open>_safe_text\<close>.\<close>

definition safe_text_ok :: "string \<Rightarrow> nat option \<Rightarrow> bool \<Rightarrow> bool" where
  "safe_text_ok s max_length allow_empty \<longleftrightarrow>
     (allow_empty \<or> s \<noteq> []) \<and> (\<forall>n \<in> set_option max_length. length s \<le> n) \<and> printable s"

definition safe_text :: "json \<Rightarrow> nat option \<Rightarrow> bool \<Rightarrow> string result" where
  "safe_text v max_length allow_empty =
     (case v of
        JStr s \<Rightarrow> if safe_text_ok s max_length allow_empty then Inr s else Inl IntegrityError
      | _ \<Rightarrow> Inl IntegrityError)"

text \<open>The regular expressions \<open>[a-z0-9_-]{1,64}\<close> and \<open>[a-z0-9_.-]{1,255}\<close>.\<close>

definition storage_char :: "char \<Rightarrow> bool" where
  "storage_char c \<longleftrightarrow>
     (let n = (of_char c :: nat) in (48 \<le> n \<and> n \<le> 57) \<or> (97 \<le> n \<and> n \<le> 122)) \<or> c \<in> {CHR ''_'', CHR ''-''}"

definition driver_re :: "string \<Rightarrow> bool" where
  "driver_re s \<longleftrightarrow> s \<noteq> [] \<and> length s \<le> 64 \<and> list_all storage_char s"

definition storage_name_re :: "string \<Rightarrow> bool" where
  "storage_name_re s \<longleftrightarrow> s \<noteq> [] \<and> length s \<le> 255 \<and> list_all (\<lambda>c. storage_char c \<or> c = CHR ''.'') s"

text \<open>Matching a value that is no string is a TypeError.\<close>

definition full_match :: "(string \<Rightarrow> bool) \<Rightarrow> json \<Rightarrow> unit result" where
  "full_match p v =
     (case v of JStr s \<Rightarrow> check (p s) ConfigurationError | _ \<Rightarrow> Inl (PyException TypeError))"

definition validate_identity :: "'x storage_identity_scheme \<Rightarrow> unit result" where
  "validate_identity d =
     rbind (map_result check_uuid [s_token d, s_allocation_id d, s_compute_id d, s_owner d]) (\<lambda>_.
     rbind (safe_text (JStr (s_project d)) (Some 255) False) (\<lambda>_.
     rbind (safe_text (JStr (s_instance_name d)) (Some 255) False) (\<lambda>_.
     rbind (check (CHR ''/'' \<notin> set (s_project d) \<and> CHR ''/'' \<notin> set (s_instance_name d))
              ConfigurationError) (\<lambda>_.
     check (\<not> (s_idmap_base d < 0 \<or> s_idmap_size d \<le> 0 \<or> s_idmap_size d > 2 ^ 32 \<or>
              s_idmap_base d > 2 ^ 32 - s_idmap_size d)) ConfigurationError))))"

definition validate_binding :: "'x storage_binding_scheme \<Rightarrow> unit result" where
  "validate_binding b =
     rbind (validate_identity b) (\<lambda>_.
     rbind (full_match driver_re (s_storage_driver b)) (\<lambda>_.
     rbind (full_match storage_name_re (s_storage_pool b)) (\<lambda>_.
     rbind (full_match storage_name_re (s_storage_volume b)) (\<lambda>_.
     rbind (if py_truthy (s_rbd_image b) then full_match storage_name_re (s_rbd_image b) else Inr ()) (\<lambda>_.
     rbind (check (s_cleanup_disposition b \<in> {JStr ''delete'', JStr ''detach'', JStr ''handover''})
              ConfigurationError) (\<lambda>_.
     rbind (check (\<not> (s_storage_driver b = JStr ''cephext'' \<and> s_cleanup_disposition b \<noteq> JStr ''detach''))
              ConfigurationError) (\<lambda>_.
     rbind (check (\<not> (s_cleanup_disposition b = JStr ''detach'' \<and>
                     s_storage_driver b \<notin> {JStr ''ceph'', JStr ''cephext''})) ConfigurationError) (\<lambda>_.
     check (\<not> (s_cleanup_disposition b = JStr ''handover'' \<and> s_storage_driver b \<noteq> JStr ''ceph''))
       ConfigurationError))))))))"

text \<open>The identity fields and the storage fields under the names a reply uses.\<close>

definition identity_fields :: "'x storage_identity_scheme \<Rightarrow> fields" where
  "identity_fields d =
     [(''token'', JStr (s_token d)),
      (''allocation_id'', JStr (s_allocation_id d)),
      (''compute_id'', JStr (s_compute_id d)),
      (''owner'', JStr (s_owner d)),
      (''project'', JStr (s_project d)),
      (''instance_name'', JStr (s_instance_name d)),
      (''idmap_base'', JInt (s_idmap_base d)),
      (''idmap_size'', JInt (s_idmap_size d))]"

definition storage_fields :: "'x storage_binding_scheme \<Rightarrow> fields" where
  "storage_fields b =
     [(''storage_driver'', s_storage_driver b),
      (''storage_pool'', s_storage_pool b),
      (''storage_volume'', s_storage_volume b),
      (''rbd_image'', s_rbd_image b),
      (''cleanup_disposition'', s_cleanup_disposition b)]"

text \<open>
  \<open>metadata.get(name, default)\<close>, and the comparison with type: the expected values are
  strings, ints or falsy values, on which it is equality of the JSON values.
\<close>

definition get_default :: "fields \<Rightarrow> string \<Rightarrow> json \<Rightarrow> json" where
  "get_default m k d = (case map_of m k of None \<Rightarrow> d | Some v \<Rightarrow> v)"

definition fields_match :: "fields \<Rightarrow> fields \<Rightarrow> bool" where
  "fields_match m expected \<longleftrightarrow>
     list_all (\<lambda>(k, v). get_default m k (if k = ''rbd_image'' then JStr '''' else JNull) = v) expected"

definition item :: "fields \<Rightarrow> string \<Rightarrow> json result" where
  "item m k = (case map_of m k of None \<Rightarrow> Inl (PyException KeyError) | Some v \<Rightarrow> Inr v)"

definition malformed :: "idmap_error \<Rightarrow> bool" where
  "malformed e \<longleftrightarrow>
     e \<in> {PyException KeyError, PyException TypeError, PyException ValueError}"

definition binding_from_metadata :: "fields \<Rightarrow> storage_identity \<Rightarrow> storage_binding result" where
  "binding_from_metadata m d =
     rbind (check (fields_match m (identity_fields d)) IntegrityError) (\<lambda>_.
     except_r malformed IntegrityError
       (rbind (item m ''storage_driver'') (\<lambda>driver.
        rbind (item m ''storage_pool'') (\<lambda>pool.
        rbind (item m ''storage_volume'') (\<lambda>volume.
        rbind (item m ''cleanup_disposition'') (\<lambda>disposition.
        let b = storage_identity.extend d
                  (storage_binding.fields driver pool volume disposition
                     (get_default m ''rbd_image'' (JStr '''')))
        in rbind (validate_binding b) (\<lambda>_. Inr b)))))))"

section \<open>Attempts\<close>

datatype attempt_state = Active | Aborted | AttemptCommitted | Clean | Retired

datatype storage_phase = PhaseNone | PhasePending | PhaseMaterialized | PhaseClean

fun attempt_state_str :: "attempt_state \<Rightarrow> string" where
  "attempt_state_str Active = ''active''"
| "attempt_state_str Aborted = ''aborted''"
| "attempt_state_str AttemptCommitted = ''committed''"
| "attempt_state_str Clean = ''clean''"
| "attempt_state_str Retired = ''retired''"

fun storage_phase_str :: "storage_phase \<Rightarrow> string" where
  "storage_phase_str PhaseNone = ''none''"
| "storage_phase_str PhasePending = ''pending''"
| "storage_phase_str PhaseMaterialized = ''materialized''"
| "storage_phase_str PhaseClean = ''clean''"

text \<open>\<open>v not in frozenset\<close>: a list or an object cannot be hashed.\<close>

definition member :: "(string \<times> 'a) list \<Rightarrow> json \<Rightarrow> 'a result" where
  "member table v =
     (case v of
        JStr s \<Rightarrow> (case map_of table s of None \<Rightarrow> Inl IntegrityError | Some a \<Rightarrow> Inr a)
      | JList _ \<Rightarrow> Inl (PyException TypeError)
      | JObj _ \<Rightarrow> Inl (PyException TypeError)
      | _ \<Rightarrow> Inl IntegrityError)"

definition attempt_states :: "(string \<times> attempt_state) list" where
  "attempt_states =
     map (\<lambda>s. (attempt_state_str s, s)) [Active, Aborted, AttemptCommitted, Clean, Retired]"

definition storage_phases :: "(string \<times> storage_phase) list" where
  "storage_phases =
     map (\<lambda>p. (storage_phase_str p, p)) [PhaseNone, PhasePending, PhaseMaterialized, PhaseClean]"

record attempt =
  at_binding :: storage_binding
  at_storage_identity :: string
  at_state :: attempt_state
  at_phase :: storage_phase
  at_started :: bool
  at_finished :: bool
  at_operation_uuid :: string
  at_daemon_start :: int
  at_proof :: "materialization_proof option"

text \<open>
  \<open>_response_metadata\<close>: the reply is the parsed JSON body, or \<open>None\<close> where \<open>response.json()\<close>
  raises.
\<close>

definition response_metadata :: "json option \<Rightarrow> fields result" where
  "response_metadata response =
     (case response of
        Some (JObj body) \<Rightarrow>
          (case map_of body ''metadata'' of Some (JObj m) \<Rightarrow> Inr m | _ \<Rightarrow> Inl IntegrityError)
      | _ \<Rightarrow> Inl IntegrityError)"

text \<open>The strings of a validated binding.\<close>

definition text_of :: "json \<Rightarrow> string" where
  "text_of v = (case v of JStr s \<Rightarrow> s | _ \<Rightarrow> '''')"

definition binding_proof ::
  "storage_binding \<Rightarrow> string \<Rightarrow> attempt_state \<Rightarrow> storage_phase \<Rightarrow> bool \<Rightarrow> bool \<Rightarrow> string \<Rightarrow> string \<Rightarrow>
     materialization_proof" where
  "binding_proof b identity st phase started finished outcome digest =
     \<lparr>p_token = s_token b, p_allocation_id = s_allocation_id b, p_compute_id = s_compute_id b,
      p_owner = s_owner b, p_project = s_project b, p_instance_name = s_instance_name b,
      p_idmap_base = s_idmap_base b, p_idmap_size = s_idmap_size b,
      p_storage_driver = text_of (s_storage_driver b), p_storage_pool = text_of (s_storage_pool b),
      p_storage_volume = text_of (s_storage_volume b), p_rbd_image = text_of (s_rbd_image b),
      p_storage_identity = identity, p_baseline_clean = True,
      p_cleanup_disposition = text_of (s_cleanup_disposition b),
      p_state =
        (if st = Retired then (if outcome = ''not-materialized'' then ''aborted'' else ''clean'')
         else attempt_state_str st),
      p_outcome = outcome, p_digest = digest,
      m_storage_phase = storage_phase_str phase, m_started = started, m_finished = finished\<rparr>"

text \<open>
  Outcome and digest of the reply: the outcome is looked up in a set after the storage checks,
  the digest is matched after the outcome checks. An RBD image that is no string is refused by
  the storage checks.
\<close>

definition read_outcome :: "json \<Rightarrow> string result" where
  "read_outcome v =
     (case v of
        JStr s \<Rightarrow> Inr s
      | JList _ \<Rightarrow> Inl (PyException TypeError)
      | JObj _ \<Rightarrow> Inl (PyException TypeError)
      | _ \<Rightarrow> Inl ConfigurationError)"

definition read_digest :: "json \<Rightarrow> string result" where
  "read_digest v = (case v of JStr s \<Rightarrow> Inr s | _ \<Rightarrow> Inl (PyException TypeError))"

definition attempt_proof ::
  "'b lib \<Rightarrow> fields \<Rightarrow> storage_binding \<Rightarrow> string \<Rightarrow> attempt_state \<Rightarrow> storage_phase \<Rightarrow> bool \<Rightarrow> bool \<Rightarrow>
     materialization_proof option result" where
  "attempt_proof L m b identity st phase started finished =
     (case jget m ''proof'' of
        JNull \<Rightarrow> Inr None
      | JObj v \<Rightarrow>
          rbind (check (key_set v = {''outcome'', ''digest''}) IntegrityError) (\<lambda>_.
          let proof = binding_proof b identity st phase started finished in
          rbind (check (as_str (s_rbd_image b) \<noteq> None) ConfigurationError) (\<lambda>_.
          rbind (materialization_storage_checks (proof '''' '''')) (\<lambda>_.
          rbind (read_outcome (jget v ''outcome'')) (\<lambda>outcome.
          rbind (materialization_outcome_checks (proof outcome '''')) (\<lambda>_.
          rbind (read_digest (jget v ''digest'')) (\<lambda>digest.
          rbind (validate_materialization_proof L (proof outcome digest)) (\<lambda>_.
          Inr (Some (proof outcome digest)))))))))
      | _ \<Rightarrow> Inl IntegrityError)"

definition attempt_tuple_ok :: "attempt \<Rightarrow> bool" where
  "attempt_tuple_ok a =
     (case at_state a of
        Active \<Rightarrow>
          \<not> at_finished a \<and> at_proof a = None \<and>
          ((\<not> at_started a \<and> at_phase a = PhaseNone) \<or>
           (at_started a \<and> at_phase a \<in> {PhasePending, PhaseMaterialized}))
      | Aborted \<Rightarrow>
          (\<not> at_started a \<and> at_finished a \<and> at_phase a = PhaseNone \<and> at_proof a \<noteq> None) \<or>
          (at_started a \<and> \<not> at_finished a \<and> at_phase a \<in> {PhasePending, PhaseMaterialized} \<and>
           at_proof a = None)
      | AttemptCommitted \<Rightarrow>
          at_started a \<and> at_finished a \<and> at_phase a = PhaseMaterialized \<and> at_proof a = None
      | Clean \<Rightarrow> at_started a \<and> at_finished a \<and> at_phase a = PhaseClean \<and> at_proof a \<noteq> None
      | Retired \<Rightarrow>
          at_finished a \<and> at_proof a \<noteq> None \<and>
          ((\<not> at_started a \<and> at_phase a = PhaseNone) \<or> (at_started a \<and> at_phase a = PhaseClean)))"

definition read_bool :: "json \<Rightarrow> bool result" where
  "read_bool v = (case v of JBool b \<Rightarrow> Inr b | _ \<Rightarrow> Inl IntegrityError)"

definition read_daemon_start :: "json \<Rightarrow> int result" where
  "read_daemon_start v =
     (case v of JInt i \<Rightarrow> if i < 0 then Inl IntegrityError else Inr i | _ \<Rightarrow> Inl IntegrityError)"

definition parse_attempt :: "'b lib \<Rightarrow> json option \<Rightarrow> storage_binding \<Rightarrow> attempt result" where
  "parse_attempt L response b =
     rbind (response_metadata response) (\<lambda>m.
     rbind (check (fields_match m (identity_fields b @ storage_fields b)) IntegrityError) (\<lambda>_.
     rbind (safe_text (get_default m ''storage_identity'' (JStr '''')) None True) (\<lambda>identity.
     rbind (check (jget m ''baseline_clean'' = JBool True) IntegrityError) (\<lambda>_.
     rbind (member attempt_states (jget m ''state'')) (\<lambda>st.
     rbind (member storage_phases (jget m ''storage_phase'')) (\<lambda>phase.
     rbind (read_bool (jget m ''started'')) (\<lambda>started.
     rbind (read_bool (jget m ''finished'')) (\<lambda>finished.
     rbind (read_daemon_start (jget m ''daemon_start'')) (\<lambda>daemon.
     rbind (safe_text (get_default m ''operation_uuid'' (JStr '''')) None True) (\<lambda>op.
     rbind (if op \<noteq> [] then check_uuid op else Inr op) (\<lambda>_.
     rbind (check (\<not> (s_cleanup_disposition b \<in> {JStr ''detach'', JStr ''handover''} \<and> identity = []))
              IntegrityError) (\<lambda>_.
     rbind (check (\<not> (phase = PhaseMaterialized \<and>
                     s_storage_driver b \<in> {JStr ''ceph'', JStr ''cephext''} \<and> identity = []))
              IntegrityError) (\<lambda>_.
     rbind (attempt_proof L m b identity st phase started finished) (\<lambda>proof.
     let a = \<lparr>at_binding = b, at_storage_identity = identity, at_state = st, at_phase = phase,
              at_started = started, at_finished = finished, at_operation_uuid = op,
              at_daemon_start = daemon, at_proof = proof\<rparr>
     in rbind (check (attempt_tuple_ok a) IntegrityError) (\<lambda>_. Inr a)))))))))))))))"

section \<open>Release receipts\<close>

definition receipt_keys :: "string list" where
  "receipt_keys =
     [''token'', ''allocation_id'', ''compute_id'', ''materialization_id'', ''owner'', ''project'',
      ''instance_name'', ''idmap_base'', ''idmap_size'', ''storage_driver'', ''storage_pool'',
      ''storage_volume'', ''baseline_clean'', ''cleanup_disposition'', ''outcome'', ''state'',
      ''digest'', ''created_at'', ''completed_at'']"

text \<open>
  The fields up to the disposition are refused as configuration errors by the first checks
  when they have the wrong type; outcome, times and digest are read when they are checked.
\<close>

definition read_receipt_base :: "fields \<Rightarrow> release_receipt result" where
  "read_receipt_base m =
     rbind (str_f m ''token'') (\<lambda>token.
     rbind (str_f m ''allocation_id'') (\<lambda>allocation.
     rbind (str_f m ''compute_id'') (\<lambda>compute.
     rbind (str_f m ''materialization_id'') (\<lambda>mid.
     rbind (str_f m ''owner'') (\<lambda>owner.
     rbind (str_f m ''project'') (\<lambda>project.
     rbind (str_f m ''instance_name'') (\<lambda>name.
     rbind (int_f m ''idmap_base'') (\<lambda>base.
     rbind (int_f m ''idmap_size'') (\<lambda>sz.
     rbind (str_f m ''storage_driver'') (\<lambda>driver.
     rbind (str_f m ''storage_pool'') (\<lambda>pool.
     rbind (str_f m ''storage_volume'') (\<lambda>volume.
     rbind (str_f ((''rbd_image'', get_default m ''rbd_image'' (JStr '''')) # m) ''rbd_image'') (\<lambda>rbd.
     rbind (str_f ((''storage_identity'', get_default m ''storage_identity'' (JStr '''')) # m)
              ''storage_identity'') (\<lambda>identity.
     rbind (bool_f m ''baseline_clean'') (\<lambda>clean.
     rbind (str_f m ''cleanup_disposition'') (\<lambda>disposition.
     Inr \<lparr>p_token = token, p_allocation_id = allocation, p_compute_id = compute,
          p_owner = owner, p_project = project, p_instance_name = name,
          p_idmap_base = base, p_idmap_size = sz, p_storage_driver = driver,
          p_storage_pool = pool, p_storage_volume = volume, p_rbd_image = rbd,
          p_storage_identity = identity, p_baseline_clean = clean,
          p_cleanup_disposition = disposition, p_state = '''', p_outcome = '''', p_digest = '''',
          r_materialization_id = mid, r_created_at = 0, r_completed_at = 0\<rparr>))))))))))))))))"

definition read_receipt :: "'b lib \<Rightarrow> fields \<Rightarrow> release_receipt result" where
  "read_receipt L m =
     rbind (read_receipt_base m) (\<lambda>r.
     rbind (release_storage_checks r) (\<lambda>_.
     rbind (read_outcome (jget m ''outcome'')) (\<lambda>outcome.
     rbind (str_f m ''state'') (\<lambda>st.
     rbind (int_f m ''created_at'') (\<lambda>created.
     rbind (int_f m ''completed_at'') (\<lambda>completed.
     let r' = r\<lparr>p_outcome := outcome, p_state := st, r_created_at := created,
                 r_completed_at := completed\<rparr> in
     rbind (release_outcome_checks r') (\<lambda>_.
     rbind (read_digest (jget m ''digest'')) (\<lambda>digest.
     rbind (validate_release_proof L (r'\<lparr>p_digest := digest\<rparr>)) (\<lambda>_.
     Inr (r'\<lparr>p_digest := digest\<rparr>))))))))))"

definition binds_proof :: "storage_binding \<Rightarrow> 'x proof_base_scheme \<Rightarrow> bool" where
  "binds_proof b p \<longleftrightarrow>
     p_token p = s_token b \<and> p_allocation_id p = s_allocation_id b \<and>
     p_compute_id p = s_compute_id b \<and> p_owner p = s_owner b \<and> p_project p = s_project b \<and>
     p_instance_name p = s_instance_name b \<and> p_idmap_base p = s_idmap_base b \<and>
     p_idmap_size p = s_idmap_size b \<and> JStr (p_storage_driver p) = s_storage_driver b \<and>
     JStr (p_storage_pool p) = s_storage_pool b \<and> JStr (p_storage_volume p) = s_storage_volume b \<and>
     JStr (p_rbd_image p) = s_rbd_image b \<and>
     JStr (p_cleanup_disposition p) = s_cleanup_disposition b"

definition validate_proof_binding :: "storage_binding \<Rightarrow> materialization_proof \<Rightarrow> unit result" where
  "validate_proof_binding b p = check (binds_proof b p) IntegrityError"

definition validate_receipt_binding :: "storage_binding \<Rightarrow> release_receipt \<Rightarrow> unit result" where
  "validate_receipt_binding b r =
     check (binds_proof b r \<and> r_materialization_id r = s_token b) IntegrityError"

definition parse_receipt :: "'b lib \<Rightarrow> json option \<Rightarrow> storage_binding \<Rightarrow> release_receipt result" where
  "parse_receipt L response b =
     rbind (response_metadata response) (\<lambda>m.
     rbind (except_r malformed IntegrityError (map_result (item m) receipt_keys)) (\<lambda>_.
     rbind (read_receipt L m) (\<lambda>r.
     rbind (validate_receipt_binding b r) (\<lambda>_. Inr r))))"

section \<open>The endpoint\<close>

datatype http_method = Get | Put | Delete

record storage_request =
  rq_method :: http_method
  rq_collection :: string
  rq_token :: string
  rq_params :: "(string \<times> string) list"
  rq_body :: fields

text \<open>
  \<open>sa_host_info\<close> is the attribute \<open>host_info\<close> of the pylxd client (null when it has none),
  \<open>sa_call\<close> one request: the reply, or an exception of the client library.
\<close>

record 's storage_api =
  sa_host_info :: json
  sa_call :: "storage_request \<Rightarrow> ('s, json option) prog"

definition attempt_extension :: string where
  "attempt_extension = ''storage_materialization_attempt_v1''"

definition receipt_extension :: string where
  "receipt_extension = ''storage_release_receipt_v2''"

definition ownership_extensions :: "string list" where
  "ownership_extensions = [attempt_extension, receipt_extension]"

definition hashable :: "json \<Rightarrow> bool" where
  "hashable v = (case v of JList _ \<Rightarrow> False | JObj _ \<Rightarrow> False | _ \<Rightarrow> True)"

definition require_storage_ownership_extensions :: "json \<Rightarrow> string list option \<Rightarrow> unit result" where
  "require_storage_ownership_extensions host_info extensions =
     (let required = (case extensions of None \<Rightarrow> ownership_extensions | Some xs \<Rightarrow> xs) in
      case host_info of
        JObj d \<Rightarrow>
          (case jget d ''api_extensions'' of
             JList advertised \<Rightarrow>
               rbind (check (list_all hashable advertised) (PyException TypeError)) (\<lambda>_.
               check (list_all (\<lambda>x. JStr x \<in> set advertised) required) ConfigurationError)
           | _ \<Rightarrow> Inl ConfigurationError)
      | _ \<Rightarrow> Inl ConfigurationError)"

definition attempt_request :: "http_method \<Rightarrow> 'x storage_identity_scheme \<Rightarrow> fields \<Rightarrow> storage_request" where
  "attempt_request method d body =
     \<lparr>rq_method = method, rq_collection = ''storage-materialization-attempts'', rq_token = s_token d,
      rq_params = [(''project'', s_project d)], rq_body = body\<rparr>"

definition release_receipt_params :: "'x storage_identity_scheme \<Rightarrow> (string \<times> string) list" where
  "release_receipt_params d =
     [(''project'', s_project d),
      (''rootfs-idmap-release-owner'', s_owner d),
      (''rootfs-idmap-allocation-id'', s_allocation_id d),
      (''rootfs-idmap-compute-id'', s_compute_id d),
      (''instance'', s_instance_name d),
      (''idmap-base'', int_dec (s_idmap_base d)),
      (''idmap-size'', int_dec (s_idmap_size d))]"

definition receipt_request :: "http_method \<Rightarrow> 'x storage_identity_scheme \<Rightarrow> (string \<times> string) list \<Rightarrow>
    storage_request" where
  "receipt_request method d params =
     \<lparr>rq_method = method, rq_collection = ''storage-release-receipts'', rq_token = s_token d,
      rq_params = params, rq_body = []\<rparr>"

definition need :: "'s storage_api \<Rightarrow> string \<Rightarrow> ('s, unit) prog" where
  "need api extension =
     lift (require_storage_ownership_extensions (sa_host_info api) (Some [extension]))"

section \<open>Operations\<close>

definition registration_body :: "storage_binding \<Rightarrow> fields" where
  "registration_body b =
     [(''state'', JStr ''active''),
      (''allocation_id'', JStr (s_allocation_id b)),
      (''compute_id'', JStr (s_compute_id b)),
      (''owner'', JStr (s_owner b)),
      (''instance_name'', JStr (s_instance_name b)),
      (''idmap_base'', JInt (s_idmap_base b)),
      (''idmap_size'', JInt (s_idmap_size b)),
      (''storage_driver'', s_storage_driver b),
      (''storage_pool'', s_storage_pool b),
      (''storage_volume'', s_storage_volume b),
      (''rbd_image'', s_rbd_image b),
      (''cleanup_disposition'', s_cleanup_disposition b)]"

definition pristine :: "attempt \<Rightarrow> bool" where
  "pristine a \<longleftrightarrow>
     at_state a = Active \<and> \<not> at_started a \<and> \<not> at_finished a \<and> at_phase a = PhaseNone \<and>
     at_proof a = None"

definition register_materialization ::
  "'b lib \<Rightarrow> 's storage_api \<Rightarrow> storage_binding \<Rightarrow> ('s, attempt) prog" where
  "register_materialization L api b =
     bnd (need api attempt_extension) (\<lambda>_.
     bnd (sa_call api (attempt_request Put b (registration_body b))) (\<lambda>response.
     bnd (lift (parse_attempt L response b)) (\<lambda>a.
     if pristine a then ret a else raise IntegrityError)))"

definition get_materialization ::
  "'b lib \<Rightarrow> 's storage_api \<Rightarrow> storage_binding \<Rightarrow> ('s, attempt) prog" where
  "get_materialization L api b =
     bnd (need api attempt_extension) (\<lambda>_.
     bnd (sa_call api (attempt_request Get b [])) (\<lambda>response. lift (parse_attempt L response b)))"

definition discover_materialization ::
  "'b lib \<Rightarrow> 's storage_api \<Rightarrow> storage_identity \<Rightarrow> ('s, attempt) prog" where
  "discover_materialization L api d =
     bnd (lift (validate_identity d)) (\<lambda>_.
     bnd (need api attempt_extension) (\<lambda>_.
     bnd (sa_call api (attempt_request Get d [])) (\<lambda>response.
     bnd (lift (response_metadata response)) (\<lambda>m.
     bnd (lift (binding_from_metadata m d)) (\<lambda>b. lift (parse_attempt L response b))))))"

definition observe_materialization_start ::
  "'b lib \<Rightarrow> 's storage_api \<Rightarrow> storage_binding \<Rightarrow> ('s, attempt) prog" where
  "observe_materialization_start L api b =
     bnd (get_materialization L api b) (\<lambda>a.
     if \<not> at_started a \<or> at_phase a \<notin> {PhasePending, PhaseMaterialized, PhaseClean}
     then raise ConflictError else ret a)"

definition abort_materialization ::
  "'b lib \<Rightarrow> 's storage_api \<Rightarrow> storage_binding \<Rightarrow> ('s, attempt) prog" where
  "abort_materialization L api b =
     bnd (need api attempt_extension) (\<lambda>_.
     bnd (sa_call api (attempt_request Put b [(''state'', JStr ''aborted'')])) (\<lambda>response.
     bnd (lift (parse_attempt L response b)) (\<lambda>a.
     if at_state a \<in> {Aborted, Clean, Retired} then ret a else raise IntegrityError)))"

definition settle_materialization ::
  "'b lib \<Rightarrow> 's storage_api \<Rightarrow> storage_binding \<Rightarrow> ('s, attempt) prog" where
  "settle_materialization L api b =
     bnd (need api attempt_extension) (\<lambda>_.
     bnd (sa_call api (attempt_request Put b [(''state'', JStr ''settled'')])) (\<lambda>response.
     lift (parse_attempt L response b)))"

definition acknowledgement_params :: "storage_binding \<Rightarrow> string \<Rightarrow> (string \<times> string) list" where
  "acknowledgement_params b digest =
     [(''project'', s_project b),
      (''proof-digest'', digest),
      (''allocation-id'', s_allocation_id b),
      (''compute-id'', s_compute_id b),
      (''owner'', s_owner b),
      (''instance'', s_instance_name b),
      (''idmap-base'', int_dec (s_idmap_base b)),
      (''idmap-size'', int_dec (s_idmap_size b))]"

definition acknowledge_materialization_proof ::
  "'b lib \<Rightarrow> 's storage_api \<Rightarrow> storage_binding \<Rightarrow> materialization_proof \<Rightarrow> ('s, json option) prog" where
  "acknowledge_materialization_proof L api b p =
     bnd (lift (validate_materialization_proof L p)) (\<lambda>_.
     bnd (lift (validate_proof_binding b p)) (\<lambda>_.
     bnd (need api attempt_extension) (\<lambda>_.
     sa_call api ((attempt_request Delete b [])\<lparr>rq_params := acknowledgement_params b (p_digest p)\<rparr>))))"

definition get_release_receipt ::
  "'b lib \<Rightarrow> 's storage_api \<Rightarrow> storage_binding \<Rightarrow> ('s, release_receipt) prog" where
  "get_release_receipt L api b =
     bnd (need api receipt_extension) (\<lambda>_.
     bnd (sa_call api (receipt_request Get b (release_receipt_params b))) (\<lambda>response.
     lift (parse_receipt L response b)))"

definition discover_release_receipt ::
  "'b lib \<Rightarrow> 's storage_api \<Rightarrow> storage_identity \<Rightarrow> ('s, storage_binding \<times> release_receipt) prog" where
  "discover_release_receipt L api d =
     bnd (lift (validate_identity d)) (\<lambda>_.
     bnd (need api receipt_extension) (\<lambda>_.
     bnd (sa_call api (receipt_request Get d (release_receipt_params d))) (\<lambda>response.
     bnd (lift (response_metadata response)) (\<lambda>m.
     bnd (lift (binding_from_metadata m d)) (\<lambda>b.
     bnd (lift (parse_receipt L response b)) (\<lambda>r. ret (b, r)))))))"

definition acknowledge_release_receipt ::
  "'b lib \<Rightarrow> 's storage_api \<Rightarrow> storage_binding \<Rightarrow> release_receipt \<Rightarrow> ('s, json option) prog" where
  "acknowledge_release_receipt L api b r =
     bnd (lift (proof_from_receipt L r)) (\<lambda>_.
     bnd (lift (validate_receipt_binding b r)) (\<lambda>_.
     bnd (need api receipt_extension) (\<lambda>_.
     sa_call api (receipt_request Delete b
       (release_receipt_params b @ [(''receipt-digest'', p_digest r)])))))"

end
