(* ===== verification/Storage_Theorems.thy ===== *)
theory Storage_Theorems
  imports Storage_Protocol
begin

text \<open>
  What the storage protocol client establishes: an accepted attempt is consistent, belongs to
  its binding and carries a valid proof exactly when it is terminal; the operations return
  only attempts in the state they promise and acknowledge only what they have validated.
\<close>

section \<open>Bindings\<close>

lemma full_match_Inr: "full_match p v = Inr u \<longleftrightarrow> (\<exists>s. v = JStr s \<and> p s)"
  by (auto simp: full_match_def split: json.splits)

definition identity_ok :: "'x storage_identity_scheme \<Rightarrow> bool" where
  "identity_ok d \<longleftrightarrow>
     list_all canonical_uuid [s_token d, s_allocation_id d, s_compute_id d, s_owner d] \<and>
     safe_text_ok (s_project d) (Some 255) False \<and> safe_text_ok (s_instance_name d) (Some 255) False \<and>
     CHR ''/'' \<notin> set (s_project d) \<and> CHR ''/'' \<notin> set (s_instance_name d) \<and>
     idmap_range_ok (s_idmap_base d) (s_idmap_size d)"

lemma safe_text_Inr: "safe_text v n e = Inr s \<longleftrightarrow> v = JStr s \<and> safe_text_ok s n e"
  by (auto simp: safe_text_def split: json.splits)

lemma map_result_check_uuid: "map_result check_uuid xs = Inr ys \<longleftrightarrow> list_all canonical_uuid xs \<and> ys = xs"
  by (induction xs arbitrary: ys) (auto simp: rbind_Inr_conv)

lemma validate_identity_iff: "validate_identity d = Inr () \<longleftrightarrow> identity_ok d"
proof -
  have r: "\<not> (base < 0 \<or> sz \<le> 0 \<or> sz > 2 ^ 32 \<or> base > 2 ^ 32 - sz) \<longleftrightarrow> idmap_range_ok base sz"
    for base sz :: int
    by (auto simp: idmap_range_ok_def)
  show ?thesis
    unfolding validate_identity_def identity_ok_def r
    by (auto simp: rbind_Inr_conv map_result_check_uuid safe_text_Inr)
qed

definition storage_ok :: "'x storage_binding_scheme \<Rightarrow> bool" where
  "storage_ok b \<longleftrightarrow>
     (\<exists>driver pool volume disposition.
        s_storage_driver b = JStr driver \<and> driver_re driver \<and>
        s_storage_pool b = JStr pool \<and> storage_name_re pool \<and>
        s_storage_volume b = JStr volume \<and> storage_name_re volume \<and>
        s_cleanup_disposition b = JStr disposition \<and> disposition_ok driver disposition) \<and>
     (\<not> py_truthy (s_rbd_image b) \<or> (\<exists>s. s_rbd_image b = JStr s \<and> storage_name_re s))"

lemma rbind_unit: "rbind r (\<lambda>_. k) = Inr u \<longleftrightarrow> is_ok r \<and> k = Inr u"
  by (cases r) simp_all

lemma is_ok_check [simp]: "is_ok (check c e) = c"
  by (simp add: check_def)

lemma is_ok_unit: "is_ok (r :: unit result) \<longleftrightarrow> r = Inr ()"
  by (cases r) simp_all

lemma disposition_json:
  "v \<in> {JStr ''delete'', JStr ''detach'', JStr ''handover''} \<and>
   \<not> (JStr driver = JStr ''cephext'' \<and> v \<noteq> JStr ''detach'') \<and>
   \<not> (v = JStr ''detach'' \<and> JStr driver \<notin> {JStr ''ceph'', JStr ''cephext''}) \<and>
   \<not> (v = JStr ''handover'' \<and> JStr driver \<noteq> JStr ''ceph'') \<longleftrightarrow>
   (\<exists>disposition. v = JStr disposition \<and> disposition_ok driver disposition)"
  by (cases v) (auto simp: disposition_ok_def)

lemma full_match_ok: "is_ok (full_match p v) \<longleftrightarrow> (\<exists>s. v = JStr s \<and> p s)"
  by (simp add: is_ok_unit full_match_Inr)

lemma validate_binding_iff: "validate_binding b = Inr () \<longleftrightarrow> identity_ok b \<and> storage_ok b"
proof -
  have i: "is_ok (if py_truthy (s_rbd_image b) then full_match storage_name_re (s_rbd_image b) else Inr ()) \<longleftrightarrow>
      (\<not> py_truthy (s_rbd_image b) \<or> (\<exists>s. s_rbd_image b = JStr s \<and> storage_name_re s))"
    by (simp add: full_match_ok)
  have v: "is_ok (validate_identity b) = identity_ok b"
    by (simp add: is_ok_unit validate_identity_iff)
  show ?thesis
    unfolding validate_binding_def rbind_unit v i full_match_ok is_ok_check check_Inr storage_ok_def
  proof (intro iffI; elim conjE exE)
    fix driver pool volume
    assume "s_storage_driver b = JStr driver" "driver_re driver" "s_storage_pool b = JStr pool"
      "storage_name_re pool" "s_storage_volume b = JStr volume" "storage_name_re volume" "identity_ok b"
      "\<not> py_truthy (s_rbd_image b) \<or> (\<exists>s. s_rbd_image b = JStr s \<and> storage_name_re s)"
      "s_cleanup_disposition b \<in> {JStr ''delete'', JStr ''detach'', JStr ''handover''}"
      "\<not> (s_storage_driver b = JStr ''cephext'' \<and> s_cleanup_disposition b \<noteq> JStr ''detach'')"
      "\<not> (s_cleanup_disposition b = JStr ''detach'' \<and>
          s_storage_driver b \<notin> {JStr ''ceph'', JStr ''cephext''})"
      "\<not> (s_cleanup_disposition b = JStr ''handover'' \<and> s_storage_driver b \<noteq> JStr ''ceph'')"
    moreover from this have "\<exists>disposition. s_cleanup_disposition b = JStr disposition \<and>
        disposition_ok driver disposition"
      using disposition_json [of "s_cleanup_disposition b" driver] by simp
    ultimately show "identity_ok b \<and> (\<exists>driver pool volume disposition.
        s_storage_driver b = JStr driver \<and> driver_re driver \<and>
        s_storage_pool b = JStr pool \<and> storage_name_re pool \<and>
        s_storage_volume b = JStr volume \<and> storage_name_re volume \<and>
        s_cleanup_disposition b = JStr disposition \<and> disposition_ok driver disposition) \<and>
        (\<not> py_truthy (s_rbd_image b) \<or> (\<exists>s. s_rbd_image b = JStr s \<and> storage_name_re s))" by blast
  next
    fix driver pool volume disposition
    assume a: "s_storage_driver b = JStr driver" "driver_re driver" "s_storage_pool b = JStr pool"
      "storage_name_re pool" "s_storage_volume b = JStr volume" "storage_name_re volume" "identity_ok b"
      "\<not> py_truthy (s_rbd_image b) \<or> (\<exists>s. s_rbd_image b = JStr s \<and> storage_name_re s)"
      "s_cleanup_disposition b = JStr disposition" "disposition_ok driver disposition"
    then show "identity_ok b \<and> (\<exists>s. s_storage_driver b = JStr s \<and> driver_re s) \<and>
        (\<exists>s. s_storage_pool b = JStr s \<and> storage_name_re s) \<and>
        (\<exists>s. s_storage_volume b = JStr s \<and> storage_name_re s) \<and>
        (\<not> py_truthy (s_rbd_image b) \<or> (\<exists>s. s_rbd_image b = JStr s \<and> storage_name_re s)) \<and>
        s_cleanup_disposition b \<in> {JStr ''delete'', JStr ''detach'', JStr ''handover''} \<and>
        \<not> (s_storage_driver b = JStr ''cephext'' \<and> s_cleanup_disposition b \<noteq> JStr ''detach'') \<and>
        \<not> (s_cleanup_disposition b = JStr ''detach'' \<and>
           s_storage_driver b \<notin> {JStr ''ceph'', JStr ''cephext''}) \<and>
        \<not> (s_cleanup_disposition b = JStr ''handover'' \<and> s_storage_driver b \<noteq> JStr ''ceph'')"
      using disposition_json [of "s_cleanup_disposition b" driver] by simp
  qed
qed

lemma item_Inr: "item m k = Inr v \<longleftrightarrow> map_of m k = Some v"
  by (simp add: item_def split: option.splits)

lemma fields_match_append: "fields_match m (xs @ ys) \<longleftrightarrow> fields_match m xs \<and> fields_match m ys"
  by (simp add: fields_match_def)

lemma binding_from_metadata_Inr:
  assumes "binding_from_metadata m d = Inr b"
  shows "storage_identity.truncate b = d" and "validate_binding b = Inr ()"
    and "fields_match m (identity_fields b @ storage_fields b)"
proof -
  from assms obtain driver pool volume disposition where
    m: "fields_match m (identity_fields d)" and items: "map_of m ''storage_driver'' = Some driver"
      "map_of m ''storage_pool'' = Some pool" "map_of m ''storage_volume'' = Some volume"
      "map_of m ''cleanup_disposition'' = Some disposition"
    and b: "b = storage_identity.extend d (storage_binding.fields driver pool volume disposition
        (get_default m ''rbd_image'' (JStr '''')))" and v: "validate_binding b = Inr ()"
    by (auto simp: binding_from_metadata_def rbind_Inr_conv Let_def item_Inr)
  show "storage_identity.truncate b = d" by (simp add: b storage_identity.defs storage_binding.defs)
  show "validate_binding b = Inr ()" by (rule v)
  have "identity_fields b = identity_fields d"
    by (simp add: b identity_fields_def storage_identity.defs storage_binding.defs)
  moreover have "fields_match m (storage_fields b)"
    using items
    by (simp add: b fields_match_def storage_fields_def get_default_def storage_identity.defs
        storage_binding.defs)
  ultimately show "fields_match m (identity_fields b @ storage_fields b)"
    using m by (simp add: fields_match_append)
qed

section \<open>Attempts\<close>

text \<open>What Incus replies for an attempt.\<close>

definition attempt_value :: "attempt \<Rightarrow> fields" where
  "attempt_value a =
     identity_fields (at_binding a) @ storage_fields (at_binding a) @
     [(''storage_identity'', JStr (at_storage_identity a)),
      (''baseline_clean'', JBool True),
      (''state'', JStr (attempt_state_str (at_state a))),
      (''storage_phase'', JStr (storage_phase_str (at_phase a))),
      (''started'', JBool (at_started a)),
      (''finished'', JBool (at_finished a)),
      (''operation_uuid'', JStr (at_operation_uuid a)),
      (''daemon_start'', JInt (at_daemon_start a)),
      (''proof'', case at_proof a of None \<Rightarrow> JNull
         | Some p \<Rightarrow> JObj [(''outcome'', JStr (p_outcome p)), (''digest'', JStr (p_digest p))])]"

definition attempt_response :: "attempt \<Rightarrow> json option" where
  "attempt_response a = Some (JObj [(''metadata'', JObj (attempt_value a))])"

text \<open>What an accepted attempt satisfies.\<close>

definition proof_ok :: "'b lib \<Rightarrow> attempt \<Rightarrow> bool" where
  "proof_ok L a \<longleftrightarrow>
     (\<forall>p. at_proof a = Some p \<longrightarrow>
        as_str (s_rbd_image (at_binding a)) \<noteq> None \<and> validate_materialization_proof L p = Inr () \<and>
        p = binding_proof (at_binding a) (at_storage_identity a) (at_state a) (at_phase a)
              (at_started a) (at_finished a) (p_outcome p) (p_digest p))"

definition attempt_ok :: "'b lib \<Rightarrow> attempt \<Rightarrow> bool" where
  "attempt_ok L a \<longleftrightarrow>
     attempt_tuple_ok a \<and> printable (at_storage_identity a) \<and> 0 \<le> at_daemon_start a \<and>
     (at_operation_uuid a = [] \<or> canonical_uuid (at_operation_uuid a) \<and> printable (at_operation_uuid a)) \<and>
     (s_cleanup_disposition (at_binding a) \<in> {JStr ''detach'', JStr ''handover''} \<longrightarrow>
        at_storage_identity a \<noteq> []) \<and>
     (at_phase a = PhaseMaterialized \<longrightarrow>
        s_storage_driver (at_binding a) \<in> {JStr ''ceph'', JStr ''cephext''} \<longrightarrow>
        at_storage_identity a \<noteq> []) \<and>
     proof_ok L a"

lemma member_states: "member attempt_states v = Inr s \<longleftrightarrow> v = JStr (attempt_state_str s)"
  by (cases v; cases s) (auto simp: member_def attempt_states_def split: option.splits if_splits)

lemma member_phases: "member storage_phases v = Inr p \<longleftrightarrow> v = JStr (storage_phase_str p)"
  by (cases v; cases p) (auto simp: member_def storage_phases_def split: option.splits if_splits)

lemma read_simps:
  "read_bool v = Inr x \<longleftrightarrow> v = JBool x"
  "read_daemon_start v = Inr i \<longleftrightarrow> v = JInt i \<and> 0 \<le> i"
  "read_outcome v = Inr s \<longleftrightarrow> v = JStr s"
  "read_digest v = Inr s \<longleftrightarrow> v = JStr s"
  by (auto simp: read_bool_def read_daemon_start_def read_outcome_def read_digest_def split: json.splits)

lemma attempt_proof_Inr:
  assumes "attempt_proof L m b identity st phase started finished = Inr r"
  shows "(r = None \<and> jget m ''proof'' = JNull) \<or>
    (\<exists>p. r = Some p \<and> as_str (s_rbd_image b) \<noteq> None \<and> validate_materialization_proof L p = Inr () \<and>
       p = binding_proof b identity st phase started finished (p_outcome p) (p_digest p))"
proof (cases "jget m ''proof''")
  case (JObj v)
  with assms obtain outcome digest where
    r: "r = Some (binding_proof b identity st phase started finished outcome digest)"
    and ok: "as_str (s_rbd_image b) \<noteq> None" "validate_materialization_proof L
      (binding_proof b identity st phase started finished outcome digest) = Inr ()"
    by (auto simp: attempt_proof_def rbind_Inr_conv Let_def)
  let ?p = "binding_proof b identity st phase started finished outcome digest"
  have "?p = binding_proof b identity st phase started finished (p_outcome ?p) (p_digest ?p)"
    by (simp add: binding_proof_def)
  with r ok show ?thesis by blast
qed (use assms in \<open>simp_all add: attempt_proof_def\<close>)

lemma parse_attempt_sound:
  assumes "parse_attempt L response b = Inr a"
  shows "at_binding a = b" and "attempt_ok L a"
proof -
  from assms obtain m i st ph sd fi daemon uu q where
    tx: "printable i" "printable uu" "uu = [] \<or> canonical_uuid uu" "0 \<le> daemon"
    and sid: "\<not> (s_cleanup_disposition b \<in> {JStr ''detach'', JStr ''handover''} \<and> i = [])"
      "\<not> (ph = PhaseMaterialized \<and> s_storage_driver b \<in> {JStr ''ceph'', JStr ''cephext''} \<and> i = [])"
    and apr: "attempt_proof L m b i st ph sd fi = Inr q"
    and a: "a = \<lparr>at_binding = b, at_storage_identity = i, at_state = st, at_phase = ph,
        at_started = sd, at_finished = fi, at_operation_uuid = uu,
        at_daemon_start = daemon, at_proof = q\<rparr>" and tuple: "attempt_tuple_ok a"
    unfolding parse_attempt_def rbind_Inr_conv Let_def safe_text_Inr read_simps check_Inr
    by (auto simp: safe_text_ok_def split: if_splits)
  show "at_binding a = b" by (simp add: a)
  have "proof_ok L a"
    using attempt_proof_Inr [OF apr] by (auto simp: proof_ok_def a)
  with tx sid tuple show "attempt_ok L a"
    by (auto simp: attempt_ok_def a)
qed

lemma validated_parts:
  assumes "validate_materialization_proof L p = Inr ()"
  shows "materialization_storage_checks p = Inr ()" and "materialization_outcome_checks p = Inr ()"
  using assms by (auto simp: validate_materialization_proof_def rbind_Inr_conv)

text \<open>Neither the storage checks nor the outcome checks look at what is read after them.\<close>

lemma checks_read_later:
  "materialization_storage_checks (binding_proof b i st ph s f o1 d1) =
   materialization_storage_checks (binding_proof b i st ph s f o2 d2)"
  "materialization_outcome_checks (binding_proof b i st ph s f o1 d1) =
   materialization_outcome_checks (binding_proof b i st ph s f o1 d2)"
  by (simp_all add: materialization_storage_checks_def materialization_outcome_checks_def
      materialization_terminal_def binding_proof_def)

lemma attempt_value_lookup:
  "jget (attempt_value a) ''proof'' = (case at_proof a of None \<Rightarrow> JNull
     | Some p \<Rightarrow> JObj [(''outcome'', JStr (p_outcome p)), (''digest'', JStr (p_digest p))])"
  "jget (attempt_value a) ''baseline_clean'' = JBool True"
  "jget (attempt_value a) ''state'' = JStr (attempt_state_str (at_state a))"
  "jget (attempt_value a) ''storage_phase'' = JStr (storage_phase_str (at_phase a))"
  "jget (attempt_value a) ''started'' = JBool (at_started a)"
  "jget (attempt_value a) ''finished'' = JBool (at_finished a)"
  "jget (attempt_value a) ''daemon_start'' = JInt (at_daemon_start a)"
  "get_default (attempt_value a) ''storage_identity'' d = JStr (at_storage_identity a)"
  "get_default (attempt_value a) ''operation_uuid'' d = JStr (at_operation_uuid a)"
  "fields_match (attempt_value a) (identity_fields (at_binding a) @ storage_fields (at_binding a))"
  by (simp_all add: attempt_value_def identity_fields_def storage_fields_def get_default_def
      fields_match_def)

lemma attempt_proof_value:
  assumes "proof_ok L a"
  shows "attempt_proof L (attempt_value a) (at_binding a) (at_storage_identity a) (at_state a)
    (at_phase a) (at_started a) (at_finished a) = Inr (at_proof a)"
proof (cases "at_proof a")
  case None
  then show ?thesis by (simp add: attempt_proof_def attempt_value_lookup)
next
  case (Some p)
  let ?p = "binding_proof (at_binding a) (at_storage_identity a) (at_state a) (at_phase a)
    (at_started a) (at_finished a)"
  have p: "p = ?p (p_outcome p) (p_digest p)" and v: "validate_materialization_proof L p = Inr ()"
    and r: "as_str (s_rbd_image (at_binding a)) \<noteq> None"
    using assms Some by (auto simp: proof_ok_def)
  have c: "materialization_storage_checks (?p [] []) = Inr ()"
    "materialization_outcome_checks (?p (p_outcome p) []) = Inr ()"
    using validated_parts [OF v] by (metis p checks_read_later)+
  show ?thesis
    using c v r by (simp add: attempt_proof_def attempt_value_lookup Some Let_def read_simps
        p [symmetric]) (auto simp: read_outcome_def read_digest_def p [symmetric])
qed

lemma parse_attempt_complete:
  assumes "attempt_ok L a"
  shows "parse_attempt L (attempt_response a) (at_binding a) = Inr a"
proof -
  have p: "proof_ok L a" using assms by (simp add: attempt_ok_def)
  have r: "read_daemon_start (JInt (at_daemon_start a)) = Inr (at_daemon_start a)"
    "safe_text (JStr (at_storage_identity a)) None True = Inr (at_storage_identity a)"
    "safe_text (JStr (at_operation_uuid a)) None True = Inr (at_operation_uuid a)"
    using assms by (auto simp: read_simps safe_text_Inr safe_text_ok_def attempt_ok_def printable_def)
  have m: "member attempt_states (JStr (attempt_state_str (at_state a))) = Inr (at_state a)"
    "member storage_phases (JStr (storage_phase_str (at_phase a))) = Inr (at_phase a)"
    by (simp_all add: member_states member_phases)
  have d: "read_bool (JBool x) = Inr x" for x by (simp add: read_simps)
  have u: "(if at_operation_uuid a \<noteq> [] then check_uuid (at_operation_uuid a)
      else Inr (at_operation_uuid a)) = Inr (at_operation_uuid a)"
    using assms by (auto simp: attempt_ok_def check_uuid_def)
  have c: "\<not> (s_cleanup_disposition (at_binding a) \<in> {JStr ''detach'', JStr ''handover''} \<and>
      at_storage_identity a = [])"
    "\<not> (at_phase a = PhaseMaterialized \<and>
      s_storage_driver (at_binding a) \<in> {JStr ''ceph'', JStr ''cephext''} \<and> at_storage_identity a = [])"
    using assms unfolding attempt_ok_def by blast+
  have e: "\<lparr>at_binding = at_binding a, at_storage_identity = at_storage_identity a,
      at_state = at_state a, at_phase = at_phase a, at_started = at_started a,
      at_finished = at_finished a, at_operation_uuid = at_operation_uuid a,
      at_daemon_start = at_daemon_start a, at_proof = at_proof a\<rparr> = a"
    by simp
  have t: "attempt_tuple_ok a" using assms by (simp add: attempt_ok_def)
  have rm: "response_metadata (attempt_response a) = Inr (attempt_value a)"
    by (simp add: response_metadata_def attempt_response_def)
  show ?thesis
    unfolding parse_attempt_def rm rbind_simps attempt_value_lookup r m d u
      attempt_proof_value [OF p] Let_def e
    using c t by (simp only: attempt_value_lookup check_simps rbind_simps simp_thms)
qed

text \<open>A sample: an aborted attempt that never materialized, on a ZFS pool.\<close>

definition binding_1 :: storage_binding where
  "binding_1 =
     \<lparr>s_token = ''bbbbbbbb-bbbb-4bbb-8bbb-bbbbbbbbbbbb'',
      s_allocation_id = ''cccccccc-cccc-4ccc-8ccc-cccccccccccc'',
      s_compute_id = ''aaaaaaaa-aaaa-4aaa-8aaa-aaaaaaaaaaaa'',
      s_owner = ''11111111-1111-4111-8111-111111111111'', s_project = ''default'',
      s_instance_name = ''vm-1'', s_idmap_base = 100000, s_idmap_size = 65536,
      s_storage_driver = JStr ''zfs'', s_storage_pool = JStr ''nova'', s_storage_volume = JStr ''vm-1'',
      s_cleanup_disposition = JStr ''delete'', s_rbd_image = JStr ''''\<rparr>"

definition proof_1 :: materialization_proof where
  "proof_1 = binding_proof binding_1 '''' Aborted PhaseNone False True ''not-materialized''
     (''sha256:'' @ replicate 64 CHR ''0'')"

definition attempt_1 :: attempt where
  "attempt_1 =
     \<lparr>at_binding = binding_1, at_storage_identity = '''', at_state = Aborted, at_phase = PhaseNone,
      at_started = False, at_finished = True, at_operation_uuid = '''', at_daemon_start = 7,
      at_proof = Some proof_1\<rparr>"

lemma attempt_1_parsed: "parse_attempt json_lib (attempt_response attempt_1) binding_1 = Inr attempt_1"
  by code_simp

text \<open>
  An attempt is accepted exactly when its state tuple is one of the protocol's, its
  texts are clean, a volume that stays behind or a materialized Ceph volume is identified,
  and its proof (if any) is the valid proof of this binding: the reply that renders such an
  attempt reads back as that attempt, and no other binding or inconsistent attempt does.
\<close>

theorem attempt_accepted_iff:
  "parse_attempt L (attempt_response a) b = Inr a \<longleftrightarrow> b = at_binding a \<and> attempt_ok L a"
proof
  assume "parse_attempt L (attempt_response a) b = Inr a"
  then show "b = at_binding a \<and> attempt_ok L a" using parse_attempt_sound by blast
next
  assume "b = at_binding a \<and> attempt_ok L a"
  then show "parse_attempt L (attempt_response a) b = Inr a" by (simp add: parse_attempt_complete)
qed

lemma binding_proof_binds:
  assumes v: "validate_materialization_proof L p = Inr ()" and r: "as_str (s_rbd_image b) \<noteq> None"
    and p: "p = binding_proof b i st ph s f oc d"
  shows "binds_proof b p"
proof -
  have t: "text_of v \<noteq> [] \<Longrightarrow> JStr (text_of v) = v" for v
    by (simp add: text_of_def split: json.splits)
  have "p_storage_driver p \<noteq> []" "p_storage_pool p \<noteq> []" "p_storage_volume p \<noteq> []"
    "p_cleanup_disposition p \<noteq> []"
    using v by (auto simp: validate_materialization_proof_iff receipt_text_ok_def disposition_ok_def)
  moreover have "JStr (text_of (s_rbd_image b)) = s_rbd_image b"
    using r by (cases "s_rbd_image b") (simp_all add: text_of_def)
  ultimately show ?thesis using t by (simp add: binds_proof_def p binding_proof_def)
qed

lemma accepted_proof:
  assumes "parse_attempt L response b = Inr a" and "at_proof a = Some p"
  shows "validate_materialization_proof L p = Inr ()" and "binds_proof b p"
proof -
  have "proof_ok L a" "at_binding a = b"
    using parse_attempt_sound [OF assms(1)] by (simp_all add: attempt_ok_def)
  then have r: "as_str (s_rbd_image b) \<noteq> None" and v: "validate_materialization_proof L p = Inr ()"
    and p: "p = binding_proof b (at_storage_identity a) (at_state a) (at_phase a)
              (at_started a) (at_finished a) (p_outcome p) (p_digest p)"
    using assms(2) unfolding proof_ok_def by blast+
  show "validate_materialization_proof L p = Inr ()" by (rule v)
  show "binds_proof b p" using v r p by (rule binding_proof_binds)
qed

text \<open>
  C37: Whatever Incus replies, an accepted attempt carries a proof exactly when it is
  finished without having been committed, so exactly when no artifact of it can remain; and
  the proof is valid, belongs to the binding that was asked for, and repeats the attempt's
  flags and storage identity.
\<close>

theorem attempt_proof_terminal:
  assumes "parse_attempt L response b = Inr a"
  shows "(at_proof a \<noteq> None) = (at_finished a \<and> at_state a \<noteq> AttemptCommitted) \<and>
    list_all (\<lambda>p. validate_materialization_proof L p = Inr () \<and> binds_proof b p \<and>
      m_started p = at_started a \<and> m_finished p \<and> p_storage_identity p = at_storage_identity a)
      (case at_proof a of None \<Rightarrow> [] | Some p \<Rightarrow> [p])"
proof
  have ok: "attempt_ok L a" using assms by (rule parse_attempt_sound)
  then show t: "(at_proof a \<noteq> None) = (at_finished a \<and> at_state a \<noteq> AttemptCommitted)"
    by (cases "at_state a") (auto simp: attempt_ok_def attempt_tuple_ok_def)
  show "list_all (\<lambda>p. validate_materialization_proof L p = Inr () \<and> binds_proof b p \<and>
      m_started p = at_started a \<and> m_finished p \<and> p_storage_identity p = at_storage_identity a)
      (case at_proof a of None \<Rightarrow> [] | Some p \<Rightarrow> [p])"
  proof (cases "at_proof a")
    case (Some p)
    have "p = binding_proof (at_binding a) (at_storage_identity a) (at_state a) (at_phase a)
        (at_started a) (at_finished a) (p_outcome p) (p_digest p)"
      using ok Some unfolding attempt_ok_def proof_ok_def by blast
    then have "m_started p = at_started a" "m_finished p = at_finished a"
      "p_storage_identity p = at_storage_identity a"
      by (metis binding_proof_def materialization_proof.select_convs proof_base.select_convs)+
    with t Some accepted_proof [OF assms Some] show ?thesis by simp
  qed simp
qed

theorem attempt_proof_terminal_witness:
  "validate_materialization_proof json_lib proof_1 = Inr () \<and> binds_proof binding_1 proof_1"
  using attempt_proof_terminal [OF attempt_1_parsed] by (simp add: attempt_1_def)

section \<open>Operations\<close>

lemma bnd_Inr:
  "bnd m f w = (Inr r, w') \<longleftrightarrow> (\<exists>a w1. m w = (Inr a, w1) \<and> f a w1 = (Inr r, w'))"
  by (auto simp: bnd_def split: prod.splits sum.splits)

lemma prog_Inr:
  "lift q w = (Inr r, w') \<longleftrightarrow> q = Inr r \<and> w' = w"
  "ret a w = (Inr r, w') \<longleftrightarrow> a = r \<and> w' = w"
  "raise e w = (Inr r, w') \<longleftrightarrow> False"
  by (auto simp: lift_def ret_def raise_def)

lemmas returned = bnd_Inr prog_Inr

text \<open>
  Whatever Incus replies, a registration returns only a pristine attempt, an observed
  start only an attempt that has durably started, an abort only an attempt that can make no
  further progress by itself, and each is an attempt of the binding that was asked for.
\<close>

theorem operations_promise:
  assumes "register_materialization L api b w = (Inr a, w1)"
    and "observe_materialization_start L api b w1 = (Inr a', w2)"
    and "abort_materialization L api b w2 = (Inr a'', w3)"
  shows "pristine a \<and> attempt_ok L a \<and> at_binding a = b \<and>
    at_started a' \<and> at_phase a' \<noteq> PhaseNone \<and> attempt_ok L a' \<and> at_binding a' = b \<and>
    at_state a'' \<notin> {Active, AttemptCommitted} \<and> attempt_ok L a'' \<and> at_binding a'' = b"
proof -
  have "pristine a" and 1: "\<exists>r. parse_attempt L r b = Inr a"
    using assms(1) by (auto simp: register_materialization_def returned split: if_splits)
  moreover have "at_started a' \<and> at_phase a' \<noteq> PhaseNone" and 2: "\<exists>r. parse_attempt L r b = Inr a'"
    using assms(2)
    by (auto simp: observe_materialization_start_def get_materialization_def returned split: if_splits)
  moreover have "at_state a'' \<notin> {Active, AttemptCommitted}" and 3: "\<exists>r. parse_attempt L r b = Inr a''"
    using assms(3) by (auto simp: abort_materialization_def returned split: if_splits)
  ultimately show ?thesis using parse_attempt_sound by blast
qed

text \<open>A server that has the sample attempt in the states an abort goes through.\<close>

definition demo_attempt :: "nat \<Rightarrow> attempt" where
  "demo_attempt n =
     (if n = 0 then attempt_1\<lparr>at_state := Active, at_finished := False, at_proof := None\<rparr>
      else attempt_1\<lparr>at_state := (if n = 1 then Active else Aborted), at_started := True,
             at_phase := PhasePending, at_finished := False, at_proof := None\<rparr>)"

definition demo_api :: "nat storage_api" where
  "demo_api =
     \<lparr>sa_host_info = JObj [(''api_extensions'', JList (map JStr ownership_extensions))],
      sa_call = (\<lambda>rq n. (Inr (attempt_response (demo_attempt n)), n + 1))\<rparr>"

theorem operations_promise_witness:
  "pristine (demo_attempt 0) \<and> at_started (demo_attempt 1) \<and> at_state (demo_attempt 2) \<notin> {Active}"
proof -
  have "register_materialization json_lib demo_api binding_1 0 = (Inr (demo_attempt 0), 1)"
    "observe_materialization_start json_lib demo_api binding_1 1 = (Inr (demo_attempt 1), 2)"
    "abort_materialization json_lib demo_api binding_1 2 = (Inr (demo_attempt 2), 3)"
    by code_simp+
  from operations_promise [OF this] show ?thesis by blast
qed

text \<open>
  A discovered attempt has a valid binding that extends the identity that was asked for.
  If it carries a proof, and the identity is that of a host claim, then the proof passes the
  validation and the binding checks of the registry, so the claim can record it.
\<close>

theorem discovered_proof_retires_claim:
  assumes run: "discover_materialization L api d w = (Inr a, w')" and p: "at_proof a = Some p"
    and claim: "s_token d = materialization_id c" "s_allocation_id d = allocation_id c"
      "s_compute_id d = host_id c" "s_owner d = instance_uuid c"
      "s_idmap_base d = map_base c" "s_idmap_size d = map_size c"
  shows "validate_binding (at_binding a) = Inr () \<and> storage_identity.truncate (at_binding a) = d \<and>
    validate_materialization_proof L p = Inr () \<and>
    validate_claim_proof_binding (c\<lparr>state := Cleaned, proof_of := Some (Materialization p)\<rparr>) = Inr ()"
proof -
  from run obtain response m b where b: "binding_from_metadata m d = Inr b"
    and a: "parse_attempt L response b = Inr a"
    by (auto simp: discover_materialization_def returned)
  note B = binding_from_metadata_Inr [OF b]
  have ab: "at_binding a = b" using a by (rule parse_attempt_sound)
  have bp: "binds_proof b p" using a p by (rule accepted_proof)
  have "s_token b = s_token d" "s_allocation_id b = s_allocation_id d" "s_compute_id b = s_compute_id d"
    "s_owner b = s_owner d" "s_idmap_base b = s_idmap_base d" "s_idmap_size b = s_idmap_size d"
    using B(1) by (auto simp: storage_identity.defs)
  with bp claim have "validate_claim_proof_binding
      (c\<lparr>state := Cleaned, proof_of := Some (Materialization p)\<rparr>) = Inr ()"
    by (simp add: validate_claim_proof_binding_def proof_binds_def binds_proof_def proof_base.defs)
  with ab B accepted_proof(1) [OF a p] show ?thesis by simp
qed

definition demo_claim :: host_claim where
  "demo_claim =
     \<lparr>instance_uuid = s_owner binding_1, map_base = 100000, map_size = 65536, map_slot = 0,
      allocation_id = s_allocation_id binding_1, fingerprint = '''', host_id = s_compute_id binding_1,
      materialization_id = s_token binding_1, state = Possible, proof_of = None\<rparr>"

definition aborted_api :: "nat storage_api" where
  "aborted_api = demo_api\<lparr>sa_call := (\<lambda>rq n. (Inr (attempt_response attempt_1), n + 1))\<rparr>"

theorem discovered_proof_retires_claim_witness:
  "validate_claim_proof_binding
     (demo_claim\<lparr>state := Cleaned, proof_of := Some (Materialization proof_1)\<rparr>) = Inr ()"
proof -
  let ?d = "storage_identity.truncate binding_1"
  have run: "discover_materialization json_lib aborted_api ?d 0 = (Inr attempt_1, 1)"
    by code_simp
  have p: "at_proof attempt_1 = Some proof_1" by (simp add: attempt_1_def)
  have "s_token ?d = materialization_id demo_claim" "s_allocation_id ?d = allocation_id demo_claim"
    "s_compute_id ?d = host_id demo_claim" "s_owner ?d = instance_uuid demo_claim"
    "s_idmap_base ?d = map_base demo_claim" "s_idmap_size ?d = map_size demo_claim"
    by (simp_all add: demo_claim_def storage_identity.defs binding_1_def)
  from discovered_proof_retires_claim [OF run p this] show ?thesis by simp
qed

lemma need_cases:
  "bnd (need api e) f w =
     (case require_storage_ownership_extensions (sa_host_info api) (Some [e]) of
        Inl x \<Rightarrow> (Inl x, w) | Inr _ \<Rightarrow> f () w)"
  by (simp add: need_def bnd_def lift_def split: sum.split)

lemma lift_cases: "bnd (lift r) f w = (case r of Inl x \<Rightarrow> (Inl x, w) | Inr a \<Rightarrow> f a w)"
  by (simp add: bnd_def lift_def split: sum.split)

lemma acknowledge_proof_run:
  "acknowledge_materialization_proof L api b p w =
     (if \<not> is_ok (validate_materialization_proof L p) \<or> \<not> binds_proof b p \<or>
         \<not> is_ok (require_storage_ownership_extensions (sa_host_info api) (Some [attempt_extension]))
      then (Inl (projl (rbind (validate_materialization_proof L p) (\<lambda>_. rbind (validate_proof_binding b p) (\<lambda>_.
        require_storage_ownership_extensions (sa_host_info api) (Some [attempt_extension]))))), w)
      else sa_call api \<lparr>rq_method = Delete, rq_collection = ''storage-materialization-attempts'',
             rq_token = s_token b, rq_params = acknowledgement_params b (p_digest p), rq_body = []\<rparr> w)"
  by (cases "validate_materialization_proof L p"; cases "binds_proof b p";
      cases "require_storage_ownership_extensions (sa_host_info api) (Some [attempt_extension])")
    (simp_all add: acknowledge_materialization_proof_def validate_proof_binding_def lift_cases
      need_cases attempt_request_def raise_def)

lemma acknowledge_receipt_run:
  "acknowledge_release_receipt L api b q w =
     (if \<not> is_ok (validate_release_proof L q) \<or> \<not> is_ok (validate_receipt_binding b q) \<or>
         \<not> is_ok (require_storage_ownership_extensions (sa_host_info api) (Some [receipt_extension]))
      then (Inl (projl (rbind (validate_release_proof L q) (\<lambda>_. rbind (validate_receipt_binding b q) (\<lambda>_.
        require_storage_ownership_extensions (sa_host_info api) (Some [receipt_extension]))))), w)
      else sa_call api \<lparr>rq_method = Delete, rq_collection = ''storage-release-receipts'',
             rq_token = s_token b,
             rq_params = release_receipt_params b @ [(''receipt-digest'', p_digest q)], rq_body = []\<rparr> w)"
  by (cases "validate_release_proof L q"; cases "validate_receipt_binding b q";
      cases "require_storage_ownership_extensions (sa_host_info api) (Some [receipt_extension])")
    (simp_all add: acknowledge_release_receipt_def proof_from_receipt_def lift_cases need_cases
      receipt_request_def raise_def)

text \<open>
  A proof is acknowledged, which lets Incus forget it, only if it is valid and belongs to
  the binding, and a receipt likewise; then exactly one request is sent, for the digest of
  what was validated. Otherwise no request is sent.
\<close>

theorem acknowledge_validated_only:
  assumes "acknowledge_materialization_proof L api b p w = (r, w')" and "is_ok r \<or> w' \<noteq> w"
    and "acknowledge_release_receipt L api b q v = (s, v')" and "is_ok s \<or> v' \<noteq> v"
  shows "validate_materialization_proof L p = Inr () \<and> binds_proof b p \<and>
    validate_release_proof L q = Inr () \<and> binds_proof b q \<and> r_materialization_id q = s_token b \<and>
    (r, w') = sa_call api \<lparr>rq_method = Delete, rq_collection = ''storage-materialization-attempts'',
      rq_token = s_token b, rq_params = acknowledgement_params b (p_digest p), rq_body = []\<rparr> w \<and>
    (s, v') = sa_call api \<lparr>rq_method = Delete, rq_collection = ''storage-release-receipts'',
      rq_token = s_token b,
      rq_params = release_receipt_params b @ [(''receipt-digest'', p_digest q)], rq_body = []\<rparr> v"
  using assms unfolding acknowledge_proof_run acknowledge_receipt_run
  by (auto simp: is_ok_unit validate_receipt_binding_def split: if_splits)

definition receipt_1 :: release_receipt where
  "receipt_1 =
     \<lparr>p_token = s_token binding_1, p_allocation_id = s_allocation_id binding_1,
      p_compute_id = s_compute_id binding_1, p_owner = s_owner binding_1, p_project = ''default'',
      p_instance_name = ''vm-1'', p_idmap_base = 100000, p_idmap_size = 65536,
      p_storage_driver = ''zfs'', p_storage_pool = ''nova'', p_storage_volume = ''vm-1'',
      p_rbd_image = '''', p_storage_identity = '''', p_baseline_clean = True,
      p_cleanup_disposition = ''delete'', p_state = ''complete'', p_outcome = ''deleted'',
      p_digest = ''sha256:'' @ replicate 64 CHR ''0'', r_materialization_id = s_token binding_1,
      r_created_at = 5, r_completed_at = 6\<rparr>"

lemma samples_validated:
  "validate_materialization_proof json_lib proof_1 = Inr ()"
  "validate_release_proof json_lib receipt_1 = Inr ()"
  by code_simp+

lemma samples_bound:
  "binds_proof binding_1 proof_1" "validate_receipt_binding binding_1 receipt_1 = Inr ()"
  "require_storage_ownership_extensions (sa_host_info aborted_api) (Some [attempt_extension]) = Inr ()"
  "require_storage_ownership_extensions (sa_host_info aborted_api) (Some [receipt_extension]) = Inr ()"
  by code_simp+

theorem acknowledge_validated_only_witness:
  "r_materialization_id receipt_1 = s_token binding_1 \<and> binds_proof binding_1 receipt_1"
proof -
  let ?r = "Inr (attempt_response attempt_1) :: json option result"
  have "acknowledge_materialization_proof json_lib aborted_api binding_1 proof_1 0 = (?r, 1)"
    "acknowledge_release_receipt json_lib aborted_api binding_1 receipt_1 0 = (?r, 1)"
    unfolding acknowledge_proof_run acknowledge_receipt_run samples_validated
    by (simp_all add: samples_bound) (simp_all add: aborted_api_def)
  from acknowledge_validated_only [OF this(1) _ this(2)] show ?thesis by simp
qed

text \<open>
  Without the advertised protocol extension no operation sends a request: the attempt
  operations without the attempt extension, the receipt operations without the receipt
  extension, and every one of them fails.
\<close>

theorem extension_gate:
  assumes a: "require_storage_ownership_extensions (sa_host_info api) (Some [attempt_extension]) = Inl e"
    and r: "require_storage_ownership_extensions (sa_host_info api) (Some [receipt_extension]) = Inl e'"
  shows "register_materialization L api b w = (Inl e, w) \<and>
    get_materialization L api b w = (Inl e, w) \<and>
    observe_materialization_start L api b w = (Inl e, w) \<and>
    abort_materialization L api b w = (Inl e, w) \<and>
    settle_materialization L api b w = (Inl e, w) \<and>
    get_release_receipt L api b w = (Inl e', w) \<and>
    snd (discover_materialization L api d w) = w \<and> \<not> is_ok (fst (discover_materialization L api d w)) \<and>
    snd (discover_release_receipt L api d w) = w \<and> \<not> is_ok (fst (discover_release_receipt L api d w)) \<and>
    snd (acknowledge_materialization_proof L api b p w) = w \<and>
    snd (acknowledge_release_receipt L api b q w) = w"
proof -
  have n: "need api attempt_extension = raise e" "need api receipt_extension = raise e'"
    by (rule ext; simp add: need_def a r lift_def raise_def)+
  have l: "snd (bnd (lift u) (\<lambda>_. raise x) w) = w" "\<not> is_ok (fst (bnd (lift u) (\<lambda>_. raise x) w))"
    for u :: "'u result" and x and w :: 'x
    by (cases u; simp add: raise_def lift_def bnd_def)+
  show ?thesis
    by (simp add: register_materialization_def get_materialization_def observe_materialization_start_def
        abort_materialization_def settle_materialization_def get_release_receipt_def n
        discover_materialization_def discover_release_receipt_def l acknowledge_proof_run
        acknowledge_receipt_run a r) (simp add: raise_def)
qed

theorem extension_gate_witness:
  "snd (register_materialization json_lib (demo_api\<lparr>sa_host_info := JNull\<rparr>) binding_1 0) = 0"
proof -
  have "require_storage_ownership_extensions (sa_host_info (demo_api\<lparr>sa_host_info := JNull\<rparr>))
      (Some [x]) = Inl ConfigurationError" for x
    by (simp add: require_storage_ownership_extensions_def)
  from extension_gate [OF this this, of json_lib binding_1 0] show ?thesis by simp
qed

end
