(* ===== verification/Nova_Model.thy ===== *)
theory Nova_Model
  imports Py_Values "HOL-Library.AList"
begin

text \<open>
  What the driver's modules share: the exceptions of Nova they raise, dicts as association
  lists, string operations of Python, and the data of Nova that the driver reads (a VIF, a
  flavor, an instance, block device information) with the options of the \<open>[incus]\<close> group.
\<close>

section \<open>Exceptions\<close>

datatype nova_error =
    InvalidConfiguration
  | NovaException
  | InternalError
  | ProcessExecutionError
  | PyError py_exception

type_synonym 'a nova_result = "nova_error + 'a"

text \<open>A Python exception of a conversion, and \<open>except (TypeError, ValueError)\<close> around it.\<close>

fun of_py :: "idmap_error \<Rightarrow> nova_error" where
  "of_py (PyException e) = PyError e"
| "of_py e = NovaException"

definition py_result :: "'a result \<Rightarrow> 'a nova_result" where
  "py_result r = (case r of Inl e \<Rightarrow> Inl (of_py e) | Inr a \<Rightarrow> Inr a)"

definition int_or_invalid :: "json \<Rightarrow> int nova_result" where
  "int_or_invalid v =
     except_r (\<lambda>e. e \<in> {PyError TypeError, PyError ValueError}) InvalidConfiguration (py_result (py_int v))"

lemma int_or_invalid_Inr [simp]: "int_or_invalid v = Inr i \<longleftrightarrow> py_int v = Inr i"
  by (auto simp: int_or_invalid_def py_result_def split: sum.splits)

section \<open>Dicts and strings\<close>

type_synonym 'v dict = "(string \<times> 'v) list"

text \<open>\<open>d.update(new)\<close>.\<close>

definition update_all :: "'v dict \<Rightarrow> 'v dict \<Rightarrow> 'v dict" where
  "update_all new d = fold (\<lambda>(k, v). AList.update k v) new d"

definition has_key :: "'v dict \<Rightarrow> string \<Rightarrow> bool" where
  "has_key d k \<longleftrightarrow> map_of d k \<noteq> None"

lemma map_of_update_all:
  "map_of (update_all new d) k = (case map_of (rev new) k of None \<Rightarrow> map_of d k | Some v \<Rightarrow> Some v)"
  unfolding update_all_def
proof (induction new arbitrary: d)
  case (Cons kv new)
  then show ?case
    by (cases kv) (simp add: map_add_def update_conv split: option.splits)
qed simp

lemma map_of_rev_distinct: "distinct (map fst new) \<Longrightarrow> map_of (rev new) = map_of new"
  by (intro map_of_inject_set [THEN iffD2]) (auto simp: rev_map [symmetric])

lemma map_of_update_all_distinct:
  "distinct (map fst new) \<Longrightarrow>
   map_of (update_all new d) k = (case map_of new k of None \<Rightarrow> map_of d k | Some v \<Rightarrow> Some v)"
  by (simp add: map_of_update_all map_of_rev_distinct)

lemma distinct_update_all: "distinct (map fst d) \<Longrightarrow> distinct (map fst (update_all new d))"
  unfolding update_all_def by (induction new arbitrary: d) (auto simp: distinct_update)

text \<open>\<open>s.replace(old, new)\<close> for a non-empty \<open>old\<close>.\<close>

function replace_sub :: "string \<Rightarrow> string \<Rightarrow> string \<Rightarrow> string" where
  "replace_sub p r s =
     (if s = [] then []
      else if p \<noteq> [] \<and> starts_with p s then r @ replace_sub p r (drop (length p) s)
      else hd s # replace_sub p r (tl s))"
  by pat_completeness auto
termination
  by (relation "measure (\<lambda>(p, r, s). length s)") auto

declare replace_sub.simps [simp del]

section \<open>Network interfaces\<close>

record vif =
  vif_id :: string
  vif_devname :: "string option"
  vif_type :: string
  vif_address :: string
  vif_bridge :: "string option"
  vif_mtu :: "int option"
  vif_hybrid :: bool

section \<open>Options\<close>

text \<open>
  The options of the \<open>[incus]\<close> group that are read, and the constant NIC_NAME_LEN of
  nova.network.model.
\<close>

record incus_conf =
  cf_allow_instance_swap :: bool
  cf_default_process_limit :: int
  cf_maximum_process_limit :: int
  cf_allow_live_migration :: bool
  cf_data_volume_mount_fuse :: "string option"
  cf_minimum_root_disk_gb :: int
  cf_root_storage_pools :: "string dict"
  cf_root_storage_pool_resource_classes :: "string dict"
  cf_storage_pool :: "string option"
  cf_nic_name_len :: nat

section \<open>Instances\<close>

record flavor =
  fl_vcpus :: int
  fl_swap :: int
  fl_extra_specs :: "string dict"

text \<open>\<open>in_metadata\<close> is the system metadata, \<open>None\<close> when it is not loaded.\<close>

record nova_instance =
  in_name :: string
  in_uuid :: string
  in_memory_mb :: int
  in_root_gb :: int
  in_flavor :: flavor
  in_metadata :: "fields option"

text \<open>
  What Nova's \<open>block_device_info_get_mapping\<close> and \<open>block_device_info_get_ephemerals\<close> return:
  for each volume whether it has connection information, and its boot index.
\<close>

record block_info =
  bi_mapping :: "(bool \<times> json) list"
  bi_ephemerals :: "json list"

text \<open>
  The pylxd client: the API extensions and the storage backend of the host, and the driver of
  a storage pool (\<open>None\<close> where the request fails).
\<close>

record incus_host =
  ih_extensions :: "string list"
  ih_storage :: string
  ih_pool_driver :: "string \<Rightarrow> string option"

end
