(* ===== verification/Vif_Wiring.thy ===== *)
theory Vif_Wiring
  imports Nova_Model
begin

text \<open>
  VIF plugging (nova/virt/incus/vif.py): the names of the two ends of the veth pair and of the
  guest interface, the device configuration, and plug, reassert and unplug as programs over
  the host network. The calls of os-vif, of Nova's linux_net and of the OVS library are
  parameters.
\<close>

section \<open>Names and configuration\<close>

definition get_vif_devname :: "nat \<Rightarrow> vif \<Rightarrow> string" where
  "get_vif_devname n v =
     (case vif_devname v of Some d \<Rightarrow> d | None \<Rightarrow> take n (''nic'' @ vif_id v))"

definition get_vif_internal_devname :: "nat \<Rightarrow> vif \<Rightarrow> string" where
  "get_vif_internal_devname n v = replace_sub ''tap'' ''tin'' (get_vif_devname n v)"

definition guest_nic_name_len :: nat where
  "guest_nic_name_len = 15"

definition get_vif_guest_devname :: "vif \<Rightarrow> string" where
  "get_vif_guest_devname v =
     take guest_nic_name_len
       (''nic'' @ map lower_char (filter (\<lambda>c. c \<noteq> CHR ''-'') (vif_id v)))"

text \<open>
  The generators of \<open>CONFIG_GENERATORS\<close>. Those of a bridge and of an OVS port read
  \<open>vif['network']['bridge']\<close>; a KeyError there is reported like an unknown type.
\<close>

definition bridge_config :: "vif \<Rightarrow> string dict nova_result" where
  "bridge_config v =
     (case vif_bridge v of
        Some b \<Rightarrow> Inr [(''bridge'', b), (''mac_address'', vif_address v)]
      | None \<Rightarrow> Inl (PyError KeyError))"

definition ovs_config :: "vif \<Rightarrow> string dict nova_result" where
  "ovs_config v =
     (case vif_bridge v of
        Some b \<Rightarrow> Inr [(''bridge'', b), (''mac_address'', vif_address v)]
      | None \<Rightarrow> Inl (PyError KeyError))"

definition tap_config :: "vif \<Rightarrow> string dict nova_result" where
  "tap_config v = Inr [(''mac_address'', vif_address v)]"

definition get_vif_config :: "vif \<Rightarrow> string dict nova_result" where
  "get_vif_config v =
     except_r (\<lambda>e. e = PyError KeyError) NovaException
       (if vif_type v = ''bridge'' then bridge_config v
        else if vif_type v = ''ovs'' then ovs_config v
        else if vif_type v = ''tap'' then tap_config v
        else Inl (PyError KeyError))"

text \<open>\<open>_create_ovs_vif_cmd\<close>: the arguments of ovs-vsctl for one port.\<close>

definition create_ovs_vif_cmd ::
  "string \<Rightarrow> string \<Rightarrow> string \<Rightarrow> string \<Rightarrow> string \<Rightarrow> string option \<Rightarrow> string list" where
  "create_ovs_vif_cmd bridge dev iface_id mac instance_id interface_type =
     [''--'', ''--if-exists'', ''del-port'', dev, ''--'',
      ''add-port'', bridge, dev,
      ''--'', ''set'', ''Interface'', dev,
      ''external-ids:iface-id='' @ iface_id,
      ''external-ids:iface-status=active'',
      ''external-ids:attached-mac='' @ mac,
      ''external-ids:vm-uuid='' @ instance_id] @
     (case interface_type of None \<Rightarrow> [] | Some t \<Rightarrow> if t = [] then [] else [''type='' @ t])"

section \<open>The host network\<close>

text \<open>
  Device existence and the mutations, and os-vif: \<open>hn_osvif\<close> tells whether
  \<open>nova_to_osvif_vif\<close> translates the VIF, which may also fail. The flag
  \<open>delegate_create\<close> that \<open>plug\<close> sets on an OVS port is part of what os-vif is asked.
\<close>

record 'w host_net =
  hn_exists :: "string \<Rightarrow> ('w, nova_error, bool) eprog"
  hn_create_veth :: "string \<Rightarrow> string \<Rightarrow> int option \<Rightarrow> ('w, nova_error, unit) eprog"
  hn_set_mtu :: "string \<Rightarrow> int option \<Rightarrow> ('w, nova_error, unit) eprog"
  hn_delete :: "string \<Rightarrow> ('w, nova_error, unit) eprog"
  hn_osvif :: "vif \<Rightarrow> ('w, nova_error, bool) eprog"
  hn_osvif_plug :: "vif \<Rightarrow> ('w, nova_error, unit) eprog"
  hn_osvif_unplug :: "vif \<Rightarrow> ('w, nova_error, unit) eprog"
  hn_delete_ovs_port :: "string \<Rightarrow> string \<Rightarrow> ('w, nova_error, unit) eprog"

text \<open>Create the pair, or set the MTU of an existing device.\<close>

definition wire_veth :: "'w host_net \<Rightarrow> nat \<Rightarrow> vif \<Rightarrow> ('w, nova_error, unit) eprog" where
  "wire_veth N n v =
     bnd (hn_exists N (get_vif_devname n v)) (\<lambda>exists.
       if \<not> exists then
         hn_create_veth N (get_vif_devname n v) (get_vif_internal_devname n v) (vif_mtu v)
       else hn_set_mtu N (get_vif_devname n v) (vif_mtu v))"

text \<open>A KeyError of the wiring is swallowed, as is an unknown type.\<close>

definition post_plug_wiring :: "'w host_net \<Rightarrow> nat \<Rightarrow> vif \<Rightarrow> ('w, nova_error, unit) eprog" where
  "post_plug_wiring N n v =
     (if vif_type v \<in> {''bridge'', ''ovs''} then
        handle (\<lambda>e. e = PyError KeyError) (wire_veth N n v) (\<lambda>_. ret ())
      else ret ())"

definition delete_veth :: "'w host_net \<Rightarrow> nat \<Rightarrow> vif \<Rightarrow> ('w, nova_error, unit) eprog" where
  "delete_veth N n v =
     bnd (hn_exists N (get_vif_devname n v)) (\<lambda>exists.
       if \<not> exists then ret ()
       else handle (\<lambda>e. e = ProcessExecutionError) (hn_delete N (get_vif_devname n v)) (\<lambda>_. ret ()))"

definition post_unplug_wiring :: "'w host_net \<Rightarrow> nat \<Rightarrow> vif \<Rightarrow> ('w, nova_error, unit) eprog" where
  "post_unplug_wiring N n v =
     (if vif_type v \<in> {''bridge'', ''ovs''} then
        handle (\<lambda>e. e = PyError KeyError) (delete_veth N n v) (\<lambda>_. ret ())
      else ret ())"

definition unplug_tap :: "'w host_net \<Rightarrow> nat \<Rightarrow> vif \<Rightarrow> ('w, nova_error, unit) eprog" where
  "unplug_tap N n v =
     handle (\<lambda>e. e = ProcessExecutionError) (hn_delete N (get_vif_devname n v)) (\<lambda>_. ret ())"

definition plug_tap :: "'w host_net \<Rightarrow> nat \<Rightarrow> vif \<Rightarrow> ('w, nova_error, unit) eprog" where
  "plug_tap N n v =
     bnd (hn_exists N (get_vif_devname n v)) (\<lambda>exists.
       if \<not> exists then
         hn_create_veth N (get_vif_devname n v) (get_vif_internal_devname n v) (vif_mtu v)
       else hn_set_mtu N (get_vif_devname n v) (vif_mtu v))"

definition plug :: "'w host_net \<Rightarrow> nat \<Rightarrow> vif \<Rightarrow> ('w, nova_error, unit) eprog" where
  "plug N n v =
     (if vif_type v = ''ovs'' \<and> vif_hybrid v then raise InternalError
      else
        bnd (post_plug_wiring N n v) (\<lambda>_.
        bnd (hn_osvif N v) (\<lambda>known.
        if known then hn_osvif_plug N v
        else if vif_type v = ''tap'' then plug_tap N n v
        else raise InternalError)))"

definition is_ovs_vif_port :: "vif \<Rightarrow> bool" where
  "is_ovs_vif_port v \<longleftrightarrow> vif_type v = ''ovs'' \<and> \<not> vif_hybrid v"

definition reassert :: "'w host_net \<Rightarrow> nat \<Rightarrow> vif \<Rightarrow> ('w, nova_error, unit) eprog" where
  "reassert N n v =
     bnd (if is_ovs_vif_port v then
            (case vif_bridge v of
               Some b \<Rightarrow> hn_delete_ovs_port N b (get_vif_devname n v)
             | None \<Rightarrow> raise (PyError KeyError))
          else ret ()) (\<lambda>_. plug N n v)"

definition unplug :: "'w host_net \<Rightarrow> nat \<Rightarrow> vif \<Rightarrow> ('w, nova_error, unit) eprog" where
  "unplug N n v =
     (if vif_type v \<in> {''binding_failed'', ''unbound''} then delete_veth N n v
      else
        bnd (hn_osvif N v) (\<lambda>known.
        bnd (if known then hn_osvif_unplug N v
             else if vif_type v = ''tap'' then unplug_tap N n v
             else raise InternalError) (\<lambda>_.
        post_unplug_wiring N n v)))"

end
