(* ===== verification/Flavor_Profile.thy ===== *)
theory Flavor_Profile
  imports Vif_Wiring
begin

text \<open>
  From a flavor to an Incus profile (nova/virt/incus/flavor.py): the configuration filters,
  the disk and network quality of service, the root disk, and \<open>to_profile\<close>, which folds the
  filters in the order of the code and hands the result to \<open>profiles.create\<close>.
\<close>

section \<open>Configuration filters\<close>

text \<open>\<open>extra_specs.get(k)\<close>, and whether it is truthy.\<close>

definition spec :: "nova_instance \<Rightarrow> string \<Rightarrow> string option" where
  "spec i k = map_of (fl_extra_specs (in_flavor i)) k"

definition spec_set :: "nova_instance \<Rightarrow> string \<Rightarrow> bool" where
  "spec_set i k = (case spec i k of None \<Rightarrow> False | Some s \<Rightarrow> s \<noteq> [])"

type_synonym config_filter = "incus_conf \<Rightarrow> nova_instance \<Rightarrow> incus_host \<Rightarrow> string dict option nova_result"

definition base_config :: config_filter where
  "base_config C i h =
     Inr (Some [(''environment.product_name'', ''OpenStack Nova''), (''user.openstack.uuid'', in_uuid i)])"

definition nesting :: config_filter where
  "nesting C i h = (if spec_set i ''incus:nested_allowed'' then Inl InvalidConfiguration else Inr None)"

definition security :: config_filter where
  "security C i h =
     (if spec_set i ''incus:privileged_allowed'' then Inl InvalidConfiguration
      else Inr (Some [(''security.privileged'', ''False'')]))"

definition memory :: config_filter where
  "memory C i h =
     (if 0 \<le> in_memory_mb i then
        (let swap = fl_swap (in_flavor i) in
         if swap \<noteq> 0 \<and> \<not> cf_allow_instance_swap C then Inl InvalidConfiguration
         else Inr (Some [(''limits.memory'', int_dec (in_memory_mb i) @ ''MiB''),
                         (''limits.memory.swap'', if swap \<noteq> 0 then int_dec swap @ ''MiB'' else ''false'')]))
      else Inr None)"

definition cpu :: config_filter where
  "cpu C i h =
     (let vcpus = fl_vcpus (in_flavor i) in
      if 0 \<le> vcpus then Inr (Some [(''limits.cpu'', int_dec vcpus)]) else Inr None)"

text \<open>The key that is absent and the one that is null are not told apart by \<open>get\<close>.\<close>

definition isolated :: config_filter where
  "isolated C i h =
     (if ''id_map'' \<notin> set (ih_extensions h) then Inl NovaException
      else
        let metadata = (case in_metadata i of None \<Rightarrow> [] | Some m \<Rightarrow> m);
            base = jget metadata ''incus_idmap_base'';
            size = jget metadata ''incus_idmap_size''
        in
        rbind (check ((base = JNull) = (size = JNull)) InvalidConfiguration) (\<lambda>_.
        if base = JNull then Inr (Some [(''security.idmap.isolated'', ''True'')])
        else
          rbind (check (''id_map_base'' \<in> set (ih_extensions h)) InvalidConfiguration) (\<lambda>_.
          rbind (int_or_invalid base) (\<lambda>b.
          rbind (int_or_invalid size) (\<lambda>s.
          rbind (check (0 \<le> b \<and> 0 < s) InvalidConfiguration) (\<lambda>_.
          Inr (Some [(''security.idmap.isolated'', ''True''),
                     (''security.idmap.base'', int_dec b), (''security.idmap.size'', int_dec s)])))))))"

definition processes :: config_filter where
  "processes C i h =
     (if cf_maximum_process_limit C < cf_default_process_limit C then Inl InvalidConfiguration
      else
        rbind (int_or_invalid (case spec i ''incus:process_limit'' of
                 None \<Rightarrow> JInt (cf_default_process_limit C) | Some s \<Rightarrow> JStr s)) (\<lambda>n.
        if n < 1 \<or> cf_maximum_process_limit C < n then Inl InvalidConfiguration
        else Inr (Some [(''limits.processes'', int_dec n)])))"

definition stateful_migration :: config_filter where
  "stateful_migration C i h =
     Inr (Some ((''migration.incremental.memory'', ''false'') #
       (if cf_allow_live_migration C then [(''migration.stateful'', ''true'')] else [])))"

text \<open>The regular expression \<open>^[A-Za-z0-9._+/-]+$\<close> under \<open>fullmatch\<close>.\<close>

definition fuse_name_ok :: "string \<Rightarrow> bool" where
  "fuse_name_ok s \<longleftrightarrow>
     s \<noteq> [] \<and> list_all (\<lambda>c. word_char c \<or> c \<in> {CHR ''.'', CHR ''_'', CHR ''+'', CHR ''/'', CHR ''-''}) s"

definition fuse_binary :: "string \<Rightarrow> string nova_result" where
  "fuse_binary mapping =
     (case split_on CHR ''='' (strip_chars is_space mapping) of
        [fs, helper] \<Rightarrow>
          if fuse_name_ok fs \<and> fuse_name_ok helper then Inr helper else Inl InvalidConfiguration
      | _ \<Rightarrow> Inl InvalidConfiguration)"

definition data_volume_fuse_binaries :: "incus_conf \<Rightarrow> string list nova_result" where
  "data_volume_fuse_binaries C =
     (let value = strip_chars is_space
        (case cf_data_volume_mount_fuse C of None \<Rightarrow> [] | Some s \<Rightarrow> s)
      in if value = [] then Inl InvalidConfiguration
         else map_result fuse_binary (split_on CHR '','' value))"

definition mount_interception_requested :: "nova_instance \<Rightarrow> bool nova_result" where
  "mount_interception_requested i =
     (case spec i ''incus:intercept_data_volume_mounts'' of
        None \<Rightarrow> Inr False
      | Some value \<Rightarrow>
          let normalized = map lower_char (strip_chars is_space value) in
          if normalized \<in> {''true'', ''1'', ''yes''} then Inr True
          else if normalized \<in> {'''', ''false'', ''0'', ''no''} then Inr False
          else Inl InvalidConfiguration)"

definition data_volume_mounts :: config_filter where
  "data_volume_mounts C i h =
     rbind (mount_interception_requested i) (\<lambda>requested.
     if \<not> requested then Inr None
     else
       rbind (data_volume_fuse_binaries C) (\<lambda>_.
       Inr (Some [(''security.syscalls.intercept.mount'', ''true''),
                  (''security.syscalls.intercept.mount.fuse'',
                     case cf_data_volume_mount_fuse C of None \<Rightarrow> [] | Some s \<Rightarrow> s)])))"

definition config_filters :: "config_filter list" where
  "config_filters =
     [base_config, nesting, security, memory, cpu, isolated, processes, stateful_migration,
      data_volume_mounts]"

section \<open>Quality of service\<close>

text \<open>One direction: no limit, or its rendering.\<close>

definition direction_limit :: "string dict \<Rightarrow> string \<Rightarrow> string \<Rightarrow> string option nova_result" where
  "direction_limit specs prefix direction =
     (let iops_key = prefix @ direction @ ''_iops_sec''; bytes_key = prefix @ direction @ ''_bytes_sec'' in
      if has_key specs iops_key \<and> has_key specs bytes_key then Inl InvalidConfiguration
      else
        let key = (if has_key specs iops_key then iops_key else bytes_key) in
        case map_of specs key of
          None \<Rightarrow> Inr None
        | Some s \<Rightarrow>
            rbind (int_or_invalid (JStr s)) (\<lambda>n.
            if n \<le> 0 then Inl InvalidConfiguration
            else Inr (Some (int_dec n @ (if key = iops_key then ''iops'' else ''B'')))))"

definition unsupported_disk_qos :: "string list" where
  "unsupported_disk_qos =
     [''total_iops_sec'', ''total_bytes_sec'', ''read_bytes_sec_max'', ''read_iops_sec_max'',
      ''write_bytes_sec_max'', ''write_iops_sec_max'', ''total_bytes_sec_max'', ''total_iops_sec_max'',
      ''size_iops_sec'']"

definition disk_qos_limits :: "string dict \<Rightarrow> string \<Rightarrow> string dict nova_result" where
  "disk_qos_limits specs prefix =
     rbind (check (list_all (\<lambda>k. \<not> has_key specs (prefix @ k)) unsupported_disk_qos)
              InvalidConfiguration) (\<lambda>_.
     rbind (direction_limit specs prefix ''read'') (\<lambda>r.
     rbind (direction_limit specs prefix ''write'') (\<lambda>w.
     Inr ((case r of None \<Rightarrow> [] | Some l \<Rightarrow> [(''limits.read'', l)]) @
          (case w of None \<Rightarrow> [] | Some l \<Rightarrow> [(''limits.write'', l)])))))"

section \<open>The root disk\<close>

text \<open>
  \<open>root_storage_pool_trait\<close> of common.py: upper case (the sharp s becomes SS), then every
  character outside \<open>A-Z0-9_\<close> an underscore.
\<close>

definition trait_char :: "char \<Rightarrow> string" where
  "trait_char c =
     (let n = (of_char c :: nat) in
      if 97 \<le> n \<and> n \<le> 122 then [char_of (n - 32)]
      else if (48 \<le> n \<and> n \<le> 57) \<or> (65 \<le> n \<and> n \<le> 90) \<or> n = 95 then [c]
      else if n = 223 then ''SS'' else ''_'')"

definition root_storage_pool_trait :: "string \<Rightarrow> string nova_result" where
  "root_storage_pool_trait selector =
     (let suffix = concat (map trait_char selector); trait = ''CUSTOM_INCUS_STORAGE_POOL_'' @ suffix in
      if suffix = [] \<or> 255 < length trait then Inl InvalidConfiguration else Inr trait)"

definition boot_from_volume :: "block_info \<Rightarrow> bool" where
  "boot_from_volume b \<longleftrightarrow>
     list_ex (\<lambda>(connected, index). connected \<and> index \<in> {JInt 0, JStr ''0''}) (bi_mapping b)"

text \<open>\<open>CONF.incus.d.get(k)\<close>, where the empty string counts as absent.\<close>

definition get_set :: "string dict \<Rightarrow> string \<Rightarrow> string option" where
  "get_set d k = (case map_of d k of Some [] \<Rightarrow> None | r \<Rightarrow> r)"

definition root_resource_ok :: "incus_conf \<Rightarrow> nova_instance \<Rightarrow> string \<Rightarrow> unit nova_result" where
  "root_resource_ok C i selector =
     (case get_set (cf_root_storage_pool_resource_classes C) selector of
        None \<Rightarrow> Inr ()
      | Some rc \<Rightarrow>
          rbind (int_or_invalid (case spec i (''resources:'' @ rc) of None \<Rightarrow> JNull | Some s \<Rightarrow> JStr s))
            (\<lambda>n. check (n = in_root_gb i) InvalidConfiguration))"

definition root_pool :: "incus_conf \<Rightarrow> nova_instance \<Rightarrow> bool \<Rightarrow> string option nova_result" where
  "root_pool C i bfv =
     (if spec_set i ''incus:root_storage_pool'' then
        (let selector = the (spec i ''incus:root_storage_pool'') in
         if bfv then Inl InvalidConfiguration
         else case get_set (cf_root_storage_pools C) selector of
           None \<Rightarrow> Inl InvalidConfiguration
         | Some pool \<Rightarrow>
             rbind (root_storage_pool_trait selector) (\<lambda>trait.
             rbind (check (spec i (''trait:'' @ trait) = Some ''required'') InvalidConfiguration) (\<lambda>_.
             rbind (root_resource_ok C i selector) (\<lambda>_. Inr (Some pool)))))
      else Inr (case cf_storage_pool C of Some [] \<Rightarrow> None | r \<Rightarrow> r))"

text \<open>The pool device field and the storage type.\<close>

definition root_storage :: "incus_host \<Rightarrow> string option \<Rightarrow> (string dict \<times> string) nova_result" where
  "root_storage h pool =
     (case pool of
        Some p \<Rightarrow>
          if ''storage'' \<in> set (ih_extensions h) then
            (case ih_pool_driver h p of
               None \<Rightarrow> Inl (PyError ClientError)
             | Some driver \<Rightarrow> Inr ([(''pool'', p)], driver))
          else Inl NovaException
      | None \<Rightarrow> Inr ([], ih_storage h))"

definition sized_backends :: "string list" where
  "sized_backends = [''btrfs'', ''ceph'', ''lvm'', ''zfs'']"

type_synonym device = "string dict"

type_synonym device_filter =
  "incus_conf \<Rightarrow> nova_instance \<Rightarrow> incus_host \<Rightarrow> vif list \<Rightarrow> block_info \<Rightarrow> device dict option nova_result"

definition root_device :: device_filter where
  "root_device C i h vifs b =
     (let bfv = boot_from_volume b in
      rbind (check (bfv \<or> cf_minimum_root_disk_gb C \<le> in_root_gb i) InvalidConfiguration) (\<lambda>_.
      rbind (root_pool C i bfv) (\<lambda>pool.
      rbind (root_storage h pool) (\<lambda>(pool_field, storage_type).
      let device = update_all pool_field [(''type'', ''disk''), (''path'', ''/'')] in
      if storage_type \<in> set sized_backends then
        (let root_gb = (if bfv then max (in_root_gb i) (cf_minimum_root_disk_gb C) else in_root_gb i) in
         rbind (disk_qos_limits (fl_extra_specs (in_flavor i)) ''quota:disk_'') (\<lambda>limits.
         Inr (Some [(''root'',
           update_all limits (update_all [(''size'', int_dec root_gb @ ''GB'')] device))])))
      else Inr (Some [(''root'', device)])))))"

definition ephemeral_storage :: device_filter where
  "ephemeral_storage C i h vifs b =
     (if bi_ephemerals b \<noteq> [] then Inl InvalidConfiguration else Inr None)"

section \<open>Network devices\<close>

definition unsupported_vif_qos :: "string list" where
  "unsupported_vif_qos =
     [''quota:vif_inbound_peak'', ''quota:vif_inbound_burst'', ''quota:vif_outbound_peak'',
      ''quota:vif_outbound_burst'']"

definition average_limit :: "nova_instance \<Rightarrow> string \<Rightarrow> string \<Rightarrow> device nova_result" where
  "average_limit i direction key =
     (case spec i (''quota:vif_'' @ direction @ ''_average'') of
        None \<Rightarrow> Inr []
      | Some s \<Rightarrow>
          rbind (int_or_invalid (JStr s)) (\<lambda>n.
          if n \<le> 0 then Inl InvalidConfiguration else Inr [(key, int_dec (n * 8) @ ''kbit'')]))"

definition vif_device :: "incus_conf \<Rightarrow> nova_instance \<Rightarrow> vif \<Rightarrow> device nova_result" where
  "vif_device C i v =
     rbind (get_vif_config v) (\<lambda>cfg.
     rbind (check (list_all (\<lambda>k. spec i k = None) unsupported_vif_qos) InvalidConfiguration) (\<lambda>_.
     rbind (average_limit i ''inbound'' ''limits.ingress'') (\<lambda>ingress.
     rbind (average_limit i ''outbound'' ''limits.egress'') (\<lambda>egress.
     Inr ([(''nictype'', ''physical''), (''hwaddr'', the (map_of cfg ''mac_address'')),
           (''name'', get_vif_guest_devname v),
           (''parent'', get_vif_internal_devname (cf_nic_name_len C) v), (''type'', ''nic'')]
          @ ingress @ egress)))))"

fun vif_devices :: "incus_conf \<Rightarrow> nova_instance \<Rightarrow> vif list \<Rightarrow> device dict \<Rightarrow> device dict nova_result" where
  "vif_devices C i [] devices = Inr devices"
| "vif_devices C i (v # vs) devices =
     rbind (vif_device C i v) (\<lambda>d.
     vif_devices C i vs (AList.update (get_vif_devname (cf_nic_name_len C) v) d devices))"

definition network :: device_filter where
  "network C i h vifs b =
     (if vifs = [] then Inr None else rbind (vif_devices C i vifs []) (\<lambda>devices. Inr (Some devices)))"

definition device_filters :: "device_filter list" where
  "device_filters = [root_device, ephemeral_storage, network]"

section \<open>The profile\<close>

fun apply_filters :: "('f \<Rightarrow> 'v dict option nova_result) \<Rightarrow> 'f list \<Rightarrow> 'v dict \<Rightarrow> 'v dict nova_result" where
  "apply_filters run [] d = Inr d"
| "apply_filters run (f # fs) d =
     rbind (run f) (\<lambda>new. apply_filters run fs (case new of None \<Rightarrow> d | Some n \<Rightarrow> update_all n d))"

text \<open>The arguments of \<open>client.profiles.create\<close>; absent overrides are empty.\<close>

definition to_profile ::
  "incus_conf \<Rightarrow> incus_host \<Rightarrow> nova_instance \<Rightarrow> vif list \<Rightarrow> block_info \<Rightarrow> string dict \<Rightarrow> device dict \<Rightarrow>
     (string \<times> string dict \<times> device dict) nova_result" where
  "to_profile C h i vifs b config_overrides device_overrides =
     rbind (apply_filters (\<lambda>f. f C i h) config_filters []) (\<lambda>config.
     rbind (apply_filters (\<lambda>f. f C i h vifs b) device_filters []) (\<lambda>devices.
     Inr (in_name i, update_all config_overrides config, update_all device_overrides devices)))"

end
