(* ===== verification/Flavor_Theorems.thy ===== *)
theory Flavor_Theorems
  imports Flavor_Profile
begin

text \<open>
  What a generated profile guarantees: the isolation settings whatever the flavor asks for,
  the translation of disk and network limits without loss, the size and pool of the root disk,
  and one device per VIF.
\<close>

section \<open>Filters and the keys they set\<close>

definition upd :: "'v dict option \<Rightarrow> 'v dict \<Rightarrow> 'v dict" where
  "upd r d = (case r of None \<Rightarrow> d | Some n \<Rightarrow> update_all n d)"

lemma apply_filters_Cons:
  "apply_filters run (f # fs) d = rbind (run f) (\<lambda>r. apply_filters run fs (upd r d))"
  by (simp add: upd_def)

lemma upd_lookup:
  "map_of (upd r d) k = (case r of None \<Rightarrow> map_of d k
     | Some n \<Rightarrow> (case map_of (rev n) k of None \<Rightarrow> map_of d k | Some v \<Rightarrow> Some v))"
  by (simp add: upd_def map_of_update_all split: option.splits)

lemma upd_Some:
  "map_of (upd None d) k = map_of d k"
  "map_of (upd (Some n) d) k = (case map_of (rev n) k of None \<Rightarrow> map_of d k | Some v \<Rightarrow> Some v)"
  by (simp_all add: upd_lookup)

text \<open>A filter that succeeded leaves every key outside its own alone.\<close>

definition sets_only :: "config_filter \<Rightarrow> string set \<Rightarrow> bool" where
  "sets_only f K \<longleftrightarrow>
     (\<forall>C i h r d k. f C i h = Inr r \<longrightarrow> k \<notin> K \<longrightarrow> map_of (upd r d) k = map_of d k)"

lemma sets_onlyI:
  assumes "\<And>C i h n. f C i h = Inr (Some n) \<Longrightarrow> fst ` set n \<subseteq> K"
  shows "sets_only f K"
proof -
  have "map_of (upd r d) k = map_of d k" if "f C i h = Inr r" "k \<notin> K" for C i h r k and d :: "string dict"
  proof (cases r)
    case (Some n)
    then have "k \<notin> fst ` set n" using assms that by blast
    then have "map_of (rev n) k = None" by (simp add: map_of_eq_None_iff)
    then show ?thesis by (simp add: upd_lookup Some)
  qed (simp add: upd_def)
  then show ?thesis by (simp add: sets_only_def)
qed

lemma sets_onlyD: "sets_only f K \<Longrightarrow> f C i h = Inr r \<Longrightarrow> k \<notin> K \<Longrightarrow> map_of (upd r d) k = map_of d k"
  by (simp add: sets_only_def)

lemma filter_frames:
  "sets_only base_config {''environment.product_name'', ''user.openstack.uuid''}"
  "sets_only nesting {}"
  "sets_only security {''security.privileged''}"
  "sets_only memory {''limits.memory'', ''limits.memory.swap''}"
  "sets_only cpu {''limits.cpu''}"
  "sets_only isolated {''security.idmap.isolated'', ''security.idmap.base'', ''security.idmap.size''}"
  "sets_only processes {''limits.processes''}"
  "sets_only stateful_migration {''migration.incremental.memory'', ''migration.stateful''}"
  "sets_only data_volume_mounts
     {''security.syscalls.intercept.mount'', ''security.syscalls.intercept.mount.fuse''}"
  by (rule sets_onlyI; auto simp: base_config_def nesting_def security_def memory_def cpu_def
      isolated_def processes_def stateful_migration_def data_volume_mounts_def Let_def rbind_Inr_conv
      split: if_splits option.splits)+

section \<open>Isolation\<close>

definition isolation_keys :: "string list" where
  "isolation_keys =
     [''security.privileged'', ''security.idmap.isolated'', ''security.nesting'', ''limits.processes'',
      ''limits.memory'', ''migration.incremental.memory'', ''migration.stateful'', ''limits.cpu'']"

lemma config_run:
  assumes "apply_filters (\<lambda>f. f C i h) config_filters [] = Inr config"
  obtains r1 r2 r3 r4 r5 r6 r7 r8 r9 where
    "base_config C i h = Inr r1" "nesting C i h = Inr r2" "security C i h = Inr r3"
    "memory C i h = Inr r4" "cpu C i h = Inr r5" "isolated C i h = Inr r6"
    "processes C i h = Inr r7" "stateful_migration C i h = Inr r8" "data_volume_mounts C i h = Inr r9"
    "config = upd r9 (upd r8 (upd r7 (upd r6 (upd r5 (upd r4 (upd r3 (upd r2 (upd r1 []))))))))"
  using assms unfolding config_filters_def apply_filters_Cons
  by (auto simp: rbind_Inr_conv)

lemma config_lookup:
  assumes "apply_filters (\<lambda>f. f C i h) config_filters [] = Inr config"
  shows "map_of config ''security.privileged'' = Some ''False''"
    and "map_of config ''security.idmap.isolated'' = Some ''True''"
    and "map_of config ''security.nesting'' = None"
    and "map_of config ''migration.incremental.memory'' = Some ''false''"
    and "map_of config ''migration.stateful'' = (if cf_allow_live_migration C then Some ''true'' else None)"
    and "\<exists>n. map_of config ''limits.processes'' = Some (int_dec n) \<and> 1 \<le> n \<and> n \<le> cf_maximum_process_limit C"
    and "map_of config ''limits.memory'' =
      (if 0 \<le> in_memory_mb i then Some (int_dec (in_memory_mb i) @ ''MiB'') else None)"
    and "map_of config ''limits.cpu'' =
      (if 0 \<le> fl_vcpus (in_flavor i) then Some (int_dec (fl_vcpus (in_flavor i))) else None)"
    and "\<not> spec_set i ''incus:nested_allowed''" and "\<not> spec_set i ''incus:privileged_allowed''"
proof -
  obtain r1 r2 r3 r4 r5 r6 r7 r8 r9 where
    f: "base_config C i h = Inr r1" "nesting C i h = Inr r2" "security C i h = Inr r3"
    "memory C i h = Inr r4" "cpu C i h = Inr r5" "isolated C i h = Inr r6"
    "processes C i h = Inr r7" "stateful_migration C i h = Inr r8" "data_volume_mounts C i h = Inr r9"
    and c: "config = upd r9 (upd r8 (upd r7 (upd r6 (upd r5 (upd r4 (upd r3 (upd r2 (upd r1 []))))))))"
    using assms by (rule config_run)
  note fr = sets_onlyD [OF filter_frames(1) f(1)] sets_onlyD [OF filter_frames(2) f(2)]
    sets_onlyD [OF filter_frames(3) f(3)] sets_onlyD [OF filter_frames(4) f(4)]
    sets_onlyD [OF filter_frames(5) f(5)] sets_onlyD [OF filter_frames(6) f(6)]
    sets_onlyD [OF filter_frames(7) f(7)] sets_onlyD [OF filter_frames(8) f(8)]
    sets_onlyD [OF filter_frames(9) f(9)]
  show n: "\<not> spec_set i ''incus:nested_allowed''" and p: "\<not> spec_set i ''incus:privileged_allowed''"
    using f(2,3) by (auto simp: nesting_def security_def split: if_splits)
  show "map_of config ''security.privileged'' = Some ''False''"
    using f(3) by (simp add: c fr) (auto simp: upd_Some security_def split: if_splits)
  show "map_of config ''security.idmap.isolated'' = Some ''True''"
    using f(6) by (simp add: c fr)
      (auto simp: upd_Some isolated_def Let_def rbind_Inr_conv split: if_splits)
  show "map_of config ''security.nesting'' = None"
    by (simp add: c fr)
  show "map_of config ''migration.incremental.memory'' = Some ''false''"
    using f(8) by (simp add: c fr) (auto simp: upd_Some stateful_migration_def split: if_splits)
  show "map_of config ''migration.stateful'' = (if cf_allow_live_migration C then Some ''true'' else None)"
    using f(8) by (simp add: c fr) (auto simp: upd_Some stateful_migration_def fr split: if_splits)
  show "\<exists>n. map_of config ''limits.processes'' = Some (int_dec n) \<and> 1 \<le> n \<and> n \<le> cf_maximum_process_limit C"
    using f(7) by (simp add: c fr)
      (auto simp: upd_Some processes_def rbind_Inr_conv split: if_splits)
  show "map_of config ''limits.memory'' =
      (if 0 \<le> in_memory_mb i then Some (int_dec (in_memory_mb i) @ ''MiB'') else None)"
    using f(4) by (simp add: c fr) (auto simp: upd_Some memory_def Let_def fr split: if_splits)
  show "map_of config ''limits.cpu'' =
      (if 0 \<le> fl_vcpus (in_flavor i) then Some (int_dec (fl_vcpus (in_flavor i))) else None)"
    using f(5) by (simp add: c fr) (auto simp: upd_Some cpu_def Let_def fr split: if_splits)
qed

lemma to_profile_Inr:
  assumes "to_profile C h i vifs b co dv = Inr (name, config, devices)"
  obtains c d where "apply_filters (\<lambda>f. f C i h) config_filters [] = Inr c"
    and "apply_filters (\<lambda>f. f C i h vifs b) device_filters [] = Inr d"
    and "name = in_name i" "config = update_all co c" "devices = update_all dv d"
  using assms by (auto simp: to_profile_def)

lemma not_overridden: "\<not> has_key co k \<Longrightarrow> map_of (update_all co c) k = map_of c k"
proof -
  assume "\<not> has_key co k"
  then have "map_of (rev co) k = None" by (simp add: has_key_def map_of_eq_None_iff)
  then show ?thesis by (simp add: map_of_update_all)
qed

text \<open>
  C38: A generated profile always confines its instance, whatever the flavor says: it is
  unprivileged, has an isolated ID map and no nesting, a process limit between 1 and the
  maximum of the host, the memory and CPU of the flavor, and incremental memory migration off;
  a flavor that asks for nesting or privileges gets no profile. Overrides of the caller are
  applied last and are the only way to change these keys.
\<close>

theorem profile_confines:
  assumes "to_profile C h i vifs b co dv = Inr (name, config, devices)"
    and "list_all (\<lambda>k. \<not> has_key co k) isolation_keys"
  shows "map_of config ''security.privileged'' = Some ''False'' \<and>
    map_of config ''security.idmap.isolated'' = Some ''True'' \<and>
    map_of config ''security.nesting'' = None \<and>
    map_of config ''migration.incremental.memory'' = Some ''false'' \<and>
    map_of config ''migration.stateful'' = (if cf_allow_live_migration C then Some ''true'' else None) \<and>
    (\<exists>n. map_of config ''limits.processes'' = Some (int_dec n) \<and> 1 \<le> n \<and> n \<le> cf_maximum_process_limit C) \<and>
    map_of config ''limits.memory'' =
      (if 0 \<le> in_memory_mb i then Some (int_dec (in_memory_mb i) @ ''MiB'') else None) \<and>
    map_of config ''limits.cpu'' =
      (if 0 \<le> fl_vcpus (in_flavor i) then Some (int_dec (fl_vcpus (in_flavor i))) else None) \<and>
    \<not> spec_set i ''incus:nested_allowed'' \<and> \<not> spec_set i ''incus:privileged_allowed''"
proof -
  obtain c where c: "apply_filters (\<lambda>f. f C i h) config_filters [] = Inr c"
    and config: "config = update_all co c"
    using assms(1) by (rule to_profile_Inr)
  have "map_of config k = map_of c k" if "k \<in> set isolation_keys" for k
    unfolding config using assms(2) that by (intro not_overridden) (auto simp: list_all_iff)
  then show ?thesis
    using config_lookup [OF c] by (simp add: isolation_keys_def)
qed

text \<open>A sample host, instance and options.\<close>

definition conf_1 :: incus_conf where
  "conf_1 =
     \<lparr>cf_allow_instance_swap = False, cf_default_process_limit = 40, cf_maximum_process_limit = 80,
      cf_allow_live_migration = True, cf_data_volume_mount_fuse = Some ''ext4=fuse2fs'',
      cf_minimum_root_disk_gb = 1, cf_root_storage_pools = [(''gold'', ''ssd'')],
      cf_root_storage_pool_resource_classes = [(''gold'', ''CUSTOM_GOLD'')],
      cf_storage_pool = Some ''default'', cf_nic_name_len = 14\<rparr>"

definition host_info_1 :: incus_host where
  "host_info_1 =
     \<lparr>ih_extensions = [''id_map'', ''id_map_base'', ''storage''], ih_storage = ''dir'',
      ih_pool_driver = (\<lambda>p. if p \<in> {''default'', ''ssd''} then Some ''zfs'' else None)\<rparr>"

definition specs_1 :: "string dict" where
  "specs_1 =
     [(''incus:root_storage_pool'', ''gold''), (''trait:CUSTOM_INCUS_STORAGE_POOL_GOLD'', ''required''),
      (''resources:CUSTOM_GOLD'', ''20''), (''quota:disk_read_iops_sec'', ''50''),
      (''quota:disk_write_bytes_sec'', ''90''), (''quota:vif_inbound_average'', ''12'')]"

definition instance_1 :: nova_instance where
  "instance_1 =
     \<lparr>in_name = ''instance-1'', in_uuid = ''11111111-1111-4111-8111-111111111111'', in_memory_mb = 512,
      in_root_gb = 20, in_flavor = \<lparr>fl_vcpus = 2, fl_swap = 0, fl_extra_specs = specs_1\<rparr>,
      in_metadata = Some [(''incus_idmap_base'', JStr ''64''), (''incus_idmap_size'', JStr ''16'')]\<rparr>"

definition vif_1 :: vif where
  "vif_1 =
     \<lparr>vif_id = ''0123abcd-1111-2222-3333-444444444444'', vif_devname = Some ''tap0123abcd-11'',
      vif_type = ''ovs'', vif_address = ''fa:16:3e:00:00:01'', vif_bridge = Some ''br-int'',
      vif_mtu = Some 1450, vif_hybrid = False\<rparr>"

definition local_disk :: block_info where
  "local_disk = \<lparr>bi_mapping = [], bi_ephemerals = []\<rparr>"

definition profile_1 :: "string \<times> string dict \<times> device dict" where
  "profile_1 =
     (case to_profile conf_1 host_info_1 instance_1 [vif_1] local_disk [] [] of Inr p \<Rightarrow> p)"

lemma profile_1: "to_profile conf_1 host_info_1 instance_1 [vif_1] local_disk [] [] = Inr profile_1"
proof -
  have "is_ok (to_profile conf_1 host_info_1 instance_1 [vif_1] local_disk [] [])" by code_simp
  then show ?thesis
    by (cases "to_profile conf_1 host_info_1 instance_1 [vif_1] local_disk [] []")
      (simp_all add: profile_1_def)
qed

theorem profile_confines_witness:
  "map_of (fst (snd profile_1)) ''security.privileged'' = Some ''False'' \<and>
   map_of (fst (snd profile_1)) ''security.nesting'' = None"
proof -
  have "to_profile conf_1 host_info_1 instance_1 [vif_1] local_disk [] [] =
      Inr (fst profile_1, fst (snd profile_1), snd (snd profile_1))"
    by (simp add: profile_1)
  from profile_confines [OF this] show ?thesis by (simp add: has_key_def list_all_iff)
qed

section \<open>Disk limits\<close>

lemma direction_limit_Inr:
  assumes "direction_limit specs prefix d = Inr r"
  shows "(case r of
      None \<Rightarrow> map_of specs (prefix @ d @ ''_iops_sec'') = None \<and> map_of specs (prefix @ d @ ''_bytes_sec'') = None
    | Some l \<Rightarrow> (\<exists>s n. 0 < n \<and> py_int (JStr s) = Inr n \<and>
        ((map_of specs (prefix @ d @ ''_iops_sec'') = Some s \<and>
          map_of specs (prefix @ d @ ''_bytes_sec'') = None \<and> l = int_dec n @ ''iops'') \<or>
         (map_of specs (prefix @ d @ ''_iops_sec'') = None \<and>
          map_of specs (prefix @ d @ ''_bytes_sec'') = Some s \<and> l = int_dec n @ ''B''))))"
  using assms
  by (auto simp: direction_limit_def Let_def has_key_def rbind_Inr_conv not_le
      split: if_splits option.splits)

text \<open>
  Disk limits are translated without changing their meaning: an accepted mapping has no
  total or burst limit, and for each direction either neither an IOPS nor a bytes limit, and
  then no limit is set, or exactly one of them, a positive number, which is rendered with its
  unit. No other limit appears.
\<close>

theorem disk_qos_exact:
  assumes "disk_qos_limits specs prefix = Inr limits"
  shows "list_all (\<lambda>k. map_of specs (prefix @ k) = None) unsupported_disk_qos \<and>
    set (map fst limits) \<subseteq> {''limits.read'', ''limits.write''} \<and>
    list_all (\<lambda>d.
      (map_of limits (''limits.'' @ d) = None \<and>
       map_of specs (prefix @ d @ ''_iops_sec'') = None \<and> map_of specs (prefix @ d @ ''_bytes_sec'') = None) \<or>
      (\<exists>s n. 0 < n \<and> py_int (JStr s) = Inr n \<and>
        ((map_of specs (prefix @ d @ ''_iops_sec'') = Some s \<and>
          map_of specs (prefix @ d @ ''_bytes_sec'') = None \<and>
          map_of limits (''limits.'' @ d) = Some (int_dec n @ ''iops'')) \<or>
         (map_of specs (prefix @ d @ ''_iops_sec'') = None \<and>
          map_of specs (prefix @ d @ ''_bytes_sec'') = Some s \<and>
          map_of limits (''limits.'' @ d) = Some (int_dec n @ ''B''))))) [''read'', ''write'']"
proof -
  from assms obtain r w where "list_all (\<lambda>k. \<not> has_key specs (prefix @ k)) unsupported_disk_qos"
    and rw: "direction_limit specs prefix ''read'' = Inr r" "direction_limit specs prefix ''write'' = Inr w"
    and l: "limits = (case r of None \<Rightarrow> [] | Some l \<Rightarrow> [(''limits.read'', l)]) @
          (case w of None \<Rightarrow> [] | Some l \<Rightarrow> [(''limits.write'', l)])"
    by (auto simp: disk_qos_limits_def rbind_Inr_conv)
  moreover have "set (map fst limits) \<subseteq> {''limits.read'', ''limits.write''}"
    by (auto simp: l split: option.splits)
  moreover have "map_of limits ''limits.read'' = r" "map_of limits ''limits.write'' = w"
    by (simp_all add: l split: option.splits)
  ultimately show ?thesis
    using direction_limit_Inr [OF rw(1)] direction_limit_Inr [OF rw(2)]
    by (cases r; cases w) (simp_all add: has_key_def)
qed

theorem disk_qos_exact_witness:
  "map_of [(''limits.read'', ''50iops''), (''limits.write'', ''90B'')] ''limits.total'' = (None :: string option) \<and>
   list_all (\<lambda>k. map_of specs_1 (''quota:disk_'' @ k) = None) unsupported_disk_qos"
proof -
  have "disk_qos_limits specs_1 ''quota:disk_'' =
      Inr [(''limits.read'', ''50iops''), (''limits.write'', ''90B'')]" by code_simp
  from disk_qos_exact [OF this] show ?thesis by simp
qed

section \<open>The root disk\<close>

lemma limits_keys: "disk_qos_limits specs prefix = Inr l \<Longrightarrow> set (map fst l) \<subseteq> {''limits.read'', ''limits.write''}"
  by (auto simp: disk_qos_limits_def rbind_Inr_conv split: option.splits)

lemma update_other: "k \<notin> set (map fst new) \<Longrightarrow> map_of (update_all new d) k = map_of d k"
  by (rule not_overridden) (simp add: has_key_def map_of_eq_None_iff)

definition root_size :: "incus_conf \<Rightarrow> nova_instance \<Rightarrow> block_info \<Rightarrow> string" where
  "root_size C i b =
     int_dec (if boot_from_volume b then max (in_root_gb i) (cf_minimum_root_disk_gb C) else in_root_gb i)
     @ ''GB''"

lemma root_device_Inr:
  assumes run: "root_device C i h vifs b = Inr r"
  obtains pool field backend size limits where
    "boot_from_volume b \<or> cf_minimum_root_disk_gb C \<le> in_root_gb i"
    "root_pool C i (boot_from_volume b) = Inr pool" "root_storage h pool = Inr (field, backend)"
    "r = Some [(''root'', update_all limits (update_all size
       (update_all field [(''type'', ''disk''), (''path'', ''/'')])))]"
    "set (map fst limits) \<subseteq> {''limits.read'', ''limits.write''}"
    "size = (if backend \<in> set sized_backends then [(''size'', root_size C i b)] else [])"
proof -
  from run obtain pool field backend where
    p: "boot_from_volume b \<or> cf_minimum_root_disk_gb C \<le> in_root_gb i"
    "root_pool C i (boot_from_volume b) = Inr pool" "root_storage h pool = Inr (field, backend)"
    by (auto simp: root_device_def Let_def rbind_Inr_conv)
  show thesis
  proof (cases "backend \<in> set sized_backends")
    case True
    with run p obtain limits where l: "disk_qos_limits (fl_extra_specs (in_flavor i)) ''quota:disk_'' = Inr limits"
      and r: "r = Some [(''root'', update_all limits (update_all [(''size'', root_size C i b)]
       (update_all field [(''type'', ''disk''), (''path'', ''/'')])))]"
      by (auto simp: root_device_def Let_def rbind_Inr_conv root_size_def)
    show thesis by (rule that [OF p r limits_keys [OF l]]) (simp add: True)
  next
    case False
    with run p have r: "r = Some [(''root'', update_all [] (update_all []
       (update_all field [(''type'', ''disk''), (''path'', ''/'')])))]"
      by (auto simp: root_device_def Let_def rbind_Inr_conv update_all_def)
    show thesis by (rule that [OF p r]) (simp_all add: False)
  qed
qed

lemma root_pool_selected:
  assumes "root_pool C i bfv = Inr pool"
  shows "spec_set i ''incus:root_storage_pool'' \<longrightarrow>
    \<not> bfv \<and>
    (\<exists>selector p trait. spec i ''incus:root_storage_pool'' = Some selector \<and>
      map_of (cf_root_storage_pools C) selector = Some p \<and> pool = Some p \<and>
      root_storage_pool_trait selector = Inr trait \<and> spec i (''trait:'' @ trait) = Some ''required'' \<and>
      root_resource_ok C i selector = Inr ())"
proof
  assume s: "spec_set i ''incus:root_storage_pool''"
  then obtain selector where sel: "spec i ''incus:root_storage_pool'' = Some selector"
    by (auto simp: spec_set_def split: option.splits)
  from assms s sel obtain p trait where "\<not> bfv" and p: "get_set (cf_root_storage_pools C) selector = Some p"
    and "root_storage_pool_trait selector = Inr trait" "spec i (''trait:'' @ trait) = Some ''required''"
      "root_resource_ok C i selector = Inr ()" "pool = Some p"
    by (auto simp: root_pool_def Let_def rbind_Inr_conv split: option.splits if_splits)
  moreover from p have "map_of (cf_root_storage_pools C) selector = Some p"
    by (auto simp: get_set_def split: option.splits list.splits)
  ultimately show "\<not> bfv \<and> (\<exists>selector p trait. spec i ''incus:root_storage_pool'' = Some selector \<and>
      map_of (cf_root_storage_pools C) selector = Some p \<and> pool = Some p \<and>
      root_storage_pool_trait selector = Inr trait \<and> spec i (''trait:'' @ trait) = Some ''required'' \<and>
      root_resource_ok C i selector = Inr ())"
    using sel by blast
qed

text \<open>
  The root device honours the flavor: a root on local storage is at least the configured
  minimum and exactly as large as the flavor says on every backend that can enforce a size, a
  root on a volume is never smaller than the minimum, and a selected storage pool is the
  configured one, for which the flavor also requires the Placement trait of the selector and
  requests the resource class in the amount of the root disk.
\<close>

theorem root_disk_honours_flavor:
  assumes run: "root_device C i h vifs b = Inr (Some [(''root'', d)])"
  shows "map_of d ''type'' = Some ''disk'' \<and> map_of d ''path'' = Some ''/'' \<and>
    (boot_from_volume b \<or> cf_minimum_root_disk_gb C \<le> in_root_gb i) \<and>
    (\<exists>backend. (map_of d ''size'' = None) = (backend \<notin> set sized_backends) \<and>
      map_of d ''size'' \<in> {None, Some (root_size C i b)} \<and>
      (map_of d ''pool'' = None \<longrightarrow> backend = ih_storage h) \<and>
      (\<forall>p. map_of d ''pool'' = Some p \<longrightarrow> ih_pool_driver h p = Some backend)) \<and>
    (spec_set i ''incus:root_storage_pool'' \<longrightarrow>
      \<not> boot_from_volume b \<and>
      (\<exists>selector pool trait. spec i ''incus:root_storage_pool'' = Some selector \<and>
        map_of (cf_root_storage_pools C) selector = Some pool \<and> map_of d ''pool'' = Some pool \<and>
        root_storage_pool_trait selector = Inr trait \<and> spec i (''trait:'' @ trait) = Some ''required'' \<and>
        root_resource_ok C i selector = Inr ()))"
proof -
  from run obtain pool field backend size limits where
    p: "boot_from_volume b \<or> cf_minimum_root_disk_gb C \<le> in_root_gb i"
    "root_pool C i (boot_from_volume b) = Inr pool" "root_storage h pool = Inr (field, backend)"
    and d: "Some [(''root'', d)] = Some [(''root'', update_all limits (update_all size
       (update_all field [(''type'', ''disk''), (''path'', ''/'')])))]"
    and l: "set (map fst limits) \<subseteq> {''limits.read'', ''limits.write''}"
    and size: "size = (if backend \<in> set sized_backends then [(''size'', root_size C i b)] else [])"
    by (rule root_device_Inr)
  have field: "(pool = None \<and> field = [] \<and> backend = ih_storage h) \<or>
      (\<exists>q. pool = Some q \<and> field = [(''pool'', q)] \<and> ih_pool_driver h q = Some backend)"
    using p(3) by (auto simp: root_storage_def split: option.splits if_splits)
  have "map_of d k = map_of (update_all size (update_all field [(''type'', ''disk''), (''path'', ''/'')])) k"
    if "k \<in> {''type'', ''path'', ''pool'', ''size''}" for k
  proof -
    from that have "k \<notin> {''limits.read'', ''limits.write''}" by auto
    with l have "k \<notin> set (map fst limits)" by blast
    with d show ?thesis by (simp add: update_other)
  qed
  note d = this
  have "map_of (update_all size (update_all field [(''type'', ''disk''), (''path'', ''/'')])) k =
      (if k = ''size'' \<and> backend \<in> set sized_backends then Some (root_size C i b)
       else if k = ''pool'' \<and> pool \<noteq> None then pool
       else map_of [(''type'', ''disk''), (''path'', ''/'')] k)" for k
    using field by (elim disjE exE conjE) (simp_all add: size map_of_update_all)
  then have base: "map_of d ''type'' = Some ''disk''" "map_of d ''path'' = Some ''/''"
    "map_of d ''pool'' = pool"
    "map_of d ''size'' = (if backend \<in> set sized_backends then Some (root_size C i b) else None)"
    by (simp_all add: d)
  have driver: "(pool = None \<longrightarrow> backend = ih_storage h) \<and>
      (\<forall>q. pool = Some q \<longrightarrow> ih_pool_driver h q = Some backend)"
    using field by auto
  show ?thesis
    unfolding base
    using p(1) driver root_pool_selected [OF p(2)]
    by (intro conjI exI [of _ backend]) simp_all
qed

theorem root_disk_honours_flavor_witness:
  "map_of (the (map_of (snd (snd profile_1)) ''root'')) ''type'' = Some ''disk'' \<and>
   map_of (the (map_of (snd (snd profile_1)) ''root'')) ''path'' = Some ''/''"
proof -
  let ?d = "[(''type'', ''disk''), (''path'', ''/''), (''pool'', ''ssd''), (''size'', ''20GB''),
      (''limits.read'', ''50iops''), (''limits.write'', ''90B'')]"
  have "root_device conf_1 instance_1 host_info_1 [vif_1] local_disk = Inr (Some [(''root'', ?d)])"
    by code_simp
  note root_disk_honours_flavor [OF this]
  moreover have "map_of (snd (snd profile_1)) ''root'' = Some ?d" by code_simp
  ultimately show ?thesis by simp
qed

end
