(* ===== verification/Vif_Theorems.thy ===== *)
theory Vif_Theorems
  imports Vif_Wiring Flavor_Profile
begin

text \<open>
  What holds of the VIF wiring: the names of the two ends of a veth pair, the NIC devices of a
  profile, and that unplugging a VIF takes away exactly what plugging it had created, also when
  the binding failed in between.
\<close>

section \<open>Names\<close>

lemma contains_sub_conv: "contains_sub p s \<longleftrightarrow> (\<exists>a b. s = a @ p @ b)"
proof
  assume "contains_sub p s"
  then obtain i where "starts_with p (drop i s)"
    unfolding contains_sub_def by blast
  then obtain b where "drop i s = p @ b" by (auto simp: starts_with_conv)
  then have "s = take i s @ p @ b" by (metis append_take_drop_id)
  then show "\<exists>a b. s = a @ p @ b" by blast
next
  assume "\<exists>a b. s = a @ p @ b"
  then obtain a b where "s = a @ p @ b" by blast
  then show "contains_sub p s"
    unfolding contains_sub_def by (intro bexI [of _ "length a"]) auto
qed

lemma contains_sub_rec:
  assumes "p \<noteq> []"
  shows "contains_sub p [] = False"
    and "contains_sub p (c # s) \<longleftrightarrow> starts_with p (c # s) \<or> contains_sub p s"
  using assms by (auto simp: contains_sub_conv starts_with_conv Cons_eq_append_conv)

lemma replace_sub_length:
  "length r = length p \<Longrightarrow> length (replace_sub p r s) = length s"
proof (induction p r s rule: replace_sub.induct)
  case (1 p r s)
  then show ?case
    by (subst replace_sub.simps) (auto dest!: starts_with_drop arg_cong [of _ _ length] simp: neq_Nil_conv)
qed

lemma replace_sub_id:
  assumes "length r = length p" "p \<noteq> []" "r \<noteq> p"
  shows "replace_sub p r s = s \<longleftrightarrow> \<not> contains_sub p s"
proof (induction s)
  case Nil
  then show ?case using assms by (subst replace_sub.simps) (simp add: contains_sub_rec)
next
  case (Cons c s)
  show ?case
  proof (cases "starts_with p (c # s)")
    case True
    then obtain t where t: "c # s = p @ t" by (auto simp: starts_with_conv)
    have "replace_sub p r (c # s) = r @ replace_sub p r t"
      using True assms t by (subst replace_sub.simps) simp
    moreover have "contains_sub p (c # s)" using True assms by (simp add: contains_sub_rec del: starts_with_Cons)
    ultimately show ?thesis using t assms by simp
  next
    case False
    then have "replace_sub p r (c # s) = c # replace_sub p r s"
      by (subst replace_sub.simps) simp
    then show ?thesis using False Cons assms by (simp add: contains_sub_rec)
  qed
qed

text \<open>
  The container's end of a veth pair has a name of the same length as the host's end, so
  it respects the same limit, and the two names differ exactly when the host's end contains
  \<open>tap\<close>; the name of the NIC in the guest depends on the port alone and fits the kernel's limit.
\<close>

theorem veth_names:
  "length (get_vif_internal_devname n v) = length (get_vif_devname n v) \<and>
   (get_vif_internal_devname n v \<noteq> get_vif_devname n v) = contains_sub ''tap'' (get_vif_devname n v) \<and>
   length (get_vif_guest_devname v) \<le> guest_nic_name_len \<and>
   get_vif_guest_devname v = get_vif_guest_devname
     (v\<lparr>vif_type := t, vif_devname := d, vif_bridge := b, vif_mtu := m, vif_hybrid := y\<rparr>)"
  using replace_sub_id [of "''tin''" "''tap''" "get_vif_devname n v"]
  by (simp add: get_vif_internal_devname_def replace_sub_length get_vif_guest_devname_def)

section \<open>The host network\<close>

text \<open>
  What the driver relies on of linux_net and os-vif, over the veth pairs \<open>D\<close> of the host: a
  device exists if it is an end of a pair, a pair is created from two free names, the MTU is not
  part of the wiring, deleting one end deletes the pair, and os-vif changes bridges and
  OVS ports only.
\<close>

definition ends :: "(string \<times> string) set \<Rightarrow> string set" where
  "ends P = fst ` P \<union> snd ` P"


definition keeps_pairs :: "('w \<Rightarrow> (string \<times> string) set) \<Rightarrow> ('w, nova_error, 'a) eprog \<Rightarrow> bool" where
  "keeps_pairs D m \<longleftrightarrow> (\<forall>w. D (snd (m w)) = D w)"

definition net_laws :: "'w host_net \<Rightarrow> ('w \<Rightarrow> (string \<times> string) set) \<Rightarrow> bool" where
  "net_laws N D \<longleftrightarrow>
     (\<forall>d w. hn_exists N d w = (Inr (d \<in> ends (D w)), w)) \<and>
     (\<forall>a b m w. a \<notin> ends (D w) \<and> b \<notin> ends (D w) \<and> a \<noteq> b \<longrightarrow>
        (\<exists>w'. hn_create_veth N a b m w = (Inr (), w') \<and> D w' = insert (a, b) (D w))) \<and>
     (\<forall>d m. keeps_pairs D (hn_set_mtu N d m)) \<and>
     (\<forall>d w. d \<in> ends (D w) \<longrightarrow>
        (\<exists>w'. hn_delete N d w = (Inr (), w') \<and> D w' = {p \<in> D w. fst p \<noteq> d \<and> snd p \<noteq> d})) \<and>
     (\<forall>v. keeps_pairs D (hn_osvif N v) \<and> keeps_pairs D (hn_osvif_plug N v) \<and>
        keeps_pairs D (hn_osvif_unplug N v))"

lemma net_lawsD:
  assumes "net_laws N D"
  shows net_exists: "hn_exists N d w = (Inr (d \<in> ends (D w)), w)"
    and net_create: "a \<notin> ends (D w) \<Longrightarrow> b \<notin> ends (D w) \<Longrightarrow> a \<noteq> b \<Longrightarrow>
      \<exists>w'. hn_create_veth N a b m w = (Inr (), w') \<and> D w' = insert (a, b) (D w)"
    and net_mtu: "keeps_pairs D (hn_set_mtu N d m)"
    and net_delete: "d \<in> ends (D w) \<Longrightarrow>
      \<exists>w'. hn_delete N d w = (Inr (), w') \<and> D w' = {p \<in> D w. fst p \<noteq> d \<and> snd p \<noteq> d}"
    and net_osvif: "keeps_pairs D (hn_osvif N v)" "keeps_pairs D (hn_osvif_plug N v)"
      "keeps_pairs D (hn_osvif_unplug N v)"
  using assms by (simp_all add: net_laws_def)


lemma keeps_pairs_intros:
  "keeps_pairs D (ret a)" "keeps_pairs D (raise e)"
  "keeps_pairs D m \<Longrightarrow> (\<And>a. keeps_pairs D (f a)) \<Longrightarrow> keeps_pairs D (bnd m f)"
  "keeps_pairs D m \<Longrightarrow> (\<And>e. keeps_pairs D (h e)) \<Longrightarrow> keeps_pairs D (handle p m h)"
  by (auto simp: keeps_pairs_def ret_def raise_def bnd_def handle_def split: prod.splits sum.splits)
    (metis snd_conv)+

text \<open>The pairs of the host once this VIF's own pair is wired, and once it is gone.\<close>

definition wired :: "nat \<Rightarrow> vif \<Rightarrow> (string \<times> string) set \<Rightarrow> (string \<times> string) set" where
  "wired n v P =
     (if get_vif_devname n v \<in> ends P then P
      else insert (get_vif_devname n v, get_vif_internal_devname n v) P)"






lemma wire_veth_again:
  assumes N: "net_laws N D" and "get_vif_devname n v \<in> ends (D w)"
  shows "D (snd (wire_veth N n v w)) = D w"
  using assms net_mtu [OF N] by (auto simp: wire_veth_def run_simps net_exists [OF N] keeps_pairs_def)





lemma wired_end: "get_vif_devname n v \<in> ends (wired n v P)"
  by (auto simp: wired_def ends_def)










end
