(* ===== verification/Incus_Inventory.thy ===== *)
theory Incus_Inventory
  imports Nova_Model
begin

text \<open>
  The all-project inventory of an Incus daemon (nova/virt/incus/driver.py): one listing of
  instances and profiles, indexed by owner, ID range, name and materialization token, and the
  proof that no resource of an instance or of its ID range is left. The daemon is a parameter.
\<close>

section \<open>The daemon\<close>

text \<open>
  \<open>iv_list\<close> lists the instances or the profiles of all projects, \<open>iv_usage\<close> asks the indexed
  endpoint; both return the reply as JSON, \<open>None\<close> when it is not. \<open>iv_has_extension\<close> is
  \<open>has_api_extension\<close>.
\<close>

record 'h inventory_api =
  iv_list :: "string \<Rightarrow> ('h, json option) prog"
  iv_usage :: "(string \<times> string) list \<Rightarrow> ('h, json option) prog"
  iv_has_extension :: "string \<Rightarrow> ('h, bool) prog"

section \<open>Keys\<close>

text \<open>A resource is its type, its project and its name.\<close>

type_synonym resource = "string \<times> string \<times> string"

type_synonym 'k index = "('k \<times> resource set) list"

record inventory =
  by_uuid :: "string index"
  by_range :: "(string \<times> string) index"
  invalid_ranges :: "resource set"
  by_name :: "(string \<times> string) index"
  by_materialization :: "string index"

definition members :: "'k index \<Rightarrow> 'k \<Rightarrow> resource set" where
  "members ix k = (case map_of ix k of None \<Rightarrow> {} | Some s \<Rightarrow> s)"

definition inventory_add :: "'k index \<Rightarrow> 'k option \<Rightarrow> resource \<Rightarrow> 'k index" where
  "inventory_add ix key r =
     (case key of None \<Rightarrow> ix | Some k \<Rightarrow> AList.update k (insert r (members ix k)) ix)"

definition inventory_uuid :: "json \<Rightarrow> string option" where
  "inventory_uuid v =
     (case v of JStr s \<Rightarrow> (case uuid_str s of Inr t \<Rightarrow> Some t | Inl _ \<Rightarrow> None) | _ \<Rightarrow> None)"

text \<open>\<open>str(size).strip().lower() in ('', 'auto')\<close>, which of the JSON values only a string meets.\<close>

definition size_unset :: "json \<Rightarrow> bool" where
  "size_unset v \<longleftrightarrow>
     (case v of
        JNull \<Rightarrow> True
      | JStr s \<Rightarrow> map lower_char (strip_chars is_space s) \<in> {'''', ''auto''}
      | _ \<Rightarrow> False)"

text \<open>\<open>int(v)\<close> with TypeError and ValueError caught.\<close>

definition int_or_none :: "json \<Rightarrow> int option result" where
  "int_or_none v =
     (case py_int v of
        Inr i \<Rightarrow> Inr (Some i)
      | Inl e \<Rightarrow> if e \<in> {PyException TypeError, PyException ValueError} then Inr None else Inl e)"

definition inventory_range :: "json \<Rightarrow> json \<Rightarrow> (string \<times> string) option result" where
  "inventory_range base sz =
     rbind (int_or_none base) (\<lambda>b.
     case b of
       None \<Rightarrow> Inr None
     | Some b \<Rightarrow>
         rbind (int_or_none (if size_unset sz then JInt 65536 else sz)) (\<lambda>n.
         case n of
           None \<Rightarrow> Inr None
         | Some n \<Rightarrow>
             if b < 0 \<or> b > 2 ^ 32 - 1 \<or> n \<le> 0 then Inr None
             else if n > 2 ^ 32 \<or> b + n > 2 ^ 32 then Inr None
             else Inr (Some (int_dec b, int_dec n))))"

definition ranges_overlap :: "(string \<times> string) option \<Rightarrow> (string \<times> string) option \<Rightarrow> bool result" where
  "ranges_overlap left right =
     (case (left, right) of
        (Some (lb, lsz), Some (rb, rsz)) \<Rightarrow>
          rbind (int_of_str lb) (\<lambda>lb. rbind (int_of_str lsz) (\<lambda>lsz.
          rbind (int_of_str rb) (\<lambda>rb. rbind (int_of_str rsz) (\<lambda>rsz.
          Inr (lb < rb + rsz \<and> rb < lb + lsz)))))
      | _ \<Rightarrow> Inr False)"

section \<open>Indexing a listing\<close>

definition allocation_config_key :: string where
  "allocation_config_key = ''user.openstack.idmap_allocation_id''"

definition compute_config_key :: string where
  "compute_config_key = ''user.openstack.compute_id''"

definition materialization_config_key :: string where
  "materialization_config_key = ''user.openstack.rootfs_materialization_id''"

definition string_config :: "json \<Rightarrow> fields result" where
  "string_config v =
     (case v of
        JObj c \<Rightarrow> if list_all (\<lambda>(k, x). as_str x \<noteq> None) c then Inr c else Inl IntegrityError
      | _ \<Rightarrow> Inl IntegrityError)"

definition nonempty_str :: "json \<Rightarrow> string result" where
  "nonempty_str v =
     (case v of JStr s \<Rightarrow> if s = [] then Inl IntegrityError else Inr s | _ \<Rightarrow> Inl IntegrityError)"

definition jget_default :: "fields \<Rightarrow> string \<Rightarrow> json \<Rightarrow> json" where
  "jget_default d k other = (case map_of d k of None \<Rightarrow> other | Some v \<Rightarrow> v)"

text \<open>The configuration of one record: the expanded one of an instance, then its own.\<close>

definition effective_config :: "string \<Rightarrow> fields \<Rightarrow> fields result" where
  "effective_config resource_type record =
     rbind (string_config (jget record ''config'')) (\<lambda>local.
     if resource_type = ''instance'' then
       rbind (string_config (jget_default record ''expanded_config'' (JObj []))) (\<lambda>expanded.
       Inr (update_all local (update_all expanded [])))
     else Inr (update_all local []))"

definition configured_base :: "fields \<Rightarrow> json" where
  "configured_base c =
     (if py_truthy (jget c ''volatile.idmap.base'') then jget c ''volatile.idmap.base''
      else jget c ''security.idmap.base'')"

definition has_configured_base :: "fields \<Rightarrow> bool" where
  "has_configured_base c \<longleftrightarrow>
     jget c ''volatile.idmap.base'' \<noteq> JNull \<or> jget c ''security.idmap.base'' \<noteq> JNull"

definition add_record :: "string \<Rightarrow> json \<Rightarrow> inventory \<Rightarrow> inventory result" where
  "add_record resource_type record ivy =
     (case record of
        JObj d \<Rightarrow>
          rbind (nonempty_str (jget d ''project'')) (\<lambda>project.
          rbind (nonempty_str (jget d ''name'')) (\<lambda>name.
          rbind (effective_config resource_type d) (\<lambda>c.
          rbind (inventory_range (configured_base c) (jget c ''security.idmap.size'')) (\<lambda>range.
          let r = (resource_type, project, name);
              named = ivy\<lparr>by_name := inventory_add (by_name ivy) (Some (project, name)) r,
                by_uuid := inventory_add (by_uuid ivy) (inventory_uuid (jget c ''user.openstack.uuid'')) r\<rparr>;
              ranged = (if has_configured_base c \<and> range = None
                then named\<lparr>invalid_ranges := insert r (invalid_ranges named)\<rparr>
                else named\<lparr>by_range := inventory_add (by_range named) range r\<rparr>)
          in Inr (ranged\<lparr>by_materialization :=
               inventory_add (by_materialization ranged) (as_str (jget c materialization_config_key)) r\<rparr>)))))
      | _ \<Rightarrow> Inl IntegrityError)"

fun add_records :: "string \<Rightarrow> json list \<Rightarrow> inventory \<Rightarrow> inventory result" where
  "add_records resource_type [] ivy = Inr ivy"
| "add_records resource_type (r # rs) ivy =
     rbind (add_record resource_type r ivy) (add_records resource_type rs)"

definition listing_records :: "json option \<Rightarrow> json list result" where
  "listing_records body =
     (case body of
        Some (JObj d) \<Rightarrow>
          (case jget d ''metadata'' of JList records \<Rightarrow> Inr records | _ \<Rightarrow> Inl IntegrityError)
      | _ \<Rightarrow> Inl IntegrityError)"

definition empty_inventory :: inventory where
  "empty_inventory =
     \<lparr>by_uuid = [], by_range = [], invalid_ranges = {}, by_name = [], by_materialization = []\<rparr>"

definition all_project_inventory :: "'h inventory_api \<Rightarrow> ('h, inventory) prog" where
  "all_project_inventory I =
     bnd (iv_list I ''instances'') (\<lambda>instances.
     bnd (lift (rbind (listing_records instances) (\<lambda>rs.
       add_records ''instance'' rs empty_inventory))) (\<lambda>ivy.
     bnd (iv_list I ''profiles'') (\<lambda>profiles.
     lift (rbind (listing_records profiles) (\<lambda>rs. add_records ''profile'' rs ivy)))))"

section \<open>Proving absence\<close>

fun range_matches :: "(string \<times> string) option \<Rightarrow> (string \<times> string) index \<Rightarrow> resource set result" where
  "range_matches expected [] = Inr {}"
| "range_matches expected ((candidate, resources) # ix) =
     rbind (ranges_overlap expected (Some candidate)) (\<lambda>overlap.
     rbind (range_matches expected ix) (\<lambda>rest.
     Inr (if overlap then resources \<union> rest else rest)))"

definition inventory_matches :: "inventory \<Rightarrow> string \<Rightarrow> string \<times> string \<Rightarrow> resource set result" where
  "inventory_matches ivy u window =
     rbind (range_matches (Some window) (by_range ivy)) (\<lambda>overlapping.
     Inr (invalid_ranges ivy \<union> members (by_uuid ivy) u \<union> overlapping))"

definition usage_record :: "json \<Rightarrow> resource result" where
  "usage_record v =
     (case v of
        JObj d \<Rightarrow>
          (case (jget d ''type'', jget d ''project'', jget d ''name'') of
             (JStr t, JStr p, JStr n) \<Rightarrow>
               if t \<in> {''instance'', ''profile''} \<and> p \<noteq> [] \<and> n \<noteq> [] then Inr (t, p, n)
               else Inl IntegrityError
           | _ \<Rightarrow> Inl IntegrityError)
      | _ \<Rightarrow> Inl IntegrityError)"

definition usage_matches :: "json option \<Rightarrow> resource set result" where
  "usage_matches body =
     (case body of
        None \<Rightarrow> Inl (PyException ValueError)
      | Some (JObj d) \<Rightarrow>
          (case jget d ''metadata'' of
             JList records \<Rightarrow> rbind (map_result usage_record records) (\<lambda>rs. Inr (set rs))
           | _ \<Rightarrow> Inl IntegrityError)
      | Some _ \<Rightarrow> Inl (PyException AttributeError))"

text \<open>
  The profile that a caller allows to exist is looked up by its name in the configured
  project; the empty name allows none.
\<close>

definition allowed_resource :: "string \<Rightarrow> string option \<Rightarrow> resource \<Rightarrow> bool" where
  "allowed_resource project allowed r \<longleftrightarrow>
     (case allowed of None \<Rightarrow> False | Some n \<Rightarrow> n \<noteq> [] \<and> r = (''profile'', project, n))"

definition resources_absent ::
  "'h inventory_api \<Rightarrow> string \<Rightarrow> string \<Rightarrow> json \<Rightarrow> json \<Rightarrow> string option \<Rightarrow> inventory option \<Rightarrow>
     ('h, bool) prog" where
  "resources_absent I project u base sz allowed ivy =
     bnd (lift (inventory_range base sz)) (\<lambda>window.
     case (window, inventory_uuid (JStr u)) of
       (Some (wb, ws), Some owner) \<Rightarrow>
         bnd (case ivy of
                Some snapshot \<Rightarrow> lift (inventory_matches snapshot owner (wb, ws))
              | None \<Rightarrow>
                  bnd (iv_has_extension I ''idmap_usage'') (\<lambda>indexed.
                  if indexed then
                    bnd (iv_usage I [(''owner'', owner), (''base'', wb), (''size'', ws)])
                      (\<lambda>body. lift (usage_matches body))
                  else
                    bnd (all_project_inventory I) (\<lambda>fresh. lift (inventory_matches fresh owner (wb, ws)))))
           (\<lambda>matches. ret (\<forall>r \<in> matches. allowed_resource project allowed r))
     | _ \<Rightarrow> raise IntegrityError)"

text \<open>
  A preflight attempt names its instance, owner and token; the check of its payload has made
  them strings.
\<close>

definition spawn_attempt_resources_absent ::
  "'h inventory_api \<Rightarrow> string \<Rightarrow> fields \<Rightarrow> inventory option \<Rightarrow> ('h, bool) prog" where
  "spawn_attempt_resources_absent I project attempt ivy =
     bnd (case ivy of Some snapshot \<Rightarrow> ret snapshot | None \<Rightarrow> all_project_inventory I) (\<lambda>ivy.
     ret ((case as_str (jget attempt ''instance_name'') of
             None \<Rightarrow> {} | Some n \<Rightarrow> members (by_name ivy) (project, n)) = {} \<and>
          (case inventory_uuid (jget attempt ''instance_uuid'') of
             None \<Rightarrow> {} | Some u \<Rightarrow> members (by_uuid ivy) u) = {} \<and>
          (case as_str (jget attempt ''attempt_uuid'') of
             None \<Rightarrow> {} | Some t \<Rightarrow> members (by_materialization ivy) t) = {}))"

end
