(* ===== verification/Inventory_Theorems.thy ===== *)
theory Inventory_Theorems
  imports Incus_Inventory Search_Theorems
begin

text \<open>
  The indexed screen over an Incus inventory is exact: it reports absence precisely when a scan
  of every listed record would find neither the owner, nor an overlapping ID range, nor a
  configured range that cannot be read.
\<close>

section \<open>Indexes\<close>

lemma members_add:
  "members (inventory_add ix key r) k = (if key = Some k then insert r (members ix k) else members ix k)"
  by (simp add: members_def inventory_add_def update_conv split: option.splits)

lemma members_Nil [simp]: "members [] k = {}"
  by (simp add: members_def)

text \<open>The resources under the keys that satisfy a predicate.\<close>

definition hits :: "('k \<Rightarrow> bool) \<Rightarrow> 'k index \<Rightarrow> resource set" where
  "hits P ix = {r. \<exists>k. r \<in> members ix k \<and> P k}"

lemma hits_Nil [simp]: "hits P [] = {}"
  by (simp add: hits_def)

lemma hits_Cons:
  assumes "k \<notin> fst ` set ix"
  shows "hits P ((k, s) # ix) = (if P k then s \<union> hits P ix else hits P ix)"
proof -
  have "members ix k = {}" using assms by (simp add: members_def map_of_eq_None_iff [THEN iffD2])
  moreover have "members ((k, s) # ix) k' = (if k' = k then s else members ix k')" for k'
    by (simp add: members_def)
  ultimately have "r \<in> hits P ((k, s) # ix) \<longleftrightarrow> r \<in> (if P k then s \<union> hits P ix else hits P ix)" for r
    unfolding hits_def by (simp split: if_splits) (metis empty_iff)
  then show ?thesis by blast
qed

lemma hits_add:
  "hits P (inventory_add ix key r) =
     hits P ix \<union> (case key of None \<Rightarrow> {} | Some k \<Rightarrow> if P k then {r} else {})"
proof -
  have "x \<in> hits P (inventory_add ix key r) \<longleftrightarrow>
      x \<in> hits P ix \<union> (case key of None \<Rightarrow> {} | Some k \<Rightarrow> if P k then {r} else {})" for x
    unfolding hits_def members_add by (simp split: option.split if_split) (metis insert_iff)
  then show ?thesis by blast
qed

definition index_ok :: "(string \<times> string) index \<Rightarrow> bool" where
  "index_ok ix \<longleftrightarrow> distinct (map fst ix) \<and>
     (\<forall>k \<in> fst ` set ix. \<exists>b n. 0 \<le> b \<and> 0 \<le> n \<and> k = (int_dec b, int_dec n))"

definition overlaps :: "int \<Rightarrow> int \<Rightarrow> string \<times> string \<Rightarrow> bool" where
  "overlaps b n k \<longleftrightarrow> (\<exists>b' n'. 0 \<le> b' \<and> 0 \<le> n' \<and> k = (int_dec b', int_dec n') \<and> b' < b + n \<and> b < b' + n')"

lemma overlaps_dec: "0 \<le> b' \<Longrightarrow> 0 \<le> n' \<Longrightarrow> overlaps b n (int_dec b', int_dec n') \<longleftrightarrow> b' < b + n \<and> b < b' + n'"
  by (auto simp: overlaps_def)

lemma ranges_overlap_dec:
  assumes "0 \<le> b" "0 \<le> n" "0 \<le> b'" "0 \<le> n'"
  shows "ranges_overlap (Some (int_dec b, int_dec n)) (Some (int_dec b', int_dec n')) =
    Inr (b < b' + n' \<and> b' < b + n)"
  using assms by (simp add: ranges_overlap_def int_of_dec)

lemma range_matches_ok:
  assumes "0 \<le> b" "0 \<le> n" and "index_ok ix"
  shows "range_matches (Some (int_dec b, int_dec n)) ix = Inr (hits (overlaps b n) ix)"
  using assms(3)
proof (induction ix)
  case (Cons e ix)
  obtain k s where e: "e = (k, s)" by (cases e)
  from Cons.prems obtain b' n' where k: "0 \<le> b'" "0 \<le> n'" "k = (int_dec b', int_dec n')"
    and ok: "index_ok ix" and new: "k \<notin> fst ` set ix"
    unfolding index_ok_def e by auto
  show ?case
    using Cons.IH [OF ok] assms(1,2) k(1,2) new unfolding e k(3)
    by (simp add: hits_Cons ranges_overlap_dec overlaps_dec conj_commute)
qed simp

lemma index_ok_add:
  assumes "index_ok ix" and "\<And>k. key = Some k \<Longrightarrow> \<exists>b n. 0 \<le> b \<and> 0 \<le> n \<and> k = (int_dec b, int_dec n)"
  shows "index_ok (inventory_add ix key r)"
proof (cases key)
  case (Some k)
  have "fst ` set (AList.update k s ix) = insert k (fst ` set ix)" for s
    using dom_update [of k s ix] by (simp add: dom_map_of_conv_image_fst)
  then show ?thesis using assms Some
    by (simp add: index_ok_def inventory_add_def distinct_update)
qed (use assms in \<open>simp add: inventory_add_def\<close>)

section \<open>One record\<close>

text \<open>What a scan of the listing looks for in one record.\<close>

definition retains :: "string \<Rightarrow> int \<Rightarrow> int \<Rightarrow> string \<Rightarrow> json \<Rightarrow> bool" where
  "retains u b n resource_type v \<longleftrightarrow>
     (\<exists>d c w. v = JObj d \<and> effective_config resource_type d = Inr c \<and>
        inventory_range (configured_base c) (jget c ''security.idmap.size'') = Inr w \<and>
        (inventory_uuid (jget c ''user.openstack.uuid'') = Some u \<or>
         (case w of Some k \<Rightarrow> overlaps b n k | None \<Rightarrow> has_configured_base c)))"

lemma inventory_range_Some:
  assumes "inventory_range base sz = Inr (Some k)"
  shows "\<exists>b n. 0 \<le> b \<and> 0 < n \<and> b + n \<le> 2 ^ 32 \<and> k = (int_dec b, int_dec n)"
  using assms
  by (auto simp: inventory_range_def rbind_Inr_conv split: option.splits if_splits)

definition found :: "string \<Rightarrow> int \<Rightarrow> int \<Rightarrow> inventory \<Rightarrow> resource set" where
  "found u b n ivy = invalid_ranges ivy \<union> members (by_uuid ivy) u \<union> hits (overlaps b n) (by_range ivy)"

lemma add_record_found:
  assumes "add_record resource_type v ivy = Inr ivy'" and "index_ok (by_range ivy)"
  shows "index_ok (by_range ivy') \<and>
    (\<exists>r. found u b n ivy' = (if retains u b n resource_type v then insert r (found u b n ivy) else found u b n ivy))"
proof -
  from assms(1) obtain d where d: "v = JObj d"
    by (auto simp: add_record_def split: json.splits)
  with assms(1) obtain project name c w where
    c: "effective_config resource_type d = Inr c"
    and w: "inventory_range (configured_base c) (jget c ''security.idmap.size'') = Inr w"
    and ivy': "ivy' = (let r = (resource_type, project, name);
        named = ivy\<lparr>by_name := inventory_add (by_name ivy) (Some (project, name)) r,
          by_uuid := inventory_add (by_uuid ivy) (inventory_uuid (jget c ''user.openstack.uuid'')) r\<rparr>;
        ranged = (if has_configured_base c \<and> w = None
          then named\<lparr>invalid_ranges := insert r (invalid_ranges named)\<rparr>
          else named\<lparr>by_range := inventory_add (by_range named) w r\<rparr>)
      in ranged\<lparr>by_materialization :=
           inventory_add (by_materialization ranged) (as_str (jget c materialization_config_key)) r\<rparr>)"
    unfolding add_record_def Let_def by (auto simp only: json.case rbind_Inr_conv sum.inject)
  have uuid: "by_uuid ivy' = inventory_add (by_uuid ivy) (inventory_uuid (jget c ''user.openstack.uuid''))
      (resource_type, project, name)"
    and rng: "by_range ivy' = (if has_configured_base c \<and> w = None then by_range ivy
      else inventory_add (by_range ivy) w (resource_type, project, name))"
    and bad: "invalid_ranges ivy' = (if has_configured_base c \<and> w = None
      then insert (resource_type, project, name) (invalid_ranges ivy) else invalid_ranges ivy)"
    by (simp_all add: ivy' Let_def)
  have key: "\<exists>b n. 0 \<le> b \<and> 0 \<le> n \<and> k = (int_dec b, int_dec n)" if "w = Some k" for k
    using inventory_range_Some [of "configured_base c" "jget c ''security.idmap.size''" k] w that
    by (auto intro: less_imp_le)
  have ok: "index_ok (by_range ivy')"
    using assms(2) index_ok_add [OF assms(2) key] by (auto simp: rng)
  have ret: "retains u b n resource_type v \<longleftrightarrow>
      inventory_uuid (jget c ''user.openstack.uuid'') = Some u \<or>
      (case w of Some k \<Rightarrow> overlaps b n k | None \<Rightarrow> has_configured_base c)"
    using c w by (simp add: retains_def d)
  have "found u b n ivy' = (if retains u b n resource_type v
      then insert (resource_type, project, name) (found u b n ivy) else found u b n ivy)"
    unfolding found_def uuid rng bad ret
    by (cases w) (simp_all add: members_add hits_add inventory_add_def [of _ None] Un_ac insert_commute)
  with ok show ?thesis by blast
qed

lemma add_records_found:
  assumes "add_records resource_type vs ivy = Inr ivy'" and "index_ok (by_range ivy)"
  shows "index_ok (by_range ivy') \<and>
    (found u b n ivy' = {} \<longleftrightarrow> found u b n ivy = {} \<and> \<not> list_ex (retains u b n resource_type) vs)"
  using assms
proof (induction vs arbitrary: ivy)
  case (Cons v vs)
  from Cons.prems(1) obtain mid where m: "add_record resource_type v ivy = Inr mid"
    and rest: "add_records resource_type vs mid = Inr ivy'" by auto
  from add_record_found [OF m Cons.prems(2), of u b n] obtain r where ok: "index_ok (by_range mid)"
    and f: "found u b n mid = (if retains u b n resource_type v then insert r (found u b n ivy) else found u b n ivy)"
    by blast
  from Cons.IH [OF rest ok] f show ?case by auto
qed simp

lemma range_of_ints:
  assumes "0 \<le> b" "0 < n" "b + n \<le> 2 ^ 32"
  shows "inventory_range (JInt b) (JInt n) = Inr (Some (int_dec b, int_dec n))"
  using assms by (simp add: inventory_range_def int_or_none_def size_unset_def)

text \<open>
  C33: The inventory screen is exact: over a snapshot built from listings of instances and
  profiles, it reports that nothing of an instance and its ID range is left precisely when no
  listed record names the instance as its owner under any spelling of the UUID, none has a
  range that overlaps, and none has a configured range that cannot be read.
\<close>

theorem inventory_screen_exact:
  assumes "add_records ''instance'' instances empty_inventory = Inr i1"
    and "add_records ''profile'' profiles i1 = Inr ivy"
    and "canonical_uuid u" "0 \<le> b" "0 < n" "b + n \<le> 2 ^ 32"
  shows "resources_absent I project u (JInt b) (JInt n) None (Some ivy) h =
    (Inr (\<not> list_ex (retains u b n ''instance'') instances \<and> \<not> list_ex (retains u b n ''profile'') profiles), h)"
proof -
  have "index_ok (by_range empty_inventory)" "found u b n empty_inventory = {}"
    by (auto simp: index_ok_def empty_inventory_def found_def)
  with add_records_found [OF assms(1), of u b n] have 1: "index_ok (by_range i1)"
    "found u b n i1 = {} \<longleftrightarrow> \<not> list_ex (retains u b n ''instance'') instances" by auto
  from add_records_found [OF assms(2) 1(1), of u b n] 1(2) have 2: "index_ok (by_range ivy)"
    "found u b n ivy = {} \<longleftrightarrow> \<not> list_ex (retains u b n ''instance'') instances \<and>
       \<not> list_ex (retains u b n ''profile'') profiles" by auto
  have "inventory_matches ivy u (int_dec b, int_dec n) = Inr (found u b n ivy)"
    using assms(4,5) range_matches_ok [of b n "by_range ivy"] 2(1)
    by (simp add: inventory_matches_def found_def)
  moreover have "inventory_uuid (JStr u) = Some u"
    using assms(3) by (simp add: inventory_uuid_def canonical_uuid_def)
  ultimately show ?thesis
    using range_of_ints [OF assms(4-6)] 2(2)
    by (auto simp: resources_absent_def run_simps allowed_resource_def)
qed


definition sample_instances :: "json list" where
  "sample_instances =
     [JObj [(''project'', JStr ''other''), (''name'', JStr ''vm''),
        (''config'', JObj [(''security.idmap.base'', JStr ''10''), (''security.idmap.size'', JStr ''5'')])]]"

theorem inventory_screen_exact_witness:
  "\<exists>ivy.
     resources_absent \<lparr>iv_list = \<lambda>_. raise ConflictError, iv_usage = \<lambda>_. raise ConflictError,
       iv_has_extension = \<lambda>_. raise ConflictError\<rparr> ''default'' uuid_1 (JInt 14) (JInt 4) None (Some ivy) () = (Inr False, ()) \<and>
     resources_absent \<lparr>iv_list = \<lambda>_. raise ConflictError, iv_usage = \<lambda>_. raise ConflictError,
       iv_has_extension = \<lambda>_. raise ConflictError\<rparr> ''default'' uuid_1 (JInt 15) (JInt 4) None (Some ivy) () = (Inr True, ())"
proof -
  obtain ivy where i: "add_records ''instance'' sample_instances empty_inventory = Inr ivy"
    by (cases "add_records ''instance'' sample_instances empty_inventory") (force | code_simp)+
  have u: "canonical_uuid uuid_1" by code_simp
  have c: "effective_config ''instance'' [(''project'', JStr ''other''), (''name'', JStr ''vm''),
        (''config'', JObj [(''security.idmap.base'', JStr ''10''), (''security.idmap.size'', JStr ''5'')])] =
      Inr [(''security.idmap.base'', JStr ''10''), (''security.idmap.size'', JStr ''5'')]" by code_simp
  have r: "inventory_range (JStr ''10'') (JStr ''5'') = Inr (Some (int_dec 10, int_dec 5))" by code_simp
  have "retains uuid_1 14 4 ''instance'' (hd sample_instances)" "\<not> retains uuid_1 15 4 ''instance'' (hd sample_instances)"
    using c r by (auto simp: retains_def sample_instances_def configured_base_def overlaps_dec inventory_uuid_def)
  moreover have "add_records ''profile'' [] ivy = Inr ivy" by simp
  note e = inventory_screen_exact [OF i this u]
  ultimately show ?thesis
    by (intro exI [of _ ivy]) (simp add: e sample_instances_def)
qed

end
