(* ===== verification/Compute_Node.thy ===== *)
theory Compute_Node
  imports Incus_Inventory Storage_Protocol Idmap_Restore
begin

text \<open>
  One compute node of the driver: the state that the code of nova/virt/incus/driver.py and
  manager.py runs in (the allocator client of the process, and the rest of the host), the services
  it calls, Nova's view of an instance with its ID-map stamp, and the spawn attempt journal.
\<close>

section \<open>State and services\<close>

text \<open>
  The state is the allocator client and the host: Incus, Nova's database and the local files.
  An allocator call changes the client only, a call of a service the host only.
\<close>

type_synonym ('s, 'b, 'h) node = "('s, 'b) client \<times> 'h"

type_synonym ('s, 'b, 'h, 'a) nprog = "(('s, 'b, 'h) node, 'a) prog"

definition on_alloc :: "('s, 'b, 'a) cprog \<Rightarrow> ('s, 'b, 'h, 'a) nprog" where
  "on_alloc m = (\<lambda>(c, h). case m c of (r, c') \<Rightarrow> (r, (c', h)))"

definition on_host :: "('h, 'a) prog \<Rightarrow> ('s, 'b, 'h, 'a) nprog" where
  "on_host m = (\<lambda>(c, h). case m h of (r, h') \<Rightarrow> (r, (c, h')))"

text \<open>
  Nova's row of an instance. \<open>nr_deleted\<close> is that the attribute is loaded and true,
  \<open>nr_metadata\<close> the system metadata, empty when it is not loaded.
\<close>

record nova_row =
  nr_uuid :: string
  nr_name :: string
  nr_host :: "string option"
  nr_task_state :: "string option"
  nr_vm_state :: string
  nr_deleted :: bool
  nr_metadata :: fields

text \<open>
  What the code calls. \<open>nd_allocator\<close> is \<open>None\<close> on a node without the registry; the node UUID is
  empty when Nova has none. \<open>nd_row\<close> is \<open>Instance.get_by_uuid\<close> with \<open>None\<close> for
  InstanceNotFound, \<open>nd_get\<close> the lookup of an instance or a profile by name in Incus,
  \<open>nd_read_json\<close> a JSON file (\<open>None\<close> where there is none, ServiceError for an OSError and
  ValueError for text that is not JSON), \<open>nd_attachment_journals\<close> whether the volume or share journal
  of an instance has a record, \<open>nd_refresh\<close> and \<open>nd_save\<close> the row's refresh and save.
\<close>

record ('s, 'b, 'h) compute =
  nd_allocator :: "'b allocator option"
  nd_gateway :: "('s, 'b) gateway"
  nd_lib :: "'b lib"
  nd_project :: string
  nd_instances_path :: string
  nd_host :: string
  nd_storage :: "'h storage_api"
  nd_inventory :: "'h inventory_api"
  nd_node_uuid :: "('h, string) prog"
  nd_row :: "string \<Rightarrow> ('h, nova_row option) prog"
  nd_rows_of_host :: "string \<Rightarrow> ('h, nova_row list) prog"
  nd_refresh :: "nova_row \<Rightarrow> ('h, nova_row) prog"
  nd_save :: "nova_row \<Rightarrow> ('h, unit) prog"
  nd_get :: "string \<Rightarrow> string \<Rightarrow> ('h, unit) prog"
  nd_pool_driver :: "string \<Rightarrow> ('h, json) prog"
  nd_settle_operation :: "string \<Rightarrow> ('h, unit) prog"
  nd_lexists :: "string \<Rightarrow> ('h, bool) prog"
  nd_read_json :: "string \<Rightarrow> ('h, json option) prog"
  nd_write_json :: "string \<Rightarrow> json \<Rightarrow> ('h, unit) prog"
  nd_unlink :: "string \<Rightarrow> ('h, unit) prog"
  nd_attachment_journals :: "nova_row \<Rightarrow> ('h, bool) prog"

text \<open>\<open>os.path.join\<close> of two parts.\<close>

definition path_join :: "string \<Rightarrow> string \<Rightarrow> string" where
  "path_join a b =
     (if starts_with ''/'' b \<or> a = [] then b
      else if last a = CHR ''/'' then a @ b else a @ ''/'' @ b)"

section \<open>The ID-map stamp of a row\<close>

record idmap_stamp =
  st_base :: int
  st_size :: int
  st_allocation_id :: string
  st_fingerprint :: string

definition stamp_keys :: "string list" where
  "stamp_keys =
     [''incus_idmap_base'', ''incus_idmap_size'', ''incus_idmap_allocation_id'', ''incus_idmap_fingerprint'']"

definition instance_idmap_metadata :: "'b lib \<Rightarrow> nova_row \<Rightarrow> idmap_stamp option result" where
  "instance_idmap_metadata L row =
     (let value = jget (nr_metadata row) in
      if list_all (\<lambda>k. value k = JNull) stamp_keys then Inr None
      else if list_ex (\<lambda>k. value k = JNull) stamp_keys then Inl IntegrityError
      else
        except_r (\<lambda>e. e \<in> {PyException TypeError, PyException ValueError}) IntegrityError
          (rbind (py_int (value ''incus_idmap_base'')) (\<lambda>b.
           rbind (py_int (value ''incus_idmap_size'')) (\<lambda>n.
           Inr (Some \<lparr>st_base = b, st_size = n,
             st_allocation_id = py_str L (value ''incus_idmap_allocation_id''),
             st_fingerprint = py_str L (value ''incus_idmap_fingerprint'')\<rparr>)))))"

definition stamp_of :: "'x generation_scheme \<Rightarrow> idmap_stamp" where
  "stamp_of g =
     \<lparr>st_base = map_base g, st_size = map_size g, st_allocation_id = allocation_id g,
      st_fingerprint = fingerprint g\<rparr>"

definition generation_matches_metadata :: "'x generation_scheme \<Rightarrow> idmap_stamp option \<Rightarrow> bool" where
  "generation_matches_metadata g stamp \<longleftrightarrow>
     (case stamp of
        None \<Rightarrow> False
      | Some s \<Rightarrow> map_base g = st_base s \<and> map_size g = st_size s \<and>
          allocation_id g = st_allocation_id s \<and> fingerprint g = st_fingerprint s)"

lemma generation_matches_stamp: "generation_matches_metadata g (Some s) \<longleftrightarrow> s = stamp_of g"
  by (auto simp: generation_matches_metadata_def stamp_of_def)

section \<open>The spawn attempt journal\<close>

definition canonical_id :: "json \<Rightarrow> string result" where
  "canonical_id v =
     (case v of JStr s \<Rightarrow> if canonical_uuid s then Inr s else Inl ConfigurationError
      | _ \<Rightarrow> Inl ConfigurationError)"

definition spawn_attempt_directory :: "('s, 'b, 'h) compute \<Rightarrow> string" where
  "spawn_attempt_directory N = path_join (nd_instances_path N) ''incus-spawn-attempts''"

definition spawn_attempt_path :: "('s, 'b, 'h) compute \<Rightarrow> string \<Rightarrow> string" where
  "spawn_attempt_path N u = path_join (spawn_attempt_directory N) u"

definition generation_keys :: "string list" where
  "generation_keys = [''allocation_id'', ''base'', ''size'', ''slot'', ''fingerprint'']"

definition generation_fields :: "'x generation_scheme \<Rightarrow> fields" where
  "generation_fields g =
     [(''allocation_id'', JStr (allocation_id g)), (''base'', JInt (map_base g)), (''size'', JInt (map_size g)),
      (''slot'', JInt (map_slot g)), (''fingerprint'', JStr (fingerprint g))]"

definition attempt_generation :: "fields option \<Rightarrow> fields result" where
  "attempt_generation generation =
     (case generation of
        None \<Rightarrow> Inr (map (\<lambda>k. (k, JNull)) generation_keys)
      | Some g \<Rightarrow>
          rbind (canonical_id (jget g ''allocation_id'')) (\<lambda>aid.
          rbind (py_int (jget g ''base'')) (\<lambda>b.
          rbind (py_int (jget g ''size'')) (\<lambda>n.
          rbind (py_int (jget g ''slot'')) (\<lambda>slot.
          case jget g ''fingerprint'' of
            JStr fp \<Rightarrow>
              if b < 0 \<or> n \<le> 0 \<or> slot < 0 \<or> length fp \<noteq> 64 \<or> \<not> list_all is_lower_hex fp
              then Inl IntegrityError
              else Inr [(''allocation_id'', JStr aid), (''base'', JInt b), (''size'', JInt n),
                        (''slot'', JInt slot), (''fingerprint'', JStr fp)]
          | _ \<Rightarrow> Inl IntegrityError)))))"

definition spawn_attempt_payload ::
  "nova_row \<Rightarrow> json \<Rightarrow> json \<Rightarrow> json \<Rightarrow> fields option \<Rightarrow> fields result" where
  "spawn_attempt_payload row compute attempt phase generation =
     rbind (check (phase \<in> {JStr ''preflight'', JStr ''opening''}) IntegrityError) (\<lambda>_.
     rbind (attempt_generation generation) (\<lambda>g.
     rbind (canonical_id (JStr (nr_uuid row))) (\<lambda>u.
     rbind (canonical_id compute) (\<lambda>h.
     rbind (canonical_id attempt) (\<lambda>a.
     Inr ([(''version'', JInt 1), (''phase'', phase), (''instance_uuid'', JStr u),
           (''instance_name'', JStr (nr_name row)), (''compute_uuid'', JStr h),
           (''attempt_uuid'', JStr a)] @ g))))))"

text \<open>Equality of two JSON values and of two dicts, as Python compares them.\<close>

definition num_of :: "json \<Rightarrow> rat option" where
  "num_of v =
     (case v of JInt i \<Rightarrow> Some (of_int i) | JBool b \<Rightarrow> Some (if b then 1 else 0)
      | JFloat (Finite r) \<Rightarrow> Some r | _ \<Rightarrow> None)"

definition py_equal :: "json \<Rightarrow> json \<Rightarrow> bool" where
  "py_equal a b \<longleftrightarrow> a = b \<or> num_of a \<noteq> None \<and> num_of a = num_of b"

definition same_fields :: "fields \<Rightarrow> fields \<Rightarrow> bool" where
  "same_fields p q \<longleftrightarrow>
     key_set p = key_set q \<and> list_all (\<lambda>k. py_equal (jget p k) (jget q k)) (map fst p)"

lemma same_fields_refl [simp]: "same_fields p p"
  by (simp add: same_fields_def py_equal_def list_all_iff)

definition attempt_keys :: "string list" where
  "attempt_keys =
     [''version'', ''phase'', ''instance_uuid'', ''instance_name'', ''compute_uuid'', ''attempt_uuid''] @
     generation_keys"

definition attempt_malformed :: "idmap_error \<Rightarrow> bool" where
  "attempt_malformed e \<longleftrightarrow>
     (case e of PyException x \<Rightarrow> x \<in> {AttributeError, TypeError, ValueError} | _ \<Rightarrow> True)"

definition validate_spawn_attempt :: "nova_row \<Rightarrow> json \<Rightarrow> fields result" where
  "validate_spawn_attempt row payload =
     rbind (except_r attempt_malformed IntegrityError
       (case payload of
          JObj p \<Rightarrow>
            rbind (check (key_set p = set attempt_keys) (PyException ValueError)) (\<lambda>_.
            rbind (if list_all (\<lambda>k. jget p k = JNull) generation_keys then Inr None
                   else if list_ex (\<lambda>k. jget p k = JNull) generation_keys then Inl (PyException ValueError)
                   else Inr (Some p)) (\<lambda>generation.
            rbind (spawn_attempt_payload row (jget p ''compute_uuid'') (jget p ''attempt_uuid'')
                     (jget p ''phase'') generation) (\<lambda>expected. Inr (p, expected))))
        | _ \<Rightarrow> Inl (PyException ValueError)))
     (\<lambda>(p, expected). if same_fields p expected then Inr p else Inl IntegrityError)"

definition read_spawn_attempt :: "('s, 'b, 'h) compute \<Rightarrow> nova_row \<Rightarrow> ('h, fields option) prog" where
  "read_spawn_attempt N row =
     bnd (handle (\<lambda>e. e \<in> {PyException ServiceError, PyException ValueError})
            (nd_read_json N (spawn_attempt_path N (nr_uuid row))) (\<lambda>_. raise IntegrityError)) (\<lambda>payload.
     case payload of
       None \<Rightarrow> ret None
     | Some v \<Rightarrow> bnd (lift (validate_spawn_attempt row v)) (\<lambda>p. ret (Some p)))"

definition attempt_has_generation :: "fields \<Rightarrow> bool" where
  "attempt_has_generation p \<longleftrightarrow> jget p ''allocation_id'' \<noteq> JNull"

definition attempt_own_generation :: "fields \<Rightarrow> fields option" where
  "attempt_own_generation p = (if attempt_has_generation p then Some p else None)"

definition attempt_generation_matches :: "fields \<Rightarrow> 'x generation_scheme \<Rightarrow> bool" where
  "attempt_generation_matches p g \<longleftrightarrow>
     attempt_has_generation p \<and>
     jget p ''allocation_id'' = JStr (allocation_id g) \<and> py_eq_int (jget p ''base'') (map_base g) \<and>
     py_eq_int (jget p ''size'') (map_size g) \<and> py_eq_int (jget p ''slot'') (map_slot g) \<and>
     jget p ''fingerprint'' = JStr (fingerprint g)"

text \<open>The directory is created and the file replaced atomically in the code.\<close>

definition write_spawn_attempt ::
  "('s, 'b, 'h) compute \<Rightarrow> nova_row \<Rightarrow> json \<Rightarrow> json \<Rightarrow> string \<Rightarrow> string option \<Rightarrow> fields option \<Rightarrow>
     ('h, fields) prog" where
  "write_spawn_attempt N row compute attempt phase expected_phase generation =
     bnd (read_spawn_attempt N row) (\<lambda>existing.
     bnd (case expected_phase of
            None \<Rightarrow> if existing = None then ret () else raise ConflictError
          | Some expected \<Rightarrow>
              bnd (lift (spawn_attempt_payload row compute attempt (JStr expected) generation)) (\<lambda>p.
              case existing of
                Some q \<Rightarrow> if same_fields q p then ret () else raise IntegrityError
              | None \<Rightarrow> raise IntegrityError)) (\<lambda>_.
     bnd (lift (spawn_attempt_payload row compute attempt (JStr phase) generation)) (\<lambda>payload.
     bnd (nd_write_json N (spawn_attempt_path N (nr_uuid row)) (JObj payload)) (\<lambda>_.
     ret payload))))"

definition remove_spawn_attempt :: "('s, 'b, 'h) compute \<Rightarrow> nova_row \<Rightarrow> fields \<Rightarrow> ('h, bool) prog" where
  "remove_spawn_attempt N row expected =
     bnd (read_spawn_attempt N row) (\<lambda>current.
     case current of
       None \<Rightarrow> ret False
     | Some p \<Rightarrow>
         if \<not> same_fields p expected then raise IntegrityError
         else bnd (nd_unlink N (spawn_attempt_path N (nr_uuid row))) (\<lambda>_. ret True))"

end
