(* ===== verification/Idmap_Driver.thy ===== *)
theory Idmap_Driver
  imports Compute_Node
begin

text \<open>
  The ID-map lifecycle of one instance in the driver (nova/virt/incus/driver.py): exact host
  claims, the stamp on Nova's row, the storage materialization with its barrier around the
  create request, promotion, settlement and retirement of a claim. The locks of the code are
  taken and released within these operations and are not modelled.
\<close>

section \<open>The allocator of the node\<close>

abbreviation alloc_get :: "('s, 'b, 'h) compute \<Rightarrow> 'b allocator \<Rightarrow> string \<Rightarrow> ('s, 'b, 'h, assignment option) nprog" where
  "alloc_get N A u \<equiv> on_alloc (get_allocation A (nd_gateway N) u)"

abbreviation alloc_claim ::
  "('s, 'b, 'h) compute \<Rightarrow> 'b allocator \<Rightarrow> string \<Rightarrow> string \<Rightarrow> ('s, 'b, 'h, host_claim option) nprog" where
  "alloc_claim N A u h \<equiv> on_alloc (get_host_claim A (nd_gateway N) u h)"

abbreviation alloc_intent ::
  "('s, 'b, 'h) compute \<Rightarrow> 'b allocator \<Rightarrow> string \<Rightarrow> ('s, 'b, 'h, release_intent option) nprog" where
  "alloc_intent N A u \<equiv> on_alloc (get_release_intent A (nd_gateway N) u)"

definition is_not_found :: "idmap_error \<Rightarrow> bool" where
  "is_not_found e \<longleftrightarrow> e = PyException NotFoundError"

section \<open>Bindings\<close>

record idmap_materialization =
  mz_assignment :: assignment
  mz_claim :: host_claim
  mz_binding :: storage_binding

definition materialization_identity :: "string \<Rightarrow> string \<Rightarrow> host_claim \<Rightarrow> storage_identity" where
  "materialization_identity project name c =
     \<lparr>s_token = materialization_id c, s_allocation_id = allocation_id c, s_compute_id = host_id c,
      s_owner = instance_uuid c, s_project = project, s_instance_name = name,
      s_idmap_base = map_base c, s_idmap_size = map_size c\<rparr>"

definition materialization_config :: "storage_binding \<Rightarrow> fields" where
  "materialization_config b =
     [(allocation_config_key, JStr (s_allocation_id b)), (compute_config_key, JStr (s_compute_id b)),
      (materialization_config_key, JStr (s_token b)), (''user.openstack.uuid'', JStr (s_owner b)),
      (''security.idmap.base'', JStr (int_dec (s_idmap_base b))),
      (''security.idmap.size'', JStr (int_dec (s_idmap_size b)))]"

definition binding_from_proof :: "'x proof_base_scheme \<Rightarrow> storage_binding" where
  "binding_from_proof p =
     \<lparr>s_token = p_token p, s_allocation_id = p_allocation_id p, s_compute_id = p_compute_id p,
      s_owner = p_owner p, s_project = p_project p, s_instance_name = p_instance_name p,
      s_idmap_base = p_idmap_base p, s_idmap_size = p_idmap_size p,
      s_storage_driver = JStr (p_storage_driver p), s_storage_pool = JStr (p_storage_pool p),
      s_storage_volume = JStr (p_storage_volume p),
      s_cleanup_disposition = JStr (p_cleanup_disposition p), s_rbd_image = JStr (p_rbd_image p)\<rparr>"

definition instance_storage_volume :: "string \<Rightarrow> string \<Rightarrow> string" where
  "instance_storage_volume project name =
     (if project = ''default'' then name else project @ ''_'' @ name)"

definition nonempty_or :: "idmap_error \<Rightarrow> json \<Rightarrow> string result" where
  "nonempty_or e v = (case v of JStr s \<Rightarrow> if s = [] then Inl e else Inr s | _ \<Rightarrow> Inl e)"

definition cleanup_disposition :: "string \<Rightarrow> bool \<Rightarrow> string" where
  "cleanup_disposition driver shared_migration =
     (if driver = ''cephext'' then ''detach''
      else if shared_migration \<and> driver = ''ceph'' then ''handover'' else ''delete'')"

definition root_storage_binding ::
  "('s, 'b, 'h) compute \<Rightarrow> nova_row \<Rightarrow> assignment \<Rightarrow> string \<Rightarrow> string \<Rightarrow> json \<Rightarrow> bool \<Rightarrow>
     ('h, storage_binding) prog" where
  "root_storage_binding N row a compute_id materialization root_device shared_migration =
     bnd (lift (case root_device of JObj d \<Rightarrow> Inr d | _ \<Rightarrow> Inl ConfigurationError)) (\<lambda>d.
     bnd (lift (nonempty_or ConfigurationError (jget d ''pool''))) (\<lambda>pool.
     bnd (nd_pool_driver N pool) (\<lambda>v.
     bnd (lift (nonempty_or IntegrityError v)) (\<lambda>driver.
     bnd (lift (case jget_default d ''initial.ceph.rbd.image_name'' (JStr []) of
            JStr s \<Rightarrow> Inr s | _ \<Rightarrow> Inl ConfigurationError)) (\<lambda>rbd.
     bnd (lift (check (driver = ''cephext'' \<longrightarrow> rbd \<noteq> []) ConfigurationError)) (\<lambda>_.
     bnd (lift (check (driver \<noteq> ''cephext'' \<longrightarrow> rbd = []) ConfigurationError)) (\<lambda>_.
     bnd (lift (canonical_id (JStr materialization))) (\<lambda>token.
     bnd (lift (canonical_id (JStr compute_id))) (\<lambda>h.
     ret \<lparr>s_token = token, s_allocation_id = allocation_id a, s_compute_id = h,
          s_owner = nr_uuid row, s_project = nd_project N, s_instance_name = nr_name row,
          s_idmap_base = map_base a, s_idmap_size = map_size a,
          s_storage_driver = JStr driver, s_storage_pool = JStr pool,
          s_storage_volume = JStr (instance_storage_volume (nd_project N) (nr_name row)),
          s_cleanup_disposition = JStr (cleanup_disposition driver shared_migration),
          s_rbd_image = JStr rbd\<rparr>)))))))))"

section \<open>The stamp of a row\<close>

definition stamp_fields :: "assignment \<Rightarrow> fields" where
  "stamp_fields a =
     [(''incus_idmap_base'', JStr (int_dec (map_base a))), (''incus_idmap_size'', JStr (int_dec (map_size a))),
      (''incus_idmap_allocation_id'', JStr (allocation_id a)),
      (''incus_idmap_fingerprint'', JStr (fingerprint a))]"

definition is_stamped :: "assignment \<Rightarrow> fields \<Rightarrow> bool" where
  "is_stamped a metadata \<longleftrightarrow> list_all (\<lambda>(k, v). jget metadata k = v) (stamp_fields a)"

text \<open>
  The assignment the stamp asks for, before it is written: the registry's record for a row
  that has a stamp, an adoption for an instance that runs with an ID map, else an allocation.
\<close>

definition verified_assignment ::
  "('s, 'b, 'h) compute \<Rightarrow> 'b allocator \<Rightarrow> nova_row \<Rightarrow> idmap_stamp \<Rightarrow> ('s, 'b, 'h, assignment) nprog" where
  "verified_assignment N A row stored =
     bnd (alloc_get N A (nr_uuid row)) (\<lambda>assignment.
     case assignment of
       None \<Rightarrow> raise IntegrityError
     | Some a \<Rightarrow> if generation_matches_metadata a (Some stored) then ret a else raise IntegrityError)"

definition resolve_assignment ::
  "('s, 'b, 'h) compute \<Rightarrow> 'b allocator \<Rightarrow> nova_row \<Rightarrow> idmap_stamp option \<Rightarrow> (json \<times> json) option \<Rightarrow>
     ('s, 'b, 'h, assignment) nprog" where
  "resolve_assignment N A row stored observed =
     bnd (case stored of None \<Rightarrow> ret None
          | Some s \<Rightarrow> bnd (verified_assignment N A row s) (\<lambda>a. ret (Some a))) (\<lambda>verified.
     case observed of
       Some (base, sz) \<Rightarrow>
         bnd (lift (py_int base)) (\<lambda>b.
         bnd (lift (py_int sz)) (\<lambda>n.
         case (stored, verified) of
           (Some s, Some a) \<Rightarrow>
             if (st_base s, st_size s) \<noteq> (b, n) then raise IntegrityError
             else if map_base a \<noteq> b \<or> map_size a \<noteq> n then raise IntegrityError
             else ret a
         | _ \<Rightarrow> on_alloc (adopt A (nd_gateway N) (nr_uuid row) b (Some n))))
     | None \<Rightarrow>
         (case verified of
            Some a \<Rightarrow> ret a
          | None \<Rightarrow> on_alloc (allocate A (nd_gateway N) (nr_uuid row) None None)))"

text \<open>The row is an \<open>Instance\<close> object; the result is the assignment and the row as it is now.\<close>

definition stamp_row ::
  "('s, 'b, 'h) compute \<Rightarrow> nova_row \<Rightarrow> assignment \<Rightarrow> ('s, 'b, 'h, nova_row) nprog" where
  "stamp_row N row a =
     (if is_stamped a (nr_metadata row) then ret row
      else
        bnd (on_host (nd_refresh N row)) (\<lambda>fresh.
        if is_stamped a (nr_metadata fresh) then ret fresh
        else
          (let stamped = fresh\<lparr>nr_metadata := update_all (stamp_fields a) (nr_metadata fresh)\<rparr>
           in bnd (on_host (nd_save N stamped)) (\<lambda>_. ret stamped))))"

definition ensure_instance_idmap ::
  "('s, 'b, 'h) compute \<Rightarrow> nova_row \<Rightarrow> json option \<Rightarrow> json option \<Rightarrow>
     ('s, 'b, 'h, assignment option \<times> nova_row) nprog" where
  "ensure_instance_idmap N row observed_base observed_size =
     bnd (lift (instance_idmap_metadata (nd_lib N) row)) (\<lambda>stored.
     case nd_allocator N of
       None \<Rightarrow> if stored \<noteq> None then raise IntegrityError else ret (None, row)
     | Some A \<Rightarrow>
         bnd (lift (case (observed_base, observed_size) of
                (Some b, Some n) \<Rightarrow> Inr (Some (b, n))
              | (None, None) \<Rightarrow> Inr None
              | _ \<Rightarrow> Inl IntegrityError)) (\<lambda>observed.
         bnd (resolve_assignment N A row stored observed) (\<lambda>a.
         bnd (stamp_row N row a) (\<lambda>row'. ret (Some a, row')))))"

section \<open>Exact claims\<close>

definition driver_exact_claim ::
  "('s, 'b, 'h) compute \<Rightarrow> 'b allocator \<Rightarrow> nova_row option \<Rightarrow> host_claim \<Rightarrow>
     ('s, 'b, 'h, assignment \<times> host_claim option) nprog" where
  "driver_exact_claim N A row c =
     bnd (lift (check (row = None \<or> instance_uuid c = nr_uuid (the row)) IntegrityError)) (\<lambda>_.
     bnd (alloc_get N A (instance_uuid c)) (\<lambda>assignment.
     case assignment of
       None \<Rightarrow> raise IntegrityError
     | Some a \<Rightarrow>
         if \<not> same_generation a c then raise IntegrityError
         else
           bnd (alloc_claim N A (instance_uuid c) (host_id c)) (\<lambda>current.
           case current of
             None \<Rightarrow> ret (a, None)
           | Some x \<Rightarrow>
               if materialization_id x \<noteq> materialization_id c \<or> \<not> same_generation x c
               then raise ConflictError
               else case row of
                 None \<Rightarrow> ret (a, Some x)
               | Some r \<Rightarrow>
                   bnd (lift (instance_idmap_metadata (nd_lib N) r)) (\<lambda>stored.
                   if stored \<noteq> None \<and> \<not> generation_matches_metadata a stored
                   then raise IntegrityError else ret (a, Some x)))))"

definition attempt_matches_claim :: "attempt \<Rightarrow> host_claim \<Rightarrow> bool" where
  "attempt_matches_claim t c \<longleftrightarrow>
     (let b = at_binding t in
      s_token b = materialization_id c \<and> s_allocation_id b = allocation_id c \<and>
      s_compute_id b = host_id c \<and> s_owner b = instance_uuid c \<and>
      s_idmap_base b = map_base c \<and> s_idmap_size b = map_size c)"

text \<open>\<open>instance.name\<close>, an AttributeError where the caller has no row.\<close>

definition row_name :: "nova_row option \<Rightarrow> string result" where
  "row_name row = (case row of None \<Rightarrow> Inl (PyException AttributeError) | Some r \<Rightarrow> Inr (nr_name r))"

definition discover_attempt ::
  "('s, 'b, 'h) compute \<Rightarrow> nova_row option \<Rightarrow> host_claim \<Rightarrow> ('s, 'b, 'h, attempt) nprog" where
  "discover_attempt N row c =
     bnd (lift (row_name row)) (\<lambda>name.
     on_host (discover_materialization (nd_lib N) (nd_storage N)
       (materialization_identity (nd_project N) name c)))"

text \<open>The part of the promotion that runs under the claim lock.\<close>

definition promote_locked ::
  "('s, 'b, 'h) compute \<Rightarrow> 'b allocator \<Rightarrow> nova_row option \<Rightarrow> host_claim \<Rightarrow> attempt option \<Rightarrow>
     ('s, 'b, 'h, assignment \<times> host_claim option) nprog" where
  "promote_locked N A row c attempt =
     bnd (driver_exact_claim N A row c) (\<lambda>(a, current).
     case current of
       None \<Rightarrow> ret (a, None)
     | Some x \<Rightarrow>
         if state x \<noteq> Possible then ret (a, Some x)
         else
           bnd (case attempt of Some t \<Rightarrow> ret t | None \<Rightarrow> discover_attempt N row x) (\<lambda>t.
           if \<not> attempt_matches_claim t x then raise IntegrityError
           else if at_state t \<noteq> AttemptCommitted \<or> \<not> at_finished t then ret (a, Some x)
           else
             bnd (on_alloc (mark_materialization_committed A (nd_gateway N) (instance_uuid x) (host_id x)
                    (materialization_id x) (Some a))) (\<lambda>y. ret (a, Some y))))"

definition promote_claim ::
  "('s, 'b, 'h) compute \<Rightarrow> nova_row option \<Rightarrow> host_claim \<Rightarrow> attempt option \<Rightarrow> bool \<Rightarrow>
     ('s, 'b, 'h, assignment option \<times> host_claim option) nprog" where
  "promote_claim N row c attempt lock_held =
     (case nd_allocator N of
        None \<Rightarrow> ret (None, None)
      | Some A \<Rightarrow>
          bnd (if lock_held then ret attempt
               else case attempt of
                 Some t \<Rightarrow> ret (Some t)
               | None \<Rightarrow> bnd (discover_attempt N row c) (\<lambda>t. ret (Some t))) (\<lambda>attempt.
          bnd (promote_locked N A row c attempt) (\<lambda>(a, x). ret (Some a, x))))"

section \<open>Acknowledging and settling\<close>

text \<open>A record that Incus no longer has was acknowledged before.\<close>

definition acknowledge :: "('h, json option) prog \<Rightarrow> ('s, 'b, 'h, unit) nprog" where
  "acknowledge m = handle is_not_found (bnd (on_host m) (\<lambda>_. ret ())) (\<lambda>_. ret ())"

definition proof_matches_claim :: "'x proof_base_scheme \<Rightarrow> host_claim \<Rightarrow> bool" where
  "proof_matches_claim p c \<longleftrightarrow>
     p_owner p = instance_uuid c \<and> p_compute_id p = host_id c \<and> p_token p = materialization_id c \<and>
     p_allocation_id p = allocation_id c \<and> p_idmap_base p = map_base c \<and> p_idmap_size p = map_size c"

definition acknowledge_stored ::
  "('s, 'b, 'h) compute \<Rightarrow> host_claim \<Rightarrow> ('s, 'b, 'h, host_claim) nprog" where
  "acknowledge_stored N x =
     (case proof_of x of
        Some (Materialization p) \<Rightarrow>
          bnd (lift (validate_materialization_proof (nd_lib N) p)) (\<lambda>_.
          bnd (lift (check (proof_matches_claim p x) IntegrityError)) (\<lambda>_.
          bnd (acknowledge (acknowledge_materialization_proof (nd_lib N) (nd_storage N) (binding_from_proof p) p))
            (\<lambda>_. ret x)))
      | Some (Release p) \<Rightarrow>
          bnd (lift (check (release_digest (nd_lib N) p = p_digest p) IntegrityError)) (\<lambda>_.
          bnd (lift (check (proof_matches_claim p x) IntegrityError)) (\<lambda>_.
          bnd (acknowledge (acknowledge_release_receipt (nd_lib N) (nd_storage N) (binding_from_proof p) p))
            (\<lambda>_. ret x)))
      | None \<Rightarrow> raise IntegrityError)"

definition settle_release ::
  "('s, 'b, 'h) compute \<Rightarrow> 'b allocator \<Rightarrow> storage_identity \<Rightarrow> assignment \<Rightarrow> host_claim \<Rightarrow>
     ('s, 'b, 'h, host_claim) nprog" where
  "settle_release N A d a x =
     bnd (on_host (discover_release_receipt (nd_lib N) (nd_storage N) d)) (\<lambda>(b, receipt).
     bnd (on_alloc (record_rootfs_release_proof A (nd_gateway N) (instance_uuid x) (host_id x)
            (materialization_id x) receipt (Some a))) (\<lambda>y.
     bnd (acknowledge (acknowledge_release_receipt (nd_lib N) (nd_storage N) b receipt)) (\<lambda>_. ret y)))"

text \<open>An attempt that Incus never registered, of a claim that never issued its create request.\<close>

definition abandon_unregistered ::
  "('s, 'b, 'h) compute \<Rightarrow> 'b allocator \<Rightarrow> assignment \<Rightarrow> host_claim \<Rightarrow> ('s, 'b, 'h, unit) nprog" where
  "abandon_unregistered N A a x =
     (if state x \<noteq> Unmaterialized then raise IntegrityError
      else bnd (on_alloc (abandon_unregistered_claim A (nd_gateway N) (instance_uuid x) (host_id x)
                  (materialization_id x) (Some a))) (\<lambda>_. ret ()))"

definition settle_attempt ::
  "('s, 'b, 'h) compute \<Rightarrow> 'b allocator \<Rightarrow> assignment \<Rightarrow> host_claim \<Rightarrow> attempt \<Rightarrow> ('s, 'b, 'h, host_claim) nprog" where
  "settle_attempt N A a x t =
     (if at_state t = AttemptCommitted then raise ConflictError
      else
        bnd (if at_state t = Active
             then on_host (abort_materialization (nd_lib N) (nd_storage N) (at_binding t)) else ret t) (\<lambda>t.
        bnd (if at_proof t = None
             then on_host (settle_materialization (nd_lib N) (nd_storage N) (at_binding t)) else ret t) (\<lambda>t.
        case at_proof t of
          None \<Rightarrow> raise IntegrityError
        | Some p \<Rightarrow>
            bnd (on_alloc (record_materialization_proof A (nd_gateway N) (instance_uuid x) (host_id x)
                   (materialization_id x) p (Some a))) (\<lambda>y.
            bnd (acknowledge (acknowledge_materialization_proof (nd_lib N) (nd_storage N) (at_binding t) p))
              (\<lambda>_. ret y)))))"

definition driver_settle_claim ::
  "('s, 'b, 'h) compute \<Rightarrow> nova_row option \<Rightarrow> host_claim \<Rightarrow> bool \<Rightarrow> ('s, 'b, 'h, host_claim option) nprog" where
  "driver_settle_claim N row c final_delete =
     (case nd_allocator N of
        None \<Rightarrow> raise IntegrityError
      | Some A \<Rightarrow>
          bnd (driver_exact_claim N A row c) (\<lambda>(a, current).
          case current of
            None \<Rightarrow> ret None
          | Some x \<Rightarrow>
              if row = None \<and> (state x \<noteq> Cleaned \<or> proof_of x = None) then raise IntegrityError
              else if final_delete \<and> state x \<notin> {Committed, Cleaned} then raise ConflictError
              else if state x = Cleaned then bnd (acknowledge_stored N x) (\<lambda>y. ret (Some y))
              else
                bnd (lift (row_name row)) (\<lambda>name.
                let d = materialization_identity (nd_project N) name x in
                if final_delete then bnd (settle_release N A d a x) (\<lambda>y. ret (Some y))
                else
                  bnd (handle is_not_found
                         (bnd (on_host (discover_materialization (nd_lib N) (nd_storage N) d)) (\<lambda>t. ret (Some t)))
                         (\<lambda>_. bnd (abandon_unregistered N A a x) (\<lambda>_. ret None))) (\<lambda>found.
                  case found of
                    None \<Rightarrow> ret None
                  | Some t \<Rightarrow> bnd (settle_attempt N A a x t) (\<lambda>y. ret (Some y))))))"

section \<open>Materializing a root\<close>

definition begin_materialization ::
  "('s, 'b, 'h) compute \<Rightarrow> nova_row \<Rightarrow> string \<Rightarrow> json \<Rightarrow> json option \<Rightarrow> json option \<Rightarrow> bool \<Rightarrow>
     ('s, 'b, 'h, idmap_materialization option) nprog" where
  "begin_materialization N row materialization root_device observed_base observed_size shared_migration =
     (case nd_allocator N of
        None \<Rightarrow> bnd (ensure_instance_idmap N row observed_base observed_size) (\<lambda>_. ret None)
      | Some A \<Rightarrow>
          bnd (lift (canonical_id (JStr materialization))) (\<lambda>token.
          bnd (on_host (nd_node_uuid N)) (\<lambda>h.
          if h = [] then raise ConfigurationError
          else
            bnd (ensure_instance_idmap N row observed_base observed_size) (\<lambda>(assignment, row).
            bnd (alloc_get N A (nr_uuid row)) (\<lambda>current.
            case (assignment, current) of
              (Some a, Some x) \<Rightarrow>
                if \<not> same_generation x a then raise IntegrityError
                else
                  bnd (on_alloc (claim A (nd_gateway N) (nr_uuid row) h token (Some x))) (\<lambda>_.
                  bnd (alloc_claim N A (nr_uuid row) h) (\<lambda>c.
                  case c of
                    None \<Rightarrow> raise ConflictError
                  | Some c \<Rightarrow>
                      if materialization_id c \<noteq> token \<or> state c \<noteq> Unmaterialized then raise ConflictError
                      else
                        bnd (on_host (root_storage_binding N row x h token root_device shared_migration)) (\<lambda>b.
                        bnd (on_host (register_materialization (nd_lib N) (nd_storage N) b)) (\<lambda>_.
                        ret (Some \<lparr>mz_assignment = x, mz_claim = c, mz_binding = b\<rparr>)))))
            | _ \<Rightarrow> raise IntegrityError)))))"

definition resume_materialization ::
  "('s, 'b, 'h) compute \<Rightarrow> nova_row \<Rightarrow> string \<Rightarrow> string \<Rightarrow> json \<Rightarrow> json option \<Rightarrow> json option \<Rightarrow>
     ('s, 'b, 'h, idmap_materialization option) nprog" where
  "resume_materialization N row token compute_id root_device observed_base observed_size =
     (case nd_allocator N of
        None \<Rightarrow> ret None
      | Some A \<Rightarrow>
          bnd (ensure_instance_idmap N row observed_base observed_size) (\<lambda>(assignment, row).
          bnd (alloc_claim N A (nr_uuid row) compute_id) (\<lambda>c.
          case (assignment, c) of
            (Some a, Some c) \<Rightarrow>
              if materialization_id c \<noteq> token \<or> state c \<noteq> Unmaterialized then raise ConflictError
              else
                bnd (on_host (root_storage_binding N row a compute_id token root_device True)) (\<lambda>b.
                bnd (on_host (get_materialization (nd_lib N) (nd_storage N) b)) (\<lambda>t.
                if at_state t \<noteq> Active \<or> at_started t \<or> at_finished t \<or> at_phase t \<noteq> PhaseNone
                then raise ConflictError
                else ret (Some \<lparr>mz_assignment = a, mz_claim = c, mz_binding = b\<rparr>)))
          | _ \<Rightarrow> raise ConflictError)))"

definition record_and_ack_proof ::
  "('s, 'b, 'h) compute \<Rightarrow> 'b allocator \<Rightarrow> idmap_materialization \<Rightarrow> materialization_proof \<Rightarrow>
     ('s, 'b, 'h, host_claim) nprog" where
  "record_and_ack_proof N A z p =
     (let b = mz_binding z in
      bnd (on_alloc (record_materialization_proof A (nd_gateway N) (s_owner b) (s_compute_id b) (s_token b) p
             (Some (mz_assignment z)))) (\<lambda>c.
      bnd (acknowledge (acknowledge_materialization_proof (nd_lib N) (nd_storage N) b p)) (\<lambda>_. ret c)))"

definition abort_idmap_materialization ::
  "('s, 'b, 'h) compute \<Rightarrow> 'b allocator \<Rightarrow> idmap_materialization \<Rightarrow> ('s, 'b, 'h, host_claim) nprog" where
  "abort_idmap_materialization N A z =
     bnd (on_host (get_materialization (nd_lib N) (nd_storage N) (mz_binding z))) (\<lambda>t.
     if at_state t = AttemptCommitted then raise ConflictError
     else
       bnd (if at_state t = Active
            then on_host (abort_materialization (nd_lib N) (nd_storage N) (mz_binding z)) else ret t) (\<lambda>t.
       bnd (if at_proof t = None
            then bnd (on_host (nd_settle_operation N (at_operation_uuid t))) (\<lambda>_.
                 on_host (settle_materialization (nd_lib N) (nd_storage N) (mz_binding z)))
            else ret t) (\<lambda>t.
       case at_proof t of
         None \<Rightarrow> raise IntegrityError
       | Some p \<Rightarrow> record_and_ack_proof N A z p)))"

text \<open>
  \<open>create\<close> issues the create request with the configuration it is given; \<open>recover\<close> is the
  caller's way to find the result of a create that failed but committed.
\<close>

definition barrier_start ::
  "('s, 'b, 'h) compute \<Rightarrow> 'b allocator \<Rightarrow> idmap_materialization \<Rightarrow> ('s, 'b, 'h, 'r) nprog \<Rightarrow>
     ('s, 'b, 'h, idmap_error + 'r) nprog" where
  "barrier_start N A z create =
     (let b = mz_binding z in
      bnd (driver_exact_claim N A None (mz_claim z)) (\<lambda>(a, c).
      case c of
        None \<Rightarrow> raise ConflictError
      | Some c \<Rightarrow>
          if state c \<noteq> Unmaterialized then raise ConflictError
          else
            bnd (on_alloc (mark_materialization_possible A (nd_gateway N) (s_owner b) (s_compute_id b)
                   (s_token b) (Some a))) (\<lambda>_.
            try_result create)))"

definition with_materialization_barrier ::
  "('s, 'b, 'h) compute \<Rightarrow> 'b allocator \<Rightarrow> idmap_materialization option \<Rightarrow> fields \<Rightarrow>
     (fields \<Rightarrow> ('s, 'b, 'h, 'r) nprog) \<Rightarrow> ('s, 'b, 'h, 'r) nprog option \<Rightarrow> ('s, 'b, 'h, 'r) nprog" where
  "with_materialization_barrier N A materialization request_config create recover =
     (case materialization of
        None \<Rightarrow> create request_config
      | Some z \<Rightarrow>
          bnd (barrier_start N A z (create (update_all (materialization_config (mz_binding z)) request_config)))
            (\<lambda>result.
          bnd (try_result (on_host (observe_materialization_start (nd_lib N) (nd_storage N) (mz_binding z))))
            (\<lambda>observed.
          case observed of
            Inl e \<Rightarrow> raise (case result of Inl original \<Rightarrow> original | Inr _ \<Rightarrow> e)
          | Inr t \<Rightarrow>
              if at_state t = AttemptCommitted \<and> at_finished t then
                bnd (promote_claim N None (mz_claim z) (Some t) False) (\<lambda>(_, c).
                if c = None \<or> state (the c) \<noteq> Committed then raise IntegrityError
                else case result of
                  Inr r \<Rightarrow> ret r
                | Inl original \<Rightarrow> (case recover of None \<Rightarrow> raise original | Some m \<Rightarrow> m))
              else
                bnd (try_result (abort_idmap_materialization N A z)) (\<lambda>_.
                raise (case result of Inl original \<Rightarrow> original | Inr _ \<Rightarrow> IntegrityError)))))"

section \<open>Release and retirement\<close>

definition rootfs_release_context ::
  "('s, 'b, 'h) compute \<Rightarrow> nova_row \<Rightarrow>
     ('s, 'b, 'h, release_intent option \<times> assignment option \<times> host_claim option) nprog" where
  "rootfs_release_context N row =
     (case nd_allocator N of
        None \<Rightarrow> ret (None, None, None)
      | Some A \<Rightarrow>
          bnd (alloc_get N A (nr_uuid row)) (\<lambda>assignment.
          bnd (lift (instance_idmap_metadata (nd_lib N) row)) (\<lambda>stored.
          bnd (on_host (nd_node_uuid N)) (\<lambda>h.
          if h = [] then raise ConfigurationError
          else case assignment of
            None \<Rightarrow>
              bnd (alloc_claim N A (nr_uuid row) h) (\<lambda>c.
              if c \<noteq> None then raise IntegrityError else ret (None, None, None))
          | Some a \<Rightarrow>
              if stored \<noteq> None \<and> \<not> generation_matches_metadata a stored then raise IntegrityError
              else
                bnd (alloc_claim N A (nr_uuid row) h) (\<lambda>c.
                case c of
                  None \<Rightarrow> ret (None, None, None)
                | Some c \<Rightarrow>
                    if \<not> same_generation c a then raise IntegrityError
                    else
                      bnd (if state c = Possible then promote_claim N (Some row) c None False
                           else ret (Some a, Some c)) (\<lambda>(a', c').
                      bnd (alloc_intent N A (nr_uuid row)) (\<lambda>intent.
                      case intent of
                        None \<Rightarrow> ret (None, a', c')
                      | Some i \<Rightarrow>
                          if instance_uuid i \<noteq> nr_uuid row \<or> instance_name i \<noteq> nr_name row \<or>
                             a' = None \<or> \<not> same_generation i (the a')
                          then raise IntegrityError else ret (Some i, a', c'))))))))"

definition claim_from_local_config ::
  "('s, 'b, 'h) compute \<Rightarrow> nova_row \<Rightarrow> json \<Rightarrow>
     ('s, 'b, 'h, assignment option \<times> host_claim option) nprog" where
  "claim_from_local_config N row config =
     (case nd_allocator N of
        None \<Rightarrow> ret (None, None)
      | Some A \<Rightarrow>
          (let c = (case config of JObj d \<Rightarrow> d | _ \<Rightarrow> []);
               malformed = (\<lambda>e. e \<in> {PyException KeyError, PyException TypeError, PyException ValueError});
               item = (\<lambda>k. case map_of c k of None \<Rightarrow> Inl (PyException KeyError) | Some v \<Rightarrow> Inr v);
               ident = (\<lambda>k. rbind (item k) canonical_id)
           in
           bnd (lift (except_r malformed IntegrityError
                  (rbind (ident ''user.openstack.uuid'') (\<lambda>owner.
                   rbind (ident allocation_config_key) (\<lambda>aid.
                   rbind (ident compute_config_key) (\<lambda>h.
                   rbind (ident materialization_config_key) (\<lambda>token.
                   rbind (rbind (item ''security.idmap.base'') py_int) (\<lambda>b.
                   rbind (rbind (item ''security.idmap.size'') py_int) (\<lambda>n.
                   Inr (owner, aid, h, token, b, n))))))))))
             (\<lambda>(owner, aid, h, token, b, n).
           if owner \<noteq> nr_uuid row \<or> b < 0 \<or> n \<le> 0 then raise IntegrityError
           else
             bnd (ensure_instance_idmap N row (Some (JInt b)) (Some (JInt n))) (\<lambda>(assignment, row).
             case assignment of
               None \<Rightarrow> raise (PyException AttributeError)
             | Some a \<Rightarrow>
                 if aid \<noteq> allocation_id a then raise IntegrityError
                 else
                   bnd (alloc_claim N A (nr_uuid row) h) (\<lambda>x.
                   case x of
                     None \<Rightarrow> raise IntegrityError
                   | Some x \<Rightarrow>
                       if materialization_id x \<noteq> token \<or> \<not> same_generation x a then raise IntegrityError
                       else ret (Some a, Some x))))))"

text \<open>
  Whether \<open>os.path.lexists\<close> holds of some path, up to the first; whether a name is absent, where
  only a not-found reply says so.
\<close>

fun any_lexists :: "('s, 'b, 'h) compute \<Rightarrow> string list \<Rightarrow> ('s, 'b, 'h, bool) nprog" where
  "any_lexists N [] = ret False"
| "any_lexists N (p # ps) = bnd (on_host (nd_lexists N p)) (\<lambda>e. if e then ret True else any_lexists N ps)"

definition name_absent :: "('s, 'b, 'h) compute \<Rightarrow> string \<Rightarrow> string \<Rightarrow> ('s, 'b, 'h, bool) nprog" where
  "name_absent N collection name =
     handle is_not_found (bnd (on_host (nd_get N collection name)) (\<lambda>_. ret False)) (\<lambda>_. ret True)"

definition volume_journal_directory :: "('s, 'b, 'h) compute \<Rightarrow> string \<Rightarrow> string" where
  "volume_journal_directory N u = path_join (path_join (nd_instances_path N) ''incus-volume-journal'') u"

definition share_journal_directory :: "('s, 'b, 'h) compute \<Rightarrow> string \<Rightarrow> string" where
  "share_journal_directory N u = path_join (path_join (nd_instances_path N) ''incus-share-journal'') u"

text \<open>The statements under the lock; every exception of them retains the claim.\<close>

definition retire_clean_locked ::
  "('s, 'b, 'h) compute \<Rightarrow> 'b allocator \<Rightarrow> nova_row \<Rightarrow> idmap_stamp \<Rightarrow> string \<Rightarrow> ('s, 'b, 'h, bool) nprog" where
  "retire_clean_locked N A row stored h =
     bnd (alloc_get N A (nr_uuid row)) (\<lambda>assignment.
     case assignment of
       None \<Rightarrow> ret True
     | Some a \<Rightarrow>
         if \<not> generation_matches_metadata a (Some stored) then raise IntegrityError
         else
           bnd (on_host (resources_absent (nd_inventory N) (nd_project N) (nr_uuid row)
                  (JInt (map_base a)) (JInt (map_size a)) None None)) (\<lambda>absent.
           if \<not> absent then ret False
           else if h \<notin> set (host_ids a) then ret True
           else
             bnd (alloc_claim N A (nr_uuid row) h) (\<lambda>c.
             case c of
               None \<Rightarrow> raise IntegrityError
             | Some c \<Rightarrow>
                 bnd (if state c = Possible then promote_claim N (Some row) c None True
                      else ret (Some a, Some c)) (\<lambda>(a', c').
                 case c' of
                   None \<Rightarrow> raise (PyException AttributeError)
                 | Some c' \<Rightarrow>
                     bnd (driver_settle_claim N (Some row) c' (state c' = Committed)) (\<lambda>settled.
                     case settled of
                       None \<Rightarrow> ret False
                     | Some s \<Rightarrow>
                         if state s \<noteq> Cleaned then ret False
                         else
                           bnd (on_alloc (retire_claim A (nd_gateway N) (nr_uuid row) h (materialization_id s) a'))
                             (\<lambda>left. ret (left = None \<or> h \<notin> set (host_ids (the left)))))))))"

definition retire_claim_if_clean :: "('s, 'b, 'h) compute \<Rightarrow> nova_row \<Rightarrow> ('s, 'b, 'h, bool) nprog" where
  "retire_claim_if_clean N row =
     (case nd_allocator N of
        None \<Rightarrow> ret False
      | Some A \<Rightarrow>
          bnd (handle (\<lambda>_. True)
                 (bnd (name_absent N ''instances'' (nr_name row)) (\<lambda>i.
                  if i then name_absent N ''profiles'' (nr_name row) else ret False))
                 (\<lambda>_. ret False)) (\<lambda>absent.
          if \<not> absent then ret False
          else
            bnd (any_lexists N
                   [path_join (nd_instances_path N) (nr_name row), volume_journal_directory N (nr_uuid row),
                    share_journal_directory N (nr_uuid row), spawn_attempt_path N (nr_uuid row)]) (\<lambda>left.
            if left then ret False
            else
              bnd (lift (instance_idmap_metadata (nd_lib N) row)) (\<lambda>stored.
              case stored of
                None \<Rightarrow> ret False
              | Some stamp \<Rightarrow>
                  bnd (on_host (nd_node_uuid N)) (\<lambda>h.
                  if h = [] then ret False
                  else
                    bnd (try_result (alloc_intent N A (nr_uuid row))) (\<lambda>intent.
                    case intent of
                      Inl _ \<Rightarrow> ret False
                    | Inr (Some i) \<Rightarrow> ret False
                    | Inr None \<Rightarrow>
                        handle (\<lambda>_. True) (retire_clean_locked N A row stamp h) (\<lambda>_. ret False)))))))"

end
