(* ===== verification/Spawn_Attempts.thy ===== *)
theory Spawn_Attempts
  imports Idmap_Driver
begin

text \<open>
  The journal of a spawn on the compute host (nova/virt/incus/driver.py): a preflight record
  before any side effect, an opening record before the allocator is touched, and its removal
  when the claim is durable, when it is found left over, or when a destroy finds that nothing was done.
\<close>

text \<open>Every host that an assignment lists has a cleaned claim of the generation with its proof.\<close>

fun cleared_claims ::
  "('s, 'b, 'h) compute \<Rightarrow> 'b allocator \<Rightarrow> string \<Rightarrow> assignment \<Rightarrow> string list \<Rightarrow> ('s, 'b, 'h, unit) nprog" where
  "cleared_claims N A u a [] = ret ()"
| "cleared_claims N A u a (h # hs) =
     bnd (alloc_claim N A u h) (\<lambda>c.
     case c of
       None \<Rightarrow> raise ConflictError
     | Some c \<Rightarrow>
         if host_id c \<noteq> h \<or> \<not> same_generation c a \<or> state c \<noteq> Cleaned \<or> proof_of c = None
         then raise ConflictError else cleared_claims N A u a hs)"

definition create_spawn_preflight ::
  "('s, 'b, 'h) compute \<Rightarrow> nova_row \<Rightarrow> string \<Rightarrow> ('s, 'b, 'h, fields option) nprog" where
  "create_spawn_preflight N row attempt =
     (case nd_allocator N of
        None \<Rightarrow> ret None
      | Some A \<Rightarrow>
          bnd (on_host (nd_node_uuid N)) (\<lambda>h.
          if h = [] then raise ConfigurationError
          else
            bnd (alloc_intent N A (nr_uuid row)) (\<lambda>intent.
            if intent \<noteq> None then raise ConflictError
            else
              bnd (alloc_get N A (nr_uuid row)) (\<lambda>assignment.
              bnd (lift (instance_idmap_metadata (nd_lib N) row)) (\<lambda>stored.
              bnd (case assignment of
                     None \<Rightarrow> if stored \<noteq> None then raise IntegrityError else ret ()
                   | Some a \<Rightarrow>
                       if instance_uuid a \<noteq> nr_uuid row \<or> \<not> generation_matches_metadata a stored
                       then raise IntegrityError
                       else cleared_claims N A (nr_uuid row) a (host_ids a)) (\<lambda>_.
              bnd (on_host (write_spawn_attempt N row (JStr h) (JStr attempt) ''preflight'' None
                     (map_option generation_fields assignment))) (\<lambda>p. ret (Some p))))))))"

definition open_spawn_attempt ::
  "('s, 'b, 'h) compute \<Rightarrow> nova_row \<Rightarrow> fields option \<Rightarrow> ('s, 'b, 'h, fields option) nprog" where
  "open_spawn_attempt N row attempt =
     (case attempt of
        None \<Rightarrow> ret None
      | Some p \<Rightarrow>
          bnd (on_host (write_spawn_attempt N row (jget p ''compute_uuid'') (jget p ''attempt_uuid'')
                 ''opening'' (Some ''preflight'') (attempt_own_generation p))) (\<lambda>q. ret (Some q)))"

definition text_field :: "fields \<Rightarrow> string \<Rightarrow> string" where
  "text_field p k = (case jget p k of JStr s \<Rightarrow> s | _ \<Rightarrow> [])"

text \<open>An attempt that was read or written has string identities, so reading them is total.\<close>

definition finish_spawn_attempt ::
  "('s, 'b, 'h) compute \<Rightarrow> 'b allocator \<Rightarrow> nova_row \<Rightarrow> fields option \<Rightarrow> ('s, 'b, 'h, unit) nprog" where
  "finish_spawn_attempt N A row attempt =
     (case attempt of
        None \<Rightarrow> ret ()
      | Some p \<Rightarrow>
          bnd (alloc_get N A (nr_uuid row)) (\<lambda>current.
          bnd (alloc_claim N A (nr_uuid row) (text_field p ''compute_uuid'')) (\<lambda>c.
          case (current, c) of
            (Some a, Some c) \<Rightarrow>
              if materialization_id c \<noteq> text_field p ''attempt_uuid'' \<or> \<not> same_generation a c
              then raise IntegrityError
              else if attempt_has_generation p \<and> \<not> attempt_generation_matches p a
              then raise IntegrityError
              else bnd (on_host (remove_spawn_attempt N row p)) (\<lambda>_. ret ())
          | _ \<Rightarrow> raise IntegrityError)))"

definition remove_attempt_for_claim ::
  "('s, 'b, 'h) compute \<Rightarrow> 'b allocator \<Rightarrow> nova_row \<Rightarrow> host_claim \<Rightarrow> ('s, 'b, 'h, unit) nprog" where
  "remove_attempt_for_claim N A row c =
     bnd (on_host (read_spawn_attempt N row)) (\<lambda>attempt.
     case attempt of
       None \<Rightarrow> ret ()
     | Some p \<Rightarrow>
         bnd (lift (spawn_attempt_payload row (JStr (host_id c)) (JStr (materialization_id c))
                (JStr ''opening'') (attempt_own_generation p))) (\<lambda>expected.
         if \<not> same_fields p expected then raise IntegrityError
         else if attempt_has_generation p \<and> \<not> attempt_generation_matches p c then raise IntegrityError
         else
           bnd (alloc_claim N A (nr_uuid row) (host_id c)) (\<lambda>current.
           case current of
             None \<Rightarrow> raise IntegrityError
           | Some x \<Rightarrow>
               if materialization_id x \<noteq> materialization_id c \<or> \<not> same_generation x c
               then raise IntegrityError
               else bnd (on_host (remove_spawn_attempt N row expected)) (\<lambda>_. ret ()))))"

text \<open>
  The opening phase of a destroy: \<open>Some\<close> of the result, whether the attempt was consumed as
  an empty destroy.
\<close>

definition consume_opening ::
  "('s, 'b, 'h) compute \<Rightarrow> 'b allocator \<Rightarrow> nova_row \<Rightarrow> fields \<Rightarrow> string \<Rightarrow> assignment option \<Rightarrow>
     ('s, 'b, 'h, bool) nprog" where
  "consume_opening N A row p h assignment =
     bnd (alloc_claim N A (nr_uuid row) h) (\<lambda>c.
     if assignment = None \<and> c = None \<and> \<not> attempt_has_generation p then
       bnd (on_host (remove_spawn_attempt N row p)) (\<lambda>_. ret True)
     else case (assignment, c) of
       (Some a, Some c) \<Rightarrow>
         if materialization_id c = text_field p ''attempt_uuid'' \<and> same_generation a c \<and>
            (\<not> attempt_has_generation p \<or> attempt_generation_matches p a)
         then ret False else raise ConflictError
     | _ \<Rightarrow> raise ConflictError)"

definition check_preflight_generation ::
  "('s, 'b, 'h) compute \<Rightarrow> 'b allocator \<Rightarrow> nova_row \<Rightarrow> fields \<Rightarrow> string \<Rightarrow> assignment option \<Rightarrow>
     ('s, 'b, 'h, unit) nprog" where
  "check_preflight_generation N A row p h assignment =
     bnd (alloc_intent N A (nr_uuid row)) (\<lambda>intent.
     bnd (lift (check (case intent of
            None \<Rightarrow> True
          | Some i \<Rightarrow> assignment \<noteq> None \<and> instance_name i = nr_name row \<and>
              same_generation i (the assignment)) IntegrityError)) (\<lambda>_.
     bnd (lift (instance_idmap_metadata (nd_lib N) row)) (\<lambda>stored.
     if attempt_has_generation p then
       (case assignment of
          None \<Rightarrow> raise IntegrityError
        | Some a \<Rightarrow>
            if \<not> attempt_generation_matches p a \<or> \<not> generation_matches_metadata a stored
            then raise IntegrityError
            else
              bnd (alloc_claim N A (nr_uuid row) h) (\<lambda>local.
              if local \<noteq> None \<or> h \<in> set (host_ids a) then raise ConflictError
              else cleared_claims N A (nr_uuid row) a (host_ids a)))
     else if assignment \<noteq> None then raise IntegrityError
     else if stored \<noteq> None then raise IntegrityError
     else ret ())))"

definition consume_preflight_noop :: "('s, 'b, 'h) compute \<Rightarrow> nova_row \<Rightarrow> ('s, 'b, 'h, bool) nprog" where
  "consume_preflight_noop N row =
     (case nd_allocator N of
        None \<Rightarrow> ret False
      | Some A \<Rightarrow>
          bnd (on_host (read_spawn_attempt N row)) (\<lambda>attempt.
          case attempt of
            None \<Rightarrow> ret False
          | Some p \<Rightarrow>
              bnd (on_host (nd_node_uuid N)) (\<lambda>h.
              if h = [] \<or> jget p ''compute_uuid'' \<noteq> JStr h then raise IntegrityError
              else
                bnd (on_host (read_spawn_attempt N row)) (\<lambda>current.
                bnd (lift (check (current \<noteq> None \<and> same_fields (the current) p) IntegrityError)) (\<lambda>_.
                bnd (alloc_get N A (nr_uuid row)) (\<lambda>assignment.
                if jget p ''phase'' = JStr ''opening'' then consume_opening N A row p h assignment
                else
                  bnd (check_preflight_generation N A row p h assignment) (\<lambda>_.
                  bnd (on_host (nd_attachment_journals N row)) (\<lambda>journals.
                  bnd (lift (check (\<not> journals) IntegrityError)) (\<lambda>_.
                  bnd (any_lexists N
                         [path_join (nd_instances_path N) (nr_name row),
                          volume_journal_directory N (nr_uuid row),
                          share_journal_directory N (nr_uuid row)]) (\<lambda>left.
                  bnd (lift (check (\<not> left) IntegrityError)) (\<lambda>_.
                  bnd (on_host (spawn_attempt_resources_absent (nd_inventory N) (nd_project N) p None)) (\<lambda>absent.
                  bnd (lift (check absent IntegrityError)) (\<lambda>_.
                  bnd (on_host (read_spawn_attempt N row)) (\<lambda>latest.
                  bnd (lift (check (latest \<noteq> None \<and> same_fields (the latest) p) IntegrityError)) (\<lambda>_.
                  bnd (on_host (remove_spawn_attempt N row p)) (\<lambda>_. ret True))))))))))))))))"

end
