(* ===== verification/Idmap_Lifecycle.thy ===== *)
theory Idmap_Lifecycle
  imports Spawn_Attempts
begin

text \<open>
  The compute manager's part of the ID-map lifecycle (nova/virt/incus/manager.py): settling a
  claim, proving that a host has nothing left of an instance, reconciling historical claims,
  queueing, adopting, replaying and completing releases, and the periodic tasks that do so in
  bounded rotating batches. Logging and the locks around an instance are not modelled; every
  \<open>except Exception\<close> is a handler for all errors.
\<close>

section \<open>Exact claims and their settlement\<close>

definition local_node_uuid :: "('s, 'b, 'h) compute \<Rightarrow> ('s, 'b, 'h, string) nprog" where
  "local_node_uuid N = bnd (on_host (nd_node_uuid N)) (\<lambda>h. if h = [] then raise IntegrityError else ret h)"

definition claim_identity_matches :: "host_claim \<Rightarrow> host_claim \<Rightarrow> bool" where
  "claim_identity_matches l r \<longleftrightarrow>
     host_id l = host_id r \<and> materialization_id l = materialization_id r \<and> same_generation l r"

definition exact_host_claim ::
  "('s, 'b, 'h) compute \<Rightarrow> 'b allocator \<Rightarrow> assignment \<Rightarrow> string \<Rightarrow> host_claim option \<Rightarrow>
     ('s, 'b, 'h, host_claim option) nprog" where
  "exact_host_claim N A a h expected =
     bnd (alloc_claim N A (instance_uuid a) h) (\<lambda>c.
     if h \<notin> set (host_ids a) then (if c \<noteq> None then raise IntegrityError else ret None)
     else case c of
       None \<Rightarrow> raise IntegrityError
     | Some x \<Rightarrow>
         if host_id x \<noteq> h \<or> \<not> same_generation x a then raise IntegrityError
         else if expected \<noteq> None \<and> \<not> claim_identity_matches x (the expected) then raise ConflictError
         else ret (Some x))"

definition settle_host_claim ::
  "('s, 'b, 'h) compute \<Rightarrow> 'b allocator \<Rightarrow> nova_row option \<Rightarrow> host_claim \<Rightarrow> bool \<Rightarrow>
     ('s, 'b, 'h, host_claim option) nprog" where
  "settle_host_claim N A row c final_delete =
     (if final_delete \<and> state c \<notin> {Committed, Cleaned} then raise ConflictError
      else
        bnd (driver_settle_claim N row c final_delete) (\<lambda>settled.
        case settled of
          None \<Rightarrow>
            if state c = Unmaterialized then
              bnd (alloc_claim N A (instance_uuid c) (host_id c)) (\<lambda>remaining.
              bnd (alloc_get N A (instance_uuid c)) (\<lambda>current.
              if remaining = None \<and> (current = None \<or> host_id c \<notin> set (host_ids (the current)))
              then ret None else raise IntegrityError))
            else raise ConflictError
        | Some s \<Rightarrow>
            if \<not> claim_identity_matches s c then raise IntegrityError
            else if state s \<noteq> Cleaned \<or> proof_of s = None then raise IntegrityError
            else ret (Some s)))"

definition release_assignment ::
  "('s, 'b, 'h) compute \<Rightarrow> nova_row \<Rightarrow> ('s, 'b, 'h, assignment option) nprog" where
  "release_assignment N row =
     bnd (lift (instance_idmap_metadata (nd_lib N) row)) (\<lambda>stored.
     case nd_allocator N of
       None \<Rightarrow> if stored \<noteq> None then raise IntegrityError else ret None
     | Some A \<Rightarrow>
         bnd (alloc_get N A (nr_uuid row)) (\<lambda>assignment.
         case assignment of
           None \<Rightarrow> if stored \<noteq> None then raise IntegrityError else ret None
         | Some a \<Rightarrow>
             if instance_uuid a \<noteq> nr_uuid row then raise IntegrityError
             else if stored \<noteq> None \<and> \<not> generation_matches_metadata a stored then raise IntegrityError
             else ret (Some a)))"

section \<open>Proving that nothing is left on this host\<close>

definition inventory_or_none :: "('s, 'b, 'h) compute \<Rightarrow> ('s, 'b, 'h, inventory option) nprog" where
  "inventory_or_none N =
     handle (\<lambda>_. True) (bnd (on_host (all_project_inventory (nd_inventory N))) (\<lambda>i. ret (Some i))) (\<lambda>_. ret None)"

definition screening_inventory :: "('s, 'b, 'h) compute \<Rightarrow> ('s, 'b, 'h, inventory option) nprog" where
  "screening_inventory N =
     bnd (try_result (on_host (iv_has_extension (nd_inventory N) ''idmap_usage''))) (\<lambda>r.
     if r = Inr True then ret None else inventory_or_none N)"

definition host_journal_paths :: "('s, 'b, 'h) compute \<Rightarrow> string \<Rightarrow> string list" where
  "host_journal_paths N u =
     [volume_journal_directory N u, share_journal_directory N u, spawn_attempt_path N u]"

definition local_named_absent :: "('s, 'b, 'h) compute \<Rightarrow> string \<Rightarrow> string \<Rightarrow> ('s, 'b, 'h, bool) nprog" where
  "local_named_absent N u name =
     bnd (name_absent N ''instances'' name) (\<lambda>i.
     if \<not> i then ret False
     else
       bnd (name_absent N ''profiles'' name) (\<lambda>p.
       if \<not> p then ret False
       else
         bnd (any_lexists N (path_join (nd_instances_path N) name # host_journal_paths N u)) (\<lambda>left.
         ret (\<not> left))))"

definition all_project_absent ::
  "('s, 'b, 'h) compute \<Rightarrow> string \<Rightarrow> int \<Rightarrow> int \<Rightarrow> inventory option \<Rightarrow> ('s, 'b, 'h, bool) nprog" where
  "all_project_absent N u b n snapshot =
     on_host (resources_absent (nd_inventory N) (nd_project N) u (JInt b) (JInt n) None snapshot)"

definition screen_resources_absent ::
  "('s, 'b, 'h) compute \<Rightarrow> release_intent \<Rightarrow> inventory option \<Rightarrow> ('s, 'b, 'h, bool) nprog" where
  "screen_resources_absent N i snapshot =
     bnd (local_named_absent N (instance_uuid i) (instance_name i)) (\<lambda>absent.
     if \<not> absent then ret False
     else if snapshot = None then ret True
     else all_project_absent N (instance_uuid i) (map_base i) (map_size i) snapshot)"

definition local_absent_by_name ::
  "('s, 'b, 'h) compute \<Rightarrow> string \<Rightarrow> string \<Rightarrow> int \<Rightarrow> int \<Rightarrow> inventory option \<Rightarrow> ('s, 'b, 'h, bool) nprog" where
  "local_absent_by_name N u name b n snapshot =
     bnd (local_named_absent N u name) (\<lambda>absent.
     if \<not> absent then ret False
     else handle (\<lambda>_. True) (all_project_absent N u b n snapshot) (\<lambda>_. ret False))"

definition local_resources_absent ::
  "('s, 'b, 'h) compute \<Rightarrow> release_intent \<Rightarrow> inventory option \<Rightarrow> ('s, 'b, 'h, bool) nprog" where
  "local_resources_absent N i snapshot =
     local_absent_by_name N (instance_uuid i) (instance_name i) (map_base i) (map_size i) snapshot"

section \<open>Failed builds\<close>

definition claim_proof_name :: "host_claim \<Rightarrow> string option result" where
  "claim_proof_name c =
     (if state c \<noteq> Cleaned then Inr None
      else case proof_of c of
        None \<Rightarrow> Inl IntegrityError
      | Some p \<Rightarrow> if p_instance_name (proof_common p) = [] then Inl IntegrityError
                  else Inr (Some (p_instance_name (proof_common p))))"

definition claim_instance_name :: "host_claim \<Rightarrow> string result" where
  "claim_instance_name c =
     rbind (claim_proof_name c) (\<lambda>n. case n of None \<Rightarrow> Inl IntegrityError | Some n \<Rightarrow> Inr n)"

definition resolve_possible_claim ::
  "('s, 'b, 'h) compute \<Rightarrow> nova_row option \<Rightarrow> host_claim \<Rightarrow> ('s, 'b, 'h, host_claim) nprog" where
  "resolve_possible_claim N row c =
     (if state c \<noteq> Possible \<or> row = None then ret c
      else
        bnd (promote_claim N row c None False) (\<lambda>(_, promoted).
        case promoted of None \<Rightarrow> raise ConflictError | Some x \<Rightarrow> ret x))"

datatype terminal = Purged | RowDeleted | Failed

definition terminal_release_state ::
  "('s, 'b, 'h) compute \<Rightarrow> assignment \<Rightarrow> string \<Rightarrow> ('s, 'b, 'h, terminal option \<times> nova_row option) nprog" where
  "terminal_release_state N a expected_name =
     bnd (on_host (nd_row N (instance_uuid a))) (\<lambda>row.
     case row of
       None \<Rightarrow> ret (Some Purged, None)
     | Some r \<Rightarrow>
         if nr_name r \<noteq> expected_name then raise IntegrityError
         else if nr_deleted r then ret (Some RowDeleted, Some r)
         else if nr_host r = None \<and> nr_task_state r = None \<and> nr_vm_state r = ''error''
         then ret (Some Failed, Some r)
         else ret (None, Some r))"

text \<open>
  The proof phase of \<open>_queue_terminal_failed_build_release\<close>: the name and the settled claim,
  or \<open>None\<close> where the code returns False.
\<close>

definition failed_build_name :: "host_claim \<Rightarrow> nova_row option \<Rightarrow> string result" where
  "failed_build_name c row =
     (case row of
        None \<Rightarrow> claim_instance_name c
      | Some r \<Rightarrow>
          rbind (claim_proof_name c) (\<lambda>n.
          if n \<noteq> None \<and> n \<noteq> Some (nr_name r) then Inl IntegrityError else Inr (nr_name r)))"

definition prove_failed_build ::
  "('s, 'b, 'h) compute \<Rightarrow> 'b allocator \<Rightarrow> assignment \<Rightarrow> host_claim \<Rightarrow> nova_row option \<Rightarrow> inventory option \<Rightarrow>
     ('s, 'b, 'h, (string \<times> host_claim option) option) nprog" where
  "prove_failed_build N A a c row snapshot =
     bnd (lift (failed_build_name c row)) (\<lambda>name.
     bnd (terminal_release_state N a name) (\<lambda>(st, current).
     if st = None then ret None
     else
       bnd (case current of
              None \<Rightarrow> ret ()
            | Some r \<Rightarrow>
                bnd (lift (instance_idmap_metadata (nd_lib N) r)) (\<lambda>stored.
                if \<not> generation_matches_metadata a stored then raise IntegrityError
                else remove_attempt_for_claim N A r c)) (\<lambda>_.
       bnd (local_absent_by_name N (instance_uuid a) name (map_base a) (map_size a) snapshot) (\<lambda>absent.
       if \<not> absent then ret None
       else
         bnd (resolve_possible_claim N current c) (\<lambda>c.
         bnd (settle_host_claim N A current c (state c \<notin> {Possible, Unmaterialized})) (\<lambda>settled.
         ret (Some (name, settled))))))))"

definition fence_failed_build ::
  "('s, 'b, 'h) compute \<Rightarrow> 'b allocator \<Rightarrow> assignment \<Rightarrow> string \<Rightarrow> string \<Rightarrow> host_claim option \<Rightarrow>
     ('s, 'b, 'h, bool) nprog" where
  "fence_failed_build N A a h name settled =
     bnd (alloc_get N A (instance_uuid a)) (\<lambda>latest.
     case latest of
       None \<Rightarrow> raise IntegrityError
     | Some x \<Rightarrow>
         if \<not> same_generation x a then raise IntegrityError
         else
           bnd (exact_host_claim N A x h settled) (\<lambda>c.
           if c \<noteq> settled then raise IntegrityError
           else
             bnd (terminal_release_state N x name) (\<lambda>(st, _).
             if st = None then ret False
             else
               bnd (local_absent_by_name N (instance_uuid x) name (map_base x) (map_size x) None) (\<lambda>absent.
               if \<not> absent then ret False
               else
                 bnd (on_alloc (request_release A (nd_gateway N) (instance_uuid x) name (Some x))) (\<lambda>i.
                 if instance_name i \<noteq> name \<or> \<not> same_generation i x then raise IntegrityError
                 else ret True)))))"

definition queue_failed_build_release ::
  "('s, 'b, 'h) compute \<Rightarrow> 'b allocator \<Rightarrow> assignment \<Rightarrow> host_claim \<Rightarrow> string \<Rightarrow> nova_row option \<Rightarrow>
     inventory option \<Rightarrow> ('s, 'b, 'h, bool) nprog" where
  "queue_failed_build_release N A a c h row snapshot =
     bnd (handle (\<lambda>_. True) (prove_failed_build N A a c row snapshot) (\<lambda>_. ret None)) (\<lambda>proved.
     case proved of
       None \<Rightarrow> ret False
     | Some (name, settled) \<Rightarrow>
         handle (\<lambda>_. True) (fence_failed_build N A a h name settled) (\<lambda>_. ret False))"

section \<open>Reconciling a historical claim\<close>

definition establish_claim ::
  "('s, 'b, 'h) compute \<Rightarrow> 'b allocator \<Rightarrow> host_claim \<Rightarrow> string \<Rightarrow>
     ('s, 'b, 'h, (assignment \<times> host_claim) option) nprog" where
  "establish_claim N A c h =
     bnd (alloc_get N A (instance_uuid c)) (\<lambda>assignment.
     case assignment of
       None \<Rightarrow> ret None
     | Some a \<Rightarrow> bnd (exact_host_claim N A a h (Some c)) (\<lambda>x. ret (map_option (Pair a) x)))"

definition terminal_failure :: "nova_row \<Rightarrow> bool" where
  "terminal_failure r \<longleftrightarrow> nr_host r = None \<and> nr_task_state r = None \<and> nr_vm_state r = ''error''"

text \<open>
  The cleanup proof of one claim, revalidated against the registry: \<open>None\<close> once the claim was
  abandoned whole.
\<close>

definition prove_claim_clean ::
  "('s, 'b, 'h) compute \<Rightarrow> 'b allocator \<Rightarrow> host_claim \<Rightarrow> string \<Rightarrow> nova_row \<Rightarrow> host_claim \<Rightarrow>
     ('s, 'b, 'h, host_claim option) nprog" where
  "prove_claim_clean N A c h row x =
     bnd (if state x = Possible then bnd (promote_claim N (Some row) x None False) (\<lambda>(_, y). ret y)
          else ret (Some x)) (\<lambda>y.
     case y of
       None \<Rightarrow> raise (PyException AttributeError)
     | Some x \<Rightarrow>
         bnd (settle_host_claim N A (Some row) x (state x = Committed)) (\<lambda>settled.
         if settled = None then ret None
         else
           bnd (alloc_get N A (instance_uuid c)) (\<lambda>assignment.
           case assignment of
             None \<Rightarrow> raise IntegrityError
           | Some a \<Rightarrow>
               if \<not> same_generation a x then raise IntegrityError
               else
                 bnd (exact_host_claim N A a h settled) (\<lambda>z.
                 if z = None \<or> z \<noteq> settled \<or> state (the z) \<noteq> Cleaned \<or> proof_of (the z) = None
                 then raise IntegrityError else ret z))))"

text \<open>A row that still blocks the retirement of a claim that was settled for \<open>row\<close>.\<close>

definition row_blocks :: "('s, 'b, 'h) compute \<Rightarrow> nova_row \<Rightarrow> nova_row \<Rightarrow> bool" where
  "row_blocks N row current \<longleftrightarrow>
     nr_task_state current \<noteq> None \<or> nr_host current = Some (nd_host N) \<or>
     nr_name current \<noteq> nr_name row \<or> nr_deleted current"

text \<open>The row as Nova has it now, where it still permits the retirement of the claim.\<close>

definition permitting_row ::
  "('s, 'b, 'h) compute \<Rightarrow> nova_row \<Rightarrow> host_claim \<Rightarrow> ('s, 'b, 'h, nova_row option) nprog" where
  "permitting_row N row c =
     bnd (on_host (nd_row N (instance_uuid c))) (\<lambda>current.
     case current of
       None \<Rightarrow> raise (PyException ServiceError)
     | Some r \<Rightarrow>
         if row_blocks N row r then ret None
         else
           bnd (lift (instance_idmap_metadata (nd_lib N) r)) (\<lambda>stored.
           ret (if generation_matches_metadata c stored then Some r else None)))"

definition retire_proved_claim ::
  "('s, 'b, 'h) compute \<Rightarrow> 'b allocator \<Rightarrow> host_claim \<Rightarrow> string \<Rightarrow> nova_row \<Rightarrow> host_claim \<Rightarrow>
     ('s, 'b, 'h, unit) nprog" where
  "retire_proved_claim N A c h row settled =
     bnd (alloc_get N A (instance_uuid c)) (\<lambda>assignment.
     case assignment of
       None \<Rightarrow> ret ()
     | Some a \<Rightarrow>
         bnd (exact_host_claim N A a h (Some settled)) (\<lambda>x.
         if x \<noteq> Some settled \<or> state settled \<noteq> Cleaned \<or> proof_of settled = None then ret ()
         else
           bnd (permitting_row N row settled) (\<lambda>latest.
           if latest = None then ret ()
           else
             bnd (on_alloc (retire_claim A (nd_gateway N) (instance_uuid settled) h
                    (materialization_id settled) (Some a))) (\<lambda>_. ret ()))))"

text \<open>An instance that lives elsewhere: prove, revalidate, retire.\<close>

definition reconcile_departed ::
  "('s, 'b, 'h) compute \<Rightarrow> 'b allocator \<Rightarrow> host_claim \<Rightarrow> string \<Rightarrow> nova_row \<Rightarrow> host_claim \<Rightarrow>
     inventory option \<Rightarrow> ('s, 'b, 'h, unit) nprog" where
  "reconcile_departed N A c h row x snapshot =
     bnd (local_absent_by_name N (nr_uuid row) (nr_name row) (map_base c) (map_size c) snapshot) (\<lambda>absent.
     if \<not> absent then ret ()
     else
       bnd (handle (\<lambda>_. True) (prove_claim_clean N A c h row x) (\<lambda>_. ret None)) (\<lambda>proved.
       case proved of
         None \<Rightarrow> ret ()
       | Some settled \<Rightarrow>
           bnd (handle (\<lambda>_. True) (permitting_row N row settled) (\<lambda>_. ret None)) (\<lambda>current.
           case current of
             None \<Rightarrow> ret ()
           | Some r \<Rightarrow>
               bnd (local_absent_by_name N (nr_uuid r) (nr_name r) (map_base settled) (map_size settled) None) (\<lambda>absent.
               if \<not> absent then ret ()
               else handle (\<lambda>_. True) (retire_proved_claim N A c h row settled) (\<lambda>_. ret ())))))"

definition reconcile_host_claim ::
  "('s, 'b, 'h) compute \<Rightarrow> 'b allocator \<Rightarrow> host_claim \<Rightarrow> string \<Rightarrow> inventory option \<Rightarrow>
     ('s, 'b, 'h, unit) nprog" where
  "reconcile_host_claim N A c h snapshot =
     bnd (handle (\<lambda>_. True) (establish_claim N A c h) (\<lambda>_. ret None)) (\<lambda>established.
     case established of
       None \<Rightarrow> ret ()
     | Some (a, x) \<Rightarrow>
         bnd (try_result (on_host (nd_row N (instance_uuid c)))) (\<lambda>row.
         case row of
           Inl _ \<Rightarrow> ret ()
         | Inr None \<Rightarrow> bnd (queue_failed_build_release N A a x h None snapshot) (\<lambda>_. ret ())
         | Inr (Some r) \<Rightarrow>
             if nr_deleted r \<or> terminal_failure r then
               bnd (queue_failed_build_release N A a x h (Some r) snapshot) (\<lambda>_. ret ())
             else if nr_task_state r \<noteq> None \<or> nr_host r = Some (nd_host N) then ret ()
             else if nr_host r = None then ret ()
             else case instance_idmap_metadata (nd_lib N) r of
               Inl _ \<Rightarrow> ret ()
             | Inr stored \<Rightarrow>
                 if \<not> generation_matches_metadata c stored then ret ()
                 else reconcile_departed N A c h r x snapshot))"

section \<open>Batches\<close>

definition replay_batch :: nat where
  "replay_batch = 100"

text \<open>The next bounded batch of the candidates in turn, and the cursor after it.\<close>

definition rotate :: "nat \<Rightarrow> 'a list \<Rightarrow> 'a list \<times> nat" where
  "rotate cursor candidates =
     (let start = cursor mod length candidates;
          batch = take replay_batch (drop start candidates @ take start candidates)
      in (batch, (start + length batch) mod length candidates))"

text \<open>
  The periodic reconciliation: the cursor in, the cursor out. Live owners are screened away by
  one bulk read of Nova's rows, or not at all where it fails. An exception that ends a batch,
  after the cursor has moved, goes to the runner of the periodic tasks.
\<close>

definition screened_claims :: "host_claim list \<Rightarrow> nova_row list option \<Rightarrow> host_claim list" where
  "screened_claims claims rows =
     (case rows of
        None \<Rightarrow> claims
      | Some rs \<Rightarrow>
          filter (\<lambda>c. instance_uuid c \<notin> nr_uuid ` set (filter (\<lambda>r. \<not> nr_deleted r) rs)) claims)"

definition reconcile_host_claims :: "('s, 'b, 'h) compute \<Rightarrow> nat \<Rightarrow> ('s, 'b, 'h, nat) nprog" where
  "reconcile_host_claims N cursor =
     (case nd_allocator N of
        None \<Rightarrow> ret cursor
      | Some A \<Rightarrow>
          bnd (try_result (bnd (local_node_uuid N) (\<lambda>h.
                 bnd (on_alloc (list_host_claims A (nd_gateway N) h)) (\<lambda>claims. ret (h, claims))))) (\<lambda>listed.
          case listed of
            Inl _ \<Rightarrow> ret cursor
          | Inr (h, claims) \<Rightarrow>
              if claims = [] then ret 0
              else
                bnd (try_result (on_host (nd_rows_of_host N (nd_host N)))) (\<lambda>rows.
                let candidates = screened_claims claims (case rows of Inl _ \<Rightarrow> None | Inr rs \<Rightarrow> Some rs) in
                if candidates = [] then ret 0
                else
                  (let (batch, cursor') = rotate cursor candidates in
                   bnd (screening_inventory N) (\<lambda>snapshot.
                   bnd (try_result (for_all (\<lambda>c. reconcile_host_claim N A c h snapshot) batch))
                     (\<lambda>_. ret cursor'))))))"

section \<open>Replaying a release\<close>

definition nova_retirement_state ::
  "('s, 'b, 'h) compute \<Rightarrow> release_intent \<Rightarrow> ('s, 'b, 'h, bool \<times> nova_row option) nprog" where
  "nova_retirement_state N i =
     bnd (try_result (on_host (nd_row N (instance_uuid i)))) (\<lambda>row.
     case row of
       Inl _ \<Rightarrow> ret (False, None)
     | Inr None \<Rightarrow> ret (True, None)
     | Inr (Some r) \<Rightarrow>
         if \<not> nr_deleted r then ret (False, Some r)
         else if nr_name r \<noteq> instance_name i then ret (False, Some r)
         else case instance_idmap_metadata (nd_lib N) r of
           Inl _ \<Rightarrow> ret (False, Some r)
         | Inr stored \<Rightarrow> ret (stored = None \<or> generation_matches_metadata i stored, Some r))"

text \<open>An exact claim that is missing is an AttributeError of the comparison.\<close>

definition retire_local_claim ::
  "('s, 'b, 'h) compute \<Rightarrow> 'b allocator \<Rightarrow> assignment \<Rightarrow> host_claim option \<Rightarrow> string \<Rightarrow>
     ('s, 'b, 'h, assignment option) nprog" where
  "retire_local_claim N A a c h =
     (case c of
        None \<Rightarrow> raise (PyException AttributeError)
      | Some x \<Rightarrow>
          if \<not> same_generation x a \<or> host_id x \<noteq> h \<or> state x \<noteq> Cleaned \<or> proof_of x = None
          then raise IntegrityError
          else on_alloc (retire_claim A (nd_gateway N) (instance_uuid x) h (materialization_id x) (Some a)))"

definition complete_release ::
  "('s, 'b, 'h) compute \<Rightarrow> 'b allocator \<Rightarrow> release_intent \<Rightarrow> assignment option \<Rightarrow> ('s, 'b, 'h, bool) nprog" where
  "complete_release N A i assignment =
     (if assignment \<noteq> None \<and> \<not> same_generation i (the assignment) then raise IntegrityError
      else if assignment \<noteq> None \<and> host_ids (the assignment) \<noteq> [] then ret False
      else
        bnd (on_alloc (release A (nd_gateway N) i)) (\<lambda>released.
        if released then ret True
        else
          bnd (alloc_get N A (instance_uuid i)) (\<lambda>current.
          if current \<noteq> None \<and> \<not> same_generation i (the current) then raise IntegrityError
          else ret False)))"

text \<open>
  The claimed branch: settle this host's claim, prove the host empty again, retire the claim.
  \<open>None\<close> is the early return, \<open>Some\<close> the assignment that is left.
\<close>

definition retire_settled ::
  "('s, 'b, 'h) compute \<Rightarrow> 'b allocator \<Rightarrow> release_intent \<Rightarrow> string \<Rightarrow> host_claim option \<Rightarrow>
     ('s, 'b, 'h, assignment option option) nprog" where
  "retire_settled N A i h settled =
     bnd (alloc_get N A (instance_uuid i)) (\<lambda>current.
     case current of
       None \<Rightarrow> raise IntegrityError
     | Some y \<Rightarrow>
         if \<not> same_generation i y then raise IntegrityError
         else
           bnd (exact_host_claim N A y h settled) (\<lambda>z.
           if z \<noteq> settled then raise IntegrityError
           else
             bnd (local_resources_absent N i None) (\<lambda>absent.
             if \<not> absent then ret None
             else bnd (retire_local_claim N A y z h) (\<lambda>left. ret (Some left)))))"

definition settle_and_retire ::
  "('s, 'b, 'h) compute \<Rightarrow> 'b allocator \<Rightarrow> release_intent \<Rightarrow> string \<Rightarrow> nova_row option \<Rightarrow> host_claim \<Rightarrow>
     ('s, 'b, 'h, assignment option option) nprog" where
  "settle_and_retire N A i h row x =
     bnd (settle_host_claim N A row x (state x = Committed \<or> state x = Cleaned)) (\<lambda>settled.
     retire_settled N A i h settled)"

definition replay_local_claim ::
  "('s, 'b, 'h) compute \<Rightarrow> 'b allocator \<Rightarrow> release_intent \<Rightarrow> assignment \<Rightarrow> string \<Rightarrow> nova_row option \<Rightarrow>
     ('s, 'b, 'h, assignment option option) nprog" where
  "replay_local_claim N A i a h row =
     bnd (exact_host_claim N A a h None) (\<lambda>c.
     bnd (if row \<noteq> None \<and> c \<noteq> None \<and> state (the c) = Possible
          then bnd (promote_claim N row (the c) None True) (\<lambda>(_, y). ret y) else ret c) (\<lambda>c.
     case c of
       None \<Rightarrow> raise (PyException AttributeError)
     | Some x \<Rightarrow> settle_and_retire N A i h row x))"

definition replay_authorized ::
  "('s, 'b, 'h) compute \<Rightarrow> 'b allocator \<Rightarrow> release_intent \<Rightarrow> assignment \<Rightarrow> string \<Rightarrow> nova_row option \<Rightarrow>
     ('s, 'b, 'h, unit) nprog" where
  "replay_authorized N A i a h row =
     bnd (if h \<in> set (host_ids a) then replay_local_claim N A i a h row
          else bnd (local_resources_absent N i None) (\<lambda>absent. ret (if absent then Some (Some a) else None)))
       (\<lambda>left.
     case left of
       None \<Rightarrow> ret ()
     | Some assignment \<Rightarrow> bnd (complete_release N A i assignment) (\<lambda>_. ret ()))"

definition replay_release_body ::
  "('s, 'b, 'h) compute \<Rightarrow> 'b allocator \<Rightarrow> release_intent \<Rightarrow> string \<Rightarrow> inventory option \<Rightarrow>
     ('s, 'b, 'h, unit) nprog" where
  "replay_release_body N A i h snapshot =
     bnd (alloc_get N A (instance_uuid i)) (\<lambda>assignment.
     case assignment of
       None \<Rightarrow> raise IntegrityError
     | Some a \<Rightarrow>
         if \<not> same_generation i a then ret ()
         else if h \<notin> set (host_ids a) \<and> host_ids a \<noteq> [] then ret ()
         else
           bnd (nova_retirement_state N i) (\<lambda>(allowed, row).
           if \<not> allowed then ret ()
           else
             bnd (screen_resources_absent N i snapshot) (\<lambda>absent.
             if \<not> absent then ret () else replay_authorized N A i a h row)))"

definition replay_release ::
  "('s, 'b, 'h) compute \<Rightarrow> 'b allocator \<Rightarrow> release_intent \<Rightarrow> string \<Rightarrow> inventory option \<Rightarrow>
     ('s, 'b, 'h, unit) nprog" where
  "replay_release N A i h snapshot =
     handle (\<lambda>_. True) (replay_release_body N A i h snapshot) (\<lambda>_. ret ())"

definition replay_releases :: "('s, 'b, 'h) compute \<Rightarrow> nat \<Rightarrow> ('s, 'b, 'h, nat) nprog" where
  "replay_releases N cursor =
     (case nd_allocator N of
        None \<Rightarrow> ret cursor
      | Some A \<Rightarrow>
          bnd (try_result (bnd (local_node_uuid N) (\<lambda>h.
                 bnd (on_alloc (list_host_claims A (nd_gateway N) h)) (\<lambda>claims. ret (h, claims))))) (\<lambda>listed.
          case listed of
            Inl _ \<Rightarrow> ret cursor
          | Inr (h, claims) \<Rightarrow>
              if claims = [] then ret 0
              else
                (let (batch, cursor') = rotate cursor claims in
                 bnd (try_result (on_alloc (list_release_intents_for_instances A (nd_gateway N)
                        (map instance_uuid batch)))) (\<lambda>intents.
                 case intents of
                   Inl _ \<Rightarrow> ret cursor'
                 | Inr is \<Rightarrow>
                     if is = [] then ret cursor'
                     else
                       bnd (screening_inventory N) (\<lambda>snapshot.
                       bnd (for_all (\<lambda>i. replay_release N A i h snapshot) is) (\<lambda>_. ret cursor'))))))"

section \<open>The audit task\<close>

text \<open>Nova's name of an allocation that nobody claims, where its row is deleted.\<close>

definition unclaimed_instance_name ::
  "('s, 'b, 'h) compute \<Rightarrow> assignment \<Rightarrow> ('s, 'b, 'h, string option) nprog" where
  "unclaimed_instance_name N a =
     bnd (on_host (nd_row N (instance_uuid a))) (\<lambda>row.
     ret (case row of None \<Rightarrow> None | Some r \<Rightarrow> if nr_deleted r then Some (nr_name r) else None))"

definition adopt_one ::
  "('s, 'b, 'h) compute \<Rightarrow> 'b allocator \<Rightarrow> assignment \<Rightarrow> ('s, 'b, 'h, release_intent option) nprog" where
  "adopt_one N A a =
     handle (\<lambda>_. True)
       (bnd (alloc_intent N A (instance_uuid a)) (\<lambda>intent.
        if intent \<noteq> None then ret None
        else
          bnd (unclaimed_instance_name N a) (\<lambda>name.
          case name of
            None \<Rightarrow> ret None
          | Some n \<Rightarrow>
              bnd (on_alloc (request_release A (nd_gateway N) (instance_uuid a) n (Some a))) (\<lambda>i.
              ret (Some i)))))
       (\<lambda>_. ret None)"

fun adopt_all ::
  "('s, 'b, 'h) compute \<Rightarrow> 'b allocator \<Rightarrow> assignment list \<Rightarrow> ('s, 'b, 'h, release_intent list) nprog" where
  "adopt_all N A [] = ret []"
| "adopt_all N A (a # as) =
     bnd (adopt_one N A a) (\<lambda>i.
     bnd (adopt_all N A as) (\<lambda>is. ret (case i of None \<Rightarrow> is | Some x \<Rightarrow> x # is)))"

definition unclaimed_allocations :: "assignment list \<Rightarrow> release_intent list \<Rightarrow> assignment list" where
  "unclaimed_allocations assignments intents =
     filter (\<lambda>a. host_ids a = [] \<and> instance_uuid a \<notin> instance_uuid ` set intents) assignments"

definition adopt_unclaimed ::
  "('s, 'b, 'h) compute \<Rightarrow> 'b allocator \<Rightarrow> assignment list \<Rightarrow> release_intent list \<Rightarrow> nat \<Rightarrow>
     ('s, 'b, 'h, release_intent list \<times> nat) nprog" where
  "adopt_unclaimed N A assignments intents cursor =
     (let candidates = unclaimed_allocations assignments intents in
      if candidates = [] then ret ([], 0)
      else
        (let (batch, cursor') = rotate cursor candidates in
         bnd (adopt_all N A batch) (\<lambda>adopted. ret (adopted, cursor'))))"

fun unclaimed_intents ::
  "(string \<rightharpoonup> assignment) \<Rightarrow> string set \<Rightarrow> release_intent list \<Rightarrow> release_intent list" where
  "unclaimed_intents owned seen [] = []"
| "unclaimed_intents owned seen (i # is) =
     (case owned (instance_uuid i) of
        None \<Rightarrow> unclaimed_intents owned seen is
      | Some a \<Rightarrow>
          if host_ids a \<noteq> [] \<or> instance_uuid i \<in> seen then unclaimed_intents owned seen is
          else i # unclaimed_intents owned (insert (instance_uuid i) seen) is)"

definition assignments_by_uuid :: "assignment list \<Rightarrow> string \<rightharpoonup> assignment" where
  "assignments_by_uuid assignments = map_of (rev (map (\<lambda>a. (instance_uuid a, a)) assignments))"

definition replay_unclaimed ::
  "('s, 'b, 'h) compute \<Rightarrow> 'b allocator \<Rightarrow> assignment list \<Rightarrow> release_intent list \<Rightarrow> nat \<Rightarrow>
     ('s, 'b, 'h, nat) nprog" where
  "replay_unclaimed N A assignments intents cursor =
     (let candidates = unclaimed_intents (assignments_by_uuid assignments) {} intents in
      if candidates = [] then ret 0
      else
        (let (batch, cursor') = rotate cursor candidates in
         bnd (try_result (bnd (local_node_uuid N) (\<lambda>h.
                bnd (screening_inventory N) (\<lambda>snapshot. ret (h, snapshot))))) (\<lambda>prepared.
         case prepared of
           Inl _ \<Rightarrow> ret cursor'
         | Inr (h, snapshot) \<Rightarrow>
             bnd (for_all (\<lambda>i. replay_release N A i h snapshot) batch) (\<lambda>_. ret cursor'))))"

text \<open>
  The state of the audit task: the deadline of the next full audit and the two cursors. \<open>now\<close> is
  the monotonic clock at the start and \<open>later\<close> at the end, \<open>offset\<close> the random first delay.
\<close>

record audit_cursors =
  ad_deadline :: "int option"
  ad_adoption :: nat
  ad_unclaimed :: nat

definition full_audit_due :: "int \<Rightarrow> int \<Rightarrow> audit_cursors \<Rightarrow> bool \<times> audit_cursors" where
  "full_audit_due now offset t =
     (case ad_deadline t of
        None \<Rightarrow> (False, t\<lparr>ad_deadline := Some (now + offset)\<rparr>)
      | Some d \<Rightarrow> (d \<le> now, t))"

definition audit_task ::
  "('s, 'b, 'h) compute \<Rightarrow> int \<Rightarrow> int \<Rightarrow> int \<Rightarrow> int \<Rightarrow> audit_cursors \<Rightarrow> ('s, 'b, 'h, audit_cursors) nprog" where
  "audit_task N interval now offset later t =
     (case nd_allocator N of
        None \<Rightarrow> ret t
      | Some A \<Rightarrow>
          (let (full, t) = full_audit_due now offset t in
           bnd (try_result (on_alloc (run_coordinated_audit A (nd_gateway N) full))) (\<lambda>r.
           case r of
             Inl e \<Rightarrow>
               if e \<noteq> IntegrityError \<and> full then ret (t\<lparr>ad_deadline := Some later\<rparr>) else ret t
           | Inr (coordinator, snapshot) \<Rightarrow>
               if \<not> coordinator then ret t
               else case snapshot of
                 None \<Rightarrow> ret t
               | Some (assignments, intents, claims) \<Rightarrow>
                   (let t = t\<lparr>ad_deadline := Some (later + interval)\<rparr> in
                    bnd (adopt_unclaimed N A assignments intents (ad_adoption t)) (\<lambda>(adopted, c1).
                    bnd (replay_unclaimed N A assignments (intents @ adopted) (ad_unclaimed t)) (\<lambda>c2.
                    ret (t\<lparr>ad_adoption := c1, ad_unclaimed := c2\<rparr>)))))))"

end
