(* ===== verification/Final_Delete.thy ===== *)
theory Final_Delete
  imports Idmap_Lifecycle
begin

text \<open>
  The final delete of an instance (\<open>_delete_instance\<close> of nova/virt/incus/manager.py): the shared
  release intent before Nova's own delete, the decision about a claim whose create request may
  be under way, and the release afterwards, whose failures leave the intent for the replay.
  Nova's delete is a parameter.
\<close>

text \<open>The locked part: the intent that fences the release, and this host's claim before it.\<close>

definition fence_final_delete ::
  "('s, 'b, 'h) compute \<Rightarrow> 'b allocator \<Rightarrow> nova_row \<Rightarrow> string \<Rightarrow>
     ('s, 'b, 'h, (release_intent \<times> host_claim option) option) nprog" where
  "fence_final_delete N A row h =
     bnd (release_assignment N row) (\<lambda>assignment.
     case assignment of
       None \<Rightarrow> ret None
     | Some a \<Rightarrow>
         bnd (exact_host_claim N A a h None) (\<lambda>c.
         bnd (on_alloc (request_release A (nd_gateway N) (nr_uuid row) (nr_name row) (Some a))) (\<lambda>i.
         if instance_name i \<noteq> nr_name row \<or> \<not> same_generation i a then raise IntegrityError
         else ret (Some (i, c)))))"

definition is_idmap_error :: "idmap_error \<Rightarrow> bool" where
  "is_idmap_error e \<longleftrightarrow> (case e of PyException x \<Rightarrow> False | _ \<Rightarrow> True)"

text \<open>Whether the local root materialized: a claim that may have is promoted or settled.\<close>

definition decide_final_claim ::
  "('s, 'b, 'h) compute \<Rightarrow> 'b allocator \<Rightarrow> nova_row \<Rightarrow> host_claim option \<Rightarrow>
     ('s, 'b, 'h, host_claim option) nprog" where
  "decide_final_claim N A row c =
     (if c = None \<or> state (the c) \<noteq> Possible then ret c
      else
        bnd (promote_claim N (Some row) (the c) None False) (\<lambda>(_, promoted).
        case promoted of
          None \<Rightarrow> raise ConflictError
        | Some x \<Rightarrow>
            if state x \<noteq> Possible then ret (Some x)
            else handle is_idmap_error (settle_host_claim N A (Some row) x False) (\<lambda>_. raise ConflictError)))"

definition finish_final_delete ::
  "('s, 'b, 'h) compute \<Rightarrow> 'b allocator \<Rightarrow> nova_row \<Rightarrow> release_intent \<Rightarrow> string \<Rightarrow> host_claim option \<Rightarrow>
     ('s, 'b, 'h, unit) nprog" where
  "finish_final_delete N A row i h c =
     bnd (screen_resources_absent N i None) (\<lambda>absent.
     if \<not> absent then ret ()
     else
       bnd (alloc_get N A (nr_uuid row)) (\<lambda>assignment.
       case assignment of
         None \<Rightarrow> raise IntegrityError
       | Some a \<Rightarrow>
           if \<not> same_generation i a then raise IntegrityError
           else
             bnd (case c of None \<Rightarrow> ret None | Some x \<Rightarrow> exact_host_claim N A a h (Some x)) (\<lambda>exact.
             bnd (case exact of
                    Some x \<Rightarrow> settle_and_retire N A i h (Some row) x
                  | None \<Rightarrow>
                      bnd (local_resources_absent N i None) (\<lambda>absent.
                      ret (if absent then Some (Some a) else None))) (\<lambda>left.
             case left of
               None \<Rightarrow> ret ()
             | Some remaining \<Rightarrow> bnd (complete_release N A i remaining) (\<lambda>_. ret ())))))"

definition delete_instance ::
  "('s, 'b, 'h) compute \<Rightarrow> nova_row \<Rightarrow> ('s, 'b, 'h, 'r) nprog \<Rightarrow> ('s, 'b, 'h, 'r) nprog" where
  "delete_instance N row nova_delete =
     (case nd_allocator N of
        None \<Rightarrow> bnd (release_assignment N row) (\<lambda>_. nova_delete)
      | Some A \<Rightarrow>
          bnd (local_node_uuid N) (\<lambda>h.
          bnd (fence_final_delete N A row h) (\<lambda>fenced.
          case fenced of
            None \<Rightarrow> nova_delete
          | Some (i, c) \<Rightarrow>
              bnd (decide_final_claim N A row c) (\<lambda>c.
              bnd nova_delete (\<lambda>result.
              bnd (handle (\<lambda>_. True) (finish_final_delete N A row i h c) (\<lambda>_. ret ())) (\<lambda>_.
              ret result))))))"

end
