(* ===== verification/Node_Calls.thy ===== *)
theory Node_Calls
  imports Final_Delete Fleet
begin

text \<open>
  Which allocator calls the code of a compute node issues: the judgement that a node program
  changes its allocator client only by calls that a policy allows, the policies of the
  lifecycle as locales, and one lemma per operation of the driver and the manager.
\<close>

section \<open>The judgement\<close>

text \<open>The client of the node is where a list of allowed calls takes the client \<open>c0\<close>.\<close>

definition issued ::
  "('s, 'b, 'h) compute \<Rightarrow> 'b allocator \<Rightarrow> (call \<Rightarrow> bool) \<Rightarrow> ('s, 'b) client \<Rightarrow> ('s, 'b, 'h) node \<Rightarrow> bool" where
  "issued N A P c0 s \<longleftrightarrow> (\<exists>calls. list_all P calls \<and> fst s = run_calls A (nd_gateway N) calls c0)"

lemma run_calls_append:
  "run_calls A G (xs @ ys) c = run_calls A G ys (run_calls A G xs c)"
  by (simp add: run_calls_def)

lemma issued_start: "issued N A P c (c, h)"
  unfolding issued_def by (intro exI [of _ "[]"]) (simp add: run_calls_def)

lemma issued_call:
  assumes "issued N A P c0 (c, h)" and "P x"
  shows "issued N A P c0 (serve A (nd_gateway N) x c, h')"
proof -
  obtain calls where "list_all P calls" and "c = run_calls A (nd_gateway N) calls c0"
    using assms(1) by (auto simp: issued_def)
  then show ?thesis
    unfolding issued_def using assms(2)
    by (intro exI [of _ "calls @ [x]"]) (simp add: run_calls_def)
qed

lemma issued_host: "issued N A P c0 (c, h) \<Longrightarrow> issued N A P c0 (c, h')"
  by (simp add: issued_def)

lemma issued_mono: "issued N A P c0 s \<Longrightarrow> (\<And>x. P x \<Longrightarrow> P' x) \<Longrightarrow> issued N A P' c0 s"
  unfolding issued_def by (blast intro: list.pred_mono_strong)

section \<open>Rules\<close>

text \<open>What every program returns: the judgement without an invariant.\<close>

abbreviation returns :: "('w, 'e, 'a) eprog \<Rightarrow> ('a \<Rightarrow> bool) \<Rightarrow> bool" where
  "returns m Q \<equiv> ensures (\<lambda>_. True) m Q"

lemma returns_any: "returns m (\<lambda>_. True)"
  by (simp add: ensures_def)

lemma returnsD: "returns m Q \<Longrightarrow> m w = (Inr a, w') \<Longrightarrow> Q a"
  by (auto simp: ensures_def)

lemma returns_skip: "(\<And>a. returns (f a) Q) \<Longrightarrow> returns (bnd m f) Q"
  by (rule ensures_keep [OF returns_any])

lemma issued_on_host:
  assumes "returns m Q"
  shows "ensures (issued N A P c0) (on_host m) Q"
  using assms by (auto simp: ensures_def on_host_def split: prod.splits intro: issued_host)

lemma issued_on_alloc:
  assumes c: "\<And>c. snd (m c) = serve A (nd_gateway N) x c" and "P x" and q: "returns m Q"
  shows "ensures (issued N A P c0) (on_alloc m) Q"
proof (rule ensuresI)
  fix w r w'
  assume w: "issued N A P c0 w" and run: "on_alloc m w = (r, w')"
  obtain cl h where wd: "w = (cl, h)" by (cases w)
  obtain cl' where m: "m cl = (r, cl')" and w': "w' = (cl', h)"
    using run wd by (auto simp: on_alloc_def split: prod.splits)
  have "cl' = serve A (nd_gateway N) x cl" using c [of cl] m by simp
  then have "issued N A P c0 w'"
    using issued_call [of N A P c0 cl h x h] w wd w' \<open>P x\<close> by simp
  then show "issued N A P c0 w' \<and> (\<forall>a. r = Inr a \<longrightarrow> Q a)"
    using returnsD [OF q] m by auto
qed

lemma bnd_assoc: "bnd (bnd m f) g = bnd m (\<lambda>a. bnd (f a) g)"
  by (auto simp: bnd_def fun_eq_iff split: prod.splits sum.splits)

lemma ensures_try:
  "ensures J m Q \<Longrightarrow> ensures J (try_result m) (\<lambda>r. \<forall>a. r = Inr a \<longrightarrow> Q a)"
  by (auto simp: ensures_def try_result_def split: prod.splits)

lemma try_step:
  "ensures J m (\<lambda>_. True) \<Longrightarrow> (\<And>r. ensures J (f r) Q) \<Longrightarrow> ensures J (bnd (try_result m) f) Q"
  by (rule ensures_keep [OF ensures_True [OF ensures_try]])

lemma ensures_for_all:
  "(\<And>x. x \<in> set xs \<Longrightarrow> ensures J (f x) (\<lambda>_. True)) \<Longrightarrow> ensures J (for_all f xs) (\<lambda>_. True)"
  by (induction xs) (auto intro!: ensures_ret ensures_keep)

text \<open>Sequencing where nothing is needed of the value.\<close>

lemma host_step:
  "(\<And>a. ensures (issued N A P c0) (f a) Q) \<Longrightarrow> ensures (issued N A P c0) (bnd (on_host m) f) Q"
  by (rule ensures_keep [OF issued_on_host [OF returns_any]])

lemma try_host_step:
  "(\<And>a. ensures (issued N A P c0) (f a) Q) \<Longrightarrow>
   ensures (issued N A P c0) (bnd (try_result (on_host m)) f) Q"
  by (rule ensures_keep [OF ensures_True [OF ensures_try [OF issued_on_host [OF returns_any]]]])

section \<open>The host of a claim\<close>

text \<open>A claim that the allocator returns is of the host and instance that were asked for.\<close>

lemma parse_host_claim_ids:
  assumes "parse_host_claim A raw eh eu = Inr c"
  shows "\<forall>h \<in> set_option eh. host_id c = h"
proof -
  obtain v where load: "l_loads (al_lib A) raw = Some (JObj v)"
    using assms by (auto simp: parse_host_claim_def split: option.splits json.splits)
  show ?thesis
    using assms unfolding parse_host_claim_def load option.case json.case
    by (auto simp: rbind_Inr_conv split: if_splits)
qed

lemma parse_host_claim_host: "parse_host_claim A raw (Some h) eu = Inr c \<Longrightarrow> host_id c = h"
  by (drule parse_host_claim_ids) simp

definition keyed_claims :: "'b held \<Rightarrow> bool" where
  "keyed_claims s \<longleftrightarrow> list_all (\<lambda>(h, c, raw). host_id c = h) (h_claims s)"

lemma keyed_claim: "keyed_claims s \<Longrightarrow> map_of (h_claims s) h = Some (c, raw) \<Longrightarrow> host_id c = h"
  by (auto simp: keyed_claims_def list_all_iff dest!: map_of_SomeD)

lemma held_of_keyed:
  assumes "held_of A snap a raw u = Inr s"
  shows "keyed_claims s"
proof -
  obtain claims where cs: "map_result (read_claim A snap a u) (host_ids a) = Inr claims"
    and s: "h_claims s = claims"
    using assms by (auto simp: held_of_def rbind_Inr_conv)
  have "host_id c = h" if mem: "(h, c, r) \<in> set claims" for h c r
  proof -
    obtain n where n: "n < length claims" "claims ! n = (h, c, r)"
      using mem by (auto simp: in_set_conv_nth)
    have "list_all2 (\<lambda>h x. read_claim A snap a u h = Inr x) (host_ids a) claims"
      using cs by (rule map_result_list_all2)
    then have "read_claim A snap a u (host_ids a ! n) = Inr (claims ! n)"
      using n(1) by (rule list_all2_nthD2)
    then show ?thesis
      unfolding n(2) by (auto simp: read_claim_def rbind_Inr_conv split: option.splits if_splits
          dest: parse_host_claim_host)
  qed
  then show ?thesis using s by (auto simp: keyed_claims_def list_all_iff)
qed

lemma read_state_keyed: "returns (read_assignment_state A G u) (\<lambda>r. \<forall>s. r = Some s \<longrightarrow> keyed_claims s)"
proof -
  have "returns (read_state_attempt A G u) (\<lambda>r. \<forall>a. r = Some a \<longrightarrow> (\<forall>s. a = Some s \<longrightarrow> keyed_claims s))"
    unfolding read_state_attempt_def
    by (rule returns_skip, rule ensures_option, simp add: ensures_if ensures_raise ensures_ret,
        intro ensures_bnd_lift, rule returns_skip,
        auto intro!: ensures_if ensures_ret ensures_bnd_lift dest: held_of_keyed)
  then show ?thesis
    unfolding read_assignment_state_def
    by (intro ensures_bnd_lift ensures_retry ensures_raise)
qed

lemma get_host_claim_host:
  "returns (get_host_claim A G u h) (\<lambda>r. \<forall>c. r = Some c \<longrightarrow> host_id c = h)"
  unfolding get_host_claim_def
proof (rule returns_skip, rule ensures_bnd_lift, rule ensures_bnd_lift)
  fix u' h'
  assume h: "host_id_arg h = Inr h'"
  then have "h' = h" by (simp add: host_id_arg_def check_uuid_def split: if_splits)
  then show "returns (bnd (read_assignment_state A G u') (\<lambda>s. ret (observed_claim s h')))
      (\<lambda>r. \<forall>c. r = Some c \<longrightarrow> host_id c = h)"
    by (intro ensures_bnd [OF read_state_keyed] ensures_ret)
      (auto simp: observed_claim_def claim_of_def keyed_claim split: option.splits)
qed

lemma claim_swap_host:
  "returns (claim_swap A G s old desired b p) (\<lambda>r. \<forall>c. r = Some c \<longrightarrow> host_id c = host_id desired)"
proof -
  let ?Q = "\<lambda>r. \<forall>c. r = Some c \<longrightarrow> host_id c = host_id desired"
  let ?u = "instance_uuid desired" and ?h = "host_id desired"
  let ?recover = "bnd (get_host_claim A G ?u ?h) (\<lambda>obs. ret (if p obs then obs else None))"
  let ?verify = "bnd (get_host_claim A G ?u ?h)
      (\<lambda>obs. if obs = Some desired then ret desired else raise IntegrityError)"
  have r: "returns ?recover ?Q"
    by (intro ensures_bnd [OF get_host_claim_host] ensures_ret) auto
  have v: "returns ?verify (\<lambda>c. host_id c = ?h)"
    by (intro ensures_bnd [OF get_host_claim_host] ensures_if ensures_ret ensures_raise) auto
  have cas: "returns (cas A G cmps puts ?recover ?verify) ?Q" for cmps puts
    unfolding cas_def
  proof (rule returns_skip)
    fix guards
    show "returns
        (bnd (handle (\<lambda>e. e = BackendError)
               (bnd (transaction A G (cas_txn guards cmps puts)) (\<lambda>ok. ret (Inr ok)))
               (\<lambda>e. bnd ?recover (\<lambda>r. case r of Some v \<Rightarrow> ret (Inl v) | None \<Rightarrow> raise e)))
          (\<lambda>outcome. case outcome of Inl v \<Rightarrow> ret (Some v)
             | Inr ok \<Rightarrow> if ok then bnd ?verify (\<lambda>v. ret (Some v)) else ret None)) ?Q"
      by (rule ensures_bnd [where P = "\<lambda>r. \<forall>v. r = Inl v \<longrightarrow> host_id v = ?h"])
        (intro ensures_handle returns_skip ensures_ret ensures_bnd [OF r] ensures_option ensures_raise
          ensures_sum ensures_if ensures_bnd [OF v], auto)+
  qed
  show ?thesis
    unfolding claim_swap_def Let_def by (intro ensures_bnd_lift cas)
qed

lemma mark_committed_attempt_host:
  "returns (mark_committed_attempt A G u h m a) (\<lambda>r. \<forall>c. r = Some c \<longrightarrow> host_id c = h)"
  unfolding mark_committed_attempt_def
  by (rule ensures_bnd [OF read_state_keyed])
    (auto intro!: ensures_option ensures_raise ensures_bnd_lift ensures_if ensures_ret
      ensures_weaken [OF claim_swap_host] split: prod.splits dest: keyed_claim)

lemma mark_committed_host:
  "returns (mark_materialization_committed A G u h m a) (\<lambda>c. host_id c = h)"
  unfolding mark_materialization_committed_def
proof (rule returns_skip, intro ensures_bnd_lift)
  fix u' h' m'
  assume "host_id_arg h = Inr h'"
  then have "h' = h" by (simp add: host_id_arg_def check_uuid_def split: if_splits)
  then show "returns (retry 64 (mark_committed_attempt A G u' h' m' a) (raise ConflictError)) (\<lambda>c. host_id c = h)"
    by (intro ensures_retry ensures_raise) (simp add: mark_committed_attempt_host)
qed

lemma parse_listed_host:
  "parse_listed prefix (\<lambda>u raw. parse_host_claim A raw (Some h) (Some u)) entries seen = Inr cs \<Longrightarrow>
   c \<in> set cs \<Longrightarrow> host_id c = h"
proof (induction entries arbitrary: seen cs)
  case (Cons e entries)
  obtain k raw where e: "e = (k, raw)" by (cases e)
  from Cons.prems(1) obtain u d ds where d: "parse_host_claim A raw (Some h) (Some u) = Inr d"
    and ds: "parse_listed prefix (\<lambda>u raw. parse_host_claim A raw (Some h) (Some u)) entries (u # seen) = Inr ds"
    and cs: "cs = d # ds"
    by (auto simp: e)
  show ?case
    using Cons.prems(2) Cons.IH [OF ds] parse_host_claim_host [OF d] unfolding cs by auto
qed simp

lemma list_host_claims_host:
  "returns (list_host_claims A G h) (\<lambda>cs. \<forall>c\<in>set cs. host_id c = h)"
  unfolding list_host_claims_def Let_def
  by (rule returns_skip, rule ensures_bnd_lift, rule returns_skip, rule ensures_bnd_lift, rule ensures_ret)
    (auto simp: by_slot_def host_id_arg_def check_uuid_def split: if_splits dest: parse_listed_host)

end
