(* ===== verification/Lifecycle_Policy.thy ===== *)
theory Lifecycle_Policy
  imports Node_Calls
begin

text \<open>
  The policies of the ID-map lifecycle: what the settlement of a claim, a spawn and the
  periodic tasks may ask of the allocator. Each is a locale over a predicate of calls and a
  predicate of hosts, the lemmas of the operations are proved once for it, and the
  interpretations give them for every call and for the calls of one host.
\<close>

section \<open>Calls\<close>

fun reading :: "call \<Rightarrow> bool" where
  "reading (CallGet u) = True"
| "reading (CallHostClaim u h) = True"
| "reading (CallIntent u) = True"
| "reading (CallFenceProof u h) = True"
| "reading (CallListClaims h) = True"
| "reading (CallIntentsFor us) = True"
| "reading CallListIntents = True"
| "reading x = False"

text \<open>The host whose claim a call moves or removes.\<close>

fun moved_host :: "call \<Rightarrow> string option" where
  "moved_host (CallCommitted u h m a) = Some h"
| "moved_host (CallMaterializationProof u h m p a) = Some h"
| "moved_host (CallReleaseProof u h m r a) = Some h"
| "moved_host (CallAbandon u h m a) = Some h"
| "moved_host (CallRetire u h m a) = Some h"
| "moved_host x = None"

fun made_host :: "call \<Rightarrow> string option" where
  "made_host (CallClaim u h m a) = Some h"
| "made_host (CallPossible u h m a) = Some h"
| "made_host x = None"

fun places :: "call \<Rightarrow> bool" where
  "places (CallAllocate u b n) = True"
| "places (CallAdopt u b n) = True"
| "places x = False"

fun releases :: "call \<Rightarrow> bool" where
  "releases (CallCoordinatedAudit full) = True"
| "releases (CallRequestRelease u n a) = True"
| "releases (CallRelease i) = True"
| "releases x = False"

definition settling :: "string \<Rightarrow> call \<Rightarrow> bool" where
  "settling h x \<longleftrightarrow> reading x \<or> moved_host x = Some h"

definition spawning :: "string \<Rightarrow> call \<Rightarrow> bool" where
  "spawning h x \<longleftrightarrow> settling h x \<or> places x \<or> made_host x = Some h"

definition maintaining :: "string \<Rightarrow> call \<Rightarrow> bool" where
  "maintaining h x \<longleftrightarrow> settling h x \<or> releases x"

section \<open>Settling a claim\<close>

abbreviation sends ::
  "('s, 'b, 'h) compute \<Rightarrow> 'b allocator \<Rightarrow> (call \<Rightarrow> bool) \<Rightarrow> ('s, 'b) client \<Rightarrow>
     ('s, 'b, 'h, 'a) nprog \<Rightarrow> ('a \<Rightarrow> bool) \<Rightarrow> bool" where
  "sends N A P c0 m Q \<equiv> ensures (issued N A P c0) m Q"

named_theorems sends_intros \<open>introduction rules for \<open>sends\<close>\<close>

lemmas [sends_intros] =
  ensures_ret ensures_raise ensures_if ensures_option ensures_sum ensures_prod ensures_Let
  ensures_bnd_lift host_step ensures_handle

lemma host_sends [sends_intros]: "sends N A P c0 (on_host m) (\<lambda>_. True)"
  by (rule issued_on_host [OF returns_any])

text \<open>The node UUID that Nova gives is a host of the policy.\<close>

lemma uuid_step:
  assumes "returns (nd_node_uuid N) H" and "\<And>h. H h \<Longrightarrow> sends N A P c0 (f h) Q"
  shows "sends N A P c0 (bnd (on_host (nd_node_uuid N)) f) Q"
  using assms by (intro ensures_bnd [OF issued_on_host])

lemma any_lexists_sends [sends_intros]: "sends N A P c0 (any_lexists N ps) (\<lambda>_. True)"
  by (induction ps) (auto intro!: sends_intros)

lemma any_lexists_step [sends_intros]:
  "(\<And>b. sends N A P c0 (f b) Q) \<Longrightarrow> sends N A P c0 (bnd (any_lexists N ps) f) Q"
  by (rule ensures_keep [OF any_lexists_sends])

lemma name_absent_step [sends_intros]:
  "(\<And>b. sends N A P c0 (f b) Q) \<Longrightarrow> sends N A P c0 (bnd (name_absent N coll name) f) Q"
  unfolding name_absent_def by (rule ensures_keep, intro sends_intros TrueI)

lemma name_absent_sends: "sends N A P c0 (name_absent N coll name) (\<lambda>_. True)"
  unfolding name_absent_def by (intro sends_intros TrueI)

lemma acknowledge_step [sends_intros]:
  "(\<And>b. sends N A P c0 (f b) Q) \<Longrightarrow> sends N A P c0 (bnd (acknowledge m) f) Q"
  unfolding acknowledge_def by (rule ensures_keep, intro sends_intros TrueI)

lemma acknowledge_stored_sends:
  "sends N A P c0 (acknowledge_stored N x) (\<lambda>_. True)"
  unfolding acknowledge_stored_def
  by (auto intro!: sends_intros split: option.splits cleanup_proof.splits)

lemma discover_attempt_step [sends_intros]:
  "(\<And>b. sends N A P c0 (f b) Q) \<Longrightarrow> sends N A P c0 (bnd (discover_attempt N row c) f) Q"
  unfolding discover_attempt_def
  by (rule ensures_keep, intro sends_intros issued_on_host returns_any)

locale settle_policy =
  fixes P :: "call \<Rightarrow> bool" and H :: "string \<Rightarrow> bool"
  assumes reads: "reading x \<Longrightarrow> P x"
    and moves: "moved_host x = Some h \<Longrightarrow> H h \<Longrightarrow> P x"
begin

lemma get_step [sends_intros]:
  "(\<And>a. sends N A P c0 (f a) Q) \<Longrightarrow> sends N A P c0 (bnd (alloc_get N A u) f) Q"
  by (rule ensures_keep, rule issued_on_alloc [where x = "CallGet u", OF _ reads returns_any]) simp_all

lemma intent_step [sends_intros]:
  "(\<And>a. sends N A P c0 (f a) Q) \<Longrightarrow> sends N A P c0 (bnd (alloc_intent N A u) f) Q"
  by (rule ensures_keep, rule issued_on_alloc [where x = "CallIntent u", OF _ reads returns_any]) simp_all

lemma intent_sends: "sends N A P c0 (alloc_intent N A u) (\<lambda>_. True)"
  by (rule issued_on_alloc [where x = "CallIntent u", OF _ reads returns_any]) simp_all

lemma claim_step [sends_intros]:
  "(\<And>r. (\<And>c. r = Some c \<Longrightarrow> host_id c = h) \<Longrightarrow> sends N A P c0 (f r) Q) \<Longrightarrow>
   sends N A P c0 (bnd (alloc_claim N A u h) f) Q"
  by (rule ensures_bnd, rule issued_on_alloc [where x = "CallHostClaim u h", OF _ reads get_host_claim_host])
    simp_all

lemma committed_sends:
  "H h \<Longrightarrow> sends N A P c0 (on_alloc (mark_materialization_committed A (nd_gateway N) u h m a)) (\<lambda>c. host_id c = h)"
  by (rule issued_on_alloc [where x = "CallCommitted u h m a", OF _ moves mark_committed_host]) simp_all

lemma proof_step [sends_intros]:
  "H h \<Longrightarrow> (\<And>c. sends N A P c0 (f c) Q) \<Longrightarrow>
   sends N A P c0 (bnd (on_alloc (record_materialization_proof A (nd_gateway N) u h m p a)) f) Q"
  by (rule ensures_keep, rule issued_on_alloc [where x = "CallMaterializationProof u h m p a", OF _ moves returns_any])
    simp_all

lemma receipt_step [sends_intros]:
  "H h \<Longrightarrow> (\<And>c. sends N A P c0 (f c) Q) \<Longrightarrow>
   sends N A P c0 (bnd (on_alloc (record_rootfs_release_proof A (nd_gateway N) u h m p a)) f) Q"
  by (rule ensures_keep, rule issued_on_alloc [where x = "CallReleaseProof u h m p a", OF _ moves returns_any])
    simp_all

lemma abandon_step [sends_intros]:
  "H h \<Longrightarrow> (\<And>c. sends N A P c0 (f c) Q) \<Longrightarrow>
   sends N A P c0 (bnd (on_alloc (abandon_unregistered_claim A (nd_gateway N) u h m a)) f) Q"
  by (rule ensures_keep, rule issued_on_alloc [where x = "CallAbandon u h m a", OF _ moves returns_any])
    simp_all

lemma retire_sends [sends_intros]:
  "H h \<Longrightarrow> sends N A P c0 (on_alloc (retire_claim A (nd_gateway N) u h m a)) (\<lambda>_. True)"
  by (rule issued_on_alloc [where x = "CallRetire u h m a", OF _ moves returns_any]) simp_all

lemma retire_step [sends_intros]:
  "H h \<Longrightarrow> (\<And>c. sends N A P c0 (f c) Q) \<Longrightarrow>
   sends N A P c0 (bnd (on_alloc (retire_claim A (nd_gateway N) u h m a)) f) Q"
  by (rule ensures_keep [OF retire_sends])

subsection \<open>The driver\<close>

lemma exact_claim_sends:
  "sends N A P c0 (driver_exact_claim N A row c) (\<lambda>r. \<forall>x. snd r = Some x \<longrightarrow> host_id x = host_id c)"
  unfolding driver_exact_claim_def by (intro sends_intros) auto

lemma promote_locked_sends:
  assumes "H (host_id c)"
  shows "sends N A P c0 (promote_locked N A row c t) (\<lambda>r. \<forall>x. snd r = Some x \<longrightarrow> H (host_id x))"
proof -
  have "sends N A P c0 (bnd (case t of Some t \<Rightarrow> ret t | None \<Rightarrow> discover_attempt N row x) (\<lambda>t.
           if \<not> attempt_matches_claim t x then raise IntegrityError
           else if at_state t \<noteq> AttemptCommitted \<or> \<not> at_finished t then ret (a, Some x)
           else
             bnd (on_alloc (mark_materialization_committed A (nd_gateway N) (instance_uuid x) (host_id x)
                    (materialization_id x) (Some a))) (\<lambda>y. ret (a, Some y))))
         (\<lambda>r. \<forall>x. snd r = Some x \<longrightarrow> H (host_id x))" if "H (host_id x)" for a x
    using that
    by (cases t) (auto intro!: sends_intros ensures_bnd [OF committed_sends])
  then show ?thesis
    unfolding promote_locked_def using assms
    by (intro ensures_bnd [OF exact_claim_sends]) (auto intro!: sends_intros split: prod.splits)
qed

lemma promote_sends:
  assumes "nd_allocator N = Some A" and "H (host_id c)"
  shows "sends N A P c0 (promote_claim N row c t held) (\<lambda>r. \<forall>x. snd r = Some x \<longrightarrow> H (host_id x))"
proof -
  have "sends N A P c0 (bnd (promote_locked N A row c s) (\<lambda>(a, x). ret (Some a, x)))
      (\<lambda>r. \<forall>x. snd r = Some x \<longrightarrow> H (host_id x))" for s
    using assms by (intro ensures_bnd [OF promote_locked_sends]) (auto intro!: sends_intros split: prod.splits)
  then show ?thesis
    using assms by (cases t) (auto simp: promote_claim_def bnd_assoc intro!: sends_intros)
qed

lemma promote_step:
  assumes "nd_allocator N = Some A" and "H (host_id c)"
    and "\<And>a y. (\<And>x. y = Some x \<Longrightarrow> H (host_id x)) \<Longrightarrow> sends N A P c0 (f (a, y)) Q"
  shows "sends N A P c0 (bnd (promote_claim N row c t held) f) Q"
  by (rule ensures_bnd [OF promote_sends [OF assms(1,2)]]) (auto intro: assms(3))

lemma settle_release_sends:
  "H (host_id x) \<Longrightarrow> sends N A P c0 (settle_release N A d a x) (\<lambda>_. True)"
  unfolding settle_release_def by (intro sends_intros TrueI)

lemma abandon_unregistered_sends:
  "H (host_id x) \<Longrightarrow> sends N A P c0 (abandon_unregistered N A a x) (\<lambda>_. True)"
  unfolding abandon_unregistered_def by (intro sends_intros TrueI)

lemma settle_attempt_sends:
  assumes "H (host_id x)"
  shows "sends N A P c0 (settle_attempt N A a x t) (\<lambda>_. True)"
  unfolding settle_attempt_def using assms
  by (intro sends_intros ensures_keep [where m = "if _ then _ else _"]) auto

lemma driver_settle_sends:
  assumes N: "nd_allocator N = Some A" and "H (host_id c)"
  shows "sends N A P c0 (driver_settle_claim N row c final) (\<lambda>_. True)"
proof -
  note keep = ensures_keep [OF settle_release_sends] ensures_keep [OF acknowledge_stored_sends]
    ensures_keep [OF abandon_unregistered_sends] ensures_keep [OF settle_attempt_sends]
    ensures_keep [where m = "handle _ _ _"]
  show ?thesis
    unfolding driver_settle_claim_def N option.case
    by (intro ensures_bnd [OF exact_claim_sends] sends_intros keep TrueI) (auto simp: assms)
qed

lemma settle_step:
  assumes "nd_allocator N = Some A" and "H (host_id c)" and "\<And>a. sends N A P c0 (f a) Q"
  shows "sends N A P c0 (bnd (driver_settle_claim N row c final) f) Q"
  by (rule ensures_keep [OF driver_settle_sends [OF assms(1,2)] assms(3)])

lemma retire_clean_locked_sends:
  assumes N: "nd_allocator N = Some A" and "H h"
  shows "sends N A P c0 (retire_clean_locked N A row stored h) (\<lambda>_. True)"
proof -
  have p: "sends N A P c0 (if state c = Possible then promote_claim N (Some row) c None True else ret (Some a, Some c))
      (\<lambda>r. \<forall>x. snd r = Some x \<longrightarrow> H (host_id x))" if "host_id c = h" for c a
    using that assms by (auto intro!: sends_intros promote_sends)
  show ?thesis
    unfolding retire_clean_locked_def
    by (intro sends_intros ensures_bnd [OF p] settle_step assms) (auto intro: assms)
qed

lemma release_context_sends:
  assumes N: "nd_allocator N = Some A" and h: "returns (nd_node_uuid N) H"
  shows "sends N A P c0 (rootfs_release_context N row) (\<lambda>_. True)"
proof -
  have p: "sends N A P c0 (if state c = Possible then promote_claim N (Some row) c None False else ret (Some a, Some c))
      (\<lambda>_. True)" if "H (host_id c)" for c a
    using that assms by (auto intro!: sends_intros ensures_True [OF promote_sends])
  show ?thesis
    unfolding rootfs_release_context_def N option.case
    by (intro uuid_step [OF h] sends_intros ensures_keep [OF p]) auto
qed

lemma retire_if_clean_sends:
  assumes N: "nd_allocator N = Some A" and h: "returns (nd_node_uuid N) H"
  shows "sends N A P c0 (retire_claim_if_clean N row) (\<lambda>_. True)"
  unfolding retire_claim_if_clean_def N option.case
  by (intro uuid_step [OF h] sends_intros ensures_keep [where m = "handle _ _ _"] name_absent_sends
      try_step intent_sends retire_clean_locked_sends N)
    (auto intro!: sends_intros)

subsection \<open>The spawn journal\<close>

lemma cleared_claims_sends: "sends N A P c0 (cleared_claims N A u a hs) (\<lambda>_. True)"
  by (induction hs) (auto intro!: sends_intros)

lemma preflight_sends:
  assumes N: "nd_allocator N = Some A"
  shows "sends N A P c0 (create_spawn_preflight N row t) (\<lambda>_. True)"
  unfolding create_spawn_preflight_def N option.case
  by (intro sends_intros ensures_keep [where m = "case _ of None \<Rightarrow> _ | Some a \<Rightarrow> _ a"] cleared_claims_sends TrueI)

lemma open_attempt_sends: "sends N A P c0 (open_spawn_attempt N row t) (\<lambda>_. True)"
  unfolding open_spawn_attempt_def by (intro sends_intros TrueI)

lemma finish_attempt_sends: "sends N A P c0 (finish_spawn_attempt N A row t) (\<lambda>_. True)"
  unfolding finish_spawn_attempt_def by (intro sends_intros TrueI)

lemma remove_attempt_sends: "sends N A P c0 (remove_attempt_for_claim N A row c) (\<lambda>_. True)"
  unfolding remove_attempt_for_claim_def by (intro sends_intros TrueI)

lemma consume_preflight_sends:
  assumes N: "nd_allocator N = Some A"
  shows "sends N A P c0 (consume_preflight_noop N row) (\<lambda>_. True)"
proof -
  have o: "sends N A P c0 (consume_opening N A row p h x) (\<lambda>_. True)" for p h x
    unfolding consume_opening_def by (intro sends_intros TrueI)
  have c: "sends N A P c0 (check_preflight_generation N A row p h x) (\<lambda>_. True)" for p h x
    unfolding check_preflight_generation_def by (intro sends_intros cleared_claims_sends TrueI)
  show ?thesis
    unfolding consume_preflight_noop_def N option.case
    by (intro sends_intros ensures_keep [OF c] o TrueI)
qed

subsection \<open>The manager\<close>

lemma exact_host_claim_sends:
  "sends N A P c0 (exact_host_claim N A a h e) (\<lambda>r. \<forall>x. r = Some x \<longrightarrow> host_id x = h)"
  unfolding exact_host_claim_def by (intro sends_intros) auto

lemma exact_host_claim_step [sends_intros]:
  "(\<And>r. (\<And>x. r = Some x \<Longrightarrow> host_id x = h) \<Longrightarrow> sends N A P c0 (f r) Q) \<Longrightarrow>
   sends N A P c0 (bnd (exact_host_claim N A a h e) f) Q"
  by (rule ensures_bnd [OF exact_host_claim_sends]) auto

lemma settle_host_claim_sends:
  assumes "nd_allocator N = Some A" and "H (host_id c)"
  shows "sends N A P c0 (settle_host_claim N A row c final)
    (\<lambda>r. \<forall>s. r = Some s \<longrightarrow> host_id s = host_id c \<and> state s = Cleaned \<and> proof_of s \<noteq> None)"
  unfolding settle_host_claim_def
  by (intro sends_intros settle_step assms) (auto simp: claim_identity_matches_def)

lemma settle_host_claim_step:
  assumes "nd_allocator N = Some A" and "H (host_id c)"
    and "\<And>r. (\<And>s. r = Some s \<Longrightarrow> host_id s = host_id c) \<Longrightarrow> sends N A P c0 (f r) Q"
  shows "sends N A P c0 (bnd (settle_host_claim N A row c final) f) Q"
  by (rule ensures_bnd [OF settle_host_claim_sends [OF assms(1,2)]]) (auto intro: assms(3))

lemma release_assignment_sends:
  assumes N: "nd_allocator N = Some A"
  shows "sends N A P c0 (release_assignment N row) (\<lambda>_. True)"
  unfolding release_assignment_def N option.case by (intro sends_intros TrueI)

lemma absence_sends:
  "sends N A P c0 (screening_inventory N) (\<lambda>_. True)"
  "sends N A P c0 (local_named_absent N u name) (\<lambda>_. True)"
  "sends N A P c0 (screen_resources_absent N i snapshot) (\<lambda>_. True)"
  "sends N A P c0 (local_absent_by_name N u name b n snapshot) (\<lambda>_. True)"
  "sends N A P c0 (local_resources_absent N i snapshot) (\<lambda>_. True)"
proof -
  show "sends N A P c0 (screening_inventory N) (\<lambda>_. True)"
    unfolding screening_inventory_def inventory_or_none_def by (intro sends_intros try_host_step TrueI)
  have l: "sends N A P c0 (local_named_absent N u name) (\<lambda>_. True)" for u name
    unfolding local_named_absent_def by (intro sends_intros TrueI)
  then show "sends N A P c0 (local_named_absent N u name) (\<lambda>_. True)" .
  show "sends N A P c0 (screen_resources_absent N i snapshot) (\<lambda>_. True)"
    unfolding screen_resources_absent_def all_project_absent_def by (intro ensures_keep [OF l] sends_intros TrueI)
  have n: "sends N A P c0 (local_absent_by_name N u name b n snapshot) (\<lambda>_. True)" for u name b n
    unfolding local_absent_by_name_def all_project_absent_def by (intro ensures_keep [OF l] sends_intros TrueI)
  then show "sends N A P c0 (local_absent_by_name N u name b n snapshot) (\<lambda>_. True)" .
  show "sends N A P c0 (local_resources_absent N i snapshot) (\<lambda>_. True)"
    unfolding local_resources_absent_def by (rule n)
qed

lemmas absence_steps [sends_intros] = absence_sends [THEN ensures_keep]

lemma terminal_state_sends: "sends N A P c0 (terminal_release_state N a name) (\<lambda>_. True)"
  unfolding terminal_release_state_def by (intro sends_intros TrueI)

lemma establish_sends:
  "sends N A P c0 (establish_claim N A c h) (\<lambda>r. \<forall>x. r = Some x \<longrightarrow> host_id (snd x) = h)"
  unfolding establish_claim_def by (intro sends_intros) auto

lemma prove_clean_sends:
  assumes N: "nd_allocator N = Some A" and "H (host_id x)"
  shows "sends N A P c0 (prove_claim_clean N A c h row x) (\<lambda>_. True)"
proof -
  have p: "sends N A P c0 (if state x = Possible then bnd (promote_claim N (Some row) x None False) (\<lambda>(_, y). ret y)
      else ret (Some x)) (\<lambda>r. \<forall>y. r = Some y \<longrightarrow> H (host_id y))"
    using assms by (auto intro!: sends_intros promote_step)
  show ?thesis
    unfolding prove_claim_clean_def
    by (rule ensures_bnd [OF p]) (auto intro!: sends_intros settle_host_claim_step N)
qed

lemma permitting_row_sends: "sends N A P c0 (permitting_row N row c) (\<lambda>_. True)"
  unfolding permitting_row_def by (intro sends_intros TrueI)

lemma reconcile_departed_sends:
  assumes N: "nd_allocator N = Some A" and "H (host_id x)" and "H h"
  shows "sends N A P c0 (reconcile_departed N A c h row x snapshot) (\<lambda>_. True)"
proof -
  have r: "sends N A P c0 (retire_proved_claim N A c h row s) (\<lambda>_. True)" for s
    unfolding retire_proved_claim_def
    by (intro sends_intros ensures_keep [OF permitting_row_sends] assms TrueI)
  show ?thesis
    unfolding reconcile_departed_def
    by (intro sends_intros ensures_keep [where m = "handle _ _ _"] prove_clean_sends permitting_row_sends r assms TrueI)
qed

end

section \<open>Releases and the periodic tasks\<close>

locale release_policy = settle_policy +
  assumes release_calls: "releases x \<Longrightarrow> P x"
begin

lemma request_step [sends_intros]:
  "(\<And>i. sends N A P c0 (f i) Q) \<Longrightarrow>
   sends N A P c0 (bnd (on_alloc (request_release A (nd_gateway N) u n a)) f) Q"
  by (rule ensures_keep, rule issued_on_alloc [where x = "CallRequestRelease u n a", OF _ release_calls returns_any])
    simp_all

lemma release_step [sends_intros]:
  "(\<And>b. sends N A P c0 (f b) Q) \<Longrightarrow>
   sends N A P c0 (bnd (on_alloc (release A (nd_gateway N) i)) f) Q"
  by (rule ensures_keep, rule issued_on_alloc [where x = "CallRelease i", OF _ release_calls returns_any])
    simp_all

lemma coordinated_sends:
  "sends N A P c0 (on_alloc (run_coordinated_audit A (nd_gateway N) full)) (\<lambda>_. True)"
  by (rule issued_on_alloc [where x = "CallCoordinatedAudit full", OF _ release_calls returns_any]) simp_all

lemma queue_sends:
  assumes N: "nd_allocator N = Some A" and c: "H (host_id c)"
  shows "sends N A P c0 (queue_failed_build_release N A a c h row snapshot) (\<lambda>_. True)"
proof -
  have res: "sends N A P c0 (resolve_possible_claim N r c) (\<lambda>x. H (host_id x))" for r
    unfolding resolve_possible_claim_def using c by (intro sends_intros promote_step N) auto
  have prove: "sends N A P c0 (prove_failed_build N A a c row snapshot) (\<lambda>_. True)"
    unfolding prove_failed_build_def
    by (intro sends_intros ensures_keep [OF terminal_state_sends] ensures_keep [where m = "case _ of None \<Rightarrow> _ | Some a \<Rightarrow> _ a"]
        remove_attempt_sends ensures_bnd [OF res] settle_host_claim_step N TrueI)
  have fence: "sends N A P c0 (fence_failed_build N A a h name settled) (\<lambda>_. True)" for name settled
    unfolding fence_failed_build_def
    by (intro sends_intros ensures_keep [OF terminal_state_sends] TrueI)
  show ?thesis
    unfolding queue_failed_build_release_def
    by (intro ensures_keep [where m = "handle _ _ _"] sends_intros prove fence TrueI)
qed

lemma reconcile_sends:
  assumes N: "nd_allocator N = Some A" and h: "H h"
  shows "sends N A P c0 (reconcile_host_claim N A c h snapshot) (\<lambda>_. True)"
proof -
  have e: "sends N A P c0 (handle (\<lambda>_. True) (establish_claim N A c h) (\<lambda>_. ret None))
      (\<lambda>r. \<forall>x. r = Some x \<longrightarrow> host_id (snd x) = h)"
    by (intro sends_intros establish_sends) simp
  show ?thesis
    unfolding reconcile_host_claim_def
    by (rule ensures_bnd [OF e])
      (auto intro!: sends_intros try_host_step ensures_keep [OF queue_sends] reconcile_departed_sends N
        simp: h)
qed

lemma list_claims_sends:
  assumes "returns (nd_node_uuid N) H"
  shows "sends N A P c0 (bnd (local_node_uuid N) (\<lambda>h.
      bnd (on_alloc (list_host_claims A (nd_gateway N) h)) (\<lambda>claims. ret (h, claims)))) (\<lambda>r. H (fst r))"
proof -
  have l: "sends N A P c0 (on_alloc (list_host_claims A (nd_gateway N) h)) (\<lambda>_. True)" for h
    by (rule issued_on_alloc [where x = "CallListClaims h", OF _ reads returns_any]) simp_all
  show ?thesis
    unfolding local_node_uuid_def bnd_assoc
    by (intro uuid_step [OF assms]) (auto intro!: sends_intros ensures_keep [OF l])
qed

lemma reconcile_task_sends:
  assumes N: "nd_allocator N = Some A" and h: "returns (nd_node_uuid N) H"
  shows "sends N A P c0 (reconcile_host_claims N cursor) (\<lambda>_. True)"
  unfolding reconcile_host_claims_def N option.case
  by (rule ensures_bnd [OF ensures_try [OF list_claims_sends [OF h]]])
    (auto intro!: sends_intros try_host_step try_step ensures_for_all reconcile_sends N split: sum.splits)

lemma complete_release_sends: "sends N A P c0 (complete_release N A i a) (\<lambda>_. True)"
  unfolding complete_release_def by (intro sends_intros TrueI)

lemma settle_and_retire_sends:
  assumes N: "nd_allocator N = Some A" and h: "H h" and x: "H (host_id x)"
  shows "sends N A P c0 (settle_and_retire N A i h row x) (\<lambda>_. True)"
proof -
  have r: "sends N A P c0 (retire_local_claim N A y z h) (\<lambda>_. True)" for y z
    unfolding retire_local_claim_def by (intro sends_intros h)
  show ?thesis
    unfolding settle_and_retire_def retire_settled_def
    by (intro sends_intros settle_host_claim_step N x ensures_keep [OF r] TrueI)
qed

lemma replay_local_sends:
  assumes N: "nd_allocator N = Some A" and h: "H h"
  shows "sends N A P c0 (replay_local_claim N A i a h row) (\<lambda>_. True)"
proof -
  have p: "sends N A P c0 (if row \<noteq> None \<and> c \<noteq> None \<and> state (the c) = Possible
          then bnd (promote_claim N row (the c) None True) (\<lambda>(_, y). ret y) else ret c)
      (\<lambda>r. \<forall>x. r = Some x \<longrightarrow> H (host_id x))" if "\<And>x. c = Some x \<Longrightarrow> host_id x = h" for c
    using that h N by (auto intro!: sends_intros promote_step)
  show ?thesis
    unfolding replay_local_claim_def
    by (intro sends_intros ensures_bnd [OF p] settle_and_retire_sends N h) auto
qed

lemma replay_authorized_sends:
  assumes N: "nd_allocator N = Some A" and h: "H h"
  shows "sends N A P c0 (replay_authorized N A i a h row) (\<lambda>_. True)"
  unfolding replay_authorized_def
  by (intro ensures_keep [where m = "if _ then _ else _"] sends_intros replay_local_sends assms
      ensures_keep [OF complete_release_sends] TrueI)

lemma retirement_state_step [sends_intros]:
  "(\<And>r. sends N A P c0 (f r) Q) \<Longrightarrow> sends N A P c0 (bnd (nova_retirement_state N i) f) Q"
  unfolding nova_retirement_state_def
  by (rule ensures_keep) (auto intro!: sends_intros try_host_step)

lemma replay_sends:
  assumes N: "nd_allocator N = Some A" and h: "H h"
  shows "sends N A P c0 (replay_release N A i h snapshot) (\<lambda>_. True)"
  unfolding replay_release_def replay_release_body_def
  by (intro sends_intros replay_authorized_sends assms TrueI)

lemma replay_task_sends:
  assumes N: "nd_allocator N = Some A" and h: "returns (nd_node_uuid N) H"
  shows "sends N A P c0 (replay_releases N cursor) (\<lambda>_. True)"
proof -
  have l: "sends N A P c0 (on_alloc (list_release_intents_for_instances A (nd_gateway N) us)) (\<lambda>_. True)" for us
    by (rule issued_on_alloc [where x = "CallIntentsFor us", OF _ reads returns_any]) simp_all
  show ?thesis
    unfolding replay_releases_def N option.case
    by (rule ensures_bnd [OF ensures_try [OF list_claims_sends [OF h]]])
      (auto intro!: sends_intros try_step [OF l] ensures_keep [OF ensures_for_all] replay_sends N
        split: sum.splits)
qed

lemma adopt_all_sends: "sends N A P c0 (adopt_all N A as) (\<lambda>_. True)"
proof (induction as)
  case (Cons a as)
  have "sends N A P c0 (adopt_one N A a) (\<lambda>_. True)"
    unfolding adopt_one_def unclaimed_instance_name_def bnd_assoc bnd_ret by (intro sends_intros TrueI)
  then show ?case
    by (auto intro!: ensures_keep ensures_ret Cons.IH)
qed (simp add: ensures_ret)

lemma adopt_unclaimed_sends: "sends N A P c0 (adopt_unclaimed N A as is cursor) (\<lambda>_. True)"
  unfolding adopt_unclaimed_def by (intro sends_intros ensures_keep [OF adopt_all_sends] TrueI)

lemma replay_unclaimed_sends:
  assumes N: "nd_allocator N = Some A" and h: "returns (nd_node_uuid N) H"
  shows "sends N A P c0 (replay_unclaimed N A as is cursor) (\<lambda>_. True)"
proof -
  have p: "sends N A P c0 (bnd (local_node_uuid N) (\<lambda>h. bnd (screening_inventory N) (\<lambda>snapshot. ret (h, snapshot))))
      (\<lambda>r. H (fst r))"
    unfolding local_node_uuid_def bnd_assoc
    by (intro uuid_step [OF h]) (auto intro!: sends_intros)
  show ?thesis
    unfolding replay_unclaimed_def Let_def
    by (intro ensures_if ensures_ret TrueI ensures_prod, rule ensures_bnd [OF ensures_try [OF p]])
      (auto intro!: sends_intros ensures_keep [OF ensures_for_all] replay_sends N split: sum.splits)
qed

lemma audit_task_sends:
  assumes N: "nd_allocator N = Some A" and h: "returns (nd_node_uuid N) H"
  shows "sends N A P c0 (audit_task N interval now offset later t) (\<lambda>_. True)"
  unfolding audit_task_def N option.case Let_def
  by (auto intro!: sends_intros try_step [OF coordinated_sends] ensures_keep [OF adopt_unclaimed_sends]
      ensures_keep [OF replay_unclaimed_sends [OF N h]] split: prod.splits)

subsection \<open>The final delete\<close>

lemma fence_delete_sends:
  assumes N: "nd_allocator N = Some A"
  shows "sends N A P c0 (fence_final_delete N A row h)
    (\<lambda>r. \<forall>i c. r = Some (i, Some c) \<longrightarrow> host_id c = h)"
  unfolding fence_final_delete_def
  by (intro ensures_keep [OF release_assignment_sends [OF N]] sends_intros) auto

lemma decide_claim_sends:
  assumes N: "nd_allocator N = Some A" and c: "\<And>x. c = Some x \<Longrightarrow> H (host_id x)"
  shows "sends N A P c0 (decide_final_claim N A row c) (\<lambda>_. True)"
  unfolding decide_final_claim_def
  by (intro sends_intros promote_step N ensures_True [OF settle_host_claim_sends [OF N]]) (auto simp: c)

lemma finish_delete_sends:
  assumes N: "nd_allocator N = Some A" and h: "H h"
  shows "sends N A P c0 (finish_final_delete N A row i h c) (\<lambda>_. True)"
proof -
  have e: "sends N A P c0 (case c of None \<Rightarrow> ret None | Some x \<Rightarrow> exact_host_claim N A a h (Some x))
      (\<lambda>r. \<forall>x. r = Some x \<longrightarrow> host_id x = h)" for a
    by (intro sends_intros exact_host_claim_sends) simp
  show ?thesis
    unfolding finish_final_delete_def
    by (intro sends_intros ensures_bnd [OF e] ensures_keep [where m = "case _ of None \<Rightarrow> _ | Some a \<Rightarrow> _ a"]
        settle_and_retire_sends N h ensures_keep [OF complete_release_sends] TrueI) (auto simp: h)
qed

lemma delete_sends:
  assumes N: "nd_allocator N = Some A" and h: "returns (nd_node_uuid N) H"
    and d: "sends N A P c0 nova_delete (\<lambda>_. True)"
  shows "sends N A P c0 (delete_instance N row nova_delete) (\<lambda>_. True)"
proof -
  have f: "sends N A P c0 (handle (\<lambda>_. True) (finish_final_delete N A row i h c) (\<lambda>_. ret ())) (\<lambda>_. True)"
    if "H h" for i h c
    by (intro sends_intros finish_delete_sends N that TrueI)
  show ?thesis
    unfolding delete_instance_def N option.case local_node_uuid_def bnd_assoc
    by (intro uuid_step [OF h])
      (auto intro!: sends_intros ensures_bnd [OF fence_delete_sends [OF N]] ensures_keep [OF decide_claim_sends]
        ensures_keep [OF d] ensures_keep [OF f] d N split: prod.splits)
qed

end

section \<open>Spawning\<close>

lemma root_binding_compute: "returns (root_storage_binding N row a h m d sh) (\<lambda>b. s_compute_id b = h)"
  unfolding root_storage_binding_def
  by (intro ensures_bnd_lift returns_skip ensures_ret) (auto simp: canonical_id_def split: if_splits)

locale spawn_policy = settle_policy +
  assumes place_calls: "places x \<Longrightarrow> P x"
    and makes: "made_host x = Some h \<Longrightarrow> H h \<Longrightarrow> P x"
begin

text \<open>The hosts of a materialization.\<close>

definition placed :: "idmap_materialization \<Rightarrow> bool" where
  "placed z \<longleftrightarrow> H (s_compute_id (mz_binding z)) \<and> H (host_id (mz_claim z))"

lemma claim_call_step [sends_intros]:
  "H h \<Longrightarrow> (\<And>c. sends N A P c0 (f c) Q) \<Longrightarrow>
   sends N A P c0 (bnd (on_alloc (claim A (nd_gateway N) u h m a)) f) Q"
  by (rule ensures_keep, rule issued_on_alloc [where x = "CallClaim u h m a", OF _ makes returns_any])
    simp_all

lemma possible_step [sends_intros]:
  "H h \<Longrightarrow> (\<And>c. sends N A P c0 (f c) Q) \<Longrightarrow>
   sends N A P c0 (bnd (on_alloc (mark_materialization_possible A (nd_gateway N) u h m a)) f) Q"
  by (rule ensures_keep, rule issued_on_alloc [where x = "CallPossible u h m a", OF _ makes returns_any])
    simp_all

lemma ensure_idmap_sends:
  assumes N: "nd_allocator N = Some A"
  shows "sends N A P c0 (ensure_instance_idmap N row b n) (\<lambda>_. True)"
proof -
  have a: "sends N A P c0 (on_alloc (allocate A (nd_gateway N) u b n)) (\<lambda>_. True)" for u b n
    by (rule issued_on_alloc [where x = "CallAllocate u b n", OF _ place_calls returns_any]) simp_all
  have d: "sends N A P c0 (on_alloc (adopt A (nd_gateway N) u b n)) (\<lambda>_. True)" for u b n
    by (rule issued_on_alloc [where x = "CallAdopt u b n", OF _ place_calls returns_any]) simp_all
  have v: "sends N A P c0 (verified_assignment N A row s) (\<lambda>_. True)" for s
    unfolding verified_assignment_def by (intro sends_intros TrueI)
  have r: "sends N A P c0 (resolve_assignment N A row st obs) (\<lambda>_. True)" for st obs
    unfolding resolve_assignment_def
    by (intro sends_intros ensures_keep [where m = "case _ of None \<Rightarrow> _ | Some a \<Rightarrow> _ a"]
        ensures_keep [OF v] a d TrueI)
  have s: "sends N A P c0 (stamp_row N row a) (\<lambda>_. True)" for a
    unfolding stamp_row_def Let_def by (intro sends_intros TrueI)
  show ?thesis
    unfolding ensure_instance_idmap_def N option.case
    by (intro sends_intros ensures_keep [OF r] ensures_keep [OF s] TrueI)
qed

lemma local_config_sends:
  assumes N: "nd_allocator N = Some A"
  shows "sends N A P c0 (claim_from_local_config N row cfg) (\<lambda>_. True)"
  unfolding claim_from_local_config_def N option.case Let_def
  by (intro sends_intros ensures_keep [OF ensure_idmap_sends [OF N]] TrueI)

lemma begin_sends:
  assumes N: "nd_allocator N = Some A" and h: "returns (nd_node_uuid N) H"
  shows "sends N A P c0 (begin_materialization N row m d b n sh) (\<lambda>r. \<forall>z. r = Some z \<longrightarrow> placed z)"
  unfolding begin_materialization_def N option.case
  by (intro uuid_step [OF h] ensures_bnd [OF issued_on_host [OF root_binding_compute]]
      ensures_keep [OF ensure_idmap_sends [OF N]] sends_intros)
    (auto simp: placed_def)

lemma resume_sends:
  assumes N: "nd_allocator N = Some A" and h: "H h"
  shows "sends N A P c0 (resume_materialization N row m h d b n) (\<lambda>r. \<forall>z. r = Some z \<longrightarrow> placed z)"
  unfolding resume_materialization_def N option.case
  by (intro ensures_bnd [OF issued_on_host [OF root_binding_compute]]
      ensures_keep [OF ensure_idmap_sends [OF N]] sends_intros)
    (auto simp: placed_def h)

lemma abort_sends:
  assumes "placed z"
  shows "sends N A P c0 (abort_idmap_materialization N A z) (\<lambda>_. True)"
proof -
  have r: "sends N A P c0 (record_and_ack_proof N A z p) (\<lambda>_. True)" for p
    unfolding record_and_ack_proof_def Let_def using assms
    by (intro sends_intros TrueI) (simp add: placed_def)
  show ?thesis
    unfolding abort_idmap_materialization_def
    by (intro sends_intros ensures_keep [where m = "if _ then _ else _"] r TrueI)
qed

lemma barrier_sends:
  assumes N: "nd_allocator N = Some A"
    and z: "\<And>z. materialization = Some z \<Longrightarrow> placed z"
    and create: "\<And>cfg. sends N A P c0 (create cfg) (\<lambda>_. True)"
    and recover: "\<And>m. recover = Some m \<Longrightarrow> sends N A P c0 m (\<lambda>_. True)"
  shows "sends N A P c0 (with_materialization_barrier N A materialization cfg create recover) (\<lambda>_. True)"
proof -
  have start: "sends N A P c0 (barrier_start N A z (create cfg)) (\<lambda>_. True)" if "placed z" for z cfg
    unfolding barrier_start_def Let_def using that
    by (intro sends_intros ensures_bnd [OF exact_claim_sends] ensures_True [OF ensures_try [OF create]])
      (auto simp: placed_def)
  show ?thesis
    unfolding with_materialization_barrier_def
  proof (cases materialization)
    case (Some y)
    with z have y: "placed y" by simp
    then have hc: "H (host_id (mz_claim y))" by (simp add: placed_def)
    show "sends N A P c0 (case materialization of None \<Rightarrow> create cfg | Some z \<Rightarrow>
          bnd (barrier_start N A z (create (update_all (materialization_config (mz_binding z)) cfg)))
            (\<lambda>result.
          bnd (try_result (on_host (observe_materialization_start (nd_lib N) (nd_storage N) (mz_binding z))))
            (\<lambda>observed.
          case observed of
            Inl e \<Rightarrow> raise (case result of Inl original \<Rightarrow> original | Inr _ \<Rightarrow> e)
          | Inr t \<Rightarrow>
              if at_state t = AttemptCommitted \<and> at_finished t then
                bnd (promote_claim N None (mz_claim z) (Some t) False) (\<lambda>(_, c).
                if c = None \<or> state (the c) \<noteq> Committed then raise IntegrityError
                else case result of
                  Inr r \<Rightarrow> ret r
                | Inl original \<Rightarrow> (case recover of None \<Rightarrow> raise original | Some m \<Rightarrow> m))
              else
                bnd (try_result (abort_idmap_materialization N A z)) (\<lambda>_.
                raise (case result of Inl original \<Rightarrow> original | Inr _ \<Rightarrow> IntegrityError))))) (\<lambda>_. True)"
      unfolding Some option.case
      by (intro ensures_keep [OF start [OF y]] try_host_step sends_intros promote_step [OF N hc]
          try_step [OF abort_sends [OF y]] recover TrueI)
  qed (simp add: create)
qed

end

section \<open>Interpretations\<close>

text \<open>Every call, as far as the registry's invariants are concerned.\<close>

interpretation any_call: release_policy "\<lambda>_. True" "\<lambda>_. True"
  by unfold_locales simp_all

interpretation any_spawn: spawn_policy "\<lambda>_. True" "\<lambda>_. True"
  by unfold_locales simp_all

text \<open>The calls of one host.\<close>

interpretation settling: settle_policy "settling h" "\<lambda>x. x = h" for h
  by unfold_locales (simp_all add: settling_def)

interpretation spawning: spawn_policy "spawning h" "\<lambda>x. x = h" for h
  by unfold_locales (simp_all add: spawning_def settling_def)

interpretation maintaining: release_policy "maintaining h" "\<lambda>x. x = h" for h
  by unfold_locales (simp_all add: maintaining_def settling_def)

text \<open>Reads alone, with no host whose claim may move.\<close>

interpretation read_only: settle_policy reading "\<lambda>_. False"
  by unfold_locales simp_all

end
