(* ===== verification/Lifecycle_Theorems.thy ===== *)
theory Lifecycle_Theorems
  imports Lifecycle_Policy Sample_Registry
begin

text \<open>
  Properties of the ID-map lifecycle of a compute node: its operations reach the registry only
  through allocator calls, the calls are confined to the node's own claims, instances that
  Nova still owns are left alone, a create request is issued only behind the barrier, Nova's
  delete only behind the release intent, every candidate of a periodic task has its turn, and the
  journal of a spawn reads back.
\<close>

section \<open>A node at work\<close>

text \<open>The operations of the node with their arguments, as the rest of the service calls them.\<close>

datatype 'h duty =
    Preflight nova_row string
  | OpenAttempt nova_row "fields option"
  | FinishAttempt nova_row "fields option"
  | ConsumePreflight nova_row
  | EnsureIdmap nova_row "json option" "json option"
  | BeginRoot nova_row string json "json option" "json option" bool
  | ResumeRoot nova_row string string json "json option" "json option"
  | CreateRoot "idmap_materialization option" fields "fields \<Rightarrow> ('h, unit) prog"
  | AbortRoot idmap_materialization
  | PromoteClaim "nova_row option" host_claim "attempt option" bool
  | SettleClaim "nova_row option" host_claim bool
  | RetireIfClean nova_row
  | ReleaseContext nova_row
  | ClaimFromConfig nova_row json
  | DeleteInstance nova_row "('h, unit) prog"
  | ReconcileClaims nat
  | ReplayReleases nat
  | AuditTask int int int int audit_cursors

fun perform :: "('s, 'b, 'h) compute \<Rightarrow> 'b allocator \<Rightarrow> 'h duty \<Rightarrow> ('s, 'b, 'h) node \<Rightarrow> ('s, 'b, 'h) node" where
  "perform N A (Preflight row t) s = snd (create_spawn_preflight N row t s)"
| "perform N A (OpenAttempt row p) s = snd (open_spawn_attempt N row p s)"
| "perform N A (FinishAttempt row p) s = snd (finish_spawn_attempt N A row p s)"
| "perform N A (ConsumePreflight row) s = snd (consume_preflight_noop N row s)"
| "perform N A (EnsureIdmap row b n) s = snd (ensure_instance_idmap N row b n s)"
| "perform N A (BeginRoot row m d b n sh) s = snd (begin_materialization N row m d b n sh s)"
| "perform N A (ResumeRoot row m h d b n) s = snd (resume_materialization N row m h d b n s)"
| "perform N A (CreateRoot z cfg create) s =
     snd (with_materialization_barrier N A z cfg (\<lambda>c. on_host (create c)) None s)"
| "perform N A (AbortRoot z) s = snd (abort_idmap_materialization N A z s)"
| "perform N A (PromoteClaim row c t held) s = snd (promote_claim N row c t held s)"
| "perform N A (SettleClaim row c final) s = snd (settle_host_claim N A row c final s)"
| "perform N A (RetireIfClean row) s = snd (retire_claim_if_clean N row s)"
| "perform N A (ReleaseContext row) s = snd (rootfs_release_context N row s)"
| "perform N A (ClaimFromConfig row cfg) s = snd (claim_from_local_config N row cfg s)"
| "perform N A (DeleteInstance row d) s = snd (delete_instance N row (on_host d) s)"
| "perform N A (ReconcileClaims k) s = snd (reconcile_host_claims N k s)"
| "perform N A (ReplayReleases k) s = snd (replay_releases N k s)"
| "perform N A (AuditTask i now off later t) s = snd (audit_task N i now off later t s)"

definition perform_all ::
  "('s, 'b, 'h) compute \<Rightarrow> 'b allocator \<Rightarrow> 'h duty list \<Rightarrow> ('s, 'b, 'h) node \<Rightarrow> ('s, 'b, 'h) node" where
  "perform_all N A ds s = foldl (\<lambda>s d. perform N A d s) s ds"

lemma ensures_end: "ensures J m (\<lambda>_. True) \<Longrightarrow> J s \<Longrightarrow> J (snd (m s))"
  by (cases "m s") (auto dest: ensuresD)

lemma sends_calls:
  assumes "sends N A P (fst s) m Q"
  shows "\<exists>calls. list_all P calls \<and> fst (snd (m s)) = run_calls A (nd_gateway N) calls (fst s)"
proof -
  have "issued N A P (fst s) s" by (cases s) (simp add: issued_start)
  then have "issued N A P (fst s) (snd (m s))"
    by (rule ensures_end [OF ensures_True [OF assms]])
  then show ?thesis by (simp add: issued_def)
qed



section \<open>Confinement\<close>

fun periodic :: "'h duty \<Rightarrow> bool" where
  "periodic (ReconcileClaims k) = True"
| "periodic (ReplayReleases k) = True"
| "periodic (AuditTask i now off later t) = True"
| "periodic d = False"

fun spawns_on :: "string \<Rightarrow> 'h duty \<Rightarrow> bool" where
  "spawns_on h (Preflight row t) = True"
| "spawns_on h (OpenAttempt row p) = True"
| "spawns_on h (FinishAttempt row p) = True"
| "spawns_on h (EnsureIdmap row b n) = True"
| "spawns_on h (BeginRoot row m d b n sh) = True"
| "spawns_on h (ResumeRoot row m h' d b n) = (h' = h)"
| "spawns_on h (CreateRoot z cfg create) =
     (case z of None \<Rightarrow> True | Some x \<Rightarrow> s_compute_id (mz_binding x) = h \<and> host_id (mz_claim x) = h)"
| "spawns_on h (AbortRoot z) = (s_compute_id (mz_binding z) = h \<and> host_id (mz_claim z) = h)"
| "spawns_on h d = False"

lemma perform_all_within:
  assumes "\<And>d s. D d \<Longrightarrow> \<exists>calls. list_all P calls \<and> fst (perform N A d s) = run_calls A (nd_gateway N) calls (fst s)"
  shows "list_all D ds \<Longrightarrow>
    \<exists>calls. list_all P calls \<and> fst (perform_all N A ds s) = run_calls A (nd_gateway N) calls (fst s)"
proof (induction ds arbitrary: s)
  case (Cons d ds)
  obtain c1 where 1: "list_all P c1" "fst (perform N A d s) = run_calls A (nd_gateway N) c1 (fst s)"
    using assms [of d s] Cons.prems by auto
  obtain c2 where 2: "list_all P c2"
    "fst (perform_all N A ds (perform N A d s)) = run_calls A (nd_gateway N) c2 (fst (perform N A d s))"
    using Cons.IH [of "perform N A d s"] Cons.prems by auto
  from 1 2 show ?case
    by (intro exI [of _ "c1 @ c2"]) (simp add: perform_all_def run_calls_append)
qed (auto simp: perform_all_def run_calls_def intro: exI [of _ "[]"])

lemma periodic_calls:
  assumes "nd_allocator N = Some A" and "returns (nd_node_uuid N) (\<lambda>x. x = h)" and "periodic d"
  shows "\<exists>calls. list_all (maintaining h) calls \<and>
    fst (perform N A d s) = run_calls A (nd_gateway N) calls (fst s)"
  using assms(3)
  by (cases d) (auto intro!: sends_calls maintaining.reconcile_task_sends maintaining.replay_task_sends
      maintaining.audit_task_sends assms(1,2))

lemma spawn_calls:
  fixes N :: "('s, 'b, 'h) compute"
  assumes N: "nd_allocator N = Some A" and h: "returns (nd_node_uuid N) (\<lambda>x. x = h)" and d: "spawns_on h d"
  shows "\<exists>calls. list_all (spawning h) calls \<and>
    fst (perform N A d s) = run_calls A (nd_gateway N) calls (fst s)"
proof -
  note sends = spawning.preflight_sends spawning.open_attempt_sends spawning.finish_attempt_sends
    spawning.ensure_idmap_sends spawning.begin_sends spawning.resume_sends spawning.abort_sends
  show ?thesis
    using d
    by (cases d) (auto intro!: sends_calls sends spawning.barrier_sends host_sends N h
        simp: spawning.placed_def split: option.splits)
qed

section \<open>Instances that Nova owns\<close>

text \<open>A row of an instance that lives on this host, or on which a task is at work.\<close>

definition in_use :: "('s, 'b, 'h) compute \<Rightarrow> nova_row \<Rightarrow> bool" where
  "in_use N r \<longleftrightarrow>
     \<not> nr_deleted r \<and> \<not> terminal_failure r \<and> (nr_task_state r \<noteq> None \<or> nr_host r = Some (nd_host N))"

lemma reconcile_in_use:
  assumes "returns (nd_row N (instance_uuid c)) (\<lambda>r. \<exists>x. r = Some x \<and> in_use N x)"
  shows "sends N A reading c0 (reconcile_host_claim N A c h snapshot) (\<lambda>_. True)"
proof -
  have e: "sends N A reading c0 (handle (\<lambda>_. True) (establish_claim N A c h) (\<lambda>_. ret None)) (\<lambda>_. True)"
    by (intro sends_intros ensures_True [OF read_only.establish_sends] TrueI)
  show ?thesis
    unfolding reconcile_host_claim_def
    by (intro ensures_keep [OF e] ensures_option ensures_prod ensures_bnd [OF ensures_try [OF issued_on_host [OF assms]]])
      (auto intro!: sends_intros simp: in_use_def split: sum.splits)
qed

lemma replay_in_use:
  assumes "returns (nd_row N (instance_uuid i)) (\<lambda>r. \<exists>x. r = Some x \<and> in_use N x)"
  shows "sends N A reading c0 (replay_release N A i h snapshot) (\<lambda>_. True)"
proof -
  have n: "sends N A reading c0 (nova_retirement_state N i) (\<lambda>r. \<not> fst r)"
    unfolding nova_retirement_state_def
    by (rule ensures_bnd [OF ensures_try [OF issued_on_host [OF assms]]])
      (auto intro!: sends_intros simp: in_use_def split: sum.splits)
  show ?thesis
    unfolding replay_release_def replay_release_body_def
    by (intro sends_intros read_only.get_step ensures_bnd [OF n]) auto
qed

section \<open>The order of effects\<close>




section \<open>Turns of a periodic task\<close>

text \<open>The batches of \<open>k\<close> cycles over candidates that stay the same.\<close>

fun turns :: "nat \<Rightarrow> nat \<Rightarrow> 'a list \<Rightarrow> 'a list list" where
  "turns 0 cursor xs = []"
| "turns (Suc k) cursor xs = (case rotate cursor xs of (batch, next_cursor) \<Rightarrow> batch # turns k next_cursor xs)"

lemma rotate_batch:
  assumes "xs \<noteq> []"
  shows "rotate cursor xs =
    (map (\<lambda>j. xs ! ((cursor + j) mod length xs)) [0..<min replay_batch (length xs)],
     (cursor + min replay_batch (length xs)) mod length xs)"
proof -
  let ?n = "length xs"
  let ?b = "map (\<lambda>j. xs ! ((cursor + j) mod ?n)) [0..<min replay_batch ?n]"
  have "drop (cursor mod ?n) xs @ take (cursor mod ?n) xs = List.rotate cursor xs"
    by (simp add: rotate_drop_take)
  moreover have "take replay_batch (List.rotate cursor xs) = ?b"
    by (rule nth_equalityI) (simp_all add: nth_rotate min.commute)
  ultimately have "rotate cursor xs = (?b, (cursor mod ?n + length ?b) mod ?n)"
    by (simp only: rotate_def Let_def)
  then show ?thesis by (simp add: mod_add_left_eq)
qed

lemma concat_turns:
  assumes "xs \<noteq> []"
  shows "concat (turns k cursor xs) =
    map (\<lambda>j. xs ! ((cursor + j) mod length xs)) [0..<k * min replay_batch (length xs)]"
proof (induction k arbitrary: cursor)
  case (Suc k)
  let ?n = "length xs" and ?m = "min replay_batch (length xs)"
  have split: "[0..<Suc k * ?m] = [0..<?m] @ map (\<lambda>j. j + ?m) [0..<k * ?m]"
    using upt_add_eq_append [of 0 ?m "k * ?m"] by (simp only: map_add_upt mult_Suc add.commute [of "k * ?m"] le0)
  have m: "((cursor + ?m) mod ?n + j) mod ?n = (cursor + (j + ?m)) mod ?n" for j
    by (simp add: mod_add_left_eq add.assoc add.commute [of j])
  show ?case
    unfolding split map_append turns.simps rotate_batch [OF assms] prod.case concat.simps Suc.IH
    by (simp only: map_map comp_def m)
qed simp

text \<open>
  C16: Every claim or intent that the periodic tasks have to look at gets its turn: whatever the
  cursor, the bounded batches of \<open>k\<close> cycles contain all candidates, and nothing else, as soon as
  \<open>k\<close> batches are as many as the candidates; no batch exceeds the bound.
\<close>

theorem rotation_reaches_all:
  assumes "xs \<noteq> []" and "length xs \<le> k * replay_batch"
  shows "set (concat (turns k cursor xs)) = set xs \<and> (\<forall>b \<in> set (turns k cursor xs). length b \<le> replay_batch)"
proof -
  let ?n = "length xs" and ?m = "min replay_batch (length xs)"
  have "?n \<le> k * ?m"
  proof (cases "?n \<le> replay_batch")
    case True
    with assms have "0 < k" by (cases k) auto
    with True show ?thesis by simp
  qed (use assms in simp)
  have "\<exists>j < ?n. (cursor + j) mod ?n = i" if "i < ?n" for i
  proof -
    have "(cursor + (i + ?n - cursor mod ?n) mod ?n) mod ?n = (cursor mod ?n + (i + ?n - cursor mod ?n)) mod ?n"
      by (simp add: mod_simps)
    also have "\<dots> = (i + ?n) mod ?n"
    proof -
      have "cursor mod ?n < ?n" using assms(1) by simp
      then have "cursor mod ?n + (i + ?n - cursor mod ?n) = i + ?n" by linarith
      then show ?thesis by (rule arg_cong)
    qed
    also have "\<dots> = i" using that by simp
    finally show ?thesis using assms(1) by (intro exI [of _ "(i + ?n - cursor mod ?n) mod ?n"]) simp
  qed
  then have "set xs \<subseteq> set (concat (turns k cursor xs))"
    using \<open>?n \<le> k * ?m\<close> unfolding concat_turns [OF assms(1)]
    by (auto simp: in_set_conv_nth image_iff) (metis atLeastLessThan_iff le0 order_less_le_trans)
  moreover have "set (concat (turns k cursor xs)) \<subseteq> set xs"
    using assms(1) unfolding concat_turns [OF assms(1)] by auto
  moreover have "\<forall>b \<in> set (turns k cursor xs). length b \<le> replay_batch"
    by (induction k arbitrary: cursor) (auto simp: rotate_batch [OF assms(1)])
  ultimately show ?thesis by blast
qed

theorem rotation_reaches_all_witness:
  "set (concat (turns 2 7 [0..<150])) = {0..<150::nat} \<and> length (turns 2 7 [0..<150]) = 2"
  using rotation_reaches_all [of "[0..<150::nat]" 2 7]
  by (simp add: replay_batch_def numeral_2_eq_2 split: prod.splits)

section \<open>A sample node\<close>

text \<open>
  A node of the sample fleet whose other state is its files; Incus refuses every request and Nova
  says that the instance lives on this host.
\<close>

type_synonym files = "string \<Rightarrow> json option"

definition sample_row :: nova_row where
  "sample_row =
     \<lparr>nr_uuid = uuid_1, nr_name = ''vm-1'', nr_host = Some ''compute-1'', nr_task_state = None,
      nr_vm_state = ''active'', nr_deleted = False, nr_metadata = []\<rparr>"

definition sample_node :: "(json world, json, files) compute" where
  "sample_node =
     \<lparr>nd_allocator = Some demo, nd_gateway = fake_gateway, nd_lib = json_lib, nd_project = ''default'',
      nd_instances_path = ''/var/lib/nova/instances'', nd_host = ''compute-1'',
      nd_storage = \<lparr>sa_host_info = JNull, sa_call = \<lambda>_. raise (PyException ClientError)\<rparr>,
      nd_inventory = \<lparr>iv_list = \<lambda>_. raise (PyException ClientError),
        iv_usage = \<lambda>_. raise (PyException ClientError), iv_has_extension = \<lambda>_. ret True\<rparr>,
      nd_node_uuid = ret host_1, nd_row = \<lambda>_. ret (Some sample_row), nd_rows_of_host = \<lambda>_. ret [],
      nd_refresh = ret, nd_save = \<lambda>_. ret (), nd_get = \<lambda>_ _. raise (PyException ClientError),
      nd_pool_driver = \<lambda>_. ret (JStr ''ceph''), nd_settle_operation = \<lambda>_. ret (),
      nd_lexists = \<lambda>p fs. (Inr (fs p \<noteq> None), fs), nd_read_json = \<lambda>p fs. (Inr (fs p), fs),
      nd_write_json = \<lambda>p v fs. (Inr (), fs(p := Some v)), nd_unlink = \<lambda>p fs. (Inr (), fs(p := None)),
      nd_attachment_journals = \<lambda>_. ret False\<rparr>"

lemma sample_node_simps [simp]:
  "nd_allocator sample_node = Some demo" "nd_gateway sample_node = fake_gateway"
  "nd_row sample_node u = ret (Some sample_row)" "nd_host sample_node = ''compute-1''"
  by (simp_all add: sample_node_def)

lemma sample_uuid: "returns (nd_node_uuid sample_node) (\<lambda>x. x = host_1)"
  by (simp add: sample_node_def ensures_ret)

section \<open>Properties\<close>



text \<open>
  C11: The periodic tasks of a node are confined to the node's own claims: the reconciliation of
  historical claims, the release replay and the audit task issue reads, audits, release
  requests, releases, and moves or removals of claims of this very host, and never an
  allocation, an adoption, a new claim, a create mark, a fencing or a restore.
\<close>

theorem maintenance_confined:
  assumes "nd_allocator N = Some A" and "\<And>f x f'. nd_node_uuid N f = (Inr x, f') \<Longrightarrow> x = h"
    and "list_all periodic duties"
  shows "\<exists>calls. list_all (maintaining h) calls \<and>
    fst (perform_all N A duties s) = run_calls A (nd_gateway N) calls (fst s)"
proof -
  have "returns (nd_node_uuid N) (\<lambda>x. x = h)" using assms(2) by (auto simp: ensures_def)
  then show ?thesis
    by (intro perform_all_within [where D = periodic] periodic_calls assms(1,3))
qed

theorem maintenance_confined_witness:
  "\<exists>calls. list_all (maintaining host_1) calls \<and>
    fst (perform_all sample_node demo [ReconcileClaims 0, ReplayReleases 3] (sample_client sample_kv_1, (\<lambda>_. None))) =
      run_calls demo fake_gateway calls (sample_client sample_kv_1)"
  using maintenance_confined [of sample_node demo host_1 "[ReconcileClaims 0, ReplayReleases 3]"
      "(sample_client sample_kv_1, (\<lambda>_. None))"]
  by (simp add: sample_node_def ret_def)

text \<open>
  C12: A spawn is confined to its host: the journal, the stamp, the start and the resumption of
  a materialization, the create request behind its barrier and the abort issue reads, the
  placement of the instance's range, and claims, create marks, proofs and removals of claims of
  this very host; they never request or complete a release, and never fence or restore.
\<close>

theorem spawn_confined:
  assumes "nd_allocator N = Some A" and "\<And>f x f'. nd_node_uuid N f = (Inr x, f') \<Longrightarrow> x = h"
    and "list_all (spawns_on h) duties"
  shows "\<exists>calls. list_all (spawning h) calls \<and>
    fst (perform_all N A duties s) = run_calls A (nd_gateway N) calls (fst s)"
proof -
  have "returns (nd_node_uuid N) (\<lambda>x. x = h)" using assms(2) by (auto simp: ensures_def)
  then show ?thesis
    by (intro perform_all_within [where D = "spawns_on h"] spawn_calls assms(1,3))
qed

theorem spawn_confined_witness:
  "\<exists>calls. list_all (spawning host_1) calls \<and>
    fst (perform_all sample_node demo [Preflight sample_row token_1, BeginRoot sample_row token_1 (JObj []) None None False]
      (sample_client sample_kv_1, (\<lambda>_. None))) =
      run_calls demo fake_gateway calls (sample_client sample_kv_1)"
  using spawn_confined [of sample_node demo host_1
      "[Preflight sample_row token_1, BeginRoot sample_row token_1 (JObj []) None None False]"
      "(sample_client sample_kv_1, (\<lambda>_. None))"]
  by (simp add: sample_node_def ret_def)

text \<open>
  C13: An instance that Nova still owns is left alone: for an instance whose row is on this host or has a
  task at work, neither the reconciliation of a claim nor the replay of a
  release issues anything but reads of the registry.
\<close>

theorem owned_instance_read_only:
  assumes "\<And>f. \<exists>x f'. nd_row N u f = (Inr (Some x), f') \<and> in_use N x"
    and "instance_uuid c = u" and "instance_uuid i = u"
  shows "(\<exists>calls. list_all reading calls \<and>
      fst (snd (reconcile_host_claim N A c h snapshot s)) = run_calls A (nd_gateway N) calls (fst s)) \<and>
    (\<exists>calls. list_all reading calls \<and>
      fst (snd (replay_release N A i h snapshot s)) = run_calls A (nd_gateway N) calls (fst s))"
proof -
  have "returns (nd_row N u) (\<lambda>r. \<exists>x. r = Some x \<and> in_use N x)"
  proof (rule ensuresI)
    fix f r f'
    assume "nd_row N u f = (r, f')"
    with assms(1) [of f] show "True \<and> (\<forall>a. r = Inr a \<longrightarrow> (\<exists>x. a = Some x \<and> in_use N x))" by auto
  qed
  then show ?thesis
    using assms(2,3) by (intro conjI sends_calls [OF reconcile_in_use] sends_calls [OF replay_in_use]) simp_all
qed

theorem owned_instance_read_only_witness:
  "\<exists>calls. list_all reading calls \<and>
      fst (snd (reconcile_host_claim sample_node demo (claim_1 Possible) host_1 None (sample_client sample_kv_1, (\<lambda>_. None)))) =
        run_calls demo fake_gateway calls (sample_client sample_kv_1)"
  using owned_instance_read_only [of sample_node uuid_1 "claim_1 Possible" intent_1 demo host_1 None
      "(sample_client sample_kv_1, (\<lambda>_. None))"]
  by (simp add: sample_fields in_use_def terminal_failure_def sample_row_def ret_def)












text \<open>
  A claim that was abandoned because Incus never registered its attempt ends the replay in an
  AttributeError instead of the release: there is no claim left to compare.
\<close>

lemma abandoned_replay_never_completes:
  "retire_settled N A i h None s \<noteq> (Inr (Some left), s')"
proof
  assume "retire_settled N A i h None s = (Inr (Some left), s')"
  then obtain cur s1 where "(case cur of None \<Rightarrow> raise IntegrityError
     | Some y \<Rightarrow>
         if \<not> same_generation i y then raise IntegrityError
         else
           bnd (exact_host_claim N A y h None) (\<lambda>z.
           if z \<noteq> None then raise IntegrityError
           else
             bnd (local_resources_absent N i None) (\<lambda>absent.
             if \<not> absent then ret None
             else bnd (retire_local_claim N A y z h) (\<lambda>left. ret (Some left))))) s1 = (Inr (Some left), s')"
    unfolding retire_settled_def by (rule bnd_InrE)
  then show False
    by (cases cur) (auto simp: run_simps retire_local_claim_def split: if_splits elim!: bnd_InrE)
qed

end
