(* ===== verification/Journal_Theorems.thy ===== *)
theory Journal_Theorems
  imports Lifecycle_Theorems
begin

text \<open>
  The journal of a spawn reads back: what is written is accepted by the validation of the read
  and returned as it was, so the record a crashed spawn leaves is the record it wrote.
\<close>

lemma canonical_id_Inr: "canonical_id v = Inr s \<longleftrightarrow> v = JStr s \<and> canonical_uuid s"
  by (cases v) (auto simp: canonical_id_def)

definition generation_values :: "string \<Rightarrow> int \<Rightarrow> int \<Rightarrow> int \<Rightarrow> string \<Rightarrow> fields" where
  "generation_values aid b n slot fp =
     [(''allocation_id'', JStr aid), (''base'', JInt b), (''size'', JInt n),
      (''slot'', JInt slot), (''fingerprint'', JStr fp)]"

lemma attempt_generation_Some:
  "attempt_generation (Some g) = Inr fs \<longleftrightarrow>
     (\<exists>aid b n slot fp. jget g ''allocation_id'' = JStr aid \<and> canonical_uuid aid \<and>
        py_int (jget g ''base'') = Inr b \<and> py_int (jget g ''size'') = Inr n \<and>
        py_int (jget g ''slot'') = Inr slot \<and> jget g ''fingerprint'' = JStr fp \<and>
        0 \<le> b \<and> 0 < n \<and> 0 \<le> slot \<and> length fp = 64 \<and> list_all is_lower_hex fp \<and>
        fs = generation_values aid b n slot fp)"
  by (cases "jget g ''fingerprint''")
    (auto simp: attempt_generation_def rbind_Inr_conv canonical_id_Inr generation_values_def not_less)

lemma attempt_generation_again:
  assumes "attempt_generation g = Inr fs" and "p = front @ fs"
    and "\<And>k. k \<in> set generation_keys \<Longrightarrow> k \<notin> fst ` set front"
  shows "fs = map (\<lambda>k. (k, JNull)) generation_keys \<or>
    list_all (\<lambda>k. jget p k \<noteq> JNull) generation_keys \<and> attempt_generation (Some p) = Inr fs"
proof (cases g)
  case (Some x)
  then obtain aid b n slot fp where fs: "fs = generation_values aid b n slot fp"
    and ok: "canonical_uuid aid" "0 \<le> b" "0 < n" "0 \<le> slot" "length fp = 64" "list_all is_lower_hex fp"
    using assms(1) by (auto simp: attempt_generation_Some)
  have "jget p k = jget fs k" if "k \<in> set generation_keys" for k
  proof -
    have "map_of front k = None" using assms(3) [OF that] by (simp add: map_of_eq_None_iff)
    then show ?thesis by (simp add: jget_def assms(2) map_add_def split: option.split)
  qed
  then have "jget p ''allocation_id'' = JStr aid" "jget p ''base'' = JInt b" "jget p ''size'' = JInt n"
    "jget p ''slot'' = JInt slot" "jget p ''fingerprint'' = JStr fp"
    by (simp_all add: generation_keys_def fs generation_values_def jget_def)
  with ok show ?thesis
    by (simp add: attempt_generation_Some fs generation_keys_def)
qed (use assms in \<open>simp add: attempt_generation_def\<close>)

lemma spawn_payload_valid:
  assumes "spawn_attempt_payload row c a ph g = Inr p"
  shows "validate_spawn_attempt row (JObj p) = Inr p"
proof -
  obtain fs u h t where ph: "ph \<in> {JStr ''preflight'', JStr ''opening''}" and fs: "attempt_generation g = Inr fs"
    and ids: "nr_uuid row = u" "canonical_uuid u" "c = JStr h" "canonical_uuid h" "a = JStr t" "canonical_uuid t"
    and p: "p = [(''version'', JInt 1), (''phase'', ph), (''instance_uuid'', JStr u),
           (''instance_name'', JStr (nr_name row)), (''compute_uuid'', JStr h), (''attempt_uuid'', JStr t)] @ fs"
    using assms by (auto simp: spawn_attempt_payload_def rbind_Inr_conv canonical_id_Inr)
  let ?front = "[(''version'', JInt 1), (''phase'', ph), (''instance_uuid'', JStr u),
           (''instance_name'', JStr (nr_name row)), (''compute_uuid'', JStr h), (''attempt_uuid'', JStr t)]"
  have keys: "map fst fs = generation_keys"
  proof (cases g)
    case None
    with fs show ?thesis by (auto simp: attempt_generation_def generation_keys_def)
  next
    case (Some x)
    with fs show ?thesis by (auto simp: attempt_generation_Some generation_keys_def generation_values_def)
  qed
  then have ks: "key_set p = set attempt_keys"
  proof -
    have "map fst p = attempt_keys" by (simp add: p attempt_keys_def keys)
    then show ?thesis by (simp add: key_set_def flip: set_map)
  qed
  have j: "jget p ''compute_uuid'' = c" "jget p ''attempt_uuid'' = a" "jget p ''phase'' = ph"
    using ids by (simp_all add: p jget_def)
  have pay: "spawn_attempt_payload row c a ph g' = Inr p" if "attempt_generation g' = Inr fs" for g'
    using that ph ids by (simp add: spawn_attempt_payload_def canonical_id_def p)
  have "fs = map (\<lambda>k. (k, JNull)) generation_keys \<or>
      list_all (\<lambda>k. jget p k \<noteq> JNull) generation_keys \<and> attempt_generation (Some p) = Inr fs"
    using fs p by (rule attempt_generation_again) (auto simp: generation_keys_def)
  then show ?thesis
  proof
    assume n: "fs = map (\<lambda>k. (k, JNull)) generation_keys"
    then have "list_all (\<lambda>k. jget p k = JNull) generation_keys"
      by (simp add: p generation_keys_def jget_def)
    moreover have "attempt_generation None = Inr fs" by (simp add: attempt_generation_def n)
    ultimately show ?thesis
      by (simp add: validate_spawn_attempt_def ks j pay)
  next
    assume v: "list_all (\<lambda>k. jget p k \<noteq> JNull) generation_keys \<and> attempt_generation (Some p) = Inr fs"
    then have "\<not> list_all (\<lambda>k. jget p k = JNull) generation_keys"
      "\<not> list_ex (\<lambda>k. jget p k = JNull) generation_keys"
      by (auto simp: generation_keys_def)
    with v show ?thesis by (simp add: validate_spawn_attempt_def ks j pay)
  qed
qed

text \<open>
  The journal of a spawn reads back. On a host whose files keep what is written to them, a
  record of a spawn attempt that was written is found by the next read, validated and returned
  unchanged, in either phase and with or without the generation it belongs to.
\<close>

theorem spawn_attempt_reads_back:
  assumes "\<And>p v f f'. nd_write_json N p v f = (Inr (), f') \<Longrightarrow> nd_read_json N p f' = (Inr (Some v), f')"
    and "write_spawn_attempt N row c a ph expected g f = (Inr q, f')"
  shows "read_spawn_attempt N row f' = (Inr (Some q), f')"
proof -
  from assms(2) obtain f1 where w: "nd_write_json N (spawn_attempt_path N (nr_uuid row)) (JObj q) f1 = (Inr (), f')"
    and q: "spawn_attempt_payload row c a (JStr ph) g = Inr q"
    unfolding write_spawn_attempt_def by (auto elim!: bnd_InrE simp: run_simps)
  from assms(1) [OF w] spawn_payload_valid [OF q] show ?thesis
    by (simp add: read_spawn_attempt_def run_simps)
qed

theorem spawn_attempt_reads_back_witness:
  "\<exists>q f. write_spawn_attempt sample_node sample_row (JStr host_1) (JStr token_1) ''preflight'' None
        (Some (generation_fields alloc_1)) (\<lambda>_. None) = (Inr q, f) \<and>
      read_spawn_attempt sample_node sample_row f = (Inr (Some q), f)"
proof -
  let ?payload = "spawn_attempt_payload sample_row (JStr host_1) (JStr token_1) (JStr ''preflight'')
      (Some (generation_fields alloc_1))"
  have "list_all is_lower_hex (replicate 64 CHR ''0'')" by code_simp
  then have "\<exists>g. attempt_generation (Some (generation_fields alloc_1)) = Inr g"
    by (simp add: attempt_generation_Some generation_fields_def jget_def alloc_1_def sample_alloc_def
        slot_base_def demo_def)
  then obtain q where "?payload = Inr q"
    by (auto simp: spawn_attempt_payload_def canonical_id_def sample_row_def)
  then have w: "write_spawn_attempt sample_node sample_row (JStr host_1) (JStr token_1) ''preflight'' None
        (Some (generation_fields alloc_1)) (\<lambda>_. None) =
      (Inr q, (\<lambda>_. None)(spawn_attempt_path sample_node (nr_uuid sample_row) := Some (JObj q)))"
    by (simp add: write_spawn_attempt_def read_spawn_attempt_def sample_node_def run_simps bnd_def handle_def)
  then show ?thesis
    using spawn_attempt_reads_back [OF _ w] by (fastforce simp: sample_node_def)
qed

end
