(* ===== verification/Incus_Api.thy ===== *)
theory Incus_Api
  imports Compute_Node
begin

text \<open>
  The Incus API as the driver uses it (nova/virt/incus/driver.py): the exceptions of its client
  library with their classification, the requests it sends, the bounded retry and polling
  loops, and operation URLs. The client is a parameter; a recording client logs what is sent.
\<close>

section \<open>Exceptions\<close>

text \<open>
  \<open>ApiFailure reply text missing\<close> is an \<open>LXDAPIException\<close>: its HTTP response, \<open>str()\<close> of it, and
  whether its class is \<open>NotFound\<close>. \<open>TransportFailure\<close> stands for the connection errors and
  timeouts, the next three for \<open>_MigrationStateNotReady\<close>, \<open>_MigrationConditionTimeout\<close> and
  any other \<open>MigrationError\<close>.
\<close>

record http_reply =
  hr_status :: int
  hr_body :: "json option"

datatype incus_error =
    ApiFailure "http_reply option" string bool
  | TransportFailure
  | StateNotReady
  | ConditionTimeout
  | MigrationFailure
  | PreCheckFailure
  | BadConfiguration
  | BadVolume
  | Raised py_exception

type_synonym 'a incus_result = "incus_error + 'a"

definition is_api_failure :: "incus_error \<Rightarrow> bool" where
  "is_api_failure e \<longleftrightarrow> (case e of ApiFailure _ _ _ \<Rightarrow> True | _ \<Rightarrow> False)"

text \<open>A conversion error of Python among the exceptions above.\<close>

fun as_raised :: "idmap_error \<Rightarrow> incus_error" where
  "as_raised (PyException e) = Raised e"
| "as_raised _ = MigrationFailure"

definition to_int :: "json \<Rightarrow> int incus_result" where
  "to_int v = (case py_int v of Inl e \<Rightarrow> Inl (as_raised e) | Inr i \<Rightarrow> Inr i)"

text \<open>\<open>except (TypeError, ValueError)\<close>.\<close>

definition is_value_error :: "incus_error \<Rightarrow> bool" where
  "is_value_error e \<longleftrightarrow> e \<in> {Raised TypeError, Raised ValueError}"

section \<open>The client\<close>

text \<open>
  The requests the driver sends, in the project of its configuration. A reply is the JSON
  body, \<open>None\<close> where it is not JSON; an object of the client library (an instance, a profile, a
  pool) is the mapping of its attributes.
\<close>

datatype incus_request =
    GetAttempt string
  | PutAttempt string fields
  | DeleteAttempt string
  | ListAttempts
  | GetOperation string
  | DeleteOperation string
  | ListOperations
  | WaitOperation string
  | GetInstance string
  | PostInstance fields
  | PutHandover string fields
  | StopInstance string
  | DeleteInstance string
  | GetProfile string
  | SaveProfile string json
  | GetPool json

datatype journal_removal = Removed | Missing | NotEmpty

text \<open>
  \<open>ia_sleep\<close> is the time that passes in a poll, \<open>ia_bad_reply\<close> what the library raises for a
  body that is not JSON or not an object, \<open>ia_netloc_ok\<close> the checks of \<open>urlsplit\<close> on the host
  part of a URL, and the last two read and remove the volume journal directory of an instance.
\<close>

record ('b, 'h) incus_api =
  ia_lib :: "'b lib"
  ia_project :: string
  ia_extensions :: "string list"
  ia_retries :: nat
  ia_netloc_ok :: "string \<Rightarrow> bool"
  ia_bad_reply :: incus_error
  ia_send :: "incus_request \<Rightarrow> ('h, incus_error, json option) eprog"
  ia_sleep :: "'h \<Rightarrow> 'h"
  ia_list_journal :: "string \<Rightarrow> ('h, incus_error, string list option) eprog"
  ia_remove_journal :: "string \<Rightarrow> ('h, incus_error, journal_removal) eprog"

type_synonym ('h, 'a) iprog = "('h, incus_error, 'a) eprog"

definition send :: "('b, 'h) incus_api \<Rightarrow> incus_request \<Rightarrow> ('h, json option) iprog" where
  "send C req = ia_send C req"

text \<open>A request whose reply is not looked at.\<close>

definition perform :: "('b, 'h) incus_api \<Rightarrow> incus_request \<Rightarrow> ('h, unit) iprog" where
  "perform C req = bnd (send C req) (\<lambda>_. ret ())"

definition get_object :: "('b, 'h) incus_api \<Rightarrow> incus_request \<Rightarrow> ('h, fields) iprog" where
  "get_object C req =
     bnd (send C req) (\<lambda>reply. case reply of Some (JObj kvs) \<Rightarrow> ret kvs | _ \<Rightarrow> raise (ia_bad_reply C))"

text \<open>\<open>x.config if isinstance(x.config, dict) else {}\<close>, for any attribute.\<close>

definition dict_attribute :: "fields \<Rightarrow> string \<Rightarrow> fields" where
  "dict_attribute obj k = (case jget obj k of JObj kvs \<Rightarrow> kvs | _ \<Rightarrow> [])"

section \<open>Classification of failures\<close>

definition api_status_code :: "incus_error \<Rightarrow> json" where
  "api_status_code e =
     (case e of
        ApiFailure (Some r) _ _ \<Rightarrow>
          if hr_status r < 200 \<or> 300 \<le> hr_status r then JInt (hr_status r)
          else (case hr_body r of
                  Some (JObj body) \<Rightarrow>
                    (case jget body ''metadata'' of
                       JObj m \<Rightarrow> if py_truthy (jget m ''status_code'') then jget m ''status_code''
                                 else JInt (hr_status r)
                     | _ \<Rightarrow> JInt (hr_status r))
                | _ \<Rightarrow> JInt (hr_status r))
      | _ \<Rightarrow> JNull)"

definition api_error_message :: "'b lib \<Rightarrow> incus_error \<Rightarrow> string" where
  "api_error_message L e =
     (case e of
        ApiFailure None t _ \<Rightarrow> t
      | ApiFailure (Some r) t _ \<Rightarrow>
          (case hr_body r of
             None \<Rightarrow> t
           | Some (JObj body) \<Rightarrow>
               (let err = (case jget body ''metadata'' of JObj m \<Rightarrow> jget m ''err'' | _ \<Rightarrow> JNull);
                    v = jget body ''error''
                in if py_truthy err then py_str L err
                   else if py_truthy v then py_str L v else t)
           | Some v \<Rightarrow> if py_truthy v then py_str L v else t)
      | _ \<Rightarrow> [])"

definition api_not_found :: "incus_error \<Rightarrow> bool" where
  "api_not_found e \<longleftrightarrow>
     (case e of ApiFailure _ _ missing \<Rightarrow> missing \<or> py_eq_int (api_status_code e) 404 | _ \<Rightarrow> False)"

definition api_busy :: "'b lib \<Rightarrow> incus_error \<Rightarrow> bool" where
  "api_busy L e \<longleftrightarrow>
     list_ex (py_eq_int (api_status_code e)) [400, 409] \<and>
     (let m = map lower_char (api_error_message L e) in
      contains_sub ''busy running'' m \<and> contains_sub ''operation'' m \<or>
      contains_sub ''operation is currently running'' m \<or>
      contains_sub ''already has an operation'' m)"

definition api_retryable :: "'b lib \<Rightarrow> incus_error \<Rightarrow> bool" where
  "api_retryable L e \<longleftrightarrow>
     e = TransportFailure \<or>
     is_api_failure e \<and>
       (api_busy L e \<or> list_ex (py_eq_int (api_status_code e)) [408, 429, 500, 502, 503, 504])"

section \<open>Bounded loops\<close>

text \<open>
  \<open>n\<close> is the number of attempts left after this one. The configuration has at least one
  attempt in all.
\<close>

fun retry_loop ::
  "('b, 'h) incus_api \<Rightarrow> (incus_error \<Rightarrow> bool) \<Rightarrow> ('h, 'a) iprog \<Rightarrow> nat \<Rightarrow> ('h, 'a) iprog" where
  "retry_loop C p m 0 = m"
| "retry_loop C p m (Suc n) =
     handle p m (\<lambda>_. bnd (modify (ia_sleep C)) (\<lambda>_. retry_loop C p m n))"

definition retry_finish_action :: "('b, 'h) incus_api \<Rightarrow> ('h, 'a) iprog \<Rightarrow> ('h, 'a) iprog" where
  "retry_finish_action C m = retry_loop C (api_retryable (ia_lib C)) m (ia_retries C - 1)"

definition retry_instance_action :: "('b, 'h) incus_api \<Rightarrow> bool \<Rightarrow> ('h, 'a) iprog \<Rightarrow> ('h, 'a) iprog" where
  "retry_instance_action C retry_transient m =
     retry_loop C
       (if retry_transient then api_retryable (ia_lib C)
        else (\<lambda>e. is_api_failure e \<and> api_busy (ia_lib C) e)) m (ia_retries C - 1)"

text \<open>A condition that is not ready when the attempts are used up is a timeout.\<close>

definition wait_finish_condition :: "('b, 'h) incus_api \<Rightarrow> ('h, 'a) iprog \<Rightarrow> ('h, 'a) iprog" where
  "wait_finish_condition C m =
     handle (\<lambda>e. e = StateNotReady)
       (retry_loop C (\<lambda>e. e = StateNotReady \<or> api_retryable (ia_lib C) e) m (ia_retries C - 1))
       (\<lambda>_. raise ConditionTimeout)"

section \<open>Operations\<close>

text \<open>
  \<open>urlsplit(url).path\<close>, with a ValueError for a host part that is refused; strings are taken as
  the bytes of their UTF-8 form.
\<close>

definition url_scheme_end :: "string \<Rightarrow> string option" where
  "url_scheme_end s =
     (case split_on CHR '':'' s of
        scheme # rest # parts \<Rightarrow>
          if scheme \<noteq> [] \<and> word_char (hd scheme) \<and> \<not> is_digit (hd scheme)
             \<and> list_all (\<lambda>c. word_char c \<or> c \<in> set ''+-.'') scheme
          then Some (join_on CHR '':'' (rest # parts)) else None
      | _ \<Rightarrow> None)"

definition url_path :: "('b, 'h) incus_api \<Rightarrow> string \<Rightarrow> string incus_result" where
  "url_path C url =
     (let s = filter (\<lambda>c. c \<notin> set [CHR 0x09, CHR 0x0A, CHR 0x0D])
                (dropWhile (\<lambda>c. (of_char c :: nat) \<le> 32) url);
          t = (case url_scheme_end s of None \<Rightarrow> s | Some rest \<Rightarrow> rest);
          host = takeWhile (\<lambda>c. c \<notin> set ''/?#'') (drop 2 t);
          named = starts_with ''//'' t;
          p = (if named then drop (2 + length host) t else t)
      in if named \<and> \<not> ia_netloc_ok C host then Inl (Raised ValueError)
         else Inr (takeWhile (\<lambda>c. c \<noteq> CHR ''?'' \<and> c \<noteq> CHR ''#'') p))"

definition basename :: "string \<Rightarrow> string" where
  "basename path = last (split_on CHR ''/'' path)"

definition hex_val :: "char \<Rightarrow> nat" where
  "hex_val c =
     (let n = (of_char (lower_char c) :: nat) in if is_digit c then n - 48 else n - 87)"

text \<open>\<open>unquote\<close>: the decoded bytes, whose ill-formed UTF-8 sequences no instance name has.\<close>

fun unquote :: "string \<Rightarrow> string" where
  "unquote (c # a # b # s) =
     (if c = CHR ''%'' \<and> is_hex a \<and> is_hex b
      then char_of (16 * hex_val a + hex_val b) # unquote s
      else c # unquote (a # b # s))"
| "unquote s = s"

text \<open>\<open>is_uuid_like\<close> of any value, and the validated UUID of an operation's URL.\<close>

definition uuid_like_value :: "json \<Rightarrow> bool" where
  "uuid_like_value v \<longleftrightarrow> (case v of JStr s \<Rightarrow> is_uuid_like s | _ \<Rightarrow> False)"

definition migration_operation_id :: "('b, 'h) incus_api \<Rightarrow> json \<Rightarrow> string option incus_result" where
  "migration_operation_id C v =
     (case v of
        JStr (c # s) \<Rightarrow>
          rbind (url_path C (c # s)) (\<lambda>p.
          Inr (if is_uuid_like (basename p) then Some (basename p) else None))
      | _ \<Rightarrow> Inr None)"

text \<open>Iteration over a value: the elements of a list, the keys of a dict, the characters of a string.\<close>

definition iterate :: "json \<Rightarrow> json list incus_result" where
  "iterate v =
     (case v of JList xs \<Rightarrow> Inr xs | JObj kvs \<Rightarrow> Inr (map (JStr \<circ> fst) kvs)
      | JStr s \<Rightarrow> Inr (map (\<lambda>c. JStr [c]) s) | _ \<Rightarrow> Inl (Raised TypeError))"

fun names_instance :: "('b, 'h) incus_api \<Rightarrow> string \<Rightarrow> json list \<Rightarrow> bool incus_result" where
  "names_instance C name [] = Inr False"
| "names_instance C name (v # vs) =
     (case v of
        JStr url \<Rightarrow>
          rbind (url_path C url) (\<lambda>p.
          if unquote (basename p) = name then Inr True else names_instance C name vs)
      | _ \<Rightarrow> names_instance C name vs)"

definition operation_targets_instance ::
  "('b, 'h) incus_api \<Rightarrow> fields \<Rightarrow> string \<Rightarrow> bool incus_result" where
  "operation_targets_instance C operation name =
     (let resources = jget operation ''resources'' in
      if \<not> py_truthy resources then Inr False
      else case resources of
        JObj r \<Rightarrow>
          if py_truthy (jget r ''instances'')
          then rbind (iterate (jget r ''instances'')) (names_instance C name) else Inr False
      | _ \<Rightarrow> Inr False)"

definition operation_is_terminal :: "fields \<Rightarrow> bool incus_result" where
  "operation_is_terminal operation =
     (case to_int (jget operation ''status_code'') of
        Inr n \<Rightarrow> Inr (200 \<le> n)
      | Inl e \<Rightarrow>
          if is_value_error e
          then Inr (jget operation ''status'' \<in>
                      {JStr ''Success'', JStr ''Failure'', JStr ''Cancelled'', JStr ''Canceled''})
          else Inl e)"

text \<open>\<open>response.json().get(k)\<close>.\<close>

definition body_field :: "('b, 'h) incus_api \<Rightarrow> json option \<Rightarrow> string \<Rightarrow> json incus_result" where
  "body_field C reply k =
     (case reply of
        None \<Rightarrow> Inl (ia_bad_reply C)
      | Some (JObj body) \<Rightarrow> Inr (jget body k)
      | Some _ \<Rightarrow> Inl (Raised AttributeError))"

definition incus_operation :: "('b, 'h) incus_api \<Rightarrow> string \<Rightarrow> ('h, fields) iprog" where
  "incus_operation C i =
     bnd (send C (GetOperation i)) (\<lambda>reply.
     bnd (lift (body_field C reply ''metadata'')) (\<lambda>v.
     case v of JObj kvs \<Rightarrow> ret kvs | _ \<Rightarrow> raise MigrationFailure))"

text \<open>The operation's record while it is active, \<open>None\<close> once it is terminal or gone.\<close>

definition live_operation :: "('b, 'h) incus_api \<Rightarrow> string \<Rightarrow> ('h, fields option) iprog" where
  "live_operation C i =
     bnd (handle api_not_found (bnd (incus_operation C i) (\<lambda>op. ret (Some op))) (\<lambda>_. ret None)) (\<lambda>found.
     case found of
       None \<Rightarrow> ret None
     | Some op \<Rightarrow>
         bnd (lift (operation_is_terminal op)) (\<lambda>terminal. ret (if terminal then None else Some op)))"

text \<open>Cancel one active operation where Incus allows it, and poll until it is terminal or gone.\<close>

definition await_operation :: "('b, 'h) incus_api \<Rightarrow> string \<Rightarrow> ('h, unit) iprog" where
  "await_operation C i =
     wait_finish_condition C
       (bnd (live_operation C i) (\<lambda>op. if op = None then ret () else raise StateNotReady))"

definition end_operation :: "('b, 'h) incus_api \<Rightarrow> string \<Rightarrow> fields \<Rightarrow> ('h, unit) iprog" where
  "end_operation C i op =
     bnd (if py_truthy (jget op ''may_cancel'')
          then handle api_not_found (perform C (DeleteOperation i)) (\<lambda>_. ret ()) else ret ()) (\<lambda>_.
     await_operation C i)"

definition settle_incus_operation :: "('b, 'h) incus_api \<Rightarrow> json \<Rightarrow> ('h, unit) iprog" where
  "settle_incus_operation C operation_id =
     bnd (lift (migration_operation_id C operation_id)) (\<lambda>i.
     case i of
       None \<Rightarrow> ret ()
     | Some i \<Rightarrow>
         bnd (live_operation C i) (\<lambda>op. case op of None \<Rightarrow> ret () | Some op \<Rightarrow> end_operation C i op))"

text \<open>The active operations of one instance: the dict comprehension keeps the last of an id.\<close>

fun active_operations ::
  "('b, 'h) incus_api \<Rightarrow> string \<Rightarrow> json list \<Rightarrow> fields dict \<Rightarrow> fields dict incus_result" where
  "active_operations C name [] acc = Inr acc"
| "active_operations C name (v # vs) acc =
     (case v of
        JObj op \<Rightarrow>
          (case jget op ''id'' of
             JStr i \<Rightarrow>
               rbind (operation_targets_instance C op name) (\<lambda>ours.
               rbind (if ours then operation_is_terminal op else Inr True) (\<lambda>terminal.
               active_operations C name vs (if terminal then acc else AList.update i op acc)))
           | _ \<Rightarrow> active_operations C name vs acc)
      | _ \<Rightarrow> active_operations C name vs acc)"

definition listed_operations ::
  "('b, 'h) incus_api \<Rightarrow> string \<Rightarrow> json option \<Rightarrow> fields dict incus_result" where
  "listed_operations C name reply =
     rbind (body_field C reply ''metadata'') (\<lambda>v.
     case (if py_truthy v then v else JObj []) of
       JObj grouped \<Rightarrow>
         (case those (map (as_list \<circ> snd) grouped) of
            None \<Rightarrow> Inl MigrationFailure
          | Some groups \<Rightarrow> active_operations C name (concat groups) [])
     | _ \<Rightarrow> Inl MigrationFailure)"

definition instance_migration_operations ::
  "('b, 'h) incus_api \<Rightarrow> string \<Rightarrow> ('h, fields dict) iprog" where
  "instance_migration_operations C name =
     bnd (send C ListOperations) (\<lambda>reply. lift (listed_operations C name reply))"

text \<open>The operations to settle: those listed, and those the caller names that are active.\<close>

fun add_named_operations ::
  "('b, 'h) incus_api \<Rightarrow> json list \<Rightarrow> fields dict \<Rightarrow> ('h, fields dict) iprog" where
  "add_named_operations C [] pending = ret pending"
| "add_named_operations C (v # vs) pending =
     bnd (lift (migration_operation_id C v)) (\<lambda>i.
     case i of
       None \<Rightarrow> add_named_operations C vs pending
     | Some i \<Rightarrow>
         if has_key pending i then add_named_operations C vs pending
         else
           bnd (live_operation C i) (\<lambda>op.
           add_named_operations C vs (case op of None \<Rightarrow> pending | Some op \<Rightarrow> pending @ [(i, op)])))"

fun end_operations :: "('b, 'h) incus_api \<Rightarrow> fields dict \<Rightarrow> ('h, unit) iprog" where
  "end_operations C [] = ret ()"
| "end_operations C ((i, op) # rest) = bnd (end_operation C i op) (\<lambda>_. end_operations C rest)"

text \<open>The second listing is the barrier before absence is accepted as proof.\<close>

definition settle_migration_operations ::
  "('b, 'h) incus_api \<Rightarrow> string \<Rightarrow> json list \<Rightarrow> ('h, unit) iprog" where
  "settle_migration_operations C name operation_ids =
     bnd (instance_migration_operations C name) (\<lambda>pending.
     bnd (add_named_operations C operation_ids pending) (\<lambda>pending.
     bnd (end_operations C pending) (\<lambda>_.
     bnd (instance_migration_operations C name) (\<lambda>remaining.
     if remaining \<noteq> [] then raise MigrationFailure else ret ()))))"

section \<open>A client that records its requests\<close>

type_synonym exchange = "incus_request \<times> (incus_error + json option)"

definition recorded :: "('b, 'h) incus_api \<Rightarrow> ('b, 'h \<times> exchange list) incus_api" where
  "recorded C =
     \<lparr>ia_lib = ia_lib C, ia_project = ia_project C, ia_extensions = ia_extensions C,
      ia_retries = ia_retries C, ia_netloc_ok = ia_netloc_ok C, ia_bad_reply = ia_bad_reply C,
      ia_send = (\<lambda>req (w, l). case ia_send C req w of (r, w') \<Rightarrow> (r, (w', l @ [(req, r)]))),
      ia_sleep = (\<lambda>(w, l). (ia_sleep C w, l)),
      ia_list_journal = (\<lambda>u (w, l). case ia_list_journal C u w of (r, w') \<Rightarrow> (r, (w', l))),
      ia_remove_journal = (\<lambda>u (w, l). case ia_remove_journal C u w of (r, w') \<Rightarrow> (r, (w', l)))\<rparr>"

end
