(* ===== verification/Migration_Attempts.thy ===== *)
theory Migration_Attempts
  imports Incus_Api
begin

text \<open>
  Migration attempts (nova/virt/incus/driver.py): the token that fences the creation of one
  migration target on Incus. Its record is read and validated, registered, aborted, settled,
  retired, and a receive is started under it; a lost response is recovered from the record.
\<close>

section \<open>The instance that moves\<close>

abbreviation cleanup_token_key :: string where
  "cleanup_token_key \<equiv> ''user.openstack.migration_cleanup_token''"

abbreviation volumes_complete_key :: string where
  "volumes_complete_key \<equiv> ''user.openstack.migration_target_volumes_complete''"

abbreviation nova_migration_key :: string where
  "nova_migration_key \<equiv> ''user.openstack.migration_uuid''"

abbreviation target_operation_key :: string where
  "target_operation_key \<equiv> ''user.openstack.migration_target_operation_id''"

abbreviation owner_key :: string where
  "owner_key \<equiv> ''user.openstack.uuid''"

text \<open>The first truthy value of several \<open>or\<close> operands, the last one if none is.\<close>

fun first_truthy :: "json list \<Rightarrow> json" where
  "first_truthy [] = JNull"
| "first_truthy [v] = v"
| "first_truthy (v # vs) = (if py_truthy v then v else first_truthy vs)"

text \<open>The fixed ID map of a source: its instance and profile may be missing.\<close>

definition instance_migration_idmap :: "fields \<Rightarrow> fields \<Rightarrow> (int \<times> int) incus_result" where
  "instance_migration_idmap container profile =
     (let config = dict_attribute container ''config'';
          expanded = dict_attribute container ''expanded_config'';
          settings = dict_attribute profile ''config'';
          base = first_truthy
            [jget config ''volatile.idmap.base'', jget config ''security.idmap.base'',
             jget expanded ''volatile.idmap.base'', jget expanded ''security.idmap.base'',
             jget settings ''security.idmap.base''];
          sz = first_truthy
            [jget config ''security.idmap.size'', jget expanded ''security.idmap.size'',
             jget settings ''security.idmap.size'', JInt 65536];
          sz' = (case sz of JStr s \<Rightarrow> if map lower_char s = ''auto'' then JInt 65536 else sz | _ \<Rightarrow> sz)
      in rbind (except_r is_value_error PreCheckFailure
                  (rbind (to_int base) (\<lambda>b. rbind (to_int sz') (\<lambda>n. Inr (b, n))))) (\<lambda>(b, n).
         if b < 0 \<or> n \<le> 0 then Inl PreCheckFailure else Inr (b, n)))"

definition hashable :: "json \<Rightarrow> bool" where
  "hashable v \<longleftrightarrow> (case v of JList _ \<Rightarrow> False | JObj _ \<Rightarrow> False | _ \<Rightarrow> True)"

definition instance_nova_uuid :: "fields \<Rightarrow> json incus_result" where
  "instance_nova_uuid container =
     (let owners = filter py_truthy
            (map (\<lambda>k. jget (dict_attribute container k) owner_key) [''expanded_config'', ''config''])
      in if \<not> list_all hashable owners then Inl (Raised TypeError)
         else Inr (case owners of
             [v] \<Rightarrow> v
           | [v, w] \<Rightarrow> if py_equal v w then v else JNull
           | _ \<Rightarrow> JNull))"

section \<open>Records of attempts\<close>

definition attempt_fencing_extension :: string where
  "attempt_fencing_extension = ''migration_attempt_fencing''"

definition require_attempt_fencing :: "('b, 'h) incus_api \<Rightarrow> ('h, unit) iprog" where
  "require_attempt_fencing C =
     lift (check (attempt_fencing_extension \<in> set (ia_extensions C)) MigrationFailure)"

definition attempt_metadata :: "json option \<Rightarrow> fields incus_result" where
  "attempt_metadata reply =
     (case reply of
        Some (JObj body) \<Rightarrow> (case jget body ''metadata'' of JObj m \<Rightarrow> Inr m | _ \<Rightarrow> Inl MigrationFailure)
      | _ \<Rightarrow> Inl MigrationFailure)"

definition attempt_list_metadata :: "json option \<Rightarrow> json list incus_result" where
  "attempt_list_metadata reply =
     (case reply of
        Some (JObj body) \<Rightarrow> (case jget body ''metadata'' of JList xs \<Rightarrow> Inr xs | _ \<Rightarrow> Inl MigrationFailure)
      | _ \<Rightarrow> Inl MigrationFailure)"

text \<open>
  The fencing identity of a target: the instance, its token and its fixed ID map, which the
  operations of the code take as four arguments.
\<close>

record migration_target =
  mt_uuid :: string
  mt_name :: string
  mt_token :: string
  mt_base :: int
  mt_size :: int

definition validate_attempt ::
  "('b, 'h) incus_api \<Rightarrow> migration_target \<Rightarrow> fields \<Rightarrow> fields incus_result" where
  "validate_attempt C T attempt =
     rbind (check (jget attempt ''token'' = JStr (mt_token T) \<and>
                   jget attempt ''project'' = JStr (ia_project C) \<and>
                   jget attempt ''resource_type'' = JStr ''instance'' \<and>
                   jget attempt ''resource_name'' = JStr (mt_name T)) MigrationFailure) (\<lambda>_.
     rbind (except_r is_value_error MigrationFailure
              (rbind (to_int (jget attempt ''idmap_base'')) (\<lambda>b.
               rbind (to_int (jget attempt ''idmap_size'')) (\<lambda>n. Inr (b, n))))) (\<lambda>idmap.
     rbind (check (idmap = (mt_base T, mt_size T)) MigrationFailure) (\<lambda>_.
     rbind (check (jget attempt ''state'' \<in>
                     {JStr ''active'', JStr ''aborted'', JStr ''committed'', JStr ''failed''})
              MigrationFailure) (\<lambda>_.
     Inr attempt))))"

definition has_state :: "fields \<Rightarrow> string \<Rightarrow> bool" where
  "has_state attempt s \<longleftrightarrow> jget attempt ''state'' = JStr s"

definition is_finished :: "fields \<Rightarrow> bool" where
  "is_finished attempt \<longleftrightarrow> py_truthy (jget attempt ''finished'')"

definition read_reply ::
  "('b, 'h) incus_api \<Rightarrow> migration_target \<Rightarrow> json option \<Rightarrow> fields incus_result" where
  "read_reply C T reply = rbind (attempt_metadata reply) (validate_attempt C T)"

definition get_attempt :: "('b, 'h) incus_api \<Rightarrow> migration_target \<Rightarrow> ('h, fields) iprog" where
  "get_attempt C T =
     bnd (require_attempt_fencing C) (\<lambda>_.
     bnd (send C (GetAttempt (mt_token T))) (\<lambda>reply.
     lift (read_reply C T reply)))"

definition register_attempt :: "('b, 'h) incus_api \<Rightarrow> migration_target \<Rightarrow> ('h, fields) iprog" where
  "register_attempt C T =
     bnd (lift (check (is_uuid_like (mt_token T)) MigrationFailure)) (\<lambda>_.
     bnd (require_attempt_fencing C) (\<lambda>_.
     bnd (send C (PutAttempt (mt_token T)
            [(''state'', JStr ''active''), (''resource_type'', JStr ''instance''),
             (''resource_name'', JStr (mt_name T)), (''idmap_base'', JInt (mt_base T)),
             (''idmap_size'', JInt (mt_size T))])) (\<lambda>reply.
     bnd (lift (read_reply C T reply)) (\<lambda>attempt.
     if \<not> has_state attempt ''active'' then raise MigrationFailure else ret attempt))))"

text \<open>\<open>_destination_prepared_profile_binding\<close> on the config of a profile.\<close>

definition prepared_profile_target :: "string \<Rightarrow> json \<Rightarrow> (migration_target \<times> string) incus_result" where
  "prepared_profile_target name config =
     (case config of
        JObj c \<Rightarrow>
          (case (jget c owner_key, jget c cleanup_token_key, jget c nova_migration_key) of
             (JStr u, JStr token, JStr migration) \<Rightarrow>
               if jget c ''environment.product_name'' \<noteq> JStr ''OpenStack Nova'' \<or>
                  \<not> is_uuid_like u \<or> \<not> is_uuid_like token \<or> \<not> is_uuid_like migration \<or>
                  jget c ''user.openstack.migration_destination_prepared'' \<noteq> JStr token \<or>
                  py_truthy (jget c ''user.openstack.migration_destination_address'')
               then Inl MigrationFailure
               else
                 rbind (except_r is_value_error MigrationFailure
                          (rbind (to_int (jget c ''security.idmap.base'')) (\<lambda>b.
                           rbind (to_int (jget c ''security.idmap.size'')) (\<lambda>n. Inr (b, n))))) (\<lambda>(b, n).
                 if b < 0 \<or> n \<le> 0 then Inl MigrationFailure
                 else Inr (\<lparr>mt_uuid = u, mt_name = name, mt_token = token, mt_base = b, mt_size = n\<rparr>,
                           migration))
           | _ \<Rightarrow> Inl MigrationFailure)
      | _ \<Rightarrow> Inl MigrationFailure)"

section \<open>Reservations that never started\<close>

record reservation =
  rv_token :: string
  rv_name :: json
  rv_base :: int
  rv_size :: int

definition unstarted_reservation ::
  "('b, 'h) incus_api \<Rightarrow> json \<Rightarrow> reservation option incus_result" where
  "unstarted_reservation C v =
     (case v of
        JObj a \<Rightarrow>
          if \<not> has_state a ''active'' \<or> py_truthy (jget a ''started'') \<or> is_finished a \<or>
             \<not> py_truthy (jget a ''idmap_active'') \<or> jget a ''project'' \<noteq> JStr (ia_project C) \<or>
             jget a ''resource_type'' \<noteq> JStr ''instance''
          then Inr None
          else (case jget a ''token'' of
             JStr t \<Rightarrow>
               if \<not> is_uuid_like t \<or> \<not> py_truthy (jget a ''resource_name'') then Inr None
               else (case rbind (to_int (jget a ''idmap_base'')) (\<lambda>b.
                          rbind (to_int (jget a ''idmap_size'')) (\<lambda>n. Inr (b, n))) of
                   Inr (b, n) \<Rightarrow>
                     Inr (if b < 0 \<or> n \<le> 0 then None
                          else Some \<lparr>rv_token = t, rv_name = jget a ''resource_name'', rv_base = b, rv_size = n\<rparr>)
                 | Inl e \<Rightarrow> if is_value_error e then Inr None else Inl e)
           | _ \<Rightarrow> Inr None)
      | _ \<Rightarrow> Inr None)"

definition same_reservation :: "reservation \<Rightarrow> reservation \<Rightarrow> bool" where
  "same_reservation p q \<longleftrightarrow>
     rv_token p = rv_token q \<and> py_equal (rv_name p) (rv_name q) \<and>
     rv_base p = rv_base q \<and> rv_size p = rv_size q"

definition attempt_list_extension :: string where
  "attempt_list_extension = ''migration_attempt_reservation_generation''"

definition list_unstarted_reservations :: "('b, 'h) incus_api \<Rightarrow> ('h, reservation list) iprog" where
  "list_unstarted_reservations C =
     (if attempt_list_extension \<notin> set (ia_extensions C) then ret []
      else
        bnd (send C ListAttempts) (\<lambda>reply.
        bnd (lift (rbind (attempt_list_metadata reply) (map_result (unstarted_reservation C)))) (\<lambda>found.
        ret (sort_key rv_token (List.map_filter id found)))))"

definition release_unstarted_attempt ::
  "('b, 'h) incus_api \<Rightarrow> reservation \<Rightarrow> ('h, unit) iprog" where
  "release_unstarted_attempt C candidate =
     bnd (require_attempt_fencing C) (\<lambda>_.
     bnd (send C (GetAttempt (rv_token candidate))) (\<lambda>reply.
     bnd (lift (rbind (attempt_metadata reply) (\<lambda>m. unstarted_reservation C (JObj m)))) (\<lambda>current.
     if \<not> (case current of None \<Rightarrow> False | Some r \<Rightarrow> same_reservation r candidate) then raise MigrationFailure
     else
       bnd (send C (PutAttempt (rv_token candidate) [(''state'', JStr ''aborted'')])) (\<lambda>reply.
       bnd (lift (attempt_metadata reply)) (\<lambda>attempt.
       if jget attempt ''token'' \<noteq> JStr (rv_token candidate) \<or>
          \<not> py_equal (jget attempt ''resource_name'') (rv_name candidate) \<or>
          \<not> (has_state attempt ''aborted'' \<or> has_state attempt ''failed'') \<or>
          \<not> is_finished attempt
       then raise MigrationFailure
       else perform C (DeleteAttempt (rv_token candidate)))))))"

section \<open>Aborting, retiring and finalizing\<close>

definition wait_attempt_finished ::
  "('b, 'h) incus_api \<Rightarrow> migration_target \<Rightarrow> string list \<Rightarrow> ('h, fields) iprog" where
  "wait_attempt_finished C T states =
     wait_finish_condition C
       (bnd (get_attempt C T) (\<lambda>attempt.
        if has_state attempt ''committed'' then ret attempt
        else if \<not> list_ex (has_state attempt) states \<or> \<not> is_finished attempt then raise StateNotReady
        else ret attempt))"

text \<open>The fence: a 409 is a commit race only after an exact read of the record proves it.\<close>

definition abort_request :: "migration_target \<Rightarrow> incus_request" where
  "abort_request T = PutAttempt (mt_token T) [(''state'', JStr ''aborted'')]"

definition fence_attempt :: "('b, 'h) incus_api \<Rightarrow> migration_target \<Rightarrow> ('h, fields) iprog" where
  "fence_attempt C T =
     bnd (require_attempt_fencing C) (\<lambda>_.
     handle is_api_failure
       (bnd (send C (abort_request T)) (\<lambda>reply. lift (read_reply C T reply)))
       (\<lambda>e. if \<not> py_eq_int (api_status_code e) 409 then raise e
            else bnd (get_attempt C T) (\<lambda>attempt.
              if has_state attempt ''committed'' then ret attempt else raise e)))"

definition terminal_abort :: "fields \<Rightarrow> bool" where
  "terminal_abort attempt \<longleftrightarrow> has_state attempt ''aborted'' \<or> has_state attempt ''failed''"

text \<open>
  The record of an operation that an incusd restart lost is settled on request, once the
  target instance is proved absent.
\<close>

definition settle_lost_attempt :: "('b, 'h) incus_api \<Rightarrow> migration_target \<Rightarrow> ('h, fields) iprog" where
  "settle_lost_attempt C T =
     bnd (try_result (get_object C (GetInstance (mt_name T)))) (\<lambda>found.
     case found of
       Inr _ \<Rightarrow> raise ConditionTimeout
     | Inl e \<Rightarrow>
         if \<not> api_not_found e then raise e
         else
           bnd (handle is_api_failure
                  (send C (PutAttempt (mt_token T) [(''state'', JStr ''settled'')]))
                  (\<lambda>_. raise ConditionTimeout)) (\<lambda>reply.
           bnd (lift (read_reply C T reply)) (\<lambda>attempt.
           if \<not> terminal_abort attempt \<or> \<not> is_finished attempt then raise ConditionTimeout
           else ret attempt)))"

definition abort_attempt ::
  "('b, 'h) incus_api \<Rightarrow> migration_target \<Rightarrow> ('h, unit) iprog option \<Rightarrow> ('h, fields) iprog" where
  "abort_attempt C T target_cleanup =
     bnd (fence_attempt C T) (\<lambda>attempt.
     if has_state attempt ''committed'' then ret attempt
     else if \<not> terminal_abort attempt then raise MigrationFailure
     else
       bnd (settle_migration_operations C (mt_name T) [jget attempt ''operation_uuid'']) (\<lambda>_.
       bnd (case target_cleanup of None \<Rightarrow> ret () | Some cleanup \<Rightarrow> cleanup) (\<lambda>_.
       handle (\<lambda>e. e = ConditionTimeout)
         (wait_attempt_finished C T [''aborted'', ''failed''])
         (\<lambda>_. settle_lost_attempt C T))))"

definition retire_migration_attempt :: "('b, 'h) incus_api \<Rightarrow> migration_target \<Rightarrow> ('h, unit) iprog" where
  "retire_migration_attempt C T =
     bnd (handle api_not_found (bnd (get_attempt C T) (\<lambda>a. ret (Some a))) (\<lambda>_. ret None)) (\<lambda>found.
     case found of
       None \<Rightarrow> ret ()
     | Some attempt \<Rightarrow>
         if \<not> is_finished attempt then raise MigrationFailure
         else perform C (DeleteAttempt (mt_token T)))"

definition staging_keys :: "string list" where
  "staging_keys =
     [cleanup_token_key, ''user.openstack.migration_cleanup_complete'',
      ''user.openstack.migration_destination_prepared'', nova_migration_key,
      target_operation_key, volumes_complete_key]"

definition without_keys :: "string list \<Rightarrow> fields \<Rightarrow> fields" where
  "without_keys ks kvs = filter (\<lambda>(k, v). k \<notin> set ks) kvs"

definition finalize_attempt :: "('b, 'h) incus_api \<Rightarrow> migration_target \<Rightarrow> ('h, unit) iprog" where
  "finalize_attempt C T =
     bnd (get_attempt C T) (\<lambda>attempt.
     if \<not> has_state attempt ''committed'' \<or> \<not> is_finished attempt then raise MigrationFailure
     else
       bnd (get_object C (GetProfile (mt_name T))) (\<lambda>profile.
       let config = dict_attribute profile ''config'' in
       if jget config owner_key \<noteq> JStr (mt_uuid T) \<or> jget config cleanup_token_key \<noteq> JStr (mt_token T)
       then raise MigrationFailure
       else if jget config volumes_complete_key \<noteq> JStr (mt_token T) then raise MigrationFailure
       else
         bnd (perform C (SaveProfile (mt_name T) (JObj (without_keys staging_keys config)))) (\<lambda>_.
         retire_migration_attempt C T)))"

section \<open>Starting a receive\<close>

definition attempt_instance :: "('b, 'h) incus_api \<Rightarrow> migration_target \<Rightarrow> ('h, fields) iprog" where
  "attempt_instance C T =
     bnd (get_object C (GetInstance (mt_name T))) (\<lambda>container.
     bnd (lift (instance_nova_uuid container)) (\<lambda>u.
     if u \<noteq> JStr (mt_uuid T) then raise MigrationFailure else ret container))"

text \<open>\<open>request.setdefault('source', {})['migration_attempt'] = token\<close>.\<close>

definition fenced_request :: "string \<Rightarrow> fields \<Rightarrow> fields incus_result" where
  "fenced_request token config =
     (case jget_default config ''source'' (JObj []) of
        JObj source \<Rightarrow>
          Inr (AList.update ''source'' (JObj (AList.update ''migration_attempt'' (JStr token) source)) config)
      | _ \<Rightarrow> Inl (Raised TypeError))"

type_synonym 'h notify = "(string \<Rightarrow> ('h, unit) iprog) option"

definition operation_started :: "'h notify \<Rightarrow> string \<Rightarrow> ('h, unit) iprog" where
  "operation_started started i = (case started of None \<Rightarrow> ret () | Some f \<Rightarrow> f i)"

definition error_of :: "'e + 'a \<Rightarrow> 'e option" where
  "error_of r = (case r of Inl e \<Rightarrow> Some e | Inr _ \<Rightarrow> None)"

text \<open>The try block: the operation it started, if known, and the error that ended it.\<close>

definition start_receive ::
  "('b, 'h) incus_api \<Rightarrow> fields \<Rightarrow> 'h notify \<Rightarrow> ('h, string option \<times> incus_error option) iprog" where
  "start_receive C request started =
     bnd (try_result
            (bnd (send C (PostInstance request)) (\<lambda>reply.
             bnd (lift (body_field C reply ''operation'')) (\<lambda>v.
             bnd (lift (migration_operation_id C v)) (\<lambda>i.
             case i of None \<Rightarrow> raise MigrationFailure | Some i \<Rightarrow> ret i))))) (\<lambda>r.
     case r of
       Inl e \<Rightarrow> ret (None, Some e)
     | Inr i \<Rightarrow>
         bnd (try_result (bnd (operation_started started i) (\<lambda>_. perform C (WaitOperation i)))) (\<lambda>r.
         ret (Some i, error_of r)))"

definition or_else :: "'a option \<Rightarrow> 'a option \<Rightarrow> 'a option" where
  "or_else p q = (case p of Some a \<Rightarrow> Some a | None \<Rightarrow> q)"

text \<open>The HTTP response and the wait are not the commit record: the attempt is read again.\<close>

definition await_commit ::
  "('b, 'h) incus_api \<Rightarrow> migration_target \<Rightarrow> string option \<Rightarrow> incus_error option \<Rightarrow>
     ('h, fields \<times> string option \<times> incus_error option) iprog" where
  "await_commit C T started_id error =
     bnd (get_attempt C T) (\<lambda>attempt.
     bnd (lift (migration_operation_id C (jget attempt ''operation_uuid''))) (\<lambda>recorded_id.
     let i = or_else recorded_id started_id in
     case recorded_id of
       Some r \<Rightarrow>
         if has_state attempt ''active''
         then
           bnd (try_result (perform C (WaitOperation r))) (\<lambda>w.
           bnd (get_attempt C T) (\<lambda>attempt. ret (attempt, i, or_else error (error_of w))))
         else ret (attempt, i, error)
     | None \<Rightarrow> ret (attempt, i, error)))"

definition create_target ::
  "('b, 'h) incus_api \<Rightarrow> migration_target \<Rightarrow> fields \<Rightarrow> 'h notify \<Rightarrow> ('h, fields \<times> json) iprog" where
  "create_target C T config started =
     bnd (get_attempt C T) (\<lambda>attempt.
     if has_state attempt ''committed''
     then
       bnd (attempt_instance C T) (\<lambda>container.
       ret (container, if py_truthy (jget attempt ''operation_uuid'')
                       then jget attempt ''operation_uuid'' else JNull))
     else if \<not> has_state attempt ''active'' then raise MigrationFailure
     else
       bnd (lift (fenced_request (mt_token T) config)) (\<lambda>request.
       bnd (start_receive C request started) (\<lambda>(started_id, error).
       bnd (await_commit C T started_id error) (\<lambda>(attempt, i, error).
       if has_state attempt ''committed'' \<and> is_finished attempt
       then
         bnd (case i of None \<Rightarrow> ret () | Some i \<Rightarrow> operation_started started i) (\<lambda>_.
         bnd (attempt_instance C T) (\<lambda>container.
         ret (container, case i of None \<Rightarrow> JNull | Some i \<Rightarrow> JStr i)))
       else case error of Some e \<Rightarrow> raise e | None \<Rightarrow> raise MigrationFailure))))"

end
