(* ===== verification/Storage_Handover.thy ===== *)
theory Storage_Handover
  imports Migration_Attempts
begin

text \<open>
  Deletion ownership of shared Ceph roots (nova/virt/incus/driver.py): the identity of the root
  storage pool, the handover states and the proof each of them needs, the disposal of a fenced
  target record, the convergence of a recovered target, and the periodic release of abandoned
  target reservations (nova/virt/incus/manager.py). The locks of the code are not modelled.
\<close>

section \<open>Storage pools\<close>

definition get_attribute :: "json \<Rightarrow> string \<Rightarrow> json incus_result" where
  "get_attribute v k =
     (if \<not> py_truthy v then Inr JNull
      else case v of JObj kvs \<Rightarrow> Inr (jget kvs k) | _ \<Rightarrow> Inl (Raised AttributeError))"

definition root_pool_name :: "fields \<Rightarrow> json incus_result" where
  "root_pool_name container =
     rbind (get_attribute (first_truthy [jget container ''expanded_devices'', jget container ''devices'']) ''root'')
       (\<lambda>root. rbind (get_attribute root ''pool'') (\<lambda>pool.
     if py_truthy pool then Inr pool else Inl BadConfiguration))"

definition instance_root_pool :: "('b, 'h) incus_api \<Rightarrow> fields \<Rightarrow> ('h, fields) iprog" where
  "instance_root_pool C container =
     bnd (lift (root_pool_name container)) (\<lambda>pool. get_object C (GetPool pool))"

definition shared_drivers :: "json list" where
  "shared_drivers = [JStr ''ceph'', JStr ''cephext'']"

record pool_identity =
  pi_shared :: bool
  pi_driver :: json
  pi_cluster :: json
  pi_source :: json

definition storage_pool_identity :: "fields \<Rightarrow> pool_identity incus_result" where
  "storage_pool_identity pool =
     (case (if py_truthy (jget pool ''config'') then jget pool ''config'' else JObj []) of
        JObj config \<Rightarrow>
          Inr \<lparr>pi_shared = (jget pool ''driver'' \<in> set shared_drivers), pi_driver = jget pool ''driver'',
               pi_cluster = jget_default config ''ceph.cluster_name'' (JStr ''ceph''),
               pi_source = first_truthy [jget config ''source'', jget config ''ceph.osd.pool_name'', JStr []]\<rparr>
      | _ \<Rightarrow> Inl (Raised AttributeError))"

definition placement_pool_identity :: "fields \<Rightarrow> (json \<times> json \<times> json) incus_result" where
  "placement_pool_identity pool =
     rbind (storage_pool_identity pool) (\<lambda>i.
     if \<not> py_truthy (pi_source i) then Inl BadConfiguration
     else Inr (pi_driver i, if pi_shared i then pi_cluster i else JStr [], pi_source i))"

text \<open>\<open>str(v).lower() in ('1', 'true', 'yes', 'on')\<close>: no float, list or dict has such a text.\<close>

definition flag_set :: "json \<Rightarrow> bool" where
  "flag_set v \<longleftrightarrow>
     (case v of
        JStr s \<Rightarrow> map lower_char s \<in> {''1'', ''true'', ''yes'', ''on''}
      | JInt i \<Rightarrow> i = 1
      | JBool b \<Rightarrow> b
      | _ \<Rightarrow> False)"

abbreviation handover_key :: string where
  "handover_key \<equiv> ''volatile.migration.storage_handover''"

abbreviation handover_role_key :: string where
  "handover_role_key \<equiv> ''volatile.migration.storage_handover_role''"

definition delete_protected :: "fields \<Rightarrow> bool" where
  "delete_protected config \<longleftrightarrow> flag_set (jget config ''volatile.migration.storage_delete_protection'')"

definition receive_complete :: "fields \<Rightarrow> bool" where
  "receive_complete config \<longleftrightarrow> flag_set (jget config ''volatile.migration.storage_receive_complete'')"

definition negotiated_handover :: "fields \<Rightarrow> bool" where
  "negotiated_handover container \<longleftrightarrow>
     (let config = dict_attribute container ''config'' in
      py_truthy (jget config handover_key) \<or> receive_complete config \<or> delete_protected config)"

definition instance_storage_identity :: "('b, 'h) incus_api \<Rightarrow> string \<Rightarrow> ('h, pool_identity) iprog" where
  "instance_storage_identity C name =
     bnd (get_object C (GetInstance name)) (\<lambda>container.
     bnd (instance_root_pool C container) (\<lambda>pool.
     bnd (lift (storage_pool_identity pool)) (\<lambda>i.
     ret (i\<lparr>pi_shared := pi_shared i \<and> negotiated_handover container\<rparr>))))"

text \<open>Every exception of the read makes the root an unshared one.\<close>

definition shares_root_storage :: "('b, 'h) incus_api \<Rightarrow> fields \<Rightarrow> ('h, bool) iprog" where
  "shares_root_storage C container =
     handle (\<lambda>_. True)
       (bnd (instance_root_pool C container) (\<lambda>pool. ret (jget pool ''driver'' \<in> set shared_drivers)))
       (\<lambda>_. ret False)"

definition handover_extension :: string where
  "handover_extension = ''instance_storage_handover''"

definition handover_proof_extension :: string where
  "handover_proof_extension = ''instance_storage_handover_proof''"

definition ready_fence_extension :: string where
  "ready_fence_extension = ''migration_shared_ceph_storage_ready_fence''"

definition same_identity :: "pool_identity \<Rightarrow> pool_identity \<Rightarrow> bool" where
  "same_identity p q \<longleftrightarrow>
     pi_shared p = pi_shared q \<and> py_equal (pi_driver p) (pi_driver q) \<and>
     py_equal (pi_cluster p) (pi_cluster q) \<and> py_equal (pi_source p) (pi_source q)"

text \<open>\<open>C\<close> is the client of the destination; Incus redacts pool configs for a restricted identity.\<close>

definition preflight_handover_destination ::
  "('b, 'h) incus_api \<Rightarrow> json \<Rightarrow> pool_identity \<Rightarrow> ('h, unit) iprog" where
  "preflight_handover_destination C pool_name source =
     (if \<not> {handover_extension, handover_proof_extension, ready_fence_extension} \<subseteq> set (ia_extensions C)
      then raise MigrationFailure
      else
        bnd (handle (\<lambda>_. True) (get_object C (GetPool pool_name)) (\<lambda>_. raise MigrationFailure)) (\<lambda>pool.
        bnd (lift (storage_pool_identity pool)) (\<lambda>i.
        if \<not> pi_shared i \<or> \<not> py_equal (pi_driver i) (pi_driver source) then raise MigrationFailure
        else if \<not> py_truthy (jget pool ''config'') then ret ()
        else if \<not> same_identity i source then raise MigrationFailure
        else ret ())))"

section \<open>Handover states\<close>

text \<open>The operation and token a caller knows, each \<open>JNull\<close> where it does not.\<close>

definition handover_ownership_proof ::
  "('b, 'h) incus_api \<Rightarrow> string \<Rightarrow> json \<Rightarrow> json \<Rightarrow> ('h, string \<times> string) iprog" where
  "handover_ownership_proof C name attempt operation =
     bnd (if attempt = JNull \<or> operation = JNull
          then bnd (get_object C (GetProfile name)) (\<lambda>profile.
            let config = dict_attribute profile ''config''
            in ret (first_truthy [attempt, jget config cleanup_token_key],
                    first_truthy [operation, jget config target_operation_key]))
          else ret (attempt, operation)) (\<lambda>(attempt, operation).
     bnd (lift (migration_operation_id C operation)) (\<lambda>i.
     case (attempt, i) of
       (JStr t, Some i) \<Rightarrow> if is_uuid_like t then ret (t, i) else raise MigrationFailure
     | _ \<Rightarrow> raise MigrationFailure))"

definition no_handover :: "fields \<Rightarrow> bool" where
  "no_handover config \<longleftrightarrow>
     \<not> py_truthy (jget config handover_key) \<and> \<not> delete_protected config \<and>
     \<not> receive_complete config \<and> \<not> py_truthy (jget config handover_role_key)"

text \<open>The config that \<open>_instance_migration_receive_complete\<close> reads: another value is an AttributeError.\<close>

definition container_config :: "fields \<Rightarrow> fields incus_result" where
  "container_config container =
     (let v = jget container ''config'' in
      if \<not> py_truthy v then Inr []
      else case v of JObj kvs \<Rightarrow> Inr kvs | _ \<Rightarrow> Inl (Raised AttributeError))"

definition storage_handover_is_owned :: "('b, 'h) incus_api \<Rightarrow> fields \<Rightarrow> ('h, bool) iprog" where
  "storage_handover_is_owned C container =
     bnd (instance_root_pool C container) (\<lambda>pool.
     if jget pool ''driver'' \<notin> set shared_drivers then ret True
     else bnd (lift (container_config container)) (\<lambda>config. ret (no_handover config)))"

definition handover_at :: "fields \<Rightarrow> string list \<Rightarrow> bool" where
  "handover_at config states \<longleftrightarrow> jget config handover_key \<in> JStr ` set states"

text \<open>The states a caller may ask for, and the verdict on one: nothing to do, or a request.\<close>

datatype handover_goal = Protected | Owned | SourceOwned

datatype handover_verdict = Settled bool | Ask fields

fun goal_name :: "handover_goal \<Rightarrow> string" where
  "goal_name Protected = ''protected''"
| "goal_name Owned = ''owned''"
| "goal_name SourceOwned = ''source-owned''"

definition decide_handover ::
  "('b, 'h) incus_api \<Rightarrow> string \<Rightarrow> handover_goal \<Rightarrow> json \<Rightarrow> fields \<Rightarrow> json \<Rightarrow> json \<Rightarrow>
     ('h, handover_verdict) iprog" where
  "decide_handover C name goal driver config attempt operation =
     (case goal of
        Protected \<Rightarrow>
          if driver = JStr ''cephext'' then ret (Settled False)
          else if handover_at config [''pending'', ''committed''] \<or> delete_protected config
          then ret (Ask [(''state'', JStr ''protected'')])
          else raise MigrationFailure
      | Owned \<Rightarrow>
          if no_handover config then ret (Settled True)
          else if \<not> handover_at config [''committed''] \<and> \<not> receive_complete config then raise MigrationFailure
          else
            bnd (handover_ownership_proof C name attempt operation) (\<lambda>(t, i).
            ret (Ask [(''state'', JStr ''owned''), (''migration_attempt'', JStr t), (''operation_uuid'', JStr i)]))
      | SourceOwned \<Rightarrow>
          if no_handover config then ret (Settled True)
          else if \<not> handover_at config [''pending'', ''committed''] \<or>
                  jget config handover_role_key \<noteq> JStr ''source'' \<or> receive_complete config
          then raise MigrationFailure
          else ret (Ask [(''state'', JStr ''source-owned'')]))"

text \<open>The request, and the proof that Incus persisted it in a fresh read.\<close>

definition request_handover ::
  "('b, 'h) incus_api \<Rightarrow> string \<Rightarrow> handover_goal \<Rightarrow> fields \<Rightarrow> ('h, bool) iprog" where
  "request_handover C name goal request =
     (if handover_extension \<notin> set (ia_extensions C) \<or>
         goal \<noteq> Protected \<and> handover_proof_extension \<notin> set (ia_extensions C)
      then raise MigrationFailure
      else
        bnd (perform C (PutHandover name request)) (\<lambda>_.
        bnd (get_object C (GetInstance name)) (\<lambda>current.
        bnd (if goal = Protected then ret (delete_protected (dict_attribute current ''config''))
             else storage_handover_is_owned C current) (\<lambda>persisted.
        if persisted then ret True else raise MigrationFailure))))"

definition set_storage_handover_state ::
  "('b, 'h) incus_api \<Rightarrow> string \<Rightarrow> handover_goal \<Rightarrow> fields \<Rightarrow> json \<Rightarrow> json \<Rightarrow> ('h, bool) iprog" where
  "set_storage_handover_state C name goal container attempt operation =
     bnd (instance_root_pool C container) (\<lambda>pool.
     if jget pool ''driver'' \<notin> set shared_drivers then ret False
     else
       bnd (lift (container_config container)) (\<lambda>config.
       bnd (decide_handover C name goal (jget pool ''driver'') config attempt operation) (\<lambda>verdict.
       case verdict of Settled b \<Rightarrow> ret b | Ask request \<Rightarrow> request_handover C name goal request)))"

definition restore_source_ownership :: "('b, 'h) incus_api \<Rightarrow> string \<Rightarrow> ('h, bool) iprog" where
  "restore_source_ownership C name =
     bnd (get_object C (GetInstance name)) (\<lambda>container.
     set_storage_handover_state C name SourceOwned container JNull JNull)"

definition already_stopped :: "incus_error \<Rightarrow> bool" where
  "already_stopped e \<longleftrightarrow>
     (case e of ApiFailure _ t _ \<Rightarrow> contains_sub ''instance is already stopped'' (map lower_char t) | _ \<Rightarrow> False)"

definition delete_target_record :: "('b, 'h) incus_api \<Rightarrow> string \<Rightarrow> ('h, unit) iprog" where
  "delete_target_record C name =
     bnd (handle api_not_found (bnd (get_object C (GetInstance name)) (\<lambda>c. ret (Some c))) (\<lambda>_. ret None)) (\<lambda>found.
     case found of
       None \<Rightarrow> ret ()
     | Some container \<Rightarrow>
         bnd (set_storage_handover_state C name Protected container JNull JNull) (\<lambda>_.
         bnd (if jget container ''status'' \<noteq> JStr ''Stopped''
              then handle already_stopped (perform C (StopInstance name)) (\<lambda>_. ret ()) else ret ()) (\<lambda>_.
         perform C (DeleteInstance name))))"

section \<open>Convergence of a recovered target\<close>

text \<open>\<open>profile.config[k] = v\<close> for a profile object.\<close>

definition save_profile_key ::
  "('b, 'h) incus_api \<Rightarrow> string \<Rightarrow> fields \<Rightarrow> string \<Rightarrow> json \<Rightarrow> ('h, unit) iprog" where
  "save_profile_key C name profile k v =
     (case jget profile ''config'' of
        JObj config \<Rightarrow> perform C (SaveProfile name (JObj (AList.update k v config)))
      | _ \<Rightarrow> raise (Raised TypeError))"

definition mark_migration_recovery :: "('b, 'h) incus_api \<Rightarrow> string \<Rightarrow> string \<Rightarrow> ('h, unit) iprog" where
  "mark_migration_recovery C name desired =
     bnd (get_object C (GetProfile name)) (\<lambda>profile.
     save_profile_key C name profile ''user.openstack.recovery_required'' (JStr desired))"

definition volume_evidence_absent :: "('b, 'h) incus_api \<Rightarrow> string \<Rightarrow> ('h, bool) iprog" where
  "volume_evidence_absent C u =
     bnd (ia_list_journal C u) (\<lambda>entries.
     case entries of
       None \<Rightarrow> ret True
     | Some [] \<Rightarrow> bnd (ia_remove_journal C u) (\<lambda>r. ret (r \<noteq> NotEmpty))
     | Some _ \<Rightarrow> ret False)"

definition owned_by_nova :: "fields \<Rightarrow> string \<Rightarrow> bool" where
  "owned_by_nova config u \<longleftrightarrow>
     jget config ''environment.product_name'' = JStr ''OpenStack Nova'' \<and> jget config owner_key = JStr u"

definition publish_volumes_complete ::
  "('b, 'h) incus_api \<Rightarrow> string \<Rightarrow> string \<Rightarrow> json \<Rightarrow> json \<Rightarrow> ('h, bool) iprog" where
  "publish_volumes_complete C u name token migration =
     (if \<not> uuid_like_value token \<or> \<not> uuid_like_value migration then raise MigrationFailure
      else
        bnd (volume_evidence_absent C u) (\<lambda>absent.
        if \<not> absent then ret False
        else
          bnd (get_object C (GetProfile name)) (\<lambda>profile.
          let config = dict_attribute profile ''config'' in
          if \<not> owned_by_nova config u then raise BadVolume
          else if jget config cleanup_token_key \<noteq> token \<or> jget config nova_migration_key \<noteq> migration
          then raise MigrationFailure
          else
            bnd (volume_evidence_absent C u) (\<lambda>absent.
            if \<not> absent then ret False
            else if jget config volumes_complete_key \<notin> {JNull, token} then raise MigrationFailure
            else bnd (save_profile_key C name profile volumes_complete_key token) (\<lambda>_. ret True)))))"

definition publish_local_proof ::
  "('b, 'h) incus_api \<Rightarrow> bool \<Rightarrow> string \<Rightarrow> string \<Rightarrow> fields \<Rightarrow> ('h, unit) iprog" where
  "publish_local_proof C local_evidence u name config =
     (if \<not> local_evidence then ret ()
      else bnd (publish_volumes_complete C u name (jget config cleanup_token_key) (jget config nova_migration_key))
        (\<lambda>published. if published then ret () else raise MigrationFailure))"

text \<open>Any failure of the retirement is queued for recovery in the profile.\<close>

definition retire_staging ::
  "('b, 'h) incus_api \<Rightarrow> migration_target \<Rightarrow> bool \<Rightarrow> fields \<Rightarrow> string \<Rightarrow> ('h, unit) iprog" where
  "retire_staging C T local_evidence config desired =
     handle (\<lambda>_. True)
       (bnd (publish_local_proof C local_evidence (mt_uuid T) (mt_name T) config) (\<lambda>_. finalize_attempt C T))
       (\<lambda>_. mark_migration_recovery C (mt_name T) desired)"

definition target_of ::
  "string \<Rightarrow> string \<Rightarrow> string \<Rightarrow> fields \<Rightarrow> fields \<Rightarrow> migration_target incus_result" where
  "target_of u name token container profile =
     rbind (instance_migration_idmap container profile) (\<lambda>(b, n).
     Inr \<lparr>mt_uuid = u, mt_name = name, mt_token = token, mt_base = b, mt_size = n\<rparr>)"

definition converge_protected ::
  "('b, 'h) incus_api \<Rightarrow> migration_target \<Rightarrow> fields \<Rightarrow> bool \<Rightarrow> fields \<Rightarrow> string \<Rightarrow> ('h, unit) iprog" where
  "converge_protected C T container local_evidence config desired =
     bnd (get_attempt C T) (\<lambda>attempt.
     if \<not> has_state attempt ''committed'' \<or> \<not> is_finished attempt then raise MigrationFailure
     else
       bnd (try_result (retry_finish_action C
              (set_storage_handover_state C (mt_name T) Owned container (JStr (mt_token T))
                 (jget attempt ''operation_uuid'')))) (\<lambda>owned.
       case owned of
         Inl _ \<Rightarrow> handle (\<lambda>_. True) (mark_migration_recovery C (mt_name T) desired) (\<lambda>_. raise MigrationFailure)
       | Inr _ \<Rightarrow> retire_staging C T local_evidence config desired))"

definition converge_target ::
  "('b, 'h) incus_api \<Rightarrow> string \<Rightarrow> string \<Rightarrow> string option \<Rightarrow> bool \<Rightarrow> ('h, unit) iprog" where
  "converge_target C u name desired_state local_evidence =
     bnd (get_object C (GetInstance name)) (\<lambda>container.
     let desired = (case desired_state of Some s \<Rightarrow> s
                    | None \<Rightarrow> if jget container ''status'' = JStr ''Running'' then ''running'' else ''stopped'') in
     bnd (lift (instance_nova_uuid container)) (\<lambda>owner.
     if owner \<noteq> JStr u then raise MigrationFailure
     else
       bnd (get_object C (GetProfile name)) (\<lambda>profile.
       let config = dict_attribute profile ''config'' in
       if \<not> owned_by_nova config u then raise MigrationFailure
       else
         bnd (storage_handover_is_owned C container) (\<lambda>owned.
         case jget config cleanup_token_key of
           JStr token \<Rightarrow>
             if is_uuid_like token
             then
               bnd (lift (target_of u name token container profile)) (\<lambda>T.
               if owned then retire_staging C T local_evidence config desired
               else converge_protected C T container local_evidence config desired)
             else if owned then ret () else raise MigrationFailure
         | _ \<Rightarrow> if owned then ret () else raise MigrationFailure))))"

section \<open>Abandoned target reservations\<close>

text \<open>
  What the periodic task of the compute manager reads of Nova: the names of the instances of
  this host, the driver's nodes, the instances of the migrations in progress on a node, and the
  name of an instance, \<open>None\<close> where Nova has none.
\<close>

record 'h nova_view =
  nv_local_names :: "('h, string list) iprog"
  nv_nodes :: "('h, string list) iprog"
  nv_migrating :: "string \<Rightarrow> ('h, string option list) iprog"
  nv_name_of :: "string \<Rightarrow> ('h, string option) iprog"

fun names_of_uuids :: "'h nova_view \<Rightarrow> string list \<Rightarrow> ('h, string list) iprog" where
  "names_of_uuids V [] = ret []"
| "names_of_uuids V (u # us) =
     bnd (nv_name_of V u) (\<lambda>name. bnd (names_of_uuids V us) (\<lambda>names.
     ret (case name of None \<Rightarrow> names | Some n \<Rightarrow> n # names)))"

definition claimable_target_names :: "'h nova_view \<Rightarrow> ('h, string list) iprog" where
  "claimable_target_names V =
     bnd (nv_local_names V) (\<lambda>local_names.
     bnd (nv_nodes V) (\<lambda>nodes.
     case nodes of
       [] \<Rightarrow> raise (Raised IndexError)
     | node # _ \<Rightarrow>
         bnd (nv_migrating V node) (\<lambda>us.
         bnd (names_of_uuids V (remdups (filter (\<lambda>u. u \<noteq> []) (List.map_filter id us)))) (\<lambda>names.
         ret (local_names @ names)))))"

definition seen_unchanged :: "reservation dict \<Rightarrow> reservation \<Rightarrow> bool" where
  "seen_unchanged previous r \<longleftrightarrow>
     (case map_of previous (rv_token r) of None \<Rightarrow> False | Some p \<Rightarrow> same_reservation p r)"

text \<open>What the pass remembers, and the exception that ended it: an unhashable name raises.\<close>

fun release_reservations ::
  "('b, 'h) incus_api \<Rightarrow> reservation dict \<Rightarrow> string list \<Rightarrow> reservation list \<Rightarrow> reservation dict \<Rightarrow>
     ('h, reservation dict \<times> incus_error option) iprog" where
  "release_reservations C previous claimed [] memory = ret (memory, None)"
| "release_reservations C previous claimed (r # rs) memory =
     (if \<not> hashable (rv_name r) then ret (memory, Some (Raised TypeError))
      else if rv_name r \<in> JStr ` set claimed \<or> \<not> seen_unchanged previous r
      then release_reservations C previous claimed rs memory
      else
        bnd (try_result (release_unstarted_attempt C r)) (\<lambda>outcome.
        release_reservations C previous claimed rs
          (case outcome of Inl _ \<Rightarrow> memory | Inr _ \<Rightarrow> AList.delete (rv_token r) memory)))"

text \<open>\<open>previous\<close> is what the last pass remembered; the result is what this pass remembers.\<close>

definition release_abandoned_reservations ::
  "('b, 'h) incus_api \<Rightarrow> 'h nova_view \<Rightarrow> bool \<Rightarrow> reservation dict \<Rightarrow>
     ('h, reservation dict \<times> incus_error option) iprog" where
  "release_abandoned_reservations C V auto_recovery previous =
     (if \<not> auto_recovery then ret (previous, None)
      else
        bnd (try_result (list_unstarted_reservations C)) (\<lambda>listed.
        case listed of
          Inl _ \<Rightarrow> ret (previous, None)
        | Inr candidates \<Rightarrow>
            let current = update_all (map (\<lambda>r. (rv_token r, r)) candidates) [] in
            if candidates = [] then ret (current, None)
            else
              bnd (try_result (claimable_target_names V)) (\<lambda>claimed.
              case claimed of
                Inl _ \<Rightarrow> ret (current, None)
              | Inr claimed \<Rightarrow>
                  release_reservations C previous claimed (sort_key rv_token (map snd current)) current)))"

end
