(* ===== verification/Request_Policy.thy ===== *)
theory Request_Policy
  imports Storage_Handover
begin

text \<open>
  Which requests the migration code sends, and after which others: a policy says which exchange
  is allowed given those before it, the judgement \<open>follows\<close> propagates it through programs, and
  the locale of the policies that allow reads has one lemma per operation that only reads.
\<close>

section \<open>Policies over a recorded run\<close>

fun mutates :: "incus_request \<Rightarrow> bool" where
  "mutates (PutAttempt _ _) = True"
| "mutates (DeleteAttempt _) = True"
| "mutates (DeleteOperation _) = True"
| "mutates (PostInstance _) = True"
| "mutates (PutHandover _ _) = True"
| "mutates (StopInstance _) = True"
| "mutates (DeleteInstance _) = True"
| "mutates (SaveProfile _ _) = True"
| "mutates _ = False"

type_synonym policy = "exchange set \<Rightarrow> exchange \<Rightarrow> bool"

fun obeys_from :: "policy \<Rightarrow> exchange set \<Rightarrow> exchange list \<Rightarrow> bool" where
  "obeys_from G S [] = True"
| "obeys_from G S (e # es) = (G S e \<and> obeys_from G (insert e S) es)"

definition obeys :: "policy \<Rightarrow> exchange list \<Rightarrow> bool" where
  "obeys G l = obeys_from G {} l"

lemma obeys_from_append: "obeys_from G S (xs @ ys) \<longleftrightarrow> obeys_from G S xs \<and> obeys_from G (S \<union> set xs) ys"
  by (induction xs arbitrary: S) auto

lemma obeys_snoc: "obeys G (l @ [e]) \<longleftrightarrow> obeys G l \<and> G (set l) e"
  by (simp add: obeys_def obeys_from_append)

text \<open>Every exchange of a run that obeys a policy was allowed by what came before it.\<close>

lemma obeys_nth:
  assumes "obeys G l" and "i < length l"
  shows "G (set (take i l)) (l ! i)"
proof -
  have "obeys_from G {} (take i l @ l ! i # drop (Suc i) l)"
    using assms by (simp add: obeys_def id_take_nth_drop [symmetric])
  then show ?thesis by (simp add: obeys_from_append)
qed

definition trace_of :: "('h \<times> exchange list, 'a) iprog \<Rightarrow> 'h \<Rightarrow> exchange list" where
  "trace_of m w = snd (snd (m (w, [])))"

definition outcome_of :: "('h \<times> exchange list, 'a) iprog \<Rightarrow> 'h \<Rightarrow> incus_error + 'a" where
  "outcome_of m w = fst (m (w, []))"

text \<open>
  \<open>follows G F m Q\<close>: after the exchanges in \<open>F\<close>, the program obeys \<open>G\<close>, and a value that it
  returns satisfies \<open>Q\<close> with all exchanges by then.
\<close>

definition follows ::
  "policy \<Rightarrow> exchange set \<Rightarrow> ('h \<times> exchange list, 'a) iprog \<Rightarrow> ('a \<Rightarrow> exchange set \<Rightarrow> bool) \<Rightarrow> bool" where
  "follows G F m Q \<longleftrightarrow>
     (\<forall>w l r w' l'. obeys G l \<longrightarrow> F \<subseteq> set l \<longrightarrow> m (w, l) = (r, (w', l')) \<longrightarrow>
        obeys G l' \<and> set l \<subseteq> set l' \<and> (\<forall>a. r = Inr a \<longrightarrow> Q a (set l')))"

lemma followsD:
  assumes "follows G F m Q" and "obeys G l" and "F \<subseteq> set l" and "m (w, l) = (r, (w', l'))"
  shows "obeys G l'" and "set l \<subseteq> set l'" and "r = Inr a \<Longrightarrow> Q a (set l')"
  using assms unfolding follows_def by blast+

lemma followsI:
  assumes "\<And>w l r w' l'. obeys G l \<Longrightarrow> F \<subseteq> set l \<Longrightarrow> m (w, l) = (r, (w', l')) \<Longrightarrow>
    obeys G l' \<and> set l \<subseteq> set l' \<and> (\<forall>a. r = Inr a \<longrightarrow> Q a (set l'))"
  shows "follows G F m Q"
  using assms unfolding follows_def by blast

text \<open>What the judgement says of a run from the empty log.\<close>

lemma follows_trace: "follows G {} m Q \<Longrightarrow> obeys G (trace_of m w)"
proof -
  assume m: "follows G {} m Q"
  obtain r w' l' where run: "m (w, []) = (r, (w', l'))" by (metis surj_pair)
  have "obeys G l'"
    by (rule followsD(1) [OF m _ _ run]) (simp_all add: obeys_def)
  then show ?thesis by (simp add: trace_of_def run)
qed

lemma follows_outcome:
  assumes m: "follows G {} m Q" and "outcome_of m w = Inr a"
  shows "Q a (set (trace_of m w))"
proof -
  obtain r w' l' where run: "m (w, []) = (r, (w', l'))" by (metis surj_pair)
  have "r = Inr a" using assms(2) by (simp add: outcome_of_def run)
  then have "Q a (set l')"
    by (intro followsD(3) [OF m _ _ run]) (simp_all add: obeys_def)
  then show ?thesis by (simp add: trace_of_def run)
qed

section \<open>Rules\<close>

lemma follows_weaken: "follows G F m P \<Longrightarrow> (\<And>a S. F \<subseteq> S \<Longrightarrow> P a S \<Longrightarrow> Q a S) \<Longrightarrow> follows G F m Q"
  by (rule followsI) (blast dest: followsD)

lemma follows_any: "follows G F m Q \<Longrightarrow> follows G F m (\<lambda>_ _. True)"
  by (erule follows_weaken) simp

lemma follows_ret: "(\<And>S. F \<subseteq> S \<Longrightarrow> Q a S) \<Longrightarrow> follows G F (ret a) Q"
  by (auto simp: follows_def ret_def)

lemma follows_raise: "follows G F (raise e) Q"
  by (auto simp: follows_def raise_def)

lemma follows_lift: "(\<And>a S. r = Inr a \<Longrightarrow> F \<subseteq> S \<Longrightarrow> Q a S) \<Longrightarrow> follows G F (lift r) Q"
  by (auto simp: follows_def lift_def)

lemma follows_bnd:
  assumes m: "follows G F m M" and f: "\<And>a S. F \<subseteq> S \<Longrightarrow> M a S \<Longrightarrow> follows G S (f a) Q"
  shows "follows G F (bnd m f) Q"
proof (rule followsI)
  fix w l r w' l'
  assume J: "obeys G l" "F \<subseteq> set l" and run: "bnd m f (w, l) = (r, (w', l'))"
  obtain r1 w1 l1 where m1: "m (w, l) = (r1, (w1, l1))" by (metis surj_pair)
  note D = followsD [OF m J m1]
  show "obeys G l' \<and> set l \<subseteq> set l' \<and> (\<forall>a. r = Inr a \<longrightarrow> Q a (set l'))"
  proof (cases r1)
    case (Inl e)
    with run m1 D(1,2) show ?thesis by (auto simp: bnd_def)
  next
    case (Inr a)
    with run m1 have fa: "f a (w1, l1) = (r, (w', l'))" by (simp add: bnd_def)
    have "follows G (set l1) (f a) Q" using f [of "set l1" a] D J(2) Inr by blast
    from followsD [OF this D(1) order.refl fa] D(2) show ?thesis by blast
  qed
qed

text \<open>A step of which only the policy matters.\<close>

lemma follows_seq:
  assumes "follows G F m (\<lambda>_ _. True)" and "\<And>a S. F \<subseteq> S \<Longrightarrow> follows G S (f a) Q"
  shows "follows G F (bnd m f) Q"
  by (rule follows_bnd [OF assms(1)]) (rule assms(2))

lemma follows_lifted:
  assumes "\<And>a. r = Inr a \<Longrightarrow> follows G F (f a) Q"
  shows "follows G F (bnd (lift r) f) Q"
  using assms by (cases r) (simp_all add: follows_raise)

lemma follows_handle:
  assumes m: "follows G F m Q" and h: "\<And>e S. F \<subseteq> S \<Longrightarrow> p e \<Longrightarrow> follows G S (h e) Q"
  shows "follows G F (handle p m h) Q"
proof (rule followsI)
  fix w l r w' l'
  assume J: "obeys G l" "F \<subseteq> set l" and run: "handle p m h (w, l) = (r, (w', l'))"
  obtain r1 w1 l1 where m1: "m (w, l) = (r1, (w1, l1))" by (metis surj_pair)
  note D = followsD [OF m J m1]
  show "obeys G l' \<and> set l \<subseteq> set l' \<and> (\<forall>a. r = Inr a \<longrightarrow> Q a (set l'))"
  proof (cases "\<exists>e. r1 = Inl e \<and> p e")
    case True
    then obtain e where e: "r1 = Inl e" "p e" by blast
    with run m1 have he: "h e (w1, l1) = (r, (w', l'))" by (simp add: handle_def)
    have "follows G (set l1) (h e) Q" using h [of "set l1" e] D(2) J(2) e by blast
    from followsD [OF this D(1) order.refl he] D(2) show ?thesis by blast
  next
    case False
    then have "(r, (w', l')) = (r1, (w1, l1))"
      using run m1 by (cases r1) (auto simp: handle_def)
    with D show ?thesis by simp
  qed
qed

lemma follows_try:
  assumes "follows G F m Q"
  shows "follows G F (try_result m) (\<lambda>r S. case r of Inl _ \<Rightarrow> True | Inr a \<Rightarrow> Q a S)"
  using assms unfolding follows_def try_result_def
  by (fastforce split: prod.splits sum.splits)

lemma follows_if:
  "(c \<Longrightarrow> follows G F m Q) \<Longrightarrow> (\<not> c \<Longrightarrow> follows G F n Q) \<Longrightarrow> follows G F (if c then m else n) Q"
  by simp

lemma follows_option:
  "(x = None \<Longrightarrow> follows G F m Q) \<Longrightarrow> (\<And>a. x = Some a \<Longrightarrow> follows G F (f a) Q) \<Longrightarrow>
   follows G F (case x of None \<Rightarrow> m | Some a \<Rightarrow> f a) Q"
  by (cases x) auto

lemma follows_sum:
  "(\<And>a. x = Inl a \<Longrightarrow> follows G F (f a) Q) \<Longrightarrow> (\<And>b. x = Inr b \<Longrightarrow> follows G F (h b) Q) \<Longrightarrow>
   follows G F (case x of Inl a \<Rightarrow> f a | Inr b \<Rightarrow> h b) Q"
  by (cases x) auto

lemma follows_prod:
  "(\<And>a b. x = (a, b) \<Longrightarrow> follows G F (f a b) Q) \<Longrightarrow> follows G F (case x of (a, b) \<Rightarrow> f a b) Q"
  by (cases x) auto

lemma follows_Let: "follows G F (f a) Q \<Longrightarrow> follows G F (let x = a in f x) Q"
  by simp

section \<open>The recording client\<close>

lemma recorded_simps [simp]:
  "ia_lib (recorded C) = ia_lib C" "ia_project (recorded C) = ia_project C"
  "ia_extensions (recorded C) = ia_extensions C" "ia_retries (recorded C) = ia_retries C"
  "ia_netloc_ok (recorded C) = ia_netloc_ok C" "ia_bad_reply (recorded C) = ia_bad_reply C"
  by (simp_all add: recorded_def)

lemma follows_send:
  assumes "\<And>S x. F \<subseteq> S \<Longrightarrow> G S (req, x)"
  shows "follows G F (send (recorded C) req) (\<lambda>a S. (req, Inr a) \<in> S)"
  unfolding follows_def send_def recorded_def using assms
  by (auto simp: obeys_snoc split: prod.splits)

lemma follows_perform:
  assumes "\<And>S x. F \<subseteq> S \<Longrightarrow> G S (req, x)"
  shows "follows G F (perform (recorded C) req) (\<lambda>_ S. \<exists>a. (req, Inr a) \<in> S)"
  unfolding perform_def
  by (rule follows_bnd, rule follows_send, erule assms) (auto intro!: follows_ret)

lemma follows_get_object:
  assumes "\<And>S x. F \<subseteq> S \<Longrightarrow> G S (req, x)"
  shows "follows G F (get_object (recorded C) req) (\<lambda>kvs S. (req, Inr (Some (JObj kvs))) \<in> S)"
  unfolding get_object_def
proof (rule follows_bnd, rule follows_send, erule assms)
  fix a S
  assume "F \<subseteq> S" and a: "(req, Inr a) \<in> S"
  show "follows G S (case a of None \<Rightarrow> raise (ia_bad_reply (recorded C))
      | Some (JObj kvs) \<Rightarrow> ret kvs | _ \<Rightarrow> raise (ia_bad_reply (recorded C)))
    (\<lambda>kvs S. (req, Inr (Some (JObj kvs))) \<in> S)"
    using a by (auto intro: follows_raise follows_ret split: option.split json.split)
qed

lemma follows_sleep: "follows G F (modify (ia_sleep (recorded C))) (\<lambda>_ _. True)"
  by (auto simp: follows_def modify_def recorded_def)

lemma follows_retry_loop:
  assumes "\<And>S. F \<subseteq> S \<Longrightarrow> follows G S m Q"
  shows "follows G F (retry_loop (recorded C) p m n) Q"
  using assms
proof (induction n arbitrary: F)
  case (Suc n)
  have "follows G S (retry_loop (recorded C) p m n) Q" if "F \<subseteq> S" for S
    using that by (intro Suc.IH Suc.prems) blast
  then show ?case
    by (auto intro!: follows_handle Suc.prems follows_seq [OF follows_sleep] dest: order_trans)
qed simp

lemma follows_wait_finish:
  assumes "\<And>S. F \<subseteq> S \<Longrightarrow> follows G S m Q"
  shows "follows G F (wait_finish_condition (recorded C) m) Q"
  unfolding wait_finish_condition_def
  by (auto intro!: follows_handle follows_retry_loop follows_raise assms)

lemma follows_journal:
  "follows G F (ia_list_journal (recorded C) u) (\<lambda>_ _. True)"
  "follows G F (ia_remove_journal (recorded C) u) (\<lambda>_ _. True)"
  by (auto simp: follows_def recorded_def split: prod.splits)

text \<open>A program of the node that sends nothing through this client.\<close>

definition unrecorded :: "('h, 'a) iprog \<Rightarrow> ('h \<times> exchange list, 'a) iprog" where
  "unrecorded m = (\<lambda>(w, l). case m w of (r, w') \<Rightarrow> (r, (w', l)))"

lemma follows_unrecorded: "follows G F (unrecorded m) (\<lambda>_ _. True)"
  by (auto simp: follows_def unrecorded_def split: prod.splits)

section \<open>Policies that allow reads\<close>

text \<open>What a validated record of an attempt that was read says.\<close>

definition read_attempt :: "('b, 'h) incus_api \<Rightarrow> migration_target \<Rightarrow> fields \<Rightarrow> exchange set \<Rightarrow> bool" where
  "read_attempt C T attempt S \<longleftrightarrow>
     (\<exists>body. (GetAttempt (mt_token T), Inr body) \<in> S \<and> read_reply C T body = Inr attempt)"

lemma read_attempt_mono: "read_attempt C T a S \<Longrightarrow> S \<subseteq> S' \<Longrightarrow> read_attempt C T a S'"
  by (auto simp: read_attempt_def)

lemma read_reply_recorded [simp]: "read_reply (recorded C) = read_reply C"
  by (intro ext) (simp add: read_reply_def validate_attempt_def [abs_def])

lemma operation_id_recorded [simp]: "migration_operation_id (recorded C) = migration_operation_id C"
  by (intro ext) (simp add: migration_operation_id_def url_path_def split: json.split list.split)

lemma reservation_recorded [simp]: "unstarted_reservation (recorded C) = unstarted_reservation C"
  unfolding unstarted_reservation_def [abs_def] recorded_simps ..

text \<open>The root is not shared, or no handover state is left of it.\<close>

definition owned_in :: "fields \<Rightarrow> exchange set \<Rightarrow> bool" where
  "owned_in container S \<longleftrightarrow>
     (\<exists>p pool. root_pool_name container = Inr p \<and> (GetPool p, Inr (Some (JObj pool))) \<in> S \<and>
        (jget pool ''driver'' \<in> set shared_drivers \<longrightarrow>
           (\<exists>config. container_config container = Inr config \<and> no_handover config)))"

lemma operation_id_uuid: "migration_operation_id C v = Inr (Some i) \<Longrightarrow> is_uuid_like i"
  by (auto simp: migration_operation_id_def rbind_Inr_conv split: json.splits list.splits if_splits)

locale read_policy =
  fixes G :: policy
  assumes reads: "\<not> mutates req \<Longrightarrow> G S (req, x)"
begin

lemma object_read:
  "\<not> mutates req \<Longrightarrow> follows G F (get_object (recorded C) req) (\<lambda>kvs S. (req, Inr (Some (JObj kvs))) \<in> S)"
  by (rule follows_get_object) (rule reads)

lemma send_read:
  "\<not> mutates req \<Longrightarrow> follows G F (send (recorded C) req) (\<lambda>a S. (req, Inr a) \<in> S)"
  by (rule follows_send) (rule reads)

lemma perform_read: "\<not> mutates req \<Longrightarrow> follows G F (perform (recorded C) req) (\<lambda>_ _. True)"
  by (rule follows_any [OF follows_perform]) (rule reads)

lemma attempt_read: "follows G F (get_attempt (recorded C) T) (read_attempt C T)"
  unfolding get_attempt_def require_attempt_fencing_def
  by (intro follows_lifted follows_bnd [OF send_read] follows_lift) (auto simp: read_attempt_def)

lemma wait_attempt_read:
  "follows G F (wait_attempt_finished (recorded C) T states) (read_attempt C T)"
  unfolding wait_attempt_finished_def
  by (intro follows_wait_finish follows_bnd [OF attempt_read] follows_if follows_ret follows_raise)
     (auto intro: read_attempt_mono)

lemma root_pool_read:
  "follows G F (instance_root_pool (recorded C) container)
     (\<lambda>pool S. \<exists>p. root_pool_name container = Inr p \<and> (GetPool p, Inr (Some (JObj pool))) \<in> S)"
  unfolding instance_root_pool_def
  by (intro follows_lifted follows_weaken [OF object_read]) auto

lemma owned_read:
  "follows G F (storage_handover_is_owned (recorded C) container) (\<lambda>owned S. owned \<longrightarrow> owned_in container S)"
  unfolding storage_handover_is_owned_def
  by (intro follows_bnd [OF root_pool_read] follows_if follows_ret follows_lifted) (auto simp: owned_in_def)

lemma operation_read: "follows G F (incus_operation (recorded C) i) (\<lambda>_ _. True)"
  unfolding incus_operation_def
  by (rule follows_seq [OF follows_any [OF send_read]])
     (auto intro!: follows_lifted follows_ret follows_raise split: json.split)

lemma live_operation_read: "follows G F (live_operation (recorded C) i) (\<lambda>_ _. True)"
  unfolding live_operation_def
  by (rule follows_seq)
     (auto intro!: follows_handle follows_seq [OF operation_read] follows_ret follows_option follows_lifted)

lemma await_operation_read: "follows G F (await_operation (recorded C) i) (\<lambda>_ _. True)"
  unfolding await_operation_def
  by (intro follows_wait_finish follows_seq [OF live_operation_read] follows_if follows_ret follows_raise TrueI)

lemma operations_read:
  "follows G F (instance_migration_operations (recorded C) name) (\<lambda>_ _. True)"
  unfolding instance_migration_operations_def
  by (intro follows_bnd [OF send_read] follows_lift) auto

lemma named_operations_read:
  "follows G F (add_named_operations (recorded C) vs pending) (\<lambda>_ _. True)"
proof (induction vs arbitrary: F pending)
  case (Cons v vs)
  show ?case
    unfolding add_named_operations.simps
    by (intro follows_lifted follows_option follows_if Cons.IH follows_seq [OF live_operation_read])
qed (simp add: follows_ret)

lemma target_instance_read:
  "follows G F (attempt_instance (recorded C) T)
     (\<lambda>container S. (GetInstance (mt_name T), Inr (Some (JObj container))) \<in> S \<and>
        instance_nova_uuid container = Inr (JStr (mt_uuid T)))"
  unfolding attempt_instance_def
proof (rule follows_bnd [OF object_read])
  fix container and S :: "exchange set"
  assume c: "(GetInstance (mt_name T), Inr (Some (JObj container))) \<in> S"
  show "follows G S (bnd (lift (instance_nova_uuid container)) (\<lambda>u.
      if u \<noteq> JStr (mt_uuid T) then raise MigrationFailure else ret container))
    (\<lambda>container S. (GetInstance (mt_name T), Inr (Some (JObj container))) \<in> S \<and>
        instance_nova_uuid container = Inr (JStr (mt_uuid T)))"
    using c by (intro follows_lifted follows_if follows_raise follows_ret) auto
qed simp

lemma ownership_proof_read:
  "follows G F (handover_ownership_proof (recorded C) name attempt operation)
     (\<lambda>(t, i) S. is_uuid_like t \<and> is_uuid_like i \<and> (py_truthy attempt \<longrightarrow> attempt = JStr t))"
  unfolding handover_ownership_proof_def
proof (rule follows_bnd [where M = "\<lambda>p S. py_truthy attempt \<longrightarrow> fst p = attempt"])
  show "follows G F (if attempt = JNull \<or> operation = JNull
      then bnd (get_object (recorded C) (GetProfile name)) (\<lambda>profile.
        let config = dict_attribute profile ''config''
        in ret (first_truthy [attempt, jget config cleanup_token_key],
                first_truthy [operation, jget config target_operation_key]))
      else ret (attempt, operation))
    (\<lambda>p S. py_truthy attempt \<longrightarrow> fst p = attempt)"
    by (intro follows_if follows_bnd [OF object_read] follows_Let follows_ret) auto
next
  fix p :: "json \<times> json" and S :: "exchange set"
  assume p: "py_truthy attempt \<longrightarrow> fst p = attempt"
  obtain a b where ab: "p = (a, b)" by (cases p)
  show "follows G S (case p of (attempt, operation) \<Rightarrow>
      bnd (lift (migration_operation_id (recorded C) operation)) (\<lambda>i.
      case (attempt, i) of
        (JStr t, Some i) \<Rightarrow> if is_uuid_like t then ret (t, i) else raise MigrationFailure
      | _ \<Rightarrow> raise MigrationFailure))
    (\<lambda>(t, i) S. is_uuid_like t \<and> is_uuid_like i \<and> (py_truthy attempt \<longrightarrow> attempt = JStr t))"
    unfolding ab prod.case
    apply (rule follows_lifted)
    subgoal for i
      using p ab by (cases a; cases i) (auto simp: follows_raise intro!: follows_ret dest: operation_id_uuid)
    done
qed

end

end
