(* ===== verification/Migration_Theorems.thy ===== *)
theory Migration_Theorems
  imports Request_Policy
begin

text \<open>
  What the migration code sends to Incus, and when: the abort fences a target before anything
  else, deletion ownership needs its proof, a target counts only once its receive committed, a
  token is retired only after its staging metadata, and a reservation is released only when it
  is seen unstarted twice. Each is a policy that the recorded run of the operation obeys.
\<close>

section \<open>Operations that change Incus\<close>

text \<open>What permits a handover request, as the exchanges of the run show it.\<close>

definition handover_allowed :: "handover_goal \<Rightarrow> fields \<Rightarrow> exchange set \<Rightarrow> fields \<Rightarrow> bool" where
  "handover_allowed goal container S body \<longleftrightarrow>
     (\<exists>p pool config. root_pool_name container = Inr p \<and> (GetPool p, Inr (Some (JObj pool))) \<in> S \<and>
        jget pool ''driver'' \<in> set shared_drivers \<and> container_config container = Inr config \<and>
        (case goal of
           Protected \<Rightarrow>
             jget pool ''driver'' \<noteq> JStr ''cephext'' \<and>
             (handover_at config [''pending'', ''committed''] \<or> delete_protected config) \<and>
             body = [(''state'', JStr ''protected'')]
         | Owned \<Rightarrow>
             (handover_at config [''committed''] \<or> receive_complete config) \<and>
             (\<exists>t i. is_uuid_like t \<and> is_uuid_like i \<and>
                body = [(''state'', JStr ''owned''), (''migration_attempt'', JStr t), (''operation_uuid'', JStr i)])
         | SourceOwned \<Rightarrow>
             handover_at config [''pending'', ''committed''] \<and>
             jget config handover_role_key = JStr ''source'' \<and> \<not> receive_complete config \<and>
             body = [(''state'', JStr ''source-owned'')]))"

text \<open>What success of a handover means: nothing was left to do, or a fresh read shows the state.\<close>

definition handover_persisted :: "string \<Rightarrow> handover_goal \<Rightarrow> fields \<Rightarrow> exchange set \<Rightarrow> bool" where
  "handover_persisted name goal container S \<longleftrightarrow>
     goal \<noteq> Protected \<and> (\<exists>config. container_config container = Inr config \<and> no_handover config) \<or>
     (\<exists>current. (GetInstance name, Inr (Some (JObj current))) \<in> S \<and>
        (case goal of Protected \<Rightarrow> delete_protected (dict_attribute current ''config'')
         | _ \<Rightarrow> owned_in current S))"

text \<open>A committed and finished record that was read; staging metadata that permits a retirement, and
  its removal, which was acknowledged.\<close>

definition commit_read :: "('b, 'h) incus_api \<Rightarrow> migration_target \<Rightarrow> exchange set \<Rightarrow> bool" where
  "commit_read C T S \<longleftrightarrow>
     (\<exists>a. read_attempt C T a S \<and> has_state a ''committed'' \<and> is_finished a)"

definition staged_for :: "migration_target \<Rightarrow> fields \<Rightarrow> bool" where
  "staged_for T config \<longleftrightarrow>
     jget config owner_key = JStr (mt_uuid T) \<and> jget config cleanup_token_key = JStr (mt_token T) \<and>
     jget config volumes_complete_key = JStr (mt_token T)"

definition staging_cleared :: "migration_target \<Rightarrow> exchange set \<Rightarrow> bool" where
  "staging_cleared T S \<longleftrightarrow>
     (\<exists>config b. (SaveProfile (mt_name T) (JObj (without_keys staging_keys config)), Inr b) \<in> S)"

lemma staging_cleared_mono: "staging_cleared T S \<Longrightarrow> S \<subseteq> S' \<Longrightarrow> staging_cleared T S'"
  unfolding staging_cleared_def by blast

lemma commit_read_mono: "commit_read C T S \<Longrightarrow> S \<subseteq> S' \<Longrightarrow> commit_read C T S'"
  unfolding commit_read_def using read_attempt_mono by blast

lemma follows_string:
  "(\<And>s. v = JStr s \<Longrightarrow> follows G F (f s) Q) \<Longrightarrow> follows G F m Q \<Longrightarrow>
   follows G F (case v of JStr s \<Rightarrow> f s | _ \<Rightarrow> m) Q"
  by (cases v) simp_all

context read_policy begin

lemma end_operation_keeps:
  assumes "\<And>S x. F \<subseteq> S \<Longrightarrow> G S (DeleteOperation i, x)"
  shows "follows G F (end_operation (recorded C) i op) (\<lambda>_ _. True)"
  unfolding end_operation_def
  by (auto intro!: follows_seq follows_if follows_handle follows_any [OF follows_perform] follows_ret
      await_operation_read assms)

lemma end_operations_keep:
  assumes "\<And>S i x. F \<subseteq> S \<Longrightarrow> G S (DeleteOperation i, x)"
  shows "follows G F (end_operations (recorded C) pending) (\<lambda>_ _. True)"
  using assms
proof (induction pending arbitrary: F)
  case (Cons p pending)
  obtain i op where p: "p = (i, op)" by (cases p)
  show ?case
    unfolding p end_operations.simps
    by (rule follows_seq [OF end_operation_keeps]) (auto intro!: Cons dest: order_trans)
qed (simp add: follows_ret)

lemma settle_operations_keep:
  assumes "\<And>S i x. F \<subseteq> S \<Longrightarrow> G S (DeleteOperation i, x)"
  shows "follows G F (settle_migration_operations (recorded C) name ids) (\<lambda>_ _. True)"
  unfolding settle_migration_operations_def
  by (auto intro!: follows_seq [OF operations_read] follows_seq [OF named_operations_read]
      follows_seq [OF end_operations_keep] follows_if follows_raise follows_ret assms dest: order_trans)

lemma request_handover_keeps:
  assumes "\<And>S x. F \<subseteq> S \<Longrightarrow> G S (PutHandover name body, x)"
  shows "follows G F (request_handover (recorded C) name goal body)
    (\<lambda>b S. handover_persisted name goal container S)"
  unfolding request_handover_def
proof (intro follows_if follows_raise follows_bnd [OF follows_perform] follows_bnd [OF object_read])
  fix current and S :: "exchange set"
  assume c: "(GetInstance name, Inr (Some (JObj current))) \<in> S"
  show "follows G S
      (bnd (if goal = Protected then ret (delete_protected (dict_attribute current ''config''))
            else storage_handover_is_owned (recorded C) current)
        (\<lambda>persisted. if persisted then ret True else raise MigrationFailure))
      (\<lambda>b S. handover_persisted name goal container S)"
  proof (rule follows_bnd [where M = "\<lambda>b S. b \<longrightarrow>
      (if goal = Protected then delete_protected (dict_attribute current ''config'') else owned_in current S)"])
    show "follows G S (if goal = Protected then ret (delete_protected (dict_attribute current ''config''))
            else storage_handover_is_owned (recorded C) current)
        (\<lambda>b S. b \<longrightarrow> (if goal = Protected then delete_protected (dict_attribute current ''config'')
                 else owned_in current S))"
      by (auto intro!: follows_if follows_ret follows_weaken [OF owned_read])
  next
    fix b and S' :: "exchange set"
    assume "S \<subseteq> S'" and b: "b \<longrightarrow>
      (if goal = Protected then delete_protected (dict_attribute current ''config'') else owned_in current S')"
    with c show "follows G S' (if b then ret True else raise MigrationFailure)
        (\<lambda>b S. handover_persisted name goal container S)"
      by (intro follows_if follows_raise follows_ret)
         (auto simp: handover_persisted_def owned_in_def split: handover_goal.splits if_splits; blast)
  qed
qed (use assms in auto)

lemma decide_handover_keeps:
  assumes "root_pool_name container = Inr p" and "(GetPool p, Inr (Some (JObj pool))) \<in> F"
    and "jget pool ''driver'' \<in> set shared_drivers" and "container_config container = Inr config"
  shows "follows G F (decide_handover (recorded C) name goal (jget pool ''driver'') config attempt operation)
    (\<lambda>v S. case v of
       Settled b \<Rightarrow> b \<longrightarrow> goal \<noteq> Protected \<and> no_handover config
     | Ask body \<Rightarrow> handover_allowed goal container S body \<and>
         (goal = Owned \<longrightarrow> py_truthy attempt \<longrightarrow> (''migration_attempt'', attempt) \<in> set body))"
proof (cases goal)
  case Protected
  with assms show ?thesis
    by (auto simp: decide_handover_def handover_allowed_def intro!: follows_ret follows_raise exI [of _ pool])
next
  case SourceOwned
  with assms show ?thesis
    by (auto simp: decide_handover_def handover_allowed_def intro!: follows_ret follows_raise follows_if exI [of _ pool])
next
  case Owned
  have "follows G F (if no_handover config then ret (Settled True)
      else if \<not> handover_at config [''committed''] \<and> \<not> receive_complete config then raise MigrationFailure
      else bnd (handover_ownership_proof (recorded C) name attempt operation) (\<lambda>(t, i).
        ret (Ask [(''state'', JStr ''owned''), (''migration_attempt'', JStr t), (''operation_uuid'', JStr i)])))
    (\<lambda>v S. case v of
       Settled b \<Rightarrow> b \<longrightarrow> goal \<noteq> Protected \<and> no_handover config
     | Ask body \<Rightarrow> handover_allowed goal container S body \<and>
         (goal = Owned \<longrightarrow> py_truthy attempt \<longrightarrow> (''migration_attempt'', attempt) \<in> set body))"
  proof (intro follows_if follows_raise follows_bnd [OF ownership_proof_read])
    fix q and S :: "exchange set"
    assume c: "\<not> (\<not> handover_at config [''committed''] \<and> \<not> receive_complete config)"
      and S: "F \<subseteq> S"
      and q: "(case q of (t, i) \<Rightarrow> \<lambda>S. is_uuid_like t \<and> is_uuid_like i \<and> (py_truthy attempt \<longrightarrow> attempt = JStr t)) S"
    obtain t i where ti: "q = (t, i)" by (cases q)
    show "follows G S (case q of (t, i) \<Rightarrow>
        ret (Ask [(''state'', JStr ''owned''), (''migration_attempt'', JStr t), (''operation_uuid'', JStr i)]))
      (\<lambda>v S. case v of
         Settled b \<Rightarrow> b \<longrightarrow> goal \<noteq> Protected \<and> no_handover config
       | Ask body \<Rightarrow> handover_allowed goal container S body \<and>
           (goal = Owned \<longrightarrow> py_truthy attempt \<longrightarrow> (''migration_attempt'', attempt) \<in> set body))"
      using c S q assms Owned unfolding ti prod.case
      by (intro follows_ret) (auto simp: handover_allowed_def intro!: exI [of _ pool])
  qed (use Owned in \<open>auto intro!: follows_ret\<close>)
  then show ?thesis by (simp add: Owned decide_handover_def)
qed

lemma set_handover_keeps:
  assumes "\<And>S x body. F \<subseteq> S \<Longrightarrow> handover_allowed goal container S body \<Longrightarrow>
    (goal = Owned \<longrightarrow> py_truthy attempt \<longrightarrow> (''migration_attempt'', attempt) \<in> set body) \<Longrightarrow>
    G S (PutHandover name body, x)"
  shows "follows G F (set_storage_handover_state (recorded C) name goal container attempt operation)
    (\<lambda>b S. b \<longrightarrow> handover_persisted name goal container S)"
  unfolding set_storage_handover_state_def
proof (intro follows_bnd [OF root_pool_read] follows_if follows_lifted)
  fix pool config and S :: "exchange set"
  assume S: "F \<subseteq> S" and shared: "\<not> jget pool ''driver'' \<notin> set shared_drivers"
    and config: "container_config container = Inr config"
    and pool: "\<exists>p. root_pool_name container = Inr p \<and> (GetPool p, Inr (Some (JObj pool))) \<in> S"
  obtain p where p: "root_pool_name container = Inr p" "(GetPool p, Inr (Some (JObj pool))) \<in> S"
    using pool by blast
  note decide = decide_handover_keeps [OF p _ config, of C name goal attempt operation]
  show "follows G S (bnd (decide_handover (recorded C) name goal (jget pool ''driver'') config attempt operation)
      (\<lambda>verdict. case verdict of Settled b \<Rightarrow> ret b | Ask request \<Rightarrow> request_handover (recorded C) name goal request))
    (\<lambda>b S. b \<longrightarrow> handover_persisted name goal container S)"
  proof (rule follows_bnd [OF decide])
    show "jget pool ''driver'' \<in> set shared_drivers" using shared by simp
  next
    fix v and S' :: "exchange set"
    assume S': "S \<subseteq> S'" and v: "case v of
       Settled b \<Rightarrow> b \<longrightarrow> goal \<noteq> Protected \<and> no_handover config
     | Ask body \<Rightarrow> handover_allowed goal container S' body \<and>
         (goal = Owned \<longrightarrow> py_truthy attempt \<longrightarrow> (''migration_attempt'', attempt) \<in> set body)"
    show "follows G S' (case v of Settled b \<Rightarrow> ret b | Ask request \<Rightarrow> request_handover (recorded C) name goal request)
      (\<lambda>b S. b \<longrightarrow> handover_persisted name goal container S)"
    proof (cases v)
      case (Settled b)
      with v config show ?thesis by (auto simp: handover_persisted_def intro!: follows_ret)
    next
      case (Ask body)
      have "handover_allowed goal container S'' body" if "S' \<subseteq> S''" for S''
        using v Ask that unfolding handover_allowed_def by auto
      then have "G S'' (PutHandover name body, x)" if "S' \<subseteq> S''" for S'' x
        using assms v Ask that S S' by auto
      then show ?thesis
        unfolding Ask handover_verdict.case
        by (intro follows_weaken [OF request_handover_keeps]) auto
    qed
  qed
qed (simp add: follows_ret)

lemma delete_target_keeps:
  assumes put: "\<And>S x body. F \<subseteq> S \<Longrightarrow> G S (PutHandover name body, x)"
    and stop: "\<And>S x. F \<subseteq> S \<Longrightarrow> G S (StopInstance name, x)"
    and delete: "\<And>S x. F \<subseteq> S \<Longrightarrow> G S (DeleteInstance name, x)"
  shows "follows G F (delete_target_record (recorded C) name) (\<lambda>_ _. True)"
  unfolding delete_target_record_def
proof (rule follows_seq)
  show "follows G F (handle api_not_found
      (bnd (get_object (recorded C) (GetInstance name)) (\<lambda>c. ret (Some c))) (\<lambda>_. ret None)) (\<lambda>_ _. True)"
    by (auto intro!: follows_handle follows_seq [OF follows_any [OF object_read]] follows_ret)
next
  fix found and S :: "exchange set"
  assume S: "F \<subseteq> S"
  have handover: "follows G S (set_storage_handover_state (recorded C) name Protected container JNull JNull)
      (\<lambda>_ _. True)" for container
    using S by (intro follows_any [OF set_handover_keeps] put) auto
  show "follows G S (case found of None \<Rightarrow> ret ()
     | Some container \<Rightarrow>
         bnd (set_storage_handover_state (recorded C) name Protected container JNull JNull) (\<lambda>_.
         bnd (if jget container ''status'' \<noteq> JStr ''Stopped''
              then handle already_stopped (perform (recorded C) (StopInstance name)) (\<lambda>_. ret ()) else ret ()) (\<lambda>_.
         perform (recorded C) (DeleteInstance name)))) (\<lambda>_ _. True)"
    using S
    by (intro follows_option follows_seq [OF handover] follows_seq follows_if follows_handle
        follows_any [OF follows_perform] follows_ret stop delete TrueI) auto
qed

lemma retire_keeps:
  assumes "\<And>S x a. F \<subseteq> S \<Longrightarrow> read_attempt C T a S \<Longrightarrow> is_finished a \<Longrightarrow> G S (DeleteAttempt (mt_token T), x)"
  shows "follows G F (retire_migration_attempt (recorded C) T) (\<lambda>_ _. True)"
  unfolding retire_migration_attempt_def
proof (rule follows_bnd)
  show "follows G F (handle api_not_found (bnd (get_attempt (recorded C) T) (\<lambda>a. ret (Some a))) (\<lambda>_. ret None))
      (\<lambda>found S. \<forall>a \<in> set_option found. read_attempt C T a S)"
    by (auto intro!: follows_handle follows_bnd [OF attempt_read] follows_ret intro: read_attempt_mono)
next
  fix found and S :: "exchange set"
  assume "F \<subseteq> S" and "\<forall>a \<in> set_option found. read_attempt C T a S"
  then show "follows G S (case found of None \<Rightarrow> ret ()
      | Some attempt \<Rightarrow> if \<not> is_finished attempt then raise MigrationFailure
          else perform (recorded C) (DeleteAttempt (mt_token T))) (\<lambda>_ _. True)"
    by (intro follows_option follows_if follows_ret follows_raise follows_any [OF follows_perform])
       (auto intro!: assms intro: read_attempt_mono)
qed

lemma finalize_keeps:
  assumes save: "\<And>S x profile. F \<subseteq> S \<Longrightarrow> commit_read C T S \<Longrightarrow>
      (GetProfile (mt_name T), Inr (Some (JObj profile))) \<in> S \<Longrightarrow>
      staged_for T (dict_attribute profile ''config'') \<Longrightarrow>
      G S (SaveProfile (mt_name T) (JObj (without_keys staging_keys (dict_attribute profile ''config''))), x)"
    and del: "\<And>S x. F \<subseteq> S \<Longrightarrow> commit_read C T S \<Longrightarrow> staging_cleared T S \<Longrightarrow>
      G S (DeleteAttempt (mt_token T), x)"
  shows "follows G F (finalize_attempt (recorded C) T) (\<lambda>_ _. True)"
  unfolding finalize_attempt_def
proof (intro follows_bnd [OF attempt_read] follows_if follows_raise follows_bnd [OF object_read] follows_Let)
  fix attempt profile and S S' :: "exchange set"
  let ?config = "dict_attribute profile ''config''"
  assume S: "F \<subseteq> S" "S \<subseteq> S'" and a: "read_attempt C T attempt S"
    and c: "\<not> (\<not> has_state attempt ''committed'' \<or> \<not> is_finished attempt)"
    and p: "(GetProfile (mt_name T), Inr (Some (JObj profile))) \<in> S'"
    and staged: "\<not> (jget ?config owner_key \<noteq> JStr (mt_uuid T) \<or> jget ?config cleanup_token_key \<noteq> JStr (mt_token T))"
      "\<not> jget ?config volumes_complete_key \<noteq> JStr (mt_token T)"
  have commit: "commit_read C T S''" if "S' \<subseteq> S''" for S''
    using a c S that read_attempt_mono unfolding commit_read_def by blast
  have "follows G S' (perform (recorded C) (SaveProfile (mt_name T) (JObj (without_keys staging_keys ?config))))
      (\<lambda>_. staging_cleared T)"
  proof (rule follows_weaken [OF follows_perform])
    fix S'' x assume "S' \<subseteq> S''"
    then show "G S'' (SaveProfile (mt_name T) (JObj (without_keys staging_keys ?config)), x)"
      using S p staged by (intro save commit) (auto simp: staged_for_def)
  next
    fix u and S'' :: "exchange set"
    assume "S' \<subseteq> S''" and
      "\<exists>b. (SaveProfile (mt_name T) (JObj (without_keys staging_keys ?config)), Inr b) \<in> S''"
    then show "staging_cleared T S''"
      unfolding staging_cleared_def by blast
  qed
  then show "follows G S'
      (bnd (perform (recorded C) (SaveProfile (mt_name T) (JObj (without_keys staging_keys ?config))))
        (\<lambda>_. retire_migration_attempt (recorded C) T)) (\<lambda>_ _. True)"
  proof (rule follows_bnd)
    fix u and S'' :: "exchange set"
    assume S'': "S' \<subseteq> S''" "staging_cleared T S''"
    show "follows G S'' (retire_migration_attempt (recorded C) T) (\<lambda>_ _. True)"
      using S S'' by (intro retire_keeps del commit) (use staging_cleared_mono in \<open>blast+\<close>)
  qed
qed simp_all

end

section \<open>Aborting an attempt\<close>

text \<open>
  Before any request that changes Incus, other than the fence itself, the fence was accepted:
  its reply is the attempt's own record, aborted or failed.
\<close>

definition fenced :: "('b, 'h) incus_api \<Rightarrow> migration_target \<Rightarrow> exchange set \<Rightarrow> bool" where
  "fenced C T S \<longleftrightarrow>
     (\<exists>body a. (abort_request T, Inr body) \<in> S \<and> read_reply C T body = Inr a \<and> terminal_abort a)"

definition abort_policy :: "('b, 'h) incus_api \<Rightarrow> migration_target \<Rightarrow> policy" where
  "abort_policy C T S = (\<lambda>(req, x). \<not> mutates req \<or> req = abort_request T \<or> fenced C T S)"

interpretation aborting: read_policy "abort_policy C T" for C :: "('b, 'h) incus_api" and T
  by unfold_locales (simp add: abort_policy_def)

lemma fenced_mono: "fenced C T S \<Longrightarrow> S \<subseteq> S' \<Longrightarrow> fenced C T S'"
  unfolding fenced_def by blast

lemma fence_keeps:
  "follows (abort_policy C T) F (fence_attempt (recorded C) T)
     (\<lambda>a S. has_state a ''committed'' \<or> (terminal_abort a \<longrightarrow> fenced C T S))"
  unfolding fence_attempt_def require_attempt_fencing_def
proof (intro follows_lifted follows_handle follows_if follows_raise follows_bnd [OF follows_send]
    follows_bnd [OF aborting.attempt_read] follows_lift follows_ret)
  fix S x show "abort_policy C T S (abort_request T, x)" by (simp add: abort_policy_def)
qed (auto simp: fenced_def)

lemma lost_attempt_keeps:
  assumes "fenced C T F"
  shows "follows (abort_policy C T) F (settle_lost_attempt (recorded C) T) (\<lambda>_ _. True)"
proof -
  have ok: "abort_policy C T S e" if "F \<subseteq> S" for S e
    using assms that by (auto simp: abort_policy_def dest: fenced_mono)
  show ?thesis
    unfolding settle_lost_attempt_def
    by (rule follows_seq [OF follows_any [OF follows_try [OF aborting.object_read]]])
       (auto intro!: follows_sum follows_raise follows_if follows_seq follows_handle follows_any [OF follows_send]
          follows_lifted follows_ret ok)
qed

text \<open>
  C17: aborting a migration attempt fences the target first. Whatever Incus answers, operations
  are cancelled, the target's record is stopped or deleted, its storage handover changed and the
  attempt settled only after Incus acknowledged the abort of exactly this token, instance and ID
  map; a commit race therefore never loses a committed target.
\<close>

theorem abort_fences_first:
  "obeys (abort_policy C T)
     (trace_of (abort_attempt (recorded C) T
        (if cleanup then Some (delete_target_record (recorded C) (mt_name T)) else None)) w)"
proof (rule follows_trace, unfold abort_attempt_def, rule follows_bnd [OF fence_keeps])
  fix a and S :: "exchange set"
  assume a: "has_state a ''committed'' \<or> (terminal_abort a \<longrightarrow> fenced C T S)"
  show "follows (abort_policy C T) S
      (if has_state a ''committed'' then ret a
       else if \<not> terminal_abort a then raise MigrationFailure
       else bnd (settle_migration_operations (recorded C) (mt_name T) [jget a ''operation_uuid'']) (\<lambda>_.
         bnd (case if cleanup then Some (delete_target_record (recorded C) (mt_name T)) else None of
                None \<Rightarrow> ret () | Some cleanup \<Rightarrow> cleanup) (\<lambda>_.
         handle (\<lambda>e. e = ConditionTimeout)
           (wait_attempt_finished (recorded C) T [''aborted'', ''failed''])
           (\<lambda>_. settle_lost_attempt (recorded C) T)))) (\<lambda>_ _. True)"
  proof (intro follows_if follows_ret follows_raise TrueI)
    assume "\<not> has_state a ''committed''" and "\<not> \<not> terminal_abort a"
    then have fence: "fenced C T S" using a by blast
    then have ok: "abort_policy C T S' e" if "S \<subseteq> S'" for S' e
      using that by (auto simp: abort_policy_def dest: fenced_mono)
    have cleanup: "follows (abort_policy C T) S'
        (case if cleanup then Some (delete_target_record (recorded C) (mt_name T)) else None of
           None \<Rightarrow> ret () | Some cleanup \<Rightarrow> cleanup) (\<lambda>_ _. True)" if "S \<subseteq> S'" for S'
      using that by (auto intro!: follows_ret aborting.delete_target_keeps ok)
    show "follows (abort_policy C T) S
        (bnd (settle_migration_operations (recorded C) (mt_name T) [jget a ''operation_uuid'']) (\<lambda>_.
         bnd (case if cleanup then Some (delete_target_record (recorded C) (mt_name T)) else None of
                None \<Rightarrow> ret () | Some cleanup \<Rightarrow> cleanup) (\<lambda>_.
         handle (\<lambda>e. e = ConditionTimeout)
           (wait_attempt_finished (recorded C) T [''aborted'', ''failed''])
           (\<lambda>_. settle_lost_attempt (recorded C) T)))) (\<lambda>_ _. True)"
      by (intro follows_seq [OF aborting.settle_operations_keep] follows_seq [OF cleanup] follows_handle
          follows_any [OF aborting.wait_attempt_read] lost_attempt_keeps)
         (auto intro: ok fenced_mono [OF fence])
  qed
qed

section \<open>Deletion ownership\<close>

definition handover_policy :: "string \<Rightarrow> handover_goal \<Rightarrow> fields \<Rightarrow> policy" where
  "handover_policy name goal container S =
     (\<lambda>(req, x). \<not> mutates req \<or> (\<exists>body. req = PutHandover name body \<and> handover_allowed goal container S body))"

interpretation handing_over: read_policy "handover_policy name goal container" for name goal container
  by unfold_locales (simp add: handover_policy_def)

lemma handover_keeps:
  "follows (handover_policy name goal container) F
     (set_storage_handover_state (recorded C) name goal container attempt operation)
     (\<lambda>b S. b \<longrightarrow> handover_persisted name goal container S)"
  by (rule handing_over.set_handover_keeps) (auto simp: handover_policy_def)

text \<open>
  C18: the deletion ownership of a shared root changes only with its proof. The one request that
  changes Incus is the handover of this instance, its root pool read as Ceph-backed before:
  protection only where Incus negotiated the handover and never for an external RBD, ownership
  only for a committed or completely received root together with an attempt token and an
  operation UUID, and restoration only to the source of a handover that no target received. Success
  means that no handover state was left on the instance it was given, or that a read after the
  request shows that Incus persisted it.
\<close>

theorem handover_needs_proof:
  "obeys (handover_policy name goal container)
     (trace_of (set_storage_handover_state (recorded C) name goal container attempt operation) w) \<and>
   (case outcome_of (set_storage_handover_state (recorded C) name goal container attempt operation) w of
      Inr True \<Rightarrow> handover_persisted name goal container
        (set (trace_of (set_storage_handover_state (recorded C) name goal container attempt operation) w))
    | _ \<Rightarrow> True)"
  using follows_trace [OF handover_keeps [of name goal container "{}" C attempt operation], of w]
    follows_outcome [OF handover_keeps [of name goal container "{}" C attempt operation], of w True]
  by (auto split: sum.split bool.split)

section \<open>Retiring a committed target\<close>

definition finalize_policy :: "('b, 'h) incus_api \<Rightarrow> migration_target \<Rightarrow> policy" where
  "finalize_policy C T S =
     (\<lambda>(req, x). case req of
        SaveProfile n v \<Rightarrow>
          n = mt_name T \<and> commit_read C T S \<and>
          (\<exists>profile. (GetProfile n, Inr (Some (JObj profile))) \<in> S \<and>
             staged_for T (dict_attribute profile ''config'') \<and>
             v = JObj (without_keys staging_keys (dict_attribute profile ''config'')))
      | DeleteAttempt t \<Rightarrow> t = mt_token T \<and> commit_read C T S \<and> staging_cleared T S
      | _ \<Rightarrow> \<not> mutates req)"

interpretation finalizing: read_policy "finalize_policy C T" for C :: "('b, 'h) incus_api" and T
  by unfold_locales (auto simp: finalize_policy_def split: incus_request.split)

text \<open>
  a target's staging metadata is cleared, and its token retired, only in order: Incus's
  record of the attempt was read committed and finished; the target's own profile was read with
  this instance's UUID, this token and the proof that its Cinder volume transactions completed;
  the profile is written with exactly the six staging keys removed; and the token is deleted
  only after that write was acknowledged.
\<close>

theorem finalize_in_order:
  "obeys (finalize_policy C T) (trace_of (finalize_attempt (recorded C) T) w)"
proof (rule follows_trace, rule finalizing.finalize_keeps)
  show "finalize_policy C T S (SaveProfile (mt_name T)
        (JObj (without_keys staging_keys (dict_attribute profile ''config''))), x)"
    if "commit_read C T S" and "(GetProfile (mt_name T), Inr (Some (JObj profile))) \<in> S"
      and "staged_for T (dict_attribute profile ''config'')" for S x profile
    using that by (auto simp: finalize_policy_def)
qed (simp add: finalize_policy_def)

section \<open>Converging a recovered target\<close>

text \<open>The target that a convergence acts on: its token and ID map come from what was read.\<close>

definition converge_policy :: "('b, 'h) incus_api \<Rightarrow> string \<Rightarrow> string \<Rightarrow> policy" where
  "converge_policy C u name S =
     (\<lambda>(req, x). case req of
        PutHandover n body \<Rightarrow>
          n = name \<and> (''state'', JStr ''owned'') \<in> set body \<and>
          (\<exists>T. mt_uuid T = u \<and> mt_name T = name \<and> commit_read C T S \<and>
             (''migration_attempt'', JStr (mt_token T)) \<in> set body)
      | SaveProfile n v \<Rightarrow> n = name
      | DeleteAttempt t \<Rightarrow>
          (\<exists>T. mt_uuid T = u \<and> mt_name T = name \<and> mt_token T = t \<and> commit_read C T S \<and> staging_cleared T S)
      | _ \<Rightarrow> \<not> mutates req)"

interpretation converging: read_policy "converge_policy C u name" for C :: "('b, 'h) incus_api" and u name
  by unfold_locales (auto simp: converge_policy_def split: incus_request.split)

lemma save_key_keeps:
  "follows (converge_policy C u name) F (save_profile_key (recorded C) name profile k v) (\<lambda>_ _. True)"
  unfolding save_profile_key_def
  by (auto intro!: follows_raise follows_any [OF follows_perform] simp: converge_policy_def split: json.split)

lemma mark_keeps:
  "follows (converge_policy C u name) F (mark_migration_recovery (recorded C) name desired) (\<lambda>_ _. True)"
  unfolding mark_migration_recovery_def
  by (intro follows_seq [OF follows_any [OF converging.object_read]] save_key_keeps) simp

lemma evidence_keeps: "follows G F (volume_evidence_absent (recorded C) u) (\<lambda>_ _. True)"
  unfolding volume_evidence_absent_def
  by (rule follows_seq [OF follows_journal(1)])
     (auto intro!: follows_ret follows_seq [OF follows_journal(2)] split: option.split list.split)

lemma publish_keeps:
  "follows (converge_policy C u name) F (publish_volumes_complete (recorded C) u' name token migration) (\<lambda>_ _. True)"
  unfolding publish_volumes_complete_def
  by (intro follows_if follows_raise follows_ret follows_seq [OF evidence_keeps] follows_Let
      follows_seq [OF follows_any [OF converging.object_read]] follows_seq [OF save_key_keeps] TrueI) simp

lemma local_proof_keeps:
  "follows (converge_policy C u name) F (publish_local_proof (recorded C) evidence u' name config) (\<lambda>_ _. True)"
  unfolding publish_local_proof_def
  by (intro follows_if follows_raise follows_ret follows_seq [OF publish_keeps] TrueI)

lemma retire_staging_keeps:
  assumes "mt_uuid T = u" and "mt_name T = name"
  shows "follows (converge_policy C u name) F (retire_staging (recorded C) T evidence config desired) (\<lambda>_ _. True)"
  unfolding retire_staging_def assms
proof (intro follows_handle mark_keeps follows_seq [OF local_proof_keeps] converging.finalize_keeps)
  show "converge_policy C u name S (DeleteAttempt (mt_token T), x)"
    if "commit_read C T S" and "staging_cleared T S" for S x
    using that assms by (auto simp: converge_policy_def)
qed (simp add: converge_policy_def assms)

lemma uuid_token_truthy: "is_uuid_like t \<Longrightarrow> py_truthy (JStr t)"
proof -
  have "uuid_digits [] = []" by code_simp
  then show "is_uuid_like t \<Longrightarrow> py_truthy (JStr t)"
    by (cases t) (simp_all add: is_uuid_like_def)
qed

lemma protected_keeps:
  assumes "mt_uuid T = u" and "mt_name T = name" and "is_uuid_like (mt_token T)"
  shows "follows (converge_policy C u name) F
    (converge_protected (recorded C) T container evidence config desired) (\<lambda>_ _. True)"
  unfolding converge_protected_def
proof (intro follows_bnd [OF converging.attempt_read] follows_if follows_raise)
  fix attempt and S :: "exchange set"
  assume a: "read_attempt C T attempt S" "\<not> (\<not> has_state attempt ''committed'' \<or> \<not> is_finished attempt)"
  have commit: "commit_read C T S'" if "S \<subseteq> S'" for S'
    using a that read_attempt_mono unfolding commit_read_def by blast
  have owned: "follows (converge_policy C u name) S
      (retry_finish_action (recorded C)
        (set_storage_handover_state (recorded C) (mt_name T) Owned container (JStr (mt_token T))
           (jget attempt ''operation_uuid''))) (\<lambda>_ _. True)"
    unfolding retry_finish_action_def assms(2)
    using commit uuid_token_truthy [OF assms(3)] assms
    by (intro follows_retry_loop follows_any [OF converging.set_handover_keeps])
       (auto simp: converge_policy_def handover_allowed_def)
  have outcome: "follows (converge_policy C u name) S'
      (case r of
         Inl _ \<Rightarrow> handle (\<lambda>_. True) (mark_migration_recovery (recorded C) (mt_name T) desired)
                    (\<lambda>_. raise MigrationFailure)
       | Inr _ \<Rightarrow> retire_staging (recorded C) T evidence config desired) (\<lambda>_ _. True)" for S' r
    using mark_keeps [of C u name S' desired] retire_staging_keeps [OF assms(1,2)] assms
    by (auto intro!: follows_sum follows_handle follows_raise)
  show "follows (converge_policy C u name) S
      (bnd (try_result (retry_finish_action (recorded C)
              (set_storage_handover_state (recorded C) (mt_name T) Owned container (JStr (mt_token T))
                 (jget attempt ''operation_uuid'')))) (\<lambda>owned.
       case owned of
         Inl _ \<Rightarrow> handle (\<lambda>_. True) (mark_migration_recovery (recorded C) (mt_name T) desired)
                    (\<lambda>_. raise MigrationFailure)
       | Inr _ \<Rightarrow> retire_staging (recorded C) T evidence config desired)) (\<lambda>_ _. True)"
    by (rule follows_seq [OF follows_any [OF follows_try [OF owned]] outcome])
qed

text \<open>
  C19: the convergence of a recovered target never deletes, stops or creates an instance and never
  aborts an attempt. It takes deletion ownership of the root only in the name of an attempt of
  this instance that Incus's record showed committed and finished, and retires a token only for
  such an attempt, after its staging metadata was cleared.
\<close>

theorem converge_owns_committed:
  "obeys (converge_policy C u name)
     (trace_of (converge_target (recorded C) u name desired evidence) w)"
proof (rule follows_trace, unfold converge_target_def Let_def,
    intro follows_seq [OF follows_any [OF converging.object_read]] follows_lifted follows_if follows_raise
      follows_seq [OF follows_any [OF converging.owned_read]])
  fix container profile owned and S :: "exchange set"
  let ?config = "dict_attribute profile ''config''"
  have T: "follows (converge_policy C u name) S
      (if is_uuid_like token
       then bnd (lift (target_of u name token container profile)) (\<lambda>T.
         if owned then retire_staging (recorded C) T evidence ?config d
         else converge_protected (recorded C) T container evidence ?config d)
       else if owned then ret () else raise MigrationFailure) (\<lambda>_ _. True)" for token d
    by (intro follows_if follows_lifted follows_ret follows_raise TrueI retire_staging_keeps protected_keeps)
       (auto simp: target_of_def)
  show "follows (converge_policy C u name) S
      (case jget ?config cleanup_token_key of
         JStr token \<Rightarrow>
           if is_uuid_like token
           then bnd (lift (target_of u name token container profile)) (\<lambda>T.
             if owned then retire_staging (recorded C) T evidence ?config
                 (case desired of None \<Rightarrow> if jget container ''status'' = JStr ''Running'' then ''running'' else ''stopped''
                  | Some s \<Rightarrow> s)
             else converge_protected (recorded C) T container evidence ?config
                 (case desired of None \<Rightarrow> if jget container ''status'' = JStr ''Running'' then ''running'' else ''stopped''
                  | Some s \<Rightarrow> s))
           else if owned then ret () else raise MigrationFailure
       | _ \<Rightarrow> if owned then ret () else raise MigrationFailure) (\<lambda>_ _. True)"
    by (intro follows_string T follows_if follows_ret follows_raise TrueI)
qed simp_all

section \<open>Creating a target\<close>

definition create_policy :: "('b, 'h) incus_api \<Rightarrow> migration_target \<Rightarrow> fields \<Rightarrow> policy" where
  "create_policy C T config S =
     (\<lambda>(req, x). case req of
        PostInstance body \<Rightarrow>
          fenced_request (mt_token T) config = Inr body \<and>
          (\<exists>a. read_attempt C T a S \<and> has_state a ''active'')
      | _ \<Rightarrow> \<not> mutates req)"

interpretation creating: read_policy "create_policy C T config"
  for C :: "('b, 'h) incus_api" and T config
  by unfold_locales (auto simp: create_policy_def split: incus_request.split)

text \<open>What a returned target is: its attempt was read committed, its instance is this one.\<close>

definition target_committed ::
  "('b, 'h) incus_api \<Rightarrow> migration_target \<Rightarrow> fields \<Rightarrow> exchange set \<Rightarrow> bool" where
  "target_committed C T container S \<longleftrightarrow>
     (\<exists>a. read_attempt C T a S \<and> has_state a ''committed'') \<and>
     (GetInstance (mt_name T), Inr (Some (JObj container))) \<in> S \<and>
     instance_nova_uuid container = Inr (JStr (mt_uuid T))"

abbreviation quiet :: "'h notify \<Rightarrow> ('h \<times> exchange list) notify" where
  "quiet started \<equiv> map_option (\<lambda>f i. unrecorded (f i)) started"

lemma notify_keeps: "follows G F (operation_started (quiet started) i) (\<lambda>_ _. True)"
  unfolding operation_started_def by (cases started) (simp_all add: follows_ret follows_unrecorded)

lemma start_keeps:
  assumes "\<And>S x. F \<subseteq> S \<Longrightarrow> create_policy C T config S (PostInstance request, x)"
  shows "follows (create_policy C T config) F (start_receive (recorded C) request (quiet started)) (\<lambda>_ _. True)"
  unfolding start_receive_def
proof (rule follows_seq)
  show "follows (create_policy C T config) F
      (try_result (bnd (send (recorded C) (PostInstance request)) (\<lambda>reply.
         bnd (lift (body_field (recorded C) reply ''operation'')) (\<lambda>v.
         bnd (lift (migration_operation_id (recorded C) v)) (\<lambda>i.
         case i of None \<Rightarrow> raise MigrationFailure | Some i \<Rightarrow> ret i))))) (\<lambda>_ _. True)"
    by (intro follows_any [OF follows_try [where Q = "\<lambda>_ _. True"]] follows_seq [OF follows_any [OF follows_send]] follows_lifted follows_option
        follows_raise follows_ret assms TrueI)
next
  fix r and S :: "exchange set"
  show "follows (create_policy C T config) S
      (case r of Inl e \<Rightarrow> ret (None, Some e)
       | Inr i \<Rightarrow>
           bnd (try_result (bnd (operation_started (quiet started) i)
                  (\<lambda>_. perform (recorded C) (WaitOperation i)))) (\<lambda>r. ret (Some i, error_of r)))
      (\<lambda>_ _. True)"
    by (intro follows_sum follows_ret follows_seq [OF follows_any [OF follows_try [where Q = "\<lambda>_ _. True"]]]
        follows_seq [OF notify_keeps] creating.perform_read TrueI) simp
qed

lemma await_keeps:
  "follows (create_policy C T config) F (await_commit (recorded C) T started_id error)
     (\<lambda>(attempt, i, error) S. read_attempt C T attempt S)"
  unfolding await_commit_def Let_def
  by (intro follows_bnd [OF creating.attempt_read] follows_lifted follows_option follows_if follows_ret
      follows_seq [OF follows_any [OF follows_try [OF creating.perform_read]]])
     (auto intro: read_attempt_mono)

lemma create_keeps:
  "follows (create_policy C T config) F (create_target (recorded C) T config (quiet started))
     (\<lambda>(container, i) S. target_committed C T container S)"
  unfolding create_target_def
proof (intro follows_bnd [OF creating.attempt_read] follows_if follows_raise follows_lifted)
  fix attempt and S :: "exchange set"
  assume a: "read_attempt C T attempt S" and c: "has_state attempt ''committed''"
  then show "follows (create_policy C T config) S
      (bnd (attempt_instance (recorded C) T) (\<lambda>container.
       ret (container, if py_truthy (jget attempt ''operation_uuid'')
                       then jget attempt ''operation_uuid'' else JNull)))
      (\<lambda>(container, i) S. target_committed C T container S)"
    by (intro follows_bnd [OF creating.target_instance_read] follows_ret)
       (auto simp: target_committed_def intro: read_attempt_mono)
next
  fix attempt request and S :: "exchange set"
  assume a: "read_attempt C T attempt S" "\<not> \<not> has_state attempt ''active''"
    and request: "fenced_request (mt_token T) config = Inr request"
  have post: "create_policy C T config S' (PostInstance request, x)" if "S \<subseteq> S'" for S' x
    using a request that by (auto simp: create_policy_def intro: read_attempt_mono)
  have finish: "follows (create_policy C T config) S'
      (if has_state attempt' ''committed'' \<and> is_finished attempt'
       then bnd (case i of None \<Rightarrow> ret () | Some i \<Rightarrow> operation_started (quiet started) i) (\<lambda>_.
         bnd (attempt_instance (recorded C) T) (\<lambda>container.
         ret (container, case i of None \<Rightarrow> JNull | Some i \<Rightarrow> JStr i)))
       else case error of None \<Rightarrow> raise MigrationFailure | Some e \<Rightarrow> raise e)
      (\<lambda>(container, i) S. target_committed C T container S)"
    if "read_attempt C T attempt' S'" for S' attempt' i error
  proof (intro follows_if follows_option follows_raise)
    assume "has_state attempt' ''committed'' \<and> is_finished attempt'"
    with that show "follows (create_policy C T config) S'
        (bnd (case i of None \<Rightarrow> ret () | Some i \<Rightarrow> operation_started (quiet started) i) (\<lambda>_.
         bnd (attempt_instance (recorded C) T) (\<lambda>container.
         ret (container, case i of None \<Rightarrow> JNull | Some i \<Rightarrow> JStr i))))
        (\<lambda>(container, i) S. target_committed C T container S)"
      by (intro follows_seq [OF follows_option] follows_ret notify_keeps TrueI
          follows_bnd [OF creating.target_instance_read])
         (auto simp: target_committed_def intro!: exI [of _ attempt'] intro: read_attempt_mono)
  qed
  show "follows (create_policy C T config) S
      (bnd (start_receive (recorded C) request (quiet started)) (\<lambda>(started_id, error).
       bnd (await_commit (recorded C) T started_id error) (\<lambda>(attempt, i, error).
       if has_state attempt ''committed'' \<and> is_finished attempt
       then bnd (case i of None \<Rightarrow> ret () | Some i \<Rightarrow> operation_started (quiet started) i) (\<lambda>_.
         bnd (attempt_instance (recorded C) T) (\<lambda>container.
         ret (container, case i of None \<Rightarrow> JNull | Some i \<Rightarrow> JStr i)))
       else case error of None \<Rightarrow> raise MigrationFailure | Some e \<Rightarrow> raise e)))
      (\<lambda>(container, i) S. target_committed C T container S)"
    by (intro follows_seq [OF start_keeps] follows_prod follows_bnd [OF await_keeps] post)
       (assumption | rule finish | simp)+
qed

text \<open>
  C20: a migration target is created under its fence and counted only once it committed. The one
  request that changes Incus is the create request carrying exactly this attempt's token, sent
  after the attempt's record was read active; and whatever the response, the wait or the
  callback reported, a target is returned only after Incus's record of the attempt was read
  committed, and is an instance of this name with this Nova UUID.
\<close>

theorem target_created_once_committed:
  "obeys (create_policy C T config) (trace_of (create_target (recorded C) T config (quiet started)) w) \<and>
   (case outcome_of (create_target (recorded C) T config (quiet started)) w of
      Inl _ \<Rightarrow> True
    | Inr (container, i) \<Rightarrow>
        target_committed C T container (set (trace_of (create_target (recorded C) T config (quiet started)) w)))"
  using follows_trace [OF create_keeps [of C T config "{}" started], of w]
    follows_outcome [OF create_keeps [of C T config "{}" started], of w]
  by (auto split: sum.split)

section \<open>Abandoned reservations\<close>

text \<open>Answers of Nova that do not change while a pass reads them.\<close>

definition steady_view ::
  "string list \<Rightarrow> string list \<Rightarrow> string option list \<Rightarrow> (string \<Rightarrow> string option) \<Rightarrow> 'h nova_view" where
  "steady_view locals nodes migrating name_of =
     \<lparr>nv_local_names = ret locals, nv_nodes = ret nodes, nv_migrating = (\<lambda>_. ret migrating),
      nv_name_of = (\<lambda>u. ret (name_of u))\<rparr>"

definition claimable :: "string list \<Rightarrow> string option list \<Rightarrow> (string \<Rightarrow> string option) \<Rightarrow> string set" where
  "claimable locals migrating name_of =
     set locals \<union> {n. \<exists>u. Some u \<in> set migrating \<and> u \<noteq> [] \<and> name_of u = Some n}"

lemma set_map_filter: "set (List.map_filter f xs) = {y. \<exists>x \<in> set xs. f x = Some y}"
  by (induction xs) (auto simp: List.map_filter_def)

lemma names_of_uuids_steady:
  "names_of_uuids (steady_view locals nodes migrating name_of) us w = (Inr (List.map_filter name_of us), w)"
  by (induction us)
     (simp_all add: steady_view_def run_simps List.map_filter_def split: option.split)

lemma claimable_names_steady:
  "claimable_target_names (steady_view locals nodes migrating name_of) w =
     (case nodes of
        [] \<Rightarrow> (Inl (Raised IndexError), w)
      | _ \<Rightarrow> (Inr (locals @ List.map_filter name_of
                     (remdups (filter (\<lambda>u. u \<noteq> []) (List.map_filter id migrating)))), w))"
proof -
  have view: "nv_local_names (steady_view locals nodes migrating name_of) = ret locals"
    "nv_nodes (steady_view locals nodes migrating name_of) = ret nodes"
    "nv_migrating (steady_view locals nodes migrating name_of) = (\<lambda>_. ret migrating)"
    by (simp_all add: steady_view_def)
  show ?thesis
    unfolding claimable_target_names_def view bnd_ret
    by (cases nodes) (simp_all add: raise_def ret_def bnd_run_Inr [OF names_of_uuids_steady])
qed

lemma claimable_names_set:
  "set (locals @ List.map_filter name_of (remdups (filter (\<lambda>u. u \<noteq> []) (List.map_filter id migrating)))) =
     claimable locals migrating name_of"
  by (auto simp: claimable_def set_map_filter)

text \<open>The record of a reservation was read, in the same unstarted state.\<close>

definition unstarted_read :: "('b, 'h) incus_api \<Rightarrow> reservation \<Rightarrow> exchange set \<Rightarrow> bool" where
  "unstarted_read C r S \<longleftrightarrow>
     (\<exists>reply m r'. (GetAttempt (rv_token r), Inr reply) \<in> S \<and> attempt_metadata reply = Inr m \<and>
        unstarted_reservation C (JObj m) = Inr (Some r') \<and> same_reservation r' r)"

definition abort_finished :: "string \<Rightarrow> exchange set \<Rightarrow> bool" where
  "abort_finished t S \<longleftrightarrow>
     (\<exists>reply m. (PutAttempt t [(''state'', JStr ''aborted'')], Inr reply) \<in> S \<and>
        attempt_metadata reply = Inr m \<and> terminal_abort m \<and> is_finished m)"

definition release_policy_of ::
  "('b, 'h) incus_api \<Rightarrow> reservation dict \<Rightarrow> string set \<Rightarrow> policy" where
  "release_policy_of C previous names S =
     (\<lambda>(req, x). case req of
        PutAttempt t body \<Rightarrow>
          body = [(''state'', JStr ''aborted'')] \<and>
          (\<exists>r. rv_token r = t \<and> seen_unchanged previous r \<and> rv_name r \<notin> JStr ` names \<and> unstarted_read C r S)
      | DeleteAttempt t \<Rightarrow> abort_finished t S
      | _ \<Rightarrow> \<not> mutates req)"

interpretation releasing: read_policy "release_policy_of C previous names"
  for C :: "('b, 'h) incus_api" and previous names
  by unfold_locales (auto simp: release_policy_of_def split: incus_request.split)

lemma release_unstarted_keeps:
  assumes "seen_unchanged previous r" and "rv_name r \<notin> JStr ` names"
  shows "follows (release_policy_of C previous names) F (release_unstarted_attempt (recorded C) r) (\<lambda>_ _. True)"
  unfolding release_unstarted_attempt_def require_attempt_fencing_def
proof (rule follows_lifted, rule follows_bnd [OF releasing.send_read], simp, rule follows_lifted,
    intro follows_if follows_raise)
  fix reply current and S :: "exchange set"
  assume reply: "(GetAttempt (rv_token r), Inr reply) \<in> S"
    and current: "rbind (attempt_metadata reply) (\<lambda>m. unstarted_reservation (recorded C) (JObj m)) = Inr current"
    and same: "\<not> \<not> (case current of None \<Rightarrow> False | Some c \<Rightarrow> same_reservation c r)"
  have read: "unstarted_read C r S'" if "S \<subseteq> S'" for S'
    using reply current same that unfolding unstarted_read_def
    by (auto simp: rbind_Inr_conv split: option.splits)
  show "follows (release_policy_of C previous names) S
      (bnd (send (recorded C) (PutAttempt (rv_token r) [(''state'', JStr ''aborted'')])) (\<lambda>reply.
       bnd (lift (attempt_metadata reply)) (\<lambda>attempt.
       if jget attempt ''token'' \<noteq> JStr (rv_token r) \<or>
          \<not> py_equal (jget attempt ''resource_name'') (rv_name r) \<or>
          \<not> (has_state attempt ''aborted'' \<or> has_state attempt ''failed'') \<or>
          \<not> is_finished attempt
       then raise MigrationFailure
       else perform (recorded C) (DeleteAttempt (rv_token r))))) (\<lambda>_ _. True)"
  proof (intro follows_bnd [OF follows_send] follows_lifted follows_if follows_raise follows_any [OF follows_perform])
    show "release_policy_of C previous names S'
        (PutAttempt (rv_token r) [(''state'', JStr ''aborted'')], x)" if "S \<subseteq> S'" for S' x
      using that assms read by (auto simp: release_policy_of_def)
    show "release_policy_of C previous names S'' (DeleteAttempt (rv_token r), x)"
      if "(PutAttempt (rv_token r) [(''state'', JStr ''aborted'')], Inr reply) \<in> S'"
        and "attempt_metadata reply = Inr attempt" and "S' \<subseteq> S''"
        and "\<not> (jget attempt ''token'' \<noteq> JStr (rv_token r) \<or>
          \<not> py_equal (jget attempt ''resource_name'') (rv_name r) \<or>
          \<not> (has_state attempt ''aborted'' \<or> has_state attempt ''failed'') \<or> \<not> is_finished attempt)"
      for S' S'' x reply attempt
      using that unfolding release_policy_of_def abort_finished_def terminal_abort_def by auto
  qed
qed

lemma release_all_keeps:
  assumes "names \<subseteq> set claimed"
  shows "follows (release_policy_of C previous names) F
    (release_reservations (recorded C) previous claimed rs memory) (\<lambda>_ _. True)"
proof (induction rs arbitrary: F memory)
  case (Cons r rs)
  have "follows (release_policy_of C previous names) F (try_result (release_unstarted_attempt (recorded C) r)) (\<lambda>_ _. True)"
    if "\<not> (rv_name r \<in> JStr ` set claimed \<or> \<not> seen_unchanged previous r)" for F
    using that assms by (intro follows_any [OF follows_try [OF release_unstarted_keeps]]) auto
  then show ?case
    unfolding release_reservations.simps
    by (intro follows_if follows_ret follows_seq Cons.IH TrueI)
qed (simp add: follows_ret)

lemma claimable_keeps:
  "follows G F (claimable_target_names (steady_view locals nodes migrating name_of))
     (\<lambda>names S. set names = claimable locals migrating name_of)"
  using claimable_names_set [of locals name_of migrating]
  by (cases nodes) (auto simp: follows_def claimable_names_steady)

lemma listing_keeps:
  "follows (release_policy_of C previous names) F (list_unstarted_reservations (recorded C)) (\<lambda>_ _. True)"
  unfolding list_unstarted_reservations_def
  by (intro follows_if follows_ret follows_seq [OF follows_any [OF releasing.send_read]] follows_lifted TrueI) simp

lemma pass_keeps:
  "follows (release_policy_of C previous (claimable locals migrating name_of)) F
     (bnd (try_result (claimable_target_names (steady_view locals nodes migrating name_of))) (\<lambda>r.
      case r of Inl _ \<Rightarrow> ret (memory, None)
      | Inr claimed \<Rightarrow> release_reservations (recorded C) previous claimed rs memory)) (\<lambda>_ _. True)"
proof (rule follows_bnd [OF follows_try [OF claimable_keeps]])
  fix r :: "incus_error + string list" and S :: "exchange set"
  assume "case r of Inl _ \<Rightarrow> True | Inr names \<Rightarrow> set names = claimable locals migrating name_of"
  then show "follows (release_policy_of C previous (claimable locals migrating name_of)) S
      (case r of Inl _ \<Rightarrow> ret (memory, None)
       | Inr claimed \<Rightarrow> release_reservations (recorded C) previous claimed rs memory) (\<lambda>_ _. True)"
    by (cases r) (auto intro: follows_ret release_all_keeps)
qed

text \<open>
  C21: the periodic task never takes a target reservation from a migration that may still use it.
  It aborts a token only when the previous pass remembered the reservation unchanged, no local
  instance and no instance of an in-progress migration has its name, and a read just before
  showed it still unstarted; it deletes a token only after Incus answered that the abort is
  terminal and finished; and it sends nothing else that changes Incus.
\<close>

theorem abandoned_only_released:
  "obeys (release_policy_of C previous (claimable locals migrating name_of))
     (trace_of (release_abandoned_reservations (recorded C) (steady_view locals nodes migrating name_of)
        auto_recovery previous) w)"
  unfolding release_abandoned_reservations_def
  by (intro follows_trace [where Q = "\<lambda>_ _. True"] follows_if follows_ret follows_seq [OF follows_any [OF follows_try [OF listing_keeps]]]
      follows_sum follows_Let pass_keeps TrueI)

section \<open>Bounded polling and the barrier\<close>









lemma recorded_send:
  "ia_send (recorded C) req (w, l) = (case ia_send C req w of (r, w') \<Rightarrow> (r, (w', l @ [(req, r)])))"
  by (simp add: recorded_def)

lemma url_path_recorded [simp]: "url_path (recorded C) = url_path C"
  by (intro ext) (simp add: url_path_def)

lemma names_instance_recorded [simp]: "names_instance (recorded C) name vs = names_instance C name vs"
  by (induction vs) (simp_all split: json.split cong del: if_weak_cong)

lemma active_operations_recorded [simp]:
  "active_operations (recorded C) name vs acc = active_operations C name vs acc"
proof (induction vs arbitrary: acc)
  case (Cons v vs)
  have "operation_targets_instance (recorded C) op name = operation_targets_instance C op name" for op
    unfolding operation_targets_instance_def names_instance_recorded [abs_def] ..
  then show ?case
    by (simp add: Cons.IH split: json.split)
qed simp

lemma listed_operations_recorded [simp]: "listed_operations (recorded C) name = listed_operations C name"
  unfolding listed_operations_def body_field_def recorded_simps active_operations_recorded ..

lemma listing_run:
  assumes "instance_migration_operations (recorded C) name s = (Inr ops, (w', l'))"
  shows "l' \<noteq> [] \<and> (\<exists>reply. last l' = (ListOperations, Inr reply) \<and> listed_operations C name reply = Inr ops)"
  using assms
  by (cases s) (auto simp: instance_migration_operations_def send_def recorded_send bnd_def lift_def
      split: prod.splits sum.splits)

text \<open>
  C22: the operations of an instance count as settled only behind a barrier: where the settlement
  succeeds, its very last exchange is a listing of all operations in which none of this instance
  is active, so a target create that became visible after the first listing is not missed.
\<close>

theorem settlement_barrier:
  "case settle_migration_operations (recorded C) name ids (w, []) of
     (Inl _, _) \<Rightarrow> True
   | (Inr _, (_, l)) \<Rightarrow>
       l \<noteq> [] \<and> (\<exists>reply. last l = (ListOperations, Inr reply) \<and> listed_operations C name reply = Inr [])"
proof -
  have "l' \<noteq> [] \<and> (\<exists>reply. last l' = (ListOperations, Inr reply) \<and> listed_operations C name reply = Inr [])"
    if "settle_migration_operations (recorded C) name ids (w, []) = (Inr u, (w', l'))" for u w' l'
    using that unfolding settle_migration_operations_def
    by (elim bnd_InrE) (auto simp: raise_def ret_def split: if_splits dest: listing_run)
  then show ?thesis
    by (auto split: prod.split sum.split)
qed

end
