(* ===== verification/Volume_Journal.thy ===== *)
theory Volume_Journal
  imports Storage_Handover
begin

text \<open>
  The durable evidence of Cinder volume transactions on a host (nova/virt/incus/driver.py): the
  volume journal, the attach and detach intents of the compute manager, and the rotation of an
  attachment in a cold migration, each a file in the directory of its instance; their formats,
  validation, transitions and removal, the classification of a transaction for recovery, and the
  pruning of stale temporary files.
\<close>

section \<open>The directories\<close>

text \<open>
  A file has a text (\<open>None\<close> where it cannot be read), a modification time, and is a regular file or
  not. A write replaces the file in one step, as \<open>os.replace\<close> does; its temporary file, the modes
  and \<open>fsync\<close> are not modelled. A directory that does not exist is \<open>None\<close>; its list is the order of
  \<open>listdir\<close>.
\<close>

record 'b jfile =
  jf_text :: "'b option"
  jf_mtime :: int
  jf_regular :: bool

record 'b jhost =
  jh_dirs :: "string \<Rightarrow> (string \<times> 'b jfile) list option"
  jh_now :: int

type_synonym ('b, 'a) jprog = "('b jhost, incus_error, 'a) eprog"

datatype record_kind = VolumeRecord | AttachIntent | DetachIntent | AttachmentRotation

fun kind_suffix :: "record_kind \<Rightarrow> string" where
  "kind_suffix VolumeRecord = ''.json''"
| "kind_suffix AttachIntent = ''.attach-intent''"
| "kind_suffix DetachIntent = ''.detach-intent''"
| "kind_suffix AttachmentRotation = ''.attachment-rotation''"

definition record_name :: "'b lib \<Rightarrow> record_kind \<Rightarrow> string \<Rightarrow> string" where
  "record_name L k volume = l_sha256 L (l_encode L volume) @ kind_suffix k"

definition directory :: "string \<Rightarrow> ('b, (string \<times> 'b jfile) list option) jprog" where
  "directory u = (\<lambda>s. (Inr (jh_dirs s u), s))"

definition set_directory :: "string \<Rightarrow> (string \<times> 'b jfile) list option \<Rightarrow> ('b, unit) jprog" where
  "set_directory u d = modify (\<lambda>s. s\<lparr>jh_dirs := (jh_dirs s)(u := d)\<rparr>)"

definition json_text :: "'b lib \<Rightarrow> 'b jfile \<Rightarrow> json incus_result" where
  "json_text L f =
     (case jf_text f of
        None \<Rightarrow> Inl BadVolume
      | Some t \<Rightarrow> (case l_loads L t of None \<Rightarrow> Inl BadVolume | Some v \<Rightarrow> Inr v))"

definition load_record :: "'b lib \<Rightarrow> string \<Rightarrow> record_kind \<Rightarrow> string \<Rightarrow> ('b, json option) jprog" where
  "load_record L u k volume =
     bnd (directory u) (\<lambda>d.
     case Option.bind d (\<lambda>files. map_of files (record_name L k volume)) of
       None \<Rightarrow> ret None
     | Some f \<Rightarrow> bnd (lift (json_text L f)) (\<lambda>v. ret (Some v)))"

definition store_record ::
  "'b lib \<Rightarrow> string \<Rightarrow> record_kind \<Rightarrow> string \<Rightarrow> fields \<Rightarrow> ('b, unit) jprog" where
  "store_record L u k volume payload =
     bnd get_state (\<lambda>s.
     let files = (case jh_dirs s u of None \<Rightarrow> [] | Some files \<Rightarrow> files) in
     set_directory u (Some (AList.update (record_name L k volume)
       \<lparr>jf_text = Some (json_bytes L (JObj payload)), jf_mtime = jh_now s, jf_regular = True\<rparr> files)))"

text \<open>\<open>os.unlink\<close>, an OSError where the file is missing, and \<open>os.rmdir\<close> of an empty directory.\<close>

definition unlink_name :: "string \<Rightarrow> string \<Rightarrow> ('b, unit) jprog" where
  "unlink_name u name =
     bnd (directory u) (\<lambda>d.
     case d of
       None \<Rightarrow> raise TransportFailure
     | Some files \<Rightarrow>
         if map_of files name = None then raise TransportFailure
         else set_directory u (Some (AList.delete name files)))"

definition drop_empty :: "string \<Rightarrow> ('b, unit) jprog" where
  "drop_empty u = bnd (directory u) (\<lambda>d. if d = Some [] then set_directory u None else ret ())"

definition unlink_record :: "'b lib \<Rightarrow> string \<Rightarrow> record_kind \<Rightarrow> string \<Rightarrow> ('b, unit) jprog" where
  "unlink_record L u k volume = bnd (unlink_name u (record_name L k volume)) (\<lambda>_. drop_empty u)"

section \<open>Attachment records\<close>

abbreviation pre_live_disconnected_key :: string where
  "pre_live_disconnected_key \<equiv> ''incus_pre_live_disconnected''"

definition ends_with :: "string \<Rightarrow> string \<Rightarrow> bool" where
  "ends_with p s \<longleftrightarrow> starts_with (rev p) (rev s)"

definition sensitive_key :: "string \<Rightarrow> bool" where
  "sensitive_key k \<longleftrightarrow>
     k = pre_live_disconnected_key \<or>
     (let l = map lower_char k in
      l \<in> {''auth_password'', ''password'', ''key'', ''keyring'', ''secret'', ''token''} \<or>
      ends_with ''_password'' l \<or> ends_with ''_token'' l)"

text \<open>The cleaned value, \<open>JNull\<close> for one that is left out.\<close>

fun sanitize :: "json \<Rightarrow> json" and sanitize_fields :: "fields \<Rightarrow> fields"
  and sanitize_items :: "json list \<Rightarrow> json list" where
  "sanitize (JObj kvs) = JObj (sanitize_fields kvs)"
| "sanitize (JList xs) = JList (sanitize_items xs)"
| "sanitize v = v"
| "sanitize_fields [] = []"
| "sanitize_fields ((k, v) # kvs) =
     (if sensitive_key k \<or> sanitize v = JNull then sanitize_fields kvs
      else (k, sanitize v) # sanitize_fields kvs)"
| "sanitize_items [] = []"
| "sanitize_items (v # vs) =
     (if sanitize v = JNull then sanitize_items vs else sanitize v # sanitize_items vs)"

definition attachment_record :: "fields \<Rightarrow> json \<Rightarrow> json \<Rightarrow> json \<Rightarrow> json incus_result" where
  "attachment_record connection device_info mountpoint phase =
     (case jget connection ''driver_volume_type'' of
        JStr (c # protocol) \<Rightarrow>
          Inr (JObj [(''version'', JInt 2), (''phase'', phase),
             (''driver_volume_type'', JStr (c # protocol)),
             (''connection_data'',
                sanitize (let d = jget connection ''data'' in if py_truthy d then d else JObj [])),
             (''device_info'', device_info), (''mountpoint'', mountpoint)])
      | _ \<Rightarrow> Inl BadVolume)"

text \<open>The record in its text form, which the profile keeps and the journal reads back.\<close>

definition serialize_attachment :: "'b lib \<Rightarrow> fields \<Rightarrow> json \<Rightarrow> json \<Rightarrow> json \<Rightarrow> 'b incus_result" where
  "serialize_attachment L connection device_info mountpoint phase =
     rbind (attachment_record connection device_info mountpoint phase) (\<lambda>r. Inr (json_bytes L r))"

definition journal_fields :: "nova_row \<Rightarrow> string \<Rightarrow> json \<Rightarrow> fields" where
  "journal_fields row volume attachment =
     [(''version'', JInt 1), (''instance_uuid'', JStr (nr_uuid row)),
      (''instance_name'', JStr (nr_name row)), (''volume_id'', JStr volume), (''attachment'', attachment)]"

definition write_volume_journal ::
  "'b lib \<Rightarrow> nova_row \<Rightarrow> string \<Rightarrow> fields \<Rightarrow> json \<Rightarrow> json \<Rightarrow> json \<Rightarrow> ('b, unit) jprog" where
  "write_volume_journal L row volume connection device_info mountpoint phase =
     bnd (lift (serialize_attachment L connection device_info mountpoint phase)) (\<lambda>text.
     case l_loads L text of
       None \<Rightarrow> raise (Raised ValueError)
     | Some attachment \<Rightarrow>
         store_record L (nr_uuid row) VolumeRecord volume (journal_fields row volume attachment))"

text \<open>What all records of an instance's volume say of their owner.\<close>

definition owned_payload :: "nova_row \<Rightarrow> string \<Rightarrow> int \<Rightarrow> fields \<Rightarrow> bool" where
  "owned_payload row volume version p \<longleftrightarrow>
     py_eq_int (jget p ''version'') version \<and> jget p ''instance_uuid'' = JStr (nr_uuid row) \<and>
     jget p ''instance_name'' = JStr (nr_name row) \<and> jget p ''volume_id'' = JStr volume"

definition nonempty_string :: "json \<Rightarrow> bool" where
  "nonempty_string v \<longleftrightarrow> (case v of JStr s \<Rightarrow> s \<noteq> [] | _ \<Rightarrow> False)"

definition is_bool :: "json \<Rightarrow> bool" where
  "is_bool v \<longleftrightarrow> (case v of JBool _ \<Rightarrow> True | _ \<Rightarrow> False)"

definition read_volume_journal :: "'b lib \<Rightarrow> nova_row \<Rightarrow> string \<Rightarrow> ('b, fields option) jprog" where
  "read_volume_journal L row volume =
     bnd (load_record L (nr_uuid row) VolumeRecord volume) (\<lambda>loaded.
     case loaded of
       None \<Rightarrow> ret None
     | Some (JObj p) \<Rightarrow>
         (case jget p ''attachment'' of
            JObj attachment \<Rightarrow>
              if owned_payload row volume 1 p then ret (Some attachment) else raise BadVolume
          | _ \<Rightarrow> raise BadVolume)
     | Some _ \<Rightarrow> raise BadVolume)"

definition remove_volume_journal :: "'b lib \<Rightarrow> nova_row \<Rightarrow> string \<Rightarrow> ('b, unit) jprog" where
  "remove_volume_journal L row volume =
     bnd (directory (nr_uuid row)) (\<lambda>d.
     if Option.bind d (\<lambda>files. map_of files (record_name L VolumeRecord volume)) = None then ret ()
     else unlink_record L (nr_uuid row) VolumeRecord volume)"

section \<open>Intents of the compute manager\<close>

text \<open>The operation of an attach: its kind, token, direction, migration and boot-volume marker.\<close>

record attach_operation =
  ao_kind :: json
  ao_token :: json
  ao_direction :: json
  ao_migration :: json
  ao_boot :: json

definition hot_attach :: attach_operation where
  "hot_attach = \<lparr>ao_kind = JStr ''hot-attach'', ao_token = JNull, ao_direction = JNull,
                 ao_migration = JNull, ao_boot = JBool False\<rparr>"

definition migration_directions :: "json list" where
  "migration_directions =
     map JStr [''cold-target'', ''cold-source-restore'', ''cold-revert-source'', ''live-target'', ''live-source-release'']"

definition boot_directions :: "json list" where
  "boot_directions = map JStr [''cold-source-restore'', ''cold-revert-source'', ''live-source-release'']"

text \<open>Membership in a set of strings: an unhashable value is a TypeError.\<close>

definition member_of :: "json \<Rightarrow> json list \<Rightarrow> bool incus_result" where
  "member_of v xs = (if hashable v then Inr (v \<in> set xs) else Inl (Raised TypeError))"

definition validate_attach_operation :: "attach_operation \<Rightarrow> unit incus_result" where
  "validate_attach_operation oper =
     rbind (check (is_bool (ao_boot oper)) BadVolume) (\<lambda>_.
     rbind (member_of (ao_kind oper) (map JStr [''hot-attach'', ''spawn'', ''reconcile'', ''migration''])) (\<lambda>known.
     rbind (check known BadVolume) (\<lambda>_.
     rbind (check (ao_boot oper = JBool True \<longrightarrow>
                     ao_kind oper = JStr ''migration'' \<and> ao_direction oper \<in> set boot_directions) BadVolume) (\<lambda>_.
     if ao_kind oper = JStr ''hot-attach''
     then check (ao_token oper = JNull \<and> ao_direction oper = JNull \<and> ao_migration oper = JNull) BadVolume
     else if \<not> uuid_like_value (ao_token oper) then Inl BadVolume
     else if ao_kind oper = JStr ''spawn''
     then check (ao_direction oper = JStr ''materialize'' \<and> ao_migration oper = JNull) BadVolume
     else if ao_kind oper = JStr ''reconcile''
     then check (ao_direction oper = JStr ''power-reconcile'' \<and> ao_migration oper = JNull) BadVolume
     else
       rbind (member_of (ao_direction oper) migration_directions) (\<lambda>known.
       rbind (check known BadVolume) (\<lambda>_.
       check (uuid_like_value (ao_migration oper)) BadVolume))))))"

definition attach_fields :: "nova_row \<Rightarrow> string \<Rightarrow> json \<Rightarrow> json \<Rightarrow> attach_operation \<Rightarrow> fields" where
  "attach_fields row volume attachment mountpoint oper =
     [(''version'', JInt 3), (''instance_uuid'', JStr (nr_uuid row)), (''instance_name'', JStr (nr_name row)),
      (''volume_id'', JStr volume), (''attachment_id'', attachment), (''mountpoint'', mountpoint),
      (''operation_kind'', ao_kind oper), (''operation_token'', ao_token oper),
      (''operation_direction'', ao_direction oper), (''operation_migration_uuid'', ao_migration oper),
      (''boot_volume'', ao_boot oper)]"

definition detach_fields :: "nova_row \<Rightarrow> string \<Rightarrow> json \<Rightarrow> json \<Rightarrow> json \<Rightarrow> fields" where
  "detach_fields row volume attachment destroy_bdm mountpoint =
     [(''version'', JInt 1), (''instance_uuid'', JStr (nr_uuid row)), (''instance_name'', JStr (nr_name row)),
      (''volume_id'', JStr volume), (''attachment_id'', attachment), (''destroy_bdm'', destroy_bdm),
      (''mountpoint'', mountpoint)]"

definition operation_of :: "fields \<Rightarrow> attach_operation" where
  "operation_of p =
     \<lparr>ao_kind = jget p ''operation_kind'', ao_token = jget p ''operation_token'',
      ao_direction = jget p ''operation_direction'', ao_migration = jget p ''operation_migration_uuid'',
      ao_boot = jget p ''boot_volume''\<rparr>"

definition attach_intent_keys :: "string list" where
  "attach_intent_keys =
     [''version'', ''instance_uuid'', ''instance_name'', ''volume_id'', ''attachment_id'', ''mountpoint'',
      ''operation_kind'', ''operation_token'', ''operation_direction'', ''operation_migration_uuid'',
      ''boot_volume'']"

definition validate_attach_intent :: "nova_row \<Rightarrow> string \<Rightarrow> json \<Rightarrow> fields incus_result" where
  "validate_attach_intent row volume v =
     (case v of
        JObj p \<Rightarrow>
          if key_set p \<noteq> set attach_intent_keys \<or> \<not> owned_payload row volume 3 p \<or>
             \<not> uuid_like_value (jget p ''attachment_id'') \<or> \<not> nonempty_string (jget p ''mountpoint'')
          then Inl BadVolume
          else rbind (validate_attach_operation (operation_of p)) (\<lambda>_. Inr p)
      | _ \<Rightarrow> Inl BadVolume)"

definition validate_detach_intent :: "nova_row \<Rightarrow> string \<Rightarrow> json \<Rightarrow> fields incus_result" where
  "validate_detach_intent row volume v =
     (case v of
        JObj p \<Rightarrow>
          if \<not> owned_payload row volume 1 p \<or> \<not> uuid_like_value (jget p ''attachment_id'') \<or>
             \<not> is_bool (jget p ''destroy_bdm'') \<or> \<not> nonempty_string (jget p ''mountpoint'')
          then Inl BadVolume else Inr p
      | _ \<Rightarrow> Inl BadVolume)"

text \<open>A record that is read back and checked, \<open>None\<close> where there is no file.\<close>

definition read_checked ::
  "'b lib \<Rightarrow> nova_row \<Rightarrow> record_kind \<Rightarrow> string \<Rightarrow> (json \<Rightarrow> fields incus_result) \<Rightarrow> ('b, fields option) jprog" where
  "read_checked L row k volume valid =
     bnd (load_record L (nr_uuid row) k volume) (\<lambda>loaded.
     case loaded of
       None \<Rightarrow> ret None
     | Some v \<Rightarrow> bnd (lift (valid v)) (\<lambda>p. ret (Some p)))"

definition read_attach_intent :: "'b lib \<Rightarrow> nova_row \<Rightarrow> string \<Rightarrow> ('b, fields option) jprog" where
  "read_attach_intent L row volume =
     read_checked L row AttachIntent volume (validate_attach_intent row volume)"

definition read_detach_intent :: "'b lib \<Rightarrow> nova_row \<Rightarrow> string \<Rightarrow> ('b, fields option) jprog" where
  "read_detach_intent L row volume =
     read_checked L row DetachIntent volume (validate_detach_intent row volume)"

text \<open>A record is written once: the same one again is a replay, another one a conflict.\<close>

definition write_once ::
  "'b lib \<Rightarrow> nova_row \<Rightarrow> record_kind \<Rightarrow> string \<Rightarrow> fields option \<Rightarrow> fields \<Rightarrow> ('b, fields) jprog" where
  "write_once L row k volume existing payload =
     (case existing of
        Some q \<Rightarrow> if same_fields q payload then ret q else raise BadVolume
      | None \<Rightarrow> bnd (store_record L (nr_uuid row) k volume payload) (\<lambda>_. ret payload))"

definition write_detach_intent ::
  "'b lib \<Rightarrow> nova_row \<Rightarrow> string \<Rightarrow> json \<Rightarrow> json \<Rightarrow> json \<Rightarrow> ('b, fields) jprog" where
  "write_detach_intent L row volume attachment destroy_bdm mountpoint =
     (if \<not> is_uuid_like volume \<or> \<not> uuid_like_value attachment \<or> \<not> is_bool destroy_bdm \<or>
         \<not> nonempty_string mountpoint
      then raise BadVolume
      else
        bnd (read_attach_intent L row volume) (\<lambda>attach.
        if attach \<noteq> None then raise BadVolume
        else
          bnd (read_detach_intent L row volume) (\<lambda>existing.
          write_once L row DetachIntent volume existing
            (detach_fields row volume attachment destroy_bdm mountpoint))))"

definition write_attach_intent ::
  "'b lib \<Rightarrow> nova_row \<Rightarrow> string \<Rightarrow> json \<Rightarrow> json \<Rightarrow> attach_operation \<Rightarrow> ('b, fields) jprog" where
  "write_attach_intent L row volume attachment mountpoint oper =
     (if \<not> is_uuid_like volume \<or> \<not> uuid_like_value attachment \<or> \<not> nonempty_string mountpoint
      then raise BadVolume
      else
        bnd (lift (validate_attach_operation oper)) (\<lambda>_.
        bnd (read_detach_intent L row volume) (\<lambda>detach.
        if detach \<noteq> None then raise BadVolume
        else
          bnd (read_attach_intent L row volume) (\<lambda>existing.
          write_once L row AttachIntent volume existing (attach_fields row volume attachment mountpoint oper)))))"

definition remove_expected ::
  "'b lib \<Rightarrow> nova_row \<Rightarrow> record_kind \<Rightarrow> string \<Rightarrow> fields option \<Rightarrow> fields option \<Rightarrow> ('b, unit) jprog" where
  "remove_expected L row k volume current expected =
     (case current of
        None \<Rightarrow> ret ()
      | Some p \<Rightarrow>
          if (case expected of None \<Rightarrow> False | Some q \<Rightarrow> \<not> same_fields p q) then raise BadVolume
          else unlink_record L (nr_uuid row) k volume)"

definition remove_detach_intent :: "'b lib \<Rightarrow> nova_row \<Rightarrow> string \<Rightarrow> fields option \<Rightarrow> ('b, unit) jprog" where
  "remove_detach_intent L row volume expected =
     bnd (read_detach_intent L row volume) (\<lambda>current. remove_expected L row DetachIntent volume current expected)"

definition remove_attach_intent :: "'b lib \<Rightarrow> nova_row \<Rightarrow> string \<Rightarrow> fields option \<Rightarrow> ('b, unit) jprog" where
  "remove_attach_intent L row volume expected =
     bnd (read_attach_intent L row volume) (\<lambda>current. remove_expected L row AttachIntent volume current expected)"

text \<open>The attachment of a cold source may be replaced, and its direction with it.\<close>

definition replace_attach_intent ::
  "'b lib \<Rightarrow> nova_row \<Rightarrow> string \<Rightarrow> fields \<Rightarrow> json \<Rightarrow> json \<Rightarrow> ('b, fields) jprog" where
  "replace_attach_intent L row volume expected attachment direction =
     bnd (read_attach_intent L row volume) (\<lambda>current.
     case current of
       None \<Rightarrow> raise BadVolume
     | Some p \<Rightarrow>
         if \<not> same_fields p expected \<or> jget p ''operation_kind'' \<noteq> JStr ''migration'' \<or>
            jget p ''operation_direction'' \<noteq> JStr ''cold-source-restore'' \<or> \<not> uuid_like_value attachment
         then raise BadVolume
         else
           bnd (lift (if direction = JNull then Inr ()
                      else validate_attach_operation ((operation_of p)\<lparr>ao_direction := direction\<rparr>))) (\<lambda>_.
           let payload = update_all
                 ((''attachment_id'', attachment) #
                  (if direction = JNull then [] else [(''operation_direction'', direction)])) p
           in bnd (store_record L (nr_uuid row) AttachIntent volume payload) (\<lambda>_. ret payload)))"

section \<open>Rotation of an attachment\<close>

text \<open>
  \<open>xs == sorted(set(xs))\<close>: values of different types cannot be ordered, a list or dict cannot be
  in a set. A list without strings fails a later check whatever its order is.
\<close>

fun order_class :: "json \<Rightarrow> nat" where
  "order_class (JStr _) = 0"
| "order_class JNull = 1"
| "order_class _ = 2"

definition sorted_baseline :: "json list \<Rightarrow> bool incus_result" where
  "sorted_baseline xs =
     (if \<not> list_all hashable xs \<or> \<not> list_all (\<lambda>x. order_class x = order_class (hd xs)) xs
      then Inl (Raised TypeError)
      else (case those (map as_str xs) of
          None \<Rightarrow> Inr False
        | Some ss \<Rightarrow> Inr (ss = sorted_unique ss)))"

definition rotation_keys :: "string list" where
  "rotation_keys =
     [''version'', ''instance_uuid'', ''instance_name'', ''volume_id'', ''mountpoint'', ''operation_token'',
      ''migration_uuid'', ''old_attachment_id'', ''new_attachment_id'', ''baseline_attachment_ids'',
      ''phase'', ''boot_volume'']"

definition rotation_phases :: "json list" where
  "rotation_phases =
     map JStr [''prepared'', ''creating'', ''new-created'', ''source-old-retained'', ''old-deleted'',
               ''bdm-rotated'', ''source-release-complete'', ''source-rollback-complete'']"

definition validate_rotation :: "nova_row \<Rightarrow> string \<Rightarrow> json \<Rightarrow> fields incus_result" where
  "validate_rotation row volume v =
     (case v of
        JObj p \<Rightarrow>
          let baseline = jget p ''baseline_attachment_ids''; fresh = jget p ''new_attachment_id'';
              phase = jget p ''phase''
          in if key_set p \<noteq> set rotation_keys \<or> \<not> owned_payload row volume 1 p \<or>
                \<not> nonempty_string (jget p ''mountpoint'') \<or> \<not> uuid_like_value (jget p ''operation_token'') \<or>
                \<not> uuid_like_value (jget p ''migration_uuid'') \<or> \<not> uuid_like_value (jget p ''old_attachment_id'') \<or>
                fresh \<noteq> JNull \<and> \<not> uuid_like_value fresh
             then Inl BadVolume
             else
               rbind (case baseline of JList xs \<Rightarrow> Inr xs | _ \<Rightarrow> Inl BadVolume) (\<lambda>xs.
               rbind (sorted_baseline xs) (\<lambda>ordered.
               rbind (check (ordered \<and> list_all uuid_like_value xs) BadVolume) (\<lambda>_.
               rbind (member_of phase rotation_phases) (\<lambda>known.
               rbind (check (known \<and> is_bool (jget p ''boot_volume'')) BadVolume) (\<lambda>_.
               rbind (check (phase \<in> {JStr ''prepared'', JStr ''creating''} \<longrightarrow> fresh = JNull) BadVolume) (\<lambda>_.
               rbind (check (phase \<notin> {JStr ''prepared'', JStr ''creating'', JStr ''source-rollback-complete''} \<longrightarrow>
                               fresh \<noteq> JNull) BadVolume) (\<lambda>_.
               rbind (check (jget p ''old_attachment_id'' \<in> set xs) BadVolume) (\<lambda>_. Inr p))))))))
      | _ \<Rightarrow> Inl BadVolume)"

definition read_rotation :: "'b lib \<Rightarrow> nova_row \<Rightarrow> string \<Rightarrow> ('b, fields option) jprog" where
  "read_rotation L row volume =
     read_checked L row AttachmentRotation volume (validate_rotation row volume)"

text \<open>The record now, and whether it was written by this call.\<close>

definition write_rotation ::
  "'b lib \<Rightarrow> nova_row \<Rightarrow> string \<Rightarrow> fields \<Rightarrow> fields option \<Rightarrow> ('b, fields \<times> bool) jprog" where
  "write_rotation L row volume payload expected =
     bnd (lift (validate_rotation row volume (JObj payload))) (\<lambda>payload.
     bnd (read_rotation L row volume) (\<lambda>current.
     let store = bnd (store_record L (nr_uuid row) AttachmentRotation volume payload) (\<lambda>_. ret (payload, True)) in
     case expected of
       None \<Rightarrow>
         (case current of
            None \<Rightarrow> store
          | Some q \<Rightarrow> if same_fields q payload then ret (q, False) else raise BadVolume)
     | Some e \<Rightarrow>
         (case current of
            None \<Rightarrow> raise BadVolume
          | Some q \<Rightarrow> if same_fields q e then store else raise BadVolume)))"

definition remove_rotation :: "'b lib \<Rightarrow> nova_row \<Rightarrow> string \<Rightarrow> fields \<Rightarrow> ('b, unit) jprog" where
  "remove_rotation L row volume expected =
     bnd (read_rotation L row volume) (\<lambda>current.
     remove_expected L row AttachmentRotation volume current (Some expected))"

definition prepare_rotation ::
  "'b lib \<Rightarrow> nova_row \<Rightarrow> string \<Rightarrow> json \<Rightarrow> json \<Rightarrow> json \<Rightarrow> json \<Rightarrow> string list \<Rightarrow> bool \<Rightarrow> ('b, fields \<times> bool) jprog" where
  "prepare_rotation L row volume old mountpoint token migration baseline boot =
     write_rotation L row volume
       [(''version'', JInt 1), (''instance_uuid'', JStr (nr_uuid row)), (''instance_name'', JStr (nr_name row)),
        (''volume_id'', JStr volume), (''mountpoint'', mountpoint), (''operation_token'', token),
        (''migration_uuid'', migration), (''old_attachment_id'', old), (''new_attachment_id'', JNull),
        (''baseline_attachment_ids'', JList (map JStr (sorted_unique baseline))),
        (''phase'', JStr ''prepared''), (''boot_volume'', JBool boot)] None"

definition transition_allowed :: "json \<Rightarrow> string \<Rightarrow> bool" where
  "transition_allowed from phase \<longleftrightarrow>
     (from, phase) \<in> {(JStr ''prepared'', ''creating''), (JStr ''creating'', ''new-created''),
       (JStr ''new-created'', ''old-deleted''), (JStr ''old-deleted'', ''bdm-rotated''),
       (JStr ''new-created'', ''source-old-retained''),
       (JStr ''bdm-rotated'', ''source-release-complete''),
       (JStr ''prepared'', ''source-rollback-complete''),
       (JStr ''source-old-retained'', ''source-rollback-complete''),
       (JStr ''old-deleted'', ''source-rollback-complete''),
       (JStr ''bdm-rotated'', ''source-rollback-complete'')}"

definition transition_rotation ::
  "'b lib \<Rightarrow> nova_row \<Rightarrow> string \<Rightarrow> fields \<Rightarrow> string \<Rightarrow> json \<Rightarrow> ('b, fields) jprog" where
  "transition_rotation L row volume expected phase fresh =
     (if \<not> hashable (jget expected ''phase'') then raise (Raised TypeError)
      else if \<not> transition_allowed (jget expected ''phase'') phase then raise BadVolume
      else
        bnd (lift (if phase = ''new-created''
                   then rbind (check (uuid_like_value fresh) BadVolume) (\<lambda>_. Inr [(''new_attachment_id'', fresh)])
                   else rbind (check (fresh = JNull \<or> py_equal fresh (jget expected ''new_attachment_id'')) BadVolume)
                     (\<lambda>_. Inr []))) (\<lambda>change.
        bnd (write_rotation L row volume (update_all ((''phase'', JStr phase) # change) expected) (Some expected))
          (\<lambda>(p, _). ret p)))"

section \<open>Listings of a directory\<close>

text \<open>The records of one kind: each names its instance and hashes to its own file name.\<close>

fun collect_files ::
  "'b lib \<Rightarrow> record_kind \<Rightarrow> (string \<Rightarrow> json \<Rightarrow> (string \<times> fields) incus_result) \<Rightarrow> (string \<times> 'b jfile) list \<Rightarrow>
     fields dict \<Rightarrow> fields dict incus_result" where
  "collect_files L k valid [] acc = Inr acc"
| "collect_files L k valid ((name, f) # files) acc =
     (if \<not> ends_with (kind_suffix k) name then collect_files L k valid files acc
      else
        rbind (json_text L f) (\<lambda>v.
        rbind (valid name v) (\<lambda>(volume, p).
        collect_files L k valid files (AList.update volume p acc))))"

definition list_files ::
  "'b lib \<Rightarrow> string \<Rightarrow> record_kind \<Rightarrow> (string \<Rightarrow> json \<Rightarrow> (string \<times> fields) incus_result) \<Rightarrow> ('b, fields dict) jprog" where
  "list_files L u k valid =
     bnd (directory u) (\<lambda>d.
     case d of None \<Rightarrow> ret [] | Some files \<Rightarrow> lift (collect_files L k valid files []))"

text \<open>The common checks, with those of the kind.\<close>

definition listed_record ::
  "'b lib \<Rightarrow> record_kind \<Rightarrow> int \<Rightarrow> string \<Rightarrow> (string \<Rightarrow> fields \<Rightarrow> bool) \<Rightarrow> (fields \<Rightarrow> fields) \<Rightarrow> string \<Rightarrow> json \<Rightarrow>
     (string \<times> fields) incus_result" where
  "listed_record L k version u ok select name v =
     (case v of
        JObj p \<Rightarrow>
          (case jget p ''volume_id'' of
             JStr volume \<Rightarrow>
               if py_eq_int (jget p ''version'') version \<and> jget p ''instance_uuid'' = JStr u \<and>
                  ok volume p \<and> record_name L k volume = name
               then Inr (volume, select p) else Inl BadVolume
           | _ \<Rightarrow> Inl BadVolume)
      | _ \<Rightarrow> Inl BadVolume)"

definition volume_journal_records :: "'b lib \<Rightarrow> nova_row \<Rightarrow> ('b, fields dict) jprog" where
  "volume_journal_records L row =
     list_files L (nr_uuid row) VolumeRecord
       (listed_record L VolumeRecord 1 (nr_uuid row)
          (\<lambda>_ p. jget p ''instance_name'' = JStr (nr_name row) \<and> as_obj (jget p ''attachment'') \<noteq> None)
          (\<lambda>p. dict_attribute p ''attachment''))"

definition volume_journals_by_uuid :: "'b lib \<Rightarrow> string \<Rightarrow> ('b, fields dict) jprog" where
  "volume_journals_by_uuid L u =
     list_files L u VolumeRecord
       (listed_record L VolumeRecord 1 u (\<lambda>_ p. as_obj (jget p ''attachment'') \<noteq> None)
          (\<lambda>p. dict_attribute p ''attachment''))"

definition attach_intents_by_uuid :: "'b lib \<Rightarrow> string \<Rightarrow> ('b, fields dict) jprog" where
  "attach_intents_by_uuid L u =
     list_files L u AttachIntent
       (listed_record L AttachIntent 3 u
          (\<lambda>volume p. is_uuid_like volume \<and> uuid_like_value (jget p ''attachment_id'') \<and>
             nonempty_string (jget p ''instance_name'') \<and> nonempty_string (jget p ''mountpoint'') \<and>
             is_bool (jget p ''boot_volume'')) id)"

definition rotations_by_uuid :: "'b lib \<Rightarrow> string \<Rightarrow> ('b, fields dict) jprog" where
  "rotations_by_uuid L u =
     list_files L u AttachmentRotation
       (listed_record L AttachmentRotation 1 u
          (\<lambda>volume p. is_uuid_like volume \<and> nonempty_string (jget p ''instance_name'')) id)"

definition detach_intents_by_uuid :: "'b lib \<Rightarrow> string \<Rightarrow> ('b, fields dict) jprog" where
  "detach_intents_by_uuid L u =
     list_files L u DetachIntent
       (listed_record L DetachIntent 1 u
          (\<lambda>volume p. is_uuid_like volume \<and> uuid_like_value (jget p ''attachment_id'') \<and>
             nonempty_string (jget p ''instance_name'') \<and> is_bool (jget p ''destroy_bdm'') \<and>
             nonempty_string (jget p ''mountpoint'')) id)"

section \<open>Recovery\<close>

definition volume_recovery_phase ::
  "'b lib \<Rightarrow> fields option \<Rightarrow> fields option \<Rightarrow> fields option \<Rightarrow> fields option \<Rightarrow> json" where
  "volume_recovery_phase L journal attach detach rotation =
     (let phase = (case journal of None \<Rightarrow> JNull | Some r \<Rightarrow> jget r ''phase'') in
      if attach \<noteq> None \<and> detach \<noteq> None then JStr ''intent-conflict''
      else case rotation of
        Some r \<Rightarrow> JStr (''rotation-'' @ py_str L (jget r ''phase''))
      | None \<Rightarrow>
          if attach \<noteq> None \<and> phase \<in> {JStr ''disconnecting'', JStr ''disconnected''}
          then JStr (''attach-'' @ py_str L phase)
          else if attach \<noteq> None \<and> phase = JNull then JStr ''attach-pending''
          else if detach \<noteq> None \<and> phase = JNull then JStr ''detach-pending''
          else phase)"

text \<open>The generation of one volume as the manager reads it again under its locks.\<close>

definition journal_recovery_phase :: "'b lib \<Rightarrow> nova_row \<Rightarrow> string \<Rightarrow> ('b, json) jprog" where
  "journal_recovery_phase L row volume =
     bnd (read_volume_journal L row volume) (\<lambda>journal.
     bnd (read_attach_intent L row volume) (\<lambda>attach.
     bnd (read_detach_intent L row volume) (\<lambda>detach.
     bnd (read_rotation L row volume) (\<lambda>rotation.
     ret (volume_recovery_phase L journal attach detach rotation)))))"

record journal_candidate =
  jc_uuid :: string
  jc_phases :: "json dict"

definition journal_candidate_of :: "'b lib \<Rightarrow> string \<Rightarrow> ('b, journal_candidate option) jprog" where
  "journal_candidate_of L u =
     bnd (volume_journals_by_uuid L u) (\<lambda>journals.
     bnd (attach_intents_by_uuid L u) (\<lambda>attaches.
     bnd (detach_intents_by_uuid L u) (\<lambda>detaches.
     bnd (rotations_by_uuid L u) (\<lambda>rotations.
     let volumes = sorted_unique (map fst journals @ map fst attaches @ map fst detaches @ map fst rotations) in
     ret (if volumes = [] then None
          else Some \<lparr>jc_uuid = u, jc_phases = map (\<lambda>v. (v, volume_recovery_phase L (map_of journals v)
                 (map_of attaches v) (map_of detaches v) (map_of rotations v))) volumes\<rparr>)))))"

text \<open>\<open>uuids\<close> is the listing of the journal root.\<close>

fun journal_candidates :: "'b lib \<Rightarrow> string list \<Rightarrow> ('b, journal_candidate list) jprog" where
  "journal_candidates L [] = ret []"
| "journal_candidates L (u # us) =
     (if \<not> is_uuid_like u then journal_candidates L us
      else
        bnd (journal_candidate_of L u) (\<lambda>c.
        bnd (journal_candidates L us) (\<lambda>cs. ret (case c of None \<Rightarrow> cs | Some c \<Rightarrow> c # cs))))"

definition list_journal_candidates :: "'b lib \<Rightarrow> string list \<Rightarrow> ('b, journal_candidate list) jprog" where
  "list_journal_candidates L uuids = journal_candidates L (sort uuids)"

section \<open>Pruning\<close>

definition temporary_char :: "char \<Rightarrow> bool" where
  "temporary_char c \<longleftrightarrow> word_char c \<or> c = CHR ''_'' \<or> c = CHR ''-''"

text \<open>The regular expression of temporary names.\<close>

definition temporary_name :: "string \<Rightarrow> bool" where
  "temporary_name name \<longleftrightarrow>
     ends_with ''.tmp'' name \<and>
     list_ex (\<lambda>p. starts_with p name \<and>
         (let body = take (length name - length p - 4) (drop (length p) name)
          in length p + 4 < length name \<and> body \<noteq> [] \<and> list_all temporary_char body))
       [''.attach-'', ''.detach-'', ''.rotation-'', ''.volume-'']"

abbreviation stale_seconds :: int where
  "stale_seconds \<equiv> 300"

definition stale_file :: "int \<Rightarrow> string \<times> 'b jfile \<Rightarrow> bool" where
  "stale_file now = (\<lambda>(name, f). temporary_name name \<and> jf_regular f \<and> jf_mtime f \<le> now - stale_seconds)"

definition prune_recovery_directory :: "string \<Rightarrow> ('b, bool) jprog" where
  "prune_recovery_directory u =
     bnd get_state (\<lambda>s.
     case jh_dirs s u of
       None \<Rightarrow> ret True
     | Some files \<Rightarrow>
         if list_all (stale_file (jh_now s)) files then bnd (set_directory u None) (\<lambda>_. ret True)
         else ret False)"

section \<open>Records in a profile\<close>

definition legacy_record :: "json \<Rightarrow> json \<Rightarrow> fields" where
  "legacy_record device_info mountpoint =
     [(''version'', JInt 0), (''phase'', JStr ''connected''), (''driver_volume_type'', JNull),
      (''connection_data'', JObj []), (''device_info'', device_info), (''mountpoint'', mountpoint)]"

text \<open>\<open>(device or {}).get('path')\<close> for the device of the volume.\<close>

definition device_field :: "json \<Rightarrow> string \<Rightarrow> json incus_result" where
  "device_field device k = get_attribute device k"

definition volume_info_keys :: "string \<Rightarrow> string list" where
  "volume_info_keys volume =
     [''user.openstack.volume.'' @ volume, ''user.openstack.volume_device_info.'' @ volume]"

definition stored_volume_text :: "fields \<Rightarrow> string \<Rightarrow> json" where
  "stored_volume_text config volume =
     (case filter (has_key config) (volume_info_keys volume) of [] \<Rightarrow> JNull | k # _ \<Rightarrow> jget config k)"

definition profile_volume_record :: "'b lib \<Rightarrow> fields \<Rightarrow> string \<Rightarrow> json \<Rightarrow> fields incus_result" where
  "profile_volume_record L config volume device =
     (let encoded = stored_volume_text config volume in
      if \<not> py_truthy encoded
      then
        rbind (if \<not> py_truthy device then Inr JNull
               else case device of
                 JObj d \<Rightarrow> if has_key d ''source'' then Inr (JObj [(''path'', jget d ''source'')])
                           else Inl (Raised KeyError)
               | _ \<Rightarrow> Inl (Raised TypeError)) (\<lambda>info.
        rbind (device_field device ''path'') (\<lambda>path. Inr (legacy_record info path)))
      else
        rbind (case encoded of
                 JStr t \<Rightarrow> (case l_loads_text L t of None \<Rightarrow> Inl BadVolume | Some v \<Rightarrow> Inr v)
               | _ \<Rightarrow> Inl BadVolume) (\<lambda>v.
        case v of
          JObj p \<Rightarrow>
            if py_eq_int (jget p ''version'') 2
            then
              if jget p ''phase'' \<notin> set (map JStr [''connecting'', ''connected'', ''disconnecting'', ''disconnected'']) \<or>
                 as_obj (jget p ''device_info'') = None \<or> as_obj (jget p ''connection_data'') = None \<or>
                 as_str (jget p ''driver_volume_type'') = None
              then Inl BadVolume else Inr p
            else if py_eq_int (jget p ''version'') 1
            then Inr (AList.update ''phase'' (JStr ''connected'') p)
            else rbind (device_field device ''path'') (\<lambda>path. Inr (legacy_record (JObj p) path))
        | _ \<Rightarrow> Inl BadVolume))"

end
