(* ===== verification/Volume_Theorems.thy ===== *)
theory Volume_Theorems
  imports Volume_Journal Sample_Registry
begin

text \<open>
  What the evidence of volume transactions guarantees: an attach and a detach of one volume never
  hold their intents together, an intent owns its volume and reads back until it is removed, no
  credential reaches the disk, a rotation only advances, and pruning spares durable records.
\<close>

section \<open>The files of a directory\<close>

definition contents :: "'b jhost \<Rightarrow> string \<Rightarrow> string \<Rightarrow> 'b jfile option" where
  "contents s u name = Option.bind (jh_dirs s u) (\<lambda>files. map_of files name)"

lemma load_record_run:
  "load_record L u k v s =
     (case contents s u (record_name L k v) of
        None \<Rightarrow> (Inr None, s)
      | Some f \<Rightarrow> (case json_text L f of Inl e \<Rightarrow> (Inl e, s) | Inr x \<Rightarrow> (Inr (Some x), s)))"
  by (auto simp: load_record_def contents_def directory_def bnd_def lift_def ret_def
      split: option.split sum.split)

lemma read_checked_run:
  "read_checked L row k v valid s =
     (case contents s (nr_uuid row) (record_name L k v) of
        None \<Rightarrow> (Inr None, s)
      | Some f \<Rightarrow> (case rbind (json_text L f) valid of Inl e \<Rightarrow> (Inl e, s) | Inr p \<Rightarrow> (Inr (Some p), s)))"
  by (auto simp: read_checked_def load_record_run bnd_def lift_def ret_def rbind_def
      split: option.split sum.split)

lemma read_checked_state:
  "read_checked L row k v valid s = (r, s') \<Longrightarrow> s' = s"
  by (auto simp: read_checked_run split: option.splits sum.splits)

lemma read_checked_None:
  "read_checked L row k v valid s = (Inr None, s') \<longleftrightarrow>
     s' = s \<and> contents s (nr_uuid row) (record_name L k v) = None"
  by (auto simp: read_checked_run split: option.splits sum.splits)

lemma read_checked_Some:
  "read_checked L row k v valid s = (Inr (Some p), s') \<longleftrightarrow>
     s' = s \<and> (\<exists>f. contents s (nr_uuid row) (record_name L k v) = Some f \<and> rbind (json_text L f) valid = Inr p)"
  by (auto simp: read_checked_run split: option.splits sum.splits)

text \<open>Storing adds one record, removing takes records away; no other file changes.\<close>

definition stored_file :: "'b lib \<Rightarrow> fields \<Rightarrow> 'b jhost \<Rightarrow> 'b jfile" where
  "stored_file L payload s =
     \<lparr>jf_text = Some (json_bytes L (JObj payload)), jf_mtime = jh_now s, jf_regular = True\<rparr>"

lemma store_record_run:
  "\<exists>s'. store_record L u k v payload s = (Inr (), s') \<and>
     (\<forall>u' n. contents s' u' n =
        (if u' = u \<and> n = record_name L k v then Some (stored_file L payload s) else contents s u' n))"
  by (auto simp: store_record_def set_directory_def contents_def stored_file_def run_simps bnd_def
      update_conv Let_def split: option.split)

lemma unlink_record_contents:
  assumes "unlink_record L u k v s = (r, s')"
  shows "contents s' u' n =
      (if u' = u \<and> n = record_name L k v \<and> r = Inr () then None else contents s u' n)"
proof -
  have empty: "map_of files n = None" if "AList.delete x files = []" "n \<noteq> x" for x and files :: "(string \<times> 'b jfile) list"
    using that by (metis delete_conv' fun_upd_other map_of.simps(1))
  show ?thesis
    using assms
    by (auto simp: unlink_record_def unlink_name_def drop_empty_def directory_def set_directory_def contents_def
        run_simps bnd_def delete_conv empty split: option.splits if_splits)
qed

section \<open>Runs of the journal\<close>

text \<open>
  The operations of the driver and the manager on the journal of a host, with all their arguments,
  and the passing of time.
\<close>

datatype journal_op =
    WriteJournal nova_row string fields json json json
  | RemoveJournal nova_row string
  | WriteAttach nova_row string json json attach_operation
  | ReplaceAttach nova_row string fields json json
  | RemoveAttach nova_row string "fields option"
  | WriteDetach nova_row string json json json
  | RemoveDetach nova_row string "fields option"
  | PrepareRotation nova_row string json json json json "string list" bool
  | TransitionRotation nova_row string fields string json
  | RemoveRotation nova_row string fields
  | PruneDirectory string
  | ClockReads int

fun journal_step :: "'b lib \<Rightarrow> journal_op \<Rightarrow> 'b jhost \<Rightarrow> 'b jhost" where
  "journal_step L (WriteJournal row v c d m ph) s = snd (write_volume_journal L row v c d m ph s)"
| "journal_step L (RemoveJournal row v) s = snd (remove_volume_journal L row v s)"
| "journal_step L (WriteAttach row v a m oper) s = snd (write_attach_intent L row v a m oper s)"
| "journal_step L (ReplaceAttach row v e a d) s = snd (replace_attach_intent L row v e a d s)"
| "journal_step L (RemoveAttach row v e) s = snd (remove_attach_intent L row v e s)"
| "journal_step L (WriteDetach row v a b m) s = snd (write_detach_intent L row v a b m s)"
| "journal_step L (RemoveDetach row v e) s = snd (remove_detach_intent L row v e s)"
| "journal_step L (PrepareRotation row v old m t mig bs boot) s =
     snd (prepare_rotation L row v old m t mig bs boot s)"
| "journal_step L (TransitionRotation row v e ph a) s = snd (transition_rotation L row v e ph a s)"
| "journal_step L (RemoveRotation row v e) s = snd (remove_rotation L row v e s)"
| "journal_step L (PruneDirectory u) s = snd (prune_recovery_directory u s)"
| "journal_step L (ClockReads t) s = s\<lparr>jh_now := t\<rparr>"

definition run_journal :: "'b lib \<Rightarrow> journal_op list \<Rightarrow> 'b jhost \<Rightarrow> 'b jhost" where
  "run_journal L = fold (journal_step L)"

definition attach_name :: "string \<Rightarrow> string" where
  "attach_name d = d @ kind_suffix AttachIntent"

definition detach_name :: "string \<Rightarrow> string" where
  "detach_name d = d @ kind_suffix DetachIntent"

definition intents_exclusive :: "'b jhost \<Rightarrow> bool" where
  "intents_exclusive s \<longleftrightarrow>
     (\<forall>u d. contents s u (attach_name d) = None \<or>
            contents s u (detach_name d) = None)"

lemma intent_name_eqs:
  "record_name L k v = attach_name d \<longleftrightarrow> k = AttachIntent \<and> l_sha256 L (l_encode L v) = d"
  "record_name L k v = detach_name d \<longleftrightarrow> k = DetachIntent \<and> l_sha256 L (l_encode L v) = d"
proof -
  have "rev (record_name L k v) = rev (attach_name d) \<longleftrightarrow> k = AttachIntent \<and> l_sha256 L (l_encode L v) = d"
    by (cases k) (auto simp: record_name_def attach_name_def)
  then show "record_name L k v = attach_name d \<longleftrightarrow> k = AttachIntent \<and> l_sha256 L (l_encode L v) = d"
    by (simp only: rev_is_rev_conv)
  have "rev (record_name L k v) = rev (detach_name d) \<longleftrightarrow> k = DetachIntent \<and> l_sha256 L (l_encode L v) = d"
    by (cases k) (auto simp: record_name_def detach_name_def)
  then show "record_name L k v = detach_name d \<longleftrightarrow> k = DetachIntent \<and> l_sha256 L (l_encode L v) = d"
    by (simp only: rev_is_rev_conv)
qed

lemmas intent_names [simp] = intent_name_eqs intent_name_eqs [unfolded eq_commute [of "record_name _ _ _"]]

text \<open>A step that creates no intent, or one where the opposite intent is missing, keeps them apart.\<close>

definition shrinks :: "'b jhost \<Rightarrow> 'b jhost \<Rightarrow> bool" where
  "shrinks s s' \<longleftrightarrow>
     (\<forall>u d. (contents s u (attach_name d) = None \<longrightarrow>
               contents s' u (attach_name d) = None) \<and>
            (contents s u (detach_name d) = None \<longrightarrow>
               contents s' u (detach_name d) = None))"

lemma shrinks_exclusive: "intents_exclusive s \<Longrightarrow> shrinks s s' \<Longrightarrow> intents_exclusive s'"
  unfolding intents_exclusive_def shrinks_def by metis

lemma shrinks_refl [simp, intro]: "shrinks s s"
  by (simp add: shrinks_def)

lemma unlink_shrinks: "unlink_record L u k v s = (r, s') \<Longrightarrow> shrinks s s'"
  by (auto simp: shrinks_def unlink_record_contents split: if_splits)

lemma store_contents:
  assumes "store_record L u k v payload s = (r, s')"
  shows "contents s' u' n =
      (if u' = u \<and> n = record_name L k v then Some (stored_file L payload s) else contents s u' n)"
  using store_record_run [of L u k v payload s] assms by auto

lemma store_shrinks:
  assumes "store_record L u k v payload s = (r, s')" and "k \<notin> {AttachIntent, DetachIntent}"
  shows "shrinks s s'"
  using assms(2) by (auto simp: shrinks_def store_contents [OF assms(1)])

lemmas stores_shrink =
  store_shrinks [where k = VolumeRecord, simplified] store_shrinks [where k = AttachmentRotation, simplified]

text \<open>Reading and failing leave the host as it is, so a program is judged by what it stores.\<close>

lemma raise_ret_run [simp]:
  "raise e s = (r, s') \<longleftrightarrow> r = Inl e \<and> s' = s"
  "ret a s = (r, s') \<longleftrightarrow> r = Inr a \<and> s' = s"
  by (auto simp: raise_def ret_def)

lemma read_intents_state:
  "read_attach_intent L row v s = (r, s') \<Longrightarrow> s' = s"
  "read_detach_intent L row v s = (r, s') \<Longrightarrow> s' = s"
  "read_rotation L row v s = (r, s') \<Longrightarrow> s' = s"
  by (simp_all add: read_attach_intent_def read_detach_intent_def read_rotation_def read_checked_state)

lemma read_volume_state: "read_volume_journal L row v s = (r, s') \<Longrightarrow> s' = s"
  by (auto simp: read_volume_journal_def load_record_run elim!: bnd_cases
      split: option.splits sum.splits json.splits if_splits)

lemma remove_expected_shrinks:
  "remove_expected L row k v current expected s = (r, s') \<Longrightarrow> shrinks s s'"
  by (auto simp: remove_expected_def unlink_shrinks split: option.splits if_splits)

lemma removals_shrink:
  "remove_attach_intent L row v e s = (r, s') \<Longrightarrow> shrinks s s'"
  "remove_detach_intent L row v e s = (r, s') \<Longrightarrow> shrinks s s'"
  "remove_rotation L row v q s = (r, s') \<Longrightarrow> shrinks s s'"
  by (auto simp: remove_attach_intent_def remove_detach_intent_def remove_rotation_def
      dest!: read_intents_state remove_expected_shrinks elim!: bnd_cases)

lemma volume_records_shrink:
  "remove_volume_journal L row v s = (r, s') \<Longrightarrow> shrinks s s'"
  "write_volume_journal L row v c d m ph s = (r, s') \<Longrightarrow> shrinks s s'"
  by (auto simp: remove_volume_journal_def write_volume_journal_def directory_def lift_run
      dest: unlink_shrinks stores_shrink elim!: bnd_cases split: if_splits option.splits)

lemma prune_shrinks: "prune_recovery_directory u s = (r, s') \<Longrightarrow> shrinks s s'"
  by (auto simp: prune_recovery_directory_def run_simps bnd_def set_directory_def shrinks_def contents_def
      split: option.splits if_splits)

lemma write_rotation_shrinks: "write_rotation L row v p e s = (r, s') \<Longrightarrow> shrinks s s'"
  by (auto simp: write_rotation_def Let_def lift_run dest!: read_intents_state stores_shrink
      elim!: bnd_cases split: option.splits if_splits)

lemma prepare_rotation_shrinks: "prepare_rotation L row v old m t mig bs boot s = (r, s') \<Longrightarrow> shrinks s s'"
  unfolding prepare_rotation_def by (rule write_rotation_shrinks)

lemma transition_rotation_shrinks: "transition_rotation L row v q ph a s = (r, s') \<Longrightarrow> shrinks s s'"
  by (auto simp: transition_rotation_def lift_run dest: write_rotation_shrinks
      elim!: bnd_cases split: if_splits)

text \<open>What a read that found nothing says.\<close>

lemma read_attach_intent_Inr:
  "read_attach_intent L row v s = (Inr x, s') \<Longrightarrow>
     s' = s \<and> (x = None \<longleftrightarrow> contents s (nr_uuid row) (record_name L AttachIntent v) = None)"
  unfolding read_attach_intent_def by (cases x) (auto simp: read_checked_None read_checked_Some)

lemma read_detach_intent_Inr:
  "read_detach_intent L row v s = (Inr x, s') \<Longrightarrow>
     s' = s \<and> (x = None \<longleftrightarrow> contents s (nr_uuid row) (record_name L DetachIntent v) = None)"
  unfolding read_detach_intent_def by (cases x) (auto simp: read_checked_None read_checked_Some)

text \<open>The two writers of intents check that the other intent is missing.\<close>

lemma store_intent_exclusive:
  assumes "store_record L (nr_uuid row) k v payload s = (r, s')" and "intents_exclusive s"
    and "k = AttachIntent \<Longrightarrow> contents s (nr_uuid row) (record_name L DetachIntent v) = None"
    and "k = DetachIntent \<Longrightarrow> contents s (nr_uuid row) (record_name L AttachIntent v) = None"
  shows "intents_exclusive s'"
  using assms(2,3,4) unfolding intents_exclusive_def
  by (cases k) (auto simp: store_contents [OF assms(1)] record_name_def attach_name_def detach_name_def)

lemma write_once_exclusive:
  assumes "write_once L row k v existing payload s = (r, s')" and "intents_exclusive s"
    and "k = AttachIntent \<Longrightarrow> contents s (nr_uuid row) (record_name L DetachIntent v) = None"
    and "k = DetachIntent \<Longrightarrow> contents s (nr_uuid row) (record_name L AttachIntent v) = None"
  shows "intents_exclusive s'"
  using assms by (auto simp: write_once_def elim!: bnd_cases dest: store_intent_exclusive split: option.splits if_splits)

lemma write_attach_exclusive:
  assumes "intents_exclusive s" and "write_attach_intent L row v a m oper s = (r, s')"
  shows "intents_exclusive s'"
  using assms
  by (auto simp: write_attach_intent_def lift_run dest!: read_attach_intent_Inr read_detach_intent_Inr
      dest: read_intents_state elim!: bnd_cases elim: write_once_exclusive split: if_splits)

lemma write_detach_exclusive:
  assumes "intents_exclusive s" and "write_detach_intent L row v a b m s = (r, s')"
  shows "intents_exclusive s'"
  using assms
  by (auto simp: write_detach_intent_def lift_run dest!: read_attach_intent_Inr read_detach_intent_Inr
      dest: read_intents_state elim!: bnd_cases elim: write_once_exclusive split: if_splits)

lemma exclusive_attached [simp]:
  assumes "intents_exclusive s" and "contents s u (record_name L AttachIntent v) = Some f"
  shows "contents s u (record_name L DetachIntent v) = None"
  using assms unfolding intents_exclusive_def record_name_def attach_name_def detach_name_def
  by (metis option.distinct(1))

lemma replace_exclusive:
  assumes "intents_exclusive s" and "replace_attach_intent L row v e a d s = (r, s')"
  shows "intents_exclusive s'"
  using assms
  by (auto simp: replace_attach_intent_def lift_run Let_def dest!: read_attach_intent_Inr
      dest: read_intents_state elim!: bnd_cases store_intent_exclusive
      split: if_splits option.splits)

lemma journal_step_exclusive: "intents_exclusive s \<Longrightarrow> intents_exclusive (journal_step L oper s)"
proof (cases oper)
  case (ClockReads t)
  then show "intents_exclusive s \<Longrightarrow> ?thesis" by (simp add: intents_exclusive_def contents_def)
next
  case (WriteAttach row v a m p)
  then show "intents_exclusive s \<Longrightarrow> ?thesis" by (auto intro: write_attach_exclusive [OF _ prod.collapse [symmetric]])
next
  case (ReplaceAttach row v e a d)
  then show "intents_exclusive s \<Longrightarrow> ?thesis" by (auto intro: replace_exclusive [OF _ prod.collapse [symmetric]])
next
  case (WriteDetach row v a b m)
  then show "intents_exclusive s \<Longrightarrow> ?thesis" by (auto intro: write_detach_exclusive [OF _ prod.collapse [symmetric]])
qed (auto intro: shrinks_exclusive removals_shrink volume_records_shrink prune_shrinks
      prepare_rotation_shrinks transition_rotation_shrinks prod.collapse [symmetric])

lemma run_journal_exclusive: "intents_exclusive s \<Longrightarrow> intents_exclusive (run_journal L ops s)"
  unfolding run_journal_def by (induction ops arbitrary: s) (simp_all add: journal_step_exclusive)

lemma recovery_conflict:
  "volume_recovery_phase L journal attach detach rotation = JStr ''intent-conflict'' \<Longrightarrow>
     attach \<noteq> None \<and> detach \<noteq> None \<or>
     (\<exists>r. journal = Some r \<and> jget r ''phase'' = JStr ''intent-conflict'')"
  by (auto simp: volume_recovery_phase_def Let_def split: option.splits if_splits)

text \<open>
  C24: The attach and the detach of a volume exclude each other. Whatever the driver and the
  manager do with the journal of a host, in whatever order and with whatever arguments, and
  whatever becomes of each operation: if no volume had both an attach and a detach intent before,
  none has afterwards. So no reader ever finds both, and a volume is never classified for recovery
  as a conflict of intents (unless its own journal record says so).
\<close>

theorem intents_stay_exclusive:
  assumes "intents_exclusive s" and "s' = run_journal L ops s"
  shows "intents_exclusive s' \<and>
    (read_attach_intent L row v s' = (Inr (Some p), s') \<longrightarrow> read_detach_intent L row v s' = (Inr None, s')) \<and>
    (fst (journal_recovery_phase L row v s') = Inr (JStr ''intent-conflict'') \<longrightarrow>
       (\<exists>r. read_volume_journal L row v s' = (Inr (Some r), s') \<and> jget r ''phase'' = JStr ''intent-conflict''))"
proof -
  have ex: "intents_exclusive s'" using assms run_journal_exclusive by metis
  have one: "read_detach_intent L row v s' = (Inr None, s')"
    if "read_attach_intent L row v s' = (Inr (Some q), s1)" for q s1
    using that exclusive_attached [OF ex]
    by (auto simp: read_attach_intent_def read_detach_intent_def read_checked_Some read_checked_None)
  moreover have "\<exists>r. read_volume_journal L row v s' = (Inr (Some r), s') \<and> jget r ''phase'' = JStr ''intent-conflict''"
    if r: "journal_recovery_phase L row v s' = (Inr (JStr ''intent-conflict''), s1)" for s1
  proof -
    obtain j a d w w1 w2 w3 w4 where reads: "read_volume_journal L row v s' = (Inr j, w1)"
        "read_attach_intent L row v w1 = (Inr a, w2)" "read_detach_intent L row v w2 = (Inr d, w3)"
        "read_rotation L row v w3 = (Inr w, w4)"
      and phase: "volume_recovery_phase L j a d w = JStr ''intent-conflict''"
      using r unfolding journal_recovery_phase_def by (auto elim!: bnd_InrE)
    have same: "w1 = s'" "w2 = w1" "w3 = w2"
      using reads read_volume_state read_intents_state by blast+
    from phase have "a \<noteq> None \<and> d \<noteq> None \<or> (\<exists>r. j = Some r \<and> jget r ''phase'' = JStr ''intent-conflict'')"
      by (rule recovery_conflict)
    with reads same one show ?thesis by fastforce
  qed
  ultimately show ?thesis using ex by (metis fst_conv prod.collapse)
qed

section \<open>A sample journal\<close>

definition journal_row :: nova_row where
  "journal_row =
     \<lparr>nr_uuid = uuid_1, nr_name = ''vm-1'', nr_host = Some ''compute-1'', nr_task_state = None,
      nr_vm_state = ''active'', nr_deleted = False, nr_metadata = []\<rparr>"

definition empty_journal :: "json jhost" where
  "empty_journal = \<lparr>jh_dirs = \<lambda>_. None, jh_now = 1000\<rparr>"

definition attach_then_detach :: "journal_op list" where
  "attach_then_detach =
     [WriteAttach journal_row uuid_2 (JStr generation_1) (JStr ''/dev/sdb'') hot_attach,
      WriteDetach journal_row uuid_2 (JStr generation_1) (JBool False) (JStr ''/dev/sdb'')]"

definition sample_attachment :: fields where
  "sample_attachment =
     sorted_fields (attach_fields journal_row uuid_2 (JStr generation_1) (JStr ''/dev/sdb'') hot_attach)"

lemma attach_found:
  "fst (read_attach_intent json_lib journal_row uuid_2 (run_journal json_lib attach_then_detach empty_journal)) =
     Inr (Some sample_attachment)"
  by code_simp

theorem intents_stay_exclusive_witness:
  "let s' = run_journal json_lib attach_then_detach empty_journal in
     intents_exclusive s' \<and>
     read_attach_intent json_lib journal_row uuid_2 s' = (Inr (Some sample_attachment), s') \<and>
     read_detach_intent json_lib journal_row uuid_2 s' = (Inr None, s')"
proof -
  let ?s' = "run_journal json_lib attach_then_detach empty_journal"
  have "intents_exclusive empty_journal"
    by (simp add: intents_exclusive_def contents_def empty_journal_def)
  moreover have "read_attach_intent json_lib journal_row uuid_2 ?s' = (Inr (Some sample_attachment), ?s')"
    using attach_found read_intents_state(1) by (metis prod.collapse)
  ultimately show ?thesis
    using intents_stay_exclusive [of empty_journal ?s'] by (simp add: Let_def)
qed

section \<open>Pruning\<close>

lemma record_not_temporary: "\<not> temporary_name (record_name L k v)"
  by (cases k) (simp_all add: temporary_name_def ends_with_def record_name_def starts_with_def)

lemma contents_member: "contents s u n = Some f \<Longrightarrow> \<exists>files. jh_dirs s u = Some files \<and> (n, f) \<in> set files"
  by (auto simp: contents_def bind_eq_Some_conv map_of_SomeD)

text \<open>
  C28: Pruning never removes evidence. Pruning the journal directory of an instance either leaves
  the host as it was and says so, or removes that directory and nothing else; and it removes it
  only when no file in it is a durable record of any kind and every file is a regular file that
  was not touched for the last five minutes, so that no writer can still be about to rename it.
\<close>

theorem prune_spares_evidence:
  assumes "prune_recovery_directory u s = (r, s')"
  shows "r = Inr False \<and> s' = s \<or>
    r = Inr True \<and> jh_now s' = jh_now s \<and>
    (\<forall>u' n. contents s' u' n = (if u' = u then None else contents s u' n)) \<and>
    (\<forall>n f. contents s u n = Some f \<longrightarrow>
       (\<forall>L :: 'b lib. \<forall>k v. n \<noteq> record_name L k v) \<and> jf_regular f \<and> jf_mtime f + 300 \<le> jh_now s)"
proof (cases "jh_dirs s u")
  case None
  then have "r = Inr True \<and> s' = s"
    using assms by (simp add: prune_recovery_directory_def run_simps bnd_def)
  moreover have "contents s u n = None" for n using None by (simp add: contents_def)
  ultimately show ?thesis by simp
next
  case (Some files)
  show ?thesis
  proof (cases "list_all (stale_file (jh_now s)) files")
    case True
    with assms Some have run: "r = Inr True" "s' = s\<lparr>jh_dirs := (jh_dirs s)(u := None)\<rparr>"
      by (simp_all add: prune_recovery_directory_def run_simps bnd_def set_directory_def)
    have "(\<forall>L :: 'b lib. \<forall>k v. n \<noteq> record_name L k v) \<and> jf_regular f \<and> jf_mtime f + 300 \<le> jh_now s"
      if "contents s u n = Some f" for n f
    proof -
      have "stale_file (jh_now s) (n, f)"
        using contents_member [OF that] True Some by (auto simp: list_all_iff)
      then show ?thesis using record_not_temporary by (auto simp: stale_file_def)
    qed
    with run show ?thesis by (simp add: contents_def)
  next
    case False
    with assms Some show ?thesis by (simp add: prune_recovery_directory_def run_simps bnd_def)
  qed
qed

text \<open>A directory of one stale temporary file, and one of a durable record.\<close>

definition stale_directory :: "json jhost" where
  "stale_directory =
     \<lparr>jh_dirs = [uuid_1 \<mapsto> [(''.attach-x7_a.tmp'', \<lparr>jf_text = None, jf_mtime = 100, jf_regular = True\<rparr>)]],
      jh_now = 1000\<rparr>"

theorem prune_spares_evidence_witness:
  "(\<exists>s'. prune_recovery_directory uuid_1 stale_directory = (Inr True, s') \<and>
      (\<forall>n. contents s' uuid_1 n = None)) \<and>
   (let s = run_journal json_lib attach_then_detach empty_journal in
      prune_recovery_directory uuid_1 s = (Inr False, s))"
proof
  have "fst (prune_recovery_directory uuid_1 stale_directory) = Inr True" by code_simp
  then obtain s' where run: "prune_recovery_directory uuid_1 stale_directory = (Inr True, s')"
    by (metis prod.collapse)
  with prune_spares_evidence [OF run]
  show "\<exists>s'. prune_recovery_directory uuid_1 stale_directory = (Inr True, s') \<and> (\<forall>n. contents s' uuid_1 n = None)"
    by auto
  let ?s = "run_journal json_lib attach_then_detach empty_journal"
  have "fst (prune_recovery_directory uuid_1 ?s) = Inr False" by code_simp
  then obtain s' where run: "prune_recovery_directory uuid_1 ?s = (Inr False, s')"
    by (metis prod.collapse)
  with prune_spares_evidence [OF run]
  show "let s = ?s in prune_recovery_directory uuid_1 s = (Inr False, s)" by (simp add: Let_def)
qed

section \<open>Intents\<close>

lemma sort_keys_leaf [simp]:
  "hashable v \<Longrightarrow> sort_keys v = v"
  by (cases v) (simp_all add: hashable_def)

lemma sort_keys_uuid [simp]: "uuid_like_value v \<Longrightarrow> sort_keys v = v"
  by (cases v) (simp_all add: uuid_like_value_def)

lemma json_wf_uuid [simp]: "uuid_like_value v \<Longrightarrow> json_wf v"
  by (cases v) (simp_all add: uuid_like_value_def)

lemma sort_keys_nonempty [simp]: "nonempty_string v \<Longrightarrow> sort_keys v = v \<and> json_wf v"
  by (cases v) (simp_all add: nonempty_string_def)

text \<open>What was stored is loaded again, its keys in order.\<close>

lemma stored_json_text:
  assumes "codec_ok L" and "json_wf (JObj payload)"
  shows "json_text L (stored_file L payload s) = Inr (JObj (sorted_fields payload))"
  using loads_json_bytes [OF assms] by (simp add: json_text_def stored_file_def)

lemma read_back:
  assumes "codec_ok L" and "json_wf (JObj payload)"
    and "store_record L (nr_uuid row) k v payload s = (x, s')"
    and "valid (JObj (sorted_fields payload)) = Inr p"
  shows "read_checked L row k v valid s' = (Inr (Some p), s')"
  using assms by (simp add: read_checked_Some store_contents [OF assms(3)] stored_json_text)

definition plain :: "json \<Rightarrow> bool" where
  "plain v \<longleftrightarrow> sort_keys v = v \<and> json_wf v"

lemma plain_simps [simp]:
  "plain JNull" "plain (JBool b)" "plain (JInt i)" "plain (JStr t)"
  "uuid_like_value v \<Longrightarrow> plain v" "nonempty_string v \<Longrightarrow> plain v"
  by (simp_all add: plain_def)

lemma plain_bool [simp]: "is_bool v \<Longrightarrow> plain v"
  by (cases v) (simp_all add: is_bool_def)

lemma operation_values:
  assumes "validate_attach_operation oper = Inr u"
  shows "plain (ao_kind oper)" "plain (ao_token oper)" "plain (ao_direction oper)"
    "plain (ao_migration oper)" "plain (ao_boot oper)"
  using assms
  by (auto simp: validate_attach_operation_def rbind_Inr_conv member_of_def migration_directions_def
      split: if_splits)

text \<open>A dict whose values are plain is written and read back as it is, but for the order of its keys.\<close>

lemma plain_fields:
  assumes "distinct (map fst p)" and "\<forall>kv \<in> set p. plain (snd kv)"
  shows "json_wf (JObj p)" and "jget (sorted_fields p) k = jget p k" and "same_fields (sorted_fields p) p"
proof -
  show "json_wf (JObj p)" using assms by (simp add: plain_def)
  have j: "jget (sorted_fields p) k = jget p k" for k
  proof (cases "map_of p k")
    case (Some v)
    then have "plain v" using assms(2) by (force dest: map_of_SomeD)
    with Some show ?thesis by (simp add: map_of_sorted_fields [OF assms(1)] jget_def plain_def)
  qed (simp add: map_of_sorted_fields [OF assms(1)] jget_def)
  then show "jget (sorted_fields p) k = jget p k" "same_fields (sorted_fields p) p"
    by (simp_all add: same_fields_def py_equal_def list_all_iff)
qed

lemma attach_fields_plain:
  assumes "validate_attach_operation oper = Inr u" and "uuid_like_value a" and "nonempty_string m"
  shows "distinct (map fst (attach_fields row v a m oper))"
    and "\<forall>kv \<in> set (attach_fields row v a m oper). plain (snd kv)"
  using assms by (simp_all add: attach_fields_def operation_values)

lemma attach_fields_valid:
  assumes "validate_attach_operation oper = Inr u" and "uuid_like_value a" and "nonempty_string m"
  shows "validate_attach_intent row v (JObj (sorted_fields (attach_fields row v a m oper))) =
    Inr (sorted_fields (attach_fields row v a m oper))"
proof -
  let ?p = "attach_fields row v a m oper"
  note same = plain_fields(2) [OF attach_fields_plain [OF assms], of row v]
  have j: "jget ?p ''version'' = JInt 3" "jget ?p ''instance_uuid'' = JStr (nr_uuid row)"
    "jget ?p ''instance_name'' = JStr (nr_name row)" "jget ?p ''volume_id'' = JStr v"
    "jget ?p ''attachment_id'' = a" "jget ?p ''mountpoint'' = m" "operation_of ?p = oper"
    by (simp_all add: attach_fields_def operation_of_def)
  have "operation_of (sorted_fields ?p) = oper"
    using j(7) by (simp add: operation_of_def same)
  moreover have "key_set ?p = set attach_intent_keys"
    by (auto simp: attach_fields_def attach_intent_keys_def)
  ultimately show ?thesis
    using assms by (simp add: validate_attach_intent_def owned_payload_def same j rbind_def)
qed

text \<open>A write that succeeds has found no other record or the same one, and left it to be read.\<close>

lemma write_attach_cases:
  assumes "write_attach_intent L row v a m oper s = (Inr p, s')"
  shows "is_uuid_like v \<and> uuid_like_value a \<and> nonempty_string m \<and> validate_attach_operation oper = Inr () \<and>
    contents s (nr_uuid row) (record_name L DetachIntent v) = None \<and>
    (read_attach_intent L row v s = (Inr (Some p), s) \<and> s' = s \<and>
       same_fields p (attach_fields row v a m oper) \<or>
     p = attach_fields row v a m oper \<and>
       store_record L (nr_uuid row) AttachIntent v p s = (Inr (), s'))"
proof -
  have args: "is_uuid_like v \<and> uuid_like_value a \<and> nonempty_string m"
    using assms by (auto simp: write_attach_intent_def split: if_splits)
  then obtain u s1 d s2 q s3 where ok: "lift (validate_attach_operation oper) s = (Inr u, s1)"
    and detach: "read_detach_intent L row v s1 = (Inr d, s2)" "d = None"
    and existing: "read_attach_intent L row v s2 = (Inr q, s3)"
    and once: "write_once L row AttachIntent v q (attach_fields row v a m oper) s3 = (Inr p, s')"
    using assms unfolding write_attach_intent_def by (auto elim!: bnd_InrE split: if_splits)
  have same: "s1 = s" "s2 = s" "s3 = s" and none: "contents s (nr_uuid row) (record_name L DetachIntent v) = None"
    using ok read_detach_intent_Inr [OF detach(1)] read_attach_intent_Inr [OF existing] detach(2)
    by (auto simp: lift_run)
  show ?thesis
    using args ok none once existing same
    by (auto simp: lift_run write_once_def elim!: bnd_InrE split: option.splits if_splits)
qed

text \<open>With an attach intent on file, both writers only compare.\<close>

lemma write_attach_on_file:
  assumes "read_attach_intent L row v s = (Inr (Some q), s)" and "write_attach_intent L row v a m oper s = (r, s')"
  shows "s' = s \<and> (\<forall>p. r = Inr p \<longrightarrow> p = q \<and> same_fields q (attach_fields row v a m oper))"
  using assms
  by (auto simp: write_attach_intent_def lift_run write_once_def dest!: read_intents_state(2)
      elim!: bnd_cases split: if_splits)

lemma write_attach_again:
  assumes "read_attach_intent L row v s = (Inr (Some q), s)" and "same_fields q (attach_fields row v a m oper)"
    and "is_uuid_like v" "uuid_like_value a" "nonempty_string m" "validate_attach_operation oper = Inr ()"
    and "contents s (nr_uuid row) (record_name L DetachIntent v) = None"
  shows "write_attach_intent L row v a m oper s = (Inr q, s)"
proof -
  have "read_detach_intent L row v s = (Inr None, s)"
    using assms(7) by (simp add: read_detach_intent_def read_checked_None)
  with assms show ?thesis
    by (simp add: write_attach_intent_def write_once_def bnd_def lift_def)
qed

lemma write_detach_on_file:
  assumes "read_attach_intent L row v s = (Inr (Some q), s)"
  shows "write_detach_intent L row v a b m s = (Inl BadVolume, s)"
  using assms by (simp add: write_detach_intent_def bnd_def)

text \<open>
  C25: An attach intent owns its volume. Once the intent of an attach is recorded, a read finds it
  with the values it was given; recording the same one again, as a retried manager does, finds it
  on file and changes nothing; any other attach of the volume, and any detach, is refused and
  changes nothing either. This holds for the text forms that read back as they were written.
\<close>

theorem attach_intent_owns_volume:
  assumes "codec_ok L" and "write_attach_intent L row v a m oper s = (Inr p, s')"
  shows "\<exists>q. read_attach_intent L row v s' = (Inr (Some q), s') \<and>
    same_fields q (attach_fields row v a m oper) \<and>
    write_attach_intent L row v a m oper s' = (Inr q, s') \<and>
    (\<forall>a' m' oper' r t. write_attach_intent L row v a' m' oper' s' = (r, t) \<longrightarrow>
       t = s' \<and> (r = Inr q \<and> same_fields q (attach_fields row v a' m' oper') \<or> (\<exists>e. r = Inl e))) \<and>
    (\<forall>a' b m'. write_detach_intent L row v a' b m' s' = (Inl BadVolume, s'))"
proof -
  let ?p = "attach_fields row v a m oper"
  from write_attach_cases [OF assms(2)]
  have ok: "is_uuid_like v" "uuid_like_value a" "nonempty_string m" "validate_attach_operation oper = Inr ()"
    and none: "contents s (nr_uuid row) (record_name L DetachIntent v) = None"
    and how: "read_attach_intent L row v s = (Inr (Some p), s) \<and> s' = s \<and> same_fields p ?p \<or>
      p = ?p \<and> store_record L (nr_uuid row) AttachIntent v p s = (Inr (), s')"
    by blast+
  note plain = plain_fields [OF attach_fields_plain [OF ok(4,2,3)], of row v]
  have "\<exists>q. read_attach_intent L row v s' = (Inr (Some q), s') \<and> same_fields q ?p \<and>
      contents s' (nr_uuid row) (record_name L DetachIntent v) = None"
    using how
  proof
    assume "p = ?p \<and> store_record L (nr_uuid row) AttachIntent v p s = (Inr (), s')"
    then have stored: "store_record L (nr_uuid row) AttachIntent v ?p s = (Inr (), s')" by metis
    have "record_name L DetachIntent v \<noteq> record_name L AttachIntent v"
      by (simp add: record_name_def)
    then have "contents s' (nr_uuid row) (record_name L DetachIntent v) = None"
      using none by (simp add: store_contents [OF stored])
    then show ?thesis
      using read_back [OF assms(1) plain(1) stored, where valid = "validate_attach_intent row v",
          OF attach_fields_valid [OF ok(4,2,3)]] plain(3)
      unfolding read_attach_intent_def by blast
  qed (use none in auto)
  then obtain q where q: "read_attach_intent L row v s' = (Inr (Some q), s')" "same_fields q ?p"
    and none': "contents s' (nr_uuid row) (record_name L DetachIntent v) = None"
    by blast
  have "t = s' \<and> (r = Inr q \<and> same_fields q (attach_fields row v a' m' oper') \<or> (\<exists>e. r = Inl e))"
    if "write_attach_intent L row v a' m' oper' s' = (r, t)" for a' m' oper' r t
    using write_attach_on_file [OF q(1) that] by (cases r) auto
  with q write_attach_again [OF q ok none'] write_detach_on_file [OF q(1)] show ?thesis by blast
qed

theorem attach_intent_owns_volume_witness:
  "\<exists>s q. read_attach_intent json_lib journal_row uuid_2 s = (Inr (Some q), s) \<and>
      write_detach_intent json_lib journal_row uuid_2 (JStr generation_1) (JBool True) (JStr ''/dev/sdb'') s =
        (Inl BadVolume, s)"
proof -
  let ?w = "write_attach_intent json_lib journal_row uuid_2 (JStr generation_1) (JStr ''/dev/sdb'') hot_attach"
  have "fst (?w empty_journal) =
      Inr (attach_fields journal_row uuid_2 (JStr generation_1) (JStr ''/dev/sdb'') hot_attach)"
    by code_simp
  then obtain p s where "?w empty_journal = (Inr p, s)" by (metis prod.collapse)
  from attach_intent_owns_volume [OF codec_ok_json_lib this] show ?thesis by blast
qed

section \<open>Rotations\<close>

text \<open>A sequence of transitions, each from the record the one before returned.\<close>

fun rotate_through :: "'b lib \<Rightarrow> nova_row \<Rightarrow> string \<Rightarrow> fields \<Rightarrow> (string \<times> json) list \<Rightarrow> ('b, fields) jprog" where
  "rotate_through L row v e [] = ret e"
| "rotate_through L row v e ((phase, a) # steps) =
     bnd (transition_rotation L row v e phase a) (\<lambda>p. rotate_through L row v p steps)"

definition rotation_rank :: "json \<Rightarrow> nat" where
  "rotation_rank v =
     (if v = JStr ''creating'' then 1 else if v = JStr ''new-created'' then 2
      else if v \<in> {JStr ''old-deleted'', JStr ''source-old-retained''} then 3
      else if v = JStr ''bdm-rotated'' then 4
      else if v \<in> {JStr ''source-release-complete'', JStr ''source-rollback-complete''} then 5 else 0)"

lemma rotation_rank_le: "rotation_rank v \<le> 5"
  by (simp add: rotation_rank_def)

lemma rotation_ranks:
  "rotation_rank (JStr ''prepared'') = 0" "rotation_rank (JStr ''creating'') = 1"
  "rotation_rank (JStr ''new-created'') = 2" "rotation_rank (JStr ''old-deleted'') = 3"
  "rotation_rank (JStr ''source-old-retained'') = 3" "rotation_rank (JStr ''bdm-rotated'') = 4"
  "rotation_rank (JStr ''source-release-complete'') = 5" "rotation_rank (JStr ''source-rollback-complete'') = 5"
  by (simp_all add: rotation_rank_def)

lemma transition_rank: "transition_allowed from phase \<Longrightarrow> rotation_rank from < rotation_rank (JStr phase)"
  unfolding transition_allowed_def insert_iff prod.inject empty_iff
  by (elim disjE conjE FalseE) (simp_all add: rotation_ranks)

text \<open>What the validation of a rotation establishes.\<close>

lemma validate_rotation_front:
  assumes "validate_rotation row v (JObj p) = Inr p'"
  shows "\<not> (key_set p \<noteq> set rotation_keys \<or> \<not> owned_payload row v 1 p \<or>
                \<not> nonempty_string (jget p ''mountpoint'') \<or> \<not> uuid_like_value (jget p ''operation_token'') \<or>
                \<not> uuid_like_value (jget p ''migration_uuid'') \<or> \<not> uuid_like_value (jget p ''old_attachment_id'') \<or>
                jget p ''new_attachment_id'' \<noteq> JNull \<and> \<not> uuid_like_value (jget p ''new_attachment_id''))"
    (is "\<not> ?bad")
proof
  assume ?bad
  then have "validate_rotation row v (JObj p) = Inl BadVolume"
    unfolding validate_rotation_def Let_def json.case by (rule if_P)
  with assms show False by simp
qed

lemma validate_rotation_Inr:
  assumes "validate_rotation row v (JObj p) = Inr p'"
  shows "p' = p \<and>
    (\<exists>xs. jget p ''baseline_attachment_ids'' = JList xs \<and> list_all uuid_like_value xs) \<and>
    jget p ''phase'' \<in> set rotation_phases \<and> is_bool (jget p ''boot_volume'') \<and>
    (jget p ''phase'' \<in> {JStr ''prepared'', JStr ''creating''} \<longrightarrow> jget p ''new_attachment_id'' = JNull)"
  using assms
  unfolding validate_rotation_def Let_def json.case if_not_P [OF validate_rotation_front [OF assms]]
    rbind_Inr_conv check_Inr
  apply (elim exE conjE)
  apply (split json.split_asm)
  apply (simp_all only: sum.inject sum.distinct member_of_def split: if_split_asm)
  apply (intro conjI exI)
  apply simp_all
  done

lemma transition_rotation_Inr:
  assumes "transition_rotation L row v e phase a s = (Inr p, s')"
  shows "\<exists>q. read_rotation L row v s = (Inr (Some q), s) \<and> same_fields q e \<and>
    transition_allowed (jget e ''phase'') phase \<and>
    p = update_all ((''phase'', JStr phase) # (if phase = ''new-created'' then [(''new_attachment_id'', a)] else [])) e \<and>
    validate_rotation row v (JObj p) = Inr p \<and>
    store_record L (nr_uuid row) AttachmentRotation v p s = (Inr (), s')"
proof -
  obtain w where allowed: "transition_allowed (jget e ''phase'') phase"
    and w: "write_rotation L row v (update_all ((''phase'', JStr phase) #
        (if phase = ''new-created'' then [(''new_attachment_id'', a)] else [])) e) (Some e) s = (Inr (p, w), s')"
    using assms
    by (auto simp: transition_rotation_def lift_run rbind_Inr_conv elim!: bnd_InrE split: if_splits)
  let ?p = "update_all ((''phase'', JStr phase) # (if phase = ''new-created'' then [(''new_attachment_id'', a)] else [])) e"
  obtain p1 q s1 where v: "validate_rotation row v (JObj ?p) = Inr p1"
    and r: "read_rotation L row v s = (Inr q, s1)"
    and w2: "(case q of None \<Rightarrow> raise BadVolume
        | Some q \<Rightarrow> if same_fields q e
            then bnd (store_record L (nr_uuid row) AttachmentRotation v p1) (\<lambda>_. ret (p1, True)) else raise BadVolume) s1
        = (Inr (p, w), s')"
    using w unfolding write_rotation_def Let_def by (auto simp: lift_run elim!: bnd_InrE)
  have "p1 = ?p" using validate_rotation_Inr [OF v] by blast
  moreover have "s1 = s" using r by (rule read_intents_state(3))
  ultimately show ?thesis
    using allowed v r w2 by (auto elim!: bnd_InrE split: option.splits if_splits)
qed

text \<open>What one transition keeps of the record, and what it leaves on file.\<close>

lemma rotation_update:
  assumes "p = update_all ((''phase'', JStr phase) # (if c then [(''new_attachment_id'', a)] else [])) e"
  shows "jget p ''phase'' = JStr phase"
    and "jget p ''new_attachment_id'' = (if c then a else jget e ''new_attachment_id'')"
    and "k \<noteq> ''phase'' \<Longrightarrow> k \<noteq> ''new_attachment_id'' \<Longrightarrow> jget p k = jget e k"
    and "distinct (map fst e) \<Longrightarrow> distinct (map fst p)"
  using assms by (auto simp: jget_def update_conv' update_all_def distinct_update)

lemma plain_int: "py_eq_int v n \<Longrightarrow> plain v"
  by (cases v) (simp_all add: plain_def)

lemma all_rotation_keys:
  "(\<forall>k \<in> set rotation_keys. P k) \<longleftrightarrow>
     P ''version'' \<and> P ''instance_uuid'' \<and> P ''instance_name'' \<and> P ''volume_id'' \<and> P ''mountpoint'' \<and>
     P ''operation_token'' \<and> P ''migration_uuid'' \<and> P ''old_attachment_id'' \<and> P ''new_attachment_id'' \<and>
     P ''baseline_attachment_ids'' \<and> P ''phase'' \<and> P ''boot_volume''"
  unfolding rotation_keys_def list.set ball_simps by (simp only: simp_thms)

lemma plain_list: "list_all uuid_like_value xs \<Longrightarrow> plain (JList xs)"
  by (induction xs) (auto simp: plain_def uuid_like_value_def split: json.splits)

lemma rotation_plain:
  assumes "validate_rotation row v (JObj p) = Inr p'"
  shows "\<forall>k \<in> set rotation_keys. plain (jget p k)"
proof -
  have "plain (jget p ''phase'')"
    using validate_rotation_Inr [OF assms] by (auto simp: rotation_phases_def)
  moreover have "plain (jget p ''baseline_attachment_ids'')"
    using validate_rotation_Inr [OF assms] plain_list by auto
  moreover have "plain (jget p ''version'')"
    using validate_rotation_front [OF assms] plain_int by (auto simp: owned_payload_def)
  ultimately show ?thesis
    using validate_rotation_front [OF assms] validate_rotation_Inr [OF assms]
    unfolding all_rotation_keys owned_payload_def by auto
qed

lemma rotation_reads_back:
  assumes "codec_ok L" and "distinct (map fst p)" and v: "validate_rotation row v (JObj p) = Inr p"
    and "store_record L (nr_uuid row) AttachmentRotation v p s = (x, s')"
  shows "\<exists>q. read_rotation L row v s' = (Inr (Some q), s') \<and> same_fields q p"
proof -
  have keys: "key_set p = set rotation_keys" using validate_rotation_front [OF v] by blast
  have "plain (snd kv)" if "kv \<in> set p" for kv
  proof -
    obtain k x where kv: "kv = (k, x)" by (cases kv)
    with that assms(2) have "x = jget p k" "k \<in> key_set p" by (force simp: jget_def key_set_def)+
    with rotation_plain [OF v] keys kv show ?thesis by simp
  qed
  then have plain: "\<forall>kv \<in> set p. plain (snd kv)" by blast
  have j: "jget (sorted_fields p) = jget p"
    using plain_fields(2) [OF assms(2) plain] by (rule ext)
  have "validate_rotation row v (JObj (sorted_fields p)) =
      rbind (validate_rotation row v (JObj p)) (\<lambda>_. Inr (sorted_fields p))"
    unfolding validate_rotation_def json.case Let_def owned_payload_def j key_set_sorted_fields
    by (simp add: rbind_assoc if_distrib)
  then have "validate_rotation row v (JObj (sorted_fields p)) = Inr (sorted_fields p)"
    by (simp add: v rbind_def)
  from read_back [OF assms(1) plain_fields(1) [OF assms(2) plain] assms(4),
      where valid = "validate_rotation row v", OF this]
  show ?thesis using plain_fields(3) [OF assms(2) plain] unfolding read_rotation_def by blast
qed

text \<open>A replacement is named once: the transition that names it starts from a record without one.\<close>

lemma py_equal_leaf [simp]:
  "py_equal v (JStr x) \<longleftrightarrow> v = JStr x" "py_equal JNull v \<longleftrightarrow> v = JNull"
  by (cases v; auto simp: py_equal_def num_of_def)+

lemma read_rotation_valid:
  "read_rotation L row v s = (Inr (Some q), s') \<Longrightarrow> \<exists>x. validate_rotation row v (JObj x) = Inr q \<and> x = q"
proof -
  assume "read_rotation L row v s = (Inr (Some q), s')"
  then obtain x where x: "validate_rotation row v x = Inr q"
    by (auto simp: read_rotation_def read_checked_Some rbind_Inr_conv)
  then obtain y where y: "x = JObj y" by (cases x) (simp_all add: validate_rotation_def)
  from validate_rotation_Inr [OF x [unfolded y]] x y show ?thesis by auto
qed

lemma created_once:
  assumes "read_rotation L row v s = (Inr (Some q), s)" and "same_fields q e"
    and "transition_allowed (jget e ''phase'') ''new-created''"
  shows "jget e ''new_attachment_id'' = JNull"
proof -
  have v: "validate_rotation row v (JObj q) = Inr q" using read_rotation_valid [OF assms(1)] by blast
  have same: "py_equal (jget q k) (jget e k)" if "k \<in> set rotation_keys" for k
  proof -
    have "k \<in> fst ` set q" using that validate_rotation_front [OF v] by (auto simp: key_set_def)
    with assms(2) show ?thesis by (auto simp: same_fields_def list_all_iff)
  qed
  have "jget e ''phase'' = JStr ''creating''"
    using assms(3) by (simp add: transition_allowed_def)
  then have "jget q ''phase'' = JStr ''creating''"
    using same [of "''phase''"] by (simp add: rotation_keys_def)
  then have "jget q ''new_attachment_id'' = JNull" using validate_rotation_Inr [OF v] by auto
  then show ?thesis using same [of "''new_attachment_id''"] by (simp add: rotation_keys_def)
qed

lemma transition_step:
  assumes "codec_ok L" and "distinct (map fst e)" and "transition_rotation L row v e phase a s = (Inr p, s')"
  shows "\<exists>q. read_rotation L row v s = (Inr (Some q), s) \<and> same_fields q e"
    and "\<exists>q. read_rotation L row v s' = (Inr (Some q), s') \<and> same_fields q p"
    and "rotation_rank (jget e ''phase'') < rotation_rank (jget p ''phase'')"
    and "k \<noteq> ''phase'' \<Longrightarrow> k \<noteq> ''new_attachment_id'' \<Longrightarrow> jget p k = jget e k"
    and "jget e ''new_attachment_id'' \<noteq> JNull \<Longrightarrow> jget p ''new_attachment_id'' = jget e ''new_attachment_id''"
    and "distinct (map fst p)"
proof -
  from transition_rotation_Inr [OF assms(3)] obtain q where
    q: "read_rotation L row v s = (Inr (Some q), s)" "same_fields q e"
    and allowed: "transition_allowed (jget e ''phase'') phase"
    and p: "p = update_all ((''phase'', JStr phase) #
        (if phase = ''new-created'' then [(''new_attachment_id'', a)] else [])) e"
    and valid: "validate_rotation row v (JObj p) = Inr p"
    and stored: "store_record L (nr_uuid row) AttachmentRotation v p s = (Inr (), s')"
    by blast
  note upd = rotation_update [OF p]
  show "distinct (map fst p)" using assms(2) by (rule upd)
  with stored valid show "\<exists>q. read_rotation L row v s' = (Inr (Some q), s') \<and> same_fields q p"
    using rotation_reads_back [OF assms(1)] by blast
  show "\<exists>q. read_rotation L row v s = (Inr (Some q), s) \<and> same_fields q e" using q by blast
  show "rotation_rank (jget e ''phase'') < rotation_rank (jget p ''phase'')"
    using transition_rank [OF allowed] upd(1) by simp
  show "jget p k = jget e k" if "k \<noteq> ''phase''" "k \<noteq> ''new_attachment_id''" for k
    using that by (rule upd)
  show "jget p ''new_attachment_id'' = jget e ''new_attachment_id''"
    if "jget e ''new_attachment_id'' \<noteq> JNull"
    using that upd(2) created_once [OF q] allowed by (cases "phase = ''new-created''") auto
qed

text \<open>
  C26: The rotation of an attachment only advances. Any sequence of successful transitions of a
  cold migration has at most five steps and moves the phase up at each of them, so a terminal
  phase is final and no phase comes back. It starts only from the record that is on file, which
  afterwards is the result; and it changes nothing but the phase and the replacement attachment,
  which is named at most once. This holds for the text forms that read back as they were written
  and a record without repeated keys.
\<close>

theorem rotation_only_advances:
  assumes "codec_ok L" and "distinct (map fst e)" and "rotate_through L row v e steps s = (Inr p, s')"
  shows "rotation_rank (jget e ''phase'') + length steps \<le> rotation_rank (jget p ''phase'') \<and>
    length steps \<le> 5 \<and>
    (\<forall>k. k \<noteq> ''phase'' \<and> k \<noteq> ''new_attachment_id'' \<longrightarrow> jget p k = jget e k) \<and>
    (jget e ''new_attachment_id'' \<noteq> JNull \<longrightarrow> jget p ''new_attachment_id'' = jget e ''new_attachment_id'') \<and>
    (steps \<noteq> [] \<longrightarrow> (\<exists>q. read_rotation L row v s = (Inr (Some q), s) \<and> same_fields q e) \<and>
       (\<exists>q. read_rotation L row v s' = (Inr (Some q), s') \<and> same_fields q p))"
proof -
  have all: "rotation_rank (jget e ''phase'') + length steps \<le> rotation_rank (jget p ''phase'') \<and>
    (\<forall>k. k \<noteq> ''phase'' \<and> k \<noteq> ''new_attachment_id'' \<longrightarrow> jget p k = jget e k) \<and>
    (jget e ''new_attachment_id'' \<noteq> JNull \<longrightarrow> jget p ''new_attachment_id'' = jget e ''new_attachment_id'') \<and>
    (steps \<noteq> [] \<longrightarrow> (\<exists>q. read_rotation L row v s = (Inr (Some q), s) \<and> same_fields q e) \<and>
       (\<exists>q. read_rotation L row v s' = (Inr (Some q), s') \<and> same_fields q p))"
    using assms(2,3)
  proof (induction steps arbitrary: e s)
    case (Cons step steps)
    obtain phase a where step: "step = (phase, a)" by (cases step)
    with Cons.prems(2) obtain p1 s1 where first: "transition_rotation L row v e phase a s = (Inr p1, s1)"
      and rest: "rotate_through L row v p1 steps s1 = (Inr p, s')"
      by (auto elim: bnd_InrE)
    note one = transition_step [OF assms(1) Cons.prems(1) first]
    note more = Cons.IH [OF one(6) rest]
    have "\<exists>q. read_rotation L row v s' = (Inr (Some q), s') \<and> same_fields q p"
      using one(2) more rest by (cases steps) auto
    with one(1,3,4,5) more show ?case by auto
  qed auto
  then have "length steps \<le> 5" using rotation_rank_le [of "jget p ''phase''"] by linarith
  with all show ?thesis by blast
qed

text \<open>A rotation that was prepared, and its first step.\<close>

definition prepared_record :: fields where
  "prepared_record =
     [(''version'', JInt 1), (''instance_uuid'', JStr uuid_1), (''instance_name'', JStr ''vm-1''),
      (''volume_id'', JStr uuid_2), (''mountpoint'', JStr ''/dev/sdb''), (''operation_token'', JStr token_1),
      (''migration_uuid'', JStr host_1), (''old_attachment_id'', JStr generation_1),
      (''new_attachment_id'', JNull), (''baseline_attachment_ids'', JList [JStr generation_1]),
      (''phase'', JStr ''prepared''), (''boot_volume'', JBool False)]"

definition prepared_journal :: "json jhost" where
  "prepared_journal =
     \<lparr>jh_dirs = [uuid_1 \<mapsto> [(record_name json_lib AttachmentRotation uuid_2,
        \<lparr>jf_text = Some (JObj prepared_record), jf_mtime = 100, jf_regular = True\<rparr>)]], jh_now = 1000\<rparr>"

theorem rotation_only_advances_witness:
  "\<exists>p s'. rotate_through json_lib journal_row uuid_2 prepared_record
       [(''creating'', JNull)] prepared_journal = (Inr p, s') \<and>
     1 \<le> rotation_rank (jget p ''phase'') \<and> jget p ''old_attachment_id'' = JStr generation_1 \<and>
     (\<exists>q. read_rotation json_lib journal_row uuid_2 s' = (Inr (Some q), s') \<and> same_fields q p)"
proof -
  let ?steps = "[(''creating'', JNull)]"
  let ?run = "rotate_through json_lib journal_row uuid_2 prepared_record ?steps prepared_journal"
  have "(case fst ?run of Inr p \<Rightarrow> True | Inl e \<Rightarrow> False)" by code_simp
  then obtain p s' where run: "?run = (Inr p, s')" by (cases ?run; cases "fst ?run") auto
  have "distinct (map fst prepared_record)" by (simp add: prepared_record_def)
  note advanced = rotation_only_advances [OF codec_ok_json_lib this run]
  have "jget prepared_record ''old_attachment_id'' = JStr generation_1" by (simp add: prepared_record_def)
  with advanced run rotation_rank_le [of "jget p ''phase''"] show ?thesis by force
qed

section \<open>Credentials\<close>

text \<open>No object in the value, at any depth, has a key that names a credential.\<close>

fun credential_free :: "json \<Rightarrow> bool" where
  "credential_free (JObj kvs) \<longleftrightarrow> (\<forall>kv \<in> set kvs. \<not> sensitive_key (fst kv) \<and> credential_free (snd kv))"
| "credential_free (JList xs) \<longleftrightarrow> (\<forall>x \<in> set xs. credential_free x)"
| "credential_free _ \<longleftrightarrow> True"

lemma sanitize_credential_free:
  "credential_free (sanitize v)"
  "\<forall>kv \<in> set (sanitize_fields kvs). \<not> sensitive_key (fst kv) \<and> credential_free (snd kv)"
  "\<forall>x \<in> set (sanitize_items vs). credential_free x"
  by (induction v and kvs and vs rule: sanitize_sanitize_fields_sanitize_items.induct) auto

lemma sanitize_keys: "fst ` set (sanitize_fields kvs) \<subseteq> fst ` set kvs"
proof (induction kvs)
  case (Cons kv kvs)
  then show ?case by (cases kv) (auto split: if_splits)
qed simp

lemma sanitize_wf:
  "json_wf v \<Longrightarrow> json_wf (sanitize v)"
  "json_wf (JObj kvs) \<Longrightarrow> json_wf (JObj (sanitize_fields kvs))"
  "json_wf (JList vs) \<Longrightarrow> json_wf (JList (sanitize_items vs))"
  using sanitize_keys
  by (induction v and kvs and vs rule: sanitize_sanitize_fields_sanitize_items.induct) (auto dest!: subsetD)

lemma sanitize_field:
  assumes "distinct (map fst kvs)" and "\<not> sensitive_key k"
  shows "jget (sanitize_fields kvs) k = sanitize (jget kvs k)"
  using assms
proof (induction kvs)
  case (Cons kv kvs)
  have "jget kvs (fst kv) = JNull"
    using Cons.prems(1) by (simp add: jget_def map_of_eq_None_iff [THEN iffD2])
  with Cons show ?case by (cases kv) auto
qed simp

lemma sort_keys_credential_free: "credential_free v \<Longrightarrow> credential_free (sort_keys v)"
  by (induction v rule: sort_keys.induct) (auto simp: sort_keys.simps(1))

lemma distinct_map_sort_key: "distinct (map fst (sort_key fst xs)) \<longleftrightarrow> distinct (map fst xs)"
  by (simp add: distinct_map)

lemma sort_keys_wf: "json_wf v \<Longrightarrow> json_wf (sort_keys v)"
proof (induction v rule: sort_keys.induct)
  case (1 kvs)
  have "distinct (map fst (sort_key fst (map (\<lambda>(k, v). (k, sort_keys v)) kvs)))"
    using 1 map_fst_sort_keys [of kvs] by (simp only: json_wf.simps distinct_map_sort_key)
  with 1 show ?case by (auto simp: sort_keys.simps(1))
qed auto

lemma sort_key_map_snd:
  fixes kvs :: "(string \<times> 'a) list"
  shows "map (\<lambda>(k, v). (k, f v)) (sort_key fst kvs) = sort_key fst (map (\<lambda>(k, v). (k, f v)) kvs)"
proof -
  have "map (\<lambda>(k, v). (k, f v)) (insort_key fst x xs) = insort_key fst (fst x, f (snd x)) (map (\<lambda>(k, v). (k, f v)) xs)"
    for x :: "string \<times> 'a" and xs
    by (induction xs) (auto simp: split_beta)
  then show ?thesis by (induction kvs) auto
qed

lemma sort_keys_idem [simp]: "sort_keys (sort_keys v) = sort_keys v"
proof (induction v rule: sort_keys.induct)
  case (1 kvs)
  let ?g = "\<lambda>(k :: string, v). (k, sort_keys v)"
  have "map ?g (map ?g kvs) = map ?g kvs" using 1 by force
  then show ?case
    by (simp only: sort_keys.simps(1) sort_key_map_snd sort_key_id_if_sorted sorted_sort_key)
qed auto

text \<open>The data of a connection as the code cleans it.\<close>

definition connection_data :: "fields \<Rightarrow> json" where
  "connection_data c = (let d = jget c ''data'' in if py_truthy d then d else JObj [])"

lemma attachment_record_Inr:
  assumes "attachment_record c d m ph = Inr r" and "json_wf (JObj c)" "json_wf d" "json_wf m" "json_wf ph"
  shows "\<exists>kvs. r = JObj kvs \<and> json_wf r \<and>
    jget kvs ''phase'' = ph \<and> jget kvs ''device_info'' = d \<and> jget kvs ''mountpoint'' = m \<and>
    jget kvs ''driver_volume_type'' = jget c ''driver_volume_type'' \<and>
    jget kvs ''connection_data'' = sanitize (connection_data c)"
proof -
  have "json_wf (jget c ''data'')"
    using assms(2) by (auto simp: jget_def split: option.splits dest: map_of_SomeD)
  then have "json_wf (sanitize (connection_data c))"
    by (auto simp: connection_data_def Let_def intro: sanitize_wf)
  then show ?thesis
    using assms unfolding attachment_record_def connection_data_def [symmetric]
    by (auto split: json.splits list.splits)
qed

text \<open>
  C27: No credential reaches the disk. Whatever connection information Cinder returned, the record
  that the journal of a volume keeps of it has, at no depth, a key that names a password, a secret
  or a token; and it keeps the rest: the value under every other key of the connection data, itself
  cleaned, with the phase, the device, the mountpoint and the protocol as they were given (the
  keys of all objects in order). This holds for the text forms that read back as they were written.
\<close>

theorem journal_keeps_no_credentials:
  assumes "codec_ok L" and "json_wf (JObj c)" "json_wf d" "json_wf m" "json_wf ph"
    and "write_volume_journal L row v c d m ph s = (Inr u, s')"
  shows "\<exists>p. read_volume_journal L row v s' = (Inr (Some p), s') \<and>
    credential_free (jget p ''connection_data'') \<and>
    (\<forall>data k. connection_data c = JObj data \<and> \<not> sensitive_key k \<longrightarrow>
       (\<exists>kept. jget p ''connection_data'' = JObj kept \<and> jget kept k = sort_keys (sanitize (jget data k)))) \<and>
    jget p ''phase'' = sort_keys ph \<and> jget p ''device_info'' = sort_keys d \<and>
    jget p ''mountpoint'' = sort_keys m \<and>
    jget p ''driver_volume_type'' = jget c ''driver_volume_type''"
proof -
  from assms(6) obtain r x where r: "attachment_record c d m ph = Inr r"
    and x: "l_loads L (json_bytes L r) = Some x"
    and stored: "store_record L (nr_uuid row) VolumeRecord v (journal_fields row v x) s = (Inr u, s')"
    unfolding write_volume_journal_def serialize_attachment_def
    by (auto simp: lift_run rbind_Inr_conv elim!: bnd_InrE split: option.splits)
  from attachment_record_Inr [OF r assms(2-5)] obtain kvs where kvs: "r = JObj kvs" "json_wf (JObj kvs)"
    and vals: "jget kvs ''phase'' = ph" "jget kvs ''device_info'' = d" "jget kvs ''mountpoint'' = m"
      "jget kvs ''driver_volume_type'' = jget c ''driver_volume_type''"
      "jget kvs ''connection_data'' = sanitize (connection_data c)"
    by blast
  have dist: "distinct (map fst kvs)" using kvs(2) by simp
  define p where "p = sorted_fields (sorted_fields kvs)"
  have x': "x = sort_keys (JObj kvs)" "x = JObj (sorted_fields kvs)"
    using x loads_json_bytes [OF assms(1) kvs(2)] kvs(1) by (simp_all add: sort_keys_obj)
  have p: "jget p k = sort_keys (jget kvs k)" for k
  proof -
    have "distinct (map fst (sorted_fields kvs))"
      using dist unfolding sorted_fields_def distinct_map_sort_key map_fst_sort_keys .
    with dist show ?thesis by (simp add: p_def jget_sorted_fields)
  qed
  have wf: "json_wf (JObj (journal_fields row v x))"
    using sort_keys_wf [OF kvs(2)] x'(1) by (simp add: journal_fields_def)
  have journal: "jget (sorted_fields (journal_fields row v x)) k = sort_keys (jget (journal_fields row v x) k)" for k
    using wf by (intro jget_sorted_fields) simp
  have fields: "jget (journal_fields row v x) ''version'' = JInt 1"
    "jget (journal_fields row v x) ''instance_uuid'' = JStr (nr_uuid row)"
    "jget (journal_fields row v x) ''instance_name'' = JStr (nr_name row)"
    "jget (journal_fields row v x) ''volume_id'' = JStr v"
    "jget (journal_fields row v x) ''attachment'' = JObj (sorted_fields kvs)"
    by (simp_all add: journal_fields_def x'(2))
  have "contents s' (nr_uuid row) (record_name L VolumeRecord v) = Some (stored_file L (journal_fields row v x) s)"
    by (simp add: store_contents [OF stored])
  then have "read_volume_journal L row v s' = (Inr (Some p), s')"
    using stored_json_text [OF assms(1) wf]
    by (simp add: read_volume_journal_def load_record_run bnd_def journal owned_payload_def fields p_def sort_keys_obj)
  moreover have "credential_free (jget p ''connection_data'')"
    by (simp add: p vals sort_keys_credential_free sanitize_credential_free)
  moreover have "\<exists>kept. jget p ''connection_data'' = JObj kept \<and> jget kept k = sort_keys (sanitize (jget data k))"
    if "connection_data c = JObj data" and "\<not> sensitive_key k" for data k
  proof -
    have "json_wf (JObj data)"
      using that(1) assms(2) unfolding connection_data_def Let_def
      by (fastforce simp: jget_def split: option.splits if_splits dest: map_of_SomeD)
    then have "distinct (map fst data)" and "distinct (map fst (sanitize_fields data))"
      using sanitize_wf(2) by (auto simp del: sanitize.simps)
    with that show ?thesis
      by (simp add: p vals sort_keys_obj jget_sorted_fields sanitize_field)
  qed
  moreover have "sort_keys (jget c ''driver_volume_type'') = jget c ''driver_volume_type''"
    using r by (auto simp: attachment_record_def split: json.splits)
  ultimately show ?thesis by (auto simp: p vals)
qed

definition iscsi_connection :: fields where
  "iscsi_connection =
     [(''driver_volume_type'', JStr ''iscsi''),
      (''data'', JObj [(''auth_password'', JStr ''s3cret''), (''target_iqn'', JStr ''iqn.x'')])]"

theorem journal_keeps_no_credentials_witness:
  "\<exists>s' p kept. read_volume_journal json_lib journal_row uuid_2 s' = (Inr (Some p), s') \<and>
     jget p ''connection_data'' = JObj kept \<and> jget kept ''target_iqn'' = JStr ''iqn.x'' \<and>
     credential_free (JObj kept) \<and> \<not> credential_free (JObj iscsi_connection)"
proof -
  let ?w = "write_volume_journal json_lib journal_row uuid_2 iscsi_connection (JObj []) (JStr ''/dev/sdb'')
      (JStr ''connected'') empty_journal"
  have "fst ?w = Inr ()" by code_simp
  then obtain s' where run: "?w = (Inr (), s')" by (metis prod.collapse)
  have wf: "json_wf (JObj iscsi_connection)" "json_wf (JObj [])" "json_wf (JStr ''/dev/sdb'')"
    "json_wf (JStr ''connected'')"
    by (simp_all add: iscsi_connection_def)
  have data: "connection_data iscsi_connection =
      JObj [(''auth_password'', JStr ''s3cret''), (''target_iqn'', JStr ''iqn.x'')]"
    by (simp add: connection_data_def iscsi_connection_def)
  have key: "\<not> sensitive_key ''target_iqn''" "sensitive_key ''auth_password''" by code_simp+
  from journal_keeps_no_credentials [OF codec_ok_json_lib wf run] data key(1) obtain p kept where
    "read_volume_journal json_lib journal_row uuid_2 s' = (Inr (Some p), s')"
    "jget p ''connection_data'' = JObj kept" "credential_free (JObj kept)" "jget kept ''target_iqn'' = JStr ''iqn.x''"
    by fastforce
  with key(2) show ?thesis by (auto simp: iscsi_connection_def)
qed

end
