(* ===== verification/Registry_Tool.thy ===== *)
theory Registry_Tool
  imports Idmap_Restore
begin

text \<open>
  The operator's registry tool (tools/openstack-incus-idmap-registry.py): the document of an
  audited registry and its validation, the restore of a registry from a frozen document, the
  retirement of a cleaned claim and of the claim of a fenced host with the checks of its power
  state, and the command line. A ValueError is \<open>PyException ValueError\<close>.
\<close>

section \<open>The document\<close>

definition document_schema :: string where
  "document_schema = ''openstack-incus-idmap-registry/v3''"

definition host_claim_payload :: "host_claim \<Rightarrow> json" where
  "host_claim_payload c =
     JObj [(''allocation_id'', JStr (allocation_id c)), (''base'', JInt (map_base c)),
       (''fingerprint'', JStr (fingerprint c)), (''host_id'', JStr (host_id c)),
       (''instance_uuid'', JStr (instance_uuid c)), (''materialization_id'', JStr (materialization_id c)),
       (''proof'', cleanup_proof_value (proof_of c)), (''size'', JInt (map_size c)),
       (''slot'', JInt (map_slot c)), (''state'', JStr (claim_state_str (state c)))]"

definition assignment_payload :: "assignment \<Rightarrow> host_claim list \<Rightarrow> json" where
  "assignment_payload a claims =
     JObj [(''allocation_id'', JStr (allocation_id a)), (''base'', JInt (map_base a)),
       (''fingerprint'', JStr (fingerprint a)), (''host_claims'', JList (map host_claim_payload claims)),
       (''instance_uuid'', JStr (instance_uuid a)), (''size'', JInt (map_size a)),
       (''slot'', JInt (map_slot a))]"

definition release_intent_payload :: "release_intent \<Rightarrow> json" where
  "release_intent_payload i =
     JObj [(''allocation_id'', JStr (allocation_id i)), (''base'', JInt (map_base i)),
       (''fingerprint'', JStr (fingerprint i)), (''instance_name'', JStr (instance_name i)),
       (''instance_uuid'', JStr (instance_uuid i)), (''size'', JInt (map_size i)),
       (''slot'', JInt (map_slot i))]"

text \<open>The claims of an instance, in the order of the snapshot.\<close>

definition claims_of :: "string \<Rightarrow> host_claim list \<Rightarrow> host_claim list" where
  "claims_of u claims = filter (\<lambda>c. instance_uuid c = u) claims"

definition intent_order :: "release_intent \<Rightarrow> int \<times> string" where
  "intent_order i = (map_slot i, instance_uuid i)"

definition document_of :: "'b allocator \<Rightarrow> audit_result \<Rightarrow> fields" where
  "document_of A = (\<lambda>(assignments, intents, claims).
     [(''assignments'', JList (map (\<lambda>a. assignment_payload a (claims_of (instance_uuid a) claims))
         (sort_key map_slot assignments))),
      (''base'', JInt (al_base A)), (''count'', JInt (al_count A)),
      (''fingerprint'', JStr (al_fingerprint A)), (''namespace'', JStr (al_namespace A)),
      (''release_intents'', JList (map release_intent_payload (sort_key intent_order intents))),
      (''schema'', JStr document_schema), (''size'', JInt (al_size A))])"

definition registry_document ::
  "'b allocator \<Rightarrow> ('s, 'b) gateway \<Rightarrow> assignment list \<Rightarrow> release_intent list option \<Rightarrow> ('s, 'b, fields) cprog" where
  "registry_document A G assignments intents =
     bnd (audit_state A G) (\<lambda>(found, found_intents, claims).
     if assignments \<noteq> found then raise ConflictError
     else case intents of
       None \<Rightarrow> ret (document_of A (found, found_intents, claims))
     | Some is \<Rightarrow> if is \<noteq> found_intents then raise ConflictError
                  else ret (document_of A (found, is, claims)))"

section \<open>Its validation\<close>

definition require_exact_keys :: "json \<Rightarrow> string list \<Rightarrow> fields result" where
  "require_exact_keys v expected =
     (case v of
        JObj p \<Rightarrow> if key_set p = set expected then Inr p else Inl (PyException ValueError)
      | _ \<Rightarrow> Inl (PyException ValueError))"

definition require_int :: "json \<Rightarrow> int result" where
  "require_int v = (case v of JInt i \<Rightarrow> Inr i | _ \<Rightarrow> Inl (PyException ValueError))"

definition require_list :: "json \<Rightarrow> json list result" where
  "require_list v = (case v of JList xs \<Rightarrow> Inr xs | _ \<Rightarrow> Inl (PyException ValueError))"

definition require_str :: "json \<Rightarrow> string result" where
  "require_str v = (case v of JStr s \<Rightarrow> Inr s | _ \<Rightarrow> Inl (PyException ValueError))"

text \<open>The exceptions below IDMapError.\<close>

definition allocator_error :: "idmap_error \<Rightarrow> bool" where
  "allocator_error e \<longleftrightarrow> (case e of PyException _ \<Rightarrow> False | _ \<Rightarrow> True)"

definition claim_payload_keys :: "string list" where
  "claim_payload_keys =
     [''allocation_id'', ''base'', ''fingerprint'', ''host_id'', ''instance_uuid'',
      ''materialization_id'', ''proof'', ''size'', ''slot'', ''state'']"

definition parse_claim :: "'b allocator \<Rightarrow> json \<Rightarrow> host_claim result" where
  "parse_claim A v =
     rbind (require_exact_keys v claim_payload_keys) (\<lambda>p.
     rbind (require_str (jget p ''allocation_id'')) (\<lambda>aid.
     rbind (require_str (jget p ''fingerprint'')) (\<lambda>fp.
     rbind (require_str (jget p ''host_id'')) (\<lambda>h.
     rbind (require_str (jget p ''instance_uuid'')) (\<lambda>u.
     rbind (require_str (jget p ''materialization_id'')) (\<lambda>m.
     rbind (require_str (jget p ''state'')) (\<lambda>st.
     except_r allocator_error (PyException ValueError)
       (rbind (parse_cleanup_proof (al_lib A) (jget p ''proof'')) (\<lambda>proof.
        rbind (host_id_arg h) (\<lambda>h.
        rbind (materialization_id_arg m) (\<lambda>m.
        rbind (instance_uuid_arg u) (\<lambda>u.
        rbind (require_int (jget p ''base'')) (\<lambda>base.
        rbind (require_int (jget p ''size'')) (\<lambda>sz.
        rbind (require_int (jget p ''slot'')) (\<lambda>slot.
        rbind (materialization_id_arg aid) (\<lambda>aid.
        rbind (case parse_claim_state st of None \<Rightarrow> Inl ConfigurationError | Some s \<Rightarrow> Inr s) (\<lambda>st.
        let c = \<lparr>instance_uuid = u, map_base = base, map_size = sz, map_slot = slot, allocation_id = aid,
                 fingerprint = fp, host_id = h, materialization_id = m, state = st, proof_of = proof\<rparr> in
        rbind (host_claim_raw A c h m st proof) (\<lambda>raw.
        rbind (parse_host_claim A raw (Some h) (Some u)) (\<lambda>_. Inr c)))))))))))))))))))"

text \<open>\<open>validate_restore\<close> on JSON values that need not be strings.\<close>

definition validate_restore_values ::
  "'b allocator \<Rightarrow> json \<Rightarrow> int \<Rightarrow> int \<Rightarrow> json \<Rightarrow> json \<Rightarrow> host_claim list \<Rightarrow> assignment result" where
  "validate_restore_values A u base sz aid fp claims =
     (case (u, aid, fp) of
        (JStr u, JStr aid, JStr fp) \<Rightarrow> validate_restore A u base sz aid fp claims
      | (JStr u, _, _) \<Rightarrow>
          rbind (instance_uuid_arg u) (\<lambda>_.
          rbind (preferred_slot A base (Some sz)) (\<lambda>_. Inl ConfigurationError))
      | _ \<Rightarrow> Inl ConfigurationError)"

definition assignment_payload_keys :: "string list" where
  "assignment_payload_keys =
     [''allocation_id'', ''base'', ''fingerprint'', ''host_claims'', ''instance_uuid'', ''size'', ''slot'']"

type_synonym restore_entry = "assignment \<times> host_claim list"

definition read_assignment :: "'b allocator \<Rightarrow> json \<Rightarrow> restore_entry result" where
  "read_assignment A v =
     rbind (require_exact_keys v assignment_payload_keys) (\<lambda>p.
     rbind (require_list (jget p ''host_claims'')) (\<lambda>values.
     rbind (map_result (parse_claim A) values) (\<lambda>claims.
     rbind (require_int (jget p ''base'')) (\<lambda>base.
     rbind (require_int (jget p ''size'')) (\<lambda>sz.
     rbind (validate_restore_values A (jget p ''instance_uuid'') base sz (jget p ''allocation_id'')
              (jget p ''fingerprint'') claims) (\<lambda>a.
     rbind (require_int (jget p ''slot'')) (\<lambda>slot.
     rbind (check (slot = map_slot a) (PyException ValueError)) (\<lambda>_. Inr (a, claims)))))))))"

fun read_assignments :: "'b allocator \<Rightarrow> json list \<Rightarrow> restore_entry list \<Rightarrow> restore_entry list result" where
  "read_assignments A [] seen = Inr seen"
| "read_assignments A (v # vs) seen =
     rbind (read_assignment A v) (\<lambda>(a, claims).
     rbind (check (instance_uuid a \<notin> instance_uuid ` fst ` set seen \<and>
                   map_slot a \<notin> map_slot ` fst ` set seen) (PyException ValueError)) (\<lambda>_.
     read_assignments A vs (seen @ [(a, claims)])))"

definition intent_payload_keys :: "string list" where
  "intent_payload_keys =
     [''allocation_id'', ''base'', ''fingerprint'', ''instance_name'', ''instance_uuid'', ''size'', ''slot'']"

text \<open>An intent is looked up by its instance, which a dict refuses if it cannot be hashed.\<close>

definition read_intent_payload :: "restore_entry list \<Rightarrow> json \<Rightarrow> release_intent result" where
  "read_intent_payload entries v =
     rbind (require_exact_keys v intent_payload_keys) (\<lambda>p.
     rbind (case jget p ''instance_uuid'' of JList _ \<Rightarrow> Inl (PyException TypeError)
            | JObj _ \<Rightarrow> Inl (PyException TypeError)
            | JStr u \<Rightarrow> (case find_instance u (map fst entries) of
                          None \<Rightarrow> Inl (PyException ValueError) | Some a \<Rightarrow> Inr a)
            | _ \<Rightarrow> Inl (PyException ValueError)) (\<lambda>a.
     rbind (check (py_eq_int (jget p ''base'') (map_base a) \<and> py_eq_int (jget p ''size'') (map_size a) \<and>
                   py_eq_int (jget p ''slot'') (map_slot a) \<and>
                   jget p ''allocation_id'' = JStr (allocation_id a) \<and>
                   jget p ''fingerprint'' = JStr (fingerprint a)) (PyException ValueError)) (\<lambda>_.
     rbind (name_field (jget p ''instance_name'')) (\<lambda>name.
     Inr \<lparr>instance_uuid = instance_uuid a, map_base = map_base a, map_size = map_size a,
          map_slot = map_slot a, allocation_id = allocation_id a, fingerprint = fingerprint a,
          instance_name = name\<rparr>))))"

fun read_release_intents :: "restore_entry list \<Rightarrow> json list \<Rightarrow> release_intent list \<Rightarrow> release_intent list result" where
  "read_release_intents entries [] seen = Inr seen"
| "read_release_intents entries (v # vs) seen =
     rbind (read_intent_payload entries v) (\<lambda>i.
     rbind (check (instance_uuid i \<notin> instance_uuid ` set seen) (PyException ValueError)) (\<lambda>_.
     read_release_intents entries vs (seen @ [i])))"

definition document_keys :: "string list" where
  "document_keys =
     [''assignments'', ''base'', ''count'', ''fingerprint'', ''namespace'', ''release_intents'', ''schema'', ''size'']"

definition validate_restore_document ::
  "'b allocator \<Rightarrow> json \<Rightarrow> (restore_entry list \<times> release_intent list) result" where
  "validate_restore_document A document =
     rbind (require_exact_keys document document_keys) (\<lambda>d.
     rbind (require_int (jget d ''base'')) (\<lambda>base.
     rbind (require_int (jget d ''count'')) (\<lambda>count.
     rbind (require_int (jget d ''size'')) (\<lambda>sz.
     rbind (check (base = al_base A \<and> count = al_count A \<and> sz = al_size A \<and>
                   jget d ''fingerprint'' = JStr (al_fingerprint A) \<and>
                   jget d ''namespace'' = JStr (al_namespace A) \<and>
                   jget d ''schema'' = JStr document_schema) (PyException ValueError)) (\<lambda>_.
     rbind (require_list (jget d ''assignments'')) (\<lambda>values.
     rbind (read_assignments A values []) (\<lambda>entries.
     rbind (require_list (jget d ''release_intents'')) (\<lambda>values.
     rbind (read_release_intents entries values []) (\<lambda>intents.
     rbind (check (map fst entries = sort_key map_slot (map fst entries)) (PyException ValueError)) (\<lambda>_.
     rbind (check (intents = sort_key intent_order intents) (PyException ValueError)) (\<lambda>_.
     Inr (entries, intents))))))))))))"

text \<open>
  A file is read by a JSON parser \<open>parse\<close> that keeps every pair of an object, \<open>None\<close> for text that
  cannot be read or parsed; an object with a key twice is refused, at any depth.
\<close>

definition load_restore_document :: "('p \<Rightarrow> json option) \<Rightarrow> 'p \<Rightarrow> json result" where
  "load_restore_document parse path =
     (case parse path of
        None \<Rightarrow> Inl (PyException ValueError)
      | Some v \<Rightarrow> if json_wf v then Inr v else Inl (PyException ValueError))"

section \<open>Restore\<close>

definition entry_claims :: "restore_entry list \<Rightarrow> string \<Rightarrow> host_claim list" where
  "entry_claims entries u =
     (case find (\<lambda>(a, claims). instance_uuid a = u) entries of None \<Rightarrow> [] | Some (a, claims) \<Rightarrow> claims)"

text \<open>Everything that exists is in the document, exactly as it is there.\<close>

definition within_document :: "('x generation_scheme) list \<Rightarrow> ('x generation_scheme) list \<Rightarrow> bool" where
  "within_document existing expected \<longleftrightarrow>
     list_all (\<lambda>v. find_instance (instance_uuid v) expected = Some v) existing"

definition restore_one ::
  "'b allocator \<Rightarrow> ('s, 'b) gateway \<Rightarrow> restore_entry list \<Rightarrow> release_intent list \<Rightarrow> assignment \<Rightarrow>
     ('s, 'b, unit) cprog" where
  "restore_one A G entries intents a =
     bnd (restore A G (instance_uuid a) (map_base a) (map_size a) (allocation_id a) (fingerprint a)
            (entry_claims entries (instance_uuid a)) (find_instance (instance_uuid a) intents)) (\<lambda>restored.
     if restored \<noteq> a then raise IntegrityError else ret ())"

definition restore_registry ::
  "'b allocator \<Rightarrow> ('s, 'b) gateway \<Rightarrow> json \<Rightarrow> ('s, 'b, assignment list \<times> release_intent list) cprog" where
  "restore_registry A G document =
     bnd (lift (validate_restore_document A document)) (\<lambda>(entries, intents).
     let expected = map fst entries in
     bnd (bootstrap A G) (\<lambda>_.
     bnd (audit_state A G) (\<lambda>(existing, existing_intents, unused).
     if \<not> within_document existing expected \<or> \<not> within_document existing_intents intents
     then raise IntegrityError
     else
       bnd (for_all (restore_one A G entries intents) expected) (\<lambda>_.
       bnd (audit_state A G) (\<lambda>(restored, restored_intents, unused).
       if restored \<noteq> expected \<or> restored_intents \<noteq> intents then raise IntegrityError
       else ret (restored, restored_intents))))))"

section \<open>Retirement\<close>

definition retire_host_claim ::
  "'b allocator \<Rightarrow> ('s, 'b) gateway \<Rightarrow> json \<Rightarrow> string \<Rightarrow> string \<Rightarrow>
     ('s, 'b, assignment list \<times> release_intent list) cprog" where
  "retire_host_claim A G document u h =
     bnd (lift (validate_restore_document A document)) (\<lambda>(entries, intents).
     case find_instance u (map fst entries) of
       None \<Rightarrow> raise IntegrityError
     | Some expected \<Rightarrow>
         (case find (\<lambda>c. host_id c = h) (entry_claims entries u) of
            None \<Rightarrow> raise IntegrityError
          | Some c \<Rightarrow>
              if state c \<noteq> Cleaned \<or> proof_of c = None then raise IntegrityError
              else
                bnd (get_allocation A G u) (\<lambda>current.
                case current of
                  None \<Rightarrow> raise ConflictError
                | Some a \<Rightarrow>
                    if \<not> same_generation a expected then raise ConflictError
                    else
                      bnd (get_host_claim A G u h) (\<lambda>found.
                      if found \<noteq> Some c then raise ConflictError
                      else
                        bnd (retire_claim A G u h (materialization_id c) (Some expected)) (\<lambda>retired.
                        if (case retired of None \<Rightarrow> False
                            | Some r \<Rightarrow> \<not> same_generation r expected \<or> h \<in> set (host_ids r))
                        then raise IntegrityError
                        else
                          bnd (audit_state A G) (\<lambda>(assignments, intents, unused).
                          ret (assignments, intents)))))))"

definition fence_retire_host_claim ::
  "'b allocator \<Rightarrow> ('s, 'b) gateway \<Rightarrow> string \<Rightarrow> string \<Rightarrow> string \<Rightarrow> string \<Rightarrow> string \<Rightarrow> string \<Rightarrow>
     ('s, 'b, assignment list \<times> release_intent list) cprog" where
  "fence_retire_host_claim A G u h agent fenced_at operator evidence =
     bnd (get_allocation A G u) (\<lambda>current.
     case current of
       None \<Rightarrow> raise IntegrityError
     | Some a \<Rightarrow>
         bnd (fence_retire_claim A G u h
                \<lparr>f_instance_uuid = u, f_host_id = h, f_allocation_id = allocation_id a, f_fence_agent = agent,
                 f_fenced_at = fenced_at, f_operator = operator, f_evidence = evidence\<rparr> (Some a)) (\<lambda>_.
         bnd (audit_state A G) (\<lambda>(assignments, intents, unused). ret (assignments, intents))))"

section \<open>Power state\<close>

text \<open>
  What the fence provider's process returned: its code and outputs, or \<open>None\<close> where it could not be
  run in time. The last line of its output is the state of the host.
\<close>

definition is_line_break :: "char \<Rightarrow> bool" where
  "is_line_break c =
     (let n = (of_char c :: nat) in (10 \<le> n \<and> n \<le> 13) \<or> (28 \<le> n \<and> n \<le> 30) \<or> n = 133)"

definition last_line :: "string \<Rightarrow> string" where
  "last_line s = rev (takeWhile (\<lambda>c. \<not> is_line_break c) (rev s))"

definition reported_state :: "string \<Rightarrow> string" where
  "reported_state out = map lower_char (strip_chars is_space (last_line (strip_chars is_space out)))"

definition verify_host_is_powered_off :: "(int \<times> string) option \<Rightarrow> string \<Rightarrow> string result" where
  "verify_host_is_powered_off status plug =
     (case status of
        None \<Rightarrow> Inl (PyException ValueError)
      | Some (code, out) \<Rightarrow>
          if code \<notin> {0, 2} \<or> reported_state out \<notin> {''on'', ''off''} then Inl (PyException ValueError)
          else if reported_state out \<noteq> ''off'' then Inl (PyException ValueError)
          else Inr (''fence provider reported '' @ plug @ '' powered off''))"

definition canonical_uuid_argument :: "string \<Rightarrow> string result" where
  "canonical_uuid_argument s = (if canonical_uuid s then Inr s else Inl (PyException ArgumentTypeError))"

text \<open>The fence entry of the plug, \<open>None\<close> where it cannot be read.\<close>

definition verify_fence_plug_names_the_host ::
  "'b lib \<Rightarrow> json option \<Rightarrow> string \<Rightarrow> string \<Rightarrow> string result" where
  "verify_fence_plug_names_the_host L config plug h =
     (case config of
        Some (JObj p) \<Rightarrow>
          let declared = jget p ''compute_id'' in
          if \<not> py_truthy declared
          then Inr (''fence entry '' @ plug @
                    '' declares no compute_id, so the plug/host binding is unverified'')
          else
            rbind (canonical_uuid_argument (py_str L declared)) (\<lambda>u.
            if u \<noteq> h then Inl (PyException ValueError)
            else Inr (''fence entry '' @ plug @ '' confirms compute '' @ h))
      | _ \<Rightarrow> Inl (PyException ValueError))"

section \<open>The command line\<close>

text \<open>
  The arguments that select what the tool does; the UUIDs among them were checked by the parser.
  The options of the allocator are those of its constructor.
\<close>

record 'p arguments =
  ar_restore_file :: "'p option"
  ar_confirm_frozen :: bool
  ar_bootstrap_empty :: bool
  ar_retire_host_claim :: "string option"
  ar_host_id :: "string option"
  ar_fence_retire :: "string option"
  ar_fence_agent :: "string option"
  ar_fenced_at :: "string option"
  ar_operator :: "string option"
  ar_evidence :: "string option"
  ar_fence_plug :: "string option"
  ar_unverified :: "string option"

definition given :: "string option \<Rightarrow> bool" where
  "given v \<longleftrightarrow> v \<noteq> None \<and> v \<noteq> Some []"

definition retire_requested :: "'p arguments \<Rightarrow> bool" where
  "retire_requested a \<longleftrightarrow>
     ar_fence_retire a = None \<and> (ar_retire_host_claim a \<noteq> None \<or> ar_host_id a \<noteq> None)"

text \<open>\<open>parser.error\<close>: the combinations of arguments that are refused.\<close>

definition usage_error :: "'p arguments \<Rightarrow> bool" where
  "usage_error a \<longleftrightarrow>
     (ar_fence_retire a \<noteq> None \<and>
        (ar_host_id a = None \<or> \<not> given (ar_fence_agent a) \<or> \<not> given (ar_fenced_at a) \<or>
         \<not> given (ar_operator a) \<or> \<not> given (ar_evidence a) \<or>
         given (ar_fence_plug a) = given (ar_unverified a) \<or>
         ar_restore_file a \<noteq> None \<or> ar_retire_host_claim a \<noteq> None)) \<or>
     (ar_bootstrap_empty a \<and> ar_restore_file a \<noteq> None) \<or>
     (ar_bootstrap_empty a \<and> retire_requested a) \<or>
     (if retire_requested a
      then \<not> ar_confirm_frozen a \<or> ar_host_id a = None \<or> ar_restore_file a = None \<or>
           ar_retire_host_claim a = None
      else if ar_restore_file a \<noteq> None \<and> \<not> ar_confirm_frozen a then True
      else if ar_bootstrap_empty a \<and> \<not> ar_confirm_frozen a then True
      else ar_confirm_frozen a \<and> ar_restore_file a = None \<and> \<not> ar_bootstrap_empty a)"

text \<open>
  What surrounds the tool: the parser of restore files, the fence provider's answer and the fence
  entry for a plug.
\<close>

record 'p tool_host =
  th_parse :: "'p \<Rightarrow> json option"
  th_status :: "string \<Rightarrow> (int \<times> string) option"
  th_fence_entry :: "string \<Rightarrow> json option"

definition power_confirmation :: "'b lib \<Rightarrow> 'p tool_host \<Rightarrow> 'p arguments \<Rightarrow> string \<Rightarrow> string result" where
  "power_confirmation L H a h =
     (if given (ar_fence_plug a)
      then
        rbind (verify_host_is_powered_off (th_status H (the (ar_fence_plug a))) (the (ar_fence_plug a))) (\<lambda>off.
        rbind (verify_fence_plug_names_the_host L (th_fence_entry H (the (ar_fence_plug a)))
                 (the (ar_fence_plug a)) h) (\<lambda>names.
        Inr (off @ ''; '' @ names)))
      else Inr (''power state unverified: '' @ the (ar_unverified a)))"

definition tool_action ::
  "'b allocator \<Rightarrow> ('s, 'b) gateway \<Rightarrow> 'p tool_host \<Rightarrow> 'p arguments \<Rightarrow>
     ('s, 'b, assignment list \<times> release_intent list) cprog" where
  "tool_action A G H a =
     (case ar_fence_retire a of
        Some u \<Rightarrow>
          bnd (lift (power_confirmation (al_lib A) H a (the (ar_host_id a)))) (\<lambda>confirmation.
          fence_retire_host_claim A G u (the (ar_host_id a)) (the (ar_fence_agent a)) (the (ar_fenced_at a))
            (the (ar_operator a)) (the (ar_evidence a) @ ''; '' @ confirmation))
      | None \<Rightarrow>
          (case ar_restore_file a of
             None \<Rightarrow>
               bnd (if ar_bootstrap_empty a then bootstrap A G else ret ()) (\<lambda>_.
               bnd (audit_state A G) (\<lambda>(assignments, intents, unused). ret (assignments, intents)))
           | Some path \<Rightarrow>
               bnd (lift (load_restore_document (th_parse H) path)) (\<lambda>document.
               if retire_requested a
               then retire_host_claim A G document (the (ar_retire_host_claim a)) (the (ar_host_id a))
               else restore_registry A G document)))"

text \<open>The exit: a usage error, an error that is printed (status 2), or the document (status 0).\<close>

datatype tool_exit = UsageError | PrintedError | PrintedDocument fields

definition tool_error :: "idmap_error \<Rightarrow> bool" where
  "tool_error e \<longleftrightarrow> allocator_error e \<or> e = PyException ValueError"

definition tool_main ::
  "'b allocator result \<Rightarrow> ('s, 'b) gateway \<Rightarrow> 'p tool_host \<Rightarrow> 'p arguments \<Rightarrow> ('s, 'b, tool_exit) cprog" where
  "tool_main factory G H a =
     (if usage_error a then ret UsageError
      else
        handle tool_error
          (bnd (lift factory) (\<lambda>A.
           bnd (tool_action A G H a) (\<lambda>(assignments, intents).
           bnd (registry_document A G assignments (Some intents)) (\<lambda>output.
           ret (PrintedDocument output)))))
          (\<lambda>_. ret PrintedError))"

end
