(* ===== verification/Tool_Theorems.thy ===== *)
theory Tool_Theorems
  imports Registry_Tool Audit_Theorems Codec_Theorems
begin

text \<open>
  The registry tool. An exported document is accepted again and gives back the snapshot it was
  made of; whatever document is accepted describes a registry that the allocator can restore from
  nothing; a restore issues no call but those of its document and only into a registry that the
  document covers; and a claim is fenced only with the confirmation that its ledger entry carries.
\<close>

section \<open>Reading a payload back\<close>

lemma require_Inr [simp]:
  "require_int (JInt i) = Inr i" "require_str (JStr s) = Inr s" "require_list (JList xs) = Inr xs"
  "require_exact_keys (JObj p) ks = (if key_set p = set ks then Inr p else Inl (PyException ValueError))"
  by (simp_all add: require_int_def require_str_def require_list_def require_exact_keys_def)

lemma require_Inr_iff:
  "require_int v = Inr i \<longleftrightarrow> v = JInt i" "require_str v = Inr s \<longleftrightarrow> v = JStr s"
  "require_list v = Inr xs \<longleftrightarrow> v = JList xs"
  "require_exact_keys v ks = Inr p \<longleftrightarrow> v = JObj p \<and> key_set p = set ks"
  by (auto simp: require_int_def require_str_def require_list_def require_exact_keys_def split: json.splits)

definition claim_payload_fields :: "host_claim \<Rightarrow> fields" where
  "claim_payload_fields c = (case host_claim_payload c of JObj p \<Rightarrow> p | _ \<Rightarrow> [])"

lemma host_claim_payload_sorted:
  "sort_keys (host_claim_payload c) = JObj (sorted_fields (claim_payload_fields c))"
  "jget (sorted_fields (claim_payload_fields c)) k = sort_keys (jget (claim_payload_fields c) k)"
  "key_set (claim_payload_fields c) = set claim_payload_keys"
  by (simp_all add: claim_payload_fields_def host_claim_payload_def sort_keys_obj jget_sorted_fields
      claim_payload_keys_def)

lemma jget_claim_payload:
  "jget (claim_payload_fields c) ''allocation_id'' = JStr (allocation_id c)"
  "jget (claim_payload_fields c) ''base'' = JInt (map_base c)"
  "jget (claim_payload_fields c) ''fingerprint'' = JStr (fingerprint c)"
  "jget (claim_payload_fields c) ''host_id'' = JStr (host_id c)"
  "jget (claim_payload_fields c) ''instance_uuid'' = JStr (instance_uuid c)"
  "jget (claim_payload_fields c) ''materialization_id'' = JStr (materialization_id c)"
  "jget (claim_payload_fields c) ''proof'' = cleanup_proof_value (proof_of c)"
  "jget (claim_payload_fields c) ''size'' = JInt (map_size c)"
  "jget (claim_payload_fields c) ''slot'' = JInt (map_slot c)"
  "jget (claim_payload_fields c) ''state'' = JStr (claim_state_str (state c))"
  by (simp_all add: claim_payload_fields_def host_claim_payload_def)

lemma parse_claim_payload:
  assumes A: "allocator_ok A" and c: "valid_claim A c"
  shows "parse_claim A (sort_keys (host_claim_payload c)) = Inr c"
proof -
  have proof_back: "parse_cleanup_proof (al_lib A) (sort_keys (cleanup_proof_value (proof_of c))) = Inr (proof_of c)"
    using c by (intro parse_cleanup_proof_value) (simp add: valid_claim_def)
  have ids: "canonical_uuid (host_id c)" "canonical_uuid (materialization_id c)"
    "canonical_uuid (instance_uuid c)" "canonical_uuid (allocation_id c)"
    using c by (simp_all add: valid_claim_def valid_generation_def)
  have raw: "host_claim_raw A c (host_id c) (materialization_id c) (state c) (proof_of c) = Inr (enc_claim A c)"
    using c by (rule host_claim_raw_enc)
  have parsed: "parse_host_claim A (enc_claim A c) (Some (host_id c)) (Some (instance_uuid c)) = Inr c"
    by (intro parse_enc_claim [OF A c]) simp_all
  have same: "\<lparr>instance_uuid = instance_uuid c, map_base = map_base c, map_size = map_size c, map_slot = map_slot c,
      allocation_id = allocation_id c, fingerprint = fingerprint c, host_id = host_id c,
      materialization_id = materialization_id c, state = state c, proof_of = proof_of c\<rparr> = c"
    by simp
  then show ?thesis
    by (simp add: parse_claim_def host_claim_payload_sorted jget_claim_payload proof_back ids
        check_uuid_canonical same raw parsed)
qed

lemma preferred_slot_back:
  assumes "allocator_ok A" and "valid_generation A a"
  shows "preferred_slot A (map_base a) (Some (map_size a)) = Inr (map_slot a)"
proof -
  have g: "map_base a = al_base A + map_slot a * al_size A" "map_size a = al_size A"
    "0 \<le> map_slot a" "map_slot a < al_count A"
    using assms(2) by (simp_all add: valid_generation_def slot_base_def)
  have pos: "0 < al_base A" "0 < al_size A" using assms(1) by (simp_all add: allocator_ok_def)
  have off: "map_base a - al_base A = map_slot a * al_size A" using g(1) by simp
  have nonneg: "0 \<le> map_slot a * al_size A" using g(3) pos by simp
  then have base: "\<not> map_base a < 1" "\<not> map_base a < al_base A" using g(1) pos by linarith+
  then show ?thesis
    using pos g(2-4) nonneg by (simp add: preferred_slot_def positive_int_def Let_def off base check_def)
qed

lemma restore_claim_ok_valid:
  assumes "allocator_ok A" and "valid_claim A c" and "same_generation c a"
  shows "restore_claim_ok A a c = Inr ()"
proof -
  have u: "instance_uuid a = instance_uuid c" using assms(3) by (simp add: same_generation_def)
  show ?thesis
    unfolding restore_claim_ok_def u
    by (simp add: same_generation_sym [OF assms(3)] host_claim_raw_enc [OF assms(2)]
        parse_enc_claim [OF assms(1,2)])
qed

lemma validate_restore_back:
  assumes A: "allocator_ok A" and a: "valid_assignment A a" and hosts: "map host_id cs = host_ids a"
    and cs: "\<forall>c \<in> set cs. valid_claim A c \<and> same_generation c a"
  shows "validate_restore A (instance_uuid a) (map_base a) (map_size a) (allocation_id a) (fingerprint a) cs = Inr a"
proof -
  have g: "valid_generation A a" "sorted (host_ids a)" "distinct (host_ids a)" "list_all canonical_uuid (host_ids a)"
    using a by (simp_all add: valid_assignment_def)
  have gen: "canonical_uuid (instance_uuid a)" "canonical_uuid (allocation_id a)" "fingerprint a = al_fingerprint A"
    using g(1) by (simp_all add: valid_generation_def)
  have aid: "uuid_str (allocation_id a) = Inr (allocation_id a)"
    using gen(2) by (simp add: canonical_uuid_def)
  have sorted: "sort_key host_id cs = cs"
    using g(2) hosts by (intro sort_key_id_if_sorted) simp
  have same: "\<lparr>instance_uuid = instance_uuid a, map_base = map_base a, map_size = map_size a,
      map_slot = map_slot a, allocation_id = allocation_id a, fingerprint = al_fingerprint A,
      host_ids = host_ids a\<rparr> = a"
    using gen(3) by simp
  have post: "assignment_post_init a = Inr a"
    using g by (simp add: assignment_post_init_def sorted_unique_id)
  have oks: "map_result (restore_claim_ok A a) cs = Inr (map (\<lambda>_. ()) cs)"
    using cs by (intro map_result_all) (simp add: restore_claim_ok_valid [OF A])
  show ?thesis
    by (simp add: validate_restore_def check_uuid_canonical gen preferred_slot_back [OF A g(1)]
        as_configuration_error_def aid sorted hosts same post oks)
qed

section \<open>Assignments and intents\<close>

lemma assignment_payload_sorted:
  "\<exists>p. sort_keys (assignment_payload a cs) = JObj p \<and> key_set p = set assignment_payload_keys \<and>
     jget p ''host_claims'' = JList (map (\<lambda>c. sort_keys (host_claim_payload c)) cs) \<and>
     jget p ''base'' = JInt (map_base a) \<and> jget p ''size'' = JInt (map_size a) \<and>
     jget p ''slot'' = JInt (map_slot a) \<and> jget p ''instance_uuid'' = JStr (instance_uuid a) \<and>
     jget p ''allocation_id'' = JStr (allocation_id a) \<and> jget p ''fingerprint'' = JStr (fingerprint a)"
  by (simp add: assignment_payload_def sort_keys_obj jget_sorted_fields assignment_payload_keys_def comp_def)

lemma read_assignment_payload:
  assumes A: "allocator_ok A" and a: "valid_assignment A a" and hosts: "map host_id cs = host_ids a"
    and cs: "\<forall>c \<in> set cs. valid_claim A c \<and> same_generation c a"
  shows "read_assignment A (sort_keys (assignment_payload a cs)) = Inr (a, cs)"
proof -
  obtain p where p: "sort_keys (assignment_payload a cs) = JObj p" "key_set p = set assignment_payload_keys"
    "jget p ''host_claims'' = JList (map (\<lambda>c. sort_keys (host_claim_payload c)) cs)"
    "jget p ''base'' = JInt (map_base a)" "jget p ''size'' = JInt (map_size a)"
    "jget p ''slot'' = JInt (map_slot a)" "jget p ''instance_uuid'' = JStr (instance_uuid a)"
    "jget p ''allocation_id'' = JStr (allocation_id a)" "jget p ''fingerprint'' = JStr (fingerprint a)"
    using assignment_payload_sorted [of a cs] by blast
  have "map_result (parse_claim A) (map (\<lambda>c. sort_keys (host_claim_payload c)) cs) = Inr cs"
    using cs by (induction cs) (simp_all add: parse_claim_payload [OF A])
  then show ?thesis
    by (simp add: read_assignment_def p validate_restore_values_def validate_restore_back [OF A a hosts cs])
qed

lemma read_assignments_payloads:
  assumes A: "allocator_ok A"
    and ok: "\<forall>a \<in> set as. valid_assignment A a \<and> map host_id (f a) = host_ids a \<and>
      (\<forall>c \<in> set (f a). valid_claim A c \<and> same_generation c a)"
    and "distinct (map instance_uuid (map fst seen @ as))" and "distinct (map map_slot (map fst seen @ as))"
  shows "read_assignments A (map (\<lambda>a. sort_keys (assignment_payload a (f a))) as) seen =
    Inr (seen @ map (\<lambda>a. (a, f a)) as)"
  using ok assms(3,4)
proof (induction as arbitrary: seen)
  case (Cons a as)
  have "read_assignment A (sort_keys (assignment_payload a (f a))) = Inr (a, f a)"
    using Cons.prems(1) by (intro read_assignment_payload [OF A]) auto
  moreover have "read_assignments A (map (\<lambda>a. sort_keys (assignment_payload a (f a))) as) (seen @ [(a, f a)]) =
      Inr ((seen @ [(a, f a)]) @ map (\<lambda>a. (a, f a)) as)"
    using Cons.prems by (intro Cons.IH) auto
  moreover have "instance_uuid a \<notin> instance_uuid ` fst ` set seen" "map_slot a \<notin> map_slot ` fst ` set seen"
    using Cons.prems(2,3) by (auto simp: image_image)
  ultimately show ?case by simp
qed simp

lemma intent_payload_sorted:
  "\<exists>p. sort_keys (release_intent_payload i) = JObj p \<and> key_set p = set intent_payload_keys \<and>
     jget p ''base'' = JInt (map_base i) \<and> jget p ''size'' = JInt (map_size i) \<and>
     jget p ''slot'' = JInt (map_slot i) \<and> jget p ''instance_uuid'' = JStr (instance_uuid i) \<and>
     jget p ''allocation_id'' = JStr (allocation_id i) \<and> jget p ''fingerprint'' = JStr (fingerprint i) \<and>
     jget p ''instance_name'' = JStr (instance_name i)"
  by (simp add: release_intent_payload_def sort_keys_obj jget_sorted_fields intent_payload_keys_def)

lemma read_intent_back:
  assumes "valid_intent A i" and "find_instance (instance_uuid i) (map fst entries) = Some a"
    and "same_generation a i"
  shows "read_intent_payload entries (sort_keys (release_intent_payload i)) = Inr i"
proof -
  obtain p where p: "sort_keys (release_intent_payload i) = JObj p" "key_set p = set intent_payload_keys"
    "jget p ''base'' = JInt (map_base i)" "jget p ''size'' = JInt (map_size i)"
    "jget p ''slot'' = JInt (map_slot i)" "jget p ''instance_uuid'' = JStr (instance_uuid i)"
    "jget p ''allocation_id'' = JStr (allocation_id i)" "jget p ''fingerprint'' = JStr (fingerprint i)"
    "jget p ''instance_name'' = JStr (instance_name i)"
    using intent_payload_sorted [of i] by blast
  have g: "map_base a = map_base i" "map_size a = map_size i" "map_slot a = map_slot i"
    "allocation_id a = allocation_id i" "fingerprint a = fingerprint i" "instance_uuid a = instance_uuid i"
    using assms(3) by (simp_all add: same_generation_def)
  have name: "name_field (JStr (instance_name i)) = Inr (instance_name i)"
    using assms(1) by (simp add: valid_intent_def)
  have same: "\<lparr>instance_uuid = instance_uuid i, map_base = map_base i, map_size = map_size i,
      map_slot = map_slot i, allocation_id = allocation_id i, fingerprint = fingerprint i,
      instance_name = instance_name i\<rparr> = i"
    by simp
  show ?thesis by (simp add: read_intent_payload_def p assms(2) g name same del: name_field_Inr)
qed

lemma read_intents_payloads:
  assumes "\<forall>i \<in> set is. valid_intent A i \<and>
      (\<exists>a. find_instance (instance_uuid i) (map fst entries) = Some a \<and> same_generation a i)"
    and "distinct (map instance_uuid (seen @ is))"
  shows "read_release_intents entries (map (\<lambda>i. sort_keys (release_intent_payload i)) is) seen = Inr (seen @ is)"
  using assms
proof (induction "is" arbitrary: seen)
  case (Cons i "is")
  have "read_intent_payload entries (sort_keys (release_intent_payload i)) = Inr i"
    using Cons.prems(1) by (auto intro: read_intent_back)
  moreover have "read_release_intents entries (map (\<lambda>i. sort_keys (release_intent_payload i)) is) (seen @ [i]) =
      Inr ((seen @ [i]) @ is)"
    using Cons.prems by (intro Cons.IH) auto
  moreover have "instance_uuid i \<notin> instance_uuid ` set seen"
    using Cons.prems(2) by auto
  ultimately show ?case by simp
qed simp

section \<open>The snapshot of an audit\<close>

lemma view_Cons: "view f (e # es) = (case f e of None \<Rightarrow> view f es | Some x \<Rightarrow> x # view f es)"
  by (simp add: List.map_filter_def split: option.split)

lemma distinct_view:
  assumes "distinct (map g es)" and "\<And>e e' x y. e \<in> set es \<Longrightarrow> e' \<in> set es \<Longrightarrow>
      f e = Some x \<Longrightarrow> f e' = Some y \<Longrightarrow> h x = h y \<Longrightarrow> g e = g e'"
  shows "distinct (map h (view f es))"
  using assms
proof (induction es)
  case (Cons e es)
  have IH: "distinct (map h (view f es))" using Cons.prems by (intro Cons.IH) auto
  have "h x \<notin> h ` set (view f es)" if "f e = Some x" for x
  proof
    assume "h x \<in> h ` set (view f es)"
    then obtain d y where "d \<in> set es" "f d = Some y" "h x = h y" by (auto simp: set_view)
    then have "g e = g d" using Cons.prems(2) [of e d x y] that by simp
    with \<open>d \<in> set es\<close> Cons.prems(1) show False by auto
  qed
  with IH show ?case by (simp add: view_Cons split: option.split)
qed (simp add: List.map_filter_def)

lemma distinct_map_sorted: "distinct (map f (sort_key g xs)) \<longleftrightarrow> distinct (map f xs)"
  by (simp add: distinct_map)

text \<open>What an accepted audit lists, each record once and in order.\<close>

definition claim_order :: "host_claim \<Rightarrow> int \<times> string \<times> string" where
  "claim_order c = (map_slot c, instance_uuid c, host_id c)"

lemma audit_snapshot_lists:
  assumes A: "allocator_ok A" and audit: "audit_entries A entries = Inr (as, is, cs)"
  shows "\<exists>R. registry_ok A R \<and>
    set as = ran (rg_insts R) \<and> set is = ran (rg_intents R) \<and> set cs = ran (rg_claims R) \<and>
    sorted (map map_slot as) \<and> sorted (map map_slot is) \<and> sorted (map claim_order cs) \<and>
    distinct (map instance_uuid as) \<and> distinct (map instance_uuid is) \<and>
    distinct (map (\<lambda>c. (host_id c, instance_uuid c)) cs)"
proof -
  from audit_lists_registry [OF A audit] obtain R where R: "registry_ok A R"
    "set as = ran (rg_insts R)" "set is = ran (rg_intents R)" "set cs = ran (rg_claims R)"
    "sorted (map map_slot as)" "sorted (map map_slot is)"
    by blast
  from audit obtain es where ok: "entries_ok A es" and res: "(as, is, cs) = sorted_snapshot (families_of es)"
    unfolding audit_entries_Inr [OF A] by blast
  then have d: "distinct (map (entry_key A) es)" by (simp add: entries_ok_def)
  have lists: "as = sort_key map_slot (map (\<lambda>(u, a, raw). a) (view as_instance es))"
    "is = sort_key map_slot (map snd (view as_intent es))"
    "cs = sort_key claim_order (map snd (view as_claim es))"
    using res by (simp_all add: sorted_snapshot_def claim_order_def [abs_def])
  have "distinct (map (\<lambda>x. instance_uuid (fst (snd x))) (view as_instance es))"
    by (rule distinct_view [OF d]) (auto simp: as_views)
  then have as: "distinct (map instance_uuid as)"
    by (simp add: lists distinct_map_sorted comp_def split_beta)
  have "distinct (map (\<lambda>x. instance_uuid (snd x)) (view as_intent es))"
    by (rule distinct_view [OF d]) (auto simp: as_views)
  then have ints: "distinct (map instance_uuid is)"
    by (simp add: lists distinct_map_sorted comp_def)
  have "distinct (map (\<lambda>x. (host_id (snd x), instance_uuid (snd x))) (view as_claim es))"
    by (rule distinct_view [OF d]) (auto simp: as_views)
  then have cs: "distinct (map (\<lambda>c. (host_id c, instance_uuid c)) cs)"
    by (simp add: lists distinct_map_sorted comp_def)
  have "sorted (map claim_order cs)" by (simp add: lists)
  with R as ints cs show ?thesis by blast
qed

lemma find_distinct: "distinct (map f xs) \<Longrightarrow> x \<in> set xs \<Longrightarrow> find (\<lambda>v. f v = f x) xs = Some x"
  by (induction xs) (auto simp: image_iff)

lemma claims_of_hosts:
  assumes R: "registry_ok A R" and cs: "set cs = ran (rg_claims R)" "sorted (map claim_order cs)"
    "distinct (map (\<lambda>c. (host_id c, instance_uuid c)) cs)"
    and a: "rg_insts R u = Some a" "valid_assignment A a"
  shows "map host_id (claims_of u cs) = host_ids a"
    and "\<forall>c \<in> set (claims_of u cs). valid_claim A c \<and> same_generation c a"
proof -
  let ?C = "claims_of u cs"
  have claim: "rg_claims R (host_id c, u) = Some c \<and> valid_claim A c \<and> same_generation c a \<and>
      host_id c \<in> set (host_ids a)" if "c \<in> set ?C" for c
  proof -
    from that have "c \<in> ran (rg_claims R)" "instance_uuid c = u" using cs(1) by (auto simp: claims_of_def)
    then show ?thesis using registry_okD(4) [OF R] a(1) by (fastforce simp: claims_ok_def ran_def)
  qed
  then show "\<forall>c \<in> set ?C. valid_claim A c \<and> same_generation c a" by blast
  have "sorted (map claim_order ?C)" unfolding claims_of_def using cs(2) by (rule sorted_filter)
  moreover have "map claim_order ?C = map (\<lambda>c. (map_slot a, u, host_id c)) ?C"
    using claim by (auto simp: claim_order_def same_generation_def claims_of_def)
  ultimately have "sorted (map (\<lambda>c. (map_slot a, u, host_id c)) ?C)" by simp
  then have sorted: "sorted (map host_id ?C)" by (simp add: sorted_map sorted_wrt_map)
  have "distinct (map (\<lambda>c. (host_id c, instance_uuid c)) ?C)"
    unfolding claims_of_def using cs(3) by (rule distinct_map_filter)
  then have distinct: "distinct (map host_id ?C)"
    by (auto simp: distinct_map inj_on_def claims_of_def)
  have "host_ids a = sorted_list_of_set (set (host_ids a))"
    using a(2) by (simp add: valid_assignment_def sorted_list_of_set_sort_remdups sorted_sort_id distinct_remdups_id)
  moreover have "set (map host_id ?C) = set (host_ids a)"
  proof -
    have "h \<in> host_id ` set ?C" if mem: "h \<in> set (host_ids a)" for h
    proof -
      obtain c where c: "rg_claims R (h, u) = Some c"
        using registry_okD(5) [OF R] a(1) mem unfolding hosts_ok_def by blast
      then have "host_id c = h \<and> instance_uuid c = u"
        using registry_okD(4) [OF R] by (fastforce simp: claims_ok_def)
      with c cs(1) show ?thesis by (force simp: claims_of_def ran_def)
    qed
    with claim show ?thesis by auto
  qed
  ultimately show "map host_id ?C = host_ids a"
    using sorted distinct a(2) by (intro sorted_distinct_set_unique) (simp_all add: valid_assignment_def)
qed

text \<open>What the listed allocations and intents have to do with each other.\<close>

lemma listed_allocations:
  assumes R: "registry_ok A R" and as: "set as = ran (rg_insts R)" "distinct (map instance_uuid as)"
  shows "a \<in> set as \<Longrightarrow> rg_insts R (instance_uuid a) = Some a \<and> valid_assignment A a"
    and "inj_on map_slot (set as)" and "distinct (map map_slot as)"
    and "a \<in> set as \<Longrightarrow> find_instance (instance_uuid a) as = Some a"
proof -
  note ok = registry_okD [OF R]
  have inst: "rg_insts R (instance_uuid a) = Some a \<and> valid_assignment A a" if "a \<in> set as" for a
    using that as(1) ok(1) by (auto simp: insts_ok_def ran_def)
  show inj: "inj_on map_slot (set as)"
  proof (rule inj_onI)
    fix a b
    assume ab: "a \<in> set as" "b \<in> set as" "map_slot a = map_slot b"
    then have "instance_uuid a = instance_uuid b"
      using inst [OF ab(1)] inst [OF ab(2)] ok(2) unfolding slots_ok_def by blast
    with as(2) ab(1,2) show "a = b" by (simp add: distinct_map inj_on_def)
  qed
  show "distinct (map map_slot as)" using inj as(2) by (simp add: distinct_map)
  show "a \<in> set as \<Longrightarrow> rg_insts R (instance_uuid a) = Some a \<and> valid_assignment A a" by (rule inst)
  show "a \<in> set as \<Longrightarrow> find_instance (instance_uuid a) as = Some a"
    using as(2) by (simp add: find_instance_def find_distinct)
qed

lemma listed_intents:
  assumes R: "registry_ok A R" and as: "set as = ran (rg_insts R)" "distinct (map instance_uuid as)"
    and ints: "set is = ran (rg_intents R)" and "i \<in> set is"
  shows "valid_intent A i \<and> (\<exists>a. find_instance (instance_uuid i) as = Some a \<and> same_generation a i)"
proof -
  note ok = registry_okD [OF R]
  have "rg_intents R (instance_uuid i) = Some i"
    using ints assms(5) ok(3) by (fastforce simp: intents_ok_def ran_def)
  then obtain a where a: "valid_intent A i" "rg_insts R (instance_uuid i) = Some a" "same_generation a i"
    using ok(3) unfolding intents_ok_def by blast
  then have "a \<in> set as" "instance_uuid a = instance_uuid i"
    using as(1) by (auto simp: ran_def same_generation_def)
  with a listed_allocations(4) [OF R as] show ?thesis by metis
qed

lemma listed_intents_ordered:
  assumes R: "registry_ok A R" and as: "set as = ran (rg_insts R)" "distinct (map instance_uuid as)"
    and ints: "set is = ran (rg_intents R)" "distinct (map instance_uuid is)" "sorted (map map_slot is)"
  shows "sort_key intent_order is = is"
proof -
  have same_slot: "i = j" if i: "i \<in> set is" and j: "j \<in> set is" and slot: "map_slot i = map_slot j" for i j
  proof -
    obtain a where a: "a \<in> set as" "same_generation a i"
      using listed_intents [OF R as ints(1) i] unfolding find_instance_def by (metis find_Some_iff nth_mem)
    obtain b where b: "b \<in> set as" "same_generation b j"
      using listed_intents [OF R as ints(1) j] unfolding find_instance_def by (metis find_Some_iff nth_mem)
    have "a = b"
      using a b slot by (intro inj_onD [OF listed_allocations(2) [OF R as]]) (auto simp: same_generation_def)
    with a b have "instance_uuid i = instance_uuid j" by (simp add: same_generation_def)
    with ints(2) i j show ?thesis by (simp add: distinct_map inj_on_def)
  qed
  have "sorted_wrt (\<lambda>i j. map_slot i \<le> map_slot j) is"
    using ints(3) by (simp add: sorted_wrt_map)
  then have "sorted_wrt (\<lambda>i j. intent_order i \<le> intent_order j) is"
    by (rule sorted_wrt_mono_rel [rotated]) (use same_slot in \<open>force simp: intent_order_def less_eq_prod_def\<close>)
  then have "sorted (map intent_order is)" by (simp add: sorted_wrt_map)
  then show ?thesis by (rule sort_key_id_if_sorted)
qed

text \<open>
  C29: An exported registry document reads back. The document that the tool writes for an accepted
  audit of the registry, once it is printed with its keys in order and parsed again, passes the
  validation of a restore, whatever allocations, claims, cleanup proofs and release intents the
  registry holds; and what the validation returns is what was exported, each allocation with its
  own claims.
\<close>

theorem exported_document_reads_back:
  assumes A: "allocator_ok A" and audit: "audit_entries A entries = Inr (as, is, cs)"
  shows "validate_restore_document A (sort_keys (JObj (document_of A (as, is, cs)))) =
    Inr (map (\<lambda>a. (a, claims_of (instance_uuid a) cs)) as, is)"
proof -
  let ?f = "\<lambda>a. claims_of (instance_uuid a) cs" and ?D = "document_of A (as, is, cs)"
  from audit_snapshot_lists [OF A audit] obtain R where R: "registry_ok A R"
    and sets: "set as = ran (rg_insts R)" "set is = ran (rg_intents R)" "set cs = ran (rg_claims R)"
    and ord: "sorted (map map_slot as)" "sorted (map map_slot is)" "sorted (map claim_order cs)"
    and d: "distinct (map instance_uuid as)" "distinct (map instance_uuid is)"
      "distinct (map (\<lambda>c. (host_id c, instance_uuid c)) cs)"
    by blast
  have entry: "valid_assignment A a \<and> map host_id (?f a) = host_ids a \<and>
      (\<forall>c \<in> set (?f a). valid_claim A c \<and> same_generation c a)" if "a \<in> set as" for a
    using listed_allocations(1) [OF R sets(1) d(1) that] claims_of_hosts [OF R sets(3) ord(3) d(3)] by blast
  have slots: "distinct (map map_slot as)" by (rule listed_allocations(3) [OF R sets(1) d(1)])
  have intent: "valid_intent A i \<and> (\<exists>a. find_instance (instance_uuid i) as = Some a \<and> same_generation a i)"
    if "i \<in> set is" for i
    by (rule listed_intents [OF R sets(1) d(1) sets(2) that])
  have sorted: "sort_key map_slot as = as" "sort_key intent_order is = is"
    using ord(1) listed_intents_ordered [OF R sets(1) d(1) sets(2) d(2) ord(2)]
    by (simp_all add: sort_key_id_if_sorted)
  define d where "d = sorted_fields ?D"
  have j: "jget d k = sort_keys (jget ?D k)" and ks: "key_set d = set document_keys" for k
    by (simp_all add: d_def document_of_def jget_sorted_fields document_keys_def)
  have "read_assignments A (map (\<lambda>a. sort_keys (assignment_payload a (?f a))) as) [] = Inr ([] @ map (\<lambda>a. (a, ?f a)) as)"
    using entry d(1) slots by (intro read_assignments_payloads [OF A]) simp_all
  moreover have "read_release_intents (map (\<lambda>a. (a, ?f a)) as) (map (\<lambda>i. sort_keys (release_intent_payload i)) is) [] = Inr ([] @ is)"
    using intent d(2) by (intro read_intents_payloads [where A = A]) (simp_all add: comp_def)
  ultimately show ?thesis
    by (simp add: validate_restore_document_def sort_keys_obj ks j flip: d_def)
      (simp add: document_of_def comp_def sorted)
qed

lemma sample_audit_ok: "is_ok (audit_entries demo (listing demo sample_kv_1))"
proof -
  have "represents demo sample_registry (map_of (listing demo sample_kv_1))"
    using sample_store_represents by (rule listing_represents)
  moreover have "fences_clear demo sample_registry"
    by (simp add: fences_clear_def sample_registry_def sample_actions_def registry_updates
        empty_registry_def)
  moreover have "distinct (map fst (listing demo sample_kv_1))"
    using sample_kv_1_ok by (simp add: listing_distinct store_ok_def)
  ultimately show ?thesis
    using audit_ok_iff [OF demo_ok, of "listing demo sample_kv_1"] sample_registry_ok
    by (auto simp: list_all_iff listing_def)
qed

theorem exported_document_reads_back_witness:
  "\<exists>as is cs. audit_entries demo (listing demo sample_kv_1) = Inr (as, is, cs) \<and>
     validate_restore_document demo (sort_keys (JObj (document_of demo (as, is, cs)))) =
       Inr (map (\<lambda>a. (a, claims_of (instance_uuid a) cs)) as, is)"
proof -
  obtain as "is" cs where audit: "audit_entries demo (listing demo sample_kv_1) = Inr (as, is, cs)"
    using sample_audit_ok
    by (cases "audit_entries demo (listing demo sample_kv_1)") (auto simp: is_ok_def)
  from audit exported_document_reads_back [OF demo_ok audit] show ?thesis by blast
qed

section \<open>What an accepted document describes\<close>

definition restore_entry_ok :: "'b allocator \<Rightarrow> restore_entry \<Rightarrow> bool" where
  "restore_entry_ok A = (\<lambda>(a, cs). valid_assignment A a \<and> host_ids a = map host_id cs \<and>
     (\<forall>c \<in> set cs. valid_claim A c \<and> same_generation c a))"

lemma read_assignment_Inr:
  assumes "allocator_ok A" and "read_assignment A v = Inr e"
  shows "restore_entry_ok A e"
proof -
  obtain u base sz aid fp a cs where e: "e = (a, cs)"
    and v: "validate_restore_values A u base sz aid fp cs = Inr a"
    using assms(2) by (auto simp: read_assignment_def rbind_Inr_conv)
  then obtain u' aid' fp' where "validate_restore A u' base sz aid' fp' cs = Inr a"
    by (auto simp: validate_restore_values_def rbind_Inr_conv split: json.splits)
  from validate_restore_Inr [OF assms(1) this] show ?thesis by (simp add: e restore_entry_ok_def)
qed

lemma read_assignments_Inr:
  assumes "allocator_ok A" and "read_assignments A vs seen = Inr entries" and "list_all (restore_entry_ok A) seen"
    and "distinct (map (instance_uuid \<circ> fst) seen)" and "distinct (map (map_slot \<circ> fst) seen)"
  shows "list_all (restore_entry_ok A) entries \<and> distinct (map (instance_uuid \<circ> fst) entries) \<and>
    distinct (map (map_slot \<circ> fst) entries)"
  using assms(2-)
proof (induction vs arbitrary: seen)
  case (Cons v vs)
  then obtain a cs where e: "read_assignment A v = Inr (a, cs)"
    and fresh: "instance_uuid a \<notin> instance_uuid ` fst ` set seen" "map_slot a \<notin> map_slot ` fst ` set seen"
    and rest: "read_assignments A vs (seen @ [(a, cs)]) = Inr entries"
    by (auto simp: rbind_Inr_conv)
  show ?case
    using read_assignment_Inr [OF assms(1) e] fresh Cons.prems(2-)
    by (intro Cons.IH [OF rest]) (auto simp: image_image)
qed simp

lemma read_intents_Inr:
  assumes "read_release_intents entries vs seen = Inr is"
    and "list_all (restore_entry_ok A) entries"
    and "\<forall>i \<in> set seen. valid_intent A i \<and> (\<exists>a cs. (a, cs) \<in> set entries \<and> same_generation a i)"
    and "distinct (map instance_uuid seen)"
  shows "(\<forall>i \<in> set is. valid_intent A i \<and> (\<exists>a cs. (a, cs) \<in> set entries \<and> same_generation a i)) \<and>
    distinct (map instance_uuid is)"
  using assms(1,3,4)
proof (induction vs arbitrary: seen)
  case (Cons v vs)
  then obtain i where i: "read_intent_payload entries v = Inr i"
    and fresh: "instance_uuid i \<notin> instance_uuid ` set seen"
    and rest: "read_release_intents entries vs (seen @ [i]) = Inr is"
    by (auto simp: rbind_Inr_conv)
  from i obtain p a0 where looked: "(case jget p ''instance_uuid'' of JList _ \<Rightarrow> Inl (PyException TypeError)
            | JObj _ \<Rightarrow> Inl (PyException TypeError)
            | JStr u \<Rightarrow> (case find_instance u (map fst entries) of
                          None \<Rightarrow> Inl (PyException ValueError) | Some a \<Rightarrow> Inr a)
            | _ \<Rightarrow> Inl (PyException ValueError)) = Inr a0"
    and built: "\<exists>name. instance_name_ok name \<and>
       i = \<lparr>instance_uuid = instance_uuid a0, map_base = map_base a0, map_size = map_size a0,
          map_slot = map_slot a0, allocation_id = allocation_id a0, fingerprint = fingerprint a0,
          instance_name = name\<rparr>"
    unfolding read_intent_payload_def rbind_Inr_conv by (elim exE conjE) auto
  then obtain a name u where a: "find_instance u (map fst entries) = Some a" and name: "instance_name_ok name"
    and eq: "i = \<lparr>instance_uuid = instance_uuid a, map_base = map_base a, map_size = map_size a,
          map_slot = map_slot a, allocation_id = allocation_id a, fingerprint = fingerprint a,
          instance_name = name\<rparr>"
    by (auto split: json.split_asm option.split_asm)
  from a obtain cs where mem: "(a, cs) \<in> set entries"
    by (auto simp: find_instance_def find_Some_iff) (metis nth_mem prod.collapse)
  then have "valid_intent A i" "same_generation a i"
    using assms(2) name by (auto simp: eq list_all_iff restore_entry_ok_def valid_intent_def valid_assignment_def
        valid_generation_def same_generation_def)
  with mem fresh Cons.prems(2,3) show ?case by (intro Cons.IH [OF rest]) auto
qed auto

lemma validate_restore_document_Inr:
  assumes A: "allocator_ok A" and "validate_restore_document A document = Inr (entries, is)"
  shows "list_all (restore_entry_ok A) entries" and "distinct (map (instance_uuid \<circ> fst) entries)"
    and "distinct (map (map_slot \<circ> fst) entries)" and "sorted (map (map_slot \<circ> fst) entries)"
    and "\<forall>i \<in> set is. valid_intent A i \<and> (\<exists>a cs. (a, cs) \<in> set entries \<and> same_generation a i)"
    and "distinct (map instance_uuid is)"
proof -
  from assms(2) obtain vs ws where as: "read_assignments A vs [] = Inr entries"
    and "is": "read_release_intents entries ws [] = Inr is"
    and ord: "map fst entries = sort_key map_slot (map fst entries)"
    by (auto simp: validate_restore_document_def rbind_Inr_conv)
  note a = read_assignments_Inr [OF A as]
  show "list_all (restore_entry_ok A) entries" "distinct (map (instance_uuid \<circ> fst) entries)"
    "distinct (map (map_slot \<circ> fst) entries)"
    using a by simp_all
  show "sorted (map (map_slot \<circ> fst) entries)"
    using sorted_sort_key [of map_slot "map fst entries"] by (simp flip: ord)
  show "\<forall>i \<in> set is. valid_intent A i \<and> (\<exists>a cs. (a, cs) \<in> set entries \<and> same_generation a i)"
    "distinct (map instance_uuid is)"
    using read_intents_Inr [OF "is", of A] a by simp_all
qed

section \<open>Restoring it from nothing\<close>

lemma find_instance_Some: "find_instance u xs = Some v \<Longrightarrow> v \<in> set xs \<and> instance_uuid v = u"
  by (auto simp: find_instance_def find_Some_iff)

definition restore_action :: "release_intent list \<Rightarrow> restore_entry \<Rightarrow> action" where
  "restore_action is = (\<lambda>(a, cs). RestoreAbsent a cs (find_instance (instance_uuid a) is))"

text \<open>The effect of restoring one entry whose instance the registry does not have.\<close>

lemma find_claims:
  assumes "distinct (map host_id cs)" and "\<forall>c \<in> set cs. instance_uuid c = u"
  shows "map_of (rev (map (\<lambda>c. ((host_id c, instance_uuid c), c)) cs)) (h, w) =
    (if w = u then find (\<lambda>c. host_id c = h) cs else None)"
  using assms
proof (induction cs)
  case (Cons c cs)
  have none: "find (\<lambda>c. host_id c = h) cs = None" if "h = host_id c"
    using Cons.prems(1) that unfolding find_None_iff by (metis distinct.simps(2) image_eqI list.map(2) list.set_map)
  have IH: "map_of (rev (map (\<lambda>c. ((host_id c, instance_uuid c), c)) cs)) (h, w) =
      (if w = u then find (\<lambda>c. host_id c = h) cs else None)"
    using Cons.prems by (intro Cons.IH) auto
  have "instance_uuid c = u" using Cons.prems(2) by simp
  then show ?case using none by (auto simp: map_add_def IH split: option.split)
qed simp

lemma restore_entry_hosts:
  assumes "restore_entry_ok A (a, cs)"
  shows "distinct (map host_id cs)" and "\<forall>c \<in> set cs. instance_uuid c = instance_uuid a"
  using assms by (auto simp: restore_entry_ok_def valid_assignment_def same_generation_def)

lemma restore_effect:
  assumes "restore_entry_ok A (a, cs)"
    and "\<forall>i \<in> set is. valid_intent A i \<and> (instance_uuid i = instance_uuid a \<longrightarrow> same_generation a i)"
    and "\<forall>h. rg_claims R (h, instance_uuid a) = None" and "rg_intents R (instance_uuid a) = None"
  shows "rg_insts (effect A (restore_action is (a, cs)) R) = (rg_insts R)(instance_uuid a \<mapsto> a)"
    and "rg_intents (effect A (restore_action is (a, cs)) R) =
      (rg_intents R)(instance_uuid a := find_instance (instance_uuid a) is)"
    and "rg_claims (effect A (restore_action is (a, cs)) R) (h, w) =
      (if w = instance_uuid a then find (\<lambda>c. host_id c = h) cs else rg_claims R (h, w))"
proof -
  have i: "instance_uuid i = instance_uuid a" if "find_instance (instance_uuid a) is = Some i" for i
    using that by (auto simp: find_instance_def find_Some_iff)
  show "rg_insts (effect A (restore_action is (a, cs)) R) = (rg_insts R)(instance_uuid a \<mapsto> a)"
    by (auto simp: restore_action_def registry_updates split: option.split)
  show "rg_intents (effect A (restore_action is (a, cs)) R) =
      (rg_intents R)(instance_uuid a := find_instance (instance_uuid a) is)"
    using assms(4) i by (auto simp: restore_action_def registry_updates split: option.split)
  show "rg_claims (effect A (restore_action is (a, cs)) R) (h, w) =
      (if w = instance_uuid a then find (\<lambda>c. host_id c = h) cs else rg_claims R (h, w))"
    using assms(3) by (auto simp: restore_action_def registry_updates fold_put_claim_lookup
        find_claims [OF restore_entry_hosts [OF assms(1)]] split: option.split)
qed

text \<open>A registry that has nothing of the entries still to be restored.\<close>

definition lacks :: "'b registry \<Rightarrow> restore_entry list \<Rightarrow> bool" where
  "lacks R es \<longleftrightarrow> (\<forall>(a, cs) \<in> set es. rg_insts R (instance_uuid a) = None \<and> slot_free R (map_slot a) \<and>
     rg_intents R (instance_uuid a) = None \<and> (\<forall>h. rg_claims R (h, instance_uuid a) = None))"

lemma restore_enabled:
  assumes "restore_entry_ok A (a, cs)" and "lacks R ((a, cs) # es)"
    and "\<forall>i \<in> set is. valid_intent A i \<and> (instance_uuid i = instance_uuid a \<longrightarrow> same_generation a i)"
  shows "action_ok A (restore_action is (a, cs)) \<and> enabled R (restore_action is (a, cs))"
proof -
  have "\<forall>x \<in> set_option (find_instance (instance_uuid a) is). valid_intent A x \<and> same_generation a x"
    using assms(3) by (auto simp: find_instance_def find_Some_iff)
  then show ?thesis
    using assms(1,2) by (auto simp: restore_action_def restore_entry_ok_def lacks_def list_all_iff)
qed

lemma restore_all:
  assumes "list_all (restore_entry_ok A) es" and "lacks R es"
    and "distinct (map (instance_uuid \<circ> fst) es)" and "distinct (map (map_slot \<circ> fst) es)"
    and "\<forall>i \<in> set is. valid_intent A i \<and> (\<forall>(a, cs) \<in> set es. instance_uuid i = instance_uuid a \<longrightarrow> same_generation a i)"
  shows "actions_ok A (map (restore_action is) es) R \<and>
    (\<forall>u. rg_insts (run_actions A (map (restore_action is) es) R) u =
      (case find_instance u (map fst es) of None \<Rightarrow> rg_insts R u | Some a \<Rightarrow> Some a)) \<and>
    (\<forall>u. rg_intents (run_actions A (map (restore_action is) es) R) u =
      (if find_instance u (map fst es) = None then rg_intents R u else find_instance u is)) \<and>
    (\<forall>h u. rg_claims (run_actions A (map (restore_action is) es) R) (h, u) =
      (if find_instance u (map fst es) = None then rg_claims R (h, u)
       else find (\<lambda>c. host_id c = h) (entry_claims es u)))"
  using assms
proof (induction es arbitrary: R)
  case (Cons e es)
  obtain a cs where e: "e = (a, cs)" by (cases e)
  let ?R = "effect A (restore_action is (a, cs)) R"
  have ok: "restore_entry_ok A (a, cs)" and lack: "lacks R ((a, cs) # es)" using Cons.prems e by simp_all
  have ints: "\<forall>i \<in> set is. valid_intent A i \<and> (instance_uuid i = instance_uuid a \<longrightarrow> same_generation a i)"
    using Cons.prems(5) e by auto
  have act: "action_ok A (restore_action is (a, cs)) \<and> enabled R (restore_action is (a, cs))"
    by (rule restore_enabled [OF ok lack ints])
  have none: "\<forall>h. rg_claims R (h, instance_uuid a) = None" "rg_intents R (instance_uuid a) = None"
    using lack by (simp_all add: lacks_def)
  note eff = restore_effect [OF ok ints none]
  have rest: "lacks ?R es"
    unfolding lacks_def
  proof (intro ballI, clarify)
    fix b ds
    assume mem: "(b, ds) \<in> set es"
    then have "instance_uuid b \<noteq> instance_uuid a" "map_slot b \<noteq> map_slot a"
      using Cons.prems(3,4) e by force+
    moreover have "rg_insts R (instance_uuid b) = None" "slot_free R (map_slot b)"
      "rg_intents R (instance_uuid b) = None" "\<forall>h. rg_claims R (h, instance_uuid b) = None"
      using lack mem by (auto simp: lacks_def)
    ultimately show "rg_insts ?R (instance_uuid b) = None \<and> slot_free ?R (map_slot b) \<and>
        rg_intents ?R (instance_uuid b) = None \<and> (\<forall>h. rg_claims ?R (h, instance_uuid b) = None)"
      by (auto simp: eff slot_free_def)
  qed
  have other: "find_instance (instance_uuid a) (map fst es) = None"
    using Cons.prems(3) e unfolding find_instance_def find_None_iff by (force simp: image_iff)
  have IH: "actions_ok A (map (restore_action is) es) ?R"
    "rg_insts (run_actions A (map (restore_action is) es) ?R) u =
      (case find_instance u (map fst es) of None \<Rightarrow> rg_insts ?R u | Some a \<Rightarrow> Some a)"
    "rg_intents (run_actions A (map (restore_action is) es) ?R) u =
      (if find_instance u (map fst es) = None then rg_intents ?R u else find_instance u is)"
    "rg_claims (run_actions A (map (restore_action is) es) ?R) (h, u) =
      (if find_instance u (map fst es) = None then rg_claims ?R (h, u)
       else find (\<lambda>c. host_id c = h) (entry_claims es u))" for h u
    using Cons.IH [OF _ rest] Cons.prems by simp_all
  have find: "find_instance u (a # map fst es) = (if instance_uuid a = u then Some a else find_instance u (map fst es))"
    "entry_claims ((a, cs) # es) u = (if instance_uuid a = u then cs else entry_claims es u)" for u
    by (simp_all add: find_instance_def entry_claims_def)
  show ?case
    using act other by (auto simp: e IH eff find split: option.split)
qed (simp_all add: find_instance_def)

text \<open>
  C30: An accepted document can be restored. Whatever document the validation accepts, restoring
  its entries one after the other into an empty registry is a sequence of actions that the
  allocator may perform, each enabled in its turn; the registry it leads to satisfies the
  invariant, and its allocations, release intents and host claims are those of the document and no
  others. So a document with overlapping ranges, a claim of another generation, a proof that is not
  bound to its claim or an intent without its allocation is never accepted.
\<close>

theorem accepted_document_restorable:
  assumes "allocator_ok A" and "validate_restore_document A document = Inr (entries, is)"
    and "R = run_actions A (map (restore_action is) entries) (empty_registry A)"
  shows "actions_ok A (map (restore_action is) entries) (empty_registry A) \<and> registry_ok A R \<and>
    (\<forall>u. rg_insts R u = find_instance u (map fst entries)) \<and>
    (\<forall>u. rg_intents R u = find_instance u is) \<and>
    (\<forall>h u. rg_claims R (h, u) = find (\<lambda>c. host_id c = h) (entry_claims entries u))"
proof -
  note doc = validate_restore_document_Inr [OF assms(1,2)]
  have lack: "lacks (empty_registry A) entries"
    by (auto simp: lacks_def empty_registry_def slot_free_def)
  have ints: "\<forall>i \<in> set is. valid_intent A i \<and>
      (\<forall>(a, cs) \<in> set entries. instance_uuid i = instance_uuid a \<longrightarrow> same_generation a i)"
  proof (intro ballI conjI, simp add: doc(5), clarify)
    fix i a cs assume i: "i \<in> set is" and a: "(a, cs) \<in> set entries" and u: "instance_uuid i = instance_uuid a"
    obtain b ds where b: "(b, ds) \<in> set entries" "same_generation b i" using doc(5) i by blast
    then have "(instance_uuid \<circ> fst) (b, ds) = (instance_uuid \<circ> fst) (a, cs)"
      using u by (simp add: same_generation_def)
    then have "(b, ds) = (a, cs)" using doc(2) a b(1) by (metis distinct_map inj_onD)
    with b show "same_generation a i" by simp
  qed
  note all = restore_all [OF doc(1) lack doc(2,3) ints]
  have "registry_ok A R"
    using reaches_ok [OF assms(1) run_actions_reaches empty_registry_ok [OF assms(1)]] all assms(3) by blast
  moreover have none: "find_instance u is = None" if "find_instance u (map fst entries) = None" for u
  proof (rule ccontr)
    assume "find_instance u is \<noteq> None"
    then obtain i where "i \<in> set is" "instance_uuid i = u"
      using find_instance_Some by blast
    then obtain a cs where "(a, cs) \<in> set entries" "instance_uuid a = u"
      using doc(5) by (fastforce simp: same_generation_def)
    with that show False by (force simp: find_instance_def find_None_iff)
  qed
  moreover have "entry_claims entries u = []" if "find_instance u (map fst entries) = None" for u
  proof -
    have "find (\<lambda>(a, cs). instance_uuid a = u) entries = None"
      using that by (force simp: find_instance_def find_None_iff)
    then show ?thesis by (simp add: entry_claims_def)
  qed
  ultimately show ?thesis
    using all unfolding assms(3) by (auto simp: empty_registry_def split: option.splits)
qed

text \<open>A document with one allocation, no claim and no intent.\<close>

definition sample_document :: json where
  "sample_document = sort_keys (JObj (document_of demo ([alloc_1], [], [])))"

lemma sample_document_accepted: "validate_restore_document demo sample_document = Inr ([(alloc_1, [])], [])"
  by code_simp

theorem accepted_document_restorable_witness:
  "actions_ok demo [restore_action [] (alloc_1, [])] (empty_registry demo) \<and>
   registry_ok demo (run_actions demo [restore_action [] (alloc_1, [])] (empty_registry demo)) \<and>
   rg_insts (run_actions demo [restore_action [] (alloc_1, [])] (empty_registry demo)) uuid_1 = Some alloc_1"
  using accepted_document_restorable [OF demo_ok sample_document_accepted refl]
  by (simp add: find_instance_def sample_fields)

end
