(* ===== verification/Tool_Runs.thy ===== *)
theory Tool_Runs
  imports Tool_Theorems Node_Calls
begin

text \<open>
  What the registry tool does to a registry: which calls of the allocator a restore and a
  retirement issue, and what they rest on.
\<close>

section \<open>Calls\<close>

text \<open>The client is where a list of allowed calls takes the client \<open>c0\<close>.\<close>

definition calls_from ::
  "'b allocator \<Rightarrow> ('s, 'b) gateway \<Rightarrow> (call \<Rightarrow> bool) \<Rightarrow> ('s, 'b) client \<Rightarrow> ('s, 'b) client \<Rightarrow> bool" where
  "calls_from A G P c0 c \<longleftrightarrow> (\<exists>calls. list_all P calls \<and> c = run_calls A G calls c0)"

lemma calls_from_start: "calls_from A G P c c"
  unfolding calls_from_def by (intro exI [of _ "[]"]) (simp add: run_calls_def)

lemma calls_from_serve:
  assumes "calls_from A G P c0 c" and "P x"
  shows "calls_from A G P c0 (serve A G x c)"
proof -
  obtain calls where "list_all P calls" "c = run_calls A G calls c0"
    using assms(1) by (auto simp: calls_from_def)
  then show ?thesis
    unfolding calls_from_def using assms(2)
    by (intro exI [of _ "calls @ [x]"]) (simp add: run_calls_def)
qed

lemma one_call:
  assumes "\<And>c. snd (m c) = serve A G x c" and "P x"
  shows "ensures (calls_from A G P c0) m (\<lambda>_. True)"
proof (rule ensuresI)
  fix c r c' assume "calls_from A G P c0 c" "m c = (r, c')"
  then show "calls_from A G P c0 c' \<and> (\<forall>a. r = Inr a \<longrightarrow> True)"
    using assms(1) [of c] calls_from_serve [where x = x and P = P and A = A and G = G and c = c] assms(2) by simp
qed

lemma audit_call: "snd (audit_state A G c) = serve A G CallAudit c"
  by (simp add: audit_state_def audit_def bnd_def ret_def split: prod.split sum.split)

lemmas issue = ensures_keep [OF one_call]

lemma calls_fromI: "ensures (calls_from A G P c) m Q \<Longrightarrow> m c = (r, c') \<Longrightarrow> calls_from A G P c c'"
  unfolding ensures_def using calls_from_start [of A G P c] by blast

section \<open>Restore\<close>

text \<open>The calls that restore the entries of a document.\<close>

definition restore_calls :: "restore_entry list \<Rightarrow> release_intent list \<Rightarrow> call \<Rightarrow> bool" where
  "restore_calls entries is call \<longleftrightarrow>
     (\<exists>a. a \<in> set (map fst entries) \<and>
        call = CallRestore (instance_uuid a) (map_base a) (map_size a) (allocation_id a) (fingerprint a)
          (entry_claims entries (instance_uuid a)) (find_instance (instance_uuid a) is))"

lemma restore_one_calls:
  assumes "a \<in> set (map fst entries)" and "\<And>x. restore_calls entries is x \<Longrightarrow> P x"
  shows "ensures (calls_from A G P c0) (restore_one A G entries is a) (\<lambda>_. True)"
  unfolding restore_one_def
proof (rule issue)
  let ?x = "CallRestore (instance_uuid a) (map_base a) (map_size a) (allocation_id a) (fingerprint a)
      (entry_claims entries (instance_uuid a)) (find_instance (instance_uuid a) is)"
  show "snd (restore A G (instance_uuid a) (map_base a) (map_size a) (allocation_id a) (fingerprint a)
      (entry_claims entries (instance_uuid a)) (find_instance (instance_uuid a) is) c) = serve A G ?x c" for c
    by simp
  show "P ?x" using assms by (auto simp: restore_calls_def)
  show "ensures (calls_from A G P c0) (if r \<noteq> a then raise IntegrityError else ret ()) (\<lambda>_. True)" for r
    by (intro ensures_if ensures_raise ensures_ret) simp
qed

text \<open>What follows once the registry is found within the document.\<close>

lemma restore_entries_run:
  assumes "bnd (for_all (restore_one A G entries is) expected)
      (\<lambda>_. bnd (audit_state A G) (\<lambda>(restored, restored_intents, unused).
        if restored \<noteq> expected \<or> restored_intents \<noteq> is then raise IntegrityError
        else ret (restored, restored_intents))) c = (r, c')"
    and "expected = map fst entries"
  shows "calls_from A G (\<lambda>x. x = CallAudit \<or> restore_calls entries is x) c c'"
    and "r = Inr (found, ints) \<Longrightarrow> found = expected \<and> ints = is \<and>
      (\<exists>claims c1. audit_state A G c1 = (Inr (found, ints, claims), c'))"
proof -
  let ?P = "\<lambda>x. x = CallAudit \<or> restore_calls entries is x"
  show "calls_from A G ?P c c'"
    using assms(1)
    by (rule calls_fromI [rotated])
      (intro ensures_keep [OF ensures_for_all] restore_one_calls issue [where x = CallAudit]
        ensures_prod ensures_if ensures_raise ensures_ret, auto simp: assms(2) audit_call)
  show "r = Inr (found, ints) \<Longrightarrow> found = expected \<and> ints = is \<and>
      (\<exists>claims c1. audit_state A G c1 = (Inr (found, ints, claims), c'))"
    using assms(1) by (auto simp: bnd_def ret_def raise_def split: prod.splits sum.splits if_splits)
qed

text \<open>
  A restore either stops after its bootstrap or its first audit, or that audit lists nothing but
  what the document has and the entries are restored from there.
\<close>

lemma restore_registry_cases:
  assumes "restore_registry A G document c = (r, c')"
  obtains (stopped) calls e where "list_all (\<lambda>x. x \<in> {CallBootstrap, CallAudit}) calls"
      and "c' = run_calls A G calls c" and "r = Inl e"
  | (covered) entries "is" existing intents claims c2
    where "validate_restore_document A document = Inr (entries, is)"
      and "audit_state A G (snd (bootstrap A G c)) = (Inr (existing, intents, claims), c2)"
      and "c2 = run_calls A G [CallBootstrap, CallAudit] c"
      and "within_document existing (map fst entries)" and "within_document intents is"
      and "bnd (for_all (restore_one A G entries is) (map fst entries))
        (\<lambda>_. bnd (audit_state A G) (\<lambda>(restored, restored_intents, unused).
          if restored \<noteq> map fst entries \<or> restored_intents \<noteq> is then raise IntegrityError
          else ret (restored, restored_intents))) c2 = (r, c')"
proof (cases "validate_restore_document A document")
  case (Inl e)
  then have "c' = run_calls A G [] c" "r = Inl e"
    using assms by (simp_all add: restore_registry_def raise_def run_calls_def)
  then show ?thesis by (intro stopped [of "[]"]) simp_all
next
  case (Inr doc)
  obtain entries "is" where doc: "doc = (entries, is)" by (cases doc)
  obtain b c1 where boot: "bootstrap A G c = (b, c1)" by (cases "bootstrap A G c")
  have c1: "c1 = run_calls A G [CallBootstrap] c" using boot by (simp add: run_calls_def)
  obtain s c2 where audit: "audit_state A G c1 = (s, c2)" by (cases "audit_state A G c1")
  have c2: "c2 = run_calls A G [CallBootstrap, CallAudit] c"
    using audit_call [of A G c1] audit c1 by (simp add: run_calls_def)
  note run = assms [unfolded restore_registry_def, unfolded Inr doc]
  consider e where "b = Inl e" | ok e where "b = Inr ok" "s = Inl e"
    | ok existing intents claims where "b = Inr ok" "s = Inr (existing, intents, claims)"
    by (metis prod_cases3 sum.exhaust)
  then show ?thesis
  proof cases
    case 1
    then have "r = Inl e" "c' = c1" using run boot by (simp_all add: Let_def bnd_def lift_def)
    with c1 show ?thesis by (intro stopped [of "[CallBootstrap]"]) simp_all
  next
    case 2
    then have "r = Inl e" "c' = c2" using run boot audit by (simp_all add: Let_def bnd_def lift_def)
    with c2 show ?thesis by (intro stopped [of "[CallBootstrap, CallAudit]"]) simp_all
  next
    case 3
    show ?thesis
    proof (cases "within_document existing (map fst entries) \<and> within_document intents is")
      case False
      with 3 have "r = Inl IntegrityError" "c' = c2"
        using run boot audit by (auto simp: Let_def bnd_def lift_def raise_def)
      with c2 show ?thesis by (intro stopped [of "[CallBootstrap, CallAudit]"]) simp_all
    next
      case True
      with 3 show ?thesis
        using run boot audit c2 Inr doc
        by (intro covered [of entries "is" existing intents claims c2]) (simp_all add: Let_def bnd_def lift_def)
    qed
  qed
qed

text \<open>
  C31: A restore is confined to its document. Whatever the state of the registry and whatever the
  gateway does, the tool issues a bootstrap, audits, and restore calls for entries of the accepted
  document with exactly their claims and intents; it issues a restore call only after an audit that
  listed nothing but allocations and release intents that the document has exactly so; and it
  reports success only with an audit that lists exactly the allocations and intents of the document.
\<close>

theorem restore_confined_to_document:
  assumes "restore_registry A G document c = (r, c')"
  shows "\<exists>calls. c' = run_calls A G calls c \<and>
    (list_all (\<lambda>x. x \<in> {CallBootstrap, CallAudit}) calls \<or>
     (\<exists>entries is existing intents claims c1 rest.
        validate_restore_document A document = Inr (entries, is) \<and>
        audit_state A G (snd (bootstrap A G c)) = (Inr (existing, intents, claims), c1) \<and>
        within_document existing (map fst entries) \<and> within_document intents is \<and>
        calls = [CallBootstrap, CallAudit] @ rest \<and>
        list_all (\<lambda>x. x = CallAudit \<or> restore_calls entries is x) rest)) \<and>
    (\<forall>restored intents. r = Inr (restored, intents) \<longrightarrow>
       (\<exists>entries claims c1. validate_restore_document A document = Inr (entries, intents) \<and>
          restored = map fst entries \<and> audit_state A G c1 = (Inr (restored, intents, claims), c')))"
  using assms
proof (cases rule: restore_registry_cases)
  case (stopped calls e)
  then show ?thesis by (intro exI [of _ calls]) simp
next
  case (covered entries "is" existing intents claims c2)
  note rest = restore_entries_run [OF covered(6) refl]
  from rest(1) obtain calls where calls: "list_all (\<lambda>x. x = CallAudit \<or> restore_calls entries is x) calls"
    "c' = run_calls A G calls c2"
    by (auto simp: calls_from_def)
  have "c' = run_calls A G ([CallBootstrap, CallAudit] @ calls) c"
    using calls(2) covered(3) by (simp only: run_calls_append)
  moreover have "\<forall>restored ints. r = Inr (restored, ints) \<longrightarrow> (\<exists>es claims c1.
      validate_restore_document A document = Inr (es, ints) \<and> restored = map fst es \<and>
      audit_state A G c1 = (Inr (restored, ints, claims), c'))"
    using rest(2) covered(1) by blast
  ultimately show ?thesis
    using covered(1,2,4,5) calls(1) by (intro exI [of _ "[CallBootstrap, CallAudit] @ calls"]) blast
qed

text \<open>A client of the sample fleet at which nothing else happens.\<close>

definition lone_client :: "json kv \<Rightarrow> (json world, json) client" where
  "lone_client kv = (sample_client kv)\<lparr>cl_world := (sample_world kv)\<lparr>w_script := []\<rparr>\<rparr>"

definition bare_document :: json where
  "bare_document = sort_keys (JObj (document_of demo ([], [], [])))"

theorem restore_confined_to_document_witness:
  "\<exists>calls claims c1 c'. restore_registry demo fake_gateway bare_document (lone_client (sample_store [])) =
       (Inr ([], []), c') \<and>
     c' = run_calls demo fake_gateway calls (lone_client (sample_store [])) \<and>
     audit_state demo fake_gateway c1 = (Inr ([], [], claims), c')"
proof -
  let ?run = "restore_registry demo fake_gateway bare_document (lone_client (sample_store []))"
  have "fst ?run = Inr ([], [])" by code_simp
  then obtain c' where run: "?run = (Inr ([], []), c')" by (cases ?run) simp
  from restore_confined_to_document [OF run] obtain calls
    where calls: "c' = run_calls demo fake_gateway calls (lone_client (sample_store []))"
      and done_audit: "\<forall>restored intents. (Inr ([], []) :: (assignment list \<times> release_intent list) result) =
        Inr (restored, intents) \<longrightarrow> (\<exists>entries claims c1.
          validate_restore_document demo bare_document = Inr (entries, intents) \<and> restored = map fst entries \<and>
          audit_state demo fake_gateway c1 = (Inr (restored, intents, claims), c'))"
    by (elim exE conjE) (rule that)
  from done_audit obtain claims c1 where "audit_state demo fake_gateway c1 = (Inr ([], [], claims), c')"
    by blast
  with run calls show ?thesis by (intro exI conjI)
qed

section \<open>Fencing\<close>

lemma power_confirmation_Inr:
  assumes "power_confirmation L H a h = Inr conf" and "ar_fence_plug a = Some plug" and "plug \<noteq> []"
  shows "\<exists>code out entry. th_status H plug = Some (code, out) \<and> code \<in> {0, 2} \<and>
    reported_state out = ''off'' \<and> th_fence_entry H plug = Some (JObj entry) \<and>
    (py_truthy (jget entry ''compute_id'') \<longrightarrow> py_str L (jget entry ''compute_id'') = h)"
proof -
  have "given (ar_fence_plug a)" using assms(2,3) by (simp add: given_def)
  then obtain off names where off: "verify_host_is_powered_off (th_status H plug) plug = Inr off"
    and names: "verify_fence_plug_names_the_host L (th_fence_entry H plug) plug h = Inr names"
    using assms(1,2) by (auto simp: power_confirmation_def rbind_Inr_conv)
  obtain code out where "th_status H plug = Some (code, out)" "code \<in> {0, 2}" "reported_state out = ''off''"
    using off by (auto simp: verify_host_is_powered_off_def split: option.splits if_splits)
  moreover obtain entry where "th_fence_entry H plug = Some (JObj entry)"
    "py_truthy (jget entry ''compute_id'') \<longrightarrow> py_str L (jget entry ''compute_id'') = h"
    using names by (auto simp: verify_fence_plug_names_the_host_def canonical_uuid_argument_def rbind_Inr_conv
        Let_def split: option.splits json.splits if_splits)
  ultimately show ?thesis by blast
qed

text \<open>The calls of a fence retirement.\<close>

definition fence_calls :: "string \<Rightarrow> string \<Rightarrow> (assignment \<Rightarrow> fence_proof) \<Rightarrow> call \<Rightarrow> bool" where
  "fence_calls u h proof_for call \<longleftrightarrow>
     call \<in> {CallGet u, CallAudit} \<or> (\<exists>a. call = CallFence u h (proof_for a) (Some a))"

definition fence_proof_of ::
  "string \<Rightarrow> string \<Rightarrow> string \<Rightarrow> string \<Rightarrow> string \<Rightarrow> string \<Rightarrow> assignment \<Rightarrow> fence_proof" where
  "fence_proof_of u h agent fenced_at operator evidence a =
     \<lparr>f_instance_uuid = u, f_host_id = h, f_allocation_id = allocation_id a, f_fence_agent = agent,
      f_fenced_at = fenced_at, f_operator = operator, f_evidence = evidence\<rparr>"

lemma fence_retire_calls:
  "ensures (calls_from A G (fence_calls u h (fence_proof_of u h agent fenced_at operator evidence)) c0)
     (fence_retire_host_claim A G u h agent fenced_at operator evidence) (\<lambda>_. True)"
  unfolding fence_retire_host_claim_def
proof (rule issue [where x = "CallGet u"])
  fix found
  show "ensures (calls_from A G (fence_calls u h (fence_proof_of u h agent fenced_at operator evidence)) c0)
      (case found of None \<Rightarrow> raise IntegrityError
       | Some a \<Rightarrow> bnd (fence_retire_claim A G u h
            \<lparr>f_instance_uuid = u, f_host_id = h, f_allocation_id = allocation_id a, f_fence_agent = agent,
             f_fenced_at = fenced_at, f_operator = operator, f_evidence = evidence\<rparr> (Some a))
            (\<lambda>_. bnd (audit_state A G) (\<lambda>(assignments, intents, unused). ret (assignments, intents))))
      (\<lambda>_. True)"
  proof (cases found)
    case (Some a)
    show ?thesis
      unfolding Some option.case
      by (rule issue [where x = "CallFence u h (fence_proof_of u h agent fenced_at operator evidence a) (Some a)"])
        (auto simp: fence_proof_of_def fence_calls_def audit_call
          intro!: issue [where x = CallAudit] ensures_prod ensures_ret)
  qed (simp add: ensures_raise)
qed (simp_all add: fence_calls_def)

lemma registry_document_calls:
  "P CallAudit \<Longrightarrow> ensures (calls_from A G P c0) (registry_document A G as is) (\<lambda>_. True)"
  unfolding registry_document_def
  by (rule issue [where x = CallAudit])
    (auto simp: audit_call intro!: ensures_prod ensures_if ensures_raise ensures_ret ensures_option)

lemma tool_main_calls:
  assumes "\<not> usage_error a" and "P CallAudit" and "ensures (calls_from A G P c0) (tool_action A G H a) (\<lambda>_. True)"
  shows "ensures (calls_from A G P c0) (tool_main (Inr A) G H a) (\<lambda>_. True)"
  using assms(1) unfolding tool_main_def
  by (simp, intro ensures_handle ensures_keep [OF assms(3)] ensures_prod
      ensures_keep [OF registry_document_calls] ensures_ret) (simp_all add: assms(2))

lemma fence_usage:
  assumes "\<not> usage_error a" and "ar_fence_retire a = Some u"
  shows "ar_host_id a \<noteq> None \<and> given (ar_fence_agent a) \<and> given (ar_fenced_at a) \<and> given (ar_operator a) \<and>
    given (ar_evidence a) \<and> given (ar_fence_plug a) \<noteq> given (ar_unverified a)"
  using assms by (simp add: usage_error_def)

text \<open>
  C32: A claim is fenced only with the host confirmed off. When the tool is asked to retire the claim
  of a fenced host, then either the confirmation of the power state fails, no call reaches the
  allocator, the registry is as it was and no document is printed; or it succeeds, and the tool issues nothing but
  reads of the allocation, audits, and fence retirements of that host's claim on that instance,
  with a proof that names the host and whose evidence carries the confirmation. Where a plug is
  given, the provider ran, reported that the host is off, and the fence entry names no other
  compute service; where none is given, the operator's statement that the state is unverified is
  what the evidence carries.
\<close>

theorem fence_needs_confirmation:
  assumes "\<not> usage_error a" and "ar_fence_retire a = Some u"
    and "tool_main (Inr A) G H a c = (r, c')"
  shows "(c' = c \<and> (\<forall>d. r \<noteq> Inr (PrintedDocument d)) \<and>
      (\<exists>e. power_confirmation (al_lib A) H a (the (ar_host_id a)) = Inl e)) \<or>
    (\<exists>h agent fenced_at operator evidence conf calls.
      ar_host_id a = Some h \<and> ar_fence_agent a = Some agent \<and> ar_fenced_at a = Some fenced_at \<and>
      ar_operator a = Some operator \<and> ar_evidence a = Some evidence \<and>
      power_confirmation (al_lib A) H a h = Inr conf \<and>
      (if given (ar_fence_plug a)
       then \<exists>plug code out entry. ar_fence_plug a = Some plug \<and>
         th_status H plug = Some (code, out) \<and> code \<in> {0, 2} \<and> reported_state out = ''off'' \<and>
         th_fence_entry H plug = Some (JObj entry) \<and>
         (\<not> py_truthy (jget entry ''compute_id'') \<or> py_str (al_lib A) (jget entry ''compute_id'') = h)
       else \<exists>reason. ar_unverified a = Some reason \<and> reason \<noteq> [] \<and> conf = ''power state unverified: '' @ reason) \<and>
      list_all (fence_calls u h (fence_proof_of u h agent fenced_at operator (evidence @ ''; '' @ conf))) calls \<and>
      c' = run_calls A G calls c)"
proof -
  have set: "ar_host_id a \<noteq> None" "given (ar_fence_agent a)" "given (ar_fenced_at a)" "given (ar_operator a)"
    "given (ar_evidence a)" and one: "given (ar_fence_plug a) \<noteq> given (ar_unverified a)"
    using fence_usage [OF assms(1,2)] by simp_all
  obtain h agent fenced_at operator evidence where args: "ar_host_id a = Some h" "ar_fence_agent a = Some agent"
    "ar_fenced_at a = Some fenced_at" "ar_operator a = Some operator" "ar_evidence a = Some evidence"
    using set unfolding given_def by blast
  show ?thesis
  proof (cases "power_confirmation (al_lib A) H a h")
    case (Inl e)
    then have "tool_action A G H a c = (Inl e, c)"
      using assms(2) args by (simp add: tool_action_def raise_def)
    then have "c' = c \<and> (\<forall>d. r \<noteq> Inr (PrintedDocument d))"
      using assms(1,3) by (auto simp: tool_main_def handle_def bnd_def lift_def ret_def split: if_splits)
    with Inl args show ?thesis by simp
  next
    case (Inr conf)
    let ?F = "fence_calls u h (fence_proof_of u h agent fenced_at operator (evidence @ ''; '' @ conf))"
    have "ensures (calls_from A G ?F c) (tool_action A G H a) (\<lambda>_. True)"
      using assms(2) args Inr by (simp add: tool_action_def fence_retire_calls del: append.simps)
    then have "ensures (calls_from A G ?F c) (tool_main (Inr A) G H a) (\<lambda>_. True)"
      by (intro tool_main_calls [OF assms(1)]) (simp add: fence_calls_def)
    then have "calls_from A G ?F c c'"
      using calls_fromI [where m = "tool_main (Inr A) G H a" and A = A and G = G and P = ?F and c = c] assms(3)
      by blast
    then obtain calls where "list_all ?F calls" "c' = run_calls A G calls c"
      unfolding calls_from_def by blast
    moreover have "if given (ar_fence_plug a)
       then \<exists>plug code out entry. ar_fence_plug a = Some plug \<and>
         th_status H plug = Some (code, out) \<and> code \<in> {0, 2} \<and> reported_state out = ''off'' \<and>
         th_fence_entry H plug = Some (JObj entry) \<and>
         (\<not> py_truthy (jget entry ''compute_id'') \<or> py_str (al_lib A) (jget entry ''compute_id'') = h)
       else \<exists>reason. ar_unverified a = Some reason \<and> reason \<noteq> [] \<and> conf = ''power state unverified: '' @ reason"
    proof (cases "given (ar_fence_plug a)")
      case True
      then obtain plug where plug: "ar_fence_plug a = Some plug" "plug \<noteq> []" by (auto simp: given_def)
      from power_confirmation_Inr [OF Inr plug] plug(1) True show ?thesis by auto
    next
      case False
      then obtain reason where "ar_unverified a = Some reason" "reason \<noteq> []" using one by (auto simp: given_def)
      moreover from this False Inr have "conf = ''power state unverified: '' @ reason"
        by (simp add: power_confirmation_def)
      ultimately show ?thesis using False by simp
    qed
    ultimately show ?thesis using args Inr by blast
  qed
qed

definition sample_arguments :: "string arguments" where
  "sample_arguments =
     \<lparr>ar_restore_file = None, ar_confirm_frozen = False, ar_bootstrap_empty = False,
      ar_retire_host_claim = None, ar_host_id = Some host_1, ar_fence_retire = Some uuid_1,
      ar_fence_agent = Some ''ipmi'', ar_fenced_at = Some ''2026-01-02T03:04:05Z'',
      ar_operator = Some ''op'', ar_evidence = Some ''ticket 7'', ar_fence_plug = Some ''rack3'',
      ar_unverified = None\<rparr>"

definition sample_surroundings :: "string tool_host" where
  "sample_surroundings =
     \<lparr>th_parse = (\<lambda>_. None), th_status = (\<lambda>_. Some (0, ''OFF'')),
      th_fence_entry = (\<lambda>_. Some (JObj [(''compute_id'', JStr host_1)]))\<rparr>"

theorem fence_needs_confirmation_witness:
  "\<exists>conf calls.
     power_confirmation (al_lib demo) sample_surroundings sample_arguments host_1 = Inr conf \<and>
     list_all (fence_calls uuid_1 host_1 (fence_proof_of uuid_1 host_1 ''ipmi'' ''2026-01-02T03:04:05Z'' ''op''
       (''ticket 7'' @ ''; '' @ conf))) calls \<and>
     snd (tool_main (Inr demo) fake_gateway sample_surroundings sample_arguments (lone_client sample_kv_1)) =
       run_calls demo fake_gateway calls (lone_client sample_kv_1)"
proof -
  let ?run = "tool_main (Inr demo) fake_gateway sample_surroundings sample_arguments (lone_client sample_kv_1)"
  have ok: "\<not> usage_error sample_arguments" by code_simp
  have args: "ar_fence_retire sample_arguments = Some uuid_1" "ar_host_id sample_arguments = Some host_1"
    "ar_fence_agent sample_arguments = Some ''ipmi''" "ar_fenced_at sample_arguments = Some ''2026-01-02T03:04:05Z''"
    "ar_operator sample_arguments = Some ''op''" "ar_evidence sample_arguments = Some ''ticket 7''"
    by (simp_all add: sample_arguments_def)
  have "is_ok (power_confirmation (al_lib demo) sample_surroundings sample_arguments host_1)" by code_simp
  then obtain conf where conf: "power_confirmation (al_lib demo) sample_surroundings sample_arguments host_1 = Inr conf"
    by (cases "power_confirmation (al_lib demo) sample_surroundings sample_arguments host_1") (auto simp: is_ok_def)
  obtain r c' where run: "?run = (r, c')" by (cases ?run)
  show ?thesis
    using fence_needs_confirmation [OF ok args(1) run]
    by (simp add: args conf run del: append.simps if_split)
qed

end
