(* ===== verification/Spec2Isabelle.thy ===== *)
theory Spec2Isabelle
  imports Codec_Theorems Audit_Theorems Probe_Theorems Latch_Theorems Storage_Theorems
    Flavor_Theorems Vif_Theorems Inventory_Theorems Lifecycle_Theorems Journal_Theorems
    Migration_Theorems Volume_Theorems Tool_Runs
begin

text \<open>
  The Incus virt driver for OpenStack Nova (src/nova/virt/incus), as far as it has logic of its
  own that can be stated without the services it calls.

  \<^bold>\<open>The program.\<close> Every compute host runs Nova containers in exclusive user namespaces. The ID
  ranges are handed out by a fleet-wide registry in etcd (idmap.py): one record per instance, one
  per slot of the ID space, one per host that may hold data of the instance (a claim), a release
  intent once the instance is deleted, and a ledger of fence proofs for hosts that are gone. A
  range returns to the pool only when nothing of the instance can be left anywhere. The storage
  protocol (storage_protocol.py) gets the proofs of that from the Incus daemon; flavor.py turns a
  flavor and its network and volumes into an Incus profile; vif.py wires the network devices;
  privsep.py runs the few privileged commands.

  \<^bold>\<open>Shared theories.\<close> \<open>Prelude\<close>: results as sums, programs as state passing with exceptions
  (\<open>eprog\<close>), the judgement \<open>ensures\<close> (an invariant kept on every path), strings and decimal
  numerals. \<open>Py_Values\<close>: JSON values and the conversions of Python on them. \<open>Nova_Model\<close>: Nova's
  exceptions, dicts, options, instances, flavors and VIFs.

  \<^bold>\<open>ID-map allocator, src/nova/virt/incus/idmap.py.\<close>
  \<open>Idmap_Records\<close>, \<open>Idmap_Proofs\<close>, \<open>Idmap_Codec\<close>, \<open>Idmap_Claims\<close>, \<open>Idmap_Control\<close> hold the records,
  the cleanup proofs and every stored format; \<open>Etcd_Gateway\<close> the requests, replies, retries and the
  fleet read guard; \<open>Idmap_Audit\<close> and \<open>Idmap_Coordinator\<close> the audit, the probe, the coordinator's
  lease and the integrity latch; \<open>Idmap_Allocator\<close>, \<open>Idmap_Claim_Ops\<close>, \<open>Idmap_Restore\<close> the operations
  on generations and claims. One definition stands for one method and has its name.

  \<open>Registry_Spec\<close> is the abstract specification: a registry as finite maps and the actions an
  allocator may perform on it. \<open>Registry_Invariant\<close> proves the invariant of its reachable states;
  \<open>Etcd_Store\<close> and \<open>Registry_Refinement\<close> relate it to etcd contents: a guarded transaction whose
  compares hold is one action. \<open>Fleet_Gateway\<close> states as a locale what the operations need of a
  gateway, that every call leaves the store representing a reachable registry;
  \<open>Allocator_Safety\<close>, \<open>Coordinator_Safety\<close>, \<open>Operations_Safety\<close>, \<open>Claim_Safety\<close> and \<open>Release_Safety\<close>
  prove one preservation lemma per operation inside it; \<open>Fleet\<close> interprets it with the etcd of the
  unit tests (test_idmap.py), which interleaves an arbitrary script of foreign transactions, lease
  expiries and faults with the calls. The theorems of this file lift that to whole runs.
  \<open>Registry_Views\<close>, \<open>Registry_Properties\<close> and \<open>Sample_Registry\<close> hold the readings of a store and the
  concrete stores of the witnesses. \<open>Audit_Spec\<close> and \<open>Audit_Theorems\<close> show that the audit accepts
  exactly the stores that represent a valid registry; \<open>Probe_Theorems\<close>, \<open>Latch_Theorems\<close>,
  \<open>Search_Theorems\<close> and \<open>Codec_Theorems\<close> treat the probe, the latch, the slot search and key ranges,
  and the codecs and proofs.

  \<^bold>\<open>Storage protocol, src/nova/virt/incus/storage_protocol.py.\<close> \<open>Storage_Protocol\<close> models the client
  over a parameter for the Incus API; \<open>Storage_Theorems\<close> shows which replies are accepted, what
  each operation promises of the attempt it returns, and that a proof found this way is one
  with which the allocator retires the claim.

  \<^bold>\<open>Flavor and network, flavor.py, common.py, vif.py.\<close> \<open>Flavor_Profile\<close> has the filters and
  \<open>to_profile\<close>, \<open>Vif_Wiring\<close> the device names and plug, reassert and unplug over a parameter for
  linux_net and os-vif; \<open>Flavor_Theorems\<close> and \<open>Vif_Theorems\<close> hold their properties.

  \<^bold>\<open>Life of an instance on a compute node, driver.py and manager.py.\<close> \<open>Incus_Inventory\<close> models the
  all-project listing, its indexes and the absence proofs; \<open>Compute_Node\<close> the state of a node (the
  allocator client and the rest of the host), the services it calls, the ID-map stamp of a row and
  the spawn attempt journal; \<open>Spawn_Attempts\<close> the operations on that journal; \<open>Idmap_Driver\<close> the
  stamp, claims, materialization, create barrier, abort, promotion, settlement and retirement in
  the driver; \<open>Idmap_Lifecycle\<close> the manager's reconciliation of claims, failed builds, replay of
  releases and the audit task; \<open>Final_Delete\<close> its \<open>_delete_instance\<close>. \<open>Node_Calls\<close> states
  that an operation changes the client by a list of allocator calls only, \<open>Lifecycle_Policy\<close>
  has the locales of which calls a settlement, a spawn and a periodic task may make, with one
  lemma per operation, and interprets them for every call, for the calls of one host and for reads.
  \<open>Lifecycle_Theorems\<close> concludes that a node keeps the registry's invariant whatever it does,
  that its tasks are confined to its own claims, that instances in use are left alone, the order of
  the barrier and of the final delete, and that every candidate of a task has its turn;
  \<open>Journal_Theorems\<close> and \<open>Inventory_Theorems\<close> treat the journal and the inventory screen.

  \<^bold>\<open>Migrations, driver.py and manager.py.\<close> \<open>Incus_Api\<close> has the requests to Incus with the
  classification of failures, the bounded retry and polling loops and the operations of an
  instance; \<open>Migration_Attempts\<close> the token that fences the creation of a target, from its registration
  to its retirement, and the receive that recovers a lost response; \<open>Storage_Handover\<close> the deletion
  ownership of shared Ceph roots, the convergence of a recovered target and the periodic release
  of abandoned reservations. A client that records its exchanges turns an order of requests into
  a property of a run: \<open>Request_Policy\<close> has the policies (which exchange is allowed after which),
  the judgement that a program obeys one, and the locale of the policies that allow reads, with a
  lemma per operation; \<open>Migration_Theorems\<close> interprets it with one policy per operation, each
  the contract that the code's comments state of the order of its requests.

  \<^bold>\<open>Volume transactions, driver.py.\<close> \<open>Volume_Journal\<close> models the files under which a host keeps the
  evidence of unfinished Cinder operations: the volume journal with its cleaned connection data, the
  attach and detach intents of the compute manager, the rotation of an attachment in a cold
  migration, with their validation, compare-and-set, listings, classification for recovery and the
  pruning of stale temporary files. A host is a map from instances to the files of their directory.
  \<open>Volume_Theorems\<close> shows that the intents of a volume exclude each other over any run of these
  operations, that an intent owns its volume until it is removed, that a rotation only advances and
  ends after at most five steps, that no credential is written, and that pruning removes no record.

  \<^bold>\<open>The registry tool, tools/openstack-incus-idmap-registry.py.\<close> \<open>Registry_Tool\<close> models the
  document of an audited registry and its validation, the restore from a frozen document, the two
  retirements of a host claim, the confirmation that a fenced host is off, and the command line
  with its exit. It calls the operations of the allocator. \<open>Tool_Theorems\<close> shows that an exported
  document is accepted again with the same content, and that an accepted document can be restored
  into an empty registry by enabled actions of the specification, to a registry that satisfies the
  invariant; \<open>Tool_Runs\<close> shows which calls a restore and a fence retirement issue, and on what
  evidence.

  \<^bold>\<open>Parameters.\<close> etcd is a gateway of the model's own, with the fake of the unit tests as its
  instance; SHA-256, the JSON text format and the random tokens are functions of which only
  injectivity, and being hexadecimal, is assumed where a theorem says so; the API
  of Incus, os-vif, linux_net and the file system are records of functions. The checks of urlsplit on
  the host part of an operation's URL are a parameter too.

  \<^bold>\<open>Bounds.\<close> The code's loops are bounded and the model has the same bounds: 64 attempts of a
  compare-and-swap, 16 of an exact read, 3 of a transient gateway error. Running out of them is the
  error the code raises, so no theorem depends on a fuel of the model. The retries of a migration are
  the configured number, at least one. The slot search visits each slot
  of the ID space once.

  \<^bold>\<open>Not modelled.\<close> HTTP, base64, locks, threads and sleeps; log messages; the assertion of the fake
  etcd on unknown leases. Of driver.py and manager.py, which call Incus, Cinder, Glance and Manila in
  nearly every statement, spawn, the connection of volumes, shares, snapshots and the migration
  handlers that call the parts above; of privsep.py the mounts and commands.
\<close>

section \<open>Runs of a fleet\<close>

text \<open>
  C1: Whatever calls an allocator serves, in whatever order, and whatever happens around
  each of them (transactions of other allocators, expired leases, failed calls and lost
  replies), the store goes on representing a registry that is reached from the initial one
  by the allocator's actions and satisfies the registry invariant.
\<close>

theorem fleet_runs_keep_registry:
  assumes "world_ok A R0 (cl_world c)"
  shows "\<exists>R. reaches A R0 R \<and> registry_ok A R \<and>
    represents A R (val (w_kv (cl_world (run_calls A fake_gateway calls c))))"
proof -
  have "world_ok A R0 (cl_world (run_calls A fake_gateway calls c))"
    using assms by (rule run_calls_world)
  then show ?thesis
    unfolding world_ok_def by (blast elim: store_okE)
qed

theorem fleet_runs_keep_registry_witness:
  "\<exists>R. reaches demo (empty_registry demo) R \<and> registry_ok demo R \<and>
    represents demo R (val (w_kv (cl_world (run_calls demo fake_gateway
      [CallInitialize, CallAudit, CallRelease intent_1, CallAllocate uuid_2 None None,
       CallClaim uuid_2 host_1 token_1 None]
      (sample_client sample_kv_1)))))"
  by (rule fleet_runs_keep_registry [OF sample_world_ok [OF sample_kv_1_ok]])

text \<open>
  C2: After any such run, the ID ranges that the store records for two different instances
  are disjoint, and each lies within the 32-bit ID space above 0.
\<close>

theorem fleet_ranges_disjoint:
  assumes "world_ok A R0 (cl_world c)" and "u \<noteq> v"
    and "st = val (w_kv (cl_world (run_calls A fake_gateway calls c)))"
    and "stored_assignment A st u = Some a" and "stored_assignment A st v = Some b"
  shows "{map_base a ..< map_base a + map_size a} \<inter> {map_base b ..< map_base b + map_size b} = {} \<and>
    {map_base a ..< map_base a + map_size a} \<subseteq> {1 ..< 2 ^ 32} \<and> 0 < map_size a"
proof -
  have w: "world_ok A R0 (cl_world (run_calls A fake_gateway calls c))"
    using assms(1) by (rule run_calls_world)
  then have A: "allocator_ok A" by (simp add: world_ok_def)
  from w obtain R where R: "registry_ok A R" "represents A R st"
    unfolding world_ok_def assms(3) by (blast elim: store_okE)
  note ab = assms(4,5) [unfolded stored_views [OF A R]]
  have "valid_assignment A a" using registry_okD(1) [OF R(1)] ab by (auto simp: insts_ok_def)
  with registry_ranges_disjoint [OF A R(1) ab assms(2)] valid_assignment_range [OF A] show ?thesis
    by blast
qed

theorem fleet_ranges_disjoint_witness:
  "{map_base (with_host alloc_1 host_1) ..< map_base (with_host alloc_1 host_1) + map_size (with_host alloc_1 host_1)}
     \<inter> {map_base alloc_2 ..< map_base alloc_2 + map_size alloc_2} = {} \<and>
    {map_base (with_host alloc_1 host_1) ..< map_base (with_host alloc_1 host_1) + map_size (with_host alloc_1 host_1)}
      \<subseteq> {1 ..< 2 ^ 32} \<and> 0 < map_size (with_host alloc_1 host_1)"
  by (rule fleet_ranges_disjoint [OF sample_world_ok [OF sample_kv_1_ok], where calls = "[]"
        and u = uuid_1 and v = uuid_2, OF sample_uuids_distinct(1) refl])
    (simp_all add: run_calls_def sample_views)



text \<open>
  C4: Once an integrity failure is published, no run of calls of any allocator changes the
  namespace again, and the failure record itself stays.
\<close>

theorem published_failure_freezes_fleet:
  assumes "world_ok A R0 (cl_world c)"
    and "val (w_kv (cl_world c)) (audit_failure_key A) = Some f"
    and "key_lease (w_kv (cl_world c)) (audit_failure_key A) = 0"
    and "in_namespace A k \<or> k = audit_failure_key A"
  shows "val (w_kv (cl_world (run_calls A fake_gateway calls c))) k = val (w_kv (cl_world c)) k"
proof -
  let ?kv = "w_kv (cl_world c)"
  have "val ?kv (configuration_key A) \<noteq> None"
    using assms(1) unfolding world_ok_def by (auto elim!: store_okE simp: representsD(1))
  with assms have "world_inv A (frozen A ?kv) (cl_world c)"
    by (simp add: world_ok_def world_inv_def store_ok_def stable_frozen frozen_def)
  then have "frozen A ?kv (w_kv (cl_world (run_calls A fake_gateway calls c)))"
    using run_calls_stable unfolding world_inv_def by blast
  with assms(4) show ?thesis unfolding frozen_def by blast
qed

theorem published_failure_freezes_fleet_witness:
  "val (w_kv (cl_world (run_calls demo fake_gateway
     [CallInitialize, CallRequestRelease uuid_2 ''vm-2'' None, CallRelease intent_1]
     (sample_client failed_kv)))) (instance_key_of demo uuid_1) =
   val failed_kv (instance_key_of demo uuid_1)"
  by (rule published_failure_freezes_fleet [OF sample_world_ok [OF failed_kv_ok], unfolded sample_kv,
        OF failed_kv_failure]) simp

section \<open>Steps of a fleet\<close>











end
